(* ===== verification/Prelude.thy ===== *)
theory Prelude
  imports Main "HOL-Library.Sublist"
begin

section \<open>Shared prelude: the JavaScript run time the sources use\<close>

text \<open>
  The web client is TypeScript: this theory holds the part of the language and of its
  standard library that the modelled sources call, and the generic lemmas about it.

  \<^item> A string is a \<^typ>\<open>string\<close>, read as the UTF-8 bytes of the text: literals beyond ASCII are
    written as their bytes, percent-encoding works on bytes. \<open>trim\<close> and \<open>\s\<close> are modelled on
    the ASCII white space (TAB, LF, VT, FF, CR, space), case mapping on the ASCII letters.
  \<^item> A number that the code only uses as an integer is an \<^typ>\<open>int\<close>, exact as JavaScript's
    doubles are up to \<open>2 ^ 53\<close>; \<open>NaN\<close> is the value \<^const>\<open>None\<close> of an \<^typ>\<open>int option\<close>.
  \<^item> \<open>undefined\<close> and \<open>null\<close> are \<^const>\<open>None\<close>; where the code tells them apart, a datatype does.
  \<^item> A thrown error is the left value of a sum.
\<close>

named_theorems js_simps "evaluation rules of the run-time functions"

named_theorems outcome_iff "inversion rules for results that may be errors"

subsection \<open>Text constants beyond ASCII\<close>

definition em_dash :: string where
  "em_dash = [CHR 0xE2, CHR 0x80, CHR 0x94]"

definition ellipsis :: string where
  "ellipsis = [CHR 0xE2, CHR 0x80, CHR 0xA6]"

definition middle_dot :: string where
  "middle_dot = [CHR 0xC2, CHR 0xB7]"

definition byte_order_mark :: string where
  "byte_order_mark = [CHR 0xEF, CHR 0xBB, CHR 0xBF]"

subsection \<open>Characters\<close>

definition is_ws :: "char \<Rightarrow> bool" where
  "is_ws c \<longleftrightarrow> c \<in> {CHR 0x09, CHR 0x0A, CHR 0x0B, CHR 0x0C, CHR 0x0D, CHR '' ''}"

definition charCode :: "char \<Rightarrow> nat" where
  "charCode c = of_char c"

definition is_digit :: "char \<Rightarrow> bool" where
  "is_digit c \<longleftrightarrow> 48 \<le> charCode c \<and> charCode c \<le> 57"

definition is_lower :: "char \<Rightarrow> bool" where
  "is_lower c \<longleftrightarrow> 97 \<le> charCode c \<and> charCode c \<le> 122"

definition is_upper :: "char \<Rightarrow> bool" where
  "is_upper c \<longleftrightarrow> 65 \<le> charCode c \<and> charCode c \<le> 90"

definition is_alnum :: "char \<Rightarrow> bool" where
  "is_alnum c \<longleftrightarrow> is_digit c \<or> is_lower c \<or> is_upper c"

lemmas char_eval = is_alnum_def is_digit_def is_lower_def is_upper_def charCode_def

definition to_lower :: "char \<Rightarrow> char" where
  "to_lower c = (if is_upper c then char_of (charCode c + 32) else c)"

definition to_upper :: "char \<Rightarrow> char" where
  "to_upper c = (if is_lower c then char_of (charCode c - 32) else c)"

lemma code_less [simp]: "charCode c < 256"
  by (simp add: charCode_def)

lemma char_of_code [simp]: "char_of (charCode c) = c"
  by (simp add: charCode_def)

lemma code_char_of: "charCode (char_of n) = n mod 256"
  by (simp add: charCode_def)

lemma code_inject [simp]: "charCode c = charCode d \<longleftrightarrow> c = d"
  by (metis char_of_code)

lemma is_digit_not_ws: "is_digit c \<Longrightarrow> \<not> is_ws c"
  by (auto simp: is_digit_def is_ws_def charCode_def)

subsection \<open>Strings\<close>

definition toLowerCase :: "string \<Rightarrow> string" where
  "toLowerCase = map to_lower"

definition toUpperCase :: "string \<Rightarrow> string" where
  "toUpperCase = map to_upper"

definition trim :: "string \<Rightarrow> string" where
  "trim s = rev (dropWhile is_ws (rev (dropWhile is_ws s)))"

fun join :: "string \<Rightarrow> string list \<Rightarrow> string" where
  "join sep [] = []"
| "join sep [x] = x"
| "join sep (x # y # zs) = x @ sep @ join sep (y # zs)"

text \<open>\<open>s.split(c)\<close> for a one-character separator: never the empty list.\<close>

fun split_char :: "char \<Rightarrow> string \<Rightarrow> string list" where
  "split_char c [] = [[]]"
| "split_char c (x # xs) =
     (if x = c then [] # split_char c xs
      else (case split_char c xs of [] \<Rightarrow> [[x]] | w # ws \<Rightarrow> (x # w) # ws))"

text \<open>\<open>s.split(/\s+/)\<close>: every maximal run of white space is one separator.\<close>

fun split_ws :: "string \<Rightarrow> string list" where
  "split_ws [] = [[]]"
| "split_ws (x # xs) =
     (if is_ws x
      then (case xs of
              [] \<Rightarrow> [[], []]
            | y # ys \<Rightarrow> (if is_ws y then split_ws xs else [] # split_ws xs))
      else (case split_ws xs of [] \<Rightarrow> [[x]] | w # ws \<Rightarrow> (x # w) # ws))"

fun js_includes :: "string \<Rightarrow> string \<Rightarrow> bool" where
  "js_includes [] p \<longleftrightarrow> p = []"
| "js_includes (x # xs) p \<longleftrightarrow> take (length p) (x # xs) = p \<or> js_includes xs p"

definition startsWith :: "string \<Rightarrow> string \<Rightarrow> bool" where
  "startsWith s p \<longleftrightarrow> take (length p) s = p"

definition replace_char :: "char \<Rightarrow> char \<Rightarrow> string \<Rightarrow> string" where
  "replace_char a b = map (\<lambda>c. if c = a then b else c)"

text \<open>\<open>s.replace(/\s+/g, r)\<close>: each maximal run of white space becomes one \<open>r\<close>.\<close>

fun replace_ws_runs :: "char \<Rightarrow> string \<Rightarrow> string" where
  "replace_ws_runs r [] = []"
| "replace_ws_runs r (x # xs) =
     (if is_ws x
      then (case xs of
              [] \<Rightarrow> [r]
            | y # ys \<Rightarrow> (if is_ws y then replace_ws_runs r xs else r # replace_ws_runs r xs))
      else x # replace_ws_runs r xs)"

definition padStart :: "nat \<Rightarrow> char \<Rightarrow> string \<Rightarrow> string" where
  "padStart n c s = replicate (n - length s) c @ s"

definition padEnd :: "nat \<Rightarrow> char \<Rightarrow> string \<Rightarrow> string" where
  "padEnd n c s = s @ replicate (n - length s) c"

text \<open>The nullish and falsy defaults, \<open>x ?? d\<close> and \<open>s || undefined\<close>.\<close>

abbreviation nullish :: "'a option \<Rightarrow> 'a \<Rightarrow> 'a" where
  "nullish x d \<equiv> case_option d (\<lambda>v. v) x"

definition or_undefined :: "string \<Rightarrow> string option" where
  "or_undefined s = (if s = [] then None else Some s)"

definition truthy :: "string option \<Rightarrow> bool" where
  "truthy x \<longleftrightarrow> x \<noteq> None \<and> x \<noteq> Some []"

lemma truthy_simps [simp, js_simps]:
  "\<not> truthy None" "truthy (Some s) \<longleftrightarrow> s \<noteq> []"
  by (simp_all add: truthy_def)

lemma or_undefined_simps [simp, js_simps]:
  "or_undefined [] = None" "s \<noteq> [] \<Longrightarrow> or_undefined s = Some s"
  by (simp_all add: or_undefined_def)

lemma or_undefined_eq_Some [outcome_iff]: "or_undefined s = Some t \<longleftrightarrow> s = t \<and> t \<noteq> []"
  by (auto simp: or_undefined_def)

lemma or_undefined_truthy: "or_undefined s = Some t \<Longrightarrow> truthy (Some t)"
  by (simp add: or_undefined_eq_Some)

subsubsection \<open>Trimming\<close>

lemma trim_Nil [simp]: "trim [] = []"
  by (simp add: trim_def)

lemma trim_id: "s = [] \<or> \<not> is_ws (hd s) \<and> \<not> is_ws (last s) \<Longrightarrow> trim s = s"
proof (cases "s = []")
  case False
  assume "s = [] \<or> \<not> is_ws (hd s) \<and> \<not> is_ws (last s)"
  with False have "dropWhile is_ws s = s" and "dropWhile is_ws (rev s) = rev s"
    by (simp_all add: dropWhile_eq_self_iff hd_rev)
  then show ?thesis by (simp add: trim_def)
qed simp

lemma dropWhile_hd: "dropWhile P xs \<noteq> [] \<Longrightarrow> \<not> P (hd (dropWhile P xs))"
  by (rule hd_dropWhile)

lemma rev_dropWhile_rev_last:
  "rev (dropWhile P (rev xs)) \<noteq> [] \<Longrightarrow> \<not> P (last (rev (dropWhile P (rev xs))))"
  by (simp add: last_rev hd_dropWhile)

lemma rev_dropWhile_rev_prefix: "prefix (rev (dropWhile P (rev xs))) xs"
proof -
  have "suffix (dropWhile P (rev xs)) (rev xs)"
    by (rule suffix_dropWhile)
  then show ?thesis by (simp add: suffix_to_prefix)
qed

lemma trim_hd: "trim s \<noteq> [] \<Longrightarrow> \<not> is_ws (hd (trim s))"
proof -
  assume ne: "trim s \<noteq> []"
  have "prefix (trim s) (dropWhile is_ws s)"
    unfolding trim_def by (rule rev_dropWhile_rev_prefix)
  with ne have ne': "dropWhile is_ws s \<noteq> []" and eq: "hd (trim s) = hd (dropWhile is_ws s)"
    by (auto simp add: prefix_def simp del: dropWhile_eq_Nil_conv)
  from ne' show ?thesis unfolding eq by (rule hd_dropWhile)
qed

lemma trim_last: "trim s \<noteq> [] \<Longrightarrow> \<not> is_ws (last (trim s))"
  unfolding trim_def by (rule rev_dropWhile_rev_last)

lemma trim_trim [simp]: "trim (trim s) = trim s"
  by (rule trim_id) (auto dest: trim_hd trim_last)

lemma trim_no_ws: "\<forall>c \<in> set s. \<not> is_ws c \<Longrightarrow> trim s = s"
  by (rule trim_id) (metis hd_in_set last_in_set)

lemma trim_set: "set (trim s) \<subseteq> set s"
proof -
  have "set (trim s) \<subseteq> set (dropWhile is_ws s)"
    by (metis rev_dropWhile_rev_prefix set_mono_prefix trim_def)
  also have "\<dots> \<subseteq> set s"
    by (auto dest: set_dropWhileD)
  finally show ?thesis .
qed

lemma trim_eq_Nil_iff: "trim s = [] \<longleftrightarrow> (\<forall>c \<in> set s. is_ws c)"
proof
  assume "trim s = []"
  then have "\<forall>c \<in> set (dropWhile is_ws s). is_ws c"
    unfolding trim_def by (simp only: rev_is_Nil_conv dropWhile_eq_Nil_conv set_rev)
  then have "dropWhile is_ws s = []"
    using hd_dropWhile hd_in_set by blast
  then show "\<forall>c \<in> set s. is_ws c"
    by (simp only: dropWhile_eq_Nil_conv)
next
  assume "\<forall>c \<in> set s. is_ws c"
  then have "dropWhile is_ws s = []" by (simp only: dropWhile_eq_Nil_conv)
  then show "trim s = []" unfolding trim_def by (simp only: rev.simps dropWhile.simps)
qed

subsubsection \<open>Splitting and joining\<close>

lemma split_char_not_Nil [simp]: "split_char c s \<noteq> []"
  by (cases s) (auto split: list.splits)

lemma split_ws_not_Nil [simp]: "split_ws s \<noteq> []"
proof (induction s)
  case (Cons x xs)
  then show ?case by (cases xs; cases "split_ws xs") auto
qed simp

lemma split_char_free: "c \<notin> set s \<Longrightarrow> split_char c s = [s]"
  by (induction s) auto

lemma split_char_append:
  "c \<notin> set w \<Longrightarrow> split_char c (w @ c # s) = w # split_char c s"
  by (induction w) auto

lemma split_char_join:
  assumes "ws \<noteq> []" and "\<forall>w \<in> set ws. c \<notin> set w"
  shows "split_char c (join [c] ws) = ws"
  using assms
proof (induction ws rule: induct_list012)
  case (3 x y zs)
  then have "split_char c (join [c] (y # zs)) = y # zs" by simp
  with "3.prems" show ?case by (simp add: split_char_append)
qed (simp_all add: split_char_free)

lemma join_split_char: "join [c] (split_char c s) = s"
proof (induction s)
  case (Cons x xs)
  obtain w ws where w: "split_char c xs = w # ws"
    by (cases "split_char c xs") simp_all
  with Cons.IH show ?case by (cases ws) auto
qed simp

lemma split_char_free_parts: "w \<in> set (split_char c s) \<Longrightarrow> c \<notin> set w"
proof (induction s arbitrary: w)
  case (Cons x xs)
  obtain v vs where "split_char c xs = v # vs"
    by (cases "split_char c xs") simp_all
  with Cons show ?case by (auto split: if_splits)
qed simp

lemma split_ws_free: "\<forall>c \<in> set s. \<not> is_ws c \<Longrightarrow> split_ws s = [s]"
  by (induction s) auto

lemma split_ws_append:
  assumes "\<forall>c \<in> set w. \<not> is_ws c" and "is_ws b" and "s \<noteq> []" and "\<not> is_ws (hd s)"
  shows "split_ws (w @ b # s) = w # split_ws s"
  using assms by (induction w) (auto split: list.splits)

definition word :: "string \<Rightarrow> bool" where
  "word w \<longleftrightarrow> w \<noteq> [] \<and> (\<forall>c \<in> set w. \<not> is_ws c)"

lemma join_hd: "word x \<Longrightarrow> join sep (x # xs) \<noteq> [] \<and> hd (join sep (x # xs)) = hd x"
  by (cases xs) (auto simp: word_def)

lemma join_last: "\<lbrakk>ws \<noteq> []; \<forall>w \<in> set ws. word w\<rbrakk> \<Longrightarrow> last (join sep ws) = last (last ws)"
proof (induction ws rule: induct_list012)
  case (3 x y zs)
  then have "join sep (y # zs) \<noteq> []" using join_hd by simp
  with 3 show ?case by simp
qed simp_all

lemma split_ws_join:
  assumes "ws \<noteq> []" and "\<forall>w \<in> set ws. word w" and "is_ws b"
  shows "split_ws (join [b] ws) = ws"
  using assms(1,2)
proof (induction ws rule: induct_list012)
  case (3 x y zs)
  have y: "join [b] (y # zs) \<noteq> [] \<and> \<not> is_ws (hd (join [b] (y # zs)))"
    using "3.prems" join_hd [of y "[b]" zs] by (auto simp: word_def)
  have "split_ws (x @ b # join [b] (y # zs)) = x # split_ws (join [b] (y # zs))"
    by (rule split_ws_append) (use y assms(3) "3.prems" in \<open>auto simp: word_def\<close>)
  with 3 show ?case by simp
qed (simp_all add: split_ws_free word_def)

lemma trim_join_words:
  assumes "ws \<noteq> []" and "\<forall>w \<in> set ws. word w"
  shows "trim (join sep ws) = join sep ws"
proof (rule trim_id, rule disjI2)
  obtain x xs where ws: "ws = x # xs" using assms(1) by (cases ws) auto
  have "hd (join sep ws) \<in> set x" and "\<forall>c \<in> set x. \<not> is_ws c"
    using join_hd [of x sep xs] assms(2) ws by (auto simp: word_def)
  moreover have "last (join sep ws) \<in> set (last ws)" and "\<forall>c \<in> set (last ws). \<not> is_ws c"
    using join_last [OF assms] assms by (auto simp: word_def)
  ultimately show "\<not> is_ws (hd (join sep ws)) \<and> \<not> is_ws (last (join sep ws))" by blast
qed

end
