(* ===== verification/JsNumbers.thy ===== *)
theory JsNumbers
  imports Prelude
begin

section \<open>Numbers: printing, \<open>parseInt\<close>, hexadecimal, int32 shifts\<close>

text \<open>
  \<open>String(n)\<close> and \<open>n.toString(16)\<close> on integers, \<open>parseInt\<close> with and without a radix (optional
  white space and sign, the longest prefix of digits, \<open>NaN\<close> when there is none, the \<open>0x\<close>
  prefix), and the two directions of the print/parse round trip that the component proofs use.
\<close>

subsection \<open>Digits\<close>

definition digit_char :: "nat \<Rightarrow> char" where
  "digit_char n = (if n < 10 then char_of (48 + n) else char_of (87 + n))"

definition digit_val :: "nat \<Rightarrow> char \<Rightarrow> nat option" where
  "digit_val r c =
     (let v = (if is_digit c then charCode c - 48
               else if 97 \<le> charCode c \<and> charCode c \<le> 122 then charCode c - 87
               else if 65 \<le> charCode c \<and> charCode c \<le> 90 then charCode c - 55
               else 99)
      in if v < r then Some v else None)"

lemma charCode_digit_char: "n < 36 \<Longrightarrow> charCode (digit_char n) = (if n < 10 then 48 + n else 87 + n)"
  by (simp add: digit_char_def code_char_of)

lemma digit_val_digit_char [simp]: "n < r \<Longrightarrow> r \<le> 36 \<Longrightarrow> digit_val r (digit_char n) = Some n"
  by (auto simp: digit_val_def charCode_digit_char is_digit_def)

lemma digit_val_bound: "digit_val r c = Some v \<Longrightarrow> v < r"
  by (auto simp: digit_val_def Let_def split: if_splits)

lemma digit_val_decimal: "digit_val 10 c \<noteq> None \<longleftrightarrow> is_digit c"
  by (auto simp: digit_val_def Let_def is_digit_def)

lemma digit_val_not_ws: "r \<le> 36 \<Longrightarrow> digit_val r c = Some v \<Longrightarrow> \<not> is_ws c"
  by (auto simp: digit_val_def Let_def is_ws_def is_digit_def charCode_def split: if_splits)

lemma digit_char_ascii:
  "n < 36 \<Longrightarrow> is_digit (digit_char n) \<or> is_lower (digit_char n)"
  by (auto simp: is_digit_def is_lower_def charCode_digit_char)

lemma digit_char_is_digit: "n < 10 \<Longrightarrow> is_digit (digit_char n)"
  by (simp add: is_digit_def charCode_digit_char)

subsection \<open>Printing\<close>

fun show_radix :: "nat \<Rightarrow> nat \<Rightarrow> string" where
  "show_radix r n =
     (if r < 2 \<or> n < r then [digit_char n] else show_radix r (n div r) @ [digit_char (n mod r)])"

declare show_radix.simps [simp del]

abbreviation show_nat :: "nat \<Rightarrow> string" where
  "show_nat \<equiv> show_radix 10"

definition show_int :: "int \<Rightarrow> string" where
  "show_int n = (if n < 0 then CHR ''-'' # show_nat (nat (- n)) else show_nat (nat n))"

lemma show_radix_not_Nil [simp]: "show_radix r n \<noteq> []"
  by (subst show_radix.simps) simp

lemma show_radix_small: "n < r \<Longrightarrow> show_radix r n = [digit_char n]"
  by (subst show_radix.simps) simp

lemma show_one: "show_int 1 = ''1''"
  by (simp add: show_int_def show_radix_small digit_char_def char_of_eq_iff)

lemma show_radix_digits:
  assumes "2 \<le> r" and "r \<le> 36" and "c \<in> set (show_radix r n)"
  shows "\<exists>v < r. c = digit_char v"
  using assms
proof (induction r n rule: show_radix.induct)
  case (1 r n)
  show ?case
  proof (cases "n < r")
    case True
    with "1.prems" show ?thesis by (auto simp: show_radix_small)
  next
    case False
    have "c \<in> set (show_radix r (n div r)) \<or> c = digit_char (n mod r)"
      using "1.prems"(3) False "1.prems"(1) by (subst (asm) show_radix.simps) auto
    moreover have "n mod r < r" using "1.prems"(1) by simp
    moreover have "c \<in> set (show_radix r (n div r)) \<Longrightarrow> ?thesis"
      using "1.IH" "1.prems"(1,2) False by simp
    ultimately show ?thesis by auto
  qed
qed

lemma show_nat_digits: "c \<in> set (show_nat n) \<Longrightarrow> is_digit c"
  using show_radix_digits [of 10 c n] digit_char_is_digit by auto

lemma show_radix_hd_zero: "\<lbrakk>2 \<le> r; r \<le> 36; hd (show_radix r n) = CHR ''0''\<rbrakk> \<Longrightarrow> n = 0"
proof (induction r n rule: show_radix.induct)
  case (1 r n)
  show ?case
  proof (cases "n < r")
    case True
    with "1.prems" have "charCode (digit_char n) = charCode (CHR ''0'')"
      by (simp add: show_radix_small)
    moreover have "charCode (CHR ''0'') = 48" by (simp add: charCode_def)
    ultimately show ?thesis using True "1.prems"(2) by (simp add: charCode_digit_char split: if_splits)
  next
    case False
    then have "show_radix r n = show_radix r (n div r) @ [digit_char (n mod r)]"
      using "1.prems"(1) by (subst show_radix.simps) simp
    with "1.prems" have "hd (show_radix r (n div r)) = CHR ''0''" by simp
    with "1.IH" "1.prems" False have "n div r = 0" by simp
    with False "1.prems"(1) show ?thesis by (simp add: div_eq_0_iff)
  qed
qed

lemma word_show_int: "word (show_int n)"
  unfolding word_def show_int_def
  using show_nat_digits is_digit_not_ws by (auto simp: is_ws_def is_digit_def)

lemma show_int_chars: "c \<in> set (show_int n) \<Longrightarrow> is_digit c \<or> c = CHR ''-''"
  by (auto simp: show_int_def dest: show_nat_digits split: if_splits)

subsection \<open>Reading\<close>

fun read_radix :: "nat \<Rightarrow> nat \<Rightarrow> string \<Rightarrow> nat" where
  "read_radix r acc [] = acc"
| "read_radix r acc (c # cs) =
     (case digit_val r c of None \<Rightarrow> acc | Some v \<Rightarrow> read_radix r (acc * r + v) cs)"

definition read_unsigned :: "nat \<Rightarrow> string \<Rightarrow> nat option" where
  "read_unsigned r s =
     (case s of [] \<Rightarrow> None
      | c # cs \<Rightarrow> (if digit_val r c = None then None else Some (read_radix r 0 s)))"

text \<open>
  \<open>parseInt(s)\<close> is \<open>parseInt None s\<close>, \<open>parseInt(s, 10)\<close> is \<open>parseInt (Some 10) s\<close>. With no radix or
  radix 16, a prefix \<open>0x\<close> selects base 16 and is skipped.
\<close>

definition parse_magnitude :: "nat option \<Rightarrow> string \<Rightarrow> nat option" where
  "parse_magnitude radix u =
     (if (radix = None \<or> radix = Some 16) \<and> take 2 u \<in> {''0x'', ''0X''}
      then read_unsigned 16 (drop 2 u)
      else read_unsigned (nullish radix 10) u)"

definition parseInt :: "nat option \<Rightarrow> string \<Rightarrow> int option" where
  "parseInt radix s =
     (case dropWhile is_ws s of
        [] \<Rightarrow> None
      | c # cs \<Rightarrow>
          (if c = CHR ''-'' then map_option (\<lambda>n. - int n) (parse_magnitude radix cs)
           else if c = CHR ''+'' then map_option int (parse_magnitude radix cs)
           else map_option int (parse_magnitude radix (c # cs))))"

lemma read_radix_append:
  "\<forall>c \<in> set xs. digit_val r c \<noteq> None \<Longrightarrow> read_radix r acc (xs @ ys) = read_radix r (read_radix r acc xs) ys"
  by (induction xs arbitrary: acc) auto

lemma read_show_radix: "\<lbrakk>2 \<le> r; r \<le> 36\<rbrakk> \<Longrightarrow> read_radix r 0 (show_radix r n) = n"
proof (induction r n rule: show_radix.induct)
  case (1 r n)
  show ?case
  proof (cases "n < r")
    case True
    with "1.prems" show ?thesis by (simp add: show_radix_small)
  next
    case False
    have eq: "show_radix r n = show_radix r (n div r) @ [digit_char (n mod r)]"
      using False "1.prems"(1) by (subst show_radix.simps) simp
    have digits: "\<forall>c \<in> set (show_radix r (n div r)). digit_val r c \<noteq> None"
      using show_radix_digits [OF "1.prems"] "1.prems"(2) by fastforce
    have "read_radix r 0 (show_radix r (n div r)) = n div r"
      using "1.IH" "1.prems" False by simp
    with "1.prems" show ?thesis
      by (simp add: eq read_radix_append [OF digits])
  qed
qed

lemma read_unsigned_show:
  assumes "2 \<le> r" and "r \<le> 36"
  shows "read_unsigned r (show_radix r n) = Some n"
proof (cases "show_radix r n")
  case (Cons c cs)
  then obtain v where "v < r" "c = digit_char v"
    using show_radix_digits [OF assms, of c n] by auto
  then have "digit_val r c = Some v" using assms by simp
  then show ?thesis using Cons read_show_radix [OF assms, of n] by (simp add: read_unsigned_def)
qed simp

lemma show_nat_not_hexed: "take 2 (show_nat n) \<noteq> CHR ''0'' # x # []  \<or> is_digit x"
proof (cases "show_nat n")
  case (Cons c cs)
  show ?thesis
  proof (cases cs)
    case (Cons d ds)
    then have "is_digit d" using \<open>show_nat n = c # cs\<close> show_nat_digits [of d n] by simp
    then show ?thesis using \<open>show_nat n = c # cs\<close> Cons by auto
  qed (use \<open>show_nat n = c # cs\<close> in simp)
qed simp

lemma not_digit_chars [simp, js_simps]:
  "\<not> is_digit CHR ''x''" "\<not> is_digit CHR ''X''" "\<not> is_digit CHR ''-''" "\<not> is_digit CHR ''+''"
  "\<not> is_digit CHR ''*''" "\<not> is_digit CHR '',''" "\<not> is_digit CHR '' ''" "\<not> is_digit CHR ''.''"
  by (simp_all add: is_digit_def charCode_def)

lemma parse_magnitude_show_nat:
  assumes "radix = None \<or> radix = Some 10"
  shows "parse_magnitude radix (show_nat n) = Some n"
proof -
  have nohex: "take 2 (show_nat n) \<notin> {''0x'', ''0X''}"
    using show_nat_not_hexed [of n "CHR ''x''"] show_nat_not_hexed [of n "CHR ''X''"] by auto
  have "nullish radix 10 = 10" using assms by auto
  with nohex show ?thesis
    unfolding parse_magnitude_def using read_unsigned_show [of 10 n] by simp
qed

lemma parseInt_show_nat:
  assumes "radix = None \<or> radix = Some 10"
  shows "parseInt radix (show_nat n) = Some (int n)"
proof -
  obtain c cs where s: "show_nat n = c # cs"
    by (cases "show_nat n") simp_all
  have d: "is_digit c" using s show_nat_digits [of c n] by simp
  then have nosign: "c \<noteq> CHR ''-''" "c \<noteq> CHR ''+''" "\<not> is_ws c"
    by (auto simp: is_digit_not_ws)
  show ?thesis
    using parse_magnitude_show_nat [OF assms, of n] nosign s by (simp add: parseInt_def)
qed

lemma parseInt_show_int:
  assumes "radix = None \<or> radix = Some 10"
  shows "parseInt radix (show_int n) = Some n"
proof (cases "n < 0")
  case True
  then show ?thesis
    using parse_magnitude_show_nat [OF assms, of "nat (- n)"]
    by (simp add: parseInt_def show_int_def is_ws_def)
next
  case False
  then show ?thesis using parseInt_show_nat [OF assms, of "nat n"] by (simp add: show_int_def)
qed

lemma show_int_inject [simp]: "show_int m = show_int n \<longleftrightarrow> m = n"
  using parseInt_show_int [of None] by (metis option.inject)

subsection \<open>Bytes in hexadecimal\<close>

definition byte_hex :: "nat \<Rightarrow> string" where
  "byte_hex b = padStart 2 (CHR ''0'') (show_radix 16 b)"

lemma byte_hex_digits:
  "b < 256 \<Longrightarrow> byte_hex b = [digit_char (b div 16), digit_char (b mod 16)]"
proof -
  assume b: "b < 256"
  show ?thesis
  proof (cases "b < 16")
    case True
    moreover have "digit_char 0 = CHR ''0''" by code_simp
    ultimately show ?thesis by (simp add: byte_hex_def padStart_def show_radix_small)
  next
    case False
    then have "show_radix 16 b = show_radix 16 (b div 16) @ [digit_char (b mod 16)]"
      by (subst show_radix.simps) simp
    moreover have "b div 16 < 16" using b by simp
    ultimately show ?thesis
      by (simp add: byte_hex_def padStart_def show_radix_small)
  qed
qed

lemma length_byte_hex [simp]: "b < 256 \<Longrightarrow> length (byte_hex b) = 2"
  by (simp add: byte_hex_digits)

lemma digit_val_to_upper: "digit_val r (to_upper c) = digit_val r c"
proof (cases "is_lower c")
  case True
  have "charCode c - 32 < 256" using code_less [of c] by linarith
  with True have "charCode (to_upper c) = charCode c - 32"
    by (simp add: to_upper_def code_char_of)
  moreover have "65 \<le> charCode c - 32 \<and> charCode c - 32 \<le> 90 \<and> charCode c - 32 - 55 = charCode c - 87"
    and "97 \<le> charCode c \<and> charCode c \<le> 122"
    using True by (auto simp: is_lower_def)
  ultimately show ?thesis by (simp add: digit_val_def is_digit_def)
next
  case False
  then show ?thesis by (simp add: to_upper_def)
qed

lemma byte_value_bound: "a < 16 \<Longrightarrow> b < 16 \<Longrightarrow> a * 16 + b < (256::nat)"
  by linarith

subsection \<open>Bitwise operators on 32-bit integers\<close>

text \<open>\<open>ToInt32\<close> is the wrap-around of JavaScript's bitwise operators.\<close>

definition to_int32 :: "int \<Rightarrow> int" where
  "to_int32 n = signed_take_bit 31 n"

definition shift_left32 :: "int \<Rightarrow> nat \<Rightarrow> int" where
  "shift_left32 n k = to_int32 (to_int32 n * 2 ^ k)"

lemma to_int32_bounds: "- (2 ^ 31) \<le> to_int32 n" "to_int32 n < 2 ^ 31"
  unfolding to_int32_def
  using signed_take_bit_int_greater_eq_minus_exp [of 31 n] signed_take_bit_int_less_exp [of 31 n]
  by simp_all

lemma to_int32_id: "- (2 ^ 31) \<le> n \<Longrightarrow> n < 2 ^ 31 \<Longrightarrow> to_int32 n = n"
  unfolding to_int32_def by (rule signed_take_bit_int_eq_self) simp_all

subsection \<open>Rounding a quotient up\<close>

text \<open>
  \<open>Math.ceil(a / b)\<close> for a positive \<open>b\<close>. Below \<open>2 ^ 48\<close> the rounding of the double quotient does not
  change its ceiling.
\<close>

definition ceil_div :: "int \<Rightarrow> int \<Rightarrow> int" where
  "ceil_div a b = - ((- a) div b)"

lemma ceil_div_bounds:
  assumes "0 < b"
  shows "a \<le> ceil_div a b * b" and "ceil_div a b * b < a + b"
proof -
  have "((- a) div b) * b + (- a) mod b = - a" by (rule div_mult_mod_eq)
  moreover have "x + m = - a \<Longrightarrow> - x = a + m" for x m :: int by linarith
  ultimately have "ceil_div a b * b = a + (- a) mod b" by (simp only: ceil_div_def mult_minus_left)
  then show "a \<le> ceil_div a b * b" and "ceil_div a b * b < a + b"
    using pos_mod_bound [OF assms, of "- a"] pos_mod_sign [OF assms, of "- a"] by linarith+
qed

lemma ceil_div_least:
  assumes "0 < b"
  shows "ceil_div a b \<le> q \<longleftrightarrow> a \<le> q * b"
proof
  assume "ceil_div a b \<le> q"
  then have "ceil_div a b * b \<le> q * b" using assms by (simp add: mult_right_mono)
  then show "a \<le> q * b" using ceil_div_bounds(1) [OF assms, of a] by linarith
next
  assume "a \<le> q * b"
  then have "ceil_div a b * b < (q + 1) * b"
    using ceil_div_bounds(2) [OF assms, of a] by (simp add: algebra_simps)
  then show "ceil_div a b \<le> q" using assms by (simp add: mult_less_cancel_right)
qed

end
