(* ===== verification/JsCollections.thy ===== *)
theory JsCollections
  imports Prelude "HOL-Library.AList"
begin

section \<open>Objects, \<open>Map\<close> and \<open>Set\<close>\<close>

text \<open>
  Plain objects used as dictionaries (with the members every object inherits from
  \<open>Object.prototype\<close>), and the insertion-ordered \<open>Map\<close> and \<open>Set\<close>. The pages keep row selections
  in a \<open>Map\<close> and tag selections in a \<open>Set\<close>: what they rely on is stated as two interfaces
  (locales), whose laws the concrete representations discharge by interpretation.
\<close>

subsection \<open>Objects as dictionaries\<close>

text \<open>
  Reading \<open>o[k]\<close> finds an own property, else a member of \<open>Object.prototype\<close> (a function or the
  prototype object, never a value of the dictionary), else \<open>undefined\<close>.
\<close>

datatype 'v property = Undefined | Own 'v | Inherited

type_synonym 'v js_object = "(string \<times> 'v) list"

definition object_prototype_members :: "string list" where
  "object_prototype_members =
     [''constructor'', ''__defineGetter__'', ''__defineSetter__'', ''hasOwnProperty'',
      ''__lookupGetter__'', ''__lookupSetter__'', ''isPrototypeOf'', ''propertyIsEnumerable'',
      ''toString'', ''valueOf'', ''__proto__'', ''toLocaleString'']"

definition obj_get :: "'v js_object \<Rightarrow> string \<Rightarrow> 'v property" where
  "obj_get obj k =
     (case map_of obj k of
        Some v \<Rightarrow> Own v
      | None \<Rightarrow> if k \<in> set object_prototype_members then Inherited else Undefined)"

text \<open>The operator \<open>k in o\<close>: inherited members count.\<close>

definition obj_in :: "string \<Rightarrow> 'v js_object \<Rightarrow> bool" where
  "obj_in k obj \<longleftrightarrow> map_of obj k \<noteq> None \<or> k \<in> set object_prototype_members"

text \<open>\<open>o[k] = v\<close> for a string \<open>v\<close>: assigning a string to \<open>__proto__\<close> has no effect.\<close>

definition obj_set :: "string \<Rightarrow> string \<Rightarrow> string js_object \<Rightarrow> string js_object" where
  "obj_set k v obj = (if k = ''__proto__'' then obj else AList.update k v obj)"

lemma obj_get_Own [outcome_iff]: "obj_get obj k = Own v \<longleftrightarrow> map_of obj k = Some v"
  by (auto simp: obj_get_def split: option.splits if_splits)

lemma obj_get_Undefined [outcome_iff]:
  "obj_get obj k = Undefined \<longleftrightarrow> map_of obj k = None \<and> k \<notin> set object_prototype_members"
  by (auto simp: obj_get_def split: option.splits if_splits)

lemma obj_in_iff: "obj_in k obj \<longleftrightarrow> obj_get obj k \<noteq> Undefined"
  by (auto simp: obj_in_def obj_get_Undefined)

lemma map_of_obj_set:
  "map_of (obj_set k v obj) x =
     (if x = k \<and> k \<noteq> ''__proto__'' then Some v else map_of obj x)"
  by (auto simp: obj_set_def update_conv')

subsection \<open>The interface of an insertion-ordered map\<close>

text \<open>
  \<open>keys\<close> is the iteration order: a new key goes to the end, setting an existing key leaves the
  order alone.
\<close>

locale ordered_map =
  fixes empty :: 'm
    and get :: "'m \<Rightarrow> 'k \<Rightarrow> 'v option"
    and put :: "'k \<Rightarrow> 'v \<Rightarrow> 'm \<Rightarrow> 'm"
    and del :: "'k \<Rightarrow> 'm \<Rightarrow> 'm"
    and keys :: "'m \<Rightarrow> 'k list"
    and inv :: "'m \<Rightarrow> bool"
  assumes get_empty: "get empty k = None"
    and get_put: "get (put k v m) = (get m)(k \<mapsto> v)"
    and get_del: "get (del k m) = (get m)(k := None)"
    and keys_empty: "keys empty = []"
    and keys_put: "inv m \<Longrightarrow> keys (put k v m) = (if k \<in> set (keys m) then keys m else keys m @ [k])"
    and keys_del: "inv m \<Longrightarrow> keys (del k m) = removeAll k (keys m)"
    and keys_dom: "inv m \<Longrightarrow> set (keys m) = dom (get m)"
    and keys_distinct: "inv m \<Longrightarrow> distinct (keys m)"
    and inv_empty: "inv empty"
    and inv_put: "inv m \<Longrightarrow> inv (put k v m)"
    and inv_del: "inv m \<Longrightarrow> inv (del k m)"
begin

text \<open>A loop that sets one entry per row, and one that deletes a list of keys.\<close>

lemma inv_put_all: "inv m \<Longrightarrow> inv (fold (\<lambda>r. put (f r) r) rows m)"
  by (induction rows arbitrary: m) (simp_all add: inv_put)

lemma inv_del_all: "inv m \<Longrightarrow> inv (fold del ks m)"
  by (induction ks arbitrary: m) (simp_all add: inv_del)

lemma get_put_all:
  "distinct (map f rows) \<Longrightarrow>
     get (fold (\<lambda>r. put (f r) r) rows m) k =
       (case find (\<lambda>r. f r = k) rows of Some r \<Rightarrow> Some r | None \<Rightarrow> get m k)"
proof (induction rows arbitrary: m)
  case (Cons a rows)
  then have IH: "get (fold (\<lambda>r. put (f r) r) rows (put (f a) a m)) k =
      (case find (\<lambda>r. f r = k) rows of Some r \<Rightarrow> Some r | None \<Rightarrow> get (put (f a) a m) k)"
    by simp
  show ?case
  proof (cases "f a = k")
    case True
    with Cons.prems have "find (\<lambda>r. f r = k) rows = None"
      by (simp add: find_None_iff) (metis image_eqI)
    with True IH show ?thesis by (simp add: get_put)
  next
    case False
    with IH show ?thesis by (simp add: get_put split: option.split)
  qed
qed simp

lemma dom_put_all: "dom (get (fold (\<lambda>r. put (f r) r) rows m)) = dom (get m) \<union> f ` set rows"
  by (induction rows arbitrary: m) (auto simp: get_put)

lemma get_del_all: "get (fold del ks m) k = (if k \<in> set ks then None else get m k)"
  by (induction ks arbitrary: m) (simp_all add: get_del)

lemma size_keys: "inv m \<Longrightarrow> length (keys m) = card (dom (get m))"
  using distinct_card [OF keys_distinct] keys_dom by fastforce

lemma toggle_toggle:
  assumes "get m k = None"
  shows "get (del k (put k v m)) = get m"
  using assms by (auto simp: get_put get_del fun_eq_iff)

end

subsubsection \<open>\<open>Map\<close> as an association list in insertion order\<close>

type_synonym ('k, 'v) js_map = "('k \<times> 'v) list"

definition js_map_empty :: "('k, 'v) js_map" where
  "js_map_empty = []"

definition js_map_get :: "('k, 'v) js_map \<Rightarrow> 'k \<Rightarrow> 'v option" where
  "js_map_get m k = map_of m k"

definition js_map_has :: "('k, 'v) js_map \<Rightarrow> 'k \<Rightarrow> bool" where
  "js_map_has m k \<longleftrightarrow> map_of m k \<noteq> None"

definition js_map_set :: "'k \<Rightarrow> 'v \<Rightarrow> ('k, 'v) js_map \<Rightarrow> ('k, 'v) js_map" where
  "js_map_set k v m = AList.update k v m"

definition js_map_delete :: "'k \<Rightarrow> ('k, 'v) js_map \<Rightarrow> ('k, 'v) js_map" where
  "js_map_delete k m = AList.delete k m"

definition js_map_keys :: "('k, 'v) js_map \<Rightarrow> 'k list" where
  "js_map_keys m = map fst m"

definition js_map_values :: "('k, 'v) js_map \<Rightarrow> 'v list" where
  "js_map_values m = map snd m"

definition js_map_inv :: "('k, 'v) js_map \<Rightarrow> bool" where
  "js_map_inv m \<longleftrightarrow> distinct (map fst m)"

lemma map_fst_update:
  "map fst (AList.update k v m) = (if k \<in> fst ` set m then map fst m else map fst m @ [k])"
  by (induction m) auto

lemma map_fst_delete: "map fst (AList.delete k m) = removeAll k (map fst m)"
  by (induction m) (auto simp: AList.delete_eq)

interpretation alist_map: ordered_map js_map_empty js_map_get js_map_set js_map_delete
  js_map_keys js_map_inv
proof unfold_locales
  show "js_map_get (js_map_set k v m) = (js_map_get m)(k \<mapsto> v)" for k v and m :: "('a, 'b) js_map"
    by (auto simp: js_map_get_def js_map_set_def update_conv' fun_eq_iff)
  show "js_map_get (js_map_delete k m) = (js_map_get m)(k := None)" for k and m :: "('a, 'b) js_map"
    by (auto simp: js_map_get_def js_map_delete_def AList.delete_conv' fun_eq_iff)
  show "js_map_inv m \<Longrightarrow> js_map_inv (js_map_set k v m)" for k v and m :: "('a, 'b) js_map"
    by (auto simp: js_map_inv_def js_map_set_def map_fst_update)
  show "js_map_inv m \<Longrightarrow> js_map_inv (js_map_delete k m)" for k and m :: "('a, 'b) js_map"
    by (simp add: js_map_inv_def js_map_delete_def map_fst_delete distinct_removeAll)
  show "js_map_inv m \<Longrightarrow> set (js_map_keys m) = dom (js_map_get m)" for m :: "('a, 'b) js_map"
    by (simp add: js_map_keys_def js_map_get_def [abs_def] dom_map_of_conv_image_fst)
qed (auto simp: js_map_empty_def js_map_get_def js_map_keys_def js_map_set_def js_map_delete_def
      js_map_inv_def map_fst_update map_fst_delete)

lemma js_map_has_get: "js_map_has m k \<longleftrightarrow> js_map_get m k \<noteq> None"
  by (simp add: js_map_has_def js_map_get_def)

lemma js_map_values_get:
  "js_map_inv m \<Longrightarrow> set (js_map_values m) = ran (js_map_get m)"
proof -
  assume "js_map_inv m"
  moreover have "js_map_get m = map_of m" by (simp add: fun_eq_iff js_map_get_def)
  ultimately show ?thesis by (simp add: js_map_inv_def js_map_values_def ran_distinct)
qed

subsection \<open>The interface of an insertion-ordered set\<close>

locale ordered_set =
  fixes empty :: 's
    and has :: "'s \<Rightarrow> 'a \<Rightarrow> bool"
    and add :: "'a \<Rightarrow> 's \<Rightarrow> 's"
    and del :: "'a \<Rightarrow> 's \<Rightarrow> 's"
    and elems :: "'s \<Rightarrow> 'a list"
    and inv :: "'s \<Rightarrow> bool"
  assumes elems_empty: "elems empty = []"
    and has_elems: "has s x \<longleftrightarrow> x \<in> set (elems s)"
    and elems_add: "elems (add x s) = (if x \<in> set (elems s) then elems s else elems s @ [x])"
    and elems_del: "inv s \<Longrightarrow> elems (del x s) = removeAll x (elems s)"
    and elems_distinct: "inv s \<Longrightarrow> distinct (elems s)"
    and inv_empty: "inv empty"
    and inv_add: "inv s \<Longrightarrow> inv (add x s)"
    and inv_del: "inv s \<Longrightarrow> inv (del x s)"
begin

text \<open>\<open>new Set(xs)\<close> adds the elements of an array one by one.\<close>

lemma set_add_all: "set (elems (fold add xs s)) = set (elems s) \<union> set xs"
  by (induction xs arbitrary: s) (auto simp: elems_add)

lemma inv_add_all: "inv s \<Longrightarrow> inv (fold add xs s)"
  by (induction xs arbitrary: s) (simp_all add: inv_add)

lemma toggle_set:
  assumes "inv s"
  shows "set (elems (if has s x then del x s else add x s)) =
           (if x \<in> set (elems s) then set (elems s) - {x} else insert x (set (elems s)))"
  using assms by (auto simp: has_elems elems_add elems_del)

lemma toggle_inv: "inv s \<Longrightarrow> inv (if has s x then del x s else add x s)"
  by (simp add: inv_add inv_del)

end

type_synonym 'a js_set = "'a list"

definition js_set_empty :: "'a js_set" where
  "js_set_empty = []"

definition js_set_has :: "'a js_set \<Rightarrow> 'a \<Rightarrow> bool" where
  "js_set_has s x \<longleftrightarrow> x \<in> set s"

definition js_set_add :: "'a \<Rightarrow> 'a js_set \<Rightarrow> 'a js_set" where
  "js_set_add x s = (if x \<in> set s then s else s @ [x])"

definition js_set_delete :: "'a \<Rightarrow> 'a js_set \<Rightarrow> 'a js_set" where
  "js_set_delete x s = removeAll x s"

definition js_set_of :: "'a list \<Rightarrow> 'a js_set" where
  "js_set_of xs = fold js_set_add xs js_set_empty"

definition js_set_toggle :: "'a \<Rightarrow> 'a js_set \<Rightarrow> 'a js_set" where
  "js_set_toggle x s = (if js_set_has s x then js_set_delete x s else js_set_add x s)"

interpretation list_set: ordered_set js_set_empty js_set_has js_set_add js_set_delete
  "\<lambda>s. s" distinct
  by unfold_locales
    (auto simp: js_set_empty_def js_set_has_def js_set_add_def js_set_delete_def distinct_removeAll)

lemma set_js_set_of: "set (js_set_of xs) = set xs"
  using list_set.set_add_all [of xs js_set_empty] by (simp add: js_set_of_def js_set_empty_def)

lemma distinct_js_set_of: "distinct (js_set_of xs)"
  unfolding js_set_of_def by (rule list_set.inv_add_all) (simp add: js_set_empty_def)

lemma set_js_set_toggle:
  "distinct s \<Longrightarrow> set (js_set_toggle x s) = (if x \<in> set s then set s - {x} else insert x (set s))"
  unfolding js_set_toggle_def by (rule list_set.toggle_set)

end
