(* ===== verification/Json.thy ===== *)
theory Json
  imports JsNumbers JsCollections
begin

section \<open>JSON values, \<open>JSON.parse\<close> and \<open>atob\<close>\<close>

text \<open>
  The values that travel in request bodies and in the payload of a session token. A number is
  kept as a decimal \<open>m * 10 ^ e\<close>. \<open>JSON.parse\<close> is a recursive-descent parser; \<^const>\<open>None\<close> is its
  \<open>SyntaxError\<close>. Every recursive call is on a shorter rest of the input, which the guards
  \<open>length r < length s\<close> state for the termination proof; \<open>parse_value_shorter\<close> shows that
  the guards never fail. \<open>atob\<close> is the forgiving base64 decoder of the platform: its result has
  one character per byte, so a byte above 127 is a two-byte character here.
\<close>

datatype json =
    JNull
  | JBool bool
  | JNum int int
  | JStr string
  | JArr "json list"
  | JObj "(string \<times> json) list"

abbreviation jint :: "int \<Rightarrow> json" where
  "jint n \<equiv> JNum n 0"

subsection \<open>Request bodies\<close>

text \<open>\<open>JSON.stringify\<close> leaves out the properties whose value is \<open>undefined\<close>.\<close>

definition jobject :: "(string \<times> json option) list \<Rightarrow> json" where
  "jobject fields = JObj (map (\<lambda>(k, v). (k, the v)) (filter (\<lambda>(k, v). v \<noteq> None) fields))"

definition jnullable :: "string option \<Rightarrow> json" where
  "jnullable x = (case x of None \<Rightarrow> JNull | Some s \<Rightarrow> JStr s)"

fun json_field :: "json \<Rightarrow> string \<Rightarrow> json option" where
  "json_field (JObj fs) k = map_of fs k"
| "json_field _ k = None"

lemma json_field_jobject:
  "distinct (map fst fields) \<Longrightarrow> json_field (jobject fields) k = Option.bind (map_of fields k) (\<lambda>v. v)"
proof (induction fields)
  case (Cons f fields)
  have none: "k \<notin> fst ` set fields \<Longrightarrow> map_of (map (\<lambda>(k, v). (k, the v)) (filter (\<lambda>(k, v). v \<noteq> None) fields)) k = None"
    by (force simp: map_of_eq_None_iff)
  have "map_of fields k = None \<longleftrightarrow> k \<notin> fst ` set fields" by (simp add: map_of_eq_None_iff)
  with Cons none show ?case by (cases f) (auto simp: jobject_def)
qed (simp add: jobject_def)

subsection \<open>\<open>JSON.parse\<close>\<close>

definition is_json_ws :: "char \<Rightarrow> bool" where
  "is_json_ws c \<longleftrightarrow> c \<in> {CHR 0x09, CHR 0x0A, CHR 0x0D, CHR '' ''}"

abbreviation skip_ws :: "string \<Rightarrow> string" where
  "skip_ws \<equiv> dropWhile is_json_ws"

text \<open>The UTF-8 bytes of a code unit written as \<open>\uXXXX\<close>.\<close>

definition utf8_unit :: "nat \<Rightarrow> string" where
  "utf8_unit u =
     (if u < 128 then [char_of u]
      else if u < 2048 then [char_of (192 + u div 64), char_of (128 + u mod 64)]
      else [char_of (224 + u div 4096), char_of (128 + u div 64 mod 64), char_of (128 + u mod 64)])"

definition simple_escape :: "char \<Rightarrow> char option" where
  "simple_escape c =
     (if c \<in> {CHR 0x22, CHR 0x5C, CHR ''/''} then Some c
      else if c = CHR ''b'' then Some (CHR 0x08) else if c = CHR ''f'' then Some (CHR 0x0C)
      else if c = CHR ''n'' then Some (CHR 0x0A) else if c = CHR ''r'' then Some (CHR 0x0D)
      else if c = CHR ''t'' then Some (CHR 0x09) else None)"

fun hex4 :: "string \<Rightarrow> nat option" where
  "hex4 [a, b, c, d] =
     (case (digit_val 16 a, digit_val 16 b, digit_val 16 c, digit_val 16 d) of
        (Some w, Some x, Some y, Some z) \<Rightarrow> Some (((w * 16 + x) * 16 + y) * 16 + z)
      | _ \<Rightarrow> None)"
| "hex4 _ = None"

text \<open>The characters after the opening quote, up to and including the closing one.\<close>

function parse_string :: "string \<Rightarrow> (string \<times> string) option" where
  "parse_string s =
     (case s of
        [] \<Rightarrow> None
      | c # cs \<Rightarrow>
          (if c = CHR 0x22 then Some ([], cs)
           else if c = CHR 0x5C then
             (case cs of
                [] \<Rightarrow> None
              | e # es \<Rightarrow>
                  (if e = CHR ''u'' then
                     (case hex4 (take 4 es) of
                        None \<Rightarrow> None
                      | Some u \<Rightarrow> map_option (map_prod ((@) (utf8_unit u)) id) (parse_string (drop 4 es)))
                   else
                     (case simple_escape e of
                        None \<Rightarrow> None
                      | Some x \<Rightarrow> map_option (map_prod ((#) x) id) (parse_string es))))
           else if charCode c < 32 then None
           else map_option (map_prod ((#) c) id) (parse_string cs)))"
  by pat_completeness auto
termination
  by (relation "measure length") auto

declare parse_string.simps [simp del]

definition digit_run :: "string \<Rightarrow> string \<times> string" where
  "digit_run s = (takeWhile is_digit s, dropWhile is_digit s)"

text \<open>\<open>-? int frac? exp?\<close>; the value is the digits of \<open>int\<close> and \<open>frac\<close> scaled by the exponent.\<close>

definition parse_exponent :: "string \<Rightarrow> (int \<times> string) option" where
  "parse_exponent s =
     (case s of
        c # cs \<Rightarrow>
          (if c = CHR ''e'' \<or> c = CHR ''E'' then
             (let neg = (cs \<noteq> [] \<and> hd cs = CHR ''-'');
                  t = (if cs \<noteq> [] \<and> (hd cs = CHR ''-'' \<or> hd cs = CHR ''+'') then tl cs else cs);
                  (ds, rest) = digit_run t
              in if ds = [] then None
                 else Some ((if neg then - 1 else 1) * int (read_radix 10 0 ds), rest))
           else Some (0, s))
      | [] \<Rightarrow> Some (0, s))"

definition parse_fraction :: "string \<Rightarrow> (string \<times> string) option" where
  "parse_fraction s =
     (case s of
        c # cs \<Rightarrow>
          (if c = CHR ''.'' then
             (let (ds, rest) = digit_run cs in if ds = [] then None else Some (ds, rest))
           else Some ([], s))
      | [] \<Rightarrow> Some ([], s))"

definition parse_number :: "string \<Rightarrow> (json \<times> string) option" where
  "parse_number s =
     (let neg = (s \<noteq> [] \<and> hd s = CHR ''-'');
          t = (if neg then tl s else s);
          (ds, r1) = digit_run t
      in if ds = [] \<or> length ds > 1 \<and> hd ds = CHR ''0'' then None
         else (case parse_fraction r1 of
                 None \<Rightarrow> None
               | Some (fs, r2) \<Rightarrow>
                   (case parse_exponent r2 of
                      None \<Rightarrow> None
                    | Some (e, r3) \<Rightarrow>
                        Some (JNum ((if neg then - 1 else 1) * int (read_radix 10 0 (ds @ fs)))
                                   (e - int (length fs)), r3))))"

definition literal :: "string \<Rightarrow> json \<Rightarrow> string \<Rightarrow> (json \<times> string) option" where
  "literal w v s = (if take (length w) s = w then Some (v, drop (length w) s) else None)"

function parse_value :: "string \<Rightarrow> (json \<times> string) option"
  and parse_elems :: "json list \<Rightarrow> string \<Rightarrow> (json \<times> string) option"
  and parse_members :: "(string \<times> json) list \<Rightarrow> string \<Rightarrow> (json \<times> string) option"
where
  "parse_value s =
     (case skip_ws s of
        [] \<Rightarrow> None
      | c # cs \<Rightarrow>
          (if c = CHR 0x22 then map_option (map_prod JStr id) (parse_string cs)
           else if c = CHR ''{'' then
             (if skip_ws cs \<noteq> [] \<and> hd (skip_ws cs) = CHR ''}'' then Some (JObj [], tl (skip_ws cs))
              else parse_members [] cs)
           else if c = CHR ''['' then
             (if skip_ws cs \<noteq> [] \<and> hd (skip_ws cs) = CHR '']'' then Some (JArr [], tl (skip_ws cs))
              else parse_elems [] cs)
           else if c = CHR ''t'' then literal ''true'' (JBool True) (c # cs)
           else if c = CHR ''f'' then literal ''false'' (JBool False) (c # cs)
           else if c = CHR ''n'' then literal ''null'' JNull (c # cs)
           else parse_number (c # cs)))"
| "parse_elems vs s =
     (case parse_value s of
        None \<Rightarrow> None
      | Some (v, r) \<Rightarrow>
          (case skip_ws r of
             [] \<Rightarrow> None
           | c # cs \<Rightarrow>
               (if c = CHR '']'' then Some (JArr (vs @ [v]), cs)
                else if c = CHR '','' \<and> length cs < length s then parse_elems (vs @ [v]) cs
                else None)))"
| "parse_members ms s =
     (case skip_ws s of
        [] \<Rightarrow> None
      | q # qs \<Rightarrow>
          (if q \<noteq> CHR 0x22 then None
           else (case parse_string qs of
                   None \<Rightarrow> None
                 | Some (k, r1) \<Rightarrow>
                     (case skip_ws r1 of
                        [] \<Rightarrow> None
                      | d # ds \<Rightarrow>
                          (if d \<noteq> CHR '':'' \<or> \<not> length ds < length s then None
                           else (case parse_value ds of
                                   None \<Rightarrow> None
                                 | Some (v, r2) \<Rightarrow>
                                     (case skip_ws r2 of
                                        [] \<Rightarrow> None
                                      | c # cs \<Rightarrow>
                                          (if c = CHR ''}'' then Some (JObj (AList.update k v ms), cs)
                                           else if c = CHR '','' \<and> length cs < length s
                                           then parse_members (AList.update k v ms) cs
                                           else None))))))))"
  by pat_completeness auto
termination
proof (relation "measure (case_sum (\<lambda>s. 2 * length s) (case_sum (\<lambda>(_, s). 2 * length s + 1) (\<lambda>(_, s). 2 * length s + 1)))",
    goal_cases)
  case (2 s c cs)
  then have "length (skip_ws s) = Suc (length cs)" by simp
  then show ?case using length_dropWhile_le [of is_json_ws s] by simp
next
  case (3 s c cs)
  then have "length (skip_ws s) = Suc (length cs)" by simp
  then show ?case using length_dropWhile_le [of is_json_ws s] by simp
qed auto

declare parse_value.simps [simp del] parse_elems.simps [simp del] parse_members.simps [simp del]

definition json_parse :: "string \<Rightarrow> json option" where
  "json_parse s =
     (case parse_value s of
        None \<Rightarrow> None
      | Some (v, r) \<Rightarrow> if skip_ws r = [] then Some v else None)"

subsubsection \<open>The parser consumes input\<close>

lemma skip_ws_length: "length (skip_ws s) \<le> length s"
  by (rule length_dropWhile_le)

lemma skip_ws_Cons_length: "skip_ws s = c # cs \<Longrightarrow> length cs < length s"
  using skip_ws_length [of s] by simp

lemma parse_string_shorter: "parse_string s = Some (t, r) \<Longrightarrow> length r < length s"
proof (induction s arbitrary: t r rule: parse_string.induct)
  case (1 s)
  show ?case
  proof (cases s)
    case (Cons c cs)
    show ?thesis
    proof (cases "c = CHR 0x5C")
      case True
      then show ?thesis
        using "1.prems" "1.IH"(1,2) Cons
        by (subst (asm) parse_string.simps) (fastforce split: list.splits if_splits option.splits)
    next
      case False
      then show ?thesis
        using "1.prems" "1.IH"(3) Cons
        by (subst (asm) parse_string.simps) (fastforce split: if_splits)
    qed
  qed (use "1.prems" in \<open>simp add: parse_string.simps\<close>)
qed

lemma digit_run_length: "digit_run s = (ds, r) \<Longrightarrow> length s = length ds + length r"
  by (auto simp: digit_run_def) (metis length_append takeWhile_dropWhile_id)

lemma parse_fraction_length: "parse_fraction s = Some (ds, r) \<Longrightarrow> length r \<le> length s"
  by (auto simp: parse_fraction_def split: list.splits if_splits prod.splits dest!: digit_run_length)

lemma parse_exponent_length: "parse_exponent s = Some (e, r) \<Longrightarrow> length r \<le> length s"
  by (auto simp: parse_exponent_def Let_def split: list.splits if_splits prod.splits dest!: digit_run_length)

lemma parse_number_shorter: "parse_number s = Some (v, r) \<Longrightarrow> length r < length s"
proof -
  assume a: "parse_number s = Some (v, r)"
  define t where "t = (if s \<noteq> [] \<and> hd s = CHR ''-'' then tl s else s)"
  obtain ds r1 where d: "digit_run t = (ds, r1)" by fastforce
  from a d obtain fs r2 e where ds: "ds \<noteq> []"
    and f: "parse_fraction r1 = Some (fs, r2)" and e: "parse_exponent r2 = Some (e, r)"
    by (auto simp: parse_number_def Let_def t_def split: if_splits option.splits)
  have "length r \<le> length r1" using parse_fraction_length [OF f] parse_exponent_length [OF e] by simp
  also have "length r1 < length t" using digit_run_length [OF d] ds by simp
  also have "length t \<le> length s" by (simp add: t_def)
  finally show ?thesis .
qed

lemma literal_shorter: "literal w v s = Some (x, r) \<Longrightarrow> w \<noteq> [] \<Longrightarrow> length r < length s"
  by (cases s) (auto simp: literal_def split: if_splits)

lemma parse_value_shorter:
  "parse_value s = Some (v, r) \<Longrightarrow> length r < length s"
  "parse_elems vs s = Some (v, r) \<Longrightarrow> length r < length s"
  "parse_members ms s = Some (v, r) \<Longrightarrow> length r < length s"
proof (induction s and vs s and ms s arbitrary: v r and v r and v r
    rule: parse_value_parse_elems_parse_members.induct)
  case (1 s)
  from "1.prems" obtain c cs where sk: "skip_ws s = c # cs"
    by (subst (asm) parse_value.simps) (auto split: list.splits)
  have le: "length cs < length s" by (rule skip_ws_Cons_length [OF sk])
  note unf = "1.prems" [unfolded parse_value.simps [of s] sk, simplified]
  consider (str) "c = CHR 0x22" | (obj) "c = CHR ''{''" | (arr) "c = CHR ''[''"
    | (other) "c \<noteq> CHR 0x22" "c \<noteq> CHR ''{''" "c \<noteq> CHR ''[''" by blast
  then show ?case
  proof cases
    case str
    then show ?thesis using unf le by (auto dest!: parse_string_shorter)
  next
    case obj
    then show ?thesis
      using unf le "1.IH"(1) [OF sk] skip_ws_length [of cs] length_tl [of "skip_ws cs"]
      by (fastforce split: if_splits)
  next
    case arr
    then show ?thesis
      using unf le "1.IH"(2) [OF sk] skip_ws_length [of cs] length_tl [of "skip_ws cs"]
      by (fastforce split: if_splits)
  next
    case other
    then have "length r < length (c # cs)"
      using unf by (auto split: if_splits dest: literal_shorter parse_number_shorter)
    then show ?thesis using le by simp
  qed
next
  case (2 vs s)
  from "2.prems" obtain w r1 c cs where w: "parse_value s = Some (w, r1)" and sk: "skip_ws r1 = c # cs"
    and rest: "c = CHR '']'' \<and> r = cs \<or> c = CHR '','' \<and> length cs < length s \<and> parse_elems (vs @ [w]) cs = Some (v, r)"
    by (subst (asm) parse_elems.simps) (auto split: option.splits list.splits if_splits)
  have "length cs < length s" using "2.IH"(1) [OF w] skip_ws_Cons_length [OF sk] by simp
  with rest "2.IH"(2) w sk show ?case by fastforce
next
  case (3 ms s)
  from "3.prems" obtain qs k r1 ds w r2 c cs where sk: "skip_ws s = CHR 0x22 # qs"
    and k: "parse_string qs = Some (k, r1)" and d: "skip_ws r1 = CHR '':'' # ds" and lt: "length ds < length s"
    and w: "parse_value ds = Some (w, r2)" and sk2: "skip_ws r2 = c # cs"
    and rest: "c = CHR ''}'' \<and> r = cs \<or> c = CHR '','' \<and> length cs < length s
      \<and> parse_members (AList.update k w ms) cs = Some (v, r)"
    by (subst (asm) parse_members.simps) (auto split: option.splits list.splits if_splits)
  have "length r2 < length ds" using "3.IH"(1) sk k d lt w by simp
  then have "length cs < length s" using lt skip_ws_Cons_length [OF sk2] by simp
  with rest "3.IH"(2) sk k d lt w sk2 show ?case by fastforce
qed

subsection \<open>\<open>atob\<close>\<close>

definition b64_val :: "char \<Rightarrow> nat option" where
  "b64_val c =
     (if is_upper c then Some (charCode c - 65)
      else if is_lower c then Some (charCode c - 71)
      else if is_digit c then Some (charCode c + 4)
      else if c = CHR ''+'' then Some 62 else if c = CHR ''/'' then Some 63 else None)"

fun b64_bytes :: "nat list \<Rightarrow> nat list" where
  "b64_bytes (a # b # c # d # xs) =
     (a * 4 + b div 16) # (b mod 16 * 16 + c div 4) # (c mod 4 * 64 + d) # b64_bytes xs"
| "b64_bytes [a, b, c] = [a * 4 + b div 16, b mod 16 * 16 + c div 4]"
| "b64_bytes [a, b] = [a * 4 + b div 16]"
| "b64_bytes _ = []"

text \<open>A padded text whose length is a multiple of four loses one or two trailing \<open>=\<close>.\<close>

definition b64_strip :: "string \<Rightarrow> string" where
  "b64_strip t =
     (if length t mod 4 = 0 then
        (if drop (length t - 2) t = ''=='' then take (length t - 2) t
         else if t \<noteq> [] \<and> last t = CHR ''='' then butlast t else t)
      else t)"

definition atob :: "string \<Rightarrow> string option" where
  "atob s =
     (let t = b64_strip (filter (\<lambda>c. \<not> (is_ws c \<and> c \<noteq> CHR 0x0B)) s)
      in if length t mod 4 = 1 \<or> (\<exists>c \<in> set t. b64_val c = None) then None
         else Some (concat (map utf8_unit (b64_bytes (map (the \<circ> b64_val) t)))))"

subsubsection \<open>Unpadded base64url, as session tokens are encoded\<close>

fun sextets :: "nat list \<Rightarrow> nat list" where
  "sextets (a # b # c # xs) =
     (a div 4) # (a mod 4 * 16 + b div 16) # (b mod 16 * 4 + c div 64) # (c mod 64) # sextets xs"
| "sextets [a, b] = [a div 4, a mod 4 * 16 + b div 16, b mod 16 * 4]"
| "sextets [a] = [a div 4, a mod 4 * 16]"
| "sextets [] = []"

definition b64url_char :: "nat \<Rightarrow> char" where
  "b64url_char n =
     (if n < 26 then char_of (65 + n) else if n < 52 then char_of (71 + n)
      else if n < 62 then char_of (n - 4) else if n = 62 then CHR ''-'' else CHR ''_'')"

definition b64url_encode :: "nat list \<Rightarrow> string" where
  "b64url_encode bs = map b64url_char (sextets bs)"

definition from_url_alphabet :: "string \<Rightarrow> string" where
  "from_url_alphabet s = replace_char (CHR ''_'') (CHR ''/'') (replace_char (CHR ''-'') (CHR ''+'') s)"

lemma sextets_bound: "\<forall>b \<in> set bs. b < 256 \<Longrightarrow> n \<in> set (sextets bs) \<Longrightarrow> n < 64"
  by (induction bs rule: sextets.induct) auto

lemma sextets_length: "length (sextets bs) mod 4 \<noteq> 1"
  by (induction bs rule: sextets.induct) auto

lemma byte_quotients:
  fixes b :: nat
  assumes "b < 256"
  shows "b div 16 div 16 = 0" and "b div 16 mod 16 = b div 16"
    and "b div 64 div 4 = 0" and "b div 64 mod 4 = b div 64"
proof -
  have "b div 16 < 16" "b div 64 < 4" using assms by simp_all
  then show "b div 16 div 16 = 0" "b div 16 mod 16 = b div 16"
    "b div 64 div 4 = 0" "b div 64 mod 4 = b div 64" by simp_all
qed

lemma b64_bytes_sextets: "\<forall>b \<in> set bs. b < 256 \<Longrightarrow> b64_bytes (sextets bs) = bs"
  by (induction bs rule: sextets.induct) (simp_all add: byte_quotients)

lemma alnum_url_stable:
  assumes "is_alnum c"
  shows "from_url_alphabet [c] = [c]" and "\<not> is_ws c" and "c \<noteq> CHR ''=''" and "c \<noteq> CHR ''.''"
  using assms
  by (auto simp: is_alnum_def is_digit_def is_lower_def is_upper_def charCode_def is_ws_def
      from_url_alphabet_def replace_char_def)

lemma b64url_char_alnum:
  assumes "n < 62"
  shows "is_alnum (b64url_char n)" and "b64_val (b64url_char n) = Some n"
proof -
  have "charCode (b64url_char n) = (if n < 26 then 65 + n else if n < 52 then 71 + n else n - 4)"
    using assms by (simp add: b64url_char_def code_char_of)
  then show "is_alnum (b64url_char n)" and "b64_val (b64url_char n) = Some n"
    using assms by (auto simp: is_alnum_def is_digit_def is_lower_def is_upper_def b64_val_def)
qed

lemma url_char_decode:
  assumes "n < 64"
  shows "b64_val (hd (from_url_alphabet [b64url_char n])) = Some n"
    and "\<not> is_ws (hd (from_url_alphabet [b64url_char n]))"
    and "hd (from_url_alphabet [b64url_char n]) \<noteq> CHR ''=''"
    and "b64url_char n \<noteq> CHR ''.''"
proof -
  have "n < 62 \<or> n = 62 \<or> n = 63" using assms by linarith
  then have "b64_val (hd (from_url_alphabet [b64url_char n])) = Some n
      \<and> \<not> is_ws (hd (from_url_alphabet [b64url_char n]))
      \<and> hd (from_url_alphabet [b64url_char n]) \<noteq> CHR ''='' \<and> b64url_char n \<noteq> CHR ''.''"
  proof (elim disjE)
    assume "n < 62"
    then show ?thesis using b64url_char_alnum [of n] alnum_url_stable [of "b64url_char n"] by simp
  qed (auto simp: b64url_char_def from_url_alphabet_def replace_char_def b64_val_def is_ws_def
      is_upper_def is_lower_def is_digit_def charCode_def)
  then show "b64_val (hd (from_url_alphabet [b64url_char n])) = Some n"
    and "\<not> is_ws (hd (from_url_alphabet [b64url_char n]))"
    and "hd (from_url_alphabet [b64url_char n]) \<noteq> CHR ''=''"
    and "b64url_char n \<noteq> CHR ''.''" by simp_all
qed

lemma from_url_alphabet_map: "from_url_alphabet s = map (\<lambda>c. hd (from_url_alphabet [c])) s"
  by (simp add: from_url_alphabet_def replace_char_def)

lemma atob_b64url:
  assumes "\<forall>b \<in> set bs. b < 256"
  shows "atob (from_url_alphabet (b64url_encode bs)) = Some (concat (map utf8_unit bs))"
proof -
  define t where "t = from_url_alphabet (b64url_encode bs)"
  have t: "t = map (\<lambda>n. hd (from_url_alphabet [b64url_char n])) (sextets bs)"
    unfolding t_def b64url_encode_def by (subst from_url_alphabet_map) simp
  have all: "\<forall>c \<in> set t. \<not> is_ws c \<and> c \<noteq> CHR ''='' \<and> b64_val c \<noteq> None"
    using sextets_bound [OF assms] url_char_decode by (fastforce simp: t)
  then have clean: "filter (\<lambda>c. \<not> (is_ws c \<and> c \<noteq> CHR 0x0B)) t = t" by simp
  have strip: "b64_strip t = t"
  proof -
    have "drop (length t - 2) t \<noteq> ''==''" using all by (metis in_set_dropD list.set_intros(1))
    moreover have "t \<noteq> [] \<Longrightarrow> last t \<noteq> CHR ''=''" using all by simp
    ultimately show ?thesis by (auto simp: b64_strip_def)
  qed
  have vals: "map (the \<circ> b64_val) t = sextets bs"
    unfolding t map_map using sextets_bound [OF assms] url_char_decode(1) by (intro map_idI) simp
  have "length t mod 4 \<noteq> 1" using sextets_length [of bs] by (simp add: t)
  then show ?thesis
    unfolding t_def [symmetric] atob_def Let_def clean strip
    using all vals b64_bytes_sextets [OF assms] by auto
qed

lemma b64url_no_dot: "\<forall>b \<in> set bs. b < 256 \<Longrightarrow> CHR ''.'' \<notin> set (b64url_encode bs)"
  unfolding b64url_encode_def using sextets_bound url_char_decode(4) by fastforce

lemma utf8_unit_ascii: "\<forall>c \<in> set s. charCode c < 128 \<Longrightarrow> concat (map utf8_unit (map charCode s)) = s"
  by (induction s) (auto simp: utf8_unit_def)

subsection \<open>Fields of a decoded object\<close>

text \<open>What the server reads out of a request body: an absent field has the zero value of its type.\<close>

definition string_field :: "(string \<times> json) list \<Rightarrow> string \<Rightarrow> string" where
  "string_field fs k = (case map_of fs k of Some (JStr s) \<Rightarrow> s | _ \<Rightarrow> [])"

definition int_field :: "(string \<times> json) list \<Rightarrow> string \<Rightarrow> int" where
  "int_field fs k = (case map_of fs k of Some (JNum m e) \<Rightarrow> (if e = 0 then m else 0) | _ \<Rightarrow> 0)"

definition bool_field :: "(string \<times> json) list \<Rightarrow> string \<Rightarrow> bool" where
  "bool_field fs k = (case map_of fs k of Some (JBool b) \<Rightarrow> b | _ \<Rightarrow> False)"

lemmas json_fields = string_field_def int_field_def bool_field_def

text \<open>Evaluation of the parser on a literal text by rewriting.\<close>

lemmas json_eval = parse_value.simps parse_elems.simps parse_members.simps parse_string.simps
  parse_number_def parse_fraction_def parse_exponent_def digit_run_def literal_def is_json_ws_def
  is_digit_def charCode_def digit_val_def simple_escape_def

end
