(* ===== verification/ApiTypes.thy ===== *)
theory ApiTypes
  imports Json
begin

section \<open>The data model of the API (\<open>types/api.ts\<close>)\<close>

text \<open>
  One record per interface of \<open>src/web/src/types/api.ts\<close>, its fields prefixed by the name of the
  interface; \<open>extends\<close> is record extension, a union of string literals is a datatype. A field that
  is optional or nullable is an \<^typ>\<open>'a option\<close>; in the PATCH bodies, where leaving a field out and
  sending \<open>null\<close> mean different things, an optional nullable field is an \<^typ>\<open>'a option option\<close>.
  Times are the ISO 8601 strings of the wire format.
\<close>

subsection \<open>Unions of string literals\<close>

datatype UserRole = RoleAdmin | RoleOperator | RoleViewer

datatype UserProvider = ProviderLocal | ProviderOidc

datatype MailAuthType = MailAuthNone | MailAuthPlain | MailAuthLogin

datatype MailTlsMode = MailTlsNone | MailTlsStarttls | MailTlsTls

datatype TLSSeverity = SeverityOk | SeverityWarning | SeverityCritical

datatype TLSGrade =
    GradeAPlus | GradeA | GradeAMinus | GradeB | GradeC | GradeD | GradeE | GradeF
  | GradeT \<comment> \<open>certificate not trusted\<close>
  | GradeM \<comment> \<open>certificate name mismatch\<close>

subsection \<open>Interfaces\<close>

record 'a PaginatedList =
  paginatedList_items :: "'a list"
  paginatedList_page :: int
  paginatedList_pageSize :: int
  paginatedList_totalCount :: int

record LoginRequest =
  loginRequest_username :: string
  loginRequest_password :: string

record LoginResponse =
  loginResponse_token :: string
  loginResponse_challengeToken :: "string option"
  loginResponse_totpRequired :: "bool option"

record TOTPLoginRequest =
  totpLoginRequest_challengeToken :: string
  totpLoginRequest_code :: string
  totpLoginRequest_isRecovery :: "bool option"

record TOTPStatus =
  totpStatus_enabled :: bool
  totpStatus_remainingRecoveryCodes :: int

record TOTPSetup =
  totpSetup_secret :: string
  totpSetup_uri :: string

record TOTPVerifyResponse =
  totpVerifyResponse_recoveryCodes :: "string list"

record User =
  user_id :: string
  user_username :: string
  user_role :: UserRole
  user_provider :: UserProvider
  user_enabled :: bool
  user_notify :: bool
  user_firstName :: "string option"
  user_lastName :: "string option"
  user_email :: "string option"
  user_calendarToken :: "string option"
  user_totpEnabled :: bool
  user_createdAt :: string
  user_updatedAt :: string

type_synonym UserList = "User PaginatedList"

record EndpointCert =
  endpointCert_fingerprint :: string
  endpointCert_certUse :: string
  endpointCert_isCurrent :: bool
  endpointCert_commonName :: string
  endpointCert_notBefore :: string
  endpointCert_notAfter :: string
  endpointCert_firstSeenAt :: string
  endpointCert_lastSeenAt :: string

record TagWithCategory =
  tagWithCategory_id :: string
  tagWithCategory_categoryId :: string
  tagWithCategory_categoryName :: string
  tagWithCategory_name :: string
  tagWithCategory_description :: "string option"

record EndpointListItem =
  endpointListItem_id :: string
  endpointListItem_name :: string
  endpointListItem_type :: string
  endpointListItem_dnsName :: string
  endpointListItem_port :: int
  endpointListItem_url :: "string option"
  endpointListItem_enabled :: bool
  endpointListItem_scanExempt :: bool
  endpointListItem_scannerId :: "string option"
  endpointListItem_scannerName :: "string option"
  endpointListItem_earliestExpiry :: "string option"
  endpointListItem_lastScannedAt :: "string option"
  endpointListItem_lastScanError :: "string option"
  endpointListItem_errorSince :: "string option"
  endpointListItem_lastResolvedIp :: "string option"
  endpointListItem_tags :: "TagWithCategory list"

type_synonym EndpointList = "EndpointListItem PaginatedList"

record HistoricalEndpointItem = EndpointListItem +
  historicalEndpointItem_lastSeenAt :: string

record SAMLMetadataEndpoint =
  samlMetadataEndpoint_binding :: string
  samlMetadataEndpoint_location :: string
  samlMetadataEndpoint_index :: "int option"
  samlMetadataEndpoint_isDefault :: "bool option"

record SAMLMetadataContact =
  samlMetadataContact_type :: string
  samlMetadataContact_givenName :: "string option"
  samlMetadataContact_surname :: "string option"
  samlMetadataContact_emailAddress :: "string option"
  samlMetadataContact_company :: "string option"

record SAMLMetadataOrganization =
  samlMetadataOrganization_name :: "string option"
  samlMetadataOrganization_displayName :: "string option"
  samlMetadataOrganization_url :: "string option"

record SAMLMetadata =
  samlMetadata_entityId :: "string option"
  samlMetadata_validUntil :: "string option"
  samlMetadata_cacheDuration :: "string option"
  samlMetadata_role :: "string option"
  samlMetadata_singleSignOn :: "SAMLMetadataEndpoint list option"
  samlMetadata_singleLogout :: "SAMLMetadataEndpoint list option"
  samlMetadata_assertionConsumer :: "SAMLMetadataEndpoint list option"
  samlMetadata_nameIdFormats :: "string list option"
  samlMetadata_organization :: "SAMLMetadataOrganization option"
  samlMetadata_contacts :: "SAMLMetadataContact list option"
  samlMetadata_wantAssertionsSigned :: "bool option"
  samlMetadata_authnRequestsSigned :: "bool option"

record Endpoint =
  endpoint_id :: string
  endpoint_name :: string
  endpoint_type :: string
  endpoint_dnsName :: string
  endpoint_ipAddress :: "string option"
  endpoint_lastResolvedIp :: "string option"
  endpoint_port :: int
  endpoint_url :: "string option"
  endpoint_samlMetadata :: "SAMLMetadata option"
  endpoint_samlFetchedAt :: "string option"
  endpoint_enabled :: bool
  endpoint_scanExempt :: bool
  endpoint_scannerId :: "string option"
  endpoint_scannerName :: "string option"
  endpoint_activeCerts :: "EndpointCert list"
  endpoint_lastScannedAt :: "string option"
  endpoint_lastScanError :: "string option"
  endpoint_errorSince :: "string option"
  endpoint_notes :: "string option"
  endpoint_createdAt :: string
  endpoint_updatedAt :: string

record CreateEndpointRequest =
  createEndpointRequest_name :: string
  createEndpointRequest_type :: "string option"
  createEndpointRequest_dnsName :: "string option"
  createEndpointRequest_ipAddress :: "string option"
  createEndpointRequest_port :: "int option"
  createEndpointRequest_url :: "string option"
  createEndpointRequest_scannerId :: "string option"
  createEndpointRequest_notes :: "string option"

record UpdateEndpointRequest =
  updateEndpointRequest_name :: string
  updateEndpointRequest_type :: "string option"
  updateEndpointRequest_dnsName :: "string option"
  updateEndpointRequest_ipAddress :: "string option"
  updateEndpointRequest_port :: "int option"
  updateEndpointRequest_url :: "string option"
  updateEndpointRequest_enabled :: bool
  updateEndpointRequest_scanExempt :: "bool option"
  updateEndpointRequest_scannerId :: "string option"
  updateEndpointRequest_notes :: "string option"

record PatchEndpointRequest =
  patchEndpointRequest_name :: "string option"
  patchEndpointRequest_dnsName :: "string option"
  patchEndpointRequest_ipAddress :: "string option option"
  patchEndpointRequest_port :: "int option"
  patchEndpointRequest_url :: "string option option"
  patchEndpointRequest_enabled :: "bool option"
  patchEndpointRequest_scanExempt :: "bool option"
  patchEndpointRequest_scannerId :: "string option option"
  patchEndpointRequest_notes :: "string option option"

record EndpointScanHistoryItem =
  endpointScanHistoryItem_id :: string
  endpointScanHistoryItem_endpointId :: string
  endpointScanHistoryItem_scannedAt :: string
  endpointScanHistoryItem_fingerprint :: "string option"
  endpointScanHistoryItem_resolvedIp :: "string option"
  endpointScanHistoryItem_tlsVersion :: "string option"
  endpointScanHistoryItem_scanError :: "string option"

type_synonym EndpointScanHistoryList = "EndpointScanHistoryItem PaginatedList"

record CertificateListItem =
  certificateListItem_fingerprint :: string
  certificateListItem_commonName :: string
  certificateListItem_sans :: "string list"
  certificateListItem_notBefore :: string
  certificateListItem_notAfter :: string
  certificateListItem_issuerFingerprint :: "string option"
  certificateListItem_createdAt :: string

type_synonym CertificateList = "CertificateListItem PaginatedList"

record CertReferences =
  certReferences_currentEndpoints :: int
  certReferences_historicalEndpoints :: int
  certReferences_scanHistory :: int
  certReferences_issuedCerts :: int

record CertificateDetail =
  certificateDetail_fingerprint :: string
  certificateDetail_commonName :: string
  certificateDetail_sans :: "string list"
  certificateDetail_notBefore :: string
  certificateDetail_notAfter :: string
  certificateDetail_serialNumber :: string
  certificateDetail_subjectKeyId :: string
  certificateDetail_authorityKeyId :: "string option"
  certificateDetail_issuerFingerprint :: "string option"
  certificateDetail_createdAt :: string
  certificateDetail_pem :: string
  certificateDetail_subjectOrg :: string
  certificateDetail_subjectOrgUnit :: string
  certificateDetail_issuerCn :: string
  certificateDetail_issuerOrg :: string
  certificateDetail_keyAlgorithm :: string
  certificateDetail_keySize :: int
  certificateDetail_signatureAlgorithm :: string
  certificateDetail_keyUsages :: "string list"
  certificateDetail_extKeyUsages :: "string list"
  certificateDetail_ocspUrls :: "string list"
  certificateDetail_crlDistributionPoints :: "string list"
  certificateDetail_trustedBy :: "string list"
  certificateDetail_isTrustAnchor :: bool

record RootStoreSummary =
  rootStoreSummary_id :: string
  rootStoreSummary_name :: string
  rootStoreSummary_kind :: string
  rootStoreSummary_sourceUrl :: string
  rootStoreSummary_anchorCount :: int
  rootStoreSummary_updatedAt :: "string option"

record RootStoreAnchorItem =
  rootStoreAnchorItem_fingerprint :: string
  rootStoreAnchorItem_commonName :: string
  rootStoreAnchorItem_subjectOrg :: string
  rootStoreAnchorItem_notAfter :: string
  rootStoreAnchorItem_issuerFingerprint :: "string option"

record RootStoreAnchorList =
  rootStoreAnchorList_items :: "RootStoreAnchorItem list"
  rootStoreAnchorList_page :: int
  rootStoreAnchorList_pageSize :: int
  rootStoreAnchorList_totalCount :: int

record SearchEndpoint =
  searchEndpoint_id :: string
  searchEndpoint_name :: string
  searchEndpoint_type :: string
  searchEndpoint_subtitle :: string

record SearchCertificate =
  searchCertificate_fingerprint :: string
  searchCertificate_commonName :: string
  searchCertificate_notAfter :: string

record SearchScanner =
  searchScanner_id :: string
  searchScanner_name :: string

record SearchResults =
  searchResults_endpoints :: "SearchEndpoint list"
  searchResults_certificates :: "SearchCertificate list"
  searchResults_scanners :: "SearchScanner list"

record IngestCertificateRequest =
  ingestCertificateRequest_certificatePem :: "string option"
  ingestCertificateRequest_certificateDerBase64 :: "string option"

record ScannerToken =
  scannerToken_id :: string
  scannerToken_name :: string
  scannerToken_isDefault :: bool
  scannerToken_scanCronExpression :: string
  scannerToken_scanConcurrency :: int
  scannerToken_createdAt :: string
  scannerToken_lastUsedAt :: "string option"

record PatchScannerRequest =
  patchScannerRequest_name :: "string option"
  patchScannerRequest_scanCronExpression :: "string option"
  patchScannerRequest_scanConcurrency :: "int option"

record ScannerTokenCreated = ScannerToken +
  scannerTokenCreated_token :: string

record ScannerTokenRegenerated =
  scannerTokenRegenerated_id :: string
  scannerTokenRegenerated_token :: string

record TLSFinding =
  tlsFinding_name :: string
  tlsFinding_reason :: string
  tlsFinding_severity :: TLSSeverity

record TLSClassification =
  tlsClassification_versions :: "TLSFinding list"
  tlsClassification_cipherSuites :: "TLSFinding list"
  tlsClassification_overallSeverity :: TLSSeverity

record TLSScore =
  tlsScore_protocolScore :: int
  tlsScore_keyExchangeScore :: "int option"
  tlsScore_cipherScore :: int
  tlsScore_score :: int
  tlsScore_grade :: TLSGrade
  tlsScore_warnings :: "string list option"

record EndpointTLSProfile =
  endpointTLSProfile_endpointId :: string
  endpointTLSProfile_scannedAt :: string
  endpointTLSProfile_ssl30 :: bool
  endpointTLSProfile_tls10 :: bool
  endpointTLSProfile_tls11 :: bool
  endpointTLSProfile_tls12 :: bool
  endpointTLSProfile_tls13 :: bool
  endpointTLSProfile_cipherSuites :: "string list"
  endpointTLSProfile_selectedCipher :: "string option"
  endpointTLSProfile_scanError :: "string option"
  endpointTLSProfile_classification :: TLSClassification
  endpointTLSProfile_score :: TLSScore

record BuildInfo =
  buildInfo_version :: string
  buildInfo_commit :: string
  buildInfo_buildTime :: string

record MailConfig =
  mailConfig_enabled :: bool
  mailConfig_smtpHost :: string
  mailConfig_smtpPort :: int
  mailConfig_authType :: MailAuthType
  mailConfig_smtpUsername :: string
  mailConfig_passwordSet :: bool
  mailConfig_fromAddress :: string
  mailConfig_fromName :: string
  mailConfig_tlsMode :: MailTlsMode
  mailConfig_updatedAt :: string

record Group =
  group_id :: string
  group_name :: string
  group_description :: "string option"
  group_createdAt :: string
  group_updatedAt :: string

record GroupList =
  groupList_items :: "Group list"
  groupList_page :: int
  groupList_pageSize :: int
  groupList_totalCount :: int

record AuditLog =
  auditLog_id :: string
  auditLog_userId :: "string option"
  auditLog_username :: string
  auditLog_action :: string
  auditLog_resourceType :: "string option"
  auditLog_resourceId :: "string option"
  auditLog_resourceLabel :: "string option"
  auditLog_ipAddress :: "string option"
  auditLog_details :: "(string \<times> json) list option"
  auditLog_createdAt :: string

type_synonym AuditLogList = "AuditLog PaginatedList"

record Tag =
  tag_id :: string
  tag_categoryId :: string
  tag_name :: string
  tag_description :: "string option"
  tag_createdAt :: string

record TagCategory =
  tagCategory_id :: string
  tagCategory_name :: string
  tagCategory_description :: "string option"
  tagCategory_createdAt :: string

record CategoryWithTags = TagCategory +
  categoryWithTags_tags :: "Tag list"

record BulkImportRow =
  bulkImportRow_name :: string
  bulkImportRow_type :: string
  bulkImportRow_dnsName :: "string option"
  bulkImportRow_port :: "int option"
  bulkImportRow_ipAddress :: "string option"
  bulkImportRow_url :: "string option"
  bulkImportRow_scannerId :: "string option"
  bulkImportRow_notes :: "string option"

record BulkImportRequest =
  bulkImportRequest_rows :: "BulkImportRow list"

record BulkImportRowResult =
  bulkImportRowResult_row :: int
  bulkImportRowResult_name :: string
  bulkImportRowResult_id :: "string option"
  bulkImportRowResult_error :: "string option"

record BulkImportResponse =
  bulkImportResponse_created :: int
  bulkImportResponse_failed :: int
  bulkImportResponse_results :: "BulkImportRowResult list"

record DiscoveryNetwork =
  discoveryNetwork_id :: string
  discoveryNetwork_name :: string
  discoveryNetwork_range :: string
  discoveryNetwork_ports :: "int list"
  discoveryNetwork_scannerId :: "string option"
  discoveryNetwork_scannerName :: "string option"
  discoveryNetwork_cronExpression :: string
  discoveryNetwork_enabled :: bool
  discoveryNetwork_createdAt :: string
  discoveryNetwork_updatedAt :: string

record DiscoveryNetworkList =
  discoveryNetworkList_items :: "DiscoveryNetwork list"
  discoveryNetworkList_totalCount :: int

record CreateDiscoveryNetworkRequest =
  createDiscoveryNetworkRequest_name :: string
  createDiscoveryNetworkRequest_range :: string
  createDiscoveryNetworkRequest_ports :: "int list"
  createDiscoveryNetworkRequest_scannerId :: "string option"
  createDiscoveryNetworkRequest_cronExpression :: string
  createDiscoveryNetworkRequest_enabled :: bool

type_synonym UpdateDiscoveryNetworkRequest = CreateDiscoveryNetworkRequest

record DiscoveryInboxItem =
  discoveryInboxItem_id :: string
  discoveryInboxItem_networkId :: "string option"
  discoveryInboxItem_networkName :: "string option"
  discoveryInboxItem_scannerId :: "string option"
  discoveryInboxItem_scannerName :: "string option"
  discoveryInboxItem_ip :: string
  discoveryInboxItem_rdns :: "string option"
  discoveryInboxItem_port :: int
  discoveryInboxItem_fingerprint :: "string option"
  discoveryInboxItem_commonName :: "string option"
  discoveryInboxItem_sans :: "string list"
  discoveryInboxItem_notAfter :: "string option"
  discoveryInboxItem_status :: string
  discoveryInboxItem_endpointId :: "string option"
  discoveryInboxItem_endpointName :: "string option"
  discoveryInboxItem_firstSeenAt :: string
  discoveryInboxItem_lastSeenAt :: string

record DiscoveryInboxList =
  discoveryInboxList_items :: "DiscoveryInboxItem list"
  discoveryInboxList_totalCount :: int

record TLSProtocolCounts =
  tlsProtocolCounts_tls13 :: int
  tlsProtocolCounts_tls12 :: int
  tlsProtocolCounts_tls11 :: int
  tlsProtocolCounts_tls10 :: int
  tlsProtocolCounts_ssl30 :: int

record TLSCipherCount =
  tlsCipherCount_cipher :: string
  tlsCipherCount_count :: int
  tlsCipherCount_severity :: TLSSeverity
  tlsCipherCount_reason :: "string option"

record TLSIssuerCount =
  tlsIssuerCount_issuer :: string
  tlsIssuerCount_count :: int

record TLSAttentionItem =
  tlsAttentionItem_endpointId :: string
  tlsAttentionItem_endpointName :: string
  tlsAttentionItem_issues :: "string list"
  tlsAttentionItem_severity :: TLSSeverity

record TLSPostureReport =
  tlsPostureReport_totalEndpoints :: int
  tlsPostureReport_scannedEndpoints :: int
  tlsPostureReport_weakCipherEndpoints :: int
  tlsPostureReport_protocols :: TLSProtocolCounts
  tlsPostureReport_legacyEndpoints :: int
  tlsPostureReport_ciphers :: "TLSCipherCount list"
  tlsPostureReport_issuers :: "TLSIssuerCount list"
  tlsPostureReport_attention :: "TLSAttentionItem list"

record ResolveResponse =
  resolveResponse_hostname :: string
  resolveResponse_addresses :: "string list"

end
