(* ===== verification/Permissions.thy ===== *)
theory Permissions
  imports JsCollections
begin

section \<open>Roles and permissions (\<open>lib/permissions.ts\<close>)\<close>

text \<open>
  The permission constants, the role table and \<open>hasPermission\<close>, with the table of the server
  (\<open>internal/permission/permission.go\<close>) that the client declares to mirror. The role table is a
  plain object, so looking a role up by an arbitrary name can find a member inherited from
  \<open>Object.prototype\<close>, on which \<open>includes\<close> is not a function: that read throws.
\<close>

subsection \<open>The client's table\<close>

datatype PERM =
    EndpointsView | EndpointsEdit | CertsView | CertsEdit | SelfAccess | ScannersView
  | ScannersEdit | UsersView | UsersEdit | UsersCredentials | APIKeysAdmin | GroupsView
  | GroupsEdit | SettingsView | SettingsEdit | TagsView | TagsEdit | LogsView | Maintenance
  | DiscoveryView | DiscoveryEdit

primrec perm_string :: "PERM \<Rightarrow> string" where
  "perm_string EndpointsView = ''endpoints:view''"
| "perm_string EndpointsEdit = ''endpoints:edit''"
| "perm_string CertsView = ''certs:view''"
| "perm_string CertsEdit = ''certs:edit''"
| "perm_string SelfAccess = ''self:access''"
| "perm_string ScannersView = ''scanners:view''"
| "perm_string ScannersEdit = ''scanners:edit''"
| "perm_string UsersView = ''users:view''"
| "perm_string UsersEdit = ''users:edit''"
| "perm_string UsersCredentials = ''users:credentials''"
| "perm_string APIKeysAdmin = ''apikeys:admin''"
| "perm_string GroupsView = ''groups:view''"
| "perm_string GroupsEdit = ''groups:edit''"
| "perm_string SettingsView = ''settings:view''"
| "perm_string SettingsEdit = ''settings:edit''"
| "perm_string TagsView = ''tags:view''"
| "perm_string TagsEdit = ''tags:edit''"
| "perm_string LogsView = ''logs:view''"
| "perm_string Maintenance = ''maintenance''"
| "perm_string DiscoveryView = ''discovery:view''"
| "perm_string DiscoveryEdit = ''discovery:edit''"

definition rolePermissions :: "string list js_object" where
  "rolePermissions =
     [(''admin'', [''*'']),
      (''operator'', map perm_string
        [EndpointsView, EndpointsEdit, CertsView, ScannersView, UsersView, GroupsView,
         SettingsView, TagsView, TagsEdit, LogsView, Maintenance, DiscoveryView, DiscoveryEdit,
         SelfAccess]),
      (''viewer'', map perm_string
        [EndpointsView, CertsView, GroupsView, TagsView, DiscoveryView, SelfAccess])]"

text \<open>\<open>None\<close> is the \<open>TypeError\<close> of calling \<open>includes\<close> on an inherited member.\<close>

definition hasPermission :: "string \<Rightarrow> string \<Rightarrow> bool option" where
  "hasPermission role perm =
     (case obj_get rolePermissions role of
        Inherited \<Rightarrow> None
      | Undefined \<Rightarrow> Some False
      | Own perms \<Rightarrow> Some (''*'' \<in> set perms \<or> perm \<in> set perms))"

subsection \<open>The server's table\<close>

definition RolePermissions :: "string \<rightharpoonup> string list" where
  "RolePermissions =
     [''admin'' \<mapsto> [''*''],
      ''viewer'' \<mapsto> [''endpoints:view'', ''certs:view'', ''groups:view'', ''tags:view'',
                     ''discovery:view'', ''self:access''],
      ''operator'' \<mapsto> [''endpoints:view'', ''endpoints:edit'', ''certs:view'', ''scanners:view'',
                       ''users:view'', ''groups:view'', ''settings:view'', ''tags:view'',
                       ''tags:edit'', ''logs:view'', ''maintenance'', ''discovery:view'',
                       ''discovery:edit'', ''self:access'']]"

fun has_loop :: "string list \<Rightarrow> string \<Rightarrow> bool" where
  "has_loop [] perm = False"
| "has_loop (p # ps) perm = (if p = ''*'' \<or> p = perm then True else has_loop ps perm)"

definition Has :: "string \<Rightarrow> string \<Rightarrow> bool" where
  "Has role perm = (case RolePermissions role of None \<Rightarrow> False | Some perms \<Rightarrow> has_loop perms perm)"

subsection \<open>Lemmas\<close>

lemma has_loop_iff: "has_loop ps perm \<longleftrightarrow> ''*'' \<in> set ps \<or> perm \<in> set ps"
  by (induction ps) auto

lemma roles_not_inherited:
  "''admin'' \<notin> set object_prototype_members" "''operator'' \<notin> set object_prototype_members"
  "''viewer'' \<notin> set object_prototype_members"
  by (simp_all add: object_prototype_members_def)

lemma rolePermissions_known:
  "map_of rolePermissions role = None \<longleftrightarrow> role \<notin> {''admin'', ''operator'', ''viewer''}"
  by (auto simp: rolePermissions_def)

lemma RolePermissions_known:
  "RolePermissions role = None \<longleftrightarrow> role \<notin> {''admin'', ''operator'', ''viewer''}"
  by (auto simp: RolePermissions_def)

lemma tables_agree:
  assumes "role \<in> {''admin'', ''operator'', ''viewer''}"
  shows "\<exists>ps qs. map_of rolePermissions role = Some ps \<and> RolePermissions role = Some qs \<and> set ps = set qs"
  using assms by (auto simp: rolePermissions_def RolePermissions_def)

lemma perm_string_inj [simp]: "perm_string p = perm_string q \<longleftrightarrow> p = q"
  by (cases p; cases q) simp_all

lemma perm_string_not_star [simp]: "perm_string p \<noteq> ''*''"
  by (cases p) simp_all

lemma hasPermission_own:
  "map_of rolePermissions role = Some perms \<Longrightarrow>
     hasPermission role perm = Some (''*'' \<in> set perms \<or> perm \<in> set perms)"
  by (simp add: hasPermission_def obj_get_def)

lemma hasPermission_admin: "hasPermission ''admin'' perm = Some True"
  using hasPermission_own [of "''admin''" "[''*'']" perm] by (simp add: rolePermissions_def)

lemma perm_string_in_map: "perm_string p \<in> set (map perm_string ps) \<longleftrightarrow> p \<in> set ps"
  by (induction ps) auto

lemma star_not_in_map: "''*'' \<notin> set (map perm_string ps)"
  by (induction ps) (auto dest: sym)

lemma hasPermission_unknown_role:
  "role \<notin> {''admin'', ''operator'', ''viewer''} \<Longrightarrow> hasPermission role perm \<noteq> Some True"
  using rolePermissions_known [of role]
  by (auto simp: hasPermission_def obj_get_def split: option.splits)

definition operator_perms :: "PERM list" where
  "operator_perms =
     [EndpointsView, EndpointsEdit, CertsView, ScannersView, UsersView, GroupsView, SettingsView,
      TagsView, TagsEdit, LogsView, Maintenance, DiscoveryView, DiscoveryEdit, SelfAccess]"

definition viewer_perms :: "PERM list" where
  "viewer_perms = [EndpointsView, CertsView, GroupsView, TagsView, DiscoveryView, SelfAccess]"

lemma hasPermission_operator: "hasPermission ''operator'' (perm_string p) = Some (p \<in> set operator_perms)"
proof -
  have "map_of rolePermissions ''operator'' = Some (map perm_string operator_perms)"
    by (simp add: rolePermissions_def operator_perms_def)
  then show ?thesis
    by (simp only: hasPermission_own perm_string_in_map star_not_in_map simp_thms)
qed

lemma hasPermission_viewer: "hasPermission ''viewer'' (perm_string p) = Some (p \<in> set viewer_perms)"
proof -
  have "map_of rolePermissions ''viewer'' = Some (map perm_string viewer_perms)"
    by (simp add: rolePermissions_def viewer_perms_def)
  then show ?thesis
    by (simp only: hasPermission_own perm_string_in_map star_not_in_map simp_thms)
qed

lemmas hasPermission_roles = hasPermission_admin hasPermission_operator hasPermission_viewer

lemma hasPermission_server:
  assumes "role \<notin> set object_prototype_members"
  shows "hasPermission role perm = Some (Has role perm)"
proof (cases "role \<in> {''admin'', ''operator'', ''viewer''}")
  case True
  then obtain ps qs where "map_of rolePermissions role = Some ps" "RolePermissions role = Some qs"
    "set ps = set qs" using tables_agree by blast
  then show ?thesis by (simp add: hasPermission_own Has_def has_loop_iff)
next
  case False
  then have "map_of rolePermissions role = None" "RolePermissions role = None"
    using rolePermissions_known RolePermissions_known by blast+
  with assms show ?thesis by (simp add: hasPermission_def obj_get_def Has_def)
qed

lemma hasPermission_inherited:
  "role \<in> set object_prototype_members \<Longrightarrow> hasPermission role perm = None"
  using rolePermissions_known [of role] roles_not_inherited
  by (auto simp: hasPermission_def obj_get_def split: option.split)

subsection \<open>Properties\<close>

text \<open>\<^bold>\<open>C1\<close>: the client's permission check agrees with the server's for every permission and every role
  name, except that it throws (instead of answering no) for a role named like a member of
  \<open>Object.prototype\<close>.\<close>

theorem client_mirrors_server:
  "hasPermission role perm =
     (if role \<in> set object_prototype_members then None else Some (Has role perm))"
  using hasPermission_server hasPermission_inherited by auto

text \<open>The permissions that edit certificates, scanners, users, credentials, API keys, groups
  and settings are granted to the administrator and to no other role name whatsoever; every
  permission of a viewer is one of an operator.\<close>

lemma privileged_permissions_admin_only:
  "hasPermission role (perm_string p) = Some True \<longleftrightarrow>
     role = ''admin''
     \<or> role = ''operator'' \<and> p \<notin> {CertsEdit, ScannersEdit, UsersEdit, UsersCredentials,
                                    APIKeysAdmin, GroupsEdit, SettingsEdit}
     \<or> role = ''viewer'' \<and> p \<in> {EndpointsView, CertsView, GroupsView, TagsView, DiscoveryView,
                                 SelfAccess}"
proof (cases "role \<in> {''admin'', ''operator'', ''viewer''}")
  case True
  have "p \<in> set operator_perms \<longleftrightarrow> p \<notin> {CertsEdit, ScannersEdit, UsersEdit, UsersCredentials,
      APIKeysAdmin, GroupsEdit, SettingsEdit}"
    by (cases p) (simp_all add: operator_perms_def)
  moreover have "set viewer_perms = {EndpointsView, CertsView, GroupsView, TagsView, DiscoveryView, SelfAccess}"
    by (simp add: viewer_perms_def)
  ultimately show ?thesis
    using True by (elim insertE emptyE) (simp_all add: hasPermission_roles)
next
  case False
  then show ?thesis using hasPermission_unknown_role [of role] by auto
qed

end
