(* ===== verification/ApiClient.thy ===== *)
theory ApiClient
  imports Json Permissions
begin

section \<open>The session token and the fetch helper (\<open>api/client.ts\<close>)\<close>

text \<open>
  The module state is the in-memory token, its copy in \<open>localStorage\<close> and the last assignment to
  \<open>window.location.href\<close>. An operation takes the state and returns it updated. The network is not
  under the client's control: \<open>request\<close> takes the answer of \<open>fetch\<close> as an argument, and theorems
  hold for every answer. The body of an answer is polymorphic: the code casts it to the type the
  caller expects without checking it.

  \<open>hasToken\<close> and \<open>getIdentity\<close> decode the payload of the token themselves; every exception in their
  \<open>try\<close> block (a missing segment, an invalid base64 text, a JSON syntax error, a property read
  on \<open>null\<close>) is the value \<^const>\<open>None\<close> of \<open>token_payload\<close> or of \<open>payload_expired\<close>.
\<close>

subsection \<open>Errors and answers\<close>

text \<open>\<open>ApiError\<close> (\<open>types/api.ts\<close>) carries the status; every other error is told apart by its message only.\<close>

datatype js_exn = ApiError int string | OtherError string

type_synonym 'b outcome = "js_exn + 'b option"

fun is_ApiError :: "js_exn \<Rightarrow> bool" where
  "is_ApiError (ApiError _ _) = True"
| "is_ApiError (OtherError _) = False"

text \<open>The idiom \<open>err instanceof ApiError ? err.message : fallback\<close>.\<close>

fun api_message :: "string \<Rightarrow> js_exn \<Rightarrow> string" where
  "api_message fallback (ApiError _ m) = m"
| "api_message fallback (OtherError _) = fallback"

record 'b http_response =
  res_status :: int
  res_statusText :: string
  res_contentType :: "string option"
  res_text :: string
  res_json :: "'b option"

datatype 'b fetch_result = FetchFailed string | Fetched "'b http_response"

record http_call =
  call_method :: string
  call_url :: string
  call_headers :: "(string \<times> string) list"
  call_body :: "json option"

subsection \<open>Token storage\<close>

record client =
  client_token :: "string option"
  client_storage :: "string \<rightharpoonup> string"
  client_href :: "string option"

definition BASE :: string where
  "BASE = ''/api/v1''"

text \<open>Loading the module reads the token back from \<open>localStorage\<close>.\<close>

definition client_load :: "(string \<rightharpoonup> string) \<Rightarrow> client" where
  "client_load storage = \<lparr>client_token = storage ''token'', client_storage = storage, client_href = None\<rparr>"

definition setToken :: "string \<Rightarrow> client \<Rightarrow> client" where
  "setToken token c =
     c\<lparr>client_token := Some token, client_storage := (client_storage c)(''token'' \<mapsto> token)\<rparr>"

definition clearToken :: "client \<Rightarrow> client" where
  "clearToken c = c\<lparr>client_token := None, client_storage := (client_storage c)(''token'' := None)\<rparr>"

subsection \<open>Reading the token\<close>

definition token_payload :: "string \<Rightarrow> json option" where
  "token_payload tok =
     (case split_char (CHR ''.'') tok of
        _ # p # _ \<Rightarrow> Option.bind (atob (from_url_alphabet p)) json_parse
      | _ \<Rightarrow> None)"

text \<open>
  \<open>payload.exp && Date.now() / 1000 > payload.exp\<close>, with the clock in milliseconds. A string is
  converted to a number as far as the decimal literals go; a comparison with \<open>NaN\<close> is false.
\<close>

fun json_truthy :: "json \<Rightarrow> bool" where
  "json_truthy JNull = False"
| "json_truthy (JBool b) = b"
| "json_truthy (JNum m e) = (m \<noteq> 0)"
| "json_truthy (JStr s) = (s \<noteq> [])"
| "json_truthy (JArr _) = True"
| "json_truthy (JObj _) = True"

fun json_number :: "json \<Rightarrow> (int \<times> int) option" where
  "json_number JNull = Some (0, 0)"
| "json_number (JBool b) = Some (if b then 1 else 0, 0)"
| "json_number (JNum m e) = Some (m, e)"
| "json_number (JStr s) =
     (if trim s = [] then Some (0, 0)
      else case parse_number (trim s) of Some (JNum m e, []) \<Rightarrow> Some (m, e) | _ \<Rightarrow> None)"
| "json_number _ = None"

definition clock_exceeds :: "int \<Rightarrow> int \<times> int \<Rightarrow> bool" where
  "clock_exceeds now x =
     (case x of (m, e) \<Rightarrow>
        if e \<ge> 0 then now > 1000 * m * 10 ^ nat e else now * 10 ^ nat (- e) > 1000 * m)"

definition payload_expired :: "int \<Rightarrow> json \<Rightarrow> bool option" where
  "payload_expired now payload =
     (case payload of
        JNull \<Rightarrow> None
      | _ \<Rightarrow>
          (case json_field payload ''exp'' of
             None \<Rightarrow> Some False
           | Some x \<Rightarrow>
               Some (json_truthy x \<and>
                     (case json_number x of None \<Rightarrow> False | Some q \<Rightarrow> clock_exceeds now q))))"

definition hasToken :: "int \<Rightarrow> client \<Rightarrow> bool \<times> client" where
  "hasToken now c =
     (case client_token c of
        None \<Rightarrow> (False, c)
      | Some tok \<Rightarrow>
          if tok = [] then (False, c)
          else
            (case Option.bind (token_payload tok) (payload_expired now) of
               None \<Rightarrow> (False, clearToken c)
             | Some expired \<Rightarrow> if expired then (False, clearToken c) else (True, c)))"

definition getIdentity :: "client \<Rightarrow> json option" where
  "getIdentity c =
     (case client_token c of
        None \<Rightarrow> None
      | Some tok \<Rightarrow> if tok = [] then None else token_payload tok)"

text \<open>\<open>getIdentity()?.role\<close>.\<close>

definition identity_role :: "client \<Rightarrow> json option" where
  "identity_role c = Option.bind (getIdentity c) (\<lambda>payload. json_field payload ''role'')"

text \<open>The property key a value is converted to when it indexes the role table.\<close>

fun json_key :: "json \<Rightarrow> string" where
  "json_key JNull = []"
| "json_key (JBool b) = (if b then ''true'' else ''false'')"
| "json_key (JNum m e) = (if e \<ge> 0 then show_int (m * 10 ^ nat e) else show_int m @ ''e'' @ show_int e)"
| "json_key (JStr s) = s"
| "json_key (JArr vs) = join '','' (map json_key vs)"
| "json_key (JObj _) = ''[object Object]''"

definition isAdmin :: "client \<Rightarrow> bool" where
  "isAdmin c \<longleftrightarrow> identity_role c = Some (JStr ''admin'')"

definition can :: "string \<Rightarrow> client \<Rightarrow> bool option" where
  "can perm c = hasPermission (case identity_role c of None \<Rightarrow> [] | Some r \<Rightarrow> json_key r) perm"

subsection \<open>The fetch helper\<close>

definition request_headers :: "client \<Rightarrow> (string \<times> string) list" where
  "request_headers c =
     (''Content-Type'', ''application/json'') #
     (case client_token c of
        None \<Rightarrow> []
      | Some tok \<Rightarrow> if tok = [] then [] else [(''Authorization'', ''Bearer '' @ tok)])"

definition res_ok :: "'b http_response \<Rightarrow> bool" where
  "res_ok res \<longleftrightarrow> 200 \<le> res_status res \<and> res_status res \<le> 299"

definition read_answer :: "client \<Rightarrow> 'b fetch_result \<Rightarrow> client \<times> 'b outcome" where
  "read_answer c answer =
     (case answer of
        FetchFailed m \<Rightarrow> (c, Inl (OtherError m))
      | Fetched res \<Rightarrow>
          if \<not> res_ok res then
            (if res_status res = 401
             then ((clearToken c)\<lparr>client_href := Some ''/login''\<rparr>, Inr None)
             else (c, Inl (ApiError (res_status res)
                     (if trim (res_text res) = [] then res_statusText res else trim (res_text res)))))
          else if \<not> js_includes (nullish (res_contentType res) []) ''application/json''
          then (c, Inr None)
          else (case res_json res of
                  None \<Rightarrow> (c, Inl (OtherError ''SyntaxError''))
                | Some v \<Rightarrow> (c, Inr (Some v))))"

type_synonym 'b api_call = "client \<Rightarrow> 'b fetch_result \<Rightarrow> http_call \<times> client \<times> 'b outcome"

definition request :: "string \<Rightarrow> string \<Rightarrow> json option \<Rightarrow> 'b api_call" where
  "request meth path body c answer =
     (\<lparr>call_method = meth, call_url = BASE @ path, call_headers = request_headers c, call_body = body\<rparr>,
      read_answer c answer)"

definition api_get :: "string \<Rightarrow> 'b api_call" where
  "api_get path = request ''GET'' path None"

definition api_post :: "string \<Rightarrow> json option \<Rightarrow> 'b api_call" where
  "api_post path body = request ''POST'' path body"

definition api_put :: "string \<Rightarrow> json option \<Rightarrow> 'b api_call" where
  "api_put path body = request ''PUT'' path body"

definition api_patch :: "string \<Rightarrow> json option \<Rightarrow> 'b api_call" where
  "api_patch path body = request ''PATCH'' path body"

definition api_delete :: "string \<Rightarrow> json option \<Rightarrow> 'b api_call" where
  "api_delete path body = request ''DELETE'' path body"

lemmas api_verbs = api_get_def api_post_def api_put_def api_patch_def api_delete_def

subsection \<open>What the pages rely on: a persisted session\<close>

text \<open>
  The interface between the session module and the pages: \<open>current\<close> is the token the next request
  carries, \<open>persisted\<close> the one a page reload starts from. The laws say that the two change together.
\<close>

locale session_store =
  fixes current :: "'s \<Rightarrow> string option"
    and persisted :: "'s \<Rightarrow> string option"
    and save :: "string \<Rightarrow> 's \<Rightarrow> 's"
    and wipe :: "'s \<Rightarrow> 's"
    and reload :: "'s \<Rightarrow> 's"
  assumes current_save: "current (save t s) = Some t"
    and persisted_save: "persisted (save t s) = Some t"
    and current_wipe: "current (wipe s) = None"
    and persisted_wipe: "persisted (wipe s) = None"
    and current_reload: "current (reload s) = persisted s"
    and persisted_reload: "persisted (reload s) = persisted s"
begin

lemma save_in_sync: "current (save t s) = persisted (save t s)"
  by (simp add: current_save persisted_save)

lemma wipe_in_sync: "current (wipe s) = persisted (wipe s)"
  by (simp add: current_wipe persisted_wipe)

lemma reload_in_sync: "current (reload s) = persisted (reload s)"
  by (simp add: current_reload persisted_reload)

lemma session_survives_reload: "current (reload (save t s)) = Some t"
  by (simp add: current_reload persisted_save)

lemma logout_survives_reload: "current (reload (wipe s)) = None"
  by (simp add: current_reload persisted_wipe)

end

definition stored_token :: "client \<Rightarrow> string option" where
  "stored_token c = client_storage c ''token''"

interpretation client_session: session_store client_token stored_token setToken clearToken
  "\<lambda>c. client_load (client_storage c)"
  by unfold_locales (simp_all add: stored_token_def setToken_def clearToken_def client_load_def)

definition in_sync :: "client \<Rightarrow> bool" where
  "in_sync c \<longleftrightarrow> client_token c = stored_token c"

lemma in_sync_setToken: "in_sync (setToken t c)"
  unfolding in_sync_def by (rule client_session.save_in_sync)

lemma in_sync_clearToken: "in_sync (clearToken c)"
  unfolding in_sync_def by (rule client_session.wipe_in_sync)

lemma in_sync_load: "in_sync (client_load storage)"
  using client_session.reload_in_sync [of "\<lparr>client_token = None, client_storage = storage, client_href = None\<rparr>"]
  by (simp add: in_sync_def)

lemma in_sync_href [simp]: "in_sync (c\<lparr>client_href := h\<rparr>) \<longleftrightarrow> in_sync c"
  by (simp add: in_sync_def stored_token_def)

lemma hasToken_cases:
  "hasToken now c = (True, c) \<or> hasToken now c = (False, c) \<and> \<not> truthy (client_token c)
     \<or> hasToken now c = (False, clearToken c)"
  by (auto simp: hasToken_def split: option.splits)

lemma read_answer_cases:
  "fst (read_answer c a) = c \<or> fst (read_answer c a) = (clearToken c)\<lparr>client_href := Some ''/login''\<rparr>"
  by (auto simp: read_answer_def split: fetch_result.splits option.splits)

lemma snd_read_answer_client_independent: "snd (read_answer c a) = snd (read_answer c' a)"
  by (auto simp: read_answer_def split: fetch_result.splits option.splits)

lemma read_answer_error:
  "snd (read_answer c a) = Inl e \<Longrightarrow> fst (read_answer c a) = c"
  by (auto simp: read_answer_def split: fetch_result.splits option.splits if_splits)

text \<open>The answers that \<open>request\<close> turns into a value.\<close>

definition delivers :: "'b fetch_result \<Rightarrow> 'b \<Rightarrow> bool" where
  "delivers answer v \<longleftrightarrow>
     (\<exists>res. answer = Fetched res \<and> res_ok res \<and> js_includes (nullish (res_contentType res) []) ''application/json''
        \<and> res_json res = Some v)"

lemma read_answer_delivers: "delivers answer v \<Longrightarrow> read_answer c answer = (c, Inr (Some v))"
  by (auto simp: delivers_def read_answer_def)

lemma read_answer_value: "snd (read_answer c answer) = Inr (Some v) \<longleftrightarrow> delivers answer v"
  by (auto simp: delivers_def read_answer_def split: fetch_result.splits option.splits if_splits)

lemma read_answer_undefined:
  "snd (read_answer c answer) = Inr None \<Longrightarrow>
     (\<exists>res. answer = Fetched res \<and> (res_ok res \<or> res_status res = 401 \<and> client_token (fst (read_answer c answer)) = None))"
  by (auto simp: read_answer_def clearToken_def split: fetch_result.splits option.splits if_splits)

subsection \<open>Runs of the session module\<close>

text \<open>Every way the pages touch the session, in any order.\<close>

inductive session_step :: "client \<Rightarrow> client \<Rightarrow> bool" where
  sign_in: "session_step c (setToken t c)"
| sign_out: "session_step c (clearToken c)"
| guard: "session_step c (snd (hasToken now c))"
| call: "request meth path body c (answer :: json fetch_result) = (k, c', r) \<Longrightarrow> session_step c c'"
| page_reload: "session_step c (client_load (client_storage c))"

inductive session_reachable :: "client \<Rightarrow> bool" where
  start: "session_reachable (client_load storage)"
| step: "session_reachable c \<Longrightarrow> session_step c c' \<Longrightarrow> session_reachable c'"

inductive_cases session_stepE [elim]: "session_step c c'"

lemma session_step_in_sync:
  assumes "session_step c c'" and "in_sync c"
  shows "in_sync c'"
  using assms(1)
proof cases
  case (guard now)
  then show ?thesis
    using hasToken_cases [of now c] assms(2) in_sync_clearToken by auto
next
  case (call meth path body answer k r)
  then have "c' = fst (read_answer c answer)" by (simp add: request_def)
  then show ?thesis using read_answer_cases [of c answer] assms(2) in_sync_clearToken by auto
qed (simp_all add: in_sync_setToken in_sync_clearToken in_sync_load)

subsection \<open>Tokens as the server issues them\<close>

text \<open>\<open>header.payload.signature\<close>, the payload an ASCII JSON text in unpadded base64url.\<close>

definition jwt :: "string \<Rightarrow> string \<Rightarrow> string \<Rightarrow> string" where
  "jwt header payload sig = header @ ''.'' @ b64url_encode (map charCode payload) @ ''.'' @ sig"

lemma token_payload_jwt:
  assumes "CHR ''.'' \<notin> set header" and "\<forall>c \<in> set payload. charCode c < 128"
  shows "token_payload (jwt header payload sig) = json_parse payload"
proof -
  let ?p = "b64url_encode (map charCode payload)"
  have bytes: "\<forall>b \<in> set (map charCode payload). b < 256" by simp
  have "CHR ''.'' \<notin> set ?p" using bytes by (rule b64url_no_dot)
  then have "split_char (CHR ''.'') (?p @ CHR ''.'' # sig) = ?p # split_char (CHR ''.'') sig"
    by (rule split_char_append)
  then have "split_char (CHR ''.'') (jwt header payload sig) = header # ?p # split_char (CHR ''.'') sig"
    using split_char_append [OF assms(1), of "?p @ CHR ''.'' # sig"] by (simp add: jwt_def)
  moreover have "atob (from_url_alphabet ?p) = Some payload"
    using atob_b64url [OF bytes] utf8_unit_ascii [OF assms(2)] by simp
  ultimately show ?thesis by (simp add: token_payload_def)
qed

lemma jwt_not_Nil [simp]: "jwt header payload sig \<noteq> []"
  by (simp add: jwt_def)

subsection \<open>Properties\<close>

text \<open>\<^bold>\<open>C2\<close>: no call of the API client ever rejects with an \<open>ApiError\<close> of status 401. A 401 answer wipes the
  in-memory and the stored token, sends the browser to \<open>/login\<close> and resolves to \<open>undefined\<close>.\<close>

theorem request_never_throws_401:
  "snd (snd (request meth path body c answer)) \<noteq> Inl (ApiError 401 m)
   \<and> snd (request meth path body c (Fetched (res\<lparr>res_status := 401\<rparr>))) =
       ((clearToken c)\<lparr>client_href := Some ''/login''\<rparr>, Inr None)"
  by (auto simp: request_def read_answer_def res_ok_def split: fetch_result.splits option.splits)



text \<open>For a token as the server issues them, with a numeric expiry in its payload, the route guard
  lets the user in exactly while the clock has not passed the expiry; afterwards the guard answers no
  and the session is wiped from memory and storage.\<close>

lemma hasToken_until_expiry:
  assumes "client_token c = Some (jwt header payload sig)"
    and "CHR ''.'' \<notin> set header" and "\<forall>x \<in> set payload. charCode x < 128"
    and "json_parse payload = Some (JObj fs)" and "map_of fs ''exp'' = Some (jint e)" and "e \<noteq> 0"
  shows "hasToken now c = (if now \<le> 1000 * e then (True, c) else (False, clearToken c))
     \<and> (\<not> now \<le> 1000 * e \<longrightarrow> client_storage (snd (hasToken now c)) ''token'' = None)"
proof -
  have p: "token_payload (jwt header payload sig) = Some (JObj fs)"
    using token_payload_jwt [OF assms(2,3)] assms(4) by simp
  have "payload_expired now (JObj fs) = Some (now > 1000 * e)"
    using assms(5,6) by (simp add: payload_expired_def clock_exceeds_def)
  then have "hasToken now c = (if now \<le> 1000 * e then (True, c) else (False, clearToken c))"
    using assms(1) p by (auto simp: hasToken_def)
  then show ?thesis by (simp add: clearToken_def)
qed

definition example_payload :: string where
  "example_payload = ''{'' @ [CHR 0x22] @ ''exp'' @ [CHR 0x22] @ '':1700000000,'' @ [CHR 0x22] @ ''role''
     @ [CHR 0x22] @ '':'' @ [CHR 0x22] @ ''viewer'' @ [CHR 0x22] @ ''}''"

lemma example_payload_parse:
  "json_parse example_payload = Some (JObj [(''exp'', jint 1700000000), (''role'', JStr ''viewer'')])"
  by (simp add: json_parse_def example_payload_def json_eval)

lemma hasToken_until_expiry_witness:
  "fst (hasToken 1699999999999 (setToken (jwt ''h'' example_payload ''s'') (client_load (\<lambda>_. None))))
   \<and> \<not> fst (hasToken 1700000000001 (setToken (jwt ''h'' example_payload ''s'') (client_load (\<lambda>_. None))))"
proof -
  let ?c = "setToken (jwt ''h'' example_payload ''s'') (client_load (\<lambda>_. None))"
  have tok: "client_token ?c = Some (jwt ''h'' example_payload ''s'')" by (simp add: setToken_def)
  have h: "CHR ''.'' \<notin> set ''h''" by simp
  have ascii: "\<forall>x \<in> set example_payload. charCode x < 128"
    by (simp add: example_payload_def charCode_def)
  have e: "map_of [(''exp'', jint 1700000000), (''role'', JStr ''viewer'')] ''exp'' = Some (jint 1700000000)"
    by simp
  show ?thesis
    using hasToken_until_expiry [OF tok h ascii example_payload_parse e, of 1699999999999]
      hasToken_until_expiry [OF tok h ascii example_payload_parse e, of 1700000000001] by simp
qed

text \<open>What the client lets a signed-in user do is what the server's own permission table grants to
  the role in the token, whatever the page asks for.\<close>

lemma can_follows_server_table:
  assumes "client_token c = Some (jwt header payload sig)"
    and "CHR ''.'' \<notin> set header" and "\<forall>x \<in> set payload. charCode x < 128"
    and "json_parse payload = Some (JObj fs)" and "map_of fs ''role'' = Some (JStr role)"
    and "role \<notin> set object_prototype_members"
  shows "can perm c = Some (Has role perm) \<and> (isAdmin c \<longleftrightarrow> role = ''admin'')"
proof -
  have "token_payload (jwt header payload sig) = Some (JObj fs)"
    using token_payload_jwt [OF assms(2,3)] assms(4) by simp
  then have "identity_role c = Some (JStr role)"
    using assms(1,5) by (simp add: identity_role_def getIdentity_def)
  then show ?thesis
    using assms(6) by (simp add: can_def isAdmin_def hasPermission_server)
qed

lemma can_follows_server_table_witness:
  "can ''endpoints:edit'' (setToken (jwt ''h'' example_payload ''s'') (client_load (\<lambda>_. None))) = Some False"
proof -
  let ?c = "setToken (jwt ''h'' example_payload ''s'') (client_load (\<lambda>_. None))"
  have tok: "client_token ?c = Some (jwt ''h'' example_payload ''s'')" by (simp add: setToken_def)
  have h: "CHR ''.'' \<notin> set ''h''" by simp
  have ascii: "\<forall>x \<in> set example_payload. charCode x < 128"
    by (simp add: example_payload_def charCode_def)
  have r: "map_of [(''exp'', jint 1700000000), (''role'', JStr ''viewer'')] ''role'' = Some (JStr ''viewer'')"
    by simp
  have v: "''viewer'' \<notin> set object_prototype_members" by (rule roles_not_inherited)
  show ?thesis
    using can_follows_server_table [OF tok h ascii example_payload_parse r v, of "''endpoints:edit''"]
    by (simp add: Has_def RolePermissions_def)
qed

end
