(* ===== verification/UrlEncoding.thy ===== *)
theory UrlEncoding
  imports JsNumbers
begin

section \<open>Query strings: \<open>URLSearchParams\<close> and \<open>encodeURIComponent\<close>\<close>

text \<open>
  The API modules build their query strings with \<open>URLSearchParams\<close> (and two of them with
  \<open>encodeURIComponent\<close>), the pages read filters and the login token back with \<open>URLSearchParams\<close>.
  The interface \<open>query_codec\<close> states what a component encoding must satisfy for a query string to
  be read back as the list of pairs it was built from; both encodings are instances.
\<close>

subsection \<open>Percent encoding\<close>

definition percent_byte :: "char \<Rightarrow> string" where
  "percent_byte c = CHR ''%'' # toUpperCase (byte_hex (charCode c))"

definition form_char :: "char \<Rightarrow> string" where
  "form_char c =
     (if is_alnum c \<or> c \<in> {CHR ''*'', CHR ''-'', CHR ''.'', CHR ''_''} then [c]
      else if c = CHR '' '' then ''+'' else percent_byte c)"

definition form_encode :: "string \<Rightarrow> string" where
  "form_encode s = concat (map form_char s)"

definition uri_char :: "char \<Rightarrow> string" where
  "uri_char c =
     (if is_alnum c \<or> c \<in> {CHR ''-'', CHR ''_'', CHR ''.'', CHR ''!'', CHR ''~'', CHR ''*'',
                            CHR 0x27, CHR ''('', CHR '')''} then [c]
      else percent_byte c)"

definition encodeURIComponent :: "string \<Rightarrow> string" where
  "encodeURIComponent s = concat (map uri_char s)"

fun percent_decode :: "string \<Rightarrow> string" where
  "percent_decode (c # a # b # cs) =
     (if c = CHR ''%'' \<and> digit_val 16 a \<noteq> None \<and> digit_val 16 b \<noteq> None
      then char_of (the (digit_val 16 a) * 16 + the (digit_val 16 b)) # percent_decode cs
      else c # percent_decode (a # b # cs))"
| "percent_decode s = s"

definition form_decode :: "string \<Rightarrow> string" where
  "form_decode s = percent_decode (replace_char (CHR ''+'') (CHR '' '') s)"

subsection \<open>Search parameters\<close>

type_synonym search_params = "(string \<times> string) list"

definition params_pair :: "string \<times> string \<Rightarrow> string" where
  "params_pair kv = form_encode (fst kv) @ ''='' @ form_encode (snd kv)"

definition params_toString :: "search_params \<Rightarrow> string" where
  "params_toString ps = join ''&'' (map params_pair ps)"

definition split_first :: "char \<Rightarrow> string \<Rightarrow> string \<times> string" where
  "split_first c s = (takeWhile (\<lambda>x. x \<noteq> c) s, tl (dropWhile (\<lambda>x. x \<noteq> c) s))"

definition params_parse :: "string \<Rightarrow> search_params" where
  "params_parse s =
     (let t = (if startsWith s ''?'' then drop 1 s else s)
      in map (\<lambda>p. map_prod form_decode form_decode (split_first (CHR ''='') p))
             (filter (\<lambda>p. p \<noteq> []) (split_char (CHR ''&'') t)))"

definition params_get :: "search_params \<Rightarrow> string \<Rightarrow> string option" where
  "params_get ps k = map_of ps k"

definition params_has :: "search_params \<Rightarrow> string \<Rightarrow> bool" where
  "params_has ps k \<longleftrightarrow> map_of ps k \<noteq> None"

definition params_delete :: "string \<Rightarrow> search_params \<Rightarrow> search_params" where
  "params_delete k ps = filter (\<lambda>kv. fst kv \<noteq> k) ps"

text \<open>\<open>set\<close>: replace the first pair of that name and drop the others, or append.\<close>

fun params_set :: "string \<Rightarrow> string \<Rightarrow> search_params \<Rightarrow> search_params" where
  "params_set k v [] = [(k, v)]"
| "params_set k v ((k', v') # ps) =
     (if k' = k then (k, v) # params_delete k ps else (k', v') # params_set k v ps)"

text \<open>The idiom \<open>if (v) params.set(k, v)\<close> of the API modules.\<close>

definition params_set_if :: "string \<Rightarrow> string \<Rightarrow> search_params \<Rightarrow> search_params" where
  "params_set_if k v ps = (if v = [] then ps else params_set k v ps)"

lemma params_get_set: "params_get (params_set k v ps) x = (if x = k then Some v else params_get ps x)"
proof (induction ps)
  case (Cons p ps)
  have "x \<noteq> k \<Longrightarrow> map_of (params_delete k ps) x = map_of ps x" for ps
    by (induction ps) (auto simp: params_delete_def)
  with Cons show ?case by (cases p) (auto simp: params_get_def)
qed (simp add: params_get_def)

lemma params_get_set_if:
  "params_get (params_set_if k v ps) x =
     (if x = k \<and> v \<noteq> [] then Some v else params_get ps x)"
  by (simp add: params_set_if_def params_get_set)

lemma params_get_delete: "params_get (params_delete k ps) x = (if x = k then None else params_get ps x)"
  by (induction ps) (auto simp: params_get_def params_delete_def)

lemma startsWith_singleton: "startsWith s [c] \<longleftrightarrow> s \<noteq> [] \<and> hd s = c"
  by (cases s) (auto simp: startsWith_def)

subsection \<open>The round trip, for any component encoding\<close>

locale query_codec =
  fixes enc :: "string \<Rightarrow> string" and dec :: "string \<Rightarrow> string"
  assumes dec_enc: "dec (enc s) = s"
    and enc_clean: "c \<in> set (enc s) \<Longrightarrow> c \<noteq> CHR ''&'' \<and> c \<noteq> CHR ''='' \<and> c \<noteq> CHR ''?''"
begin

lemma split_enc_pair: "split_first (CHR ''='') (enc k @ ''='' @ enc v) = (enc k, enc v)"
proof -
  have "\<forall>c \<in> set (enc k). c \<noteq> CHR ''=''" using enc_clean by blast
  then show ?thesis by (simp add: split_first_def takeWhile_append2 dropWhile_append2)
qed

lemma split_enc_pairs:
  assumes "ps \<noteq> []"
  shows "split_char (CHR ''&'') (join ''&'' (map (\<lambda>kv. enc (fst kv) @ ''='' @ enc (snd kv)) ps)) =
           map (\<lambda>kv. enc (fst kv) @ ''='' @ enc (snd kv)) ps"
  using assms enc_clean by (intro split_char_join) auto

lemma read_back_pairs:
  "map (\<lambda>p. map_prod dec dec (split_first (CHR ''='') p))
     (filter (\<lambda>p. p \<noteq> []) (map (\<lambda>kv. enc (fst kv) @ ''='' @ enc (snd kv)) ps)) = ps"
  using split_enc_pair by (induction ps) (simp_all add: dec_enc)

lemma hd_not_question:
  "\<not> startsWith (join ''&'' (map (\<lambda>kv. enc (fst kv) @ ''='' @ enc (snd kv)) ps)) ''?''"
proof (cases ps)
  case (Cons kv rest)
  have "hd (enc (fst kv) @ ''='' @ enc (snd kv)) \<noteq> CHR ''?''"
    using enc_clean [of "hd (enc (fst kv))" "fst kv"] by (cases "enc (fst kv)") auto
  moreover have "hd (join ''&'' (map (\<lambda>kv. enc (fst kv) @ ''='' @ enc (snd kv)) ps)) =
      hd (enc (fst kv) @ ''='' @ enc (snd kv))"
    unfolding Cons by (cases rest; cases "enc (fst kv)") auto
  ultimately show ?thesis by (simp add: startsWith_singleton)
qed (simp add: startsWith_def)

end

subsection \<open>The two encodings are codecs\<close>

lemma percent_byte_eq:
  "percent_byte c = [CHR ''%'', to_upper (digit_char (charCode c div 16)), to_upper (digit_char (charCode c mod 16))]"
  by (simp add: percent_byte_def byte_hex_digits toUpperCase_def)

lemma percent_decode_byte: "percent_decode (percent_byte c @ s) = c # percent_decode s"
proof -
  have "charCode c div 16 < 16" using code_less [of c] by linarith
  then show ?thesis
    by (simp add: percent_byte_eq digit_val_to_upper)
qed

lemma percent_decode_plain: "c \<noteq> CHR ''%'' \<Longrightarrow> percent_decode (c # s) = c # percent_decode s"
  by (cases s; cases "tl s") auto

lemma upper_digit_not_plus: "n < 16 \<Longrightarrow> to_upper (digit_char n) \<noteq> CHR ''+''"
proof -
  assume "n < 16"
  then have "digit_val 16 (to_upper (digit_char n)) = Some n"
    by (simp add: digit_val_to_upper)
  moreover have "digit_val 16 (CHR ''+'') = None" by code_simp
  ultimately show ?thesis by auto
qed

lemma replace_plus_percent_byte: "replace_char (CHR ''+'') (CHR '' '') (percent_byte c) = percent_byte c"
proof -
  have "charCode c div 16 < 16" using code_less [of c] by linarith
  then show ?thesis
    by (simp add: percent_byte_eq replace_char_def upper_digit_not_plus)
qed

lemma alnum_not_special:
  "is_alnum c \<Longrightarrow> c \<notin> {CHR ''%'', CHR ''+'', CHR ''&'', CHR ''='', CHR ''?'', CHR '' '', CHR ''#''}"
  by (auto simp: is_alnum_def is_digit_def is_lower_def is_upper_def charCode_def)

lemma form_decode_char: "form_decode (form_char c @ s) = c # form_decode s"
proof -
  have "form_char c = [c] \<and> c \<noteq> CHR ''%'' \<and> c \<noteq> CHR ''+''
      \<or> form_char c = ''+'' \<and> c = CHR '' '' \<or> form_char c = percent_byte c"
    using alnum_not_special [of c] by (auto simp: form_char_def)
  then consider (plain) "form_char c = [c]" "c \<noteq> CHR ''%''" "c \<noteq> CHR ''+''"
    | (space) "form_char c = ''+''" "c = CHR '' ''"
    | (byte) "form_char c = percent_byte c" by blast
  then show ?thesis
  proof cases
    case plain
    then show ?thesis by (simp add: form_decode_def replace_char_def percent_decode_plain)
  next
    case space
    then show ?thesis by (simp add: form_decode_def replace_char_def percent_decode_plain)
  next
    case byte
    then show ?thesis
      using replace_plus_percent_byte [of c]
      by (simp add: form_decode_def percent_decode_byte replace_char_def)
  qed
qed

lemma uri_decode_char: "form_decode (uri_char c @ s) = c # form_decode s"
proof -
  have "uri_char c = [c] \<and> c \<noteq> CHR ''%'' \<and> c \<noteq> CHR ''+'' \<or> uri_char c = percent_byte c"
    using alnum_not_special [of c] by (auto simp: uri_char_def)
  then consider (plain) "uri_char c = [c]" "c \<noteq> CHR ''%''" "c \<noteq> CHR ''+''"
    | (byte) "uri_char c = percent_byte c" by blast
  then show ?thesis
  proof cases
    case plain
    then show ?thesis by (simp add: form_decode_def replace_char_def percent_decode_plain)
  next
    case byte
    then show ?thesis
      using replace_plus_percent_byte [of c]
      by (simp add: form_decode_def percent_decode_byte replace_char_def)
  qed
qed

lemma percent_byte_clean:
  "x \<in> set (percent_byte c) \<Longrightarrow> x \<noteq> CHR ''&'' \<and> x \<noteq> CHR ''='' \<and> x \<noteq> CHR ''?''"
proof -
  assume "x \<in> set (percent_byte c)"
  moreover have "charCode c div 16 < 16" "charCode c mod 16 < 16" using code_less [of c] by linarith+
  ultimately have "x = CHR ''%'' \<or> (\<exists>n < 16. x = to_upper (digit_char n))"
    unfolding percent_byte_eq by (metis empty_iff empty_set set_ConsD)
  then have "x = CHR ''%'' \<or> digit_val 16 x \<noteq> None" by (auto simp: digit_val_to_upper)
  moreover have "digit_val 16 (CHR ''&'') = None" "digit_val 16 (CHR ''='') = None"
    "digit_val 16 (CHR ''?'') = None" by code_simp+
  ultimately show ?thesis by auto
qed

interpretation form_codec: query_codec form_encode form_decode
proof
  fix s show "form_decode (form_encode s) = s"
    by (induction s) (simp_all add: form_encode_def form_decode_char, simp add: form_decode_def replace_char_def)
next
  fix c s assume "c \<in> set (form_encode s)"
  then obtain x where "c \<in> set (form_char x)" by (auto simp: form_encode_def)
  then show "c \<noteq> CHR ''&'' \<and> c \<noteq> CHR ''='' \<and> c \<noteq> CHR ''?''"
    using alnum_not_special [of x] percent_byte_clean [of c x]
    by (auto simp: form_char_def split: if_splits)
qed

interpretation uri_codec: query_codec encodeURIComponent form_decode
proof
  fix s show "form_decode (encodeURIComponent s) = s"
    by (induction s) (simp_all add: encodeURIComponent_def uri_decode_char, simp add: form_decode_def replace_char_def)
next
  fix c s assume "c \<in> set (encodeURIComponent s)"
  then obtain x where "c \<in> set (uri_char x)" by (auto simp: encodeURIComponent_def)
  then show "c \<noteq> CHR ''&'' \<and> c \<noteq> CHR ''='' \<and> c \<noteq> CHR ''?''"
    using alnum_not_special [of x] percent_byte_clean [of c x]
    by (auto simp: uri_char_def split: if_splits)
qed

text \<open>Plain words are encoded as they are.\<close>

lemma form_plain: "\<forall>c \<in> set s. is_alnum c \<or> c \<in> {CHR ''*'', CHR ''-'', CHR ''.'', CHR ''_''} \<Longrightarrow> form_encode s = s"
  unfolding form_encode_def by (induction s) (simp_all add: form_char_def)

lemma uri_plain: "\<forall>c \<in> set s. is_alnum c \<or> c \<in> {CHR ''-'', CHR ''_'', CHR ''.''} \<Longrightarrow> encodeURIComponent s = s"
  unfolding encodeURIComponent_def by (induction s) (auto simp: uri_char_def)


lemma params_roundtrip: "params_parse (params_toString ps) = ps"
proof (cases "ps = []")
  case False
  have eq: "params_toString ps = join ''&'' (map (\<lambda>kv. form_encode (fst kv) @ ''='' @ form_encode (snd kv)) ps)"
    by (simp add: params_toString_def params_pair_def [abs_def])
  have noq: "\<not> startsWith (params_toString ps) ''?''"
    unfolding eq by (rule form_codec.hd_not_question)
  have "split_char (CHR ''&'') (params_toString ps) =
      map (\<lambda>kv. form_encode (fst kv) @ ''='' @ form_encode (snd kv)) ps"
    unfolding eq by (rule form_codec.split_enc_pairs [OF False])
  then show ?thesis
    unfolding params_parse_def Let_def using noq form_codec.read_back_pairs [of ps] by simp
qed (simp add: params_parse_def params_toString_def startsWith_def)

text \<open>The part of an address behind the question mark, and a query of one pair that is encoded by hand.\<close>

definition address_query :: "string \<Rightarrow> string" where
  "address_query url = snd (split_first (CHR ''?'') url)"

lemma address_query_append: "\<forall>c \<in> set path. c \<noteq> CHR ''?'' \<Longrightarrow> address_query (path @ ''?'' @ query) = query"
  by (simp add: address_query_def split_first_def dropWhile_append2)

lemma params_parse_uri_pair:
  assumes "encodeURIComponent k = k"
  shows "params_parse (k @ ''='' @ encodeURIComponent v) = [(k, v)]"
proof -
  have eq: "k @ ''='' @ encodeURIComponent v =
      join ''&'' (map (\<lambda>kv. encodeURIComponent (fst kv) @ ''='' @ encodeURIComponent (snd kv)) [(k, v)])"
    by (simp add: assms)
  show ?thesis
    unfolding params_parse_def eq
    using uri_codec.hd_not_question [of "[(k, v)]"] uri_codec.split_enc_pairs [of "[(k, v)]"]
      uri_codec.read_back_pairs [of "[(k, v)]"] by simp
qed

end
