(* ===== verification/ApiCalls.thy ===== *)
theory ApiCalls
  imports ApiTypes ApiClient UrlEncoding
begin

section \<open>The API modules (\<open>api/*.ts\<close>)\<close>

text \<open>
  One definition per exported function of \<open>src/web/src/api\<close>: the verb, the path with its
  interpolated arguments, the query string and the body it hands to \<open>request\<close>. As in the source, a
  filter that is the empty string is left out of the query; \<open>page\<close> and \<open>page_size\<close> always come first.

  A request body is the JSON value that \<open>JSON.stringify\<close> writes, its members in the order of the
  interface: \<open>undefined\<close> members are left out (\<^const>\<open>None\<close>), a \<open>null\<close> member is \<^const>\<open>JNull\<close>. An
  optional nullable member is therefore a \<^typ>\<open>string option option\<close>.
\<close>

subsection \<open>Interfaces declared by the API modules\<close>

record APIKey =
  apiKey_id :: string
  apiKey_name :: string
  apiKey_prefix :: string
  apiKey_lastUsedAt :: "string option"
  apiKey_createdAt :: string

record CreatedAPIKey = APIKey +
  createdAPIKey_token :: string

record AdminAPIKey = APIKey +
  adminAPIKey_userId :: string
  adminAPIKey_username :: string

record ExpiringCertItem =
  expiringCertItem_endpointId :: string
  expiringCertItem_endpointName :: string
  expiringCertItem_endpointType :: string
  expiringCertItem_fingerprint :: string
  expiringCertItem_commonName :: string
  expiringCertItem_sans :: "string list"
  expiringCertItem_issuerCn :: string
  expiringCertItem_notAfter :: string
  expiringCertItem_daysRemaining :: int
  expiringCertItem_tags :: "TagWithCategory list"

record ExpiringCertList =
  expiringCertList_items :: "ExpiringCertItem list"
  expiringCertList_page :: int
  expiringCertList_pageSize :: int
  expiringCertList_totalCount :: int

record PromoteDiscoveryInboxRequest =
  promoteDiscoveryInboxRequest_name :: string
  promoteDiscoveryInboxRequest_dnsName :: string
  promoteDiscoveryInboxRequest_enabled :: bool
  promoteDiscoveryInboxRequest_scannerId :: "string option"

record GroupRequest =
  groupRequest_name :: string
  groupRequest_description :: "string option option"
  groupRequest_hostIds :: "string list"

record SaveMailConfigRequest =
  saveMailConfigRequest_enabled :: bool
  saveMailConfigRequest_smtpHost :: string
  saveMailConfigRequest_smtpPort :: int
  saveMailConfigRequest_authType :: string
  saveMailConfigRequest_smtpUsername :: string
  saveMailConfigRequest_smtpPassword :: string
  saveMailConfigRequest_fromAddress :: string
  saveMailConfigRequest_fromName :: string
  saveMailConfigRequest_tlsMode :: string

record TemplateVariable =
  templateVariable_name :: string
  templateVariable_description :: string

record NotificationTemplate =
  notificationTemplate_eventType :: string
  notificationTemplate_channel :: string
  notificationTemplate_label :: string
  notificationTemplate_subject :: "string option"
  notificationTemplate_body :: string
  notificationTemplate_format :: string
  notificationTemplate_isCustom :: bool
  notificationTemplate_variables :: "TemplateVariable list"

record AlertThresholdsResponse =
  alertThresholdsResponse_thresholds :: "int list"

record ScanHistoryRetentionResponse =
  scanHistoryRetentionResponse_days :: int

record ScheduledJob =
  scheduledJob_name :: string
  scheduledJob_displayName :: string
  scheduledJob_cronExpression :: string
  scheduledJob_enabled :: bool
  scheduledJob_lastRunAt :: "string option"
  scheduledJob_lastRunStatus :: "string option"

record PurgeResponse =
  purgeResponse_deleted :: int

record AuditLogRetentionResponse =
  auditLogRetentionResponse_days :: int

record RefreshRootStoresResponse =
  refreshRootStoresResponse_status :: string

record CreateUserRequest =
  createUserRequest_username :: string
  createUserRequest_password :: "string option"
  createUserRequest_role :: string
  createUserRequest_provider :: string
  createUserRequest_notify :: bool
  createUserRequest_firstName :: "string option option"
  createUserRequest_lastName :: "string option option"
  createUserRequest_email :: "string option option"

record UpdateUserRequest =
  updateUserRequest_username :: string
  updateUserRequest_role :: string
  updateUserRequest_provider :: string
  updateUserRequest_notify :: bool
  updateUserRequest_firstName :: "string option option"
  updateUserRequest_lastName :: "string option option"
  updateUserRequest_email :: "string option option"

record UpdateMeRequest =
  updateMeRequest_notify :: bool
  updateMeRequest_firstName :: "string option option"
  updateMeRequest_lastName :: "string option option"
  updateMeRequest_email :: "string option option"

record CalendarTokenResponse =
  calendarTokenResponse_calendarToken :: string

text \<open>The answers of the other purge runs have the same shape.\<close>

type_synonym PurgeScanHistoryResponse = PurgeResponse

type_synonym PurgeAuditLogsResponse = PurgeResponse

type_synonym PurgeExpiryAlertsResponse = PurgeResponse

type_synonym PurgeUnreferencedCertsResponse = PurgeResponse

text \<open>The empty string of the source's unions is the first constructor: no filter.\<close>

datatype EndpointTypeFilter = AnyType | HostType | SamlType | ManualType

datatype ProtocolFilter = AnyProtocol | Ssl30 | Tls10 | Tls11 | Tls12 | Tls13

fun type_filter_string :: "EndpointTypeFilter \<Rightarrow> string" where
  "type_filter_string AnyType = []"
| "type_filter_string HostType = ''host''"
| "type_filter_string SamlType = ''saml''"
| "type_filter_string ManualType = ''manual''"

fun protocol_filter_string :: "ProtocolFilter \<Rightarrow> string" where
  "protocol_filter_string AnyProtocol = []"
| "protocol_filter_string Ssl30 = ''ssl30''"
| "protocol_filter_string Tls10 = ''tls10''"
| "protocol_filter_string Tls11 = ''tls11''"
| "protocol_filter_string Tls12 = ''tls12''"
| "protocol_filter_string Tls13 = ''tls13''"

subsection \<open>Request bodies\<close>

definition json_LoginRequest :: "LoginRequest \<Rightarrow> json" where
  "json_LoginRequest r = jobject
     [(''username'', Some (JStr (loginRequest_username r))),
      (''password'', Some (JStr (loginRequest_password r)))]"

definition json_TOTPLoginRequest :: "TOTPLoginRequest \<Rightarrow> json" where
  "json_TOTPLoginRequest r = jobject
     [(''challengeToken'', Some (JStr (totpLoginRequest_challengeToken r))),
      (''code'', Some (JStr (totpLoginRequest_code r))),
      (''isRecovery'', map_option JBool (totpLoginRequest_isRecovery r))]"

definition json_IngestCertificateRequest :: "IngestCertificateRequest \<Rightarrow> json" where
  "json_IngestCertificateRequest r = jobject
     [(''certificatePem'', map_option JStr (ingestCertificateRequest_certificatePem r)),
      (''certificateDerBase64'', map_option JStr (ingestCertificateRequest_certificateDerBase64 r))]"

definition json_CreateEndpointRequest :: "CreateEndpointRequest \<Rightarrow> json" where
  "json_CreateEndpointRequest r = jobject
     [(''name'', Some (JStr (createEndpointRequest_name r))),
      (''type'', map_option JStr (createEndpointRequest_type r)),
      (''dnsName'', map_option JStr (createEndpointRequest_dnsName r)),
      (''ipAddress'', map_option JStr (createEndpointRequest_ipAddress r)),
      (''port'', map_option jint (createEndpointRequest_port r)),
      (''url'', map_option JStr (createEndpointRequest_url r)),
      (''scannerId'', map_option JStr (createEndpointRequest_scannerId r)),
      (''notes'', map_option JStr (createEndpointRequest_notes r))]"

definition json_UpdateEndpointRequest :: "UpdateEndpointRequest \<Rightarrow> json" where
  "json_UpdateEndpointRequest r = jobject
     [(''name'', Some (JStr (updateEndpointRequest_name r))),
      (''type'', map_option JStr (updateEndpointRequest_type r)),
      (''dnsName'', map_option JStr (updateEndpointRequest_dnsName r)),
      (''ipAddress'', map_option JStr (updateEndpointRequest_ipAddress r)),
      (''port'', map_option jint (updateEndpointRequest_port r)),
      (''url'', map_option JStr (updateEndpointRequest_url r)),
      (''enabled'', Some (JBool (updateEndpointRequest_enabled r))),
      (''scanExempt'', map_option JBool (updateEndpointRequest_scanExempt r)),
      (''scannerId'', map_option JStr (updateEndpointRequest_scannerId r)),
      (''notes'', map_option JStr (updateEndpointRequest_notes r))]"

definition json_PatchEndpointRequest :: "PatchEndpointRequest \<Rightarrow> json" where
  "json_PatchEndpointRequest r = jobject
     [(''name'', map_option JStr (patchEndpointRequest_name r)),
      (''dnsName'', map_option JStr (patchEndpointRequest_dnsName r)),
      (''ipAddress'', map_option jnullable (patchEndpointRequest_ipAddress r)),
      (''port'', map_option jint (patchEndpointRequest_port r)),
      (''url'', map_option jnullable (patchEndpointRequest_url r)),
      (''enabled'', map_option JBool (patchEndpointRequest_enabled r)),
      (''scanExempt'', map_option JBool (patchEndpointRequest_scanExempt r)),
      (''scannerId'', map_option jnullable (patchEndpointRequest_scannerId r)),
      (''notes'', map_option jnullable (patchEndpointRequest_notes r))]"

definition json_PatchScannerRequest :: "PatchScannerRequest \<Rightarrow> json" where
  "json_PatchScannerRequest r = jobject
     [(''name'', map_option JStr (patchScannerRequest_name r)),
      (''scanCronExpression'', map_option JStr (patchScannerRequest_scanCronExpression r)),
      (''scanConcurrency'', map_option jint (patchScannerRequest_scanConcurrency r))]"

definition json_BulkImportRow :: "BulkImportRow \<Rightarrow> json" where
  "json_BulkImportRow r = jobject
     [(''name'', Some (JStr (bulkImportRow_name r))),
      (''type'', Some (JStr (bulkImportRow_type r))),
      (''dnsName'', map_option JStr (bulkImportRow_dnsName r)),
      (''port'', map_option jint (bulkImportRow_port r)),
      (''ipAddress'', map_option JStr (bulkImportRow_ipAddress r)),
      (''url'', map_option JStr (bulkImportRow_url r)),
      (''scannerId'', map_option JStr (bulkImportRow_scannerId r)),
      (''notes'', map_option JStr (bulkImportRow_notes r))]"

definition json_DiscoveryNetworkRequest :: "CreateDiscoveryNetworkRequest \<Rightarrow> json" where
  "json_DiscoveryNetworkRequest r = jobject
     [(''name'', Some (JStr (createDiscoveryNetworkRequest_name r))),
      (''range'', Some (JStr (createDiscoveryNetworkRequest_range r))),
      (''ports'', Some (JArr (map jint (createDiscoveryNetworkRequest_ports r)))),
      (''scannerId'', Some (jnullable (createDiscoveryNetworkRequest_scannerId r))),
      (''cronExpression'', Some (JStr (createDiscoveryNetworkRequest_cronExpression r))),
      (''enabled'', Some (JBool (createDiscoveryNetworkRequest_enabled r)))]"

definition json_BulkImportRequest :: "BulkImportRequest \<Rightarrow> json" where
  "json_BulkImportRequest r = jobject [(''rows'', Some (JArr (map json_BulkImportRow (bulkImportRequest_rows r))))]"

definition json_PromoteDiscoveryInboxRequest :: "PromoteDiscoveryInboxRequest \<Rightarrow> json" where
  "json_PromoteDiscoveryInboxRequest r = jobject
     [(''name'', Some (JStr (promoteDiscoveryInboxRequest_name r))),
      (''dnsName'', Some (JStr (promoteDiscoveryInboxRequest_dnsName r))),
      (''enabled'', Some (JBool (promoteDiscoveryInboxRequest_enabled r))),
      (''scannerId'', Some (jnullable (promoteDiscoveryInboxRequest_scannerId r)))]"

definition json_GroupRequest :: "GroupRequest \<Rightarrow> json" where
  "json_GroupRequest r = jobject
     [(''name'', Some (JStr (groupRequest_name r))),
      (''description'', map_option jnullable (groupRequest_description r)),
      (''hostIds'', Some (JArr (map JStr (groupRequest_hostIds r))))]"

definition json_SaveMailConfigRequest :: "SaveMailConfigRequest \<Rightarrow> json" where
  "json_SaveMailConfigRequest r = jobject
     [(''enabled'', Some (JBool (saveMailConfigRequest_enabled r))),
      (''smtpHost'', Some (JStr (saveMailConfigRequest_smtpHost r))),
      (''smtpPort'', Some (jint (saveMailConfigRequest_smtpPort r))),
      (''authType'', Some (JStr (saveMailConfigRequest_authType r))),
      (''smtpUsername'', Some (JStr (saveMailConfigRequest_smtpUsername r))),
      (''smtpPassword'', Some (JStr (saveMailConfigRequest_smtpPassword r))),
      (''fromAddress'', Some (JStr (saveMailConfigRequest_fromAddress r))),
      (''fromName'', Some (JStr (saveMailConfigRequest_fromName r))),
      (''tlsMode'', Some (JStr (saveMailConfigRequest_tlsMode r)))]"

definition json_CreateUserRequest :: "CreateUserRequest \<Rightarrow> json" where
  "json_CreateUserRequest r = jobject
     [(''username'', Some (JStr (createUserRequest_username r))),
      (''password'', map_option JStr (createUserRequest_password r)),
      (''role'', Some (JStr (createUserRequest_role r))),
      (''provider'', Some (JStr (createUserRequest_provider r))),
      (''notify'', Some (JBool (createUserRequest_notify r))),
      (''firstName'', map_option jnullable (createUserRequest_firstName r)),
      (''lastName'', map_option jnullable (createUserRequest_lastName r)),
      (''email'', map_option jnullable (createUserRequest_email r))]"

definition json_UpdateUserRequest :: "UpdateUserRequest \<Rightarrow> json" where
  "json_UpdateUserRequest r = jobject
     [(''username'', Some (JStr (updateUserRequest_username r))),
      (''role'', Some (JStr (updateUserRequest_role r))),
      (''provider'', Some (JStr (updateUserRequest_provider r))),
      (''notify'', Some (JBool (updateUserRequest_notify r))),
      (''firstName'', map_option jnullable (updateUserRequest_firstName r)),
      (''lastName'', map_option jnullable (updateUserRequest_lastName r)),
      (''email'', map_option jnullable (updateUserRequest_email r))]"

definition json_UpdateMeRequest :: "UpdateMeRequest \<Rightarrow> json" where
  "json_UpdateMeRequest r = jobject
     [(''notify'', Some (JBool (updateMeRequest_notify r))),
      (''firstName'', map_option jnullable (updateMeRequest_firstName r)),
      (''lastName'', map_option jnullable (updateMeRequest_lastName r)),
      (''email'', map_option jnullable (updateMeRequest_email r))]"

subsection \<open>Query strings\<close>

text \<open>\<open>new URLSearchParams({ page, page_size })\<close> followed by the non-empty filters.\<close>

definition paged_params :: "int \<Rightarrow> int \<Rightarrow> search_params" where
  "paged_params page pageSize = [(''page'', show_int page), (''page_size'', show_int pageSize)]"

definition filter_params :: "search_params \<Rightarrow> (string \<times> string) list \<Rightarrow> search_params" where
  "filter_params ps filters = fold (\<lambda>(k, v). params_set_if k v) filters ps"

subsection \<open>API keys (\<open>api/apiKeys.ts\<close>)\<close>

definition listAPIKeys :: "(APIKey list) api_call" where
  "listAPIKeys =
     api_get ''/me/api-keys''"

definition createAPIKey :: "string \<Rightarrow> CreatedAPIKey api_call" where
  "createAPIKey name =
     api_post ''/me/api-keys'' (Some (jobject [(''name'', Some (JStr name))]))"

definition deleteAPIKey :: "string \<Rightarrow> unit api_call" where
  "deleteAPIKey kid =
     api_delete (''/me/api-keys/'' @ kid) None"

definition listAllAPIKeys :: "(AdminAPIKey list) api_call" where
  "listAllAPIKeys =
     api_get ''/admin/api-keys''"

definition revokeAPIKey :: "string \<Rightarrow> unit api_call" where
  "revokeAPIKey kid =
     api_delete (''/admin/api-keys/'' @ kid) None"

subsection \<open>Audit log (\<open>api/audit.ts\<close>)\<close>

definition listAuditLogs :: "int \<Rightarrow> int \<Rightarrow> string \<Rightarrow> string \<Rightarrow> AuditLogList api_call" where
  "listAuditLogs page pageSize username action =
     api_get (''/logs/audit?'' @ params_toString (filter_params (paged_params page pageSize)
       [(''username'', username), (''action'', action)]))"

subsection \<open>Sign-in (\<open>api/auth.ts\<close>)\<close>

definition login :: "LoginRequest \<Rightarrow> LoginResponse api_call" where
  "login req =
     api_post ''/auth/login'' (Some (json_LoginRequest req))"

subsection \<open>Certificates (\<open>api/certificates.ts\<close>)\<close>

definition listCertificates :: "int \<Rightarrow> int \<Rightarrow> string \<Rightarrow> string \<Rightarrow> string \<Rightarrow> CertificateList api_call" where
  "listCertificates page pageSize commonName status sortBy =
     api_get (''/certificates?'' @ params_toString (filter_params (paged_params page pageSize)
       [(''common_name'', commonName), (''status'', status), (''sort'', sortBy)]))"

definition getCertificate :: "string \<Rightarrow> CertificateDetail api_call" where
  "getCertificate fingerprint =
     api_get (''/certificates/'' @ fingerprint)"

definition createCertificate :: "IngestCertificateRequest \<Rightarrow> CertificateDetail api_call" where
  "createCertificate req =
     api_post ''/certificates'' (Some (json_IngestCertificateRequest req))"

definition getCertificateReferences :: "string \<Rightarrow> CertReferences api_call" where
  "getCertificateReferences fingerprint =
     api_get (''/certificates/'' @ fingerprint @ ''/references'')"

definition deleteCertificate :: "string \<Rightarrow> bool \<Rightarrow> unit api_call" where
  "deleteCertificate fingerprint purge =
     api_delete (''/certificates/'' @ fingerprint @ (if purge then ''?purge=true'' else [])) None"

definition getCertificateHosts :: "string \<Rightarrow> (EndpointListItem list) api_call" where
  "getCertificateHosts fingerprint =
     api_get (''/certificates/'' @ fingerprint @ ''/endpoints'')"

definition getCertificateHostsHistorical :: "string \<Rightarrow> (HistoricalEndpointItem list) api_call" where
  "getCertificateHostsHistorical fingerprint =
     api_get (''/certificates/'' @ fingerprint @ ''/endpoints/historical'')"

definition listActive :: "int \<Rightarrow> int \<Rightarrow> string \<Rightarrow> string \<Rightarrow> string \<Rightarrow> string \<Rightarrow> ExpiringCertList api_call" where
  "listActive page pageSize name status sortBy tagId =
     api_get (''/certificates/active?'' @ params_toString (filter_params (paged_params page pageSize)
       [(''name'', name), (''status'', status), (''sort'', sortBy), (''tag_id'', tagId)]))"

definition getExpiringCerts :: "int \<Rightarrow> ExpiringCertList api_call" where
  "getExpiringCerts days =
     api_get (''/certificates/expiring?days='' @ show_int days)"

subsection \<open>Discovery (\<open>api/discovery.ts\<close>)\<close>

definition listDiscoveryNetworks :: "int \<Rightarrow> int \<Rightarrow> DiscoveryNetworkList api_call" where
  "listDiscoveryNetworks page pageSize =
     api_get (''/discovery/networks?page='' @ show_int page @ ''&page_size='' @ show_int pageSize)"

definition getDiscoveryNetwork :: "string \<Rightarrow> DiscoveryNetwork api_call" where
  "getDiscoveryNetwork nid =
     api_get (''/discovery/networks/'' @ nid)"

definition createDiscoveryNetwork :: "CreateDiscoveryNetworkRequest \<Rightarrow> DiscoveryNetwork api_call" where
  "createDiscoveryNetwork req =
     api_post ''/discovery/networks'' (Some (json_DiscoveryNetworkRequest req))"

definition updateDiscoveryNetwork :: "string \<Rightarrow> UpdateDiscoveryNetworkRequest \<Rightarrow> DiscoveryNetwork api_call" where
  "updateDiscoveryNetwork nid req =
     api_put (''/discovery/networks/'' @ nid) (Some (json_DiscoveryNetworkRequest req))"

definition deleteDiscoveryNetwork :: "string \<Rightarrow> unit api_call" where
  "deleteDiscoveryNetwork nid =
     api_delete (''/discovery/networks/'' @ nid) None"

definition listDiscoveryInbox :: "int \<Rightarrow> int \<Rightarrow> string \<Rightarrow> string \<Rightarrow> bool \<Rightarrow> DiscoveryInboxList api_call" where
  "listDiscoveryInbox page pageSize networkId status showDismissed =
     api_get (''/discovery/inbox?'' @ params_toString (filter_params (paged_params page pageSize)
       [(''network_id'', networkId), (''status'', status), (''show_dismissed'', (if showDismissed then ''true'' else []))]))"

definition getDiscoveryInboxItem :: "string \<Rightarrow> DiscoveryInboxItem api_call" where
  "getDiscoveryInboxItem did =
     api_get (''/discovery/inbox/'' @ did)"

definition promoteDiscoveryInboxItem :: "string \<Rightarrow> PromoteDiscoveryInboxRequest \<Rightarrow> Endpoint api_call" where
  "promoteDiscoveryInboxItem did req =
     api_post (''/discovery/inbox/'' @ did @ ''/promote'') (Some (json_PromoteDiscoveryInboxRequest req))"

definition dismissDiscoveryInboxItem :: "string \<Rightarrow> unit api_call" where
  "dismissDiscoveryInboxItem did =
     api_post (''/discovery/inbox/'' @ did @ ''/dismiss'') (Some (JObj []))"

definition deleteDiscoveryInboxItem :: "string \<Rightarrow> unit api_call" where
  "deleteDiscoveryInboxItem did =
     api_delete (''/discovery/inbox/'' @ did) None"

subsection \<open>Endpoints (\<open>api/endpoints.ts\<close>)\<close>

definition listEndpoints :: "int \<Rightarrow> int \<Rightarrow> string \<Rightarrow> string \<Rightarrow> string \<Rightarrow> string \<Rightarrow> EndpointTypeFilter \<Rightarrow> ProtocolFilter \<Rightarrow> string \<Rightarrow> EndpointList api_call" where
  "listEndpoints page pageSize name status sortBy tagId typ protocol cipher =
     api_get (''/endpoints?'' @ params_toString (filter_params (paged_params page pageSize)
       [(''name'', name), (''status'', status), (''sort'', sortBy), (''tag_id'', tagId), (''type'', type_filter_string typ), (''protocol'', protocol_filter_string protocol), (''cipher'', cipher)]))"

definition listErrorEndpoints :: "int \<Rightarrow> int \<Rightarrow> EndpointTypeFilter \<Rightarrow> EndpointList api_call" where
  "listErrorEndpoints page pageSize typ =
     api_get (''/endpoints?'' @ params_toString (filter_params (paged_params page pageSize @ [(''has_error'', ''true'')])
       [(''type'', type_filter_string typ)]))"

definition getEndpoint :: "string \<Rightarrow> Endpoint api_call" where
  "getEndpoint eid =
     api_get (''/endpoints/'' @ eid)"

definition createEndpoint :: "CreateEndpointRequest \<Rightarrow> Endpoint api_call" where
  "createEndpoint req =
     api_post ''/endpoints'' (Some (json_CreateEndpointRequest req))"

definition updateEndpoint :: "string \<Rightarrow> UpdateEndpointRequest \<Rightarrow> Endpoint api_call" where
  "updateEndpoint eid req =
     api_put (''/endpoints/'' @ eid) (Some (json_UpdateEndpointRequest req))"

definition patchEndpoint :: "string \<Rightarrow> PatchEndpointRequest \<Rightarrow> Endpoint api_call" where
  "patchEndpoint eid req =
     api_patch (''/endpoints/'' @ eid) (Some (json_PatchEndpointRequest req))"

definition deleteEndpoint :: "string \<Rightarrow> unit api_call" where
  "deleteEndpoint eid =
     api_delete (''/endpoints/'' @ eid) None"

definition getTLSProfile :: "string \<Rightarrow> EndpointTLSProfile api_call" where
  "getTLSProfile eid =
     api_get (''/endpoints/'' @ eid @ ''/tls-profile'')"

definition getScanHistory :: "string \<Rightarrow> int \<Rightarrow> int \<Rightarrow> EndpointScanHistoryList api_call" where
  "getScanHistory eid page pageSize =
     api_get (''/endpoints/'' @ eid @ ''/history?'' @ params_toString (paged_params page pageSize))"

definition linkCertificate :: "string \<Rightarrow> string \<Rightarrow> Endpoint api_call" where
  "linkCertificate eid pem =
     api_post (''/endpoints/'' @ eid @ ''/certificate'') (Some (jobject [(''pem'', Some (JStr pem))]))"

definition bulkImportEndpoints :: "BulkImportRequest \<Rightarrow> BulkImportResponse api_call" where
  "bulkImportEndpoints req =
     api_post ''/endpoints/bulk'' (Some (json_BulkImportRequest req))"

subsection \<open>Groups (\<open>api/groups.ts\<close>)\<close>

definition listGroups :: "int \<Rightarrow> int \<Rightarrow> GroupList api_call" where
  "listGroups page pageSize =
     api_get (''/groups?'' @ params_toString (paged_params page pageSize))"

definition getGroup :: "string \<Rightarrow> Group api_call" where
  "getGroup gid =
     api_get (''/groups/'' @ gid)"

definition getGroupHostIDs :: "string \<Rightarrow> (string list) api_call" where
  "getGroupHostIDs gid =
     api_get (''/groups/'' @ gid @ ''/endpoints'')"

definition createGroup :: "GroupRequest \<Rightarrow> Group api_call" where
  "createGroup req =
     api_post ''/groups'' (Some (json_GroupRequest req))"

definition updateGroup :: "string \<Rightarrow> GroupRequest \<Rightarrow> Group api_call" where
  "updateGroup gid req =
     api_put (''/groups/'' @ gid) (Some (json_GroupRequest req))"

definition deleteGroup :: "string \<Rightarrow> unit api_call" where
  "deleteGroup gid =
     api_delete (''/groups/'' @ gid) None"

subsection \<open>Mail settings (\<open>api/mail.ts\<close>)\<close>

definition getMailConfig :: "MailConfig api_call" where
  "getMailConfig =
     api_get ''/settings/mail''"

definition saveMailConfig :: "SaveMailConfigRequest \<Rightarrow> MailConfig api_call" where
  "saveMailConfig req =
     api_put ''/settings/mail'' (Some (json_SaveMailConfigRequest req))"

definition testMailConfig :: "(string option) \<Rightarrow> unit api_call" where
  "testMailConfig recipient =
     api_post ''/settings/mail/test'' (Some (jobject [(''to'', Some (JStr (nullish recipient [])))]))"

subsection \<open>Notification templates (\<open>api/notificationTemplates.ts\<close>)\<close>

definition listNotificationTemplates :: "(NotificationTemplate list) api_call" where
  "listNotificationTemplates =
     api_get ''/notification-templates''"

definition getNotificationTemplate :: "string \<Rightarrow> string \<Rightarrow> NotificationTemplate api_call" where
  "getNotificationTemplate eventType channel =
     api_get (''/notification-templates/'' @ eventType @ ''/'' @ channel)"

definition updateNotificationTemplate :: "string \<Rightarrow> string \<Rightarrow> (string option) \<Rightarrow> string \<Rightarrow> string \<Rightarrow> NotificationTemplate api_call" where
  "updateNotificationTemplate eventType channel subject body fmt =
     api_put (''/notification-templates/'' @ eventType @ ''/'' @ channel) (Some (jobject [(''subject'', Some (jnullable subject)), (''body'', Some (JStr body)), (''format'', Some (JStr fmt))]))"

definition resetNotificationTemplate :: "string \<Rightarrow> string \<Rightarrow> unit api_call" where
  "resetNotificationTemplate eventType channel =
     api_delete (''/notification-templates/'' @ eventType @ ''/'' @ channel) None"

subsection \<open>Reports (\<open>api/reports.ts\<close>)\<close>

definition getTLSPostureReport :: "TLSPostureReport api_call" where
  "getTLSPostureReport =
     api_get ''/reports/tls-posture''"

subsection \<open>Root stores (\<open>api/rootstores.ts\<close>)\<close>

definition listRootStores :: "(RootStoreSummary list) api_call" where
  "listRootStores =
     api_get ''/root-stores''"

definition listRootStoreAnchors :: "string \<Rightarrow> int \<Rightarrow> int \<Rightarrow> string \<Rightarrow> RootStoreAnchorList api_call" where
  "listRootStoreAnchors storeId page pageSize q =
     api_get (''/root-stores/'' @ storeId @ ''/anchors?'' @ params_toString (filter_params (paged_params page pageSize)
       [(''q'', q)]))"

subsection \<open>Scanners (\<open>api/scanners.ts\<close>)\<close>

definition listScanners :: "(ScannerToken list) api_call" where
  "listScanners =
     api_get ''/scanners''"

definition createScanner :: "string \<Rightarrow> ScannerTokenCreated api_call" where
  "createScanner name =
     api_post ''/scanners'' (Some (jobject [(''name'', Some (JStr name))]))"

definition updateScanner :: "string \<Rightarrow> string \<Rightarrow> string \<Rightarrow> int \<Rightarrow> ScannerToken api_call" where
  "updateScanner sid name scanCronExpression scanConcurrency =
     api_put (''/scanners/'' @ sid) (Some (jobject [(''name'', Some (JStr name)), (''scanCronExpression'', Some (JStr scanCronExpression)), (''scanConcurrency'', Some (jint scanConcurrency))]))"

definition patchScanner :: "string \<Rightarrow> PatchScannerRequest \<Rightarrow> ScannerToken api_call" where
  "patchScanner sid req =
     api_patch (''/scanners/'' @ sid) (Some (json_PatchScannerRequest req))"

definition setDefaultScanner :: "string \<Rightarrow> unit api_call" where
  "setDefaultScanner sid =
     api_post (''/scanners/'' @ sid @ ''/default'') (Some (JObj []))"

definition regenerateScannerToken :: "string \<Rightarrow> ScannerTokenRegenerated api_call" where
  "regenerateScannerToken sid =
     api_post (''/scanners/'' @ sid @ ''/regenerate-token'') (Some (JObj []))"

definition deleteScanner :: "string \<Rightarrow> unit api_call" where
  "deleteScanner sid =
     api_delete (''/scanners/'' @ sid) None"

subsection \<open>Search (\<open>api/search.ts\<close>)\<close>

definition universalSearch :: "string \<Rightarrow> SearchResults api_call" where
  "universalSearch q =
     api_get (''/search?q='' @ encodeURIComponent q)"

subsection \<open>Settings and maintenance (\<open>api/settings.ts\<close>)\<close>

definition getAlertThresholds :: "AlertThresholdsResponse api_call" where
  "getAlertThresholds =
     api_get ''/settings/alert-thresholds''"

definition setAlertThresholds :: "(int list) \<Rightarrow> AlertThresholdsResponse api_call" where
  "setAlertThresholds thresholds =
     api_put ''/settings/alert-thresholds'' (Some (jobject [(''thresholds'', Some (JArr (map jint thresholds)))]))"

definition getScanHistoryRetention :: "ScanHistoryRetentionResponse api_call" where
  "getScanHistoryRetention =
     api_get ''/maintenance/scan-history-retention''"

definition setScanHistoryRetention :: "int \<Rightarrow> ScanHistoryRetentionResponse api_call" where
  "setScanHistoryRetention days =
     api_put ''/maintenance/scan-history-retention'' (Some (jobject [(''days'', Some (jint days))]))"

definition getScheduledJobs :: "(ScheduledJob list) api_call" where
  "getScheduledJobs =
     api_get ''/maintenance/scheduled-jobs''"

definition updateScheduledJob :: "string \<Rightarrow> string \<Rightarrow> bool \<Rightarrow> ScheduledJob api_call" where
  "updateScheduledJob name cronExpression enabled =
     api_put (''/maintenance/scheduled-jobs/'' @ name) (Some (jobject [(''cronExpression'', Some (JStr cronExpression)), (''enabled'', Some (JBool enabled))]))"

definition runPurgeScanHistory :: "PurgeResponse api_call" where
  "runPurgeScanHistory =
     api_post ''/maintenance/run/purge-scan-history'' None"

definition getAuditLogRetention :: "AuditLogRetentionResponse api_call" where
  "getAuditLogRetention =
     api_get ''/maintenance/audit-log-retention''"

definition setAuditLogRetention :: "int \<Rightarrow> AuditLogRetentionResponse api_call" where
  "setAuditLogRetention days =
     api_put ''/maintenance/audit-log-retention'' (Some (jobject [(''days'', Some (jint days))]))"

definition runPurgeAuditLogs :: "PurgeResponse api_call" where
  "runPurgeAuditLogs =
     api_post ''/maintenance/run/purge-audit-logs'' None"

definition runPurgeExpiryAlerts :: "PurgeResponse api_call" where
  "runPurgeExpiryAlerts =
     api_post ''/maintenance/run/purge-expiry-alerts'' None"

definition runPurgeUnreferencedCerts :: "PurgeResponse api_call" where
  "runPurgeUnreferencedCerts =
     api_post ''/maintenance/run/purge-unreferenced-certs'' None"

definition runRefreshRootStores :: "RefreshRootStoresResponse api_call" where
  "runRefreshRootStores =
     api_post ''/maintenance/run/refresh-root-stores'' None"

subsection \<open>Tags (\<open>api/tags.ts\<close>)\<close>

definition listTagCategories :: "(CategoryWithTags list) api_call" where
  "listTagCategories =
     api_get ''/tags/categories''"

definition createTagCategory :: "string \<Rightarrow> (string option) \<Rightarrow> TagCategory api_call" where
  "createTagCategory name description =
     api_post ''/tags/categories'' (Some (jobject [(''name'', Some (JStr name)), (''description'', map_option JStr description)]))"

definition updateTagCategory :: "string \<Rightarrow> string \<Rightarrow> (string option option) \<Rightarrow> TagCategory api_call" where
  "updateTagCategory categoryId name description =
     api_put (''/tags/categories/'' @ categoryId) (Some (jobject [(''name'', Some (JStr name)), (''description'', map_option jnullable description)]))"

definition deleteTagCategory :: "string \<Rightarrow> unit api_call" where
  "deleteTagCategory categoryId =
     api_delete (''/tags/categories/'' @ categoryId) None"

definition createTag :: "string \<Rightarrow> string \<Rightarrow> (string option) \<Rightarrow> Tag api_call" where
  "createTag categoryId name description =
     api_post ''/tags'' (Some (jobject [(''categoryId'', Some (JStr categoryId)), (''name'', Some (JStr name)), (''description'', map_option JStr description)]))"

definition updateTag :: "string \<Rightarrow> string \<Rightarrow> (string option option) \<Rightarrow> Tag api_call" where
  "updateTag tagId name description =
     api_put (''/tags/'' @ tagId) (Some (jobject [(''name'', Some (JStr name)), (''description'', map_option jnullable description)]))"

definition deleteTag :: "string \<Rightarrow> unit api_call" where
  "deleteTag tagId =
     api_delete (''/tags/'' @ tagId) None"

definition getEndpointTags :: "string \<Rightarrow> (TagWithCategory list) api_call" where
  "getEndpointTags endpointId =
     api_get (''/endpoints/'' @ endpointId @ ''/tags'')"

definition setEndpointTags :: "string \<Rightarrow> (string list) \<Rightarrow> unit api_call" where
  "setEndpointTags endpointId tagIds =
     api_put (''/endpoints/'' @ endpointId @ ''/tags'') (Some (jobject [(''tagIds'', Some (JArr (map JStr tagIds)))]))"

subsection \<open>Two-factor authentication (\<open>api/totp.ts\<close>)\<close>

definition getTOTPStatus :: "TOTPStatus api_call" where
  "getTOTPStatus =
     api_get ''/me/totp''"

definition beginTOTPSetup :: "TOTPSetup api_call" where
  "beginTOTPSetup =
     api_post ''/me/totp/setup'' (Some (JObj []))"

definition confirmTOTPSetup :: "string \<Rightarrow> TOTPVerifyResponse api_call" where
  "confirmTOTPSetup code =
     api_post ''/me/totp/verify'' (Some (jobject [(''code'', Some (JStr code))]))"

definition disableTOTP :: "string \<Rightarrow> string \<Rightarrow> unit api_call" where
  "disableTOTP password code =
     api_delete ''/me/totp'' (Some (jobject [(''password'', Some (JStr password)), (''code'', Some (JStr code))]))"

definition regenerateTOTPRecoveryCodes :: "string \<Rightarrow> TOTPVerifyResponse api_call" where
  "regenerateTOTPRecoveryCodes code =
     api_post ''/me/totp/recovery-codes'' (Some (jobject [(''code'', Some (JStr code))]))"

definition loginWithTOTP :: "TOTPLoginRequest \<Rightarrow> LoginResponse api_call" where
  "loginWithTOTP req =
     api_post ''/auth/totp'' (Some (json_TOTPLoginRequest req))"

subsection \<open>Users (\<open>api/users.ts\<close>)\<close>

definition listUsers :: "int \<Rightarrow> int \<Rightarrow> string \<Rightarrow> string \<Rightarrow> string \<Rightarrow> string \<Rightarrow> UserList api_call" where
  "listUsers page pageSize search role provider sortBy =
     api_get (''/users?'' @ params_toString (filter_params (paged_params page pageSize)
       [(''search'', search), (''role'', role), (''provider'', provider), (''sort'', sortBy)]))"

definition getUser :: "string \<Rightarrow> User api_call" where
  "getUser uid =
     api_get (''/users/'' @ uid)"

definition createUser :: "CreateUserRequest \<Rightarrow> User api_call" where
  "createUser req =
     api_post ''/users'' (Some (json_CreateUserRequest req))"

definition updateUser :: "string \<Rightarrow> UpdateUserRequest \<Rightarrow> User api_call" where
  "updateUser uid req =
     api_put (''/users/'' @ uid) (Some (json_UpdateUserRequest req))"

definition setUserEnabled :: "string \<Rightarrow> bool \<Rightarrow> User api_call" where
  "setUserEnabled uid enabled =
     api_patch (''/users/'' @ uid @ ''/enabled'') (Some (jobject [(''enabled'', Some (JBool enabled))]))"

definition changePassword :: "string \<Rightarrow> string \<Rightarrow> unit api_call" where
  "changePassword uid password =
     api_patch (''/users/'' @ uid @ ''/password'') (Some (jobject [(''password'', Some (JStr password))]))"

definition deleteUser :: "string \<Rightarrow> unit api_call" where
  "deleteUser uid =
     api_delete (''/users/'' @ uid) None"

definition resetUserTOTP :: "string \<Rightarrow> unit api_call" where
  "resetUserTOTP uid =
     api_delete (''/users/'' @ uid @ ''/totp'') None"

definition getMe :: "User api_call" where
  "getMe =
     api_get ''/me''"

definition updateMe :: "UpdateMeRequest \<Rightarrow> User api_call" where
  "updateMe req =
     api_put ''/me'' (Some (json_UpdateMeRequest req))"

definition changeMyPassword :: "string \<Rightarrow> string \<Rightarrow> unit api_call" where
  "changeMyPassword currentPassword newPassword =
     api_patch ''/me/password'' (Some (jobject [(''currentPassword'', Some (JStr currentPassword)), (''newPassword'', Some (JStr newPassword))]))"

definition rotateCalendarToken :: "CalendarTokenResponse api_call" where
  "rotateCalendarToken =
     api_post ''/me/calendar-token'' (Some (JObj []))"

definition getMyTagSubscriptions :: "(TagWithCategory list) api_call" where
  "getMyTagSubscriptions =
     api_get ''/me/tag-subscriptions''"

definition setMyTagSubscriptions :: "(string list) \<Rightarrow> (TagWithCategory list) api_call" where
  "setMyTagSubscriptions tagIds =
     api_put ''/me/tag-subscriptions'' (Some (jobject [(''tagIds'', Some (JArr (map JStr tagIds)))]))"

subsection \<open>Utilities (\<open>api/utils.ts\<close>)\<close>

definition resolve :: "string \<Rightarrow> ResolveResponse api_call" where
  "resolve hostname =
     api_get (''/utils/resolve?hostname='' @ encodeURIComponent hostname)"

subsection \<open>Version (\<open>api/version.ts\<close>)\<close>

definition getVersion :: "BuildInfo api_call" where
  "getVersion =
     api_get ''/version''"

subsection \<open>Reading a query string back\<close>

text \<open>The reference reading: a later filter wins, an empty one does not count.\<close>

lemma params_get_filter_params:
  "distinct (map fst filters) \<Longrightarrow>
     params_get (filter_params ps filters) k =
       (case map_of filters k of
          None \<Rightarrow> params_get ps k
        | Some v \<Rightarrow> if v = [] then params_get ps k else Some v)"
proof (induction filters arbitrary: ps)
  case (Cons f filters)
  obtain k' v' where f: "f = (k', v')" by (cases f)
  have "k = k' \<Longrightarrow> map_of filters k = None"
    using Cons.prems f by (simp add: map_of_eq_None_iff)
  with Cons f show ?case
    by (auto simp: filter_params_def params_get_set_if split: option.splits)
qed (simp add: filter_params_def)

text \<open>What the server reads for one key of a query built by the API modules.\<close>

definition query_value :: "string \<Rightarrow> string \<Rightarrow> string option" where
  "query_value query k = params_get (params_parse query) k"

lemma params_get_paged:
  "params_get (paged_params page pageSize) k =
     (if k = ''page'' then Some (show_int page) else if k = ''page_size'' then Some (show_int pageSize) else None)"
  by (simp add: paged_params_def params_get_def)

lemma query_value_paged:
  assumes "distinct (map fst filters)" and "''page'' \<notin> fst ` set filters" and "''page_size'' \<notin> fst ` set filters"
  shows "query_value (params_toString (filter_params (paged_params page pageSize) filters)) k =
     (if k = ''page'' then Some (show_int page)
      else if k = ''page_size'' then Some (show_int pageSize)
      else Option.bind (map_of filters k) or_undefined)"
proof -
  have "map_of filters ''page'' = None" and "map_of filters ''page_size'' = None"
    using assms(2,3) by (simp_all add: map_of_eq_None_iff)
  then show ?thesis
    by (auto simp: query_value_def params_roundtrip params_get_filter_params [OF assms(1)]
        params_get_paged or_undefined_def split: option.splits)
qed

lemma or_undefined_inject [simp]: "or_undefined s = or_undefined t \<longleftrightarrow> s = t"
  by (auto simp: or_undefined_def split: if_splits)

lemma type_filter_string_inject [simp]: "type_filter_string a = type_filter_string b \<longleftrightarrow> a = b"
  by (cases a; cases b) simp_all

lemma protocol_filter_string_inject [simp]: "protocol_filter_string a = protocol_filter_string b \<longleftrightarrow> a = b"
  by (cases a; cases b) simp_all

lemma api_call_url:
  "call_url (fst (api_get path c a)) = BASE @ path"
  "call_url (fst (api_post path body c a)) = BASE @ path"
  "call_url (fst (api_put path body c a)) = BASE @ path"
  "call_url (fst (api_patch path body c a)) = BASE @ path"
  "call_url (fst (api_delete path body c a)) = BASE @ path"
  by (simp_all add: api_verbs request_def)

lemma api_call_body:
  "call_body (fst (api_post path body c a)) = body"
  "call_body (fst (api_put path body c a)) = body"
  "call_body (fst (api_patch path body c a)) = body"
  "call_body (fst (api_delete path body c a)) = body"
  by (simp_all add: api_verbs request_def)

text \<open>The answer of a call does not depend on its verb, path or body.\<close>

lemma api_call_result:
  "snd (api_get path c a) = read_answer c a"
  "snd (api_post path body c a) = read_answer c a"
  "snd (api_put path body c a) = read_answer c a"
  "snd (api_patch path body c a) = read_answer c a"
  "snd (api_delete path body c a) = read_answer c a"
  by (simp_all add: api_verbs request_def)

lemma url_inject: "BASE @ path = BASE @ path' \<longleftrightarrow> path = path'"
  by simp

definition endpoint_query :: "int \<Rightarrow> int \<Rightarrow> string \<Rightarrow> string \<Rightarrow> string \<Rightarrow> string \<Rightarrow> EndpointTypeFilter \<Rightarrow>
    ProtocolFilter \<Rightarrow> string \<Rightarrow> string" where
  "endpoint_query page pageSize name status sortBy tagId typ protocol cipher =
     params_toString (filter_params (paged_params page pageSize)
       [(''name'', name), (''status'', status), (''sort'', sortBy), (''tag_id'', tagId),
        (''type'', type_filter_string typ), (''protocol'', protocol_filter_string protocol),
        (''cipher'', cipher)])"

lemma endpoint_query_values:
  "query_value (endpoint_query page pageSize name status sortBy tagId typ protocol cipher) k =
     (if k = ''page'' then Some (show_int page)
      else if k = ''page_size'' then Some (show_int pageSize)
      else Option.bind (map_of [(''name'', name), (''status'', status), (''sort'', sortBy), (''tag_id'', tagId),
             (''type'', type_filter_string typ), (''protocol'', protocol_filter_string protocol),
             (''cipher'', cipher)] k) or_undefined)"
  unfolding endpoint_query_def by (rule query_value_paged) auto

lemma endpoint_query_inject:
  assumes "endpoint_query p ps n s so t ty pr ci = endpoint_query p' ps' n' s' so' t' ty' pr' ci'"
  shows "(p, ps, n, s, so, t, ty, pr, ci) = (p', ps', n', s', so', t', ty', pr', ci')"
proof -
  let ?q = "query_value (endpoint_query p ps n s so t ty pr ci)"
  let ?q' = "query_value (endpoint_query p' ps' n' s' so' t' ty' pr' ci')"
  have eq: "?q k = ?q' k" for k using assms by simp
  show ?thesis
    using eq [of "''page''"] eq [of "''page_size''"] eq [of "''name''"] eq [of "''status''"]
      eq [of "''sort''"] eq [of "''tag_id''"] eq [of "''type''"] eq [of "''protocol''"] eq [of "''cipher''"]
    by (simp add: endpoint_query_values)
qed

lemma listEndpoints_url:
  "call_url (fst (listEndpoints page pageSize name status sortBy tagId typ protocol cipher c a)) =
     BASE @ ''/endpoints?'' @ endpoint_query page pageSize name status sortBy tagId typ protocol cipher"
  by (simp add: listEndpoints_def api_call_url endpoint_query_def)

subsection \<open>Reading a PATCH body back\<close>

text \<open>
  The server's view of a PATCH body: a member that is missing leaves the field alone, a \<open>null\<close> clears
  it, a value sets it.
\<close>

fun json_string :: "json \<Rightarrow> string option" where
  "json_string (JStr s) = Some s"
| "json_string _ = None"

fun json_int :: "json \<Rightarrow> int option" where
  "json_int (JNum m e) = Some m"
| "json_int _ = None"

fun json_bool :: "json \<Rightarrow> bool option" where
  "json_bool (JBool b) = Some b"
| "json_bool _ = None"

definition read_PatchEndpointRequest :: "json \<Rightarrow> PatchEndpointRequest" where
  "read_PatchEndpointRequest body =
     \<lparr>patchEndpointRequest_name = Option.bind (json_field body ''name'') json_string,
      patchEndpointRequest_dnsName = Option.bind (json_field body ''dnsName'') json_string,
      patchEndpointRequest_ipAddress = map_option json_string (json_field body ''ipAddress''),
      patchEndpointRequest_port = Option.bind (json_field body ''port'') json_int,
      patchEndpointRequest_url = map_option json_string (json_field body ''url''),
      patchEndpointRequest_enabled = Option.bind (json_field body ''enabled'') json_bool,
      patchEndpointRequest_scanExempt = Option.bind (json_field body ''scanExempt'') json_bool,
      patchEndpointRequest_scannerId = map_option json_string (json_field body ''scannerId''),
      patchEndpointRequest_notes = map_option json_string (json_field body ''notes'')\<rparr>"

lemma bind_map_inverse: "(\<And>x. g (f x) = Some x) \<Longrightarrow> Option.bind (map_option f v) g = v"
  by (cases v) simp_all

lemma json_string_jnullable: "json_string (jnullable x) = x"
  by (cases x) (simp_all add: jnullable_def)

lemma map_nullable_inverse: "map_option json_string (map_option jnullable v) = v"
  by (cases v) (simp_all add: json_string_jnullable)

lemma read_json_PatchEndpointRequest: "read_PatchEndpointRequest (json_PatchEndpointRequest r) = r"
  unfolding read_PatchEndpointRequest_def json_PatchEndpointRequest_def
  by (simp add: json_field_jobject bind_map_inverse map_nullable_inverse)

subsection \<open>Properties\<close>

text \<open>The address \<open>listEndpoints\<close> asks for determines every one of its nine arguments: two calls have
  the same address only when page, page size and all the filters are the same, whatever characters
  the filters contain. In particular the server reads back exactly the filters the user set.\<close>

lemma listEndpoints_query_faithful:
  "(call_url (fst (listEndpoints p ps n s so t ty pr ci c a)) =
      call_url (fst (listEndpoints p' ps' n' s' so' t' ty' pr' ci' c' a')))
   \<longleftrightarrow> (p, ps, n, s, so, t, ty, pr, ci) = (p', ps', n', s', so', t', ty', pr', ci')"
  unfolding listEndpoints_url using endpoint_query_inject [of p ps n s so t ty pr ci p' ps' n' s' so' t' ty' pr' ci']
  by auto

text \<open>The text typed into the global search and the host name sent to the resolver arrive at the
  server unchanged: decoding the query parameter gives back the argument, for every text.\<close>

lemma encoded_arguments_roundtrip:
  "call_url (fst (universalSearch q c a)) = ''/api/v1/search?q='' @ encodeURIComponent q
   \<and> params_parse (''q='' @ encodeURIComponent q) = [(''q'', q)]
   \<and> call_url (fst (resolve h c a')) = ''/api/v1/utils/resolve?hostname='' @ encodeURIComponent h
   \<and> params_parse (''hostname='' @ encodeURIComponent h) = [(''hostname'', h)]"
proof -
  have "encodeURIComponent ''q'' = ''q''" and "encodeURIComponent ''hostname'' = ''hostname''"
    by (rule uri_plain, simp add: char_eval)+
  from params_parse_uri_pair [OF this(1), of q] params_parse_uri_pair [OF this(2), of h] show ?thesis
    by (simp add: universalSearch_def resolve_def api_call_url BASE_def)
qed

text \<open>A PATCH of an endpoint says exactly what the caller asked for: from the body the server can
  tell, for each of the nine fields, whether it is left alone, cleared or set, and to which value.\<close>

lemma patchEndpoint_body_faithful:
  "call_method (fst (patchEndpoint eid req c a)) = ''PATCH''
   \<and> call_url (fst (patchEndpoint eid req c a)) = ''/api/v1/endpoints/'' @ eid
   \<and> map_option read_PatchEndpointRequest (call_body (fst (patchEndpoint eid req c a))) = Some req"
  by (simp add: patchEndpoint_def api_call_url api_call_body BASE_def read_json_PatchEndpointRequest)
    (simp add: api_verbs request_def)

end
