(* ===== verification/JsDates.thy ===== *)
theory JsDates
  imports JsNumbers
begin

section \<open>Dates and numbers that may be \<open>NaN\<close>\<close>

text \<open>
  \<open>new Date(s).getTime()\<close> for the date-time format of ECMAScript (the RFC 3339 texts the server sends):
  \<open>YYYY-MM-DD\<close>, optionally followed by \<open>Thh:mm\<close>, seconds, a fraction and an offset. Any other text is
  an invalid date, whose time is \<open>NaN\<close>: the value \<^const>\<open>None\<close>. A date-time without an offset is local
  time for the browser and is counted as invalid here; the server never sends one. Times are
  milliseconds since 1970.

  Comparisons with \<open>NaN\<close> are false and its text is \<open>NaN\<close>. Quotients of times are integers: for
  differences below \<open>10 ^ 6\<close> days the double quotient and the exact one have the same floor.
\<close>

subsection \<open>\<open>NaN\<close>\<close>

fun num_less :: "int option \<Rightarrow> int \<Rightarrow> bool" where
  "num_less None k = False"
| "num_less (Some n) k = (n < k)"

fun num_le :: "int option \<Rightarrow> int \<Rightarrow> bool" where
  "num_le None k = False"
| "num_le (Some n) k = (n \<le> k)"

fun show_num :: "int option \<Rightarrow> string" where
  "show_num None = ''NaN''"
| "show_num (Some n) = show_int n"

subsection \<open>The calendar\<close>

definition leap_year :: "int \<Rightarrow> bool" where
  "leap_year y \<longleftrightarrow> 4 dvd y \<and> (\<not> 100 dvd y \<or> 400 dvd y)"

definition days_before_month :: "bool \<Rightarrow> nat \<Rightarrow> int" where
  "days_before_month leap m =
     [0, 31, 59, 90, 120, 151, 181, 212, 243, 273, 304, 334] ! (m - 1) + (if leap \<and> 2 < m then 1 else 0)"

definition days_in_month :: "bool \<Rightarrow> nat \<Rightarrow> int" where
  "days_in_month leap m =
     (if m = 2 then (if leap then 29 else 28) else if m \<in> {4, 6, 9, 11} then 30 else 31)"

text \<open>Days from 1970-01-01 to the first of January of a year.\<close>

definition days_before_year :: "int \<Rightarrow> int" where
  "days_before_year y = 365 * (y - 1970) + (y - 1969) div 4 - (y - 1901) div 100 + (y - 1601) div 400"

definition day_number :: "int \<Rightarrow> nat \<Rightarrow> int \<Rightarrow> int" where
  "day_number y m d = days_before_year y + days_before_month (leap_year y) m + (d - 1)"

lemma div_step: "k > 0 \<Longrightarrow> (n + 1) div k = n div k + (if k dvd n + 1 then 1 else 0)" for n k :: int
proof (cases "k dvd n + 1")
  assume k: "k > 0"
  case True
  then obtain q where q: "n + 1 = k * q" by (elim dvdE)
  then have "n div k = q - 1" by (intro int_div_pos_eq [where r = "k - 1"]) (use k in \<open>simp_all add: algebra_simps\<close>)
  with True q k show ?thesis by simp
next
  assume k: "k > 0"
  case False
  have n: "n + 1 = k * (n div k) + (n mod k + 1)" by simp
  have "n mod k + 1 \<noteq> k"
  proof
    assume "n mod k + 1 = k"
    with n have "n + 1 = k * (n div k) + k" by linarith
    with False show False by (metis dvd_add dvd_refl dvd_triv_left)
  qed
  then have "n mod k + 1 < k" "0 \<le> n mod k + 1" using k pos_mod_bound [of k n] pos_mod_sign [of k n] by linarith+
  then have "(n + 1) div k = n div k" using int_div_pos_eq [OF n] by blast
  with False show ?thesis by simp
qed

lemma dvd_shift: "k dvd c \<Longrightarrow> k dvd y - c \<longleftrightarrow> k dvd y" for k c y :: int
  by (metis diff_add_cancel dvd_add_left_iff)

lemma leap_count:
  fixes a b c y :: int
  assumes "R \<Longrightarrow> Q" and "Q \<Longrightarrow> P"
  shows "365 * (y + 1 - 1970) + (a + (if P then 1 else 0)) - (b + (if Q then 1 else 0)) + (c + (if R then 1 else 0)) =
    365 * (y - 1970) + a - b + c + (if P \<and> (\<not> Q \<or> R) then 366 else 365)"
  by (cases P; cases Q; cases R) (use assms in simp_all)

lemma days_before_year_Suc: "days_before_year (y + 1) = days_before_year y + (if leap_year y then 366 else 365)"
proof -
  have four: "(y - 1968) div 4 = (y - 1969) div 4 + (if 4 dvd y then 1 else 0)"
    using div_step [of 4 "y - 1969"] dvd_shift [of 4 1968 y] by simp
  have hundred: "(y - 1900) div 100 = (y - 1901) div 100 + (if 100 dvd y then 1 else 0)"
    using div_step [of 100 "y - 1901"] dvd_shift [of 100 1900 y] by simp
  have four_hundred: "(y - 1600) div 400 = (y - 1601) div 400 + (if 400 dvd y then 1 else 0)"
    using div_step [of 400 "y - 1601"] dvd_shift [of 400 1600 y] by simp
  have eq: "y + 1 - 1969 = y - 1968" "y + 1 - 1901 = y - 1900" "y + 1 - 1601 = y - 1600" by simp_all
  have "400 dvd y \<Longrightarrow> 100 dvd y" "100 dvd y \<Longrightarrow> 4 dvd y" 
    using dvd_trans [of 100 400 y] dvd_trans [of 4 100 y] by simp_all
  then show ?thesis
    unfolding days_before_year_def leap_year_def eq four hundred four_hundred by (rule leap_count)
qed

lemma month_step:
  "1 \<le> m \<Longrightarrow> m < 12 \<Longrightarrow> days_before_month l (Suc m) = days_before_month l m + days_in_month l m"
proof -
  assume "1 \<le> m" "m < 12"
  then have "m \<in> {1, 2, 3, 4, 5, 6, 7, 8, 9, 10, 11}" by (simp, presburger)
  then show ?thesis by (auto simp: days_before_month_def days_in_month_def)
qed

text \<open>The next calendar day has the next number: within a month, across months, across years.\<close>

lemma day_number_next:
  "day_number y m (d + 1) = day_number y m d + 1"
  "1 \<le> m \<Longrightarrow> m < 12 \<Longrightarrow> day_number y (Suc m) 1 = day_number y m (days_in_month (leap_year y) m) + 1"
  "day_number (y + 1) 1 1 = day_number y 12 31 + 1"
  using month_step [of m "leap_year y"] days_before_year_Suc [of y]
  by (simp_all add: day_number_def days_before_month_def)

lemma day_number_epoch: "day_number 1970 1 1 = 0"
  by (simp add: day_number_def days_before_year_def days_before_month_def)

subsection \<open>Reading a date\<close>

text \<open>Exactly \<open>n\<close> decimal digits.\<close>

definition read_digits :: "nat \<Rightarrow> string \<Rightarrow> (nat \<times> string) option" where
  "read_digits n s =
     (if n \<le> length s \<and> list_all is_digit (take n s)
      then Some (read_radix 10 0 (take n s), drop n s) else None)"

definition read_sep :: "char \<Rightarrow> string \<Rightarrow> string option" where
  "read_sep c s = (case s of [] \<Rightarrow> None | x # xs \<Rightarrow> if x = c then Some xs else None)"

text \<open>The offset from UTC in minutes.\<close>

definition read_offset :: "string \<Rightarrow> int option" where
  "read_offset s =
     (case s of
        [] \<Rightarrow> None
      | c # cs \<Rightarrow>
          (if c = CHR ''Z'' \<and> cs = [] then Some 0
           else if c = CHR ''+'' \<or> c = CHR ''-'' then
             (case read_digits 2 cs of
                None \<Rightarrow> None
              | Some (h, r1) \<Rightarrow>
                  (case Option.bind (read_sep (CHR '':'') r1) (read_digits 2) of
                     Some (m, []) \<Rightarrow>
                       if h \<le> 23 \<and> m \<le> 59
                       then Some ((if c = CHR ''-'' then - 1 else 1) * (int h * 60 + int m)) else None
                   | _ \<Rightarrow> None))
           else None))"

text \<open>Seconds with an optional fraction, in milliseconds: digits after the third are dropped.\<close>

definition read_seconds :: "string \<Rightarrow> (int \<times> string) option" where
  "read_seconds s =
     (case read_sep (CHR '':'') s of
        None \<Rightarrow> Some (0, s)
      | Some r \<Rightarrow>
          (case read_digits 2 r of
             None \<Rightarrow> None
           | Some (sec, r1) \<Rightarrow>
               if sec > 59 then None
               else (case read_sep (CHR ''.'') r1 of
                       None \<Rightarrow> Some (int sec * 1000, r1)
                     | Some r2 \<Rightarrow>
                         (let ds = takeWhile is_digit r2
                          in if ds = [] then None
                             else Some (int sec * 1000 + int (read_radix 10 0 (take 3 (ds @ ''00''))),
                                        dropWhile is_digit r2)))))"

definition read_time :: "string \<Rightarrow> int option" where
  "read_time s =
     (case s of
        [] \<Rightarrow> Some 0
      | _ \<Rightarrow>
          (case Option.bind (read_sep (CHR ''T'') s) (read_digits 2) of
             None \<Rightarrow> None
           | Some (h, r1) \<Rightarrow>
               (case Option.bind (read_sep (CHR '':'') r1) (read_digits 2) of
                  None \<Rightarrow> None
                | Some (m, r2) \<Rightarrow>
                    (case read_seconds r2 of
                       None \<Rightarrow> None
                     | Some (ms, r3) \<Rightarrow>
                         (case read_offset r3 of
                            None \<Rightarrow> None
                          | Some off \<Rightarrow>
                              if h \<le> 24 \<and> m \<le> 59 \<and> (h = 24 \<longrightarrow> m = 0 \<and> ms = 0)
                              then Some (int h * 3600000 + int m * 60000 + ms - off * 60000) else None)))))"

definition date_parse :: "string \<Rightarrow> int option" where
  "date_parse s =
     (case read_digits 4 s of
        None \<Rightarrow> None
      | Some (y, r1) \<Rightarrow>
          (case Option.bind (read_sep (CHR ''-'') r1) (read_digits 2) of
             None \<Rightarrow> None
           | Some (mo, r2) \<Rightarrow>
               (case Option.bind (read_sep (CHR ''-'') r2) (read_digits 2) of
                  None \<Rightarrow> None
                | Some (d, r3) \<Rightarrow>
                    if 1 \<le> mo \<and> mo \<le> 12 \<and> 1 \<le> d \<and> int d \<le> days_in_month (leap_year (int y)) mo
                    then map_option (\<lambda>t. day_number (int y) mo (int d) * 86400000 + t) (read_time r3)
                    else None)))"

lemma digits_eval [js_simps]:
  "\<not> is_digit CHR ''Z''" "\<not> is_digit CHR '':''" "\<not> is_digit CHR ''T''" 
  "is_digit CHR ''0''" "is_digit CHR ''1''" "is_digit CHR ''2''" "is_digit CHR ''3''" "is_digit CHR ''4''"
  "is_digit CHR ''5''" "is_digit CHR ''6''" "is_digit CHR ''7''" "is_digit CHR ''8''" "is_digit CHR ''9''"
  by (simp_all add: is_digit_def charCode_def)

lemma digit_val_eval [js_simps]:
  "digit_val 10 CHR ''0'' = Some 0" "digit_val 10 CHR ''1'' = Some 1" "digit_val 10 CHR ''2'' = Some 2"
  "digit_val 10 CHR ''3'' = Some 3" "digit_val 10 CHR ''4'' = Some 4" "digit_val 10 CHR ''5'' = Some 5"
  "digit_val 10 CHR ''6'' = Some 6" "digit_val 10 CHR ''7'' = Some 7" "digit_val 10 CHR ''8'' = Some 8"
  "digit_val 10 CHR ''9'' = Some 9"
  by (simp_all add: digit_val_def js_simps charCode_def)

lemmas date_eval = date_parse_def read_digits_def read_sep_def read_time_def read_seconds_def
  read_offset_def day_number_def days_before_year_def days_before_month_def days_in_month_def leap_year_def
  js_simps Let_def

lemma date_parse_example: "date_parse ''2024-03-01T12:30:15.250Z'' = Some 1709296215250"
  by (simp add: date_eval)

subsection \<open>Whole days between two times\<close>

abbreviation day_ms :: int where
  "day_ms \<equiv> 86400000"

text \<open>\<open>Math.floor((new Date(s).getTime() - now) / 86_400_000)\<close>, the idiom of every expiry display.\<close>

definition days_left :: "int \<Rightarrow> string \<Rightarrow> int option" where
  "days_left now s = map_option (\<lambda>t. (t - now) div day_ms) (date_parse s)"

lemma floor_less: "k > 0 \<Longrightarrow> a div k < n \<longleftrightarrow> a < n * k" for a n k :: int
proof
  assume k: "k > 0" and "a div k < n"
  then have "k * (a div k) \<le> k * (n - 1)" by simp
  moreover have "a = k * (a div k) + a mod k" by simp
  moreover have "k * (n - 1) = n * k - k" by (simp add: algebra_simps)
  ultimately show "a < n * k" using pos_mod_bound [OF k, of a] by linarith
next
  assume k: "k > 0" and a: "a < n * k"
  show "a div k < n"
  proof (rule ccontr)
    assume "\<not> a div k < n"
    then have "n * k \<le> k * (a div k)" using k by (simp add: mult.commute)
    moreover have "a = k * (a div k) + a mod k" by simp
    ultimately show False using pos_mod_sign [OF k, of a] a by linarith
  qed
qed

lemma days_left_less: "date_parse s = Some t \<Longrightarrow> num_less (days_left now s) n \<longleftrightarrow> t < now + n * day_ms"
  using floor_less [of day_ms "t - now" n] by (auto simp: days_left_def)

lemma days_left_le: "date_parse s = Some t \<Longrightarrow> num_le (days_left now s) n \<longleftrightarrow> t < now + (n + 1) * day_ms"
  using floor_less [of day_ms "t - now" "n + 1"] by (auto simp: days_left_def)

end
