(* ===== verification/LibUtils.thy ===== *)
theory LibUtils
  imports JsNumbers
begin

section \<open>Small shared helpers (\<open>lib/utils.ts\<close>, \<open>lib/tag-colors.ts\<close>)\<close>

text \<open>
  The text helpers of \<open>lib/utils.ts\<close> and the colour of a tag category, a hash of its id. The hash
  works on JavaScript numbers: only the shift is a 32-bit operation, the subtraction and the addition
  are not, so the accumulator can leave the 32-bit range. The bound proved below keeps it far below
  \<open>2 ^ 53\<close>, where doubles stop being exact. The date helpers of \<open>lib/utils.ts\<close> format with the
  browser's locale and are not modelled.
\<close>

subsection \<open>Words and days\<close>

definition plural :: "int \<Rightarrow> string \<Rightarrow> string option \<Rightarrow> string" where
  "plural count noun pluralForm = (if count = 1 then noun else nullish pluralForm (noun @ ''s''))"

definition fmtDays :: "int \<Rightarrow> string" where
  "fmtDays days =
     (if days < 0 then show_int \<bar>days\<bar> @ ''d ago''
      else if days = 0 then ''Today''
      else show_int days @ ''d'')"

subsection \<open>Tag colours\<close>

definition PALETTE :: "string list" where
  "PALETTE =
     [''bg-blue-600/80 text-white'', ''bg-violet-600/80 text-white'', ''bg-emerald-600/80 text-white'',
      ''bg-orange-600/80 text-white'', ''bg-pink-600/80 text-white'', ''bg-teal-600/80 text-white'',
      ''bg-amber-600/80 text-white'', ''bg-indigo-600/80 text-white'', ''bg-cyan-600/80 text-white'',
      ''bg-rose-600/80 text-white'']"

text \<open>One step of the \<open>reduce\<close>, and the whole of it from 0.\<close>

definition hash_step :: "int \<Rightarrow> char \<Rightarrow> int" where
  "hash_step acc c = (shift_left32 acc 5 - acc) + int (charCode c)"

definition category_hash :: "string \<Rightarrow> int" where
  "category_hash categoryId = foldl hash_step 0 categoryId"

text \<open>An index outside the palette would read \<open>undefined\<close>.\<close>

definition palette_at :: "int \<Rightarrow> string option" where
  "palette_at i = (if 0 \<le> i \<and> i < int (length PALETTE) then Some (PALETTE ! nat i) else None)"

definition categoryColor :: "string \<Rightarrow> string option" where
  "categoryColor categoryId =
     (if categoryId = [] then palette_at 0
      else palette_at (\<bar>category_hash categoryId\<bar> mod int (length PALETTE)))"

subsection \<open>Bounds\<close>

lemma shift_left32_bounds: "- (2 ^ 31) \<le> shift_left32 n k" "shift_left32 n k < 2 ^ 31"
  unfolding shift_left32_def by (rule to_int32_bounds)+

lemma hash_step_bound: "\<bar>hash_step acc c\<bar> \<le> \<bar>acc\<bar> + 2 ^ 31 + 255"
proof -
  have "int (charCode c) < 256" by simp
  then show ?thesis
    unfolding hash_step_def using shift_left32_bounds [of acc 5] by linarith
qed

lemma foldl_hash_bound: "\<bar>foldl hash_step acc s\<bar> \<le> \<bar>acc\<bar> + int (length s) * (2 ^ 31 + 255)"
proof (induction s arbitrary: acc)
  case (Cons c s)
  have "\<bar>foldl hash_step (hash_step acc c) s\<bar> \<le> \<bar>hash_step acc c\<bar> + int (length s) * (2 ^ 31 + 255)"
    by (rule Cons.IH)
  also have "\<dots> \<le> \<bar>acc\<bar> + (2 ^ 31 + 255) + int (length s) * (2 ^ 31 + 255)"
    using hash_step_bound [of acc c] by simp
  finally show ?case by (simp add: algebra_simps)
qed simp

lemma palette_at_mod: "palette_at (\<bar>n\<bar> mod int (length PALETTE)) = Some (PALETTE ! nat (\<bar>n\<bar> mod int (length PALETTE)))"
  by (simp add: palette_at_def PALETTE_def)

lemma palette_at_range: "palette_at i = Some x \<Longrightarrow> x \<in> set PALETTE"
  by (auto simp: palette_at_def split: if_splits)

text \<open>Every category gets a colour of the palette, never \<open>undefined\<close>, and the hash behind it stays
  within the integers a JavaScript number represents exactly, for ids of up to a million characters.\<close>

lemma categoryColor_total:
  "(\<exists>col. categoryColor categoryId = Some col \<and> col \<in> set PALETTE)
   \<and> \<bar>category_hash categoryId\<bar> \<le> int (length categoryId) * (2 ^ 31 + 255)
   \<and> (length categoryId \<le> 1000000 \<longrightarrow> \<bar>category_hash categoryId\<bar> < 2 ^ 53)"
proof -
  have c: "\<exists>col. categoryColor categoryId = Some col"
    using palette_at_mod [of "category_hash categoryId"]
    by (auto simp: categoryColor_def palette_at_def PALETTE_def)
  then have "\<exists>col. categoryColor categoryId = Some col \<and> col \<in> set PALETTE"
    using palette_at_range by (auto simp: categoryColor_def split: if_splits)
  moreover have h: "\<bar>category_hash categoryId\<bar> \<le> int (length categoryId) * (2 ^ 31 + 255)"
    using foldl_hash_bound [of 0 categoryId] by (simp add: category_hash_def)
  ultimately show ?thesis by simp
qed

lemma categoryColor_total_witness:
  "\<bar>category_hash ''3f2a''\<bar> < 2 ^ 53 \<and> (\<exists>col \<in> set PALETTE. categoryColor ''3f2a'' = Some col)"
  using categoryColor_total [of "''3f2a''"] by auto

end
