(* ===== verification/Schedule.thy ===== *)
theory Schedule
  imports JsNumbers
begin

section \<open>Scan schedules (\<open>components/SchedulePicker.tsx\<close>, \<open>pages/settings/ScannersPage.tsx\<close>)\<close>

text \<open>
  The picker edits a five-field cron expression owned by its parent: it reads the expression into a
  \<open>Schedule\<close>, and every change of a control writes an expression back through \<open>onChange\<close>. The state
  is the picker's two \<open>useState\<close> cells together with the parent's value, because the effect on
  \<open>[value]\<close> reads the value back into the cells. The scanner list describes the same expressions in
  words (\<open>scheduleDisplay\<close>).
\<close>

subsection \<open>Expressions and schedules\<close>

datatype Frequency = Hourly | Daily | Weekly | Monthly | Custom

record Schedule =
  frequency :: Frequency
  hour :: int
  minute :: int
  weekday :: int
  day :: int

definition cron_fields :: "string \<Rightarrow> (string \<times> string \<times> string \<times> string) option" where
  "cron_fields expr =
     (case split_ws (trim expr) of [mi, hr, dm, mon, dow] \<Rightarrow> Some (mi, hr, dm, dow) | _ \<Rightarrow> None)"

definition cronToSchedule :: "string \<Rightarrow> Schedule option" where
  "cronToSchedule expr =
     (case cron_fields expr of
        None \<Rightarrow> None
      | Some (mi, hr, dm, dow) \<Rightarrow>
          (if mi = ''0'' \<and> hr = ''*'' \<and> dm = ''*'' \<and> dow = ''*''
           then Some \<lparr>frequency = Hourly, hour = 0, minute = 0, weekday = 0, day = 1\<rparr>
           else
             (case (parseInt None hr, parseInt None mi) of
                (Some h, Some m) \<Rightarrow>
                  (if dm = ''*'' \<and> dow = ''*''
                   then Some \<lparr>frequency = Daily, hour = h, minute = m, weekday = 0, day = 1\<rparr>
                   else if dm = ''*'' \<and> dow \<noteq> ''*''
                   then map_option (\<lambda>d. \<lparr>frequency = Weekly, hour = h, minute = m, weekday = d, day = 1\<rparr>) (parseInt None dow)
                   else if dm \<noteq> ''*'' \<and> dow = ''*''
                   then map_option (\<lambda>d. \<lparr>frequency = Monthly, hour = h, minute = m, weekday = 0, day = d\<rparr>) (parseInt None dm)
                   else None)
              | _ \<Rightarrow> None)))"

definition scheduleToCron :: "Schedule \<Rightarrow> string" where
  "scheduleToCron s =
     (case frequency s of
        Hourly \<Rightarrow> ''0 * * * *''
      | Daily \<Rightarrow> show_int (minute s) @ '' '' @ show_int (hour s) @ '' * * *''
      | Weekly \<Rightarrow> show_int (minute s) @ '' '' @ show_int (hour s) @ '' * * '' @ show_int (weekday s)
      | Monthly \<Rightarrow> show_int (minute s) @ '' '' @ show_int (hour s) @ '' '' @ show_int (day s) @ '' * *''
      | Custom \<Rightarrow> ''0 * * * *'')"

definition FREQUENCIES :: "(Frequency \<times> string) list" where
  "FREQUENCIES = [(Hourly, ''Hourly''), (Daily, ''Daily''), (Weekly, ''Weekly''), (Monthly, ''Monthly''), (Custom, ''Custom'')]"

definition WEEKDAYS :: "string list" where
  "WEEKDAYS = [''Sunday'', ''Monday'', ''Tuesday'', ''Wednesday'', ''Thursday'', ''Friday'', ''Saturday'']"

definition HOURS :: "int list" where
  "HOURS = [0..23]"

definition MINUTES :: "int list" where
  "MINUTES = [0, 15, 30, 45]"

definition DEFAULT_SCHED :: Schedule where
  "DEFAULT_SCHED = \<lparr>frequency = Daily, hour = 2, minute = 0, weekday = 0, day = 1\<rparr>"

definition initFromValue :: "string \<Rightarrow> Schedule \<times> string" where
  "initFromValue v =
     (case cronToSchedule v of
        Some parsed \<Rightarrow> (parsed, v)
      | None \<Rightarrow> (DEFAULT_SCHED\<lparr>frequency := Custom\<rparr>, v))"

subsection \<open>The picker\<close>

record picker =
  picker_sched :: Schedule
  picker_customExpr :: string
  picker_value :: string \<comment> \<open>the parent's expression\<close>

definition picker_init :: "string \<Rightarrow> picker" where
  "picker_init v = \<lparr>picker_sched = fst (initFromValue v), picker_customExpr = snd (initFromValue v), picker_value = v\<rparr>"

text \<open>The effect on \<open>[value]\<close>.\<close>

definition picker_effect :: "picker \<Rightarrow> picker" where
  "picker_effect p =
     (if frequency (picker_sched p) = Custom then p
      else p\<lparr>picker_sched := fst (initFromValue (picker_value p)),
             picker_customExpr := snd (initFromValue (picker_value p))\<rparr>)"

text \<open>\<open>onChange(cron)\<close>: the parent stores the expression; the effect runs when it is a new one.\<close>

definition onChange :: "string \<Rightarrow> picker \<Rightarrow> picker" where
  "onChange cron p =
     (if cron = picker_value p then p else picker_effect (p\<lparr>picker_value := cron\<rparr>))"

definition update :: "(Schedule \<Rightarrow> Schedule) \<Rightarrow> picker \<Rightarrow> picker" where
  "update patch p =
     (let next = patch (picker_sched p);
          p1 = p\<lparr>picker_sched := next\<rparr>
      in if frequency next \<noteq> Custom then onChange (scheduleToCron next) p1 else p1)"

definition handleFrequencyChange :: "Frequency \<Rightarrow> picker \<Rightarrow> picker" where
  "handleFrequencyChange freq p =
     (if freq = Custom then
        (let current = (if frequency (picker_sched p) \<noteq> Custom then scheduleToCron (picker_sched p)
                        else picker_customExpr p)
         in onChange current
              (p\<lparr>picker_customExpr := current, picker_sched := (picker_sched p)\<lparr>frequency := Custom\<rparr>\<rparr>))
      else update (\<lambda>s. s\<lparr>frequency := freq\<rparr>) p)"

definition handleCustomChange :: "string \<Rightarrow> picker \<Rightarrow> picker" where
  "handleCustomChange expr p = onChange expr (p\<lparr>picker_customExpr := expr\<rparr>)"

definition previewCron :: "picker \<Rightarrow> string" where
  "previewCron p =
     (if frequency (picker_sched p) = Custom then picker_customExpr p else scheduleToCron (picker_sched p))"

text \<open>The controls, each shown only for some frequencies; \<open>parseInt(text) || 1\<close> reads the day.\<close>

datatype control =
    PickFrequency Frequency
  | PickWeekday nat
  | EnterDay string
  | PickHour int
  | PickMinute int
  | EnterCustom string

definition shown :: "picker \<Rightarrow> control \<Rightarrow> bool" where
  "shown p c =
     (let f = frequency (picker_sched p) in
      case c of
        PickFrequency fr \<Rightarrow> fr \<in> fst ` set FREQUENCIES
      | PickWeekday i \<Rightarrow> f = Weekly \<and> i < length WEEKDAYS
      | EnterDay t \<Rightarrow> f = Monthly
      | PickHour h \<Rightarrow> f \<in> {Weekly, Monthly, Daily} \<and> h \<in> set HOURS
      | PickMinute m \<Rightarrow> f \<in> {Weekly, Monthly, Daily} \<and> m \<in> set MINUTES
      | EnterCustom e \<Rightarrow> f = Custom)"

definition day_input :: "string \<Rightarrow> int" where
  "day_input t = (case parseInt None t of None \<Rightarrow> 1 | Some n \<Rightarrow> if n = 0 then 1 else n)"

fun operate :: "control \<Rightarrow> picker \<Rightarrow> picker" where
  "operate (PickFrequency f) p = handleFrequencyChange f p"
| "operate (PickWeekday i) p = update (\<lambda>s. s\<lparr>weekday := int i\<rparr>) p"
| "operate (EnterDay t) p = update (\<lambda>s. s\<lparr>day := day_input t\<rparr>) p"
| "operate (PickHour h) p = update (\<lambda>s. s\<lparr>hour := h\<rparr>) p"
| "operate (PickMinute m) p = update (\<lambda>s. s\<lparr>minute := m\<rparr>) p"
| "operate (EnterCustom e) p = handleCustomChange e p"

subsection \<open>The description in the scanner list\<close>

datatype schedule_icon = ClockIcon | CalendarIcon | CalendarDaysIcon

definition pad2 :: "int \<Rightarrow> string" where
  "pad2 n = padStart 2 (CHR ''0'') (show_int n)"

definition scheduleDisplay :: "string \<Rightarrow> schedule_icon \<times> string" where
  "scheduleDisplay expr =
     (case cron_fields expr of
        None \<Rightarrow> (ClockIcon, expr)
      | Some (mi, hr, dm, dow) \<Rightarrow>
          (if mi = ''0'' \<and> hr = ''*'' \<and> dm = ''*'' \<and> dow = ''*'' then (ClockIcon, ''Hourly'')
           else
             (case (parseInt None hr, parseInt None mi) of
                (Some h, Some m) \<Rightarrow>
                  (let time = pad2 h @ '':'' @ pad2 m in
                   if dm = ''*'' \<and> dow = ''*'' then (CalendarIcon, ''Daily at '' @ time)
                   else if dm = ''*'' \<and> dow \<noteq> ''*'' then
                     (case parseInt None dow of
                        None \<Rightarrow> (CalendarIcon, expr)
                      | Some d \<Rightarrow>
                          if d < 0 \<or> d > 6 then (CalendarIcon, expr)
                          else (CalendarIcon, ''Weekly '' @ middle_dot @ '' '' @ WEEKDAYS ! nat d @ '' '' @ time))
                   else if dm \<noteq> ''*'' \<and> dow = ''*'' then
                     (case parseInt None dm of
                        None \<Rightarrow> (CalendarDaysIcon, expr)
                      | Some d \<Rightarrow> (CalendarDaysIcon, ''Monthly '' @ middle_dot @ '' day '' @ show_int d @ '' '' @ time))
                   else (ClockIcon, expr))
              | _ \<Rightarrow> (ClockIcon, expr))))"

subsection \<open>Printing and reading schedules\<close>

lemma word_star [simp]: "word ''*''" "word ''0''"
  by (simp_all add: word_def is_ws_def)

lemma cron_fields_join:
  assumes "word a" "word b" "word c" "word d" "word e"
  shows "cron_fields (a @ '' '' @ b @ '' '' @ c @ '' '' @ d @ '' '' @ e) = Some (a, b, c, e)"
proof -
  have j: "a @ '' '' @ b @ '' '' @ c @ '' '' @ d @ '' '' @ e = join '' '' [a, b, c, d, e]" by simp
  have w: "\<forall>w \<in> set [a, b, c, d, e]. word w" using assms by simp
  have "trim (join '' '' [a, b, c, d, e]) = join '' '' [a, b, c, d, e]" by (rule trim_join_words [OF _ w]) simp
  moreover have "split_ws (join '' '' [a, b, c, d, e]) = [a, b, c, d, e]"
    by (rule split_ws_join [OF _ w]) (simp_all add: is_ws_def)
  ultimately show ?thesis unfolding cron_fields_def j by simp
qed

lemma show_int_not_star [simp]: "show_int n \<noteq> ''*''"
proof
  assume "show_int n = ''*''"
  then have "is_digit CHR ''*'' \<or> CHR ''*'' = CHR ''-''" using show_int_chars [of "CHR ''*''" n] by simp
  then show False by simp
qed

lemma scheduleToCron_fields:
  "frequency s = Hourly \<or> frequency s = Custom \<Longrightarrow> cron_fields (scheduleToCron s) = Some (''0'', ''*'', ''*'', ''*'')"
  "frequency s = Daily \<Longrightarrow> cron_fields (scheduleToCron s) = Some (show_int (minute s), show_int (hour s), ''*'', ''*'')"
  "frequency s = Weekly \<Longrightarrow>
     cron_fields (scheduleToCron s) = Some (show_int (minute s), show_int (hour s), ''*'', show_int (weekday s))"
  "frequency s = Monthly \<Longrightarrow>
     cron_fields (scheduleToCron s) = Some (show_int (minute s), show_int (hour s), show_int (day s), ''*'')"
  using cron_fields_join [of "''0''" "''*''" "''*''" "''*''" "''*''"]
    cron_fields_join [of "show_int (minute s)" "show_int (hour s)" "''*''" "''*''" "''*''"]
    cron_fields_join [of "show_int (minute s)" "show_int (hour s)" "''*''" "''*''" "show_int (weekday s)"]
    cron_fields_join [of "show_int (minute s)" "show_int (hour s)" "show_int (day s)" "''*''" "''*''"]
  by (auto simp: scheduleToCron_def word_show_int)

text \<open>What an expression keeps of a schedule: the fields its frequency uses.\<close>

definition canonical :: "Schedule \<Rightarrow> Schedule" where
  "canonical s =
     (case frequency s of
        Daily \<Rightarrow> s\<lparr>weekday := 0, day := 1\<rparr>
      | Weekly \<Rightarrow> s\<lparr>day := 1\<rparr>
      | Monthly \<Rightarrow> s\<lparr>weekday := 0\<rparr>
      | _ \<Rightarrow> \<lparr>frequency = Hourly, hour = 0, minute = 0, weekday = 0, day = 1\<rparr>)"

lemma cron_roundtrip: "cronToSchedule (scheduleToCron s) = Some (canonical s)"
  by (cases "frequency s")
    (simp_all add: cronToSchedule_def scheduleToCron_fields canonical_def parseInt_show_int)

lemma scheduleToCron_canonical: "scheduleToCron (canonical s) = scheduleToCron s"
  by (cases "frequency s") (simp_all add: scheduleToCron_def canonical_def)

lemma frequency_canonical: "frequency s \<noteq> Custom \<Longrightarrow> frequency (canonical s) = frequency s"
  by (cases "frequency s") (simp_all add: canonical_def)

lemma canonical_not_custom [simp]: "frequency (canonical s) \<noteq> Custom"
  by (cases "frequency s") (simp_all add: canonical_def)

subsection \<open>What the picker shows is what the parent holds\<close>

lemma initFromValue_cron: "initFromValue (scheduleToCron s) = (canonical s, scheduleToCron s)"
  by (simp add: initFromValue_def cron_roundtrip)

text \<open>Both ways a change reaches the parent leave the preview equal to its value.\<close>

lemma preview_onChange_schedule:
  assumes "frequency (picker_sched p) \<noteq> Custom" and "cron = scheduleToCron (picker_sched p)"
  shows "previewCron (onChange cron p) = picker_value (onChange cron p) \<and> picker_value (onChange cron p) = cron"
  using assms
  by (simp add: onChange_def picker_effect_def previewCron_def initFromValue_cron scheduleToCron_canonical)

lemma preview_onChange_custom:
  assumes "frequency (picker_sched p) = Custom" and "cron = picker_customExpr p"
  shows "previewCron (onChange cron p) = picker_value (onChange cron p) \<and> picker_value (onChange cron p) = cron"
  using assms by (simp add: onChange_def picker_effect_def previewCron_def)

lemma preview_update:
  assumes "frequency (patch (picker_sched p)) \<noteq> Custom"
  shows "previewCron (update patch p) = picker_value (update patch p)
    \<and> picker_value (update patch p) = scheduleToCron (patch (picker_sched p))"
  using assms preview_onChange_schedule [of "p\<lparr>picker_sched := patch (picker_sched p)\<rparr>"]
  by (simp add: update_def Let_def)

lemma preview_frequency:
  "previewCron (handleFrequencyChange f p) = picker_value (handleFrequencyChange f p)"
proof (cases "f = Custom")
  case True
  then show ?thesis by (simp add: handleFrequencyChange_def Let_def preview_onChange_custom)
next
  case False
  then show ?thesis using preview_update [of "\<lambda>s. s\<lparr>frequency := f\<rparr>" p] by (simp add: handleFrequencyChange_def)
qed

lemma preview_custom:
  "frequency (picker_sched p) = Custom \<Longrightarrow>
     previewCron (handleCustomChange e p) = picker_value (handleCustomChange e p)"
  using preview_onChange_custom [of "p\<lparr>picker_customExpr := e\<rparr>" e] by (simp add: handleCustomChange_def)

subsection \<open>Properties\<close>

text \<open>\<^bold>\<open>C5\<close>: a schedule survives being written as a cron expression and read back: every field that its
  frequency uses is kept, the others take their defaults, and writing the result again gives the same
  expression. The scanner list describes the expression with the same hour, minute and day.\<close>

theorem schedule_cron_roundtrip:
  "cronToSchedule (scheduleToCron s) = Some (canonical s)
   \<and> scheduleToCron (canonical s) = scheduleToCron s
   \<and> snd (scheduleDisplay (scheduleToCron s)) =
       (let time = pad2 (hour s) @ '':'' @ pad2 (minute s) in
        case frequency s of
          Daily \<Rightarrow> ''Daily at '' @ time
        | Weekly \<Rightarrow>
            if 0 \<le> weekday s \<and> weekday s \<le> 6
            then ''Weekly '' @ middle_dot @ '' '' @ WEEKDAYS ! nat (weekday s) @ '' '' @ time
            else scheduleToCron s
        | Monthly \<Rightarrow> ''Monthly '' @ middle_dot @ '' day '' @ show_int (day s) @ '' '' @ time
        | _ \<Rightarrow> ''Hourly'')"
proof -
  have "snd (scheduleDisplay (scheduleToCron s)) =
       (let time = pad2 (hour s) @ '':'' @ pad2 (minute s) in
        case frequency s of
          Daily \<Rightarrow> ''Daily at '' @ time
        | Weekly \<Rightarrow>
            if 0 \<le> weekday s \<and> weekday s \<le> 6
            then ''Weekly '' @ middle_dot @ '' '' @ WEEKDAYS ! nat (weekday s) @ '' '' @ time
            else scheduleToCron s
        | Monthly \<Rightarrow> ''Monthly '' @ middle_dot @ '' day '' @ show_int (day s) @ '' '' @ time
        | _ \<Rightarrow> ''Hourly'')"
    by (cases "frequency s")
      (auto simp: scheduleDisplay_def scheduleToCron_fields parseInt_show_int Let_def)
  then show ?thesis by (simp add: cron_roundtrip scheduleToCron_canonical)
qed

text \<open>Whatever control of the picker the user operates, in whatever state, the expression in the
  preview is afterwards the expression the parent will save.\<close>

lemma picker_preview_is_value:
  "shown p c \<Longrightarrow> previewCron (operate c p) = picker_value (operate c p)"
  by (cases c) (auto simp: shown_def Let_def preview_frequency preview_custom preview_update)

lemma picker_preview_is_value_witness:
  "previewCron (operate (PickHour 5) (picker_init ''0 2 * * *'')) = picker_value (operate (PickHour 5) (picker_init ''0 2 * * *''))"
proof -
  have "shown (picker_init ''0 2 * * *'') (PickHour 5)"
    by code_simp
  then show ?thesis by (rule picker_preview_is_value)
qed

text \<open>Opening an expression with ranges, lists or a month shows a different schedule: the weekday
  business hours are shown as Monday at nine, the quarter hours as one run, a yearly run as a monthly
  one. Until a control is operated the parent keeps the old expression, then it is overwritten.\<close>

lemma picker_narrows_expressions:
  "previewCron (picker_init ''0 9-17 * * 1-5'') = ''0 9 * * 1''
   \<and> previewCron (picker_init ''15,45 3 * * *'') = ''15 3 * * *''
   \<and> previewCron (picker_init ''0 2 1 6 *'') = ''0 2 1 * *''
   \<and> picker_value (picker_init ''0 9-17 * * 1-5'') = ''0 9-17 * * 1-5''
   \<and> picker_value (operate (PickMinute 30) (picker_init ''0 9-17 * * 1-5'')) = ''30 9 * * 1''"
  by code_simp

end
