(* ===== verification/BulkImport.thy ===== *)
theory BulkImport
  imports ApiCalls LibUtils
begin

section \<open>Bulk import of endpoints (\<open>components/BulkImportDialog.tsx\<close>)\<close>

text \<open>
  The CSV reader, the validation of its rows and the dialog around them. The dialog is a state
  machine: its \<open>useState\<close> cells are a record, and the asynchronous parts (the file reader's callback,
  the server's answer) are events of their own, so that the user can act in between, as in the
  browser. The state also records what the dialog did to the outside: the requests it sent, and how
  often it called \<open>onClose\<close> and \<open>onComplete\<close>.
\<close>

subsection \<open>Reading CSV\<close>

abbreviation quote_char :: char where
  "quote_char \<equiv> CHR 0x22"

abbreviation newline :: char where
  "newline \<equiv> CHR 0x0A"

abbreviation carriage_return :: char where
  "carriage_return \<equiv> CHR 0x0D"

definition strip_bom :: "string \<Rightarrow> string" where
  "strip_bom text = (if startsWith text byte_order_mark then drop (length byte_order_mark) text else text)"

text \<open>\<open>split(/\r?\n/)\<close>: a carriage return before a line feed belongs to the separator.\<close>

definition strip_cr :: "string \<Rightarrow> string" where
  "strip_cr s = (if s \<noteq> [] \<and> last s = carriage_return then butlast s else s)"

definition split_lines :: "string \<Rightarrow> string list" where
  "split_lines s = (let ps = split_char newline s in map strip_cr (butlast ps) @ [last ps])"

fun csv_fields :: "bool \<Rightarrow> string \<Rightarrow> string list \<Rightarrow> string \<Rightarrow> string list" where
  "csv_fields inQuotes cur fs [] = fs @ [trim cur]"
| "csv_fields inQuotes cur fs (ch # rest) =
     (if ch = quote_char then
        (if inQuotes \<and> rest \<noteq> [] \<and> hd rest = quote_char
         then csv_fields inQuotes (cur @ [quote_char]) fs (tl rest)
         else csv_fields (\<not> inQuotes) cur fs rest)
      else if ch = CHR '','' \<and> \<not> inQuotes then csv_fields inQuotes [] (fs @ [trim cur]) rest
      else csv_fields inQuotes (cur @ [ch]) fs rest)"

definition parseLine :: "string \<Rightarrow> string list" where
  "parseLine line = csv_fields False [] [] line"

definition csv_header :: "string \<Rightarrow> string" where
  "csv_header h = replace_ws_runs (CHR ''_'') (toLowerCase h)"

text \<open>\<open>headers.forEach((h, j) => { raw[h] = values[j] ?? '' })\<close>.\<close>

definition csv_raw :: "string list \<Rightarrow> string list \<Rightarrow> string js_object" where
  "csv_raw headers values =
     fold (\<lambda>(j, h) raw. obj_set h (if j < length values then values ! j else []) raw)
       (enumerate 0 headers) []"

record ParsedRow =
  row_num :: nat
  row_raw :: "string js_object"
  row_data :: BulkImportRow
  row_validationError :: "string option"

text \<open>\<open>raw[k]\<close> and \<open>raw[k] || undefined\<close>; none of the column names is a member of every object.\<close>

definition raw_text :: "string js_object \<Rightarrow> string \<Rightarrow> string" where
  "raw_text raw k = nullish (map_of raw k) []"

definition row_port :: "string js_object \<Rightarrow> int option" where
  "row_port raw =
     (let portRaw = (if raw_text raw ''port'' = [] then Some 0 else parseInt (Some 10) (raw_text raw ''port''));
          port = nullish portRaw 0
      in if port = 0 then None else Some port)"

definition row_of_raw :: "string js_object \<Rightarrow> BulkImportRow" where
  "row_of_raw raw =
     \<lparr>bulkImportRow_name = raw_text raw ''name'',
      bulkImportRow_type = toLowerCase (if raw_text raw ''type'' = [] then ''host'' else raw_text raw ''type''),
      bulkImportRow_dnsName = or_undefined (raw_text raw ''dns_name''),
      bulkImportRow_port = row_port raw,
      bulkImportRow_ipAddress = or_undefined (raw_text raw ''ip_address''),
      bulkImportRow_url = or_undefined (raw_text raw ''url''),
      bulkImportRow_scannerId = None,
      bulkImportRow_notes = or_undefined (raw_text raw ''notes'')\<rparr>"

definition row_error :: "BulkImportRow \<Rightarrow> string option" where
  "row_error d =
     (if bulkImportRow_name d = [] then Some ''name is required''
      else if bulkImportRow_type d \<notin> {''host'', ''saml'', ''manual''}
      then Some (''unknown type '' @ [quote_char] @ bulkImportRow_type d @ [quote_char])
      else if bulkImportRow_type d = ''host'' \<and> \<not> truthy (bulkImportRow_dnsName d)
      then Some ''dns_name is required for host''
      else if bulkImportRow_type d = ''saml'' \<and> \<not> truthy (bulkImportRow_url d)
      then Some ''url is required for saml''
      else None)"

definition parse_row :: "string list \<Rightarrow> nat \<Rightarrow> string \<Rightarrow> ParsedRow" where
  "parse_row headers i line =
     (let raw = csv_raw headers (parseLine line); d = row_of_raw raw
      in \<lparr>row_num = i + 2, row_raw = raw, row_data = d, row_validationError = row_error d\<rparr>)"

definition parseCSV :: "string \<Rightarrow> ParsedRow list" where
  "parseCSV text =
     (let lines = filter (\<lambda>l. trim l \<noteq> []) (split_lines (strip_bom text))
      in if length lines < 2 then []
         else let headers = map csv_header (parseLine (hd lines))
              in map (\<lambda>(i, line). parse_row headers i line) (enumerate 0 (tl lines)))"

definition SAMPLE_CSV :: string where
  "SAMPLE_CSV = join [newline]
     [''name,type,dns_name,port,ip_address,url,notes'',
      ''Production API,host,api.example.com,443,,,'' @ [quote_char] @ ''Main production API gateway'' @ [quote_char],
      ''Staging API,host,staging-api.example.com,8443,,,'',
      ''Okta IdP,saml,,,,'' @ [quote_char] @ ''https://example.okta.com/app/metadata'' @ [quote_char] @ '','',
      ''Internal CA,manual,,,,,'' @ [quote_char] @ ''Manually tracked root cert'' @ [quote_char],
      []]"

subsection \<open>The preview table and the summary\<close>

definition valid_count :: "ParsedRow list \<Rightarrow> nat" where
  "valid_count rows = length (filter (\<lambda>r. \<not> truthy (row_validationError r)) rows)"

definition invalid_count :: "ParsedRow list \<Rightarrow> nat" where
  "invalid_count rows = length (filter (\<lambda>r. truthy (row_validationError r)) rows)"

record preview_row =
  preview_num :: nat
  preview_name :: string
  preview_error :: "string option"
  preview_type :: string
  preview_target :: string

definition preview_of_row :: "ParsedRow \<Rightarrow> preview_row" where
  "preview_of_row r =
     (let d = row_data r in
      \<lparr>preview_num = row_num r,
       preview_name = (if bulkImportRow_name d = [] then em_dash else bulkImportRow_name d),
       preview_error = (if truthy (row_validationError r) then row_validationError r else None),
       preview_type = bulkImportRow_type d,
       preview_target =
         (case bulkImportRow_dnsName d of
            Some dns \<Rightarrow>
              if dns \<noteq> [] then dns @ '':'' @ show_int (nullish (bulkImportRow_port d) 443)
              else nullish (bulkImportRow_url d) em_dash
          | None \<Rightarrow> nullish (bulkImportRow_url d) em_dash)\<rparr>)"

definition PreviewTable :: "ParsedRow list \<Rightarrow> string list \<times> preview_row list" where
  "PreviewTable rows =
     ([show_nat (length rows) @ '' row'' @ (if length rows \<noteq> 1 then ''s'' else []) @ '' parsed'']
        @ (if valid_count rows > 0 then [show_nat (valid_count rows) @ '' ready''] else [])
        @ (if invalid_count rows > 0 then [show_nat (invalid_count rows) @ '' invalid''] else []),
      map preview_of_row rows)"

definition ResultsSummary :: "BulkImportRowResult list \<Rightarrow> int \<Rightarrow> int \<Rightarrow> string list \<times> string list" where
  "ResultsSummary results created failed =
     ((if created > 0 then [show_int created @ '' created''] else [])
        @ (if failed > 0 then [show_int failed @ '' failed''] else []),
      if failed > 0
      then map (\<lambda>r. ''Row '' @ show_int (bulkImportRowResult_row r) @ '' ('' @ bulkImportRowResult_name r @ ''): ''
                    @ nullish (bulkImportRowResult_error r) [])
             (filter (\<lambda>r. truthy (bulkImportRowResult_error r)) results)
      else [])"

subsection \<open>The dialog\<close>

datatype Stage = UploadStage | PreviewStage | ResultsStage

record import_dialog =
  dlg_stage :: Stage
  dlg_rows :: "ParsedRow list"
  dlg_fileName :: "string option"
  dlg_parseError :: "string option"
  dlg_importing :: bool
  dlg_importError :: "string option"
  dlg_results :: "BulkImportRowResult list"
  dlg_created :: int
  dlg_failed :: int
  dlg_sent :: "BulkImportRequest list" \<comment> \<open>requests sent so far\<close>
  dlg_closes :: nat \<comment> \<open>calls of \<open>onClose\<close>\<close>
  dlg_completes :: nat \<comment> \<open>calls of \<open>onComplete\<close>\<close>

definition dialog_init :: import_dialog where
  "dialog_init =
     \<lparr>dlg_stage = UploadStage, dlg_rows = [], dlg_fileName = None, dlg_parseError = None,
      dlg_importing = False, dlg_importError = None, dlg_results = [], dlg_created = 0, dlg_failed = 0,
      dlg_sent = [], dlg_closes = 0, dlg_completes = 0\<rparr>"

definition reset :: "import_dialog \<Rightarrow> import_dialog" where
  "reset d =
     d\<lparr>dlg_stage := UploadStage, dlg_rows := [], dlg_fileName := None, dlg_parseError := None,
       dlg_importing := False, dlg_importError := None, dlg_results := [], dlg_created := 0, dlg_failed := 0\<rparr>"

definition handleClose :: "import_dialog \<Rightarrow> import_dialog" where
  "handleClose d =
     (let didCreate = (dlg_stage d = ResultsStage \<and> dlg_created d > 0);
          d1 = (reset d)\<lparr>dlg_closes := Suc (dlg_closes d)\<rparr>
      in if didCreate then d1\<lparr>dlg_completes := Suc (dlg_completes d)\<rparr> else d1)"

definition handleFileChange :: "string option \<Rightarrow> import_dialog \<Rightarrow> import_dialog" where
  "handleFileChange file d =
     (case file of
        None \<Rightarrow> d
      | Some name \<Rightarrow> d\<lparr>dlg_fileName := Some name, dlg_parseError := None\<rparr>)"

definition reader_onload :: "string \<Rightarrow> import_dialog \<Rightarrow> import_dialog" where
  "reader_onload text d =
     (let parsed = parseCSV text in
      if length parsed = 0
      then d\<lparr>dlg_parseError :=
             Some ''No data rows found. Make sure the file has a header row and at least one data row.''\<rparr>
      else d\<lparr>dlg_rows := parsed, dlg_stage := PreviewStage\<rparr>)"

definition reader_onerror :: "import_dialog \<Rightarrow> import_dialog" where
  "reader_onerror d = d\<lparr>dlg_parseError := Some ''Failed to read file.''\<rparr>"

text \<open>\<open>handleImport\<close> up to its \<open>await\<close>, and from the answer on.\<close>

definition handleImport_start :: "import_dialog \<Rightarrow> import_dialog" where
  "handleImport_start d =
     (let validRows = filter (\<lambda>r. \<not> truthy (row_validationError r)) (dlg_rows d) in
      if length validRows = 0 then d
      else d\<lparr>dlg_importing := True, dlg_importError := None,
             dlg_sent := dlg_sent d @ [\<lparr>bulkImportRequest_rows = map row_data validRows\<rparr>]\<rparr>)"

definition handleImport_finish :: "BulkImportResponse outcome \<Rightarrow> import_dialog \<Rightarrow> import_dialog" where
  "handleImport_finish answer d =
     (case answer of
        Inr (Some resp) \<Rightarrow>
          d\<lparr>dlg_results := bulkImportResponse_results resp, dlg_created := bulkImportResponse_created resp,
            dlg_failed := bulkImportResponse_failed resp, dlg_stage := ResultsStage, dlg_importing := False\<rparr>
      | Inr None \<Rightarrow> d\<lparr>dlg_importError := Some ''Import failed.'', dlg_importing := False\<rparr>
      | Inl err \<Rightarrow> d\<lparr>dlg_importError := Some (api_message ''Import failed.'' err), dlg_importing := False\<rparr>)"

definition import_disabled :: "import_dialog \<Rightarrow> bool" where
  "import_disabled d \<longleftrightarrow> dlg_importing d \<or> valid_count (dlg_rows d) = 0 \<or> invalid_count (dlg_rows d) > 0"

definition dialog_title :: "import_dialog \<Rightarrow> string" where
  "dialog_title d =
     (case dlg_stage d of
        UploadStage \<Rightarrow> ''Import Endpoints''
      | PreviewStage \<Rightarrow> ''Preview '' @ em_dash @ '' '' @ show_nat (length (dlg_rows d)) @ '' row''
          @ (if length (dlg_rows d) \<noteq> 1 then ''s'' else [])
      | ResultsStage \<Rightarrow> ''Import Complete'')"

definition import_label :: "import_dialog \<Rightarrow> string" where
  "import_label d =
     (if dlg_importing d then ''Importing'' @ ellipsis
      else ''Import '' @ show_nat (valid_count (dlg_rows d)) @ '' endpoint''
        @ (if valid_count (dlg_rows d) \<noteq> 1 then ''s'' else []))"

text \<open>
  What can happen next. Buttons exist in their stage only; the file reader and the server answer
  whenever they like, also after the user moved on.
\<close>

inductive dialog_step :: "import_dialog \<Rightarrow> import_dialog \<Rightarrow> bool" where
  choose_file: "dlg_stage d = UploadStage \<Longrightarrow> dialog_step d (handleFileChange file d)"
| file_loaded: "dialog_step d (reader_onload text d)"
| file_failed: "dialog_step d (reader_onerror d)"
| go_back: "dlg_stage d = PreviewStage \<Longrightarrow> dialog_step d (reset d)"
| import_clicked: "dlg_stage d = PreviewStage \<Longrightarrow> \<not> import_disabled d \<Longrightarrow> dialog_step d (handleImport_start d)"
| answered: "dlg_sent d \<noteq> [] \<Longrightarrow> dialog_step d (handleImport_finish answer d)"
| close: "dialog_step d (handleClose d)"

inductive dialog_reachable :: "import_dialog \<Rightarrow> bool" where
  opened: "dialog_reachable dialog_init"
| stepped: "dialog_reachable d \<Longrightarrow> dialog_step d d' \<Longrightarrow> dialog_reachable d'"

inductive_cases dialog_stepE [elim]: "dialog_step d d'"

subsection \<open>Printing CSV\<close>

text \<open>The reference printer: every field quoted, quotes doubled.\<close>

definition csv_escape :: "string \<Rightarrow> string" where
  "csv_escape f = concat (map (\<lambda>c. if c = quote_char then [quote_char, quote_char] else [c]) f)"

definition csv_quote :: "string \<Rightarrow> string" where
  "csv_quote f = quote_char # csv_escape f @ [quote_char]"

definition csv_line :: "string list \<Rightarrow> string" where
  "csv_line fs = join '','' (map csv_quote fs)"

lemma csv_fields_escaped:
  assumes "rest = [] \<or> hd rest \<noteq> quote_char"
  shows "csv_fields True cur fs (csv_escape f @ quote_char # rest) = csv_fields False (cur @ f) fs rest"
  using assms by (induction f arbitrary: cur) (auto simp: csv_escape_def)

lemma csv_fields_quoted:
  assumes "rest = [] \<or> hd rest \<noteq> quote_char"
  shows "csv_fields False [] fs (csv_quote f @ rest) = csv_fields False f fs rest"
  using csv_fields_escaped [OF assms, of "[]" fs f] by (simp add: csv_quote_def)

lemma csv_fields_line:
  "gs \<noteq> [] \<Longrightarrow> csv_fields False [] fs (csv_line gs) = fs @ map trim gs"
proof (induction gs arbitrary: fs rule: induct_list012)
  case (2 g)
  show ?case using csv_fields_quoted [of "[]" fs g] by (simp add: csv_line_def)
next
  case (3 g h gs)
  have "csv_line (g # h # gs) = csv_quote g @ CHR '','' # csv_line (h # gs)"
    by (simp add: csv_line_def)
  then have "csv_fields False [] fs (csv_line (g # h # gs)) = csv_fields False [] (fs @ [trim g]) (csv_line (h # gs))"
    using csv_fields_quoted [of "CHR '','' # csv_line (h # gs)" fs g] by simp
  then show ?case using "3.IH"(2) [of "fs @ [trim g]"] by simp
qed simp

lemma parseLine_csv_line: "fs \<noteq> [] \<Longrightarrow> parseLine (csv_line fs) = map trim fs"
  by (simp add: parseLine_def csv_fields_line)

lemma set_csv_escape: "set (csv_escape f) = set f"
  by (induction f) (auto simp: csv_escape_def)

lemma set_csv_line: "c \<in> set (csv_line fs) \<Longrightarrow> c = quote_char \<or> c = CHR '','' \<or> (\<exists>f \<in> set fs. c \<in> set f)"
  by (induction fs rule: induct_list012) (auto simp: csv_line_def csv_quote_def set_csv_escape)

lemma csv_line_Cons:
  "csv_line [g] = csv_quote g" "csv_line (g # h # gs) = csv_quote g @ CHR '','' # csv_line (h # gs)"
  by (simp_all add: csv_line_def)

lemma csv_line_ends:
  "fs \<noteq> [] \<Longrightarrow> csv_line fs \<noteq> [] \<and> hd (csv_line fs) = quote_char \<and> last (csv_line fs) = quote_char"
  by (induction fs rule: induct_list012) (simp_all add: csv_line_Cons csv_quote_def)

lemma csv_line_not_blank: "fs \<noteq> [] \<Longrightarrow> trim (csv_line fs) = csv_line fs \<and> csv_line fs \<noteq> []"
  using csv_line_ends [of fs] by (simp add: trim_id is_ws_def)

text \<open>A whole file: the header line and one line per row.\<close>

definition csv_file :: "string list list \<Rightarrow> string" where
  "csv_file records = join [newline] (map csv_line records)"

lemma split_lines_csv_file:
  assumes "records \<noteq> []" and "\<forall>r \<in> set records. r \<noteq> [] \<and> (\<forall>f \<in> set r. newline \<notin> set f)"
  shows "split_lines (csv_file records) = map csv_line records"
proof -
  have "\<forall>w \<in> set (map csv_line records). newline \<notin> set w"
    using assms(2) set_csv_line by fastforce
  then have s: "split_char newline (csv_file records) = map csv_line records"
    unfolding csv_file_def using assms(1) by (intro split_char_join) simp_all
  have strip: "map strip_cr (butlast (map csv_line records)) = butlast (map csv_line records)"
  proof (rule map_idI)
    fix x assume "x \<in> set (butlast (map csv_line records))"
    then have "x \<in> set (map csv_line records)" by (rule in_set_butlastD)
    then obtain r where "r \<in> set records" "x = csv_line r" by auto
    then have "last x = quote_char" using assms(2) csv_line_ends by blast
    then show "strip_cr x = x" by (simp add: strip_cr_def)
  qed
  show ?thesis
    unfolding split_lines_def Let_def s strip using assms(1)
    by (intro append_butlast_last_id) simp
qed

text \<open>The columns of the sample file, and the fields of a row under them.\<close>

definition csv_columns :: "string list" where
  "csv_columns = [''name'', ''type'', ''dns_name'', ''port'', ''ip_address'', ''url'', ''notes'']"

definition row_fields :: "BulkImportRow \<Rightarrow> string list" where
  "row_fields r =
     [bulkImportRow_name r, bulkImportRow_type r, nullish (bulkImportRow_dnsName r) [],
      (case bulkImportRow_port r of None \<Rightarrow> [] | Some p \<Rightarrow> show_int p),
      nullish (bulkImportRow_ipAddress r) [], nullish (bulkImportRow_url r) [], nullish (bulkImportRow_notes r) []]"

text \<open>Rows that CSV can carry: trimmed texts without line feeds, no empty option, a lower-case type.\<close>

definition printable_text :: "string \<Rightarrow> bool" where
  "printable_text s \<longleftrightarrow> trim s = s \<and> newline \<notin> set s"

definition printable_option :: "string option \<Rightarrow> bool" where
  "printable_option x \<longleftrightarrow> (case x of None \<Rightarrow> True | Some s \<Rightarrow> s \<noteq> [] \<and> printable_text s)"

definition printable_row :: "BulkImportRow \<Rightarrow> bool" where
  "printable_row r \<longleftrightarrow>
     printable_text (bulkImportRow_name r) \<and> printable_text (bulkImportRow_type r)
     \<and> bulkImportRow_type r \<noteq> [] \<and> toLowerCase (bulkImportRow_type r) = bulkImportRow_type r
     \<and> printable_option (bulkImportRow_dnsName r) \<and> bulkImportRow_port r \<noteq> Some 0
     \<and> printable_option (bulkImportRow_ipAddress r) \<and> printable_option (bulkImportRow_url r)
     \<and> printable_option (bulkImportRow_notes r) \<and> bulkImportRow_scannerId r = None"

lemma printable_text_Nil [simp]: "printable_text []"
  by (simp add: printable_text_def)

lemma printable_nullish: "printable_option x \<Longrightarrow> printable_text (nullish x []) \<and> or_undefined (nullish x []) = x"
  by (cases x) (simp_all add: printable_option_def)

lemma printable_show_int: "printable_text (show_int n)"
proof -
  have "newline \<notin> set (show_int n)"
    using show_int_chars [of newline n] by (auto simp: is_digit_def charCode_def)
  moreover have "trim (show_int n) = show_int n"
    using word_show_int [of n] by (intro trim_no_ws) (auto simp: word_def)
  ultimately show ?thesis by (simp add: printable_text_def)
qed

lemma printable_row_fields: "printable_row r \<Longrightarrow> \<forall>f \<in> set (row_fields r). printable_text f"
proof -
  assume r: "printable_row r"
  have "printable_text (case bulkImportRow_port r of None \<Rightarrow> [] | Some p \<Rightarrow> show_int p)"
    by (cases "bulkImportRow_port r") (simp_all add: printable_show_int)
  with r show ?thesis
    by (simp add: printable_row_def row_fields_def printable_nullish)
qed

lemma map_trim_row_fields: "printable_row r \<Longrightarrow> map trim (row_fields r) = row_fields r"
  using printable_row_fields [of r] by (intro map_idI) (auto simp: printable_text_def)

lemma csv_header_columns: "map csv_header (map trim csv_columns) = csv_columns"
  by (simp add: csv_columns_def csv_header_def trim_def is_ws_def toLowerCase_def to_lower_def is_upper_def charCode_def char_of_eq_iff)

lemma csv_raw_columns:
  "csv_raw csv_columns [v0, v1, v2, v3, v4, v5, v6] =
     [(''name'', v0), (''type'', v1), (''dns_name'', v2), (''port'', v3), (''ip_address'', v4), (''url'', v5), (''notes'', v6)]"
  by (simp add: csv_raw_def csv_columns_def obj_set_def enumerate_eq_zip upt_rec)

lemma row_of_raw_fields:
  assumes "printable_row r"
  shows "row_of_raw (csv_raw csv_columns (row_fields r)) = r"
proof -
  let ?raw = "csv_raw csv_columns (row_fields r)"
  have raw: "raw_text ?raw ''name'' = bulkImportRow_name r" "raw_text ?raw ''type'' = bulkImportRow_type r"
    "raw_text ?raw ''dns_name'' = nullish (bulkImportRow_dnsName r) []"
    "raw_text ?raw ''port'' = (case bulkImportRow_port r of None \<Rightarrow> [] | Some p \<Rightarrow> show_int p)"
    "raw_text ?raw ''ip_address'' = nullish (bulkImportRow_ipAddress r) []"
    "raw_text ?raw ''url'' = nullish (bulkImportRow_url r) []"
    "raw_text ?raw ''notes'' = nullish (bulkImportRow_notes r) []"
    by (simp_all add: row_fields_def csv_raw_columns raw_text_def)
  have "show_int p \<noteq> []" for p using word_show_int [of p] by (simp add: word_def)
  then have port: "row_port ?raw = bulkImportRow_port r"
    using assms unfolding row_port_def raw
    by (cases "bulkImportRow_port r") (simp_all add: parseInt_show_int printable_row_def)
  show ?thesis
    unfolding row_of_raw_def raw port using assms by (simp add: printable_row_def printable_nullish)
qed

lemma strip_bom_csv_file: "records \<noteq> [] \<Longrightarrow> hd records \<noteq> [] \<Longrightarrow> strip_bom (csv_file records) = csv_file records"
proof -
  assume "records \<noteq> []" "hd records \<noteq> []"
  then obtain r rs where rs: "records = r # rs" "r \<noteq> []" by (cases records) auto
  then have "hd (csv_file records) = quote_char"
    using csv_line_ends [of r] by (cases rs) (simp_all add: csv_file_def)
  then show ?thesis
    by (cases "csv_file records") (auto simp: strip_bom_def startsWith_def byte_order_mark_def)
qed

lemma filter_csv_lines:
  "\<forall>r \<in> set records. r \<noteq> [] \<Longrightarrow> filter (\<lambda>l. trim l \<noteq> []) (map csv_line records) = map csv_line records"
  using csv_line_not_blank by (intro filter_True) auto

lemma parse_row_csv_line:
  "printable_row r \<Longrightarrow>
     parse_row csv_columns i (csv_line (row_fields r)) =
       \<lparr>row_num = i + 2, row_raw = csv_raw csv_columns (row_fields r), row_data = r, row_validationError = row_error r\<rparr>"
  using map_trim_row_fields [of r] row_of_raw_fields [of r]
  by (simp add: parse_row_def parseLine_csv_line row_fields_def)

lemma parseCSV_csv_file:
  assumes "rows \<noteq> []" and "\<forall>r \<in> set rows. printable_row r"
  shows "parseCSV (csv_file (csv_columns # map row_fields rows)) =
     map (\<lambda>(i, r). \<lparr>row_num = i + 2, row_raw = csv_raw csv_columns (row_fields r), row_data = r,
                     row_validationError = row_error r\<rparr>) (enumerate 0 rows)"
proof -
  let ?records = "csv_columns # map row_fields rows"
  have ne: "\<forall>r \<in> set ?records. r \<noteq> []" by (auto simp: csv_columns_def row_fields_def)
  have "\<forall>f \<in> set csv_columns. newline \<notin> set f" by (simp add: csv_columns_def)
  moreover have "\<forall>r \<in> set rows. \<forall>f \<in> set (row_fields r). newline \<notin> set f"
    using assms(2) printable_row_fields by (auto simp: printable_text_def)
  ultimately have "\<forall>r \<in> set ?records. r \<noteq> [] \<and> (\<forall>f \<in> set r. newline \<notin> set f)"
    using ne by auto
  then have "split_lines (csv_file ?records) = map csv_line ?records" by (intro split_lines_csv_file) simp_all
  then have lines: "filter (\<lambda>l. trim l \<noteq> []) (split_lines (strip_bom (csv_file ?records))) = map csv_line ?records"
    using filter_csv_lines [OF ne] strip_bom_csv_file [of ?records] by (simp add: csv_columns_def)
  have header: "map csv_header (parseLine (csv_line csv_columns)) = csv_columns"
    using csv_header_columns parseLine_csv_line [of csv_columns] by (simp add: csv_columns_def)
  have "parseCSV (csv_file ?records) =
      map (\<lambda>(i, line). parse_row csv_columns i line) (enumerate 0 (map (\<lambda>r. csv_line (row_fields r)) rows))"
    unfolding parseCSV_def Let_def lines using assms(1) by (simp add: header comp_def)
  also have "\<dots> = map (\<lambda>(i, r). parse_row csv_columns i (csv_line (row_fields r))) (enumerate 0 rows)"
    by (simp add: enumerate_eq_zip zip_map2 comp_def case_prod_unfold)
  also have "\<dots> = map (\<lambda>(i, r). \<lparr>row_num = i + 2, row_raw = csv_raw csv_columns (row_fields r), row_data = r,
                     row_validationError = row_error r\<rparr>) (enumerate 0 rows)"
    using assms(2) parse_row_csv_line by (intro map_cong refl) (auto simp: in_set_enumerate_eq)
  finally show ?thesis .
qed

subsection \<open>What validation accepts\<close>

definition importable :: "BulkImportRow \<Rightarrow> bool" where
  "importable d \<longleftrightarrow>
     bulkImportRow_name d \<noteq> [] \<and> bulkImportRow_type d \<in> {''host'', ''saml'', ''manual''}
     \<and> (bulkImportRow_type d = ''host'' \<longrightarrow> truthy (bulkImportRow_dnsName d))
     \<and> (bulkImportRow_type d = ''saml'' \<longrightarrow> truthy (bulkImportRow_url d))"

lemma row_error_importable: "truthy (row_error d) \<longleftrightarrow> \<not> importable d" "row_error d = None \<longleftrightarrow> importable d"
  unfolding row_error_def importable_def by (simp_all split: if_split)

lemma parseCSV_rows: "r \<in> set (parseCSV text) \<Longrightarrow> row_validationError r = row_error (row_data r)"
  by (auto simp: parseCSV_def parse_row_def Let_def split: if_splits)

subsection \<open>The dialog's invariant\<close>

definition whole_valid_file :: "BulkImportRequest \<Rightarrow> bool" where
  "whole_valid_file req \<longleftrightarrow>
     (\<exists>text. parseCSV text \<noteq> [] \<and> bulkImportRequest_rows req = map row_data (parseCSV text)
        \<and> (\<forall>d \<in> set (bulkImportRequest_rows req). importable d))"

definition dialog_inv :: "import_dialog \<Rightarrow> bool" where
  "dialog_inv d \<longleftrightarrow>
     (\<forall>req \<in> set (dlg_sent d). whole_valid_file req)
     \<and> (dlg_stage d = PreviewStage \<longrightarrow> (\<exists>text. dlg_rows d = parseCSV text \<and> parseCSV text \<noteq> []))
     \<and> (dlg_stage d = ResultsStage \<longrightarrow> dlg_sent d \<noteq> [])"

lemma sent_unchanged [simp]:
  "dlg_sent (reset d) = dlg_sent d" "dlg_sent (handleClose d) = dlg_sent d"
  "dlg_sent (handleFileChange f d) = dlg_sent d" "dlg_sent (reader_onload t d) = dlg_sent d"
  "dlg_sent (reader_onerror d) = dlg_sent d" "dlg_sent (handleImport_finish a d) = dlg_sent d"
  by (auto simp: reset_def handleClose_def handleFileChange_def reader_onload_def reader_onerror_def
      handleImport_finish_def Let_def split: option.splits sum.splits)

lemma start_sends_whole_file:
  assumes "dlg_rows d = parseCSV text" and "parseCSV text \<noteq> []" and "\<not> import_disabled d"
  shows "\<exists>req. whole_valid_file req \<and> dlg_sent (handleImport_start d) = dlg_sent d @ [req]
    \<and> dlg_stage (handleImport_start d) = dlg_stage d \<and> dlg_rows (handleImport_start d) = dlg_rows d"
proof -
  have ok: "\<forall>r \<in> set (dlg_rows d). \<not> truthy (row_validationError r)"
    using assms(3) by (auto simp: import_disabled_def invalid_count_def filter_empty_conv)
  then have all: "filter (\<lambda>r. \<not> truthy (row_validationError r)) (dlg_rows d) = parseCSV text"
    using assms(1) by (metis filter_True)
  have "\<forall>d' \<in> set (map row_data (parseCSV text)). importable d'"
    using ok assms(1) parseCSV_rows row_error_importable(1) by auto
  then have "whole_valid_file \<lparr>bulkImportRequest_rows = map row_data (parseCSV text)\<rparr>"
    using assms(2) by (auto simp: whole_valid_file_def)
  then show ?thesis using all assms(2) by (auto simp: handleImport_start_def Let_def)
qed

lemma dialog_step_inv:
  assumes "dialog_step d d'" and "dialog_inv d"
  shows "dialog_inv d'"
  using assms(1)
proof cases
  case import_clicked
  then obtain content where "dlg_rows d = parseCSV content" "parseCSV content \<noteq> []"
    using assms(2) by (auto simp: dialog_inv_def)
  with import_clicked start_sends_whole_file [of d content] assms(2) show ?thesis by (auto simp: dialog_inv_def)
qed (use assms(2) in \<open>auto simp: dialog_inv_def reset_def handleClose_def handleFileChange_def reader_onload_def
      reader_onerror_def handleImport_finish_def Let_def split: option.splits sum.splits if_splits\<close>)

lemma dialog_inv_init: "dialog_inv dialog_init"
  by (simp add: dialog_inv_def dialog_init_def)

lemma dialog_reachable_inv: "dialog_reachable d \<Longrightarrow> dialog_inv d"
  by (induction rule: dialog_reachable.induct) (auto intro: dialog_inv_init dialog_step_inv)

text \<open>
  Going back while the server is still working re-arms the dialog: the same file can be sent a second
  time before the first answer has arrived.
\<close>

lemma preview_then_import:
  assumes "dialog_reachable d" and "dlg_stage (reader_onload content d) = PreviewStage"
    and "\<not> import_disabled (reader_onload content d)"
  shows "dialog_reachable (handleImport_start (reader_onload content d))"
  using assms by (meson dialog_reachable.stepped dialog_step.file_loaded dialog_step.import_clicked)

definition file_request :: "string \<Rightarrow> BulkImportRequest" where
  "file_request content =
     \<lparr>bulkImportRequest_rows = map row_data (filter (\<lambda>r. \<not> truthy (row_validationError r)) (parseCSV content))\<rparr>"

lemma sent_on_import:
  "valid_count (parseCSV content) \<noteq> 0 \<Longrightarrow>
     dlg_sent (handleImport_start (reader_onload content d)) = dlg_sent d @ [file_request content]"
  by (cases "parseCSV content = []")
    (simp_all add: valid_count_def handleImport_start_def reader_onload_def file_request_def Let_def)

lemma sample_rows:
  "map (\<lambda>p. (bulkImportRow_name (row_data p), bulkImportRow_type (row_data p), bulkImportRow_port (row_data p),
             bulkImportRow_url (row_data p), row_validationError p)) (parseCSV SAMPLE_CSV) =
     [(''Production API'', ''host'', Some 443, None, None),
      (''Staging API'', ''host'', Some 8443, None, None),
      (''Okta IdP'', ''saml'', None, Some ''https://example.okta.com/app/metadata'', None),
      (''Internal CA'', ''manual'', None, None, None)]"
  by code_simp

lemma sample_counts: "parseCSV SAMPLE_CSV \<noteq> []" "valid_count (parseCSV SAMPLE_CSV) = 4" "invalid_count (parseCSV SAMPLE_CSV) = 0"
proof -
  have errs: "map row_validationError (parseCSV SAMPLE_CSV) = [None, None, None, None]"
    using arg_cong [OF sample_rows, of "map (\<lambda>(n, t, p, u, e). e)"] by (simp add: comp_def)
  then show "parseCSV SAMPLE_CSV \<noteq> []" by auto
  have "\<forall>r \<in> set (parseCSV SAMPLE_CSV). row_validationError r = None"
    using arg_cong [OF errs, of set] by auto
  then have "filter (\<lambda>r. \<not> truthy (row_validationError r)) (parseCSV SAMPLE_CSV) = parseCSV SAMPLE_CSV"
    "filter (\<lambda>r. truthy (row_validationError r)) (parseCSV SAMPLE_CSV) = []" by (simp_all add: filter_empty_conv)
  moreover have "length (parseCSV SAMPLE_CSV) = 4" using arg_cong [OF errs, of length] by simp
  ultimately show "valid_count (parseCSV SAMPLE_CSV) = 4" "invalid_count (parseCSV SAMPLE_CSV) = 0"
    by (simp_all add: valid_count_def invalid_count_def)
qed

lemma sample_ready:
  "dlg_importing d = False \<Longrightarrow>
     dlg_stage (reader_onload SAMPLE_CSV d) = PreviewStage \<and> \<not> import_disabled (reader_onload SAMPLE_CSV d)"
  using sample_counts by (simp add: reader_onload_def import_disabled_def Let_def)

definition sample_preview :: import_dialog where
  "sample_preview = reader_onload SAMPLE_CSV dialog_init"

definition sample_resent :: import_dialog where
  "sample_resent = handleImport_start (reader_onload SAMPLE_CSV (reset (handleImport_start sample_preview)))"

lemma sample_import_reachable: "dialog_reachable (handleImport_start sample_preview)"
  unfolding sample_preview_def using sample_ready [of dialog_init]
  by (intro preview_then_import dialog_reachable.opened) (simp_all add: dialog_init_def)

lemma import_sent_twice:
  "dialog_reachable sample_resent \<and> dlg_sent sample_resent = [file_request SAMPLE_CSV, file_request SAMPLE_CSV]"
proof -
  have "dlg_stage (handleImport_start sample_preview) = PreviewStage"
    using sample_ready [of dialog_init] by (simp add: sample_preview_def handleImport_start_def dialog_init_def Let_def)
  then have "dialog_reachable (reset (handleImport_start sample_preview))"
    using sample_import_reachable dialog_reachable.stepped dialog_step.go_back by blast
  then have "dialog_reachable sample_resent"
    unfolding sample_resent_def using sample_ready [of "reset (handleImport_start sample_preview)"]
    by (intro preview_then_import) (simp_all add: reset_def)
  moreover have "valid_count (parseCSV SAMPLE_CSV) \<noteq> 0" using sample_counts by simp
  then have "dlg_sent sample_resent = [file_request SAMPLE_CSV, file_request SAMPLE_CSV]"
    using sent_on_import [of SAMPLE_CSV dialog_init] sent_on_import [of SAMPLE_CSV "reset (handleImport_start sample_preview)"]
    by (simp add: sample_resent_def sample_preview_def dialog_init_def)
  ultimately show ?thesis by simp
qed

subsection \<open>Properties\<close>

text \<open>\<^bold>\<open>C6\<close>: endpoints written to a CSV file under the columns of the sample are read back unchanged, row by
  row, quotes and commas included, numbered from line 2, and flagged exactly when they are not
  importable (no name, an unknown type, a host without a DNS name, a SAML endpoint without a URL).\<close>

theorem csv_file_roundtrip:
  assumes "rows \<noteq> []" and "\<forall>r \<in> set rows. printable_row r"
  shows "map row_data (parseCSV (csv_file (csv_columns # map row_fields rows))) = rows
    \<and> map row_num (parseCSV (csv_file (csv_columns # map row_fields rows))) = [2..<length rows + 2]
    \<and> map (\<lambda>p. row_validationError p = None) (parseCSV (csv_file (csv_columns # map row_fields rows))) = map importable rows"
proof -
  have "map (\<lambda>x. fst x + 2) (enumerate 0 rows) = map (\<lambda>i. i + 2) (map fst (enumerate 0 rows))"
    by (simp only: map_map comp_def)
  then have "map (\<lambda>x. fst x + 2) (enumerate 0 rows) = [2..<length rows + 2]"
    by (simp only: map_fst_enumerate map_add_upt add_0)
  moreover have "map snd (enumerate 0 rows) = rows" "map (\<lambda>x. importable (snd x)) (enumerate 0 rows) = map importable rows"
    using map_map [of importable snd "enumerate 0 rows"] by (simp_all add: comp_def)
  ultimately show ?thesis
    unfolding parseCSV_csv_file [OF assms]
    by (simp add: comp_def case_prod_unfold row_error_importable)
qed

theorem csv_file_roundtrip_witness:
  "map row_data (parseCSV (csv_file (csv_columns # map row_fields
     [\<lparr>bulkImportRow_name = ''A, '' @ [CHR 0x22] @ ''B'' @ [CHR 0x22], bulkImportRow_type = ''host'', bulkImportRow_dnsName = Some ''a.b'',
       bulkImportRow_port = Some 8443, bulkImportRow_ipAddress = None, bulkImportRow_url = None,
       bulkImportRow_scannerId = None, bulkImportRow_notes = None\<rparr>]))) =
     [\<lparr>bulkImportRow_name = ''A, '' @ [CHR 0x22] @ ''B'' @ [CHR 0x22], bulkImportRow_type = ''host'', bulkImportRow_dnsName = Some ''a.b'',
       bulkImportRow_port = Some 8443, bulkImportRow_ipAddress = None, bulkImportRow_url = None,
       bulkImportRow_scannerId = None, bulkImportRow_notes = None\<rparr>]"
  by (rule conjunct1 [OF csv_file_roundtrip])
    (simp_all add: printable_row_def printable_text_def printable_option_def trim_def is_ws_def toLowerCase_def
      to_lower_def is_upper_def charCode_def)

text \<open>The sample file the dialog offers for download is a file the dialog accepts: four rows, all
  of them importable, with the names, types, ports and URLs of the sample.\<close>

lemma sample_csv_accepted:
  "map (\<lambda>p. (bulkImportRow_name (row_data p), bulkImportRow_type (row_data p), bulkImportRow_port (row_data p),
             bulkImportRow_url (row_data p), row_validationError p)) (parseCSV SAMPLE_CSV) =
     [(''Production API'', ''host'', Some 443, None, None),
      (''Staging API'', ''host'', Some 8443, None, None),
      (''Okta IdP'', ''saml'', None, Some ''https://example.okta.com/app/metadata'', None),
      (''Internal CA'', ''manual'', None, None, None)]"
  by (rule sample_rows)



end
