(* ===== verification/Login.thy ===== *)
theory Login
  imports ApiCalls
begin

section \<open>Signing in and routing (\<open>pages/LoginPage.tsx\<close>, \<open>pages/AuthCallbackPage.tsx\<close>, \<open>App.tsx\<close>)\<close>

text \<open>
  The sign-in page with its two steps (password, second factor), the landing page of the identity
  provider, and the route table with its guard. A handler is split at its \<open>await\<close>: the part up to the
  request and the part from the answer on; the whole handler composes the two around the API call.
  The fields an answer reads from the closure (\<open>useRecovery\<close>) are passed on. Form fields marked
  \<open>required\<close> and disabled buttons are the guards of the step relation.
\<close>

subsection \<open>State\<close>

datatype Step = CredentialsStep | TotpStep

record login_page =
  lp_username :: string
  lp_password :: string
  lp_error :: "string option"
  lp_loading :: bool
  lp_oidcEnabled :: bool
  lp_providerHint :: "string option"
  lp_step :: Step
  lp_challengeToken :: "string option"
  lp_code :: string
  lp_useRecovery :: bool
  lp_navigated :: "string option" \<comment> \<open>the last \<open>navigate\<close>\<close>

definition login_init :: login_page where
  "login_init =
     \<lparr>lp_username = [], lp_password = [], lp_error = None, lp_loading = False, lp_oidcEnabled = False,
      lp_providerHint = None, lp_step = CredentialsStep, lp_challengeToken = None, lp_code = [],
      lp_useRecovery = False, lp_navigated = None\<rparr>"

subsection \<open>The sign-in options of the server\<close>

record auth_config =
  authConfig_oidcEnabled :: bool
  authConfig_providerHint :: "string option"

text \<open>\<open>fetchAuthConfig\<close>: a failed fetch rejects and leaves the page alone, an error status means no SSO.\<close>

definition fetchAuthConfig :: "auth_config fetch_result \<Rightarrow> string + auth_config" where
  "fetchAuthConfig answer =
     (case answer of
        FetchFailed m \<Rightarrow> Inl m
      | Fetched res \<Rightarrow>
          if \<not> res_ok res then Inr \<lparr>authConfig_oidcEnabled = False, authConfig_providerHint = None\<rparr>
          else (case res_json res of None \<Rightarrow> Inl ''SyntaxError'' | Some cfg \<Rightarrow> Inr cfg))"

definition config_loaded :: "auth_config fetch_result \<Rightarrow> login_page \<Rightarrow> login_page" where
  "config_loaded answer p =
     (case fetchAuthConfig answer of
        Inl _ \<Rightarrow> p
      | Inr cfg \<Rightarrow> p\<lparr>lp_oidcEnabled := authConfig_oidcEnabled cfg, lp_providerHint := authConfig_providerHint cfg\<rparr>)"

subsection \<open>The password step\<close>

definition credentials_request :: "login_page \<Rightarrow> LoginRequest" where
  "credentials_request p = \<lparr>loginRequest_username = trim (lp_username p), loginRequest_password = lp_password p\<rparr>"

definition unreachable_message :: string where
  "unreachable_message = ''Unable to reach the server. Try again.''"

text \<open>
  \<open>res.totpRequired\<close> on an \<open>undefined\<close> result throws a \<open>TypeError\<close>, which is not an \<open>ApiError\<close>.
\<close>

definition credentials_error :: "js_exn \<Rightarrow> string" where
  "credentials_error e =
     (case e of
        ApiError status m \<Rightarrow> if status = 401 then ''Invalid username or password.'' else m
      | OtherError _ \<Rightarrow> unreachable_message)"

definition credentials_start :: "login_page \<Rightarrow> login_page" where
  "credentials_start p = p\<lparr>lp_error := None, lp_loading := True\<rparr>"

definition credentials_finish :: "LoginResponse outcome \<Rightarrow> login_page \<Rightarrow> client \<Rightarrow> login_page \<times> client" where
  "credentials_finish out p c =
     (case out of
        Inr (Some res) \<Rightarrow>
          if loginResponse_totpRequired res = Some True \<and> truthy (loginResponse_challengeToken res)
          then (p\<lparr>lp_challengeToken := loginResponse_challengeToken res, lp_step := TotpStep, lp_loading := False\<rparr>, c)
          else (p\<lparr>lp_navigated := Some ''/'', lp_loading := False\<rparr>, setToken (loginResponse_token res) c)
      | Inr None \<Rightarrow> (p\<lparr>lp_error := Some (credentials_error (OtherError ''TypeError'')), lp_loading := False\<rparr>, c)
      | Inl err \<Rightarrow> (p\<lparr>lp_error := Some (credentials_error err), lp_loading := False\<rparr>, c))"

definition handleCredentials :: "LoginResponse fetch_result \<Rightarrow> login_page \<Rightarrow> client \<Rightarrow> login_page \<times> client" where
  "handleCredentials answer p c =
     (case login (credentials_request p) c answer of
        (call, c1, out) \<Rightarrow> credentials_finish out (credentials_start p) c1)"

subsection \<open>The second factor\<close>

definition totp_request :: "string \<Rightarrow> login_page \<Rightarrow> TOTPLoginRequest" where
  "totp_request token p =
     \<lparr>totpLoginRequest_challengeToken = token, totpLoginRequest_code = trim (lp_code p),
      totpLoginRequest_isRecovery = Some (lp_useRecovery p)\<rparr>"

definition totp_error :: "bool \<Rightarrow> js_exn \<Rightarrow> string" where
  "totp_error useRecovery e =
     (case e of
        ApiError _ _ \<Rightarrow>
          if useRecovery then ''That recovery code is not valid or has already been used.''
          else ''That code is not valid. Try again.''
      | OtherError _ \<Rightarrow> unreachable_message)"

definition totp_finish :: "bool \<Rightarrow> LoginResponse outcome \<Rightarrow> login_page \<Rightarrow> client \<Rightarrow> login_page \<times> client" where
  "totp_finish useRecovery out p c =
     (case out of
        Inr (Some res) \<Rightarrow>
          (p\<lparr>lp_navigated := Some ''/'', lp_loading := False\<rparr>, setToken (loginResponse_token res) c)
      | Inr None \<Rightarrow> (p\<lparr>lp_error := Some (totp_error useRecovery (OtherError ''TypeError'')), lp_loading := False\<rparr>, c)
      | Inl err \<Rightarrow> (p\<lparr>lp_error := Some (totp_error useRecovery err), lp_loading := False\<rparr>, c))"

definition handleTOTP :: "LoginResponse fetch_result \<Rightarrow> login_page \<Rightarrow> client \<Rightarrow> login_page \<times> client" where
  "handleTOTP answer p c =
     (case lp_challengeToken p of
        None \<Rightarrow> (p, c)
      | Some token \<Rightarrow>
          if token = [] then (p, c)
          else (case loginWithTOTP (totp_request token p) c answer of
                  (call, c1, out) \<Rightarrow>
                    totp_finish (lp_useRecovery p) out (p\<lparr>lp_error := None, lp_loading := True\<rparr>) c1))"

definition cancelTOTP :: "login_page \<Rightarrow> login_page" where
  "cancelTOTP p =
     p\<lparr>lp_step := CredentialsStep, lp_challengeToken := None, lp_code := [], lp_useRecovery := False,
       lp_error := None\<rparr>"

definition toggleRecovery :: "login_page \<Rightarrow> login_page" where
  "toggleRecovery p = p\<lparr>lp_useRecovery := \<not> lp_useRecovery p, lp_code := [], lp_error := None\<rparr>"

subsection \<open>The page as a state machine\<close>

inductive login_step :: "login_page \<times> client \<Rightarrow> login_page \<times> client \<Rightarrow> bool" where
  type_username: "lp_step p = CredentialsStep \<Longrightarrow> login_step (p, c) (p\<lparr>lp_username := s\<rparr>, c)"
| type_password: "lp_step p = CredentialsStep \<Longrightarrow> login_step (p, c) (p\<lparr>lp_password := s\<rparr>, c)"
| config: "login_step (p, c) (config_loaded cfg p, c)"
| submit_password:
    "\<lbrakk>lp_step p = CredentialsStep; \<not> lp_loading p; lp_username p \<noteq> []; lp_password p \<noteq> []\<rbrakk> \<Longrightarrow>
       login_step (p, c) (handleCredentials answer p c)"
| type_code: "lp_step p = TotpStep \<Longrightarrow> login_step (p, c) (p\<lparr>lp_code := s\<rparr>, c)"
| toggle: "lp_step p = TotpStep \<Longrightarrow> login_step (p, c) (toggleRecovery p, c)"
| cancel: "lp_step p = TotpStep \<Longrightarrow> login_step (p, c) (cancelTOTP p, c)"
| submit_code:
    "\<lbrakk>lp_step p = TotpStep; \<not> lp_loading p; trim (lp_code p) \<noteq> []\<rbrakk> \<Longrightarrow>
       login_step (p, c) (handleTOTP answer p c)"

inductive login_reachable :: "login_page \<times> client \<Rightarrow> bool" where
  load: "login_reachable (login_init, client_load storage)"
| act: "login_reachable s \<Longrightarrow> login_step s s' \<Longrightarrow> login_reachable s'"

inductive_cases login_stepE [elim]: "login_step s s'"

subsection \<open>The landing page of the identity provider\<close>

datatype callback_view = CallbackError string | SigningIn

text \<open>\<open>window.location.hash\<close> is empty or starts with \<open>#\<close>; the result is the page, the session and the navigation.\<close>

definition AuthCallbackPage :: "string \<Rightarrow> client \<Rightarrow> callback_view \<times> client \<times> string option" where
  "AuthCallbackPage hash c =
     (case params_get (params_parse (drop 1 hash)) ''token'' of
        None \<Rightarrow> (CallbackError ''No token received from the identity provider.'', c, None)
      | Some token \<Rightarrow>
          if token = [] then (CallbackError ''No token received from the identity provider.'', c, None)
          else (SigningIn, setToken token c, Some ''/''))"

subsection \<open>The route table\<close>

datatype element = Page string | Redirect string

datatype guarded_view = ToLogin | Children

definition ProtectedRoute :: "int \<Rightarrow> client \<Rightarrow> guarded_view \<times> client" where
  "ProtectedRoute now c = (case hasToken now c of (True, c') \<Rightarrow> (Children, c') | (False, c') \<Rightarrow> (ToLogin, c'))"

text \<open>A route has a path and an element, an index route only an element; a node groups routes under a path.\<close>

datatype route = Index element | Leaf string element | Node string "route list"

definition open_routes :: "route list" where
  "open_routes = [Leaf ''/login'' (Page ''LoginPage''), Leaf ''/auth/callback'' (Page ''AuthCallbackPage'')]"

definition protected_routes :: "route list" where
  "protected_routes =
     [Index (Redirect ''/dashboard''),
      Leaf ''dashboard'' (Page ''DashboardPage''),
      Leaf ''monitor'' (Page ''MonitorPage''),
      Leaf ''active'' (Redirect ''/monitor''),
      Leaf ''calendar'' (Redirect ''/monitor?view=calendar''),
      Node ''endpoints''
        [Index (Redirect ''host''),
         Leaf ''host'' (Page ''EndpointPage host''),
         Leaf ''saml'' (Page ''EndpointPage saml''),
         Leaf ''manual'' (Page ''EndpointPage manual''),
         Leaf ''new'' (Page ''EndpointFormPage''),
         Leaf '':id'' (Page ''EndpointDetailPage''),
         Leaf '':id/edit'' (Page ''EndpointFormPage''),
         Leaf '':id/scan-history'' (Page ''EndpointScanHistoryPage'')],
      Leaf ''reports'' (Page ''ReportsPage''),
      Leaf ''reports/tls-posture'' (Page ''TLSPosturePage''),
      Leaf ''discovery/inbox'' (Page ''DiscoveryInboxPage''),
      Leaf ''discovery/networks'' (Page ''DiscoveryNetworksPage''),
      Leaf ''toolbox'' (Page ''ToolboxPage''),
      Leaf ''toolbox/cert-decoder'' (Page ''CertDecoderPage''),
      Leaf ''toolbox/csr-decoder'' (Page ''CsrDecoderPage''),
      Leaf ''toolbox/csr-generator'' (Page ''CsrGeneratorPage''),
      Leaf ''toolbox/cert-diff'' (Page ''CertDiffPage''),
      Leaf ''toolbox/pem-der'' (Page ''PemDerPage''),
      Leaf ''toolbox/cert-chain'' (Page ''CertChainPage''),
      Leaf ''certificates'' (Page ''CertificatesPage''),
      Leaf ''certificates/:fingerprint'' (Page ''CertificateDetailPage''),
      Leaf ''root-stores'' (Page ''RootStoresPage''),
      Leaf ''help'' (Page ''HelpPage''),
      Leaf ''help/:slug'' (Page ''MarkdownDocPage''),
      Node ''account''
        [Index (Page ''AccountPage''),
         Leaf ''profile'' (Page ''AccountProfilePage''),
         Leaf ''password'' (Page ''AccountPasswordPage''),
         Leaf ''calendar'' (Redirect ''/account/notifications''),
         Leaf ''notifications'' (Page ''AccountNotificationsPage''),
         Leaf ''api-keys'' (Page ''AccountAPIKeysPage''),
         Leaf ''2fa'' (Page ''Account2FAPage'')],
      Node ''logs'' [Leaf ''audit'' (Page ''AuditLogPage'')],
      Node ''settings''
        [Index (Page ''SettingsPage''),
         Leaf ''scanners'' (Page ''ScannersPage''),
         Leaf ''users'' (Page ''UsersPage''),
         Leaf ''groups'' (Page ''GroupsPage''),
         Leaf ''groups/new'' (Page ''GroupFormPage''),
         Leaf ''groups/:id/edit'' (Page ''GroupFormPage''),
         Leaf ''mail'' (Page ''MailConfigPage''),
         Leaf ''audit-logs'' (Redirect ''/logs/audit''),
         Leaf ''tags'' (Page ''TagsPage''),
         Leaf ''general'' (Page ''GeneralSettingsPage''),
         Leaf ''maintenance'' (Page ''MaintenancePage''),
         Leaf ''notification-templates'' (Page ''NotificationTemplatesPage''),
         Leaf ''api-keys'' (Page ''APIKeysPage''),
         Leaf ''about'' (Page ''AboutPage'')],
      Leaf ''scanners'' (Redirect ''/settings/scanners''),
      Leaf ''users'' (Redirect ''/settings/users''),
      Leaf ''*'' (Page ''NotFoundPage'')]"

text \<open>The full paths of the elements below a prefix.\<close>

fun flatten_route :: "string \<Rightarrow> route \<Rightarrow> (string \<times> element) list" where
  "flatten_route base (Index e) = [(base, e)]"
| "flatten_route base (Leaf path e) = [(base @ ''/'' @ path, e)]"
| "flatten_route base (Node path rs) = concat (map (flatten_route (base @ ''/'' @ path)) rs)"

definition protected_table :: "(string \<times> element) list" where
  "protected_table = concat (map (flatten_route []) protected_routes)"

text \<open>Where a redirect leads: an absolute target without its query, or a child of the index route's parent.\<close>

definition redirect_path :: "string \<Rightarrow> string \<Rightarrow> string" where
  "redirect_path from target =
     (if startsWith target ''/'' then takeWhile (\<lambda>c. c \<noteq> CHR ''?'') target else from @ ''/'' @ target)"

subsection \<open>What an answer does to the page\<close>

lemmas login_handlers = handleCredentials_def credentials_finish_def credentials_start_def handleTOTP_def
  totp_finish_def login_def loginWithTOTP_def api_verbs request_def

text \<open>A response that asks for the second factor.\<close>

definition asks_for_code :: "LoginResponse \<Rightarrow> bool" where
  "asks_for_code res \<longleftrightarrow> loginResponse_totpRequired res = Some True \<and> truthy (loginResponse_challengeToken res)"

lemma handleCredentials_value:
  "delivers answer v \<Longrightarrow>
     handleCredentials answer p c =
       (if asks_for_code v
        then (p\<lparr>lp_error := None, lp_challengeToken := loginResponse_challengeToken v, lp_step := TotpStep, lp_loading := False\<rparr>, c)
        else (p\<lparr>lp_error := None, lp_navigated := Some ''/'', lp_loading := False\<rparr>, setToken (loginResponse_token v) c))"
  by (simp add: login_handlers read_answer_delivers asks_for_code_def)

lemma handleCredentials_no_value:
  assumes "\<And>v. \<not> delivers answer v"
  shows "lp_navigated (fst (handleCredentials answer p c)) = lp_navigated p
    \<and> lp_step (fst (handleCredentials answer p c)) = lp_step p
    \<and> lp_challengeToken (fst (handleCredentials answer p c)) = lp_challengeToken p
    \<and> lp_error (fst (handleCredentials answer p c)) \<noteq> None
    \<and> snd (handleCredentials answer p c) = fst (read_answer c answer)"
proof -
  obtain c1 out where r: "read_answer c answer = (c1, out)" by (cases "read_answer c answer")
  then have "out = Inr None \<or> (\<exists>e. out = Inl e)"
    using assms read_answer_value [of c answer] by (metis option.exhaust snd_conv sum.exhaust)
  then show ?thesis by (auto simp: login_handlers r)
qed

subsection \<open>Reachable states\<close>

definition login_inv :: "login_page \<Rightarrow> bool" where
  "login_inv p \<longleftrightarrow> (lp_step p = TotpStep \<longrightarrow> truthy (lp_challengeToken p))"

lemma login_inv_credentials: "login_inv p \<Longrightarrow> login_inv (fst (handleCredentials answer p c))"
proof (cases "\<exists>v. delivers answer v")
  case True
  assume "login_inv p"
  with True show ?thesis by (auto simp: handleCredentials_value login_inv_def asks_for_code_def)
next
  case False
  assume "login_inv p"
  with False show ?thesis using handleCredentials_no_value [of answer p c] by (simp add: login_inv_def)
qed

lemma login_inv_totp: "login_inv p \<Longrightarrow> login_inv (fst (handleTOTP answer p c))"
  by (auto simp: login_handlers login_inv_def split: option.splits prod.splits sum.splits)

lemma login_step_inv: "login_step s s' \<Longrightarrow> login_inv (fst s) \<Longrightarrow> login_inv (fst s')"
  by (erule login_stepE)
    (simp_all add: login_inv_credentials login_inv_totp,
     auto simp: login_inv_def toggleRecovery_def cancelTOTP_def config_loaded_def split: sum.splits)

lemma login_reachable_inv: "login_reachable s \<Longrightarrow> login_inv (fst s)"
  by (induction rule: login_reachable.induct) (auto simp: login_inv_def login_init_def dest: login_step_inv [unfolded login_inv_def])

subsection \<open>Tokens in a fragment\<close>

definition token_char :: "char \<Rightarrow> bool" where
  "token_char c \<longleftrightarrow> is_alnum c \<or> c \<in> {CHR ''-'', CHR ''_'', CHR ''.''}"

lemma form_encode_token: "\<forall>c \<in> set t. token_char c \<Longrightarrow> form_encode t = t"
  by (rule form_plain) (auto simp: token_char_def)

lemma callback_token:
  assumes "t \<noteq> []" and "\<forall>c \<in> set t. token_char c"
  shows "AuthCallbackPage (''#token='' @ t) c = (SigningIn, setToken t c, Some ''/'')"
proof -
  have "form_encode ''token'' = ''token''" by (rule form_plain) (simp add: char_eval)
  then have "''token='' @ t = params_toString [(''token'', t)]"
    using form_encode_token [OF assms(2)] by (simp add: params_toString_def params_pair_def)
  then have "params_parse (''token='' @ t) = [(''token'', t)]" by (simp only: params_roundtrip)
  then show ?thesis using assms(1) by (simp add: AuthCallbackPage_def params_get_def)
qed

subsection \<open>Properties\<close>

text \<open>\<^bold>\<open>C8\<close>: a password alone never opens a session that is protected by a second factor. When the server asks
  for the code, no token is stored and the page moves to the second step with the challenge; the page
  enters the application only on an answer that does not ask for the code, and then with exactly the
  token of that answer; every other answer leaves the user on the page with an error message.\<close>

theorem second_factor_enforced:
  "(delivers answer v \<and> asks_for_code v \<longrightarrow>
      snd (handleCredentials answer p c) = c \<and> lp_step (fst (handleCredentials answer p c)) = TotpStep
      \<and> lp_challengeToken (fst (handleCredentials answer p c)) = loginResponse_challengeToken v
      \<and> lp_navigated (fst (handleCredentials answer p c)) = lp_navigated p)
   \<and> (delivers answer v \<and> \<not> asks_for_code v \<longrightarrow>
      client_token (snd (handleCredentials answer p c)) = Some (loginResponse_token v)
      \<and> lp_navigated (fst (handleCredentials answer p c)) = Some ''/'')
   \<and> ((\<forall>v. \<not> delivers answer v) \<longrightarrow>
      lp_navigated (fst (handleCredentials answer p c)) = lp_navigated p
      \<and> lp_error (fst (handleCredentials answer p c)) \<noteq> None
      \<and> client_token (snd (handleCredentials answer p c)) \<in> {client_token c, None})"
proof -
  have "lp_navigated (fst (handleCredentials answer p c)) = lp_navigated p
      \<and> lp_error (fst (handleCredentials answer p c)) \<noteq> None
      \<and> client_token (snd (handleCredentials answer p c)) \<in> {client_token c, None}"
    if n: "\<forall>v. \<not> delivers answer v"
  proof -
    have "client_token (fst (read_answer c answer)) \<in> {client_token c, None}"
      using read_answer_cases [of c answer] by (auto simp: clearToken_def)
    with n handleCredentials_no_value [of answer p c] show ?thesis by simp
  qed
  then show ?thesis using handleCredentials_value [of answer v p c] by (simp add: setToken_def)
qed

definition challenge_answer :: "LoginResponse fetch_result" where
  "challenge_answer =
     Fetched \<lparr>res_status = 200, res_statusText = ''OK'', res_contentType = Some ''application/json'', res_text = [],
       res_json = Some \<lparr>loginResponse_token = [], loginResponse_challengeToken = Some ''ch'',
                         loginResponse_totpRequired = Some True\<rparr>\<rparr>"

theorem second_factor_enforced_witness:
  "lp_step (fst (handleCredentials challenge_answer login_init (client_load (\<lambda>_. None)))) = TotpStep
   \<and> client_token (snd (handleCredentials challenge_answer login_init (client_load (\<lambda>_. None)))) = None"
proof -
  let ?v = "\<lparr>loginResponse_token = [], loginResponse_challengeToken = Some ''ch'', loginResponse_totpRequired = Some True\<rparr>"
  have "delivers challenge_answer ?v \<and> asks_for_code ?v"
    by (simp add: delivers_def challenge_answer_def res_ok_def asks_for_code_def)
  then show ?thesis
    using second_factor_enforced [of challenge_answer ?v login_init "client_load (\<lambda>_. None)"]
    by (simp add: client_load_def)
qed

text \<open>In every reachable state of the sign-in page, the second step has a challenge token, so
  submitting a code always sends it to the server: the early return of the handler never happens.\<close>

lemma totp_submit_sends_code:
  assumes "login_reachable (p, c)" and "lp_step p = TotpStep"
  shows "\<exists>token. token \<noteq> [] \<and> lp_challengeToken p = Some token
    \<and> handleTOTP answer p c =
        (case loginWithTOTP (totp_request token p) c answer of
           (call, c1, out) \<Rightarrow> totp_finish (lp_useRecovery p) out (p\<lparr>lp_error := None, lp_loading := True\<rparr>) c1)"
proof -
  have "truthy (lp_challengeToken p)"
    using login_reachable_inv [OF assms(1)] assms(2) by (simp add: login_inv_def)
  then obtain token where "lp_challengeToken p = Some token" "token \<noteq> []"
    by (cases "lp_challengeToken p") auto
  then show ?thesis by (auto simp: handleTOTP_def)
qed

definition after_password :: "login_page \<times> client" where
  "after_password =
     handleCredentials challenge_answer (login_init\<lparr>lp_username := ''ada'', lp_password := ''pw''\<rparr>) (client_load (\<lambda>_. None))"

lemma after_password_eq:
  "after_password =
     (login_init\<lparr>lp_username := ''ada'', lp_password := ''pw'', lp_challengeToken := Some ''ch'', lp_step := TotpStep\<rparr>,
      client_load (\<lambda>_. None))"
  by (simp add: after_password_def login_handlers read_answer_def challenge_answer_def res_ok_def login_init_def)

lemma after_password_reachable: "login_reachable after_password"
proof -
  let ?c = "client_load (\<lambda>_. None)"
  have "login_reachable (login_init\<lparr>lp_username := ''ada''\<rparr>, ?c)"
    by (rule act [OF load type_username]) (simp add: login_init_def)
  then have "login_reachable (login_init\<lparr>lp_username := ''ada'', lp_password := ''pw''\<rparr>, ?c)"
    by (rule act [OF _ type_password]) (simp add: login_init_def)
  then show ?thesis
    unfolding after_password_def by (rule act [OF _ submit_password]) (simp_all add: login_init_def)
qed

lemma totp_submit_sends_code_witness:
  "\<exists>token. lp_challengeToken (fst after_password) = Some token \<and> token \<noteq> []"
  using totp_submit_sends_code [of "fst after_password" "snd after_password"] after_password_reachable
  by (auto simp: after_password_eq)

text \<open>A rejected password or code is reported as an unreachable server. \<open>request\<close> resolves a 401
  answer to \<open>undefined\<close>, so the handlers fail on reading its fields, show the message for network
  errors and the browser is sent to \<open>/login\<close>; their messages for wrong credentials are never shown.\<close>

lemma rejected_credentials_misreported:
  "handleCredentials (Fetched (res\<lparr>res_status := 401\<rparr>)) p c =
     (p\<lparr>lp_error := Some ''Unable to reach the server. Try again.'', lp_loading := False\<rparr>,
      (clearToken c)\<lparr>client_href := Some ''/login''\<rparr>)
   \<and> handleTOTP (Fetched (res\<lparr>res_status := 401\<rparr>)) (p\<lparr>lp_challengeToken := Some (x # xs)\<rparr>) c =
     (p\<lparr>lp_challengeToken := Some (x # xs), lp_error := Some ''Unable to reach the server. Try again.'', lp_loading := False\<rparr>,
      (clearToken c)\<lparr>client_href := Some ''/login''\<rparr>)"
  by (simp add: login_handlers read_answer_def res_ok_def credentials_error_def totp_error_def unreachable_message_def)

text \<open>A token delivered in the fragment by the identity provider's redirect is stored exactly as sent,
  in memory and in \<open>localStorage\<close>; a fragment without a token changes nothing and shows an error.\<close>

lemma callback_stores_token:
  assumes "t \<noteq> []" and "\<forall>x \<in> set t. token_char x"
  shows "AuthCallbackPage (''#token='' @ t) c = (SigningIn, setToken t c, Some ''/'')
    \<and> client_storage (fst (snd (AuthCallbackPage (''#token='' @ t) c))) ''token'' = Some t
    \<and> AuthCallbackPage [] c = (CallbackError ''No token received from the identity provider.'', c, None)"
  using callback_token [OF assms, of c]
  by (simp add: setToken_def) (simp add: AuthCallbackPage_def params_parse_def params_get_def startsWith_def)

lemma callback_stores_token_witness:
  "AuthCallbackPage ''#token=a.b-c'' (client_load (\<lambda>_. None)) = (SigningIn, setToken ''a.b-c'' (client_load (\<lambda>_. None)), Some ''/'')"
  using callback_stores_token [of "''a.b-c''" "client_load (\<lambda>_. None)"]
  by (simp add: token_char_def is_alnum_def is_lower_def charCode_def)


end
