(* ===== verification/Async.thy ===== *)
theory Async
  imports ApiClient
begin

section \<open>Asynchronous handlers\<close>

text \<open>
  The event handlers of the pages are \<open>async\<close> functions: a sequence of awaited API calls inside one
  \<open>try\<close> block. Such a body is a value of \<open>'a io\<close>: started with the session state it gives the calls it
  makes, the session state afterwards, and either the error that left the block or its value. The
  answers of the server are arguments of \<open>await\<close>. A call whose answer is a 401 does not throw:
  the body goes on with \<open>undefined\<close>.
\<close>

type_synonym 'a io = "client \<Rightarrow> http_call list \<times> client \<times> (js_exn + 'a)"

definition io_return :: "'a \<Rightarrow> 'a io" where
  "io_return v c = ([], c, Inr v)"

definition io_throw :: "js_exn \<Rightarrow> 'a io" where
  "io_throw e c = ([], c, Inl e)"

definition io_bind :: "'a io \<Rightarrow> ('a \<Rightarrow> 'b io) \<Rightarrow> 'b io" where
  "io_bind m f c =
     (case m c of
        (ks, c1, Inl e) \<Rightarrow> (ks, c1, Inl e)
      | (ks, c1, Inr v) \<Rightarrow> (case f v c1 of (ks', c2, r) \<Rightarrow> (ks @ ks', c2, r)))"

definition await :: "'b api_call \<Rightarrow> 'b fetch_result \<Rightarrow> 'b option io" where
  "await call answer c = (case call c answer of (k, c1, out) \<Rightarrow> ([k], c1, out))"

text \<open>\<open>if (b) { await m }\<close>, and \<open>await m.catch(() => {})\<close>.\<close>

definition io_when :: "bool \<Rightarrow> 'a io \<Rightarrow> unit io" where
  "io_when b m = (if b then io_bind m (\<lambda>_. io_return ()) else io_return ())"

definition io_ignore :: "'a io \<Rightarrow> unit io" where
  "io_ignore m c = (case m c of (ks, c1, r) \<Rightarrow> (ks, c1, Inr ()))"

text \<open>Reading a member of an awaited value: \<open>undefined\<close> throws.\<close>

definition io_the :: "'a option \<Rightarrow> 'a io" where
  "io_the v = (case v of None \<Rightarrow> io_throw (OtherError ''TypeError'') | Some x \<Rightarrow> io_return x)"

text \<open>
  \<open>await Promise.all([m, n])\<close>: both calls are built from the session at the start, before any answer; both are made and
  answered, and an error of either is thrown.
\<close>

definition io_both :: "'a io \<Rightarrow> 'b io \<Rightarrow> unit io" where
  "io_both m n c =
     (fst (m c) @ fst (n c), fst (snd (n (fst (snd (m c))))),
      case snd (snd (m c)) of
        Inl e \<Rightarrow> Inl e
      | Inr _ \<Rightarrow> (case snd (snd (n (fst (snd (m c))))) of Inl e \<Rightarrow> Inl e | Inr _ \<Rightarrow> Inr ()))"

abbreviation io_calls :: "'a io \<Rightarrow> client \<Rightarrow> http_call list" where
  "io_calls m c \<equiv> fst (m c)"

abbreviation io_client :: "'a io \<Rightarrow> client \<Rightarrow> client" where
  "io_client m c \<equiv> fst (snd (m c))"

abbreviation io_result :: "'a io \<Rightarrow> client \<Rightarrow> js_exn + 'a" where
  "io_result m c \<equiv> snd (snd (m c))"

named_theorems io_simps "what a handler body calls, leaves and returns"

lemma io_return_simps [io_simps]:
  "io_calls (io_return v) c = []" "io_client (io_return v) c = c" "io_result (io_return v) c = Inr v"
  by (simp_all add: io_return_def)

lemma io_throw_simps [io_simps]:
  "io_calls (io_throw e) c = []" "io_client (io_throw e) c = c" "io_result (io_throw e) c = Inl e"
  by (simp_all add: io_throw_def)

lemma io_bind_simps [io_simps]:
  "io_calls (io_bind m f) c =
     io_calls m c @ (case io_result m c of Inl e \<Rightarrow> [] | Inr v \<Rightarrow> io_calls (f v) (io_client m c))"
  "io_client (io_bind m f) c =
     (case io_result m c of Inl e \<Rightarrow> io_client m c | Inr v \<Rightarrow> io_client (f v) (io_client m c))"
  "io_result (io_bind m f) c =
     (case io_result m c of Inl e \<Rightarrow> Inl e | Inr v \<Rightarrow> io_result (f v) (io_client m c))"
  by (auto simp: io_bind_def split: prod.splits sum.splits)

lemma io_await_simps [io_simps]:
  "io_calls (await call answer) c = [fst (call c answer)]"
  "io_client (await call answer) c = fst (snd (call c answer))"
  "io_result (await call answer) c = snd (snd (call c answer))"
  by (simp_all add: await_def split: prod.splits)

lemma io_ignore_simps [io_simps]:
  "io_calls (io_ignore m) c = io_calls m c" "io_client (io_ignore m) c = io_client m c"
  "io_result (io_ignore m) c = Inr ()"
  by (simp_all add: io_ignore_def split: prod.splits)

lemma io_when_simps [io_simps]:
  "io_calls (io_when b m) c = (if b then io_calls m c else [])"
  "io_client (io_when b m) c = (if b then io_client m c else c)"
  "io_result (io_when b m) c = (if b then map_sum id (\<lambda>_. ()) (io_result m c) else Inr ())"
  by (auto simp: io_when_def io_bind_simps io_return_simps split: sum.splits)

lemma io_the_simps [io_simps]:
  "io_calls (io_the v) c = []" "io_client (io_the v) c = c"
  "io_result (io_the v) c = (case v of None \<Rightarrow> Inl (OtherError ''TypeError'') | Some x \<Rightarrow> Inr x)"
  by (simp_all add: io_the_def io_throw_def io_return_def split: option.splits)

lemma io_both_simps [io_simps]:
  "io_calls (io_both m n) c = io_calls m c @ io_calls n c"
  "io_client (io_both m n) c = io_client n (io_client m c)"
  "io_result (io_both m n) c =
     (case io_result m c of
        Inl e \<Rightarrow> Inl e
      | Inr _ \<Rightarrow> (case io_result n (io_client m c) of Inl e \<Rightarrow> Inl e | Inr _ \<Rightarrow> Inr ()))"
  by (simp_all add: io_both_def)

lemma io_bind_return: "io_bind (io_return v) f = f v" "io_bind m io_return = m"
  by (auto simp: io_bind_def io_return_def fun_eq_iff split: prod.splits sum.splits)

lemma io_bind_assoc: "io_bind (io_bind m f) g = io_bind m (\<lambda>v. io_bind (f v) g)"
  by (auto simp: io_bind_def fun_eq_iff split: prod.splits sum.splits)

subsection \<open>The session during a handler\<close>

text \<open>
  A body only ever touches the session through answered calls: it leaves the session as it was or
  wiped. The rules below carry this through sequences of calls.
\<close>

definition session_safe :: "'a io \<Rightarrow> bool" where
  "session_safe m \<longleftrightarrow> (\<forall>c. client_token (io_client m c) = client_token c \<or> client_token (io_client m c) = None)"

lemma read_answer_token:
  "client_token (fst (read_answer c a)) = client_token c \<or> client_token (fst (read_answer c a)) = None"
  using read_answer_cases [of c a] by (auto simp: clearToken_def)

lemma session_safe_await:
  assumes "\<And>c. snd (call c answer) = read_answer c answer"
  shows "session_safe (await call answer)"
  unfolding session_safe_def io_await_simps assms by (intro allI read_answer_token)

lemma session_safe_return [intro]: "session_safe (io_return v)"
  by (simp add: session_safe_def io_simps)

lemma session_safe_the [intro]: "session_safe (io_the v)"
  by (simp add: session_safe_def io_simps)

lemma session_safe_bind [intro]: "session_safe m \<Longrightarrow> (\<And>v. session_safe (f v)) \<Longrightarrow> session_safe (io_bind m f)"
  unfolding session_safe_def
proof
  fix c
  assume m: "\<forall>c. client_token (io_client m c) = client_token c \<or> client_token (io_client m c) = None"
    and f: "\<And>v. \<forall>c. client_token (io_client (f v) c) = client_token c \<or> client_token (io_client (f v) c) = None"
  show "client_token (io_client (io_bind m f) c) = client_token c \<or> client_token (io_client (io_bind m f) c) = None"
  proof (cases "io_result m c")
    case (Inr v)
    then show ?thesis
      using m [rule_format, of c] f [of v, rule_format, of "io_client m c"] by (auto simp: io_bind_simps)
  qed (use m [rule_format, of c] in \<open>simp add: io_bind_simps\<close>)
qed

lemma session_safe_when [intro]: "session_safe m \<Longrightarrow> session_safe (io_when b m)"
  by (auto simp: session_safe_def io_simps)

lemma session_safe_ignore [intro]: "session_safe m \<Longrightarrow> session_safe (io_ignore m)"
  by (auto simp: session_safe_def io_simps)

text \<open>An answer that delivers a value.\<close>

definition delivery :: "'b \<Rightarrow> 'b fetch_result" where
  "delivery v =
     Fetched \<lparr>res_status = 200, res_statusText = [], res_contentType = Some ''application/json'', res_text = [],
              res_json = Some v\<rparr>"

lemma delivers_delivery: "delivers (delivery v) v"
  by (simp add: delivers_def delivery_def res_ok_def)

text \<open>The requests under way without the one that is answered.\<close>

definition remove_nth :: "nat \<Rightarrow> 'a list \<Rightarrow> 'a list" where
  "remove_nth i xs = take i xs @ drop (Suc i) xs"

lemma set_remove_nth: "set (remove_nth i xs) \<subseteq> set xs"
  by (auto simp: remove_nth_def dest: in_set_takeD in_set_dropD)

lemma remove_nth_single: "i < length [k] \<Longrightarrow> remove_nth i [k] = []"
  by (simp add: remove_nth_def)

lemma set_remove_nth_insert: "i < length xs \<Longrightarrow> set xs = insert (xs ! i) (set (remove_nth i xs))"
  by (metis append_take_drop_id Cons_nth_drop_Suc id_take_nth_drop list.simps(15) remove_nth_def set_append Un_insert_right)

end
