(* ===== verification/EndpointForm.thy ===== *)
theory EndpointForm
  imports ApiCalls Async LibUtils
begin

section \<open>Creating and editing endpoints (\<open>pages/endpoint/EndpointFormPage.tsx\<close>)\<close>

text \<open>
  One page serves four purposes: a new endpoint, editing, cloning, and promoting a host found by
  discovery. Its inputs from the address bar are a record (\<open>form_route\<close>), its \<open>useState\<close> cells another
  (\<open>endpoint_form\<close>). \<open>handleSave\<close> validates, sends up to four requests and navigates; the answers of the
  server are arguments. The type of a loaded endpoint is whatever the server sends, so \<open>type\<close> is a text.
\<close>

subsection \<open>Route and state\<close>

datatype EndpointType = HostEndpoint | SamlEndpoint | ManualEndpoint

fun endpoint_type_string :: "EndpointType \<Rightarrow> string" where
  "endpoint_type_string HostEndpoint = ''host''"
| "endpoint_type_string SamlEndpoint = ''saml''"
| "endpoint_type_string ManualEndpoint = ''manual''"

definition TYPE_OPTIONS :: "(string \<times> string \<times> string) list" where
  "TYPE_OPTIONS =
     [(''host'', ''Host'', ''TLS endpoint '' @ em_dash @ '' monitors a server certificate via the scanner''),
      (''saml'', ''SAML Metadata'', ''Identity provider '' @ em_dash @ '' monitors certificates in federation metadata''),
      (''manual'', ''Manual'', ''Manually tracked '' @ em_dash @ '' link a certificate directly, no scanning'')]"

record form_route =
  route_id :: "string option"
  route_search :: search_params

definition isEdit :: "form_route \<Rightarrow> bool" where
  "isEdit r \<longleftrightarrow> truthy (route_id r)"

definition cloneId :: "form_route \<Rightarrow> string option" where
  "cloneId r = (if \<not> truthy (route_id r) then params_get (route_search r) ''clone'' else None)"

definition fromInboxId :: "form_route \<Rightarrow> string option" where
  "fromInboxId r = (if \<not> truthy (route_id r) then params_get (route_search r) ''from_inbox'' else None)"

definition isClone :: "form_route \<Rightarrow> bool" where
  "isClone r \<longleftrightarrow> truthy (cloneId r)"

definition isFromInbox :: "form_route \<Rightarrow> bool" where
  "isFromInbox r \<longleftrightarrow> truthy (fromInboxId r)"

definition typeParam :: "form_route \<Rightarrow> string option" where
  "typeParam r =
     (case params_get (route_search r) ''type'' of
        Some raw \<Rightarrow> if raw = ''host'' \<or> raw = ''saml'' \<or> raw = ''manual'' then Some raw else None
      | None \<Rightarrow> None)"

definition initialType :: "form_route \<Rightarrow> string" where
  "initialType r = nullish (typeParam r) ''host''"

definition typeLocked :: "form_route \<Rightarrow> bool" where
  "typeLocked r \<longleftrightarrow> isEdit r \<or> isFromInbox r \<or> \<not> isClone r \<and> typeParam r \<noteq> None"

record endpoint_form =
  form_loadError :: "string option"
  form_ready :: bool
  form_inboxIP :: "string option"
  form_type :: string
  form_name :: string
  form_dnsName :: string
  form_port :: string
  form_ipAddress :: string
  form_url :: string
  form_scannerID :: string
  form_enabled :: bool
  form_scanExempt :: bool
  form_notes :: string
  form_pem :: string
  form_fileName :: "string option"
  form_selectedTagIds :: "string js_set"
  form_showTagPicker :: bool
  form_resolving :: bool
  form_resolveError :: "string option"
  form_saving :: bool
  form_error :: "string option"
  form_navigated :: "string option"

definition form_init :: "form_route \<Rightarrow> endpoint_form" where
  "form_init r =
     \<lparr>form_loadError = None, form_ready = (\<not> isEdit r \<and> \<not> isClone r \<and> \<not> isFromInbox r), form_inboxIP = None,
      form_type = initialType r, form_name = [], form_dnsName = [], form_port = ''443'', form_ipAddress = [],
      form_url = [], form_scannerID = [], form_enabled = True, form_scanExempt = False, form_notes = [],
      form_pem = [], form_fileName = None, form_selectedTagIds = js_set_empty, form_showTagPicker = False,
      form_resolving = False, form_resolveError = None, form_saving = False, form_error = None,
      form_navigated = None\<rparr>"

subsection \<open>Loading\<close>

text \<open>The three loading effects, given the outcome of their request; an \<open>undefined\<close> endpoint throws in the callback.\<close>

definition load_endpoint :: "Endpoint outcome \<Rightarrow> endpoint_form \<Rightarrow> endpoint_form" where
  "load_endpoint out f =
     (case out of
        Inr (Some ep) \<Rightarrow>
          f\<lparr>form_type := endpoint_type ep, form_name := endpoint_name ep, form_dnsName := endpoint_dnsName ep,
            form_port := show_int (endpoint_port ep), form_ipAddress := nullish (endpoint_ipAddress ep) [],
            form_url := nullish (endpoint_url ep) [], form_scannerID := nullish (endpoint_scannerId ep) [],
            form_enabled := endpoint_enabled ep, form_scanExempt := endpoint_scanExempt ep,
            form_notes := nullish (endpoint_notes ep) [], form_pem := [], form_ready := True\<rparr>
      | Inr None \<Rightarrow> f\<lparr>form_loadError := Some ''Failed to load endpoint.''\<rparr>
      | Inl err \<Rightarrow> f\<lparr>form_loadError := Some (api_message ''Failed to load endpoint.'' err)\<rparr>)"

definition load_inbox :: "DiscoveryInboxItem outcome \<Rightarrow> endpoint_form \<Rightarrow> endpoint_form" where
  "load_inbox out f =
     (case out of
        Inr (Some item) \<Rightarrow>
          (let suggested = nullish (discoveryInboxItem_rdns item) (discoveryInboxItem_ip item) in
           f\<lparr>form_type := ''host'', form_name := suggested, form_dnsName := suggested,
             form_ipAddress := discoveryInboxItem_ip item, form_port := show_int (discoveryInboxItem_port item),
             form_scannerID := nullish (discoveryInboxItem_scannerId item) [], form_enabled := True,
             form_inboxIP := Some (discoveryInboxItem_ip item @ '':'' @ show_int (discoveryInboxItem_port item)),
             form_ready := True\<rparr>)
      | Inr None \<Rightarrow> f\<lparr>form_loadError := Some ''Failed to load inbox item.''\<rparr>
      | Inl err \<Rightarrow> f\<lparr>form_loadError := Some (api_message ''Failed to load inbox item.'' err)\<rparr>)"

definition load_clone :: "Endpoint outcome \<Rightarrow> endpoint_form \<Rightarrow> endpoint_form" where
  "load_clone out f =
     (case out of
        Inr (Some ep) \<Rightarrow>
          f\<lparr>form_type := endpoint_type ep, form_name := ''Copy of '' @ endpoint_name ep,
            form_dnsName := endpoint_dnsName ep, form_port := show_int (endpoint_port ep),
            form_ipAddress := nullish (endpoint_ipAddress ep) [], form_url := nullish (endpoint_url ep) [],
            form_scannerID := nullish (endpoint_scannerId ep) [], form_enabled := True,
            form_notes := nullish (endpoint_notes ep) [], form_pem := [], form_ready := True\<rparr>
      | Inr None \<Rightarrow> f\<lparr>form_loadError := Some ''Failed to load source endpoint.''\<rparr>
      | Inl err \<Rightarrow> f\<lparr>form_loadError := Some (api_message ''Failed to load source endpoint.'' err)\<rparr>)"

text \<open>\<open>getEndpointTags(id).then(...).catch(() => {})\<close>.\<close>

definition load_tags :: "TagWithCategory list outcome \<Rightarrow> endpoint_form \<Rightarrow> endpoint_form" where
  "load_tags out f =
     (case out of
        Inr (Some tags) \<Rightarrow> f\<lparr>form_selectedTagIds := js_set_of (map tagWithCategory_id tags)\<rparr>
      | _ \<Rightarrow> f)"

subsection \<open>Editing\<close>

definition choose_file :: "string option \<Rightarrow> endpoint_form \<Rightarrow> endpoint_form" where
  "choose_file file f = (case file of None \<Rightarrow> f | Some name \<Rightarrow> f\<lparr>form_fileName := Some name\<rparr>)"

definition file_loaded :: "string \<Rightarrow> endpoint_form \<Rightarrow> endpoint_form" where
  "file_loaded content f = f\<lparr>form_pem := content, form_error := None\<rparr>"

definition file_failed :: "endpoint_form \<Rightarrow> endpoint_form" where
  "file_failed f = f\<lparr>form_error := Some ''Failed to read file.''\<rparr>"

definition handleTypeChange :: "form_route \<Rightarrow> string \<Rightarrow> endpoint_form \<Rightarrow> endpoint_form" where
  "handleTypeChange r next f =
     (if isEdit r then f
      else
        (let f1 = f\<lparr>form_type := next, form_error := None, form_resolveError := None\<rparr>
         in if next \<noteq> ''manual'' then f1\<lparr>form_pem := [], form_fileName := None\<rparr> else f1))"

definition toggle_tag :: "string \<Rightarrow> endpoint_form \<Rightarrow> endpoint_form" where
  "toggle_tag tagId f = f\<lparr>form_selectedTagIds := js_set_toggle tagId (form_selectedTagIds f)\<rparr>"

definition remove_tag :: "string \<Rightarrow> endpoint_form \<Rightarrow> endpoint_form" where
  "remove_tag tagId f = f\<lparr>form_selectedTagIds := js_set_delete tagId (form_selectedTagIds f)\<rparr>"

definition handleResolve :: "ResolveResponse fetch_result \<Rightarrow> endpoint_form \<Rightarrow> client \<Rightarrow> http_call list \<times> client \<times> endpoint_form" where
  "handleResolve answer f c =
     (let hostname = trim (form_dnsName f) in
      if hostname = [] then ([], c, f)
      else
        (case io_bind (await (resolve hostname) answer) io_the c of
           (ks, c1, Inr result) \<Rightarrow>
             (ks, c1,
              (case resolveResponse_addresses result of
                 a # _ \<Rightarrow> f\<lparr>form_ipAddress := a, form_resolveError := None, form_resolving := False\<rparr>
               | [] \<Rightarrow> f\<lparr>form_resolveError := Some ''No addresses returned for this hostname.'', form_resolving := False\<rparr>))
         | (ks, c1, Inl err) \<Rightarrow>
             (ks, c1, f\<lparr>form_resolveError := Some (api_message ''DNS resolution failed.'' err), form_resolving := False\<rparr>)))"

subsection \<open>Saving\<close>

definition save_error :: "endpoint_form \<Rightarrow> string option" where
  "save_error f =
     (if trim (form_name f) = [] then Some ''Name is required.''
      else if form_type f = ''host'' \<and> trim (form_dnsName f) = [] then Some ''DNS Name is required.''
      else if form_type f = ''host'' \<and>
              (case parseInt (Some 10) (form_port f) of None \<Rightarrow> True | Some p \<Rightarrow> p < 1 \<or> p > 65535)
      then Some ''Port must be between 1 and 65535.''
      else if form_type f = ''saml'' \<and> trim (form_url f) = [] then Some ''Metadata URL is required.''
      else None)"

definition update_request :: "endpoint_form \<Rightarrow> UpdateEndpointRequest" where
  "update_request f =
     (let host = (form_type f = ''host''); saml = (form_type f = ''saml'') in
      \<lparr>updateEndpointRequest_name = trim (form_name f),
       updateEndpointRequest_type = Some (form_type f),
       updateEndpointRequest_dnsName = (if host then Some (trim (form_dnsName f)) else None),
       updateEndpointRequest_ipAddress = (if host then or_undefined (trim (form_ipAddress f)) else None),
       updateEndpointRequest_port = (if host then parseInt (Some 10) (form_port f) else None),
       updateEndpointRequest_url = (if saml then Some (trim (form_url f)) else None),
       updateEndpointRequest_enabled = form_enabled f,
       updateEndpointRequest_scanExempt = Some (form_scanExempt f),
       updateEndpointRequest_scannerId = (if form_type f \<noteq> ''manual'' then or_undefined (form_scannerID f) else None),
       updateEndpointRequest_notes = or_undefined (trim (form_notes f))\<rparr>)"

definition create_request :: "endpoint_form \<Rightarrow> CreateEndpointRequest" where
  "create_request f =
     (let host = (form_type f = ''host''); saml = (form_type f = ''saml'') in
      \<lparr>createEndpointRequest_name = trim (form_name f),
       createEndpointRequest_type = Some (form_type f),
       createEndpointRequest_dnsName = (if host then Some (trim (form_dnsName f)) else None),
       createEndpointRequest_ipAddress = (if host then or_undefined (trim (form_ipAddress f)) else None),
       createEndpointRequest_port = (if host then parseInt (Some 10) (form_port f) else None),
       createEndpointRequest_url = (if saml then Some (trim (form_url f)) else None),
       createEndpointRequest_scannerId = (if form_type f \<noteq> ''manual'' then or_undefined (form_scannerID f) else None),
       createEndpointRequest_notes = or_undefined (trim (form_notes f))\<rparr>)"

text \<open>The server's answers to the requests of one save, whether or not they are sent.\<close>

record save_answers =
  ans_endpoint :: "Endpoint fetch_result"
  ans_link :: "Endpoint fetch_result"
  ans_tags :: "unit fetch_result"
  ans_inbox :: "unit fetch_result"

definition links_pem :: "endpoint_form \<Rightarrow> bool" where
  "links_pem f \<longleftrightarrow> form_type f = ''manual'' \<and> trim (form_pem f) \<noteq> []"

definition save_edit :: "string \<Rightarrow> endpoint_form \<Rightarrow> save_answers \<Rightarrow> string io" where
  "save_edit eid f a =
     io_bind (await (updateEndpoint eid (update_request f)) (ans_endpoint a)) (\<lambda>_.
     io_bind (io_when (links_pem f) (await (linkCertificate eid (trim (form_pem f))) (ans_link a))) (\<lambda>_.
     io_bind (await (setEndpointTags eid (form_selectedTagIds f)) (ans_tags a)) (\<lambda>_.
     io_return (''/endpoints/'' @ eid))))"

definition save_new :: "form_route \<Rightarrow> endpoint_form \<Rightarrow> save_answers \<Rightarrow> string io" where
  "save_new r f a =
     io_bind (await (createEndpoint (create_request f)) (ans_endpoint a)) (\<lambda>endpoint.
     io_bind (io_when (links_pem f)
       (io_bind (io_the endpoint) (\<lambda>ep. await (linkCertificate (endpoint_id ep) (trim (form_pem f))) (ans_link a)))) (\<lambda>_.
     io_bind (io_when (form_selectedTagIds f \<noteq> [])
       (io_bind (io_the endpoint) (\<lambda>ep. await (setEndpointTags (endpoint_id ep) (form_selectedTagIds f)) (ans_tags a)))) (\<lambda>_.
     io_bind (io_when (isFromInbox r)
       (io_ignore (await (deleteDiscoveryInboxItem (nullish (fromInboxId r) [])) (ans_inbox a)))) (\<lambda>_.
     io_bind (io_the endpoint) (\<lambda>ep. io_return (''/endpoints/'' @ endpoint_id ep))))))"

definition save_body :: "form_route \<Rightarrow> endpoint_form \<Rightarrow> save_answers \<Rightarrow> string io" where
  "save_body r f a = (if isEdit r then save_edit (nullish (route_id r) []) f a else save_new r f a)"

definition handleSave :: "form_route \<Rightarrow> endpoint_form \<Rightarrow> save_answers \<Rightarrow> client \<Rightarrow> http_call list \<times> client \<times> endpoint_form" where
  "handleSave r f a c =
     (case save_error f of
        Some e \<Rightarrow> ([], c, f\<lparr>form_error := Some e\<rparr>)
      | None \<Rightarrow>
          (case save_body r f a c of
             (ks, c1, Inr target) \<Rightarrow>
               (ks, c1, f\<lparr>form_error := None, form_saving := True, form_navigated := Some target\<rparr>)
           | (ks, c1, Inl err) \<Rightarrow>
               (ks, c1, f\<lparr>form_error := Some (api_message
                    (if isEdit r then ''Failed to save endpoint.'' else ''Failed to create endpoint.'') err),
                  form_saving := False\<rparr>)))"

definition handleCancel :: "form_route \<Rightarrow> endpoint_form \<Rightarrow> string" where
  "handleCancel r f =
     (if isFromInbox r then ''/discovery/inbox''
      else if isEdit r then ''/endpoints/'' @ nullish (route_id r) []
      else if typeLocked r \<or> isClone r then ''/endpoints/'' @ form_type f else ''/endpoints'')"

subsection \<open>Titles\<close>

definition TYPE_LABEL :: "string js_object" where
  "TYPE_LABEL = [(''host'', ''Host''), (''saml'', ''SAML''), (''manual'', ''Manual'')]"

definition typeKnown :: "form_route \<Rightarrow> endpoint_form \<Rightarrow> bool" where
  "typeKnown r f = (if isEdit r \<or> isClone r then form_ready f else True)"

text \<open>A type outside the table prints as \<open>undefined\<close>.\<close>

definition type_label :: "string \<Rightarrow> string" where
  "type_label t = nullish (map_of TYPE_LABEL t) ''undefined''"

definition typedNoun :: "form_route \<Rightarrow> endpoint_form \<Rightarrow> string" where
  "typedNoun r f = (if typeKnown r f then type_label (form_type f) @ '' Endpoint'' else ''Endpoint'')"

definition pageTitle :: "form_route \<Rightarrow> endpoint_form \<Rightarrow> string" where
  "pageTitle r f =
     (if isFromInbox r then ''Add Discovered Host''
      else if isEdit r then ''Edit '' @ typedNoun r f
      else if isClone r then ''Clone '' @ typedNoun r f
      else if typeLocked r then ''New '' @ typedNoun r f
      else ''New Endpoint'')"

definition pageDescription :: "form_route \<Rightarrow> string" where
  "pageDescription r =
     (if isEdit r then ''Update endpoint configuration''
      else if isClone r then ''Create a duplicate of this endpoint''
      else if isFromInbox r then ''Promote a discovered host to a monitored endpoint''
      else ''Register a new monitored endpoint'')"

definition breadcrumb :: "form_route \<Rightarrow> endpoint_form \<Rightarrow> (string \<times> string option) list" where
  "breadcrumb r f =
     (if typeKnown r f
      then [(type_label (form_type f) @ '' Endpoints'', Some (''/endpoints/'' @ form_type f)), (pageTitle r f, None)]
      else [(''Endpoints'', Some ''/endpoints''), (pageTitle r f, None)])"

datatype form_view = FormLoading | FormLoadError string | FormFields

definition form_view_of :: "form_route \<Rightarrow> endpoint_form \<Rightarrow> form_view" where
  "form_view_of r f =
     (if (isEdit r \<or> isClone r) \<and> \<not> form_ready f \<and> \<not> truthy (form_loadError f) then FormLoading
      else (case form_loadError f of Some e \<Rightarrow> if e \<noteq> [] then FormLoadError e else FormFields | None \<Rightarrow> FormFields))"

text \<open>Which controls the page shows, and which are usable.\<close>

record form_controls =
  shows_type_picker :: bool
  shows_host_fields :: bool
  shows_url :: bool
  shows_pem :: bool
  shows_scanner :: bool
  shows_status :: bool
  resolve_enabled :: bool
  save_enabled :: bool
  save_label :: string

definition form_controls_of :: "form_route \<Rightarrow> endpoint_form \<Rightarrow> form_controls" where
  "form_controls_of r f =
     \<lparr>shows_type_picker = (\<not> typeLocked r \<and> \<not> isFromInbox r),
      shows_host_fields = (form_type f = ''host''),
      shows_url = (form_type f = ''saml''),
      shows_pem = (form_type f = ''manual''),
      shows_scanner = (form_type f \<noteq> ''manual''),
      shows_status = isEdit r,
      resolve_enabled = (trim (form_dnsName f) \<noteq> [] \<and> \<not> form_resolving f),
      save_enabled = (\<not> form_saving f),
      save_label =
        (if form_saving f then (if isEdit r then ''Saving'' @ ellipsis else ''Adding'' @ ellipsis)
         else if isEdit r then ''Save Changes'' else if isFromInbox r then ''Add Endpoint'' else ''Create Endpoint'')\<rparr>"

subsection \<open>Valid request bodies\<close>

text \<open>What the server can rely on, stated on the JSON body.\<close>

definition nonblank :: "json option \<Rightarrow> bool" where
  "nonblank v \<longleftrightarrow> (\<exists>s. v = Some (JStr s) \<and> s \<noteq> [] \<and> trim s = s)"

definition valid_endpoint_json :: "json \<Rightarrow> bool" where
  "valid_endpoint_json b \<longleftrightarrow>
     nonblank (json_field b ''name'')
     \<and> (json_field b ''type'' = Some (JStr ''host'') \<longrightarrow>
          nonblank (json_field b ''dnsName'') \<and> (\<exists>p. json_field b ''port'' = Some (jint p) \<and> 1 \<le> p \<and> p \<le> 65535)
          \<and> json_field b ''url'' = None)
     \<and> (json_field b ''type'' = Some (JStr ''saml'') \<longrightarrow>
          nonblank (json_field b ''url'') \<and> json_field b ''dnsName'' = None \<and> json_field b ''port'' = None)
     \<and> (json_field b ''type'' = Some (JStr ''manual'') \<longrightarrow>
          json_field b ''dnsName'' = None \<and> json_field b ''url'' = None \<and> json_field b ''scannerId'' = None)"

lemma save_error_None:
  assumes "save_error f = None"
  shows "trim (form_name f) \<noteq> []"
    and "form_type f = ''host'' \<Longrightarrow>
      trim (form_dnsName f) \<noteq> [] \<and> (\<exists>p. parseInt (Some 10) (form_port f) = Some p \<and> 1 \<le> p \<and> p \<le> 65535)"
    and "form_type f = ''saml'' \<Longrightarrow> trim (form_url f) \<noteq> []"
  using assms by (auto simp: save_error_def split: if_splits option.splits)

lemma valid_create_json: "save_error f = None \<Longrightarrow> valid_endpoint_json (json_CreateEndpointRequest (create_request f))"
  using save_error_None [of f]
  by (auto simp: valid_endpoint_json_def nonblank_def json_CreateEndpointRequest_def json_field_jobject
      create_request_def Let_def)

lemma valid_update_json: "save_error f = None \<Longrightarrow> valid_endpoint_json (json_UpdateEndpointRequest (update_request f))"
  using save_error_None [of f]
  by (auto simp: valid_endpoint_json_def nonblank_def json_UpdateEndpointRequest_def json_field_jobject
      update_request_def Let_def)

subsection \<open>The requests of a save\<close>

lemmas save_calls = updateEndpoint_def createEndpoint_def linkCertificate_def setEndpointTags_def
  deleteDiscoveryInboxItem_def

lemma save_body_first_call:
  "\<exists>rest. io_calls (save_body r f a) c =
     (if isEdit r then fst (updateEndpoint (nullish (route_id r) []) (update_request f) c (ans_endpoint a))
      else fst (createEndpoint (create_request f) c (ans_endpoint a))) # rest"
  by (simp add: save_body_def save_edit_def save_new_def io_bind_simps io_await_simps)

lemma handleSave_calls:
  "fst (handleSave r f a c) = (if save_error f = None then io_calls (save_body r f a) c else [])"
  by (simp add: handleSave_def split: option.splits prod.splits sum.splits)

lemma handleSave_form:
  assumes "save_error f = None"
  shows "snd (snd (handleSave r f a c)) =
    (case io_result (save_body r f a) c of
       Inr target \<Rightarrow> f\<lparr>form_error := None, form_saving := True, form_navigated := Some target\<rparr>
     | Inl err \<Rightarrow> f\<lparr>form_error := Some (api_message
           (if isEdit r then ''Failed to save endpoint.'' else ''Failed to create endpoint.'') err), form_saving := False\<rparr>)"
  using assms by (simp add: handleSave_def split: prod.splits sum.splits)

lemma createEndpoint_result [simp]: "snd (createEndpoint req c a) = read_answer c a"
  and updateEndpoint_result [simp]: "snd (updateEndpoint eid ureq c a) = read_answer c a"
  and linkCertificate_result [simp]: "snd (linkCertificate eid pem c a) = read_answer c a"
  and setEndpointTags_result [simp]: "snd (setEndpointTags eid ts c a') = read_answer c a'"
  and deleteDiscoveryInboxItem_result [simp]: "snd (deleteDiscoveryInboxItem did c a') = read_answer c a'"
  by (simp_all add: save_calls api_call_result)

lemma session_safe_save: "session_safe (save_body r f a)"
  unfolding save_body_def save_edit_def save_new_def
  by (auto intro!: session_safe_bind session_safe_when session_safe_ignore session_safe_return session_safe_the session_safe_await)

text \<open>A save that creates: the requests after the first one, when the server has created the endpoint.\<close>

definition accepted :: "'b fetch_result \<Rightarrow> bool" where
  "accepted answer \<longleftrightarrow> (\<exists>v. delivers answer v) \<or> (\<exists>res. answer = Fetched res \<and> res_ok res \<and>
      \<not> js_includes (nullish (res_contentType res) []) ''application/json'')"

lemma read_answer_accepted:
  assumes "accepted answer"
  shows "\<exists>v. read_answer c answer = (c, Inr v)"
  using assms by (auto simp: accepted_def delivers_def read_answer_def)

lemma save_new_run:
  assumes "delivers (ans_endpoint a) ep" and "accepted (ans_link a)" and "accepted (ans_tags a)" and "\<not> isEdit r"
  shows "io_calls (save_body r f a) c =
      fst (createEndpoint (create_request f) c (ans_endpoint a))
      # (if links_pem f then [fst (linkCertificate (endpoint_id ep) (trim (form_pem f)) c (ans_link a))] else [])
      @ (if form_selectedTagIds f \<noteq> [] then [fst (setEndpointTags (endpoint_id ep) (form_selectedTagIds f) c (ans_tags a))] else [])
      @ (if isFromInbox r then [fst (deleteDiscoveryInboxItem (nullish (fromInboxId r) []) c (ans_inbox a))] else [])"
    and "io_result (save_body r f a) c = Inr (''/endpoints/'' @ endpoint_id ep)"
proof -
  obtain v w where l: "read_answer c (ans_link a) = (c, Inr v)" and t: "read_answer c (ans_tags a) = (c, Inr w)"
    using assms(2,3) read_answer_accepted by metis
  have e: "read_answer c (ans_endpoint a) = (c, Inr (Some ep))" using assms(1) by (rule read_answer_delivers)
  show "io_calls (save_body r f a) c =
      fst (createEndpoint (create_request f) c (ans_endpoint a))
      # (if links_pem f then [fst (linkCertificate (endpoint_id ep) (trim (form_pem f)) c (ans_link a))] else [])
      @ (if form_selectedTagIds f \<noteq> [] then [fst (setEndpointTags (endpoint_id ep) (form_selectedTagIds f) c (ans_tags a))] else [])
      @ (if isFromInbox r then [fst (deleteDiscoveryInboxItem (nullish (fromInboxId r) []) c (ans_inbox a))] else [])"
    "io_result (save_body r f a) c = Inr (''/endpoints/'' @ endpoint_id ep)"
    using assms(4) by (simp_all add: save_body_def save_new_def io_simps e l t)
qed

subsection \<open>Removing the inbox row\<close>

definition is_inbox_delete :: "http_call \<Rightarrow> bool" where
  "is_inbox_delete k \<longleftrightarrow> call_method k = ''DELETE''"

definition authorized :: "http_call \<Rightarrow> bool" where
  "authorized k \<longleftrightarrow> ''Authorization'' \<in> fst ` set (call_headers k)"

lemma call_methods [simp]:
  "call_method (fst (createEndpoint req c a)) = ''POST''" "call_method (fst (updateEndpoint eid ureq c a)) = ''PUT''"
  "call_method (fst (linkCertificate eid pem c a)) = ''POST''" "call_method (fst (setEndpointTags eid ts c a')) = ''PUT''"
  "call_method (fst (deleteDiscoveryInboxItem did c a')) = ''DELETE''"
  by (simp_all add: save_calls api_verbs request_def)

lemma authorized_token: "authorized (fst (deleteDiscoveryInboxItem did c a)) \<longleftrightarrow> truthy (client_token c)"
  by (cases "client_token c") (simp_all add: authorized_def save_calls api_verbs request_def request_headers_def)

lemma io_when_result_Inr: "io_result (io_when b m) c = Inr v \<Longrightarrow> b \<Longrightarrow> \<exists>w. io_result m c = Inr w"
  by (cases "io_result m c") (simp_all add: io_when_simps)

text \<open>The two optional requests in the middle keep the session or wipe it, and are no deletions.\<close>

lemma middle_calls_no_delete:
  "k \<in> set (io_calls (io_when b (io_bind (io_the endpoint) (\<lambda>ep. await (linkCertificate (endpoint_id ep) pem) l))) c) \<Longrightarrow>
     \<not> is_inbox_delete k"
  "k \<in> set (io_calls (io_when b (io_bind (io_the endpoint) (\<lambda>ep. await (setEndpointTags (endpoint_id ep) ts) t))) c) \<Longrightarrow>
     \<not> is_inbox_delete k"
  by (auto simp: io_simps is_inbox_delete_def split: option.splits if_splits)

lemma inbox_delete_session:
  assumes "k \<in> set (io_calls (save_new r f a) c)" and "is_inbox_delete k" and "authorized k"
  shows "\<exists>res. ans_endpoint a = Fetched res \<and> res_ok res"
proof -
  obtain c1 out where e: "read_answer c (ans_endpoint a) = (c1, out)" by (cases "read_answer c (ans_endpoint a)")
  have first: "\<not> is_inbox_delete (fst (createEndpoint (create_request f) c (ans_endpoint a)))"
    by (simp add: is_inbox_delete_def)
  obtain v where v: "out = Inr v"
    using assms(1,2) first by (cases out) (auto simp: save_new_def io_simps e)
  let ?link = "io_when (links_pem f) (io_bind (io_the v) (\<lambda>ep. await (linkCertificate (endpoint_id ep) (trim (form_pem f))) (ans_link a)))"
  let ?tags = "io_when (form_selectedTagIds f \<noteq> []) (io_bind (io_the v) (\<lambda>ep. await (setEndpointTags (endpoint_id ep) (form_selectedTagIds f)) (ans_tags a)))"
  have safe: "session_safe ?link" "session_safe ?tags"
    by (auto intro!: session_safe_bind session_safe_when session_safe_the session_safe_await)
  let ?c2 = "io_client ?link c1"
  let ?c3 = "io_client ?tags ?c2"
  have "k = fst (deleteDiscoveryInboxItem (nullish (fromInboxId r) []) ?c3 (ans_inbox a))"
    using assms(1,2) first middle_calls_no_delete(1) [of k "links_pem f" v "trim (form_pem f)" "ans_link a" c1]
      middle_calls_no_delete(2) [of k "form_selectedTagIds f \<noteq> []" v "form_selectedTagIds f" "ans_tags a" ?c2]
    by (auto simp: save_new_def io_bind_simps io_await_simps io_when_simps(1,2) [of "isFromInbox r"] io_ignore_simps io_the_simps
        io_return_simps e v split: sum.splits if_splits option.splits)
  then have "client_token ?c3 \<noteq> None" using assms(3) authorized_token by (metis truthy_simps(1))
  then have "client_token c1 \<noteq> None" using safe unfolding session_safe_def by metis
  then show ?thesis
    using read_answer_undefined [of c "ans_endpoint a"] read_answer_value [of c "ans_endpoint a"] e v
    by (cases v) (auto simp: delivers_def)
qed

subsection \<open>Loading and saving unchanged\<close>

text \<open>An endpoint as the server stores it: trimmed texts, a port in range, the fields of its type.\<close>

definition stored_text :: "string option \<Rightarrow> bool" where
  "stored_text x \<longleftrightarrow> (case x of None \<Rightarrow> True | Some s \<Rightarrow> s \<noteq> [] \<and> trim s = s)"

definition stored_endpoint :: "Endpoint \<Rightarrow> bool" where
  "stored_endpoint ep \<longleftrightarrow>
     endpoint_name ep \<noteq> [] \<and> trim (endpoint_name ep) = endpoint_name ep
     \<and> stored_text (endpoint_notes ep) \<and> stored_text (endpoint_ipAddress ep) \<and> stored_text (endpoint_scannerId ep)
     \<and> (endpoint_type ep = ''host'' \<longrightarrow>
          endpoint_dnsName ep \<noteq> [] \<and> trim (endpoint_dnsName ep) = endpoint_dnsName ep
          \<and> 1 \<le> endpoint_port ep \<and> endpoint_port ep \<le> 65535)
     \<and> (endpoint_type ep = ''saml'' \<longrightarrow> endpoint_url ep \<noteq> None \<and> stored_text (endpoint_url ep))"

definition same_endpoint :: "Endpoint \<Rightarrow> UpdateEndpointRequest \<Rightarrow> bool" where
  "same_endpoint ep req \<longleftrightarrow>
     updateEndpointRequest_name req = endpoint_name ep
     \<and> updateEndpointRequest_type req = Some (endpoint_type ep)
     \<and> updateEndpointRequest_enabled req = endpoint_enabled ep
     \<and> updateEndpointRequest_scanExempt req = Some (endpoint_scanExempt ep)
     \<and> updateEndpointRequest_notes req = endpoint_notes ep
     \<and> (endpoint_type ep \<noteq> ''manual'' \<longrightarrow> updateEndpointRequest_scannerId req = endpoint_scannerId ep)
     \<and> (endpoint_type ep = ''host'' \<longrightarrow>
          updateEndpointRequest_dnsName req = Some (endpoint_dnsName ep)
          \<and> updateEndpointRequest_port req = Some (endpoint_port ep)
          \<and> updateEndpointRequest_ipAddress req = endpoint_ipAddress ep)
     \<and> (endpoint_type ep = ''saml'' \<longrightarrow> updateEndpointRequest_url req = endpoint_url ep)"

lemma stored_text_trim: "stored_text x \<Longrightarrow> or_undefined (trim (nullish x [])) = x \<and> or_undefined (nullish x []) = x"
  by (cases x) (simp_all add: stored_text_def)

lemma stored_text_Some: "stored_text x \<Longrightarrow> x \<noteq> None \<Longrightarrow> Some (trim (nullish x [])) = x \<and> trim (nullish x []) \<noteq> []"
  by (cases x) (simp_all add: stored_text_def)

lemma load_then_update:
  assumes "stored_endpoint ep"
  shows "same_endpoint ep (update_request (load_endpoint (Inr (Some ep)) f))"
    and "save_error (load_endpoint (Inr (Some ep)) f) = None"
  using assms stored_text_trim [of "endpoint_notes ep"] stored_text_trim [of "endpoint_ipAddress ep"]
    stored_text_trim [of "endpoint_scannerId ep"] stored_text_Some [of "endpoint_url ep"]
  by (auto simp: stored_endpoint_def same_endpoint_def update_request_def load_endpoint_def save_error_def
      parseInt_show_int Let_def)

text \<open>
  After a partial failure the form keeps no trace of the endpoint that was created: saving again
  creates a second one.
\<close>

lemma retry_creates_again:
  assumes "\<not> isEdit r" and "save_error f = None" and "delivers (ans_endpoint a) ep"
    and "links_pem f" and "ans_link a = FetchFailed m"
    and f'_def: "f' = snd (snd (handleSave r f a c))"
  shows "\<not> form_saving f' \<and> (\<exists>ks. fst (handleSave r f' a' c') = fst (createEndpoint (create_request f) c' (ans_endpoint a')) # ks)"
proof -
  have e: "read_answer c (ans_endpoint a) = (c, Inr (Some ep))" using assms(3) by (rule read_answer_delivers)
  have l: "read_answer c (ans_link a) = (c, Inl (OtherError m))" by (simp add: assms(5) read_answer_def)
  have "io_result (save_body r f a) c = Inl (OtherError m)"
    using assms(1,4) by (simp add: save_body_def save_new_def io_simps e l)
  then have f': "f' = f\<lparr>form_error := Some ''Failed to create endpoint.'', form_saving := False\<rparr>"
    using assms(1,2) by (simp add: f'_def handleSave_form)
  then have same: "save_error f' = save_error f" "create_request f' = create_request f"
    by (simp_all add: save_error_def create_request_def Let_def)
  with assms(2) show ?thesis using save_body_first_call [of r f' a' c'] assms(1) f' by (auto simp: handleSave_calls)
qed

subsection \<open>Properties\<close>

text \<open>\<^bold>\<open>C10\<close>: the form never sends an invalid endpoint. When a save sends anything at all, its first request is
  the creation (or, when editing, the update) with a valid body: a trimmed, non-empty name, for a host a
  DNS name and a port between 1 and 65535, for SAML a URL, and none of the fields of the other types.\<close>

theorem save_sends_valid_endpoint:
  assumes "fst (handleSave r f a c) = k # ks"
  shows "(\<exists>b. call_body k = Some b \<and> valid_endpoint_json b)
    \<and> call_method k = (if isEdit r then ''PUT'' else ''POST'')
    \<and> call_url k = (if isEdit r then ''/api/v1/endpoints/'' @ nullish (route_id r) [] else ''/api/v1/endpoints'')"
proof -
  have ok: "save_error f = None" using assms by (simp add: handleSave_calls split: if_splits)
  have "k = (if isEdit r then fst (updateEndpoint (nullish (route_id r) []) (update_request f) c (ans_endpoint a))
      else fst (createEndpoint (create_request f) c (ans_endpoint a)))"
    using save_body_first_call [of r f a c] assms ok by (auto simp: handleSave_calls)
  then show ?thesis
    using valid_create_json [OF ok] valid_update_json [OF ok]
    by (simp add: save_calls api_call_url api_call_body BASE_def) (simp add: api_verbs request_def)
qed

definition example_answers :: "save_answers" where
  "example_answers =
     \<lparr>ans_endpoint = FetchFailed ''offline'', ans_link = FetchFailed [], ans_tags = FetchFailed [], ans_inbox = FetchFailed []\<rparr>"

definition example_route :: "form_route" where
  "example_route = \<lparr>route_id = None, route_search = [(''type'', ''saml'')]\<rparr>"

definition example_form :: "endpoint_form" where
  "example_form = (form_init example_route)\<lparr>form_name := '' Okta '', form_url := ''https://idp''\<rparr>"

lemma example_form_valid: "save_error example_form = None"
  by code_simp

theorem save_sends_valid_endpoint_witness:
  "\<exists>k ks b. fst (handleSave example_route example_form example_answers (client_load (\<lambda>_. None))) = k # ks
     \<and> call_body k = Some b \<and> valid_endpoint_json b"
proof -
  obtain k ks where k: "fst (handleSave example_route example_form example_answers (client_load (\<lambda>_. None))) = k # ks"
    using save_body_first_call [of example_route example_form example_answers "client_load (\<lambda>_. None)"]
    by (auto simp: handleSave_calls example_form_valid)
  then show ?thesis using save_sends_valid_endpoint [OF k] by auto
qed

text \<open>\<^bold>\<open>C11\<close>: a successful creation does its work in order and completely: after the endpoint is created, the
  certificate of a manual endpoint is linked to it, the selected tags are set on it, the discovery row
  is removed, each exactly when asked for and with the id the server assigned; then the page moves
  to the new endpoint. Answers that are not errors suffice for the later requests.\<close>

theorem save_new_complete:
  assumes "\<not> isEdit r" and "save_error f = None" and "delivers (ans_endpoint a) ep"
    and "accepted (ans_link a)" and "accepted (ans_tags a)"
  shows "map (\<lambda>k. (call_method k, call_url k)) (fst (handleSave r f a c)) =
      [(''POST'', ''/api/v1/endpoints'')]
      @ (if links_pem f then [(''POST'', ''/api/v1/endpoints/'' @ endpoint_id ep @ ''/certificate'')] else [])
      @ (if form_selectedTagIds f \<noteq> [] then [(''PUT'', ''/api/v1/endpoints/'' @ endpoint_id ep @ ''/tags'')] else [])
      @ (if isFromInbox r then [(''DELETE'', ''/api/v1/discovery/inbox/'' @ nullish (fromInboxId r) [])] else [])
    \<and> form_navigated (snd (snd (handleSave r f a c))) = Some (''/endpoints/'' @ endpoint_id ep)"
proof -
  have urls:
    "call_url (fst (createEndpoint (create_request f) c (ans_endpoint a))) = ''/api/v1/endpoints''"
    "call_url (fst (linkCertificate (endpoint_id ep) (trim (form_pem f)) c (ans_link a))) = ''/api/v1/endpoints/'' @ endpoint_id ep @ ''/certificate''"
    "call_url (fst (setEndpointTags (endpoint_id ep) (form_selectedTagIds f) c (ans_tags a))) = ''/api/v1/endpoints/'' @ endpoint_id ep @ ''/tags''"
    "call_url (fst (deleteDiscoveryInboxItem (nullish (fromInboxId r) []) c (ans_inbox a))) = ''/api/v1/discovery/inbox/'' @ nullish (fromInboxId r) []"
    by (simp_all add: save_calls api_call_url BASE_def)
  note run = save_new_run [OF assms(3,4,5,1), of f c]
  have "snd (snd (handleSave r f a c)) =
      f\<lparr>form_error := None, form_saving := True, form_navigated := Some (''/endpoints/'' @ endpoint_id ep)\<rparr>"
    using assms(2) run(2) by (simp add: handleSave_form)
  then show ?thesis
    unfolding handleSave_calls using assms(2) by (simp add: run(1) urls)
qed

definition example_endpoint :: Endpoint where
  "example_endpoint =
     \<lparr>endpoint_id = ''e1'', endpoint_name = ''Okta'', endpoint_type = ''saml'', endpoint_dnsName = [],
      endpoint_ipAddress = None, endpoint_lastResolvedIp = None, endpoint_port = 0, endpoint_url = Some ''https://idp'',
      endpoint_samlMetadata = None, endpoint_samlFetchedAt = None, endpoint_enabled = True, endpoint_scanExempt = False,
      endpoint_scannerId = None, endpoint_scannerName = None, endpoint_activeCerts = [], endpoint_lastScannedAt = None,
      endpoint_lastScanError = None, endpoint_errorSince = None, endpoint_notes = Some ''SSO'', endpoint_createdAt = [],
      endpoint_updatedAt = []\<rparr>"

definition json_ok :: "'b \<Rightarrow> 'b fetch_result" where
  "json_ok v = Fetched \<lparr>res_status = 200, res_statusText = ''OK'', res_contentType = Some ''application/json'',
     res_text = [], res_json = Some v\<rparr>"

lemma delivers_json_ok: "delivers (json_ok v) v"
  by (simp add: delivers_def json_ok_def res_ok_def)

lemma accepted_json_ok: "accepted (json_ok v)"
  using delivers_json_ok [of v] unfolding accepted_def by blast

definition ok_answers :: "save_answers" where
  "ok_answers = \<lparr>ans_endpoint = json_ok example_endpoint, ans_link = json_ok example_endpoint,
     ans_tags = json_ok (), ans_inbox = json_ok ()\<rparr>"

theorem save_new_complete_witness:
  "form_navigated (snd (snd (handleSave example_route example_form ok_answers (client_load (\<lambda>_. None))))) = Some ''/endpoints/e1''"
proof -
  have e: "\<not> isEdit example_route" by (simp add: isEdit_def example_route_def)
  have d: "delivers (ans_endpoint ok_answers) example_endpoint" by (simp add: ok_answers_def delivers_json_ok)
  have l: "accepted (ans_link ok_answers)" "accepted (ans_tags ok_answers)"
    by (simp_all add: ok_answers_def delivers_json_ok accepted_json_ok)
  show ?thesis
    using save_new_complete [OF e example_form_valid d l, of "client_load (\<lambda>_. None)"] by (simp add: example_endpoint_def)
qed

text \<open>A host is removed from the discovery inbox only after the server accepted its promotion: whenever
  a save sends an authorized deletion, the creation before it was answered with a success status.\<close>

lemma inbox_row_removed_after_create:
  assumes "k \<in> set (fst (handleSave r f a c))" and "call_method k = ''DELETE''" and "authorized k"
  shows "\<not> isEdit r \<and> (\<exists>res. ans_endpoint a = Fetched res \<and> res_ok res)"
proof -
  have calls: "k \<in> set (io_calls (save_body r f a) c)"
    using assms(1) by (simp add: handleSave_calls split: if_splits)
  have "\<not> isEdit r"
  proof
    assume "isEdit r"
    with calls have "k \<in> set (io_calls (save_edit (nullish (route_id r) []) f a) c)" by (simp add: save_body_def)
    then show False
      using assms(2) by (auto simp: save_edit_def io_simps split: sum.splits if_splits)
  qed
  with calls assms(2,3) show ?thesis
    using inbox_delete_session [of k r f a c] by (simp add: save_body_def is_inbox_delete_def)
qed

lemma inbox_row_removed_after_create_witness:
  "\<exists>k \<in> set (fst (handleSave \<lparr>route_id = None, route_search = [(''from_inbox'', ''i1'')]\<rparr> example_form ok_answers
        (setToken ''t'' (client_load (\<lambda>_. None))))).
     call_method k = ''DELETE'' \<and> authorized k \<and> (\<exists>res. ans_endpoint ok_answers = Fetched res \<and> res_ok res)"
proof -
  let ?r = "\<lparr>route_id = None, route_search = [(''from_inbox'', ''i1'')]\<rparr>"
  let ?c = "setToken ''t'' (client_load (\<lambda>_. None))"
  have r: "\<not> isEdit ?r" "isFromInbox ?r"
    by (simp_all add: isEdit_def isFromInbox_def fromInboxId_def params_get_def)
  have d: "delivers (ans_endpoint ok_answers) example_endpoint" "accepted (ans_link ok_answers)" "accepted (ans_tags ok_answers)"
    by (simp_all add: ok_answers_def delivers_json_ok accepted_json_ok)
  let ?k = "fst (deleteDiscoveryInboxItem (nullish (fromInboxId ?r) []) ?c (ans_inbox ok_answers))"
  have k: "?k \<in> set (fst (handleSave ?r example_form ok_answers ?c))" "call_method ?k = ''DELETE''" "authorized ?k"
    using save_new_run(1) [OF d r(1), of example_form ?c] r(2)
    by (simp_all add: handleSave_calls example_form_valid authorized_token setToken_def)
  from inbox_row_removed_after_create [OF k] k show ?thesis by blast
qed

text \<open>Opening an endpoint for editing and saving it at once passes validation and sends the endpoint's
  own values back, for every endpoint the server stores.\<close>

lemma edit_unchanged_keeps_endpoint:
  assumes "stored_endpoint ep"
  shows "same_endpoint ep (update_request (load_endpoint (Inr (Some ep)) f))
    \<and> save_error (load_endpoint (Inr (Some ep)) f) = None"
  using load_then_update [OF assms] by simp

lemma edit_unchanged_keeps_endpoint_witness:
  "same_endpoint example_endpoint (update_request (load_endpoint (Inr (Some example_endpoint)) example_form))"
proof -
  have "stored_endpoint example_endpoint"
    by (simp add: stored_endpoint_def example_endpoint_def stored_text_def trim_def is_ws_def)
  then show ?thesis using edit_unchanged_keeps_endpoint by blast
qed

text \<open>When the tags of the edited endpoint could not be loaded, saving erases them: the failed load
  leaves the selection empty without a message, and a save whose update succeeds sends the empty
  selection as the endpoint's tags.\<close>

lemma failed_tag_load_erases_tags:
  assumes "isEdit r" and "stored_endpoint ep" and "delivers (ans_endpoint a) ep'" and "endpoint_type ep \<noteq> ''manual''"
  shows "\<exists>k \<in> set (fst (handleSave r (load_tags (Inl err) (load_endpoint (Inr (Some ep)) (form_init r))) a c)).
    call_method k = ''PUT'' \<and> call_url k = ''/api/v1/endpoints/'' @ nullish (route_id r) [] @ ''/tags''
    \<and> call_body k = Some (JObj [(''tagIds'', JArr [])])"
proof -
  let ?f = "load_tags (Inl err) (load_endpoint (Inr (Some ep)) (form_init r))"
  have f: "?f = load_endpoint (Inr (Some ep)) (form_init r)" by (simp add: load_tags_def)
  have empty: "form_selectedTagIds ?f = []" "\<not> links_pem ?f"
    unfolding f using assms(4) by (simp_all add: load_endpoint_def form_init_def js_set_empty_def links_pem_def)
  have "save_error ?f = None" unfolding f by (rule load_then_update(2) [OF assms(2)])
  moreover have "read_answer c (ans_endpoint a) = (c, Inr (Some ep'))" using assms(3) by (rule read_answer_delivers)
  ultimately have "fst (setEndpointTags (nullish (route_id r) []) [] c (ans_tags a)) \<in> set (fst (handleSave r ?f a c))"
    using assms(1) empty by (simp add: handleSave_calls save_body_def save_edit_def io_simps)
  then show ?thesis
    by (rule bexI [rotated]) (simp add: setEndpointTags_def api_verbs request_def BASE_def jobject_def)
qed

lemma failed_tag_load_erases_tags_witness:
  "\<exists>k \<in> set (fst (handleSave \<lparr>route_id = Some ''e1'', route_search = []\<rparr>
        (load_tags (Inl (OtherError ''offline'')) (load_endpoint (Inr (Some example_endpoint)) (form_init \<lparr>route_id = Some ''e1'', route_search = []\<rparr>)))
        ok_answers (client_load (\<lambda>_. None)))). call_url k = ''/api/v1/endpoints/e1/tags''"
proof -
  have "stored_endpoint example_endpoint"
    by (simp add: stored_endpoint_def example_endpoint_def stored_text_def trim_def is_ws_def)
  moreover have "isEdit \<lparr>route_id = Some ''e1'', route_search = []\<rparr>" by (simp add: isEdit_def)
  moreover have "delivers (ans_endpoint ok_answers) example_endpoint" by (simp add: ok_answers_def delivers_json_ok)
  moreover have "endpoint_type example_endpoint \<noteq> ''manual''" by (simp add: example_endpoint_def)
  ultimately show ?thesis
    using failed_tag_load_erases_tags [of "\<lparr>route_id = Some ''e1'', route_search = []\<rparr>" example_endpoint ok_answers example_endpoint
        "OtherError ''offline''" "client_load (\<lambda>_. None)"] by auto
qed

end
