(* ===== verification/BulkActions.thy ===== *)
theory BulkActions
  imports ApiCalls LibUtils JsCollections "HOL-Library.Multiset"
begin

section \<open>Acting on a selection: the bulk and the single delete dialogs\<close>

text \<open>
  The three bulk dialogs (\<open>BulkDeleteEndpointsDialog\<close>, \<open>BulkTagEndpointsDialog\<close>,
  \<open>BulkDeleteCertificatesDialog\<close>) start one request per selected row, wait for all of them with
  \<open>Promise.allSettled\<close> and show a summary. Each has its own copy of the same three phases; the contract
  they share is the locale \<open>bulk_dialog\<close>, interpreted on the operations of each of them. A \<open>handleConfirm\<close> is
  split at its \<open>await\<close>: the first half gives the requests, the second takes the answers.
  The two dialogs that delete a single row are modelled below them.
\<close>

subsection \<open>Requests in parallel\<close>

text \<open>
  A request is built before the first \<open>await\<close> of \<open>request\<close>, from the session at the time of the
  click; no answer takes part in it.
\<close>

definition call_sent :: "'b api_call \<Rightarrow> client \<Rightarrow> http_call" where
  "call_sent call c = fst (call c (FetchFailed []))"

text \<open>\<open>Promise.allSettled\<close>: the outcome of every promise in the order of the list, no matter in which order they
  settle; \<open>settle_clients\<close> is the session after the answers, taken in the order of the list.\<close>

definition allSettled :: "'b fetch_result list \<Rightarrow> 'b outcome list" where
  "allSettled answers = map (\<lambda>a. snd (read_answer (client_load Map.empty) a)) answers"

definition settle_client :: "'b fetch_result list \<Rightarrow> client \<Rightarrow> client" where
  "settle_client answers c = fold (\<lambda>a c'. fst (read_answer c' a)) answers c"

record bulk_result =
  result_key :: string
  result_name :: string
  result_error :: "string option"

text \<open>
  \<open>err instanceof ApiError ? err.message : String(err)\<close>; the text of any other error stands for what
  \<open>String\<close> makes of it.
\<close>

fun error_text :: "js_exn \<Rightarrow> string" where
  "error_text (ApiError _ m) = m"
| "error_text (OtherError m) = m"

definition settled_result :: "('r \<Rightarrow> string) \<Rightarrow> ('r \<Rightarrow> string) \<Rightarrow> 'r \<Rightarrow> 'b outcome \<Rightarrow> bulk_result" where
  "settled_result key name row out =
     \<lparr>result_key = key row, result_name = name row,
      result_error = (case out of Inr _ \<Rightarrow> None | Inl err \<Rightarrow> Some (error_text err))\<rparr>"

definition settled_results ::
  "('r \<Rightarrow> string) \<Rightarrow> ('r \<Rightarrow> string) \<Rightarrow> 'r list \<Rightarrow> 'b outcome list \<Rightarrow> bulk_result list" where
  "settled_results key name rows settled = map2 (settled_result key name) rows settled"

text \<open>\<open>results.filter(r => r.error)\<close>: an empty text is falsy.\<close>

definition failed :: "bulk_result list \<Rightarrow> bulk_result list" where
  "failed results = filter (\<lambda>r. truthy (result_error r)) results"

definition succeeded :: "bulk_result list \<Rightarrow> nat" where
  "succeeded results = length results - length (failed results)"

subsection \<open>Phases\<close>

text \<open>The first phase is called \<open>confirm\<close> in the delete dialogs and \<open>pick\<close> in the tag dialog.\<close>

datatype Phase = ChoosePhase | RunningPhase | SummaryPhase

definition PREVIEW_LIMIT :: nat where
  "PREVIEW_LIMIT = 5"

text \<open>The rows previewed before confirming, and how many more there are.\<close>

definition preview :: "'r list \<Rightarrow> 'r list \<times> nat option" where
  "preview rows =
     (take PREVIEW_LIMIT rows,
      if length rows > PREVIEW_LIMIT then Some (length rows - PREVIEW_LIMIT) else None)"

subsection \<open>Deleting endpoints (\<open>BulkDeleteEndpointsDialog.tsx\<close>)\<close>

record delete_dialog =
  delete_phase :: Phase
  delete_results :: "bulk_result list"

definition delete_init :: delete_dialog where
  "delete_init = \<lparr>delete_phase = ChoosePhase, delete_results = []\<rparr>"

text \<open>The new state, whether \<open>onClose\<close> is called, and whether \<open>onDone\<close> is.\<close>

definition delete_handleClose :: "delete_dialog \<Rightarrow> delete_dialog \<times> bool \<times> bool" where
  "delete_handleClose d =
     (if delete_phase d = RunningPhase then (d, False, False)
      else (d\<lparr>delete_phase := ChoosePhase, delete_results := []\<rparr>, True, delete_phase d = SummaryPhase))"

definition delete_handleConfirm ::
  "client \<Rightarrow> EndpointListItem list \<Rightarrow> delete_dialog \<Rightarrow> (http_call list \<times> delete_dialog) option" where
  "delete_handleConfirm c endpoints d =
     Some (map (\<lambda>ep. call_sent (deleteEndpoint (endpointListItem_id ep)) c) endpoints,
           d\<lparr>delete_phase := RunningPhase\<rparr>)"

definition delete_settled ::
  "EndpointListItem list \<Rightarrow> unit outcome list \<Rightarrow> delete_dialog \<Rightarrow> delete_dialog" where
  "delete_settled endpoints settled d =
     d\<lparr>delete_results := settled_results endpointListItem_id endpointListItem_name endpoints settled,
       delete_phase := SummaryPhase\<rparr>"

definition delete_title :: "EndpointListItem list \<Rightarrow> delete_dialog \<Rightarrow> string" where
  "delete_title endpoints d =
     (if delete_phase d = SummaryPhase then ''Delete Results''
      else ''Delete '' @ show_int (int (length endpoints)) @ '' ''
             @ plural (int (length endpoints)) ''Endpoint'' None)"

subsection \<open>Tagging endpoints (\<open>BulkTagEndpointsDialog.tsx\<close>)\<close>

record tag_dialog =
  tag_phase :: Phase
  tag_picked :: "string js_set"
  tag_results :: "bulk_result list"

definition tag_init :: tag_dialog where
  "tag_init = \<lparr>tag_phase = ChoosePhase, tag_picked = js_set_empty, tag_results = []\<rparr>"

text \<open>The effect on \<open>open\<close>.\<close>

definition tag_opened :: "tag_dialog \<Rightarrow> tag_dialog" where
  "tag_opened d = d\<lparr>tag_phase := ChoosePhase, tag_picked := js_set_empty, tag_results := []\<rparr>"

definition togglePick :: "string \<Rightarrow> tag_dialog \<Rightarrow> tag_dialog" where
  "togglePick tid d = d\<lparr>tag_picked := js_set_toggle tid (tag_picked d)\<rparr>"

definition tag_handleClose :: "tag_dialog \<Rightarrow> tag_dialog \<times> bool \<times> bool" where
  "tag_handleClose d =
     (if tag_phase d = RunningPhase then (d, False, False) else (d, True, tag_phase d = SummaryPhase))"

text \<open>The tags sent for one endpoint: a \<open>Set\<close> of its own tags, to which the picked ones are added.\<close>

definition union_tags :: "string js_set \<Rightarrow> EndpointListItem \<Rightarrow> string list" where
  "union_tags picked ep =
     fold js_set_add picked (js_set_of (map tagWithCategory_id (endpointListItem_tags ep)))"

definition tag_handleConfirm ::
  "client \<Rightarrow> EndpointListItem list \<Rightarrow> tag_dialog \<Rightarrow> (http_call list \<times> tag_dialog) option" where
  "tag_handleConfirm c endpoints d =
     (if length (tag_picked d) = 0 then None
      else Some (map (\<lambda>ep. call_sent (setEndpointTags (endpointListItem_id ep) (union_tags (tag_picked d) ep)) c) endpoints,
                 d\<lparr>tag_phase := RunningPhase\<rparr>))"

definition tag_settled ::
  "EndpointListItem list \<Rightarrow> unit outcome list \<Rightarrow> tag_dialog \<Rightarrow> tag_dialog" where
  "tag_settled endpoints settled d =
     d\<lparr>tag_results := settled_results endpointListItem_id endpointListItem_name endpoints settled,
       tag_phase := SummaryPhase\<rparr>"

definition tag_title :: "EndpointListItem list \<Rightarrow> tag_dialog \<Rightarrow> string" where
  "tag_title endpoints d =
     (if tag_phase d = SummaryPhase then ''Tag Results''
      else ''Add Tags to '' @ show_int (int (length endpoints)) @ '' ''
             @ plural (int (length endpoints)) ''Endpoint'' None)"

definition tag_button :: "tag_dialog \<Rightarrow> string" where
  "tag_button d =
     (let n = length (tag_picked d) in
      ''Add '' @ (if n > 0 then show_int (int n) else []) @ '' ''
        @ plural (if n = 0 then 1 else int n) ''Tag'' None)"

subsection \<open>Deleting certificates (\<open>BulkDeleteCertificatesDialog.tsx\<close>)\<close>

record purge_dialog =
  purge_phase :: Phase
  purge_results :: "bulk_result list"
  purge_flag :: bool

definition purge_init :: purge_dialog where
  "purge_init = \<lparr>purge_phase = ChoosePhase, purge_results = [], purge_flag = False\<rparr>"

definition setPurge :: "bool \<Rightarrow> purge_dialog \<Rightarrow> purge_dialog" where
  "setPurge b d = d\<lparr>purge_flag := b\<rparr>"

definition purge_handleClose :: "purge_dialog \<Rightarrow> purge_dialog \<times> bool \<times> bool" where
  "purge_handleClose d =
     (if purge_phase d = RunningPhase then (d, False, False)
      else (d\<lparr>purge_phase := ChoosePhase, purge_results := [], purge_flag := False\<rparr>, True,
            purge_phase d = SummaryPhase))"

definition certificate_label :: "CertificateListItem \<Rightarrow> string" where
  "certificate_label cert =
     (if certificateListItem_commonName cert \<noteq> [] then certificateListItem_commonName cert
      else certificateListItem_fingerprint cert)"

definition purge_handleConfirm ::
  "client \<Rightarrow> CertificateListItem list \<Rightarrow> purge_dialog \<Rightarrow> (http_call list \<times> purge_dialog) option" where
  "purge_handleConfirm c certificates d =
     Some (map (\<lambda>cert. call_sent (deleteCertificate (certificateListItem_fingerprint cert) (purge_flag d)) c) certificates,
           d\<lparr>purge_phase := RunningPhase\<rparr>)"

definition purge_settled ::
  "CertificateListItem list \<Rightarrow> unit outcome list \<Rightarrow> purge_dialog \<Rightarrow> purge_dialog" where
  "purge_settled certificates settled d =
     d\<lparr>purge_results := settled_results certificateListItem_fingerprint certificate_label certificates settled,
       purge_phase := SummaryPhase\<rparr>"

definition purge_title :: "CertificateListItem list \<Rightarrow> purge_dialog \<Rightarrow> string" where
  "purge_title certificates d =
     (if purge_phase d = SummaryPhase then ''Delete Results''
      else ''Delete '' @ show_int (int (length certificates)) @ '' ''
             @ plural (int (length certificates)) ''Certificate'' None)"

definition purge_button :: "CertificateListItem list \<Rightarrow> purge_dialog \<Rightarrow> string" where
  "purge_button certificates d =
     (if purge_flag d then ''Delete + purge '' @ show_int (int (length certificates))
      else ''Delete '' @ show_int (int (length certificates)))"

subsection \<open>A bulk dialog on its page\<close>

text \<open>
  The operations of one dialog, as the page drives them. \<open>op_open\<close> is what opening does to the state,
  \<open>op_edit\<close> the controls of the first phase, \<open>op_start\<close> and \<open>op_settled\<close> the two halves of \<open>handleConfirm\<close>
  (\<^const>\<open>None\<close> when it returns early).
\<close>

record ('d, 'r, 'e) bulk_ops =
  op_init :: 'd
  op_phase :: "'d \<Rightarrow> Phase"
  op_open :: "'d \<Rightarrow> 'd"
  op_edit :: "'e \<Rightarrow> 'd \<Rightarrow> 'd"
  op_start :: "client \<Rightarrow> 'r list \<Rightarrow> 'd \<Rightarrow> (http_call list \<times> 'd) option"
  op_settled :: "'r list \<Rightarrow> unit outcome list \<Rightarrow> 'd \<Rightarrow> 'd"
  op_close :: "'d \<Rightarrow> 'd \<times> bool \<times> bool"

definition delete_ops :: "(delete_dialog, EndpointListItem, unit) bulk_ops" where
  "delete_ops =
     \<lparr>op_init = delete_init, op_phase = delete_phase, op_open = (\<lambda>d. d), op_edit = (\<lambda>_ d. d),
      op_start = delete_handleConfirm, op_settled = delete_settled, op_close = delete_handleClose\<rparr>"

definition tag_ops :: "(tag_dialog, EndpointListItem, string) bulk_ops" where
  "tag_ops =
     \<lparr>op_init = tag_init, op_phase = tag_phase, op_open = tag_opened, op_edit = togglePick,
      op_start = tag_handleConfirm, op_settled = tag_settled, op_close = tag_handleClose\<rparr>"

definition purge_ops :: "(purge_dialog, CertificateListItem, bool) bulk_ops" where
  "purge_ops =
     \<lparr>op_init = purge_init, op_phase = purge_phase, op_open = (\<lambda>d. d), op_edit = setPurge,
      op_start = purge_handleConfirm, op_settled = purge_settled, op_close = purge_handleClose\<rparr>"

text \<open>
  The dialog, whether the page has it open, the rows whose requests are under way (the closure of
  \<open>handleConfirm\<close> keeps them), the batches sent so far, and how often \<open>onDone\<close> was called.
\<close>

record ('d, 'r) bulk_world =
  bw_dialog :: 'd
  bw_open :: bool
  bw_pending :: "'r list option"
  bw_sent :: "http_call list list"
  bw_done :: nat

datatype ('r, 'e) bulk_event =
    Opened
  | Edited 'e
  | Confirmed client "'r list"
  | Answered "unit fetch_result list"
  | Dismissed

definition bulk_start :: "('d, 'r, 'e) bulk_ops \<Rightarrow> ('d, 'r) bulk_world" where
  "bulk_start ops = \<lparr>bw_dialog = op_init ops, bw_open = False, bw_pending = None, bw_sent = [], bw_done = 0\<rparr>"

text \<open>
  Every control is shown in its phase only; closing (the buttons, Escape, a click outside) is possible
  whenever the dialog is open. Events that the page cannot produce change nothing.
\<close>

fun bulk_step :: "('d, 'r, 'e) bulk_ops \<Rightarrow> ('r, 'e) bulk_event \<Rightarrow> ('d, 'r) bulk_world \<Rightarrow> ('d, 'r) bulk_world" where
  "bulk_step ops Opened w =
     (if bw_open w then w else w\<lparr>bw_open := True, bw_dialog := op_open ops (bw_dialog w)\<rparr>)"
| "bulk_step ops (Edited e) w =
     (if bw_open w \<and> op_phase ops (bw_dialog w) = ChoosePhase
      then w\<lparr>bw_dialog := op_edit ops e (bw_dialog w)\<rparr> else w)"
| "bulk_step ops (Confirmed c rows) w =
     (if bw_open w \<and> op_phase ops (bw_dialog w) = ChoosePhase
      then (case op_start ops c rows (bw_dialog w) of
              None \<Rightarrow> w
            | Some (calls, d) \<Rightarrow> w\<lparr>bw_dialog := d, bw_pending := Some rows, bw_sent := bw_sent w @ [calls]\<rparr>)
      else w)"
| "bulk_step ops (Answered answers) w =
     (case bw_pending w of
        None \<Rightarrow> w
      | Some rows \<Rightarrow>
          if length answers = length rows
          then w\<lparr>bw_dialog := op_settled ops rows (allSettled answers) (bw_dialog w), bw_pending := None\<rparr>
          else w)"
| "bulk_step ops Dismissed w =
     (if bw_open w
      then (case op_close ops (bw_dialog w) of
              (d, closed, done) \<Rightarrow>
                w\<lparr>bw_dialog := d, bw_open := \<not> closed, bw_done := bw_done w + (if done then 1 else 0)\<rparr>)
      else w)"

definition bulk_run :: "('d, 'r, 'e) bulk_ops \<Rightarrow> ('r, 'e) bulk_event list \<Rightarrow> ('d, 'r) bulk_world" where
  "bulk_run ops events = fold (bulk_step ops) events (bulk_start ops)"

subsection \<open>Deleting one endpoint (\<open>DeleteEndpointDialog.tsx\<close>)\<close>

text \<open>
  \<open>confirm_endpoint\<close> is the property \<open>endpoint\<close>, held by the page. Closing is possible while the request runs
  (Escape, a click outside); the second half of \<open>handleDelete\<close> then still runs.
\<close>

record confirm_dialog =
  confirm_loading :: bool
  confirm_error :: "string option"

definition confirm_init :: confirm_dialog where
  "confirm_init = \<lparr>confirm_loading = False, confirm_error = None\<rparr>"

definition endpoint_handleDelete ::
  "client \<Rightarrow> string option \<Rightarrow> confirm_dialog \<Rightarrow> http_call list \<times> confirm_dialog" where
  "endpoint_handleDelete c endpoint d =
     (case endpoint of
        None \<Rightarrow> ([], d)
      | Some eid \<Rightarrow> ([call_sent (deleteEndpoint eid) c], d\<lparr>confirm_loading := True, confirm_error := None\<rparr>))"

text \<open>The second half: the new state and whether \<open>onDeleted\<close> and \<open>onClose\<close> are called.\<close>

definition confirm_finish :: "string \<Rightarrow> unit outcome \<Rightarrow> confirm_dialog \<Rightarrow> confirm_dialog \<times> bool" where
  "confirm_finish fallback out d =
     (case out of
        Inr _ \<Rightarrow> (d\<lparr>confirm_loading := False\<rparr>, True)
      | Inl err \<Rightarrow> (d\<lparr>confirm_error := Some (api_message fallback err), confirm_loading := False\<rparr>, False))"

definition endpoint_deleted :: "unit outcome \<Rightarrow> confirm_dialog \<Rightarrow> confirm_dialog \<times> bool" where
  "endpoint_deleted = confirm_finish ''Failed to delete endpoint.''"

subsection \<open>Deleting one certificate (\<open>DeleteCertificateDialog.tsx\<close>)\<close>

record cert_dialog = confirm_dialog +
  purgeChecked :: bool

definition cert_init :: cert_dialog where
  "cert_init = \<lparr>confirm_loading = False, confirm_error = None, purgeChecked = False\<rparr>"

text \<open>The effect on the fingerprint of the certificate.\<close>

definition cert_changed :: "cert_dialog \<Rightarrow> cert_dialog" where
  "cert_changed d = d\<lparr>confirm_error := None, purgeChecked := False\<rparr>"

definition isIssuer :: "CertReferences option \<Rightarrow> bool" where
  "isIssuer refs \<longleftrightarrow> (case refs of None \<Rightarrow> False | Some r \<Rightarrow> certReferences_issuedCerts r > 0)"

definition blockingCount :: "CertReferences option \<Rightarrow> int" where
  "blockingCount refs =
     (case refs of
        None \<Rightarrow> 0
      | Some r \<Rightarrow> certReferences_currentEndpoints r + certReferences_historicalEndpoints r
                  + certReferences_scanHistory r)"

definition hasBlockingRefs :: "CertReferences option \<Rightarrow> bool" where
  "hasBlockingRefs refs \<longleftrightarrow> \<not> isIssuer refs \<and> blockingCount refs > 0"

definition refLines :: "CertReferences option \<Rightarrow> string list" where
  "refLines refs =
     (case refs of
        None \<Rightarrow> []
      | Some r \<Rightarrow>
          (if certReferences_currentEndpoints r > 0
           then [show_int (certReferences_currentEndpoints r) @ '' active ''
                   @ plural (certReferences_currentEndpoints r) ''endpoint'' None] else [])
          @ (if certReferences_historicalEndpoints r > 0
             then [show_int (certReferences_historicalEndpoints r) @ '' historical ''
                     @ plural (certReferences_historicalEndpoints r) ''attachment'' None] else [])
          @ (if certReferences_scanHistory r > 0
             then [show_int (certReferences_scanHistory r) @ '' scan history ''
                     @ plural (certReferences_scanHistory r) ''record'' None] else []))"

definition cert_handleDelete ::
  "client \<Rightarrow> CertReferences option \<Rightarrow> string option \<Rightarrow> cert_dialog \<Rightarrow> http_call list \<times> cert_dialog" where
  "cert_handleDelete c refs cert d =
     (case cert of
        None \<Rightarrow> ([], d)
      | Some fp \<Rightarrow>
          ([call_sent (deleteCertificate fp (hasBlockingRefs refs \<and> purgeChecked d)) c],
           d\<lparr>confirm_loading := True, confirm_error := None\<rparr>))"

definition cert_deleted :: "unit outcome \<Rightarrow> cert_dialog \<Rightarrow> cert_dialog \<times> bool" where
  "cert_deleted out d =
     (case out of
        Inr _ \<Rightarrow> (d\<lparr>confirm_loading := False\<rparr>, True)
      | Inl err \<Rightarrow>
          (d\<lparr>confirm_error := Some (api_message ''Failed to delete certificate.'' err), confirm_loading := False\<rparr>, False))"

definition deleteDisabled :: "bool \<Rightarrow> CertReferences option \<Rightarrow> cert_dialog \<Rightarrow> bool" where
  "deleteDisabled refsLoading refs d \<longleftrightarrow>
     confirm_loading d \<or> refsLoading \<or> isIssuer refs \<or> hasBlockingRefs refs \<and> \<not> purgeChecked d"

definition deleteLabel :: "CertReferences option \<Rightarrow> cert_dialog \<Rightarrow> string" where
  "deleteLabel refs d =
     (if confirm_loading d then ''Deleting'' @ ellipsis
      else if hasBlockingRefs refs \<and> purgeChecked d then ''Delete + purge references''
      else ''Delete'')"

subsection \<open>The contract of a bulk dialog\<close>

definition bulk_inv :: "('d, 'r, 'e) bulk_ops \<Rightarrow> ('d, 'r) bulk_world \<Rightarrow> bool" where
  "bulk_inv ops w \<longleftrightarrow>
     (bw_pending w \<noteq> None \<longleftrightarrow> op_phase ops (bw_dialog w) = RunningPhase)
     \<and> (op_phase ops (bw_dialog w) = RunningPhase \<longrightarrow> bw_open w)
     \<and> (\<not> bw_open w \<longrightarrow> op_phase ops (op_open ops (bw_dialog w)) = ChoosePhase)
     \<and> length (bw_sent w) = bw_done w + (if bw_open w \<and> op_phase ops (bw_dialog w) \<noteq> ChoosePhase then 1 else 0)"

locale bulk_dialog =
  fixes ops :: "('d, 'r, 'e) bulk_ops"
  assumes init_phase: "op_phase ops (op_open ops (op_init ops)) = ChoosePhase"
    and init_idle: "op_phase ops (op_init ops) \<noteq> RunningPhase"
    and edit_phase: "op_phase ops (op_edit ops e d) = op_phase ops d"
    and start_running: "op_start ops c rows d = Some (calls, d') \<Longrightarrow> op_phase ops d' = RunningPhase"
    and settled_summary: "op_phase ops (op_settled ops rows outs d) = SummaryPhase"
    and close_running: "op_phase ops d = RunningPhase \<Longrightarrow> op_close ops d = (d, False, False)"
    and close_idle: "op_phase ops d \<noteq> RunningPhase \<Longrightarrow>
      \<exists>d'. op_close ops d = (d', True, op_phase ops d = SummaryPhase)
         \<and> op_phase ops d' \<noteq> RunningPhase \<and> op_phase ops (op_open ops d') = ChoosePhase"
begin

lemma inv_start: "bulk_inv ops (bulk_start ops)"
  using init_idle by (simp add: bulk_inv_def bulk_start_def init_phase)

lemma inv_dismiss: "bulk_inv ops w \<Longrightarrow> bulk_inv ops (bulk_step ops Dismissed w)"
proof (cases "op_phase ops (bw_dialog w) = RunningPhase")
  case True
  moreover assume "bulk_inv ops w"
  ultimately show ?thesis by (simp add: bulk_inv_def close_running)
next
  case False
  from close_idle [OF this] obtain d' where
    d': "op_close ops (bw_dialog w) = (d', True, op_phase ops (bw_dialog w) = SummaryPhase)"
      "op_phase ops d' \<noteq> RunningPhase" "op_phase ops (op_open ops d') = ChoosePhase" by blast
  assume "bulk_inv ops w"
  with False d' show ?thesis
    by (cases "op_phase ops (bw_dialog w)") (auto simp: bulk_inv_def)
qed

lemma inv_step: "bulk_inv ops w \<Longrightarrow> bulk_inv ops (bulk_step ops ev w)"
proof (cases ev)
  case Dismissed
  moreover assume "bulk_inv ops w"
  ultimately show ?thesis using inv_dismiss by simp
next
  case (Confirmed c rows)
  assume "bulk_inv ops w"
  then show ?thesis
    unfolding Confirmed by (auto simp: bulk_inv_def start_running split: option.split)
qed (auto simp: bulk_inv_def edit_phase settled_summary split: option.split)

lemma inv_run: "bulk_inv ops (bulk_run ops events)"
proof -
  have "bulk_inv ops w \<Longrightarrow> bulk_inv ops (fold (bulk_step ops) events w)" for w
    by (induction events arbitrary: w) (simp_all add: inv_step)
  from this [OF inv_start] show ?thesis by (simp add: bulk_run_def)
qed

text \<open>Accounting: every batch but the one on screen has been reported to the page, exactly once.\<close>

lemma rounds:
  "length (bw_sent (bulk_run ops events)) =
     bw_done (bulk_run ops events)
     + (if bw_open (bulk_run ops events) \<and> op_phase ops (bw_dialog (bulk_run ops events)) \<noteq> ChoosePhase then 1 else 0)"
  using inv_run [of events] by (simp add: bulk_inv_def)

text \<open>While a batch is under way nothing but its answers moves the dialog.\<close>

lemma running_locked:
  assumes "bw_pending (bulk_run ops events) \<noteq> None" and "\<forall>answers. ev \<noteq> Answered answers"
  shows "bulk_step ops ev (bulk_run ops events) = bulk_run ops events"
  using assms inv_run [of events]
  by (cases ev) (auto simp: bulk_inv_def close_running)

end

interpretation delete_bulk: bulk_dialog delete_ops
  by unfold_locales
    (auto simp: delete_ops_def delete_init_def delete_handleConfirm_def delete_settled_def delete_handleClose_def)

interpretation tag_bulk: bulk_dialog tag_ops
  by unfold_locales
    (auto simp: tag_ops_def tag_init_def tag_opened_def togglePick_def tag_handleConfirm_def tag_settled_def
      tag_handleClose_def split: if_splits)

interpretation purge_bulk: bulk_dialog purge_ops
  by unfold_locales
    (auto simp: purge_ops_def purge_init_def setPurge_def purge_handleConfirm_def purge_settled_def
      purge_handleClose_def)

subsection \<open>Answers in any order\<close>

text \<open>The answers that end the session.\<close>

fun unauthorized :: "'b fetch_result \<Rightarrow> bool" where
  "unauthorized (FetchFailed _) = False"
| "unauthorized (Fetched res) = (res_status res = 401)"

definition wiped :: "client \<Rightarrow> client" where
  "wiped c = (clearToken c)\<lparr>client_href := Some ''/login''\<rparr>"

lemma read_answer_client: "fst (read_answer c a) = (if unauthorized a then wiped c else c)"
  by (cases a) (auto simp: read_answer_def wiped_def res_ok_def split: option.split)

lemma wiped_wiped: "wiped (wiped c) = wiped c"
  by (simp add: wiped_def clearToken_def)

lemma settle_client_wiped:
  "settle_client answers c = (if \<exists>a \<in> set answers. unauthorized a then wiped c else c)"
proof (induction answers arbitrary: c)
  case (Cons a answers)
  have "settle_client (a # answers) c = settle_client answers (fst (read_answer c a))"
    by (simp add: settle_client_def)
  then show ?case by (simp add: Cons.IH read_answer_client wiped_wiped)
qed (simp add: settle_client_def)

lemma settle_client_order:
  assumes "mset answers = mset answers'"
  shows "settle_client answers c = settle_client answers' c"
  using mset_eq_setD [OF assms] by (simp add: settle_client_wiped)

subsection \<open>What the summary reports\<close>

text \<open>The answers that leave a visible error on their row.\<close>

definition reported :: "'b fetch_result \<Rightarrow> bool" where
  "reported answer \<longleftrightarrow>
     (case answer of
        FetchFailed m \<Rightarrow> m \<noteq> []
      | Fetched res \<Rightarrow>
          if res_ok res
          then js_includes (nullish (res_contentType res) []) ''application/json'' \<and> res_json res = None
          else res_status res \<noteq> 401 \<and> (trim (res_text res) \<noteq> [] \<or> res_statusText res \<noteq> []))"

lemma truthy_settled:
  "truthy (result_error (settled_result key name row (snd (read_answer c a)))) \<longleftrightarrow> reported a"
  by (auto simp: settled_result_def read_answer_def reported_def truthy_simps split: fetch_result.splits option.splits)

lemma failed_settled:
  "failed (settled_results key name rows (allSettled answers)) =
     map (\<lambda>(row, a). settled_result key name row (snd (read_answer (client_load Map.empty) a)))
       (filter (\<lambda>(row, a). reported a) (zip rows answers))"
  by (simp add: failed_def settled_results_def allSettled_def zip_map2 filter_map o_def truthy_settled
      case_prod_unfold)

lemma failed_keys:
  "map result_key (failed (settled_results key name rows (allSettled answers))) =
     map (\<lambda>(row, a). key row) (filter (\<lambda>(row, a). reported a) (zip rows answers))"
  unfolding failed_settled by (simp add: settled_result_def o_def case_prod_unfold)

lemma succeeded_failed:
  "length answers = length rows \<Longrightarrow>
     succeeded (settled_results key name rows (allSettled answers))
     + length (failed (settled_results key name rows (allSettled answers))) = length rows"
  unfolding succeeded_def failed_def
  using length_filter_le [of _ "settled_results key name rows (allSettled answers)"]
  by (simp add: settled_results_def allSettled_def)

lemma succeeded_none_reported:
  assumes "length answers = length rows" and "\<forall>a \<in> set answers. \<not> reported a"
  shows "succeeded (settled_results key name rows (allSettled answers)) = length rows"
proof -
  have "filter (\<lambda>(row, a). reported a) (zip rows answers) = []"
    using assms(2) by (auto simp: filter_empty_conv dest: set_zip_rightD)
  then have "failed (settled_results key name rows (allSettled answers)) = []"
    by (simp add: failed_settled)
  then show ?thesis using succeeded_failed [OF assms(1), of key name] by simp
qed

subsection \<open>Properties\<close>

lemma call_sent_simps:
  "call_sent (deleteEndpoint eid) c =
     \<lparr>call_method = ''DELETE'', call_url = BASE @ ''/endpoints/'' @ eid, call_headers = request_headers c, call_body = None\<rparr>"
  "call_sent (setEndpointTags eid tags) c =
     \<lparr>call_method = ''PUT'', call_url = BASE @ ''/endpoints/'' @ eid @ ''/tags'', call_headers = request_headers c,
      call_body = Some (jobject [(''tagIds'', Some (JArr (map JStr tags)))])\<rparr>"
  "call_sent (deleteCertificate fp purge) c =
     \<lparr>call_method = ''DELETE'', call_url = BASE @ ''/certificates/'' @ fp @ (if purge then ''?purge=true'' else []),
      call_headers = request_headers c, call_body = None\<rparr>"
  by (simp_all add: call_sent_def deleteEndpoint_def setEndpointTags_def deleteCertificate_def api_verbs request_def)

lemma union_tags_set:
  "set (union_tags picked ep) = tagWithCategory_id ` set (endpointListItem_tags ep) \<union> set picked"
  unfolding union_tags_def by (simp add: list_set.set_add_all set_js_set_of)

lemma union_tags_distinct: "distinct (union_tags picked ep)"
  unfolding union_tags_def by (rule list_set.inv_add_all [OF distinct_js_set_of])

text \<open>A listed endpoint, and an answer that refuses the request.\<close>

definition example_row :: EndpointListItem where
  "example_row =
     \<lparr>endpointListItem_id = ''e1'', endpointListItem_name = ''web'', endpointListItem_type = ''host'',
      endpointListItem_dnsName = ''web.example'', endpointListItem_port = 443, endpointListItem_url = None,
      endpointListItem_enabled = True, endpointListItem_scanExempt = False, endpointListItem_scannerId = None,
      endpointListItem_scannerName = None, endpointListItem_earliestExpiry = None,
      endpointListItem_lastScannedAt = None, endpointListItem_lastScanError = None,
      endpointListItem_errorSince = None, endpointListItem_lastResolvedIp = None,
      endpointListItem_tags =
        [\<lparr>tagWithCategory_id = ''t1'', tagWithCategory_categoryId = ''c1'', tagWithCategory_categoryName = ''Env'',
          tagWithCategory_name = ''Prod'', tagWithCategory_description = None\<rparr>]\<rparr>"

definition example_refusal :: "int \<Rightarrow> string \<Rightarrow> unit fetch_result" where
  "example_refusal status message =
     Fetched \<lparr>res_status = status, res_statusText = [], res_contentType = None, res_text = message, res_json = None\<rparr>"

text \<open>\<^bold>\<open>C12\<close>: whatever the user clicks and in whatever order answers arrive, the batches of requests sent by
  the bulk delete dialogs and by the bulk tag dialog are reported to the page exactly once each: the number of
  batches is the number of calls of \<open>onDone\<close>, plus one while a batch is under way or its summary is on
  screen. In particular no second batch starts before the first is finished and dismissed.\<close>

theorem bulk_rounds_reported_once:
  "length (bw_sent (bulk_run delete_ops ev1)) = bw_done (bulk_run delete_ops ev1)
       + (if bw_open (bulk_run delete_ops ev1)
             \<and> delete_phase (bw_dialog (bulk_run delete_ops ev1)) \<noteq> ChoosePhase then 1 else 0)
   \<and> length (bw_sent (bulk_run tag_ops ev2)) = bw_done (bulk_run tag_ops ev2)
       + (if bw_open (bulk_run tag_ops ev2)
             \<and> tag_phase (bw_dialog (bulk_run tag_ops ev2)) \<noteq> ChoosePhase then 1 else 0)
   \<and> length (bw_sent (bulk_run purge_ops ev3)) = bw_done (bulk_run purge_ops ev3)
       + (if bw_open (bulk_run purge_ops ev3)
             \<and> purge_phase (bw_dialog (bulk_run purge_ops ev3)) \<noteq> ChoosePhase then 1 else 0)"
  using delete_bulk.rounds [of ev1] tag_bulk.rounds [of ev2] purge_bulk.rounds [of ev3]
  by (simp only: delete_ops_def tag_ops_def purge_ops_def bulk_ops.simps)

text \<open>The summary accounts for every row. Its failures are, in order, exactly the rows whose answer carries
  an error text, and the rows counted as done are all the others.\<close>

lemma bulk_summary_accounts_for_rows:
  assumes "length answers = length rows" and "length answers' = length certs"
  shows "map result_key (failed (delete_results (delete_settled rows (allSettled answers) d)))
           = map (\<lambda>(ep, a). endpointListItem_id ep) (filter (\<lambda>(ep, a). reported a) (zip rows answers))
    \<and> map result_key (failed (tag_results (tag_settled rows (allSettled answers) t)))
           = map (\<lambda>(ep, a). endpointListItem_id ep) (filter (\<lambda>(ep, a). reported a) (zip rows answers))
    \<and> map result_key (failed (purge_results (purge_settled certs (allSettled answers') p)))
           = map (\<lambda>(cert, a). certificateListItem_fingerprint cert) (filter (\<lambda>(cert, a). reported a) (zip certs answers'))
    \<and> succeeded (delete_results (delete_settled rows (allSettled answers) d))
        + length (failed (delete_results (delete_settled rows (allSettled answers) d))) = length rows
    \<and> succeeded (tag_results (tag_settled rows (allSettled answers) t))
        + length (failed (tag_results (tag_settled rows (allSettled answers) t))) = length rows
    \<and> succeeded (purge_results (purge_settled certs (allSettled answers') p))
        + length (failed (purge_results (purge_settled certs (allSettled answers') p))) = length certs"
  using assms by (simp add: delete_settled_def tag_settled_def purge_settled_def failed_keys succeeded_failed)

lemma bulk_summary_accounts_for_rows_witness:
  "map result_key (failed (delete_results (delete_settled [example_row, example_row\<lparr>endpointListItem_id := ''e2''\<rparr>]
      (allSettled [example_refusal 500 ''boom'', example_refusal 204 []]) delete_init))) = [''e1'']
   \<and> succeeded (delete_results (delete_settled [example_row, example_row\<lparr>endpointListItem_id := ''e2''\<rparr>]
      (allSettled [example_refusal 500 ''boom'', example_refusal 204 []]) delete_init)) = 1"
proof -
  let ?rows = "[example_row, example_row\<lparr>endpointListItem_id := ''e2''\<rparr>]"
  let ?answers = "[example_refusal 500 ''boom'', example_refusal 204 []]"
  have trim: "trim ''boom'' = ''boom''" by code_simp
  have not_json: "\<not> js_includes (nullish None []) ''application/json''" by code_simp
  have failures: "filter (\<lambda>(ep, a). reported a) (zip ?rows ?answers) = [(example_row, example_refusal 500 ''boom'')]"
    by (simp add: reported_def example_refusal_def res_ok_def trim not_json)
  have keys: "map result_key (failed (delete_results (delete_settled ?rows (allSettled ?answers) delete_init))) = [''e1'']"
    using bulk_summary_accounts_for_rows [of ?answers ?rows "[]" "[]" delete_init tag_init purge_init]
    unfolding failures by (simp add: example_row_def)
  from arg_cong [OF keys, of length]
  have "length (failed (delete_results (delete_settled ?rows (allSettled ?answers) delete_init))) = 1"
    by (simp only: length_map) simp
  moreover have "succeeded (delete_results (delete_settled ?rows (allSettled ?answers) delete_init))
      + length (failed (delete_results (delete_settled ?rows (allSettled ?answers) delete_init))) = 2"
    using bulk_summary_accounts_for_rows [of ?answers ?rows "[]" "[]" delete_init tag_init purge_init] by simp
  ultimately show ?thesis using keys by (intro conjI) linarith+
qed

text \<open>When the session has expired, every request of the batch is answered 401 and nothing is deleted;
  the summary nevertheless counts every row as deleted and none as failed, and the session is wiped.\<close>

lemma expired_session_counted_as_deleted:
  assumes "length answers = length rows" and "rows \<noteq> []" and "\<forall>a \<in> set answers. unauthorized a"
  shows "succeeded (delete_results (delete_settled rows (allSettled answers) d)) = length rows
    \<and> failed (delete_results (delete_settled rows (allSettled answers) d)) = []
    \<and> client_token (settle_client answers c) = None"
proof -
  have none: "\<forall>a \<in> set answers. \<not> reported a"
  proof
    fix a assume "a \<in> set answers"
    with assms(3) have "unauthorized a" by blast
    then show "\<not> reported a" by (cases a) (auto simp: reported_def res_ok_def)
  qed
  have all: "succeeded (delete_results (delete_settled rows (allSettled answers) d)) = length rows"
    using succeeded_none_reported [OF assms(1) none] by (simp add: delete_settled_def)
  moreover have "failed (delete_results (delete_settled rows (allSettled answers) d)) = []"
    using all succeeded_failed [OF assms(1), of endpointListItem_id endpointListItem_name]
    by (simp add: delete_settled_def)
  moreover have "\<exists>a \<in> set answers. unauthorized a"
    using assms by (cases answers) auto
  ultimately show ?thesis by (simp add: settle_client_wiped wiped_def clearToken_def)
qed

lemma expired_session_counted_as_deleted_witness:
  "succeeded (delete_results (delete_settled [example_row] (allSettled [example_refusal 401 ''expired'']) delete_init)) = 1
   \<and> client_token (settle_client [example_refusal 401 ''expired''] (setToken ''t'' (client_load Map.empty))) = None"
  using expired_session_counted_as_deleted [of "[example_refusal 401 ''expired'']" "[example_row]" delete_init
      "setToken ''t'' (client_load Map.empty)"]
  by (simp add: example_refusal_def)

text \<open>Confirming the tag dialog sends one \<open>PUT\<close> per endpoint, whose body lists every tag the endpoint
  was listed with and every picked tag, each once, and no other: nothing the list shows is removed.\<close>

lemma bulk_tag_adds_only:
  assumes "tag_handleConfirm c endpoints d = Some (calls, d')" and "i < length endpoints"
  shows "length calls = length endpoints
    \<and> call_method (calls ! i) = ''PUT''
    \<and> call_url (calls ! i) = BASE @ ''/endpoints/'' @ endpointListItem_id (endpoints ! i) @ ''/tags''
    \<and> call_body (calls ! i) = Some (jobject [(''tagIds'', Some (JArr (map JStr (union_tags (tag_picked d) (endpoints ! i)))))])
    \<and> distinct (union_tags (tag_picked d) (endpoints ! i))
    \<and> set (union_tags (tag_picked d) (endpoints ! i))
        = tagWithCategory_id ` set (endpointListItem_tags (endpoints ! i)) \<union> set (tag_picked d)"
  using assms
  by (auto simp: tag_handleConfirm_def call_sent_simps union_tags_distinct union_tags_set split: if_splits)

lemma bulk_tag_adds_only_witness:
  "\<exists>calls d'. tag_handleConfirm (client_load Map.empty) [example_row] (togglePick ''t2'' tag_init) = Some (calls, d')
     \<and> set (union_tags [''t2''] example_row) = {''t1'', ''t2''}
     \<and> call_url (calls ! 0) = ''/api/v1/endpoints/e1/tags''"
proof -
  have picked: "tag_picked (togglePick ''t2'' tag_init) = [''t2'']"
    by (simp add: togglePick_def tag_init_def js_set_toggle_def js_set_has_def js_set_add_def js_set_empty_def)
  obtain calls d' where
    start: "tag_handleConfirm (client_load Map.empty) [example_row] (togglePick ''t2'' tag_init) = Some (calls, d')"
    by (simp add: tag_handleConfirm_def picked)
  show ?thesis
    using bulk_tag_adds_only [OF start, of 0] start unfolding picked
    by (auto simp: example_row_def BASE_def)
qed

text \<open>When the delete button of the certificate dialog is enabled and the references are known, the
  certificate issued no other, and the request asks for a purge exactly when there are references, which the
  user then chose to remove. When the references could not be loaded the request never purges.\<close>

lemma certificate_delete_guarded:
  assumes "\<not> deleteDisabled refsLoading (Some refs) d"
    and "0 \<le> certReferences_currentEndpoints refs" and "0 \<le> certReferences_historicalEndpoints refs"
    and "0 \<le> certReferences_scanHistory refs"
  shows "certReferences_issuedCerts refs \<le> 0
    \<and> map call_url (fst (cert_handleDelete c (Some refs) (Some fp) d)) =
        [if certReferences_currentEndpoints refs = 0 \<and> certReferences_historicalEndpoints refs = 0
             \<and> certReferences_scanHistory refs = 0
         then BASE @ ''/certificates/'' @ fp
         else BASE @ ''/certificates/'' @ fp @ ''?purge=true'']
    \<and> (refLines (Some refs) \<noteq> [] \<longrightarrow> purgeChecked d)
    \<and> map call_url (fst (cert_handleDelete c None (Some fp) d)) = [BASE @ ''/certificates/'' @ fp]"
  using assms
  by (auto simp: deleteDisabled_def cert_handleDelete_def call_sent_simps isIssuer_def hasBlockingRefs_def
      blockingCount_def refLines_def split: if_splits)

lemma certificate_delete_guarded_witness:
  "map call_url (fst (cert_handleDelete (client_load Map.empty)
      (Some \<lparr>certReferences_currentEndpoints = 1, certReferences_historicalEndpoints = 0,
             certReferences_scanHistory = 2, certReferences_issuedCerts = 0\<rparr>)
      (Some ''ab'') (cert_init\<lparr>purgeChecked := True\<rparr>))) = [''/api/v1/certificates/ab?purge=true'']"
  using certificate_delete_guarded [of False
      "\<lparr>certReferences_currentEndpoints = 1, certReferences_historicalEndpoints = 0,
        certReferences_scanHistory = 2, certReferences_issuedCerts = 0\<rparr>" "cert_init\<lparr>purgeChecked := True\<rparr>"
      "client_load Map.empty" "''ab''"]
  by (simp add: deleteDisabled_def cert_init_def isIssuer_def hasBlockingRefs_def BASE_def)

end
