(* ===== verification/ListParts.thy ===== *)
theory ListParts
  imports LibUtils JsCollections ApiTypes
begin

section \<open>Parts shared by the list pages\<close>

text \<open>
  Pagination, row selection and the small components around a table. The endpoint list and the certificate list
  each have their own copy of the selection code; what both promise is the locale \<open>row_selection\<close>, which
  their theories interpret.
\<close>

subsection \<open>Pagination\<close>

definition PAGE_SIZE :: int where
  "PAGE_SIZE = 20"

definition totalPages :: "int \<Rightarrow> int" where
  "totalPages totalCount = max 1 (ceil_div totalCount PAGE_SIZE)"

definition rangeStart :: "int \<Rightarrow> int \<Rightarrow> int" where
  "rangeStart page totalCount = (if totalCount = 0 then 0 else (page - 1) * PAGE_SIZE + 1)"

definition rangeEnd :: "int \<Rightarrow> int \<Rightarrow> int" where
  "rangeEnd page totalCount = min (page * PAGE_SIZE) totalCount"

definition prevDisabled :: "int \<Rightarrow> bool" where
  "prevDisabled page \<longleftrightarrow> page \<le> 1"

definition nextDisabled :: "int \<Rightarrow> int \<Rightarrow> bool" where
  "nextDisabled page totalCount \<longleftrightarrow> page \<ge> totalPages totalCount"

text \<open>The two buttons of the footer.\<close>

datatype page_button = PrevPage | NextPage

fun turn_page :: "int \<Rightarrow> page_button \<Rightarrow> int \<Rightarrow> int" where
  "turn_page totalCount PrevPage page = (if prevDisabled page then page else page - 1)"
| "turn_page totalCount NextPage page = (if nextDisabled page totalCount then page else page + 1)"

text \<open>
  The footer line of a list page: nothing, or the range, the total (written in the locale format) and the
  noun. \<open>TablePagination\<close> is the simpler footer of the other tables.
\<close>

definition page_footer :: "string \<Rightarrow> int \<Rightarrow> int \<Rightarrow> (int \<times> int \<times> int \<times> string) option" where
  "page_footer noun page totalCount =
     (if totalCount = 0 then None
      else Some (rangeStart page totalCount, rangeEnd page totalCount, totalCount, plural totalCount noun None))"

definition TablePagination :: "int \<Rightarrow> int \<Rightarrow> int \<Rightarrow> string option \<Rightarrow> string \<times> bool \<times> bool" where
  "TablePagination page pages totalCount noun =
     (let n = nullish noun ''result'' in
      (if totalCount = 0 then ''No '' @ plural 0 n None
       else ''Page '' @ show_int page @ '' of '' @ show_int pages @ '' '' @ middle_dot @ '' ''
              @ show_int totalCount @ '' '' @ plural totalCount n None,
       page \<le> 1, page \<ge> pages))"

text \<open>The page a row is on, and that turning pages reaches it.\<close>

lemma PAGE_SIZE_pos: "0 < PAGE_SIZE"
  by (simp add: PAGE_SIZE_def)

lemma row_on_page:
  assumes "1 \<le> i" and "i \<le> tot"
  shows "rangeStart p tot \<le> i \<and> i \<le> rangeEnd p tot \<longleftrightarrow> p = ceil_div i PAGE_SIZE"
proof -
  have "p = ceil_div i PAGE_SIZE \<longleftrightarrow> ceil_div i PAGE_SIZE \<le> p \<and> \<not> ceil_div i PAGE_SIZE \<le> p - 1" by auto
  also have "\<dots> \<longleftrightarrow> i \<le> p * PAGE_SIZE \<and> \<not> i \<le> (p - 1) * PAGE_SIZE"
    by (simp only: ceil_div_least [OF PAGE_SIZE_pos])
  also have "\<dots> \<longleftrightarrow> rangeStart p tot \<le> i \<and> i \<le> rangeEnd p tot"
    using assms by (auto simp: rangeStart_def rangeEnd_def)
  finally show ?thesis by simp
qed

lemma page_of_row_bounds:
  assumes "1 \<le> i" and "i \<le> tot"
  shows "1 \<le> ceil_div i PAGE_SIZE" and "ceil_div i PAGE_SIZE \<le> totalPages tot"
proof -
  have "\<not> ceil_div i PAGE_SIZE \<le> 0" using assms by (simp add: ceil_div_least PAGE_SIZE_def)
  then show "1 \<le> ceil_div i PAGE_SIZE" by simp
  have "tot \<le> ceil_div tot PAGE_SIZE * PAGE_SIZE" by (rule ceil_div_bounds) (simp add: PAGE_SIZE_def)
  then have "ceil_div i PAGE_SIZE \<le> ceil_div tot PAGE_SIZE"
    using assms by (subst ceil_div_least) (simp_all add: PAGE_SIZE_def)
  then show "ceil_div i PAGE_SIZE \<le> totalPages tot" by (simp add: totalPages_def)
qed

lemma next_pages: "fold (turn_page tot) (replicate k NextPage) 1 = min (1 + int k) (totalPages tot)"
proof -
  have "p \<le> totalPages tot \<Longrightarrow>
      fold (turn_page tot) (replicate k NextPage) p = min (p + int k) (totalPages tot)" for p
    by (induction k arbitrary: p) (auto simp: nextDisabled_def)
  then show ?thesis by (simp add: totalPages_def)
qed

lemma turn_page_bounds:
  "1 \<le> p \<Longrightarrow> p \<le> totalPages tot \<Longrightarrow>
     1 \<le> turn_page tot b p \<and> turn_page tot b p \<le> totalPages tot"
  by (cases b) (auto simp: prevDisabled_def nextDisabled_def)

lemma page_beyond_end:
  assumes "0 < tot" and "totalPages tot < p"
  shows "rangeEnd p tot < rangeStart p tot" and "nextDisabled p tot" and "\<not> prevDisabled p"
proof -
  have "ceil_div tot PAGE_SIZE \<le> p - 1" using assms(2) by (simp add: totalPages_def)
  then have "tot \<le> (p - 1) * PAGE_SIZE" by (simp only: ceil_div_least [OF PAGE_SIZE_pos])
  then show "rangeEnd p tot < rangeStart p tot" using assms(1) by (simp add: rangeStart_def rangeEnd_def)
  show "nextDisabled p tot" using assms(2) by (simp add: nextDisabled_def)
  show "\<not> prevDisabled p" using assms(2) by (simp add: prevDisabled_def totalPages_def)
qed

subsection \<open>Stat cards, dropdowns and the bulk action bar\<close>

datatype SignalColor = SignalNeutral | SignalGreen | SignalAmber | SignalRed

text \<open>A stat card: its label, the count (\<^const>\<open>None\<close> while it loads), the signal, and whether it is active.\<close>

record stat_card =
  stat_label :: string
  stat_value :: "int option"
  stat_signal :: SignalColor
  stat_active :: bool

text \<open>\<open>value === null ? 'neutral' : value === 0 ? zero : other\<close>.\<close>

definition signal_of :: "int option \<Rightarrow> SignalColor \<Rightarrow> SignalColor \<Rightarrow> SignalColor" where
  "signal_of v zero other = (case v of None \<Rightarrow> SignalNeutral | Some n \<Rightarrow> if n = 0 then zero else other)"

definition FilterDropdown_label :: "bool \<Rightarrow> string \<Rightarrow> (string \<times> string) list \<Rightarrow> string \<Rightarrow> string" where
  "FilterDropdown_label showActive label options value =
     (case map_of options value of
        Some activeLabel \<Rightarrow> if showActive \<and> activeLabel \<noteq> [] then activeLabel else label
      | None \<Rightarrow> label)"

definition FilterDropdown_checked :: "(string \<times> string) list \<Rightarrow> string \<Rightarrow> (string \<times> bool) list" where
  "FilterDropdown_checked options value = map (\<lambda>(v, label). (label, value = v)) options"

text \<open>The bar is absent while nothing is selected; otherwise its count, its accessible name and its actions.\<close>

definition BulkActionBar :: "nat \<Rightarrow> string list \<Rightarrow> (nat \<times> string \<times> string list) option" where
  "BulkActionBar count actions =
     (if count = 0 then None
      else Some (count, ''Bulk actions, '' @ show_int (int count) @ '' selected'', actions))"

text \<open>The entries of a row menu lead to a page or ask for the confirmation of a delete.\<close>

datatype menu_action = NavigateTo string | AskDelete string

text \<open>\<open>data?.items ?? []\<close> and \<open>data?.totalCount ?? 0\<close>.\<close>

definition data_items :: "'a PaginatedList option \<Rightarrow> 'a list" where
  "data_items data = (case data of None \<Rightarrow> [] | Some d \<Rightarrow> paginatedList_items d)"

definition data_total :: "'a PaginatedList option \<Rightarrow> int" where
  "data_total data = (case data of None \<Rightarrow> 0 | Some d \<Rightarrow> paginatedList_totalCount d)"

subsection \<open>Row selection\<close>

text \<open>
  A selection maps the key of a row to the row as it was last seen. It is coherent when no key occurs twice and
  every row is stored under its own key.
\<close>

definition coherent :: "('r \<Rightarrow> string) \<Rightarrow> (string, 'r) js_map \<Rightarrow> bool" where
  "coherent key m \<longleftrightarrow> js_map_inv m \<and> (\<forall>k r. js_map_get m k = Some r \<longrightarrow> key r = k)"

text \<open>What happens to a selection on a page: clicks, and a new answer for the page (\<open>Refreshed\<close>).\<close>

datatype 'r selection_event = ToggledOne 'r | ToggledAll "'r list" | Refreshed "'r list" | Cleared

fun event_rows :: "'r selection_event \<Rightarrow> 'r list" where
  "event_rows (ToggledAll rows) = rows"
| "event_rows (Refreshed rows) = rows"
| "event_rows _ = []"

locale row_selection =
  fixes key :: "'r \<Rightarrow> string"
    and step :: "'r selection_event \<Rightarrow> (string, 'r) js_map \<Rightarrow> (string, 'r) js_map"
  assumes get_one: "js_map_get (step (ToggledOne r) m) =
      (js_map_get m)(key r := (if js_map_get m (key r) = None then Some r else None))"
    and get_all_off: "rows \<noteq> [] \<Longrightarrow> \<forall>r \<in> set rows. js_map_get m (key r) \<noteq> None \<Longrightarrow>
      js_map_get (step (ToggledAll rows) m) k = (if k \<in> key ` set rows then None else js_map_get m k)"
    and get_all_on: "distinct (map key rows) \<Longrightarrow> \<exists>r \<in> set rows. js_map_get m (key r) = None \<Longrightarrow>
      js_map_get (step (ToggledAll rows) m) k =
        (case find (\<lambda>r. key r = k) rows of Some r \<Rightarrow> Some r | None \<Rightarrow> js_map_get m k)"
    and all_empty: "js_map_get (step (ToggledAll []) m) = js_map_get m"
    and get_refreshed: "distinct (map key rows) \<Longrightarrow>
      js_map_get (step (Refreshed rows) m) k =
        (case js_map_get m k of
           None \<Rightarrow> None
         | Some old \<Rightarrow> Some (case find (\<lambda>r. key r = k) rows of Some r \<Rightarrow> r | None \<Rightarrow> old))"
    and get_cleared: "js_map_get (step Cleared m) = (\<lambda>_. None)"
    and inv_step: "js_map_inv m \<Longrightarrow> js_map_inv (step ev m)"
begin

lemma coherent_step:
  assumes "coherent key m" and "distinct (map key (event_rows ev))"
  shows "coherent key (step ev m)"
proof -
  have own: "key r = k" if "js_map_get m k = Some r" for k r using assms(1) that by (simp add: coherent_def)
  have "key r = k" if got: "js_map_get (step ev m) k = Some r" for k r
  proof (cases ev)
    case (ToggledOne x)
    with got own show ?thesis by (auto simp: get_one split: if_splits)
  next
    case (ToggledAll rows)
    consider "rows = []" | "rows \<noteq> []" "\<forall>r \<in> set rows. js_map_get m (key r) \<noteq> None"
      | "\<exists>r \<in> set rows. js_map_get m (key r) = None" by fastforce
    then show ?thesis
      using got own assms(2) unfolding ToggledAll
      by cases (auto simp: all_empty get_all_off get_all_on find_Some_iff split: if_splits option.splits)
  next
    case (Refreshed rows)
    with got own assms(2) show ?thesis
      by (auto simp: get_refreshed find_Some_iff split: option.splits)
  next
    case Cleared
    with got show ?thesis by (simp add: get_cleared)
  qed
  then show ?thesis using assms(1) inv_step by (simp add: coherent_def)
qed

lemma coherent_run:
  assumes "coherent key m" and "\<forall>ev \<in> set evs. distinct (map key (event_rows ev))"
  shows "coherent key (fold step evs m)"
  using assms by (induction evs arbitrary: m) (simp_all add: coherent_step)

text \<open>Selecting a page.\<close>

lemma all_on_dom:
  assumes "distinct (map key rows)" and "\<exists>r \<in> set rows. js_map_get m (key r) = None"
  shows "dom (js_map_get (step (ToggledAll rows) m)) = dom (js_map_get m) \<union> key ` set rows"
proof -
  have iff: "find (\<lambda>r. key r = k) rows = None \<longleftrightarrow> k \<notin> key ` set rows" for k
    by (auto simp: find_None_iff)
  have "js_map_get (step (ToggledAll rows) m) k \<noteq> None \<longleftrightarrow>
      js_map_get m k \<noteq> None \<or> k \<in> key ` set rows" for k
    unfolding get_all_on [OF assms]
    using iff [of k] by (cases "find (\<lambda>r. key r = k) rows") auto
  then show ?thesis by (auto simp: dom_def)
qed

lemma all_off_dom:
  assumes "rows \<noteq> []" and "\<forall>r \<in> set rows. js_map_get m (key r) \<noteq> None"
  shows "dom (js_map_get (step (ToggledAll rows) m)) = dom (js_map_get m) - key ` set rows"
  using get_all_off [OF assms] by (auto simp: dom_def)

lemma all_toggles:
  assumes "distinct (map key rows)" and "rows \<noteq> []"
  shows "key ` set rows \<subseteq> dom (js_map_get (step (ToggledAll rows) m)) \<longleftrightarrow>
      \<not> key ` set rows \<subseteq> dom (js_map_get m)"
proof (cases "\<forall>r \<in> set rows. js_map_get m (key r) \<noteq> None")
  case True
  then have "key ` set rows \<subseteq> dom (js_map_get m)" by (auto simp: dom_def)
  moreover have "\<not> key ` set rows \<subseteq> dom (js_map_get m) - key ` set rows" using assms(2) by (cases rows) auto
  ultimately show ?thesis using all_off_dom [OF assms(2) True] by simp
next
  case False
  then have some: "\<exists>r \<in> set rows. js_map_get m (key r) = None" by simp
  then have "\<not> key ` set rows \<subseteq> dom (js_map_get m)" by (auto simp: dom_def)
  then show ?thesis using all_on_dom [OF assms(1) some] by simp
qed

lemma all_off_page:
  assumes "distinct (map key rows)" and "k \<notin> key ` set rows"
  shows "js_map_get (step (ToggledAll rows) m) k = js_map_get m k"
proof -
  have none: "find (\<lambda>r. key r = k) rows = None" using assms(2) by (auto simp: find_None_iff)
  consider "rows = []" | "rows \<noteq> []" "\<forall>r \<in> set rows. js_map_get m (key r) \<noteq> None"
    | "\<exists>r \<in> set rows. js_map_get m (key r) = None" by fastforce
  then show ?thesis
    using assms none by cases (simp_all add: all_empty get_all_off get_all_on)
qed

lemma one_dom:
  "dom (js_map_get (step (ToggledOne r) m)) =
     (if key r \<in> dom (js_map_get m) then dom (js_map_get m) - {key r} else insert (key r) (dom (js_map_get m)))"
  by (auto simp: get_one)

lemma refreshed_dom:
  "distinct (map key rows) \<Longrightarrow> dom (js_map_get (step (Refreshed rows) m)) = dom (js_map_get m)"
  by (auto simp: get_refreshed dom_def split: option.splits)

end

text \<open>What a bulk dialog receives: the selected rows, one per key.\<close>

lemma js_map_get_mem: "js_map_inv m \<Longrightarrow> (k, r) \<in> set m \<Longrightarrow> js_map_get m k = Some r"
  by (simp add: js_map_inv_def js_map_get_def)

lemma coherent_values:
  assumes "coherent key m"
  shows "map key (js_map_values m) = js_map_keys m"
proof -
  have "\<forall>(k, r) \<in> set m. key r = k"
    using assms js_map_get_mem [of m] by (fastforce simp: coherent_def)
  then show ?thesis by (auto simp: js_map_values_def js_map_keys_def)
qed

lemma coherent_empty: "coherent key js_map_empty"
  by (simp add: coherent_def js_map_inv_def js_map_empty_def js_map_get_def)

text \<open>A loop that replaces the selected entries of the rows it visits.\<close>

lemma get_refresh_fold:
  assumes upd: "\<And>r m. js_map_get (f r m) =
      (if js_map_get m (key r) = None then js_map_get m else (js_map_get m)(key r \<mapsto> r))"
    and "distinct (map key rows)"
  shows "js_map_get (fold f rows m) k =
    (case js_map_get m k of
       None \<Rightarrow> None
     | Some old \<Rightarrow> Some (case find (\<lambda>r. key r = k) rows of Some r \<Rightarrow> r | None \<Rightarrow> old))"
  using assms(2)
proof (induction rows arbitrary: m)
  case (Cons a rows)
  then have IH: "js_map_get (fold f rows (f a m)) k =
      (case js_map_get (f a m) k of
         None \<Rightarrow> None
       | Some old \<Rightarrow> Some (case find (\<lambda>r. key r = k) rows of Some r \<Rightarrow> r | None \<Rightarrow> old))"
    by simp
  show ?case
  proof (cases "key a = k")
    case True
    with Cons.prems have "find (\<lambda>r. key r = k) rows = None"
      by (simp add: find_None_iff) (metis image_eqI)
    with True IH show ?thesis by (auto simp: upd split: option.split)
  next
    case False
    with IH show ?thesis by (simp add: upd split: option.split)
  qed
qed (simp split: option.split)

subsection \<open>Properties\<close>

text \<open>For a list of any length, every row is on exactly one page, and that page is between 1 and the last;
  the footer of that page names a range of at most 20 rows inside the list; pressing Next \<open>k\<close> times from the first page
  leads to page \<open>1 + k\<close>, or to the last page if there are fewer; and neither button ever leaves the pages.\<close>

lemma pages_partition_rows:
  assumes "1 \<le> i" and "i \<le> tot" and "1 \<le> p" and "p \<le> totalPages tot"
  shows "(\<exists>!q. 1 \<le> q \<and> q \<le> totalPages tot \<and> rangeStart q tot \<le> i \<and> i \<le> rangeEnd q tot)
    \<and> 1 \<le> rangeStart p tot \<and> rangeStart p tot \<le> rangeEnd p tot \<and> rangeEnd p tot \<le> tot
    \<and> rangeEnd p tot < rangeStart p tot + PAGE_SIZE
    \<and> fold (turn_page tot) (replicate k NextPage) 1 = min (1 + int k) (totalPages tot)
    \<and> 1 \<le> turn_page tot b p \<and> turn_page tot b p \<le> totalPages tot"
proof -
  have "\<exists>!q. 1 \<le> q \<and> q \<le> totalPages tot \<and> rangeStart q tot \<le> i \<and> i \<le> rangeEnd q tot"
    using row_on_page [OF assms(1,2)] page_of_row_bounds [OF assms(1,2)]
    by (intro ex1I [of _ "ceil_div i PAGE_SIZE"]) auto
  moreover have "\<not> ceil_div tot PAGE_SIZE \<le> p - 1"
    using assms page_of_row_bounds(1) [of tot tot] by (auto simp: totalPages_def)
  then have "(p - 1) * PAGE_SIZE < tot" by (simp only: ceil_div_least [OF PAGE_SIZE_pos] not_le)
  then have "rangeStart p tot \<le> rangeEnd p tot" "1 \<le> rangeStart p tot"
    using assms PAGE_SIZE_pos by (auto simp: rangeStart_def rangeEnd_def algebra_simps)
  ultimately show ?thesis
    using assms turn_page_bounds [OF assms(3,4)] next_pages
    by (simp add: rangeStart_def rangeEnd_def algebra_simps)
qed

lemma pages_partition_rows_witness:
  "rangeStart 3 45 = 41 \<and> rangeEnd 3 45 = 45 \<and> totalPages 45 = 3
   \<and> (\<exists>!q. 1 \<le> q \<and> q \<le> totalPages 45 \<and> rangeStart q 45 \<le> 45 \<and> 45 \<le> rangeEnd q 45)"
  using pages_partition_rows [of 45 45 3 0 NextPage]
  by (simp add: rangeStart_def rangeEnd_def totalPages_def ceil_div_def PAGE_SIZE_def)

subsection \<open>The path above a page (\<open>components/Breadcrumb.tsx\<close>)\<close>

text \<open>The entries with the address a click leads to; the last one is never a link.\<close>

fun Breadcrumb :: "(string \<times> string option) list \<Rightarrow> (string \<times> string option) list" where
  "Breadcrumb [] = []"
| "Breadcrumb [item] = [(fst item, None)]"
| "Breadcrumb (item # items) = (fst item, if truthy (snd item) then snd item else None) # Breadcrumb items"

end
