(* ===== verification/EndpointList.thy ===== *)
theory EndpointList
  imports BulkActions ListParts Expiry EndpointForm
begin

section \<open>The endpoint list (\<open>pages/endpoint/EndpointPage.tsx\<close>)\<close>

text \<open>
  One page for the three endpoint types. Its \<open>useState\<close> cells and the query string of the address bar are
  the record \<open>endpoint_page\<close>; handlers and effects are functions on it. The answer of the list request
  (cached by react-query) is an argument.
\<close>

subsection \<open>Configuration by type\<close>

definition arrow :: string where
  "arrow = [CHR 0xE2, CHR 0x86, CHR 0x92]"

definition PROTOCOL_LABEL :: "string js_object" where
  "PROTOCOL_LABEL =
     [(''ssl30'', ''SSL 3.0''), (''tls10'', ''TLS 1.0''), (''tls11'', ''TLS 1.1''), (''tls12'', ''TLS 1.2''),
      (''tls13'', ''TLS 1.3'')]"

record TypeConfig =
  cfg_title :: string
  cfg_description :: string
  cfg_noun :: string
  cfg_searchPlaceholder :: string
  cfg_sortOptions :: "(string \<times> string) list"
  cfg_showAddress :: bool
  cfg_addressLabel :: string
  cfg_showLastScanned :: bool
  cfg_showScanErrorsCard :: bool
  cfg_addButtonLabel :: string
  cfg_emptyMessage :: string

definition STATUS_OPTIONS :: "(string \<times> string) list" where
  "STATUS_OPTIONS = [([], ''All''), (''enabled'', ''Enabled''), (''disabled'', ''Disabled'')]"

fun TYPE_CONFIGS :: "EndpointType \<Rightarrow> TypeConfig" where
  "TYPE_CONFIGS HostEndpoint =
     \<lparr>cfg_title = ''Host Endpoints'', cfg_description = ''Host:port TLS endpoints the scanner probes each cycle.'',
      cfg_noun = ''Host Endpoint'', cfg_searchPlaceholder = ''Search name or DNS'' @ ellipsis,
      cfg_sortOptions = [([], ''Newest first''), (''name'', ''Name A'' @ arrow @ ''Z''),
        (''dns_name'', ''DNS name A'' @ arrow @ ''Z''), (''last_scanned'', ''Last scanned'')],
      cfg_showAddress = True, cfg_addressLabel = ''Address'', cfg_showLastScanned = True,
      cfg_showScanErrorsCard = True, cfg_addButtonLabel = ''Add Host Endpoint'',
      cfg_emptyMessage = ''No host endpoints yet. Click Add Host Endpoint to get started.''\<rparr>"
| "TYPE_CONFIGS SamlEndpoint =
     \<lparr>cfg_title = ''SAML Endpoints'',
      cfg_description = ''SAML IdP/SP metadata URLs with document history and signing-cert tracking.'',
      cfg_noun = ''SAML Endpoint'', cfg_searchPlaceholder = ''Search name or URL'' @ ellipsis,
      cfg_sortOptions = [([], ''Newest first''), (''name'', ''Name A'' @ arrow @ ''Z''),
        (''last_scanned'', ''Last scanned'')],
      cfg_showAddress = True, cfg_addressLabel = ''Metadata URL'', cfg_showLastScanned = True,
      cfg_showScanErrorsCard = True, cfg_addButtonLabel = ''Add SAML Endpoint'',
      cfg_emptyMessage = ''No SAML endpoints yet. Click Add SAML Endpoint to get started.''\<rparr>"
| "TYPE_CONFIGS ManualEndpoint =
     \<lparr>cfg_title = ''Manual Endpoints'',
      cfg_description = ''Uploaded certificates not tied to a live endpoint '' @ em_dash @ '' no scanning, expiry tracking only.'',
      cfg_noun = ''Manual Endpoint'', cfg_searchPlaceholder = ''Search name'' @ ellipsis,
      cfg_sortOptions = [([], ''Newest first''), (''name'', ''Name A'' @ arrow @ ''Z'')],
      cfg_showAddress = False, cfg_addressLabel = [], cfg_showLastScanned = False,
      cfg_showScanErrorsCard = False, cfg_addButtonLabel = ''Add Manual Endpoint'',
      cfg_emptyMessage = ''No manual endpoints yet. Click Add Manual Endpoint to upload a certificate.''\<rparr>"

subsection \<open>Rows\<close>

text \<open>A tag chip: its title, its text, its colour, whether it is the active filter, and the filter a click selects.\<close>

record tag_chip =
  chip_title :: string
  chip_text :: string
  chip_color :: "string option"
  chip_active :: bool
  chip_click :: string

definition TagChips :: "string \<Rightarrow> TagWithCategory list \<Rightarrow> tag_chip list" where
  "TagChips tagFilter tags =
     map (\<lambda>t. \<lparr>chip_title = ''Filter by '' @ tagWithCategory_categoryName t @ '': '' @ tagWithCategory_name t,
               chip_text = tagWithCategory_categoryName t @ '':'' @ tagWithCategory_name t,
               chip_color = categoryColor (tagWithCategory_categoryId t),
               chip_active = (tagFilter = tagWithCategory_id t),
               chip_click = (if tagFilter = tagWithCategory_id t then [] else tagWithCategory_id t)\<rparr>) tags"

definition EndpointActionsMenu :: "bool \<Rightarrow> EndpointListItem \<Rightarrow> (string \<times> menu_action) list" where
  "EndpointActionsMenu admin ep =
     [(''View'', NavigateTo (''/endpoints/'' @ endpointListItem_id ep))]
     @ (if admin then [(''Edit'', NavigateTo (''/endpoints/'' @ endpointListItem_id ep @ ''/edit''))] else [])
     @ [(''Clone'', NavigateTo (''/endpoints/new?clone='' @ endpointListItem_id ep))]
     @ (if admin then [(''Delete'', AskDelete (endpointListItem_id ep))] else [])"

text \<open>
  What a row shows. \<^const>\<open>None\<close> in an optional part means that the column (or the labelled line) is absent.
\<close>

record endpoint_view =
  view_selected :: bool
  view_name :: string
  view_link :: string
  view_tags :: "tag_chip list"
  view_address :: "string option"
  view_status :: string
  view_expiry :: "badge option"
  view_scanned :: "string option"
  view_scanError :: "string option"
  view_actions :: "(string \<times> menu_action) list"

definition endpoint_address :: "EndpointType \<Rightarrow> EndpointListItem \<Rightarrow> string" where
  "endpoint_address typ ep =
     (if typ = HostEndpoint then endpointListItem_dnsName ep @ '':'' @ show_int (endpointListItem_port ep)
      else nullish (endpointListItem_url ep) em_dash)"

definition expiry_badge :: "int \<Rightarrow> EndpointListItem \<Rightarrow> badge option" where
  "expiry_badge clock ep =
     (case endpointListItem_earliestExpiry ep of
        Some e \<Rightarrow> if e = [] then None else Some (DaysLeftBadge_endpoint clock e)
      | None \<Rightarrow> None)"

definition last_scanned :: "int \<Rightarrow> EndpointListItem \<Rightarrow> string" where
  "last_scanned now ep =
     (case endpointListItem_lastScannedAt ep of
        Some t \<Rightarrow> if t = [] then ''Never'' else fmtRelative t now
      | None \<Rightarrow> ''Never'')"

text \<open>The row and the card differ in one place: the row shows a scan error only next to a scan time.\<close>

definition EndpointRow ::
  "int \<Rightarrow> int \<Rightarrow> EndpointType \<Rightarrow> bool \<Rightarrow> string \<Rightarrow> bool \<Rightarrow> EndpointListItem \<Rightarrow> endpoint_view" where
  "EndpointRow clock now typ admin tagFilter selected ep =
     (let cfg = TYPE_CONFIGS typ in
      \<lparr>view_selected = selected, view_name = endpointListItem_name ep,
       view_link = ''/endpoints/'' @ endpointListItem_id ep,
       view_tags = TagChips tagFilter (endpointListItem_tags ep),
       view_address = (if cfg_showAddress cfg then Some (endpoint_address typ ep) else None),
       view_status = (if endpointListItem_enabled ep then ''Enabled'' else ''Disabled''),
       view_expiry = expiry_badge clock ep,
       view_scanned = (if cfg_showLastScanned cfg then Some (last_scanned now ep) else None),
       view_scanError =
         (if cfg_showLastScanned cfg \<and> truthy (endpointListItem_lastScannedAt ep) \<and> truthy (endpointListItem_lastScanError ep)
          then endpointListItem_lastScanError ep else None),
       view_actions = EndpointActionsMenu admin ep\<rparr>)"

definition EndpointCard ::
  "int \<Rightarrow> int \<Rightarrow> EndpointType \<Rightarrow> bool \<Rightarrow> string \<Rightarrow> bool \<Rightarrow> EndpointListItem \<Rightarrow> endpoint_view" where
  "EndpointCard clock now typ admin tagFilter selected ep =
     (let cfg = TYPE_CONFIGS typ in
      \<lparr>view_selected = selected, view_name = endpointListItem_name ep,
       view_link = ''/endpoints/'' @ endpointListItem_id ep,
       view_tags = TagChips tagFilter (endpointListItem_tags ep),
       view_address =
         (if cfg_showAddress cfg then Some (cfg_addressLabel cfg @ '':'' @ endpoint_address typ ep) else None),
       view_status = (if endpointListItem_enabled ep then ''Enabled'' else ''Disabled''),
       view_expiry = expiry_badge clock ep,
       view_scanned = (if cfg_showLastScanned cfg then Some (last_scanned now ep) else None),
       view_scanError =
         (if cfg_showLastScanned cfg \<and> truthy (endpointListItem_lastScanError ep)
          then endpointListItem_lastScanError ep else None),
       view_actions = EndpointActionsMenu admin ep\<rparr>)"

subsection \<open>Page state\<close>

record endpoint_page =
  ep_searchParams :: search_params
  ep_page :: int
  ep_search :: string
  ep_debouncedSearch :: string
  ep_statusFilter :: string
  ep_sortOption :: string
  ep_tagFilter :: string
  ep_deleteTarget :: "EndpointListItem option"
  ep_importOpen :: bool
  ep_selected :: "(string, EndpointListItem) js_map"
  ep_bulkDeleteOpen :: bool
  ep_bulkTagOpen :: bool
  ep_prevType :: "EndpointType option"

definition endpoint_page_init :: "search_params \<Rightarrow> endpoint_page" where
  "endpoint_page_init ps =
     \<lparr>ep_searchParams = ps, ep_page = 1, ep_search = [], ep_debouncedSearch = [], ep_statusFilter = [],
      ep_sortOption = [], ep_tagFilter = [], ep_deleteTarget = None, ep_importOpen = False,
      ep_selected = js_map_empty, ep_bulkDeleteOpen = False, ep_bulkTagOpen = False, ep_prevType = None\<rparr>"

definition rawProtocol :: "search_params \<Rightarrow> string" where
  "rawProtocol ps = nullish (params_get ps ''protocol'') []"

text \<open>\<open>rawProtocol in PROTOCOL_LABEL\<close> also accepts the names every object inherits.\<close>

definition protocolFilter :: "search_params \<Rightarrow> string" where
  "protocolFilter ps = (if obj_in (rawProtocol ps) PROTOCOL_LABEL then rawProtocol ps else [])"

definition cipherFilter :: "search_params \<Rightarrow> string" where
  "cipherFilter ps = nullish (params_get ps ''cipher'') []"

text \<open>The value a cast to \<open>ProtocolFilter\<close> stands for; \<^const>\<open>None\<close>: the text is not of that type.\<close>

fun endpoint_type_filter :: "EndpointType \<Rightarrow> EndpointTypeFilter" where
  "endpoint_type_filter HostEndpoint = HostType"
| "endpoint_type_filter SamlEndpoint = SamlType"
| "endpoint_type_filter ManualEndpoint = ManualType"

definition as_ProtocolFilter :: "string \<Rightarrow> ProtocolFilter option" where
  "as_ProtocolFilter s =
     find (\<lambda>p. protocol_filter_string p = s) [AnyProtocol, Ssl30, Tls10, Tls11, Tls12, Tls13]"

text \<open>The list request of the current state.\<close>

definition list_query :: "EndpointType \<Rightarrow> endpoint_page \<Rightarrow> EndpointList api_call option" where
  "list_query typ s =
     map_option (\<lambda>protocol.
         listEndpoints (ep_page s) PAGE_SIZE (ep_debouncedSearch s) (ep_statusFilter s) (ep_sortOption s)
           (ep_tagFilter s) (endpoint_type_filter typ) protocol (cipherFilter (ep_searchParams s)))
       (as_ProtocolFilter (protocolFilter (ep_searchParams s)))"

text \<open>The requests behind the stat cards.\<close>

definition count_queries :: "EndpointType \<Rightarrow> EndpointList api_call list" where
  "count_queries typ =
     [listEndpoints 1 1 [] [] [] [] (endpoint_type_filter typ) AnyProtocol [],
      listEndpoints 1 1 [] ''enabled'' [] [] (endpoint_type_filter typ) AnyProtocol [],
      listEndpoints 1 1 [] ''disabled'' [] [] (endpoint_type_filter typ) AnyProtocol []]
     @ (if cfg_showScanErrorsCard (TYPE_CONFIGS typ) then [listErrorEndpoints 1 1 (endpoint_type_filter typ)] else [])"

definition stat_cards ::
  "EndpointType \<Rightarrow> int option \<Rightarrow> int option \<Rightarrow> int option \<Rightarrow> int option \<Rightarrow> endpoint_page \<Rightarrow> stat_card list" where
  "stat_cards typ totalAll totalEnabled totalDisabled totalErrors s =
     [\<lparr>stat_label = ''Total'', stat_value = totalAll, stat_signal = SignalNeutral,
       stat_active = (ep_statusFilter s = [] \<and> ep_tagFilter s = [])\<rparr>,
      \<lparr>stat_label = ''Enabled'', stat_value = totalEnabled, stat_signal = SignalNeutral,
       stat_active = (ep_statusFilter s = ''enabled'')\<rparr>,
      \<lparr>stat_label = ''Disabled'', stat_value = totalDisabled,
       stat_signal = signal_of totalDisabled SignalNeutral SignalAmber, stat_active = (ep_statusFilter s = ''disabled'')\<rparr>]
     @ (if cfg_showScanErrorsCard (TYPE_CONFIGS typ)
        then [\<lparr>stat_label = ''Scan Errors'', stat_value = totalErrors,
               stat_signal = signal_of totalErrors SignalGreen SignalRed, stat_active = False\<rparr>]
        else [])"

subsection \<open>Effects and handlers\<close>

text \<open>Typing restarts a timer of 400 ms; when it fires the typed text becomes the filter.\<close>

definition setSearch :: "string \<Rightarrow> endpoint_page \<Rightarrow> endpoint_page" where
  "setSearch v s = s\<lparr>ep_search := v\<rparr>"

definition search_timer :: "endpoint_page \<Rightarrow> endpoint_page" where
  "search_timer s = s\<lparr>ep_debouncedSearch := ep_search s, ep_page := 1\<rparr>"

definition clear_url_filters :: "search_params \<Rightarrow> search_params" where
  "clear_url_filters ps =
     (if params_get ps ''protocol'' \<noteq> None \<or> params_get ps ''cipher'' \<noteq> None
      then params_delete ''cipher'' (params_delete ''protocol'' ps) else ps)"

text \<open>The effect on the type of the page.\<close>

definition type_effect :: "EndpointType \<Rightarrow> endpoint_page \<Rightarrow> endpoint_page" where
  "type_effect typ s =
     (let s1 = s\<lparr>ep_prevType := Some typ\<rparr> in
      if ep_prevType s = None \<or> ep_prevType s = Some typ then s1
      else s1\<lparr>ep_page := 1, ep_search := [], ep_debouncedSearch := [], ep_statusFilter := [], ep_sortOption := [],
              ep_tagFilter := [], ep_selected := js_map_empty,
              ep_searchParams := clear_url_filters (ep_searchParams s)\<rparr>)"

definition handleStatusChange :: "string \<Rightarrow> endpoint_page \<Rightarrow> endpoint_page" where
  "handleStatusChange v s = s\<lparr>ep_statusFilter := v, ep_page := 1\<rparr>"

definition handleSortChange :: "string \<Rightarrow> endpoint_page \<Rightarrow> endpoint_page" where
  "handleSortChange v s = s\<lparr>ep_sortOption := v, ep_page := 1\<rparr>"

definition handleTagChange :: "string \<Rightarrow> endpoint_page \<Rightarrow> endpoint_page" where
  "handleTagChange tagId s = s\<lparr>ep_tagFilter := tagId, ep_page := 1\<rparr>"

datatype url_filter = ProtocolKey | CipherKey

fun url_filter_string :: "url_filter \<Rightarrow> string" where
  "url_filter_string ProtocolKey = ''protocol''"
| "url_filter_string CipherKey = ''cipher''"

definition clearUrlFilter :: "url_filter \<Rightarrow> endpoint_page \<Rightarrow> endpoint_page" where
  "clearUrlFilter k s =
     s\<lparr>ep_searchParams := params_delete (url_filter_string k) (ep_searchParams s), ep_page := 1\<rparr>"

subsection \<open>Selecting rows\<close>

definition pageIds :: "EndpointListItem list \<Rightarrow> string list" where
  "pageIds endpoints = map endpointListItem_id endpoints"

definition allPageSelected :: "EndpointListItem list \<Rightarrow> (string, EndpointListItem) js_map \<Rightarrow> bool" where
  "allPageSelected endpoints selected \<longleftrightarrow>
     length (pageIds endpoints) > 0 \<and> list_all (\<lambda>i. js_map_has selected i) (pageIds endpoints)"

definition somePageSelected :: "EndpointListItem list \<Rightarrow> (string, EndpointListItem) js_map \<Rightarrow> bool" where
  "somePageSelected endpoints selected \<longleftrightarrow>
     \<not> allPageSelected endpoints selected \<and> list_ex (\<lambda>i. js_map_has selected i) (pageIds endpoints)"

definition toggleOne :: "EndpointListItem \<Rightarrow> (string, EndpointListItem) js_map \<Rightarrow> (string, EndpointListItem) js_map" where
  "toggleOne ep prev =
     (if js_map_has prev (endpointListItem_id ep) then js_map_delete (endpointListItem_id ep) prev
      else js_map_set (endpointListItem_id ep) ep prev)"

definition toggleAll ::
  "EndpointListItem list \<Rightarrow> (string, EndpointListItem) js_map \<Rightarrow> (string, EndpointListItem) js_map" where
  "toggleAll endpoints prev =
     (if allPageSelected endpoints prev then fold js_map_delete (pageIds endpoints) prev
      else fold (\<lambda>ep. js_map_set (endpointListItem_id ep) ep) endpoints prev)"

text \<open>
  The effect on the rows of the page: \<open>!==\<close> compares objects; replacing a row by an equal one does not
  change the selection as a value.
\<close>

definition refresh_row :: "EndpointListItem \<Rightarrow> (string, EndpointListItem) js_map \<Rightarrow> (string, EndpointListItem) js_map" where
  "refresh_row ep next =
     (if js_map_has next (endpointListItem_id ep) \<and> js_map_get next (endpointListItem_id ep) \<noteq> Some ep
      then js_map_set (endpointListItem_id ep) ep next else next)"

definition refresh_selected ::
  "EndpointListItem list \<Rightarrow> (string, EndpointListItem) js_map \<Rightarrow> (string, EndpointListItem) js_map" where
  "refresh_selected endpoints selected =
     (if length selected = 0 \<or> length endpoints = 0 then selected else fold refresh_row endpoints selected)"

fun selection_step ::
  "EndpointListItem selection_event \<Rightarrow> (string, EndpointListItem) js_map \<Rightarrow> (string, EndpointListItem) js_map" where
  "selection_step (ToggledOne ep) m = toggleOne ep m"
| "selection_step (ToggledAll endpoints) m = toggleAll endpoints m"
| "selection_step (Refreshed endpoints) m = refresh_selected endpoints m"
| "selection_step Cleared m = js_map_empty"

definition selectedList :: "(string, EndpointListItem) js_map \<Rightarrow> EndpointListItem list" where
  "selectedList selected = js_map_values selected"

subsection \<open>The rest of the page\<close>

text \<open>The tag whose filter is active, with the name of its category.\<close>

definition allTags :: "CategoryWithTags list \<Rightarrow> (Tag \<times> string) list" where
  "allTags categories = concat (map (\<lambda>cat. map (\<lambda>t. (t, tagCategory_name cat)) (categoryWithTags_tags cat)) categories)"

definition activeTag :: "CategoryWithTags list \<Rightarrow> endpoint_page \<Rightarrow> (Tag \<times> string) option" where
  "activeTag categories s = find (\<lambda>(t, _). tag_id t = ep_tagFilter s) (allTags categories)"

definition url_chips :: "endpoint_page \<Rightarrow> (string \<times> string property) list" where
  "url_chips s =
     (let p = protocolFilter (ep_searchParams s); c = cipherFilter (ep_searchParams s) in
      (if p \<noteq> [] then [(''Supports:'', obj_get PROTOCOL_LABEL p)] else [])
      @ (if c \<noteq> [] then [(''Cipher:'', Own c)] else []))"

datatype table_body = TableLoading | NoMatch | EmptyTable string | TableRows "endpoint_view list"

definition table_body_of ::
  "int \<Rightarrow> int \<Rightarrow> EndpointType \<Rightarrow> bool \<Rightarrow> bool \<Rightarrow> EndpointList option \<Rightarrow> endpoint_page \<Rightarrow> table_body" where
  "table_body_of clock now typ admin isLoading data s =
     (if isLoading then TableLoading
      else if data_items data = [] then
        (if ep_debouncedSearch s \<noteq> [] \<or> ep_statusFilter s \<noteq> [] \<or> ep_tagFilter s \<noteq> []
            \<or> protocolFilter (ep_searchParams s) \<noteq> [] \<or> cipherFilter (ep_searchParams s) \<noteq> []
         then NoMatch else EmptyTable (cfg_emptyMessage (TYPE_CONFIGS typ)))
      else TableRows
        (map (\<lambda>ep. EndpointRow clock now typ admin (ep_tagFilter s)
                 (js_map_has (ep_selected s) (endpointListItem_id ep)) ep) (data_items data)))"

text \<open>\<open>onDone\<close> of the two bulk dialogs: the selection is cleared and the list fetched again for the same state.\<close>

definition bulk_onDone :: "endpoint_page \<Rightarrow> endpoint_page" where
  "bulk_onDone s = s\<lparr>ep_selected := js_map_empty\<rparr>"

definition setPage :: "int \<Rightarrow> page_button \<Rightarrow> endpoint_page \<Rightarrow> endpoint_page" where
  "setPage totalCount b s = s\<lparr>ep_page := turn_page totalCount b (ep_page s)\<rparr>"

subsection \<open>The selection keeps its contract\<close>

lemma allPageSelected_iff:
  "allPageSelected endpoints m \<longleftrightarrow>
     endpoints \<noteq> [] \<and> (\<forall>ep \<in> set endpoints. js_map_get m (endpointListItem_id ep) \<noteq> None)"
  by (auto simp: allPageSelected_def pageIds_def list_all_iff js_map_has_get)

lemma refresh_row_get:
  "js_map_get (refresh_row ep m) =
     (if js_map_get m (endpointListItem_id ep) = None then js_map_get m
      else (js_map_get m)(endpointListItem_id ep \<mapsto> ep))"
  by (auto simp: refresh_row_def js_map_has_get alist_map.get_put)

lemma refresh_row_inv: "js_map_inv m \<Longrightarrow> js_map_inv (refresh_row ep m)"
  by (simp add: refresh_row_def alist_map.inv_put)

lemma selection_step_inv: "js_map_inv m \<Longrightarrow> js_map_inv (selection_step ev m)"
proof (cases ev)
  case (ToggledAll endpoints)
  assume "js_map_inv m"
  then show ?thesis
    unfolding ToggledAll selection_step.simps toggleAll_def
    by (simp add: alist_map.inv_del_all alist_map.inv_put_all)
next
  case (Refreshed endpoints)
  assume "js_map_inv m"
  then have "js_map_inv (fold refresh_row endpoints m)"
    by (induction endpoints arbitrary: m) (simp_all add: refresh_row_inv)
  with \<open>js_map_inv m\<close> show ?thesis unfolding Refreshed by (simp add: refresh_selected_def)
qed (simp_all add: toggleOne_def alist_map.inv_del alist_map.inv_put alist_map.inv_empty)

interpretation endpoint_selection: row_selection endpointListItem_id selection_step
proof unfold_locales
  fix ep :: EndpointListItem and m :: "(string, EndpointListItem) js_map"
  show "js_map_get (selection_step (ToggledOne ep) m) =
      (js_map_get m)(endpointListItem_id ep := (if js_map_get m (endpointListItem_id ep) = None then Some ep else None))"
    by (simp add: toggleOne_def js_map_has_get alist_map.get_put alist_map.get_del)
next
  fix endpoints :: "EndpointListItem list" and m :: "(string, EndpointListItem) js_map" and k
  assume "endpoints \<noteq> []" and "\<forall>r \<in> set endpoints. js_map_get m (endpointListItem_id r) \<noteq> None"
  then have "allPageSelected endpoints m" by (simp add: allPageSelected_iff)
  then show "js_map_get (selection_step (ToggledAll endpoints) m) k =
      (if k \<in> endpointListItem_id ` set endpoints then None else js_map_get m k)"
    by (simp add: toggleAll_def alist_map.get_del_all pageIds_def)
next
  fix endpoints :: "EndpointListItem list" and m :: "(string, EndpointListItem) js_map" and k
  assume d: "distinct (map endpointListItem_id endpoints)"
    and "\<exists>r \<in> set endpoints. js_map_get m (endpointListItem_id r) = None"
  then have "\<not> allPageSelected endpoints m" by (auto simp: allPageSelected_iff)
  then show "js_map_get (selection_step (ToggledAll endpoints) m) k =
      (case find (\<lambda>r. endpointListItem_id r = k) endpoints of Some r \<Rightarrow> Some r | None \<Rightarrow> js_map_get m k)"
    using alist_map.get_put_all [OF d] by (simp add: toggleAll_def)
next
  fix endpoints :: "EndpointListItem list" and m :: "(string, EndpointListItem) js_map" and k
  assume d: "distinct (map endpointListItem_id endpoints)"
  show "js_map_get (selection_step (Refreshed endpoints) m) k =
      (case js_map_get m k of
         None \<Rightarrow> None
       | Some old \<Rightarrow> Some (case find (\<lambda>r. endpointListItem_id r = k) endpoints of Some r \<Rightarrow> r | None \<Rightarrow> old))"
    using get_refresh_fold [of refresh_row endpointListItem_id, OF refresh_row_get d, of m k]
    by (auto simp: refresh_selected_def js_map_get_def split: option.split)
qed (simp_all add: toggleAll_def allPageSelected_def pageIds_def js_map_empty_def js_map_get_def fun_eq_iff
      selection_step_inv)

subsection \<open>The address bar and the list request\<close>

lemma protocolFilter_absent: "params_get ps ''protocol'' = None \<Longrightarrow> protocolFilter ps = []"
  by (simp add: protocolFilter_def rawProtocol_def)

lemma clear_url_filters_get:
  "params_get (clear_url_filters ps) k = (if k = ''protocol'' \<or> k = ''cipher'' then None else params_get ps k)"
  by (auto simp: clear_url_filters_def params_get_delete)

lemma as_ProtocolFilter_any: "as_ProtocolFilter [] = Some AnyProtocol"
  by (simp add: as_ProtocolFilter_def)

text \<open>A protocol that names an inherited member passes the check and is not a protocol.\<close>

lemma inherited_protocol_accepted:
  "protocolFilter [(''protocol'', ''toString'')] = ''toString''"
  "list_query HostEndpoint (endpoint_page_init [(''protocol'', ''toString'')]) = None"
  by (simp_all add: list_query_def endpoint_page_init_def protocolFilter_def rawProtocol_def params_get_def
      obj_in_def object_prototype_members_def PROTOCOL_LABEL_def as_ProtocolFilter_def)

subsection \<open>Properties\<close>

text \<open>Switching to another endpoint type asks for the first, unfiltered page of that type and empties the
  selection; running the effect a second time (React's strict mode) changes nothing more. On a first visit the effect
  runs without touching the request, so a filter in the address survives.\<close>

lemma type_switch_starts_fresh:
  assumes "ep_prevType s = Some old" and "old \<noteq> typ"
  shows "list_query typ (type_effect typ s)
        = Some (listEndpoints 1 PAGE_SIZE [] [] [] [] (endpoint_type_filter typ) AnyProtocol [])
    \<and> ep_selected (type_effect typ s) = js_map_empty
    \<and> type_effect typ (type_effect typ s) = type_effect typ s
    \<and> list_query typ (type_effect typ (type_effect typ (endpoint_page_init ps))) = list_query typ (endpoint_page_init ps)"
proof -
  have "protocolFilter (clear_url_filters ps') = []" "cipherFilter (clear_url_filters ps') = []" for ps'
    by (simp_all add: protocolFilter_absent cipherFilter_def clear_url_filters_get)
  with assms show ?thesis
    by (auto simp: list_query_def type_effect_def as_ProtocolFilter_any endpoint_page_init_def)
qed

lemma type_switch_starts_fresh_witness:
  "list_query SamlEndpoint (type_effect SamlEndpoint
      (handleTagChange ''t1'' (type_effect HostEndpoint (endpoint_page_init [(''protocol'', ''tls10'')]))))
     = Some (listEndpoints 1 20 [] [] [] [] SamlType AnyProtocol [])"
  using type_switch_starts_fresh [of "handleTagChange ''t1'' (type_effect HostEndpoint (endpoint_page_init [(''protocol'', ''tls10'')]))"
      HostEndpoint SamlEndpoint "[]", THEN conjunct1]
  by (simp add: handleTagChange_def type_effect_def endpoint_page_init_def PAGE_SIZE_def)

text \<open>After a bulk delete that empties the last page the list keeps its page number: the footer then shows a
  range whose end is before its start, Next is disabled, and although endpoints are left the table says that there
  are none.\<close>

lemma page_left_behind_after_delete:
  assumes "0 < data_total data" and "totalPages (data_total data) < ep_page s" and "data_items data = []"
    and "ep_debouncedSearch s = []" and "ep_statusFilter s = []" and "ep_tagFilter s = []"
    and "ep_searchParams s = []"
  shows "page_footer (cfg_noun (TYPE_CONFIGS typ)) (ep_page (bulk_onDone s)) (data_total data)
        = Some (rangeStart (ep_page s) (data_total data), rangeEnd (ep_page s) (data_total data), data_total data,
                plural (data_total data) (cfg_noun (TYPE_CONFIGS typ)) None)
    \<and> rangeEnd (ep_page s) (data_total data) < rangeStart (ep_page s) (data_total data)
    \<and> nextDisabled (ep_page (bulk_onDone s)) (data_total data)
    \<and> table_body_of clock now typ admin False data (bulk_onDone s) = EmptyTable (cfg_emptyMessage (TYPE_CONFIGS typ))"
proof -
  have "protocolFilter [] = []" "cipherFilter [] = []"
    by (simp_all add: protocolFilter_absent cipherFilter_def params_get_def)
  then show ?thesis
    using assms page_beyond_end [OF assms(1,2)]
    by (simp add: bulk_onDone_def page_footer_def table_body_of_def)
qed

lemma page_left_behind_after_delete_witness:
  "page_footer ''Host Endpoint'' 2 20 = Some (21, 20, 20, ''Host Endpoints'') \<and> nextDisabled 2 20"
proof -
  let ?data = "Some \<lparr>paginatedList_items = [], paginatedList_page = 2, paginatedList_pageSize = 20,
      paginatedList_totalCount = 20\<rparr> :: EndpointList option"
  show ?thesis
    using page_left_behind_after_delete [of ?data "setPage 21 NextPage (endpoint_page_init [])" HostEndpoint 0 0 True]
    by (simp add: data_total_def data_items_def endpoint_page_init_def setPage_def bulk_onDone_def nextDisabled_def
        rangeStart_def rangeEnd_def totalPages_def ceil_div_def PAGE_SIZE_def plural_def)
qed

end
