(* ===== verification/CertificateList.thy ===== *)
theory CertificateList
  imports BulkActions ListParts Expiry
begin

section \<open>The certificate list (\<open>pages/certificates/CertificatesPage.tsx\<close>)\<close>

text \<open>
  The certificate inventory: its filters, rows and selection, and the dialog that ingests a certificate. As in
  the endpoint list, the state is a record and the answers of the server are arguments.
\<close>

subsection \<open>Filters and rows\<close>

definition at_most :: string where
  "at_most = [CHR 0xE2, CHR 0x89, CHR 0xA4]"

definition cert_STATUS_OPTIONS :: "(string \<times> string) list" where
  "cert_STATUS_OPTIONS =
     [([], ''All''), (''expired'', ''Expired''), (''critical'', ''Critical ('' @ at_most @ ''7d)''),
      (''warning'', ''Warning ('' @ at_most @ ''30d)''), (''ok'', ''OK'')]"

definition SORT_OPTIONS :: "(string \<times> string) list" where
  "SORT_OPTIONS =
     [([], ''Newest first''), (''expiry_asc'', ''Expiring soonest''), (''expiry_desc'', ''Expiring latest''),
      (''common_name'', ''Common name A'' @ [CHR 0xE2, CHR 0x86, CHR 0x92] @ ''Z'')]"

definition CertActionsMenu :: "bool \<Rightarrow> CertificateListItem \<Rightarrow> (string \<times> menu_action) list" where
  "CertActionsMenu admin cert =
     [(''View Certificate'', NavigateTo (''/certificates/'' @ certificateListItem_fingerprint cert))]
     @ (if admin then [(''Delete'', AskDelete (certificateListItem_fingerprint cert))] else [])"

definition sansDisplay :: "string list \<Rightarrow> string" where
  "sansDisplay sans =
     (if length sans = 0 then em_dash
      else join '', '' (take 3 sans) @ (if length sans > 3 then '' +'' @ show_int (int (length sans - 3)) else []))"

text \<open>What a row shows, without the date in the locale format.\<close>

record cert_view =
  certView_selected :: bool
  certView_label :: string
  certView_name :: string
  certView_link :: string
  certView_fingerprint :: string
  certView_sans :: string
  certView_pill :: badge
  certView_actions :: "(string \<times> menu_action) list"

definition CertRow :: "int \<Rightarrow> bool \<Rightarrow> bool \<Rightarrow> CertificateListItem \<Rightarrow> cert_view" where
  "CertRow now admin selected cert =
     (let cn = certificateListItem_commonName cert; fp = certificateListItem_fingerprint cert in
      \<lparr>certView_selected = selected,
       certView_label = ''Select '' @ (if cn \<noteq> [] then cn else fp),
       certView_name = (if cn \<noteq> [] then cn else em_dash),
       certView_link = ''/certificates/'' @ fp,
       certView_fingerprint = take 16 fp @ ellipsis,
       certView_sans = sansDisplay (certificateListItem_sans cert),
       certView_pill = ExpiryPill now (certificateListItem_notAfter cert),
       certView_actions = CertActionsMenu admin cert\<rparr>)"

text \<open>The card of the narrow layout lists every subject alternative name.\<close>

definition CertCard_list :: "int \<Rightarrow> bool \<Rightarrow> bool \<Rightarrow> CertificateListItem \<Rightarrow> cert_view" where
  "CertCard_list now admin selected cert =
     (CertRow now admin selected cert)
       \<lparr>certView_sans :=
          (if certificateListItem_sans cert = [] then em_dash else join '', '' (certificateListItem_sans cert))\<rparr>"

subsection \<open>Ingesting a certificate\<close>

record ingest_dialog =
  ing_pem :: string
  ing_fileName :: "string option"
  ing_loading :: bool
  ing_error :: "string option"

definition ingest_init :: ingest_dialog where
  "ingest_init = \<lparr>ing_pem = [], ing_fileName = None, ing_loading = False, ing_error = None\<rparr>"

definition ingest_reset :: "ingest_dialog \<Rightarrow> ingest_dialog" where
  "ingest_reset d = d\<lparr>ing_pem := [], ing_fileName := None, ing_error := None\<rparr>"

text \<open>Typing, choosing a file (the reader answers later), and the two answers of the reader.\<close>

definition ingest_typed :: "string \<Rightarrow> ingest_dialog \<Rightarrow> ingest_dialog" where
  "ingest_typed v d = d\<lparr>ing_pem := v, ing_fileName := None\<rparr>"

definition ingest_file :: "string option \<Rightarrow> ingest_dialog \<Rightarrow> ingest_dialog" where
  "ingest_file file d = (case file of None \<Rightarrow> d | Some name \<Rightarrow> d\<lparr>ing_fileName := Some name\<rparr>)"

definition ingest_loaded :: "string option \<Rightarrow> ingest_dialog \<Rightarrow> ingest_dialog" where
  "ingest_loaded content d = d\<lparr>ing_pem := nullish content [], ing_error := None\<rparr>"

definition ingest_failed :: "ingest_dialog \<Rightarrow> ingest_dialog" where
  "ingest_failed d = d\<lparr>ing_error := Some ''Failed to read file.''\<rparr>"

definition ingest_body :: "string \<Rightarrow> IngestCertificateRequest" where
  "ingest_body trimmed =
     (if startsWith trimmed ''-----''
      then \<lparr>ingestCertificateRequest_certificatePem = Some trimmed, ingestCertificateRequest_certificateDerBase64 = None\<rparr>
      else \<lparr>ingestCertificateRequest_certificatePem = None, ingestCertificateRequest_certificateDerBase64 = Some trimmed\<rparr>)"

definition ingest_submit :: "client \<Rightarrow> ingest_dialog \<Rightarrow> http_call list \<times> ingest_dialog" where
  "ingest_submit c d =
     (let trimmed = trim (ing_pem d) in
      if trimmed = []
      then ([], d\<lparr>ing_error := Some ''Paste a PEM / Base64 DER certificate, or browse for a file.''\<rparr>)
      else ([call_sent (createCertificate (ingest_body trimmed)) c], d\<lparr>ing_loading := True, ing_error := None\<rparr>))"

text \<open>
  The second half of \<open>handleSubmit\<close>: the state, whether \<open>onClose\<close> is called, and the address \<open>onIngested\<close>
  navigates to. After a 401 the fingerprint of \<open>undefined\<close> is read once the dialog has been closed.
\<close>

definition ingest_answered ::
  "CertificateDetail outcome \<Rightarrow> ingest_dialog \<Rightarrow> ingest_dialog \<times> bool \<times> string option" where
  "ingest_answered out d =
     (case out of
        Inr (Some created) \<Rightarrow>
          ((ingest_reset d)\<lparr>ing_loading := False\<rparr>, True,
           Some (''/certificates/'' @ certificateDetail_fingerprint created))
      | Inr None \<Rightarrow>
          ((ingest_reset d)\<lparr>ing_error := Some ''Failed to ingest certificate.'', ing_loading := False\<rparr>, True, None)
      | Inl err \<Rightarrow>
          (d\<lparr>ing_error := Some (api_message ''Failed to ingest certificate.'' err), ing_loading := False\<rparr>, False, None))"

subsection \<open>Page state\<close>

record cert_page =
  cp_page :: int
  cp_search :: string
  cp_debouncedSearch :: string
  cp_statusFilter :: string
  cp_sortOption :: string
  cp_deleteTarget :: "CertificateListItem option"
  cp_ingestOpen :: bool
  cp_selected :: "(string, CertificateListItem) js_map"
  cp_bulkDeleteOpen :: bool

definition cert_page_init :: cert_page where
  "cert_page_init =
     \<lparr>cp_page = 1, cp_search = [], cp_debouncedSearch = [], cp_statusFilter = [], cp_sortOption = [],
      cp_deleteTarget = None, cp_ingestOpen = False, cp_selected = js_map_empty, cp_bulkDeleteOpen = False\<rparr>"

definition cert_search_timer :: "cert_page \<Rightarrow> cert_page" where
  "cert_search_timer s = s\<lparr>cp_debouncedSearch := cp_search s, cp_page := 1\<rparr>"

definition cert_list_query :: "cert_page \<Rightarrow> CertificateList api_call" where
  "cert_list_query s =
     listCertificates (cp_page s) PAGE_SIZE (cp_debouncedSearch s) (cp_statusFilter s) (cp_sortOption s)"

definition cert_count_queries :: "CertificateList api_call list" where
  "cert_count_queries =
     [listCertificates 1 1 [] [] [], listCertificates 1 1 [] ''expired'' [],
      listCertificates 1 1 [] ''critical'' [], listCertificates 1 1 [] ''warning'' []]"

definition cert_handleStatusChange :: "string \<Rightarrow> cert_page \<Rightarrow> cert_page" where
  "cert_handleStatusChange v s = s\<lparr>cp_statusFilter := v, cp_page := 1\<rparr>"

definition cert_handleSortChange :: "string \<Rightarrow> cert_page \<Rightarrow> cert_page" where
  "cert_handleSortChange v s = s\<lparr>cp_sortOption := v, cp_page := 1\<rparr>"

definition cert_stat_cards ::
  "int option \<Rightarrow> int option \<Rightarrow> int option \<Rightarrow> int option \<Rightarrow> cert_page \<Rightarrow> stat_card list" where
  "cert_stat_cards totalAll totalWarn totalCrit totalExpired s =
     [\<lparr>stat_label = ''Total'', stat_value = totalAll, stat_signal = SignalNeutral,
       stat_active = (cp_statusFilter s = [])\<rparr>,
      \<lparr>stat_label = ''Expiring '' @ at_most @ ''30d'', stat_value = totalWarn,
       stat_signal = signal_of totalWarn SignalGreen SignalAmber, stat_active = (cp_statusFilter s = ''warning'')\<rparr>,
      \<lparr>stat_label = ''Critical '' @ at_most @ ''7d'', stat_value = totalCrit,
       stat_signal = signal_of totalCrit SignalGreen SignalRed, stat_active = (cp_statusFilter s = ''critical'')\<rparr>,
      \<lparr>stat_label = ''Expired'', stat_value = totalExpired,
       stat_signal = signal_of totalExpired SignalGreen SignalRed, stat_active = (cp_statusFilter s = ''expired'')\<rparr>]"

datatype cert_table = CertsLoading | NoCertsMatch | NoCerts | CertRows "cert_view list"

definition cert_table_of :: "int \<Rightarrow> bool \<Rightarrow> bool \<Rightarrow> CertificateList option \<Rightarrow> cert_page \<Rightarrow> cert_table" where
  "cert_table_of now admin isLoading data s =
     (if isLoading then CertsLoading
      else if data_items data = []
      then (if cp_debouncedSearch s \<noteq> [] \<or> cp_statusFilter s \<noteq> [] then NoCertsMatch else NoCerts)
      else CertRows
        (map (\<lambda>cert. CertRow now admin (js_map_has (cp_selected s) (certificateListItem_fingerprint cert)) cert)
          (data_items data)))"

subsection \<open>Selecting rows\<close>

definition pageFingerprints :: "CertificateListItem list \<Rightarrow> string list" where
  "pageFingerprints certs = map certificateListItem_fingerprint certs"

definition cert_allPageSelected :: "CertificateListItem list \<Rightarrow> (string, CertificateListItem) js_map \<Rightarrow> bool" where
  "cert_allPageSelected certs selected \<longleftrightarrow>
     length (pageFingerprints certs) > 0 \<and> list_all (\<lambda>fp. js_map_has selected fp) (pageFingerprints certs)"

definition cert_somePageSelected :: "CertificateListItem list \<Rightarrow> (string, CertificateListItem) js_map \<Rightarrow> bool" where
  "cert_somePageSelected certs selected \<longleftrightarrow>
     \<not> cert_allPageSelected certs selected \<and> list_ex (\<lambda>fp. js_map_has selected fp) (pageFingerprints certs)"

definition cert_refresh ::
  "CertificateListItem list \<Rightarrow> (string, CertificateListItem) js_map \<Rightarrow> (string, CertificateListItem) js_map" where
  "cert_refresh certs selected =
     (if length selected = 0 \<or> length certs = 0 then selected
      else fold (\<lambda>cert next.
                  if js_map_has next (certificateListItem_fingerprint cert)
                  then js_map_set (certificateListItem_fingerprint cert) cert next else next) certs selected)"

definition cert_toggleOne ::
  "CertificateListItem \<Rightarrow> (string, CertificateListItem) js_map \<Rightarrow> (string, CertificateListItem) js_map" where
  "cert_toggleOne cert prev =
     (if js_map_has prev (certificateListItem_fingerprint cert)
      then js_map_delete (certificateListItem_fingerprint cert) prev
      else js_map_set (certificateListItem_fingerprint cert) cert prev)"

definition cert_toggleAll ::
  "CertificateListItem list \<Rightarrow> (string, CertificateListItem) js_map \<Rightarrow> (string, CertificateListItem) js_map" where
  "cert_toggleAll certs prev =
     (if cert_allPageSelected certs prev
      then fold (\<lambda>c. js_map_delete (certificateListItem_fingerprint c)) certs prev
      else fold (\<lambda>c. js_map_set (certificateListItem_fingerprint c) c) certs prev)"

fun cert_selection_step ::
  "CertificateListItem selection_event \<Rightarrow> (string, CertificateListItem) js_map \<Rightarrow> (string, CertificateListItem) js_map" where
  "cert_selection_step (ToggledOne cert) m = cert_toggleOne cert m"
| "cert_selection_step (ToggledAll certs) m = cert_toggleAll certs m"
| "cert_selection_step (Refreshed certs) m = cert_refresh certs m"
| "cert_selection_step Cleared m = js_map_empty"

definition selectedCerts :: "(string, CertificateListItem) js_map \<Rightarrow> CertificateListItem list" where
  "selectedCerts selected = js_map_values selected"

subsection \<open>The selection keeps its contract\<close>

lemma cert_allPageSelected_iff:
  "cert_allPageSelected certs m \<longleftrightarrow>
     certs \<noteq> [] \<and> (\<forall>c \<in> set certs. js_map_get m (certificateListItem_fingerprint c) \<noteq> None)"
  by (auto simp: cert_allPageSelected_def pageFingerprints_def list_all_iff js_map_has_get)

lemma fold_delete_map:
  "fold (\<lambda>c. js_map_delete (certificateListItem_fingerprint c)) certs m =
     fold js_map_delete (map certificateListItem_fingerprint certs) m"
  by (simp add: fold_map o_def)

lemma cert_selection_step_inv: "js_map_inv m \<Longrightarrow> js_map_inv (cert_selection_step ev m)"
proof (cases ev)
  case (ToggledAll certs)
  assume "js_map_inv m"
  then show ?thesis
    unfolding ToggledAll cert_selection_step.simps cert_toggleAll_def fold_delete_map
    by (simp add: alist_map.inv_del_all alist_map.inv_put_all)
next
  case (Refreshed certs)
  assume "js_map_inv m"
  then have "js_map_inv (fold (\<lambda>cert next. if js_map_has next (certificateListItem_fingerprint cert)
      then js_map_set (certificateListItem_fingerprint cert) cert next else next) certs m)"
    by (induction certs arbitrary: m) (simp_all add: alist_map.inv_put)
  with \<open>js_map_inv m\<close> show ?thesis unfolding Refreshed by (simp add: cert_refresh_def)
qed (simp_all add: cert_toggleOne_def alist_map.inv_del alist_map.inv_put alist_map.inv_empty)

interpretation cert_selection: row_selection certificateListItem_fingerprint cert_selection_step
proof unfold_locales
  fix cert :: CertificateListItem and m :: "(string, CertificateListItem) js_map"
  show "js_map_get (cert_selection_step (ToggledOne cert) m) =
      (js_map_get m)(certificateListItem_fingerprint cert :=
        (if js_map_get m (certificateListItem_fingerprint cert) = None then Some cert else None))"
    by (simp add: cert_toggleOne_def js_map_has_get alist_map.get_put alist_map.get_del)
next
  fix certs :: "CertificateListItem list" and m :: "(string, CertificateListItem) js_map" and k
  assume "certs \<noteq> []" and "\<forall>r \<in> set certs. js_map_get m (certificateListItem_fingerprint r) \<noteq> None"
  then have "cert_allPageSelected certs m" by (simp add: cert_allPageSelected_iff)
  then show "js_map_get (cert_selection_step (ToggledAll certs) m) k =
      (if k \<in> certificateListItem_fingerprint ` set certs then None else js_map_get m k)"
    by (simp add: cert_toggleAll_def fold_delete_map alist_map.get_del_all)
next
  fix certs :: "CertificateListItem list" and m :: "(string, CertificateListItem) js_map" and k
  assume d: "distinct (map certificateListItem_fingerprint certs)"
    and "\<exists>r \<in> set certs. js_map_get m (certificateListItem_fingerprint r) = None"
  then have "\<not> cert_allPageSelected certs m" by (auto simp: cert_allPageSelected_iff)
  then show "js_map_get (cert_selection_step (ToggledAll certs) m) k =
      (case find (\<lambda>r. certificateListItem_fingerprint r = k) certs of Some r \<Rightarrow> Some r | None \<Rightarrow> js_map_get m k)"
    using alist_map.get_put_all [OF d] by (simp add: cert_toggleAll_def)
next
  fix certs :: "CertificateListItem list" and m :: "(string, CertificateListItem) js_map" and k
  assume d: "distinct (map certificateListItem_fingerprint certs)"
  let ?f = "\<lambda>cert next. if js_map_has next (certificateListItem_fingerprint cert)
      then js_map_set (certificateListItem_fingerprint cert) cert next else next"
  have upd: "js_map_get (?f cert m) = (if js_map_get m (certificateListItem_fingerprint cert) = None then js_map_get m
      else (js_map_get m)(certificateListItem_fingerprint cert \<mapsto> cert))" for cert and m
    by (simp add: js_map_has_get alist_map.get_put)
  show "js_map_get (cert_selection_step (Refreshed certs) m) k =
      (case js_map_get m k of
         None \<Rightarrow> None
       | Some old \<Rightarrow> Some (case find (\<lambda>r. certificateListItem_fingerprint r = k) certs of Some r \<Rightarrow> r | None \<Rightarrow> old))"
    using get_refresh_fold [of ?f certificateListItem_fingerprint, OF upd d, of m k]
    by (auto simp: cert_refresh_def js_map_get_def split: option.split)
qed (simp_all add: cert_toggleAll_def cert_allPageSelected_def pageFingerprints_def js_map_empty_def js_map_get_def
      fun_eq_iff cert_selection_step_inv)

end
