(* ===== verification/CsrGenerator.thy ===== *)
theory CsrGenerator
  imports JsNumbers
begin

section \<open>Generating a signing request (\<open>pages/toolbox/CsrGeneratorPage.tsx\<close>)\<close>

text \<open>
  Validation of names, the subject and the alternative names of the request, and the page around them. Key
  generation, signing and PEM encoding belong to the browser and to \<open>@peculiar/x509\<close>: what the code asks them for is
  the record \<open>csr_input\<close>, and they are the parameter \<open>produce\<close> of \<open>generateCSR\<close>. A regular expression is the
  predicate on strings it tests.
\<close>

subsection \<open>Key algorithms\<close>

datatype KeyAlgo = Rsa2048 | Rsa4096 | EcP256 | EcP384

fun KEY_ALGO_LABEL :: "KeyAlgo \<Rightarrow> string" where
  "KEY_ALGO_LABEL Rsa2048 = ''RSA 2048-bit''"
| "KEY_ALGO_LABEL Rsa4096 = ''RSA 4096-bit''"
| "KEY_ALGO_LABEL EcP256 = ''ECDSA P-256''"
| "KEY_ALGO_LABEL EcP384 = ''ECDSA P-384''"

datatype key_gen = RsaKeyGen string nat "nat list" string | EcKeyGen string string

record signing_params =
  signing_name :: string
  signing_hash :: "string option"

fun getAlgoParams :: "KeyAlgo \<Rightarrow> key_gen \<times> signing_params" where
  "getAlgoParams Rsa2048 =
     (RsaKeyGen ''RSASSA-PKCS1-v1_5'' 2048 [1, 0, 1] ''SHA-256'',
      \<lparr>signing_name = ''RSASSA-PKCS1-v1_5'', signing_hash = None\<rparr>)"
| "getAlgoParams Rsa4096 =
     (RsaKeyGen ''RSASSA-PKCS1-v1_5'' 4096 [1, 0, 1] ''SHA-256'',
      \<lparr>signing_name = ''RSASSA-PKCS1-v1_5'', signing_hash = None\<rparr>)"
| "getAlgoParams EcP256 =
     (EcKeyGen ''ECDSA'' ''P-256'', \<lparr>signing_name = ''ECDSA'', signing_hash = Some ''SHA-256''\<rparr>)"
| "getAlgoParams EcP384 =
     (EcKeyGen ''ECDSA'' ''P-384'', \<lparr>signing_name = ''ECDSA'', signing_hash = Some ''SHA-384''\<rparr>)"

subsection \<open>Validation\<close>

text \<open>\<open>/^[a-zA-Z0-9]([a-zA-Z0-9-]*[a-zA-Z0-9])?$/\<close>: the first and the last character are no hyphen.\<close>

definition HOSTNAME_LABEL :: "string \<Rightarrow> bool" where
  "HOSTNAME_LABEL label \<longleftrightarrow>
     label \<noteq> [] \<and> is_alnum (hd label) \<and> is_alnum (last label)
     \<and> list_all (\<lambda>c. is_alnum c \<or> c = CHR ''-'') label"

text \<open>The loop over the labels, started at index \<open>i\<close>.\<close>

fun labels_ok :: "bool \<Rightarrow> nat \<Rightarrow> string list \<Rightarrow> bool" where
  "labels_ok allowWildcard i [] \<longleftrightarrow> True"
| "labels_ok allowWildcard i (label # labels) \<longleftrightarrow>
     (if label = [] \<or> length label > 63 then False
      else if allowWildcard \<and> i = 0 \<and> label = ''*'' then labels_ok allowWildcard (i + 1) labels
      else if \<not> HOSTNAME_LABEL label then False
      else labels_ok allowWildcard (i + 1) labels)"

definition isValidHostname :: "string \<Rightarrow> bool \<Rightarrow> bool" where
  "isValidHostname s allowWildcard \<longleftrightarrow>
     (if s = [] \<or> length s > 253 then False else labels_ok allowWildcard 0 (split_char (CHR ''.'') s))"

definition isValidIPv4 :: "string \<Rightarrow> bool" where
  "isValidIPv4 s \<longleftrightarrow>
     (let groups = split_char (CHR ''.'') s in
      length groups = 4
      \<and> list_all (\<lambda>g. 1 \<le> length g \<and> length g \<le> 3 \<and> list_all is_digit g) groups
      \<and> list_all (\<lambda>g. case parseInt (Some 10) g of Some n \<Rightarrow> n \<le> 255 | None \<Rightarrow> False) groups)"

definition is_hex :: "char \<Rightarrow> bool" where
  "is_hex c \<longleftrightarrow> digit_val 16 c \<noteq> None"

text \<open>\<open>(s.match(/::/g) || []).length\<close>: matches do not overlap.\<close>

fun double_colons :: "string \<Rightarrow> nat" where
  "double_colons (x # y # zs) =
     (if x = CHR '':'' \<and> y = CHR '':'' then 1 + double_colons zs else double_colons (y # zs))"
| "double_colons _ = 0"

definition isValidIPv6 :: "string \<Rightarrow> bool" where
  "isValidIPv6 s \<longleftrightarrow>
     (if \<not> js_includes s '':'' \<or> \<not> (s \<noteq> [] \<and> list_all (\<lambda>c. is_hex c \<or> c = CHR '':'') s) then False
      else if double_colons s > 1 then False
      else
        (let groups = split_char (CHR '':'') s in
         if length groups > 8 then False
         else list_all (\<lambda>g. g = [] \<or> length g \<le> 4 \<and> list_all is_hex g) groups))"

definition isValidIP :: "string \<Rightarrow> bool" where
  "isValidIP s \<longleftrightarrow> isValidIPv4 s \<or> isValidIPv6 s"

text \<open>\<open>/^[^\s@]+@[^\s@]+\.[^\s@]+$/\<close>: one at sign, and a dot inside what follows it.\<close>

definition isValidEmail :: "string \<Rightarrow> bool" where
  "isValidEmail s \<longleftrightarrow>
     list_all (\<lambda>c. \<not> is_ws c) s
     \<and> (case split_char (CHR ''@'') s of
          [user, domain] \<Rightarrow> user \<noteq> [] \<and> list_ex (\<lambda>i. domain ! i = CHR ''.'') [1..<length domain - 1]
        | _ \<Rightarrow> False)"

datatype SANType = DnsSAN | IpSAN | EmailSAN

definition classifySAN :: "string \<Rightarrow> SANType option" where
  "classifySAN value =
     (let v = trim value in
      if v = [] then None
      else if isValidIP v then Some IpSAN
      else if js_includes v ''@'' then (if isValidEmail v then Some EmailSAN else None)
      else if isValidHostname v True then Some DnsSAN
      else None)"

definition validateCN :: "string \<Rightarrow> string option" where
  "validateCN value =
     (let v = trim value in
      if v = [] then None
      else if isValidIP v then None
      else if isValidHostname v True then None
      else Some ''Must be a hostname (example.com), wildcard (*.example.com), or IP address.'')"

subsection \<open>Generation\<close>

record csr_fields =
  f_cn :: string
  f_o :: string
  f_ou :: string
  f_c :: string
  f_st :: string
  f_l :: string
  f_email :: string

text \<open>The parts of the subject, in the order they are pushed.\<close>

definition subject_fields :: "csr_fields \<Rightarrow> (string \<times> string) list" where
  "subject_fields f =
     filter (\<lambda>(_, v). v \<noteq> [])
       [(''CN'', f_cn f), (''O'', f_o f), (''OU'', f_ou f), (''L'', f_l f), (''ST'', f_st f), (''C'', f_c f),
        (''E'', f_email f)]"

definition nameStr :: "csr_fields \<Rightarrow> string" where
  "nameStr f = join '', '' (map (\<lambda>(k, v). k @ ''='' @ v) (subject_fields f))"

definition sanEntries :: "string list \<Rightarrow> (SANType \<times> string) list" where
  "sanEntries sans =
     map (\<lambda>(t, v). (the t, v))
       (filter (\<lambda>(t, _). t \<noteq> None)
         (map (\<lambda>v. (classifySAN v, v)) (filter (\<lambda>v. v \<noteq> []) (map trim sans))))"

record csr_input =
  in_name :: string
  in_sans :: "(SANType \<times> string) list option"
  in_keyGen :: key_gen
  in_signing :: signing_params

record GenerateResult =
  csrPem :: string
  privateKeyPem :: string

definition csr_input_of :: "csr_fields \<Rightarrow> string list \<Rightarrow> KeyAlgo \<Rightarrow> csr_input" where
  "csr_input_of f sans algo =
     (let entries = sanEntries sans in
      \<lparr>in_name = nameStr f, in_sans = (if length entries > 0 then Some entries else None),
       in_keyGen = fst (getAlgoParams algo), in_signing = snd (getAlgoParams algo)\<rparr>)"

definition generateCSR ::
  "(csr_input \<Rightarrow> string + GenerateResult) \<Rightarrow> csr_fields \<Rightarrow> string list \<Rightarrow> KeyAlgo \<Rightarrow> string + GenerateResult" where
  "generateCSR produce f sans algo = produce (csr_input_of f sans algo)"

subsection \<open>The page\<close>

record csr_page =
  csr_fields_of :: csr_fields
  csr_sans :: "string list"
  csr_algo :: KeyAlgo
  csr_result :: "GenerateResult option"
  csr_error :: "string option"
  csr_loading :: bool

definition csr_page_init :: csr_page where
  "csr_page_init =
     \<lparr>csr_fields_of = \<lparr>f_cn = [], f_o = [], f_ou = [], f_c = [], f_st = [], f_l = [], f_email = []\<rparr>,
      csr_sans = [[]], csr_algo = Rsa2048, csr_result = None, csr_error = None, csr_loading = False\<rparr>"

definition addSan :: "csr_page \<Rightarrow> csr_page" where
  "addSan p = p\<lparr>csr_sans := csr_sans p @ [[]]\<rparr>"

text \<open>The button of a row is disabled while it is the only one.\<close>

definition removeSan :: "nat \<Rightarrow> csr_page \<Rightarrow> csr_page" where
  "removeSan i p = p\<lparr>csr_sans := take i (csr_sans p) @ drop (Suc i) (csr_sans p)\<rparr>"

definition removeSan_disabled :: "csr_page \<Rightarrow> bool" where
  "removeSan_disabled p \<longleftrightarrow> length (csr_sans p) = 1"

definition updateSan :: "nat \<Rightarrow> string \<Rightarrow> csr_page \<Rightarrow> csr_page" where
  "updateSan i val p = p\<lparr>csr_sans := (csr_sans p)[i := val]\<rparr>"

definition setC :: "string \<Rightarrow> csr_page \<Rightarrow> csr_page" where
  "setC v p = p\<lparr>csr_fields_of := (csr_fields_of p)\<lparr>f_c := toUpperCase v\<rparr>\<rparr>"

definition csr_start :: "csr_page \<Rightarrow> csr_page" where
  "csr_start p = p\<lparr>csr_error := None, csr_result := None, csr_loading := True\<rparr>"

definition csr_finish :: "string + GenerateResult \<Rightarrow> csr_page \<Rightarrow> csr_page" where
  "csr_finish out p =
     (case out of
        Inr res \<Rightarrow> p\<lparr>csr_result := Some res, csr_loading := False\<rparr>
      | Inl m \<Rightarrow> p\<lparr>csr_error := Some m, csr_loading := False\<rparr>)"

definition handleGenerate :: "(csr_input \<Rightarrow> string + GenerateResult) \<Rightarrow> csr_page \<Rightarrow> csr_page" where
  "handleGenerate produce p =
     csr_finish (generateCSR produce (csr_fields_of p) (csr_sans p) (csr_algo p)) (csr_start p)"

definition csr_handleReset :: "csr_page \<Rightarrow> csr_page" where
  "csr_handleReset p = p\<lparr>csr_result := None, csr_error := None\<rparr>"

definition cnError :: "csr_page \<Rightarrow> string option" where
  "cnError p = validateCN (f_cn (csr_fields_of p))"

definition san_message :: string where
  "san_message = ''Must be a hostname, IP address, or email '' @ em_dash @ '' no URLs or special characters.''"

definition sanErrors :: "csr_page \<Rightarrow> string option list" where
  "sanErrors p =
     map (\<lambda>s. let v = trim s in
            if v = [] then None
            else if classifySAN v = None
            then Some san_message
            else None) (csr_sans p)"

definition canGenerate :: "csr_page \<Rightarrow> bool" where
  "canGenerate p \<longleftrightarrow>
     length (trim (f_cn (csr_fields_of p))) > 0 \<and> \<not> truthy (cnError p)
     \<and> list_all (\<lambda>e. \<not> truthy e) (sanErrors p)"

definition generate_disabled :: "csr_page \<Rightarrow> bool" where
  "generate_disabled p \<longleftrightarrow> \<not> canGenerate p \<or> csr_loading p"

subsection \<open>Host names as RFC 1035 has them\<close>

definition rfc_label :: "string \<Rightarrow> bool" where
  "rfc_label l \<longleftrightarrow>
     1 \<le> length l \<and> length l \<le> 63 \<and> hd l \<noteq> CHR ''-'' \<and> last l \<noteq> CHR ''-''
     \<and> (\<forall>c \<in> set l. is_alnum c \<or> c = CHR ''-'')"

lemma dash_not_alnum: "\<not> is_alnum (CHR ''-'')" "\<not> is_alnum (CHR ''.'')" "\<not> is_alnum (CHR ''*'')"
  by code_simp+

lemma label_ok_iff: "label \<noteq> [] \<and> length label \<le> 63 \<and> HOSTNAME_LABEL label \<longleftrightarrow> rfc_label label"
proof (cases "label = []")
  case False
  have "is_alnum c \<longleftrightarrow> c \<noteq> CHR ''-''" if "\<forall>c \<in> set label. is_alnum c \<or> c = CHR ''-''" "c \<in> set label" for c
    using that dash_not_alnum(1) by blast
  with False dash_not_alnum(1) show ?thesis
    by (auto simp: HOSTNAME_LABEL_def rfc_label_def list_all_iff Suc_le_eq)
qed (simp add: rfc_label_def)

lemma labels_ok_Suc: "labels_ok w (Suc i) labels \<longleftrightarrow> (\<forall>l \<in> set labels. rfc_label l)"
  by (induction labels arbitrary: i) (auto simp: label_ok_iff [symmetric])

lemma labels_ok_iff:
  "labels_ok w 0 (l # labels) \<longleftrightarrow> (rfc_label l \<or> w \<and> l = ''*'') \<and> (\<forall>l \<in> set labels. rfc_label l)"
  by (auto simp: labels_ok_Suc label_ok_iff [symmetric])

lemma rfc_label_no_dot: "rfc_label l \<Longrightarrow> CHR ''.'' \<notin> set l"
  using dash_not_alnum(2) by (auto simp: rfc_label_def)

lemma isValidHostname_iff:
  "isValidHostname s w \<longleftrightarrow>
     length s \<le> 253 \<and> (\<exists>l labels. s = join ''.'' (l # labels) \<and> (rfc_label l \<or> w \<and> l = ''*'')
       \<and> (\<forall>l \<in> set labels. rfc_label l))"
  (is "?lhs \<longleftrightarrow> _ \<and> ?ex")
proof -
  obtain l labels where split: "split_char (CHR ''.'') s = l # labels"
    by (cases "split_char (CHR ''.'') s") simp_all
  have s: "s = join ''.'' (l # labels)" using join_split_char [of "CHR ''.''" s] split by simp
  have ex: "?ex \<longleftrightarrow> (rfc_label l \<or> w \<and> l = ''*'') \<and> (\<forall>l \<in> set labels. rfc_label l)"
  proof
    assume ?ex
    then obtain m ms where m: "s = join ''.'' (m # ms)" "rfc_label m \<or> w \<and> m = ''*''"
      "\<forall>l \<in> set ms. rfc_label l" by blast
    then have "\<forall>x \<in> set (m # ms). CHR ''.'' \<notin> set x" using rfc_label_no_dot by auto
    then have "split_char (CHR ''.'') s = m # ms" using m(1) split_char_join [of "m # ms"] by simp
    with split m show "(rfc_label l \<or> w \<and> l = ''*'') \<and> (\<forall>l \<in> set labels. rfc_label l)" by simp
  qed (use s in blast)
  have "s = [] \<Longrightarrow> \<not> ?ex" using ex split by (auto simp: rfc_label_def)
  then show ?thesis
    by (cases "s = []") (simp_all add: isValidHostname_def split labels_ok_iff ex not_less del: labels_ok.simps)
qed

text \<open>Texts the validation lets through although they name nothing: too few groups, or a bare wildcard.\<close>

lemma loose_names_accepted:
  "validateCN '':'' = None" "validateCN ''1:2'' = None" "validateCN ''*'' = None" "validateCN ''999.1.1.1'' = None"
  by code_simp+

subsection \<open>Reading the subject back\<close>

definition read_part :: "string \<Rightarrow> string \<times> string" where
  "read_part p =
     (let q = dropWhile (\<lambda>c. c = CHR '' '') p in
      (takeWhile (\<lambda>c. c \<noteq> CHR ''='') q, drop 1 (dropWhile (\<lambda>c. c \<noteq> CHR ''='') q)))"

definition read_subject :: "string \<Rightarrow> (string \<times> string) list" where
  "read_subject s = map read_part (split_char (CHR '','') s)"

lemma split_comma_join:
  assumes "\<forall>w \<in> set (v # ws). CHR '','' \<notin> set w"
  shows "split_char (CHR '','') (join '', '' (v # ws)) = v # map ((#) (CHR '' '')) ws"
  using assms
proof (induction ws arbitrary: v)
  case (Cons u us)
  have "split_char (CHR '','') (CHR '' '' # join '', '' (u # us)) =
      (CHR '' '' # u) # map ((#) (CHR '' '')) us"
    using Cons by simp
  moreover have "join '', '' (v # u # us) = v @ CHR '','' # CHR '' '' # join '', '' (u # us)" by simp
  moreover have "CHR '','' \<notin> set v" using Cons.prems by simp
  ultimately show ?case by (simp only: split_char_append list.map simp_thms)
qed (simp add: split_char_free)

lemma read_part_field:
  assumes "k \<noteq> []" and "hd k \<noteq> CHR '' ''" and "CHR ''='' \<notin> set k"
  shows "read_part (k @ ''='' @ v) = (k, v)" "read_part (CHR '' '' # k @ ''='' @ v) = (k, v)"
proof -
  obtain c cs where k: "k = c # cs" "c \<noteq> CHR '' ''" using assms(1,2) by (cases k) auto
  have "takeWhile (\<lambda>c. c \<noteq> CHR ''='') (k @ ''='' @ v) = k" "dropWhile (\<lambda>c. c \<noteq> CHR ''='') (k @ ''='' @ v) = ''='' @ v"
    using assms(3) by (auto simp: takeWhile_append dropWhile_append)
  then show "read_part (k @ ''='' @ v) = (k, v)" "read_part (CHR '' '' # k @ ''='' @ v) = (k, v)"
    using k(2) unfolding k(1) by (simp_all add: read_part_def)
qed

lemma subject_field_keys:
  "(k, v) \<in> set (subject_fields f) \<Longrightarrow> k \<noteq> [] \<and> hd k \<noteq> CHR '' '' \<and> CHR ''='' \<notin> set k \<and> CHR '','' \<notin> set k"
  unfolding subject_fields_def set_filter by auto

lemma read_nameStr:
  assumes "subject_fields f \<noteq> []" and "\<forall>(k, v) \<in> set (subject_fields f). CHR '','' \<notin> set v"
  shows "read_subject (nameStr f) = subject_fields f"
proof -
  obtain k v rest where fs: "subject_fields f = (k, v) # rest" using assms(1) by (cases "subject_fields f") auto
  let ?part = "\<lambda>(k, v). k @ ''='' @ v"
  have keys: "k' \<noteq> []" "hd k' \<noteq> CHR '' ''" "CHR ''='' \<notin> set k'" "CHR '','' \<notin> set k'"
    if "(k', v') \<in> set ((k, v) # rest)" for k' v'
    using subject_field_keys [of k' v' f] that fs by auto
  have "\<forall>w \<in> set (map ?part ((k, v) # rest)). CHR '','' \<notin> set w"
    using keys(4) assms(2) unfolding fs by fastforce
  then have "split_char (CHR '','') (nameStr f) = ?part (k, v) # map ((#) (CHR '' '')) (map ?part rest)"
    unfolding nameStr_def fs list.map by (intro split_comma_join) simp
  moreover have "read_part (k @ ''='' @ v) = (k, v)" using keys [of k v] by (intro read_part_field) auto
  moreover have "read_part (CHR '' '' # ?part kv) = kv" if "kv \<in> set rest" for kv
    using keys [of "fst kv" "snd kv"] that read_part_field(2) [of "fst kv" "snd kv"] by (cases kv) simp
  then have "map read_part (map ((#) (CHR '' '')) (map ?part rest)) = rest" by (simp add: map_idI)
  ultimately show ?thesis by (simp add: read_subject_def fs)
qed

subsection \<open>Alternative names\<close>

lemma sanErrors_ok:
  "list_all (\<lambda>e. \<not> truthy e) (sanErrors p) \<longleftrightarrow>
     (\<forall>s \<in> set (csr_sans p). trim s = [] \<or> classifySAN (trim s) \<noteq> None)"
proof -
  have "san_message \<noteq> []" by (simp add: san_message_def)
  then show ?thesis unfolding sanErrors_def list.pred_map list_all_iff by (auto simp: Let_def truthy_def)
qed

lemma sanEntries_complete:
  assumes "\<forall>s \<in> set sans. trim s = [] \<or> classifySAN (trim s) \<noteq> None"
  shows "map snd (sanEntries sans) = filter (\<lambda>v. v \<noteq> []) (map trim sans)"
  using assms by (induction sans) (auto simp: sanEntries_def)

lemma sanEntries_classified: "(t, v) \<in> set (sanEntries sans) \<Longrightarrow> classifySAN v = Some t \<and> trim v = v"
  unfolding sanEntries_def by (force simp: image_iff)

lemma classifySAN_sound:
  assumes "classifySAN v = Some t" and "trim v = v"
  shows "t = IpSAN \<and> isValidIP v \<or> t = EmailSAN \<and> isValidEmail v \<or> t = DnsSAN \<and> isValidHostname v True"
  using assms by (auto simp: classifySAN_def Let_def split: if_splits)

subsection \<open>Properties\<close>



text \<open>When the generate button is enabled, the request asks for exactly the alternative names that were entered,
  in order and without surrounding blanks, and each under a type it is valid for: nothing the user typed is
  silently dropped.\<close>

lemma generated_sans_are_entered_sans:
  assumes "\<not> generate_disabled p" and "(t, v) \<in> set (sanEntries (csr_sans p))"
  shows "map snd (sanEntries (csr_sans p)) = filter (\<lambda>v. v \<noteq> []) (map trim (csr_sans p))
    \<and> in_sans (csr_input_of (csr_fields_of p) (csr_sans p) (csr_algo p)) = Some (sanEntries (csr_sans p))
    \<and> (t = IpSAN \<and> isValidIP v \<or> t = EmailSAN \<and> isValidEmail v \<or> t = DnsSAN \<and> isValidHostname v True)"
proof -
  have "map snd (sanEntries (csr_sans p)) = filter (\<lambda>v. v \<noteq> []) (map trim (csr_sans p))"
    using assms(1) by (intro sanEntries_complete) (simp add: generate_disabled_def canGenerate_def sanErrors_ok)
  moreover have "length (sanEntries (csr_sans p)) > 0" using assms(2) by (cases "sanEntries (csr_sans p)") auto
  moreover have "t = IpSAN \<and> isValidIP v \<or> t = EmailSAN \<and> isValidEmail v \<or> t = DnsSAN \<and> isValidHostname v True"
    using sanEntries_classified [OF assms(2)] classifySAN_sound by blast
  ultimately show ?thesis by (simp add: csr_input_of_def)
qed

definition example_csr :: csr_page where
  "example_csr = updateSan 0 '' www.example.com '' (csr_page_init\<lparr>csr_fields_of :=
     \<lparr>f_cn = ''example.com'', f_o = ''Acme'', f_ou = [], f_c = ''US'', f_st = [], f_l = [], f_email = []\<rparr>\<rparr>)"

lemma generated_sans_are_entered_sans_witness:
  "in_sans (csr_input_of (csr_fields_of example_csr) (csr_sans example_csr) (csr_algo example_csr))
     = Some [(DnsSAN, ''www.example.com'')]"
proof -
  have enabled: "\<not> generate_disabled example_csr" by code_simp
  have entries: "sanEntries (csr_sans example_csr) = [(DnsSAN, ''www.example.com'')]" by code_simp
  show ?thesis
    using generated_sans_are_entered_sans [OF enabled, of DnsSAN "''www.example.com''"] by (simp add: entries)
qed

text \<open>As long as no field contains a comma, the subject of the request determines every field; a comma in
  one field makes it read as another field.\<close>

lemma subject_determined_without_commas:
  assumes "f_cn f \<noteq> []" and "\<forall>(k, v) \<in> set (subject_fields f). CHR '','' \<notin> set v"
  shows "read_subject (nameStr f) = subject_fields f
    \<and> nameStr (f\<lparr>f_o := ''Acme, OU=Ops'', f_ou := []\<rparr>) = nameStr (f\<lparr>f_o := ''Acme'', f_ou := ''Ops''\<rparr>)"
proof -
  have "subject_fields f \<noteq> []" using assms(1) by (simp add: subject_fields_def)
  then have "read_subject (nameStr f) = subject_fields f" using assms(2) by (rule read_nameStr)
  moreover have "nameStr (f\<lparr>f_o := ''Acme, OU=Ops'', f_ou := []\<rparr>) = nameStr (f\<lparr>f_o := ''Acme'', f_ou := ''Ops''\<rparr>)"
    by (simp add: nameStr_def subject_fields_def)
  ultimately show ?thesis by blast
qed

lemma subject_determined_without_commas_witness:
  "read_subject (nameStr (csr_fields_of example_csr)) = [(''CN'', ''example.com''), (''O'', ''Acme''), (''C'', ''US'')]"
proof -
  have fields_eq: "subject_fields (csr_fields_of example_csr) = [(''CN'', ''example.com''), (''O'', ''Acme''), (''C'', ''US'')]"
    by code_simp
  have cn: "f_cn (csr_fields_of example_csr) \<noteq> []" by code_simp
  have "\<forall>(k, v) \<in> set (subject_fields (csr_fields_of example_csr)). CHR '','' \<notin> set v" by (simp add: fields_eq)
  then show ?thesis using subject_determined_without_commas [OF cn, THEN conjunct1] by (simp only: fields_eq)
qed

end
