(* ===== verification/CertUtils.thy ===== *)
theory CertUtils
  imports JsDates JsCollections
begin

section \<open>Decoding a certificate (\<open>lib/cert-utils.ts\<close>)\<close>

text \<open>
  Parsing X.509 is the work of the package \<open>@peculiar/x509\<close>. What the source reads of a parsed certificate is the record
  \<open>x509_cert\<close>; the parser itself, and the numbers of the key usage flags, are parameters of the definitions that use
  them. Dates are epoch milliseconds, buffers lists of bytes.
\<close>

subsection \<open>What the parser delivers\<close>

record algorithm =
  alg_name :: string
  alg_modulusLength :: "int option"
  alg_hash :: "string option"
  alg_namedCurve :: "string option"

record x509_cert =
  x_subject :: string
  x_issuer :: string
  x_subjectField :: "string \<Rightarrow> string list"
  x_issuerField :: "string \<Rightarrow> string list"
  x_notBefore :: int
  x_notAfter :: int
  x_serialNumber :: string
  x_signatureAlgorithm :: string
  x_publicKey :: algorithm
  x_thumbprint :: "nat list"
  x_thumbprint256 :: "nat list"
  x_sans :: "(string \<times> string) list option"
  x_keyUsages :: "int option"
  x_extendedKeyUsages :: "string list option"
  x_basicConstraints :: "(bool \<times> int option) option"
  x_subjectKeyId :: "string option"
  x_authorityKeyId :: "string option"
  x_authorityInfo :: "(string list \<times> string list) option"
  x_crl :: "string option list option list option"

datatype KeyUsage =
    DigitalSignature | NonRepudiation | KeyEncipherment | DataEncipherment | KeyAgreement
  | KeyCertSign | CRLSign | EncipherOnly | DecipherOnly

subsection \<open>Constants\<close>

record DecodedCert =
  dec_subject :: "(string \<times> string list) list"
  dec_issuer :: "(string \<times> string list) list"
  dec_subjectString :: string
  dec_issuerString :: string
  dec_notBefore :: int
  dec_notAfter :: int
  dec_isExpired :: bool
  dec_daysRemaining :: int
  dec_serialNumber :: string
  dec_signatureAlgorithm :: string
  dec_publicKeyInfo :: string
  dec_sha1 :: string
  dec_sha256 :: string
  dec_sans :: "(string \<times> string) list"
  dec_keyUsages :: "string list"
  dec_extendedKeyUsages :: "string property list"
  dec_isCA :: bool
  dec_pathLength :: "int option"
  dec_subjectKeyId :: "string option"
  dec_authorityKeyId :: "string option"
  dec_ocspUrls :: "string list"
  dec_caIssuerUrls :: "string list"
  dec_crlUrls :: "string list"
  dec_isSelfSigned :: bool

definition DN_FIELDS :: "string list" where
  "DN_FIELDS =
     [''CN'', ''O'', ''OU'', ''C'', ''ST'', ''L'', ''E'', ''emailAddress'', ''DC'', ''SERIALNUMBER'', ''UID'']"

definition DN_LABELS :: "string js_object" where
  "DN_LABELS =
     [(''CN'', ''Common Name''), (''O'', ''Organization''), (''OU'', ''Organizational Unit''), (''C'', ''Country''),
      (''ST'', ''State / Province''), (''L'', ''Locality''), (''E'', ''Email''), (''E-mail'', ''Email''),
      (''emailAddress'', ''Email''), (''DC'', ''Domain Component''), (''SERIALNUMBER'', ''Serial Number''),
      (''UID'', ''User ID'')]"

definition KEY_USAGE_LABELS :: "(KeyUsage \<times> string) list" where
  "KEY_USAGE_LABELS =
     [(DigitalSignature, ''Digital Signature''), (NonRepudiation, ''Non-Repudiation''),
      (KeyEncipherment, ''Key Encipherment''), (DataEncipherment, ''Data Encipherment''),
      (KeyAgreement, ''Key Agreement''), (KeyCertSign, ''Certificate Sign''), (CRLSign, ''CRL Sign''),
      (EncipherOnly, ''Encipher Only''), (DecipherOnly, ''Decipher Only'')]"

definition EKU_LABELS :: "string js_object" where
  "EKU_LABELS =
     [(''1.3.6.1.5.5.7.3.1'', ''Server Authentication''), (''1.3.6.1.5.5.7.3.2'', ''Client Authentication''),
      (''1.3.6.1.5.5.7.3.3'', ''Code Signing''), (''1.3.6.1.5.5.7.3.4'', ''Email Protection''),
      (''1.3.6.1.5.5.7.3.8'', ''Timestamping''), (''1.3.6.1.5.5.7.3.9'', ''OCSP Signing'')]"

subsection \<open>Helpers\<close>

definition bufToHex :: "nat list \<Rightarrow> string \<Rightarrow> string" where
  "bufToHex buf sep = toUpperCase (join sep (map byte_hex buf))"

text \<open>\<open>EKU_LABELS[oid] ?? oid\<close>: a name inherited by every object is not nullish.\<close>

definition ekuLabel :: "string \<Rightarrow> string property" where
  "ekuLabel oid = (case obj_get EKU_LABELS oid of Undefined \<Rightarrow> Own oid | v \<Rightarrow> v)"

text \<open>
  \<open>Object.entries\<close> of an object with numeric keys visits them in ascending order; of two equal keys the later
  value stands.
\<close>

definition usage_entries :: "(KeyUsage \<Rightarrow> nat) \<Rightarrow> (nat \<times> string) list" where
  "usage_entries flag = sort_key fst (fold (\<lambda>(u, label). AList.update (flag u) label) KEY_USAGE_LABELS [])"

definition keyUsageList :: "(KeyUsage \<Rightarrow> nat) \<Rightarrow> int \<Rightarrow> string list" where
  "keyUsageList flag flags =
     map snd (filter (\<lambda>(b, _). and (to_int32 flags) (to_int32 (int b)) \<noteq> 0) (usage_entries flag))"

definition pubKeyDescription :: "algorithm \<Rightarrow> string" where
  "pubKeyDescription algo =
     (let name = alg_name algo in
      if js_includes name ''RSA'' then
        name
        @ (case alg_modulusLength algo of
             Some n \<Rightarrow> if n \<noteq> 0 then '' '' @ show_int n @ ''-bit'' else []
           | None \<Rightarrow> [])
        @ (case alg_hash algo of Some h \<Rightarrow> if h \<noteq> [] then '' / '' @ h else [] | None \<Rightarrow> [])
      else if name = ''ECDSA'' \<or> name = ''ECDH'' \<or> name = ''EC'' then
        (case alg_namedCurve algo of Some cv \<Rightarrow> if cv \<noteq> [] then name @ '' ('' @ cv @ '')'' else name | None \<Rightarrow> name)
      else name)"

text \<open>\<open>s.match(/.{1,2}/g)\<close>: the dot does not match a line terminator.\<close>

definition line_end :: "char \<Rightarrow> bool" where
  "line_end c \<longleftrightarrow> c = CHR 0x0A \<or> c = CHR 0x0D"

fun pairs_of :: "string \<Rightarrow> string list" where
  "pairs_of [] = []"
| "pairs_of [x] = (if line_end x then [] else [[x]])"
| "pairs_of (x # y # zs) =
     (if line_end x then pairs_of (y # zs)
      else if line_end y then [x] # pairs_of zs
      else [x, y] # pairs_of zs)"

definition serial_text :: "string \<Rightarrow> string" where
  "serial_text sn = (if pairs_of sn = [] then sn else toUpperCase (join '':'' (pairs_of sn)))"

definition extractDN :: "(string \<Rightarrow> string list) \<Rightarrow> (string \<times> string list) list" where
  "extractDN getField = map (\<lambda>f. (f, getField f)) (filter (\<lambda>f. length (getField f) \<noteq> 0) DN_FIELDS)"

definition crl_urls :: "string option list option list option \<Rightarrow> string list" where
  "crl_urls crl =
     (case crl of
        None \<Rightarrow> []
      | Some dps \<Rightarrow> concat (map (\<lambda>fullName. map the (filter truthy (nullish fullName []))) dps))"

subsection \<open>The decoder\<close>

definition daysRemaining :: "int \<Rightarrow> int \<Rightarrow> int" where
  "daysRemaining now notAfter = ceil_div (notAfter - now) (1000 * 60 * 60 * 24)"

definition decoded :: "(KeyUsage \<Rightarrow> nat) \<Rightarrow> int \<Rightarrow> x509_cert \<Rightarrow> DecodedCert" where
  "decoded flag now cert =
     \<lparr>dec_subject = extractDN (x_subjectField cert), dec_issuer = extractDN (x_issuerField cert),
      dec_subjectString = x_subject cert, dec_issuerString = x_issuer cert,
      dec_notBefore = x_notBefore cert, dec_notAfter = x_notAfter cert,
      dec_isExpired = (x_notAfter cert - now < 0),
      dec_daysRemaining = daysRemaining now (x_notAfter cert),
      dec_serialNumber = serial_text (x_serialNumber cert),
      dec_signatureAlgorithm = x_signatureAlgorithm cert,
      dec_publicKeyInfo = pubKeyDescription (x_publicKey cert),
      dec_sha1 = bufToHex (x_thumbprint cert) '':'', dec_sha256 = bufToHex (x_thumbprint256 cert) '':'',
      dec_sans = nullish (x_sans cert) [],
      dec_keyUsages = (case x_keyUsages cert of None \<Rightarrow> [] | Some u \<Rightarrow> keyUsageList flag u),
      dec_extendedKeyUsages = (case x_extendedKeyUsages cert of None \<Rightarrow> [] | Some us \<Rightarrow> map ekuLabel us),
      dec_isCA = (case x_basicConstraints cert of None \<Rightarrow> False | Some (ca, _) \<Rightarrow> ca),
      dec_pathLength = (case x_basicConstraints cert of None \<Rightarrow> None | Some (_, p) \<Rightarrow> p),
      dec_subjectKeyId = x_subjectKeyId cert, dec_authorityKeyId = x_authorityKeyId cert,
      dec_ocspUrls = (case x_authorityInfo cert of None \<Rightarrow> [] | Some (ocsp, _) \<Rightarrow> ocsp),
      dec_caIssuerUrls = (case x_authorityInfo cert of None \<Rightarrow> [] | Some (_, issuers) \<Rightarrow> issuers),
      dec_crlUrls = crl_urls (x_crl cert),
      dec_isSelfSigned = (x_subject cert = x_issuer cert)\<rparr>"

definition decodeCert ::
  "(string \<Rightarrow> x509_cert option) \<Rightarrow> (KeyUsage \<Rightarrow> nat) \<Rightarrow> int \<Rightarrow> string \<Rightarrow> DecodedCert option" where
  "decodeCert parse flag now pem = map_option (decoded flag now) (parse (trim pem))"

subsection \<open>Reading a fingerprint back\<close>

definition hex_byte :: "string \<Rightarrow> nat option" where
  "hex_byte s = (if length s = 2 then read_unsigned 16 s else None)"

definition hexToBuf :: "string \<Rightarrow> nat list option" where
  "hexToBuf s = (if s = [] then Some [] else those (map hex_byte (split_char (CHR '':'') s)))"

lemma toUpperCase_join:
  "toUpperCase (join sep ws) = join (toUpperCase sep) (map toUpperCase ws)"
  by (induction sep ws rule: join.induct) (simp_all add: toUpperCase_def)

lemma read_radix_upper: "read_radix r a (map to_upper s) = read_radix r a s"
  by (induction s arbitrary: a) (simp_all add: digit_val_to_upper split: option.split)

lemma read_unsigned_upper: "read_unsigned r (map to_upper s) = read_unsigned r s"
  by (cases s) (simp_all add: read_unsigned_def digit_val_to_upper read_radix_upper split: option.split)

lemma upper_hex_clean:
  assumes "b < 256"
  shows "CHR '':'' \<notin> set (toUpperCase (byte_hex b))"
proof
  assume "CHR '':'' \<in> set (toUpperCase (byte_hex b))"
  then obtain c where c: "c \<in> set (byte_hex b)" "to_upper c = CHR '':''" by (auto simp: toUpperCase_def)
  have "b div 16 < 16" "b mod 16 < 16" using assms by simp_all
  with c(1) assms obtain v where "v < 16" "c = digit_char v"
    by (metis byte_hex_digits empty_iff list.set(1) set_ConsD)
  then have "digit_val 16 c = Some v" by simp
  with c(2) have "digit_val 16 (CHR '':'') = Some v" using digit_val_to_upper [of 16 c] by simp
  moreover have "digit_val 16 (CHR '':'') = None" by code_simp
  ultimately show False by simp
qed

lemma hex_byte_upper: "b < 256 \<Longrightarrow> hex_byte (toUpperCase (byte_hex b)) = Some b"
proof -
  assume b: "b < 256"
  have "read_unsigned 16 (byte_hex b) = Some b"
    using b by (simp add: byte_hex_digits read_unsigned_def)
  with b show ?thesis by (simp add: hex_byte_def toUpperCase_def read_unsigned_upper)
qed

lemma those_map_Some: "(\<forall>x \<in> set xs. f (g x) = Some x) \<Longrightarrow> those (map f (map g xs)) = Some xs"
  by (induction xs) simp_all

lemma hexToBuf_bufToHex:
  assumes "\<forall>b \<in> set buf. b < 256"
  shows "hexToBuf (bufToHex buf '':'') = Some buf"
proof (cases buf)
  case (Cons b bs)
  let ?ws = "map (\<lambda>b. toUpperCase (byte_hex b)) buf"
  have colon: "toUpperCase '':'' = '':''" by code_simp
  have eq: "bufToHex buf '':'' = join '':'' ?ws" by (simp add: bufToHex_def toUpperCase_join colon o_def)
  have "length (toUpperCase (byte_hex b)) = 2" using assms Cons by (simp add: toUpperCase_def)
  then have "join '':'' ?ws \<noteq> []" unfolding Cons by (cases bs) auto
  moreover have "split_char (CHR '':'') (join '':'' ?ws) = ?ws"
    using assms Cons upper_hex_clean by (intro split_char_join) auto
  moreover have "those (map hex_byte ?ws) = Some buf"
    using assms hex_byte_upper by (intro those_map_Some) auto
  ultimately show ?thesis by (simp add: hexToBuf_def eq)
qed (simp add: hexToBuf_def bufToHex_def toUpperCase_def)

subsection \<open>Key usages\<close>

text \<open>The flags as the package documents them: bit \<open>i\<close> of the extension is the \<open>i\<close>-th usage of RFC 5280.\<close>

fun usage_index :: "KeyUsage \<Rightarrow> nat" where
  "usage_index DigitalSignature = 0"
| "usage_index NonRepudiation = 1"
| "usage_index KeyEncipherment = 2"
| "usage_index DataEncipherment = 3"
| "usage_index KeyAgreement = 4"
| "usage_index KeyCertSign = 5"
| "usage_index CRLSign = 6"
| "usage_index EncipherOnly = 7"
| "usage_index DecipherOnly = 8"

definition documented_flag :: "KeyUsage \<Rightarrow> nat" where
  "documented_flag u = 2 ^ usage_index u"

lemma usage_entries_documented:
  "usage_entries documented_flag = map (\<lambda>(u, label). (2 ^ usage_index u, label)) KEY_USAGE_LABELS"
  by code_simp

lemma and_flag: "k < 31 \<Longrightarrow> and (to_int32 n) (to_int32 (int (2 ^ k))) \<noteq> 0 \<longleftrightarrow> bit n k"
proof -
  assume k: "k < 31"
  have "to_int32 (int (2 ^ k)) = 2 ^ k"
    using k power_strict_increasing [of k 31 "2 :: int"] by (subst to_int32_id) (auto intro: order_trans [of _ 0])
  then show ?thesis
    using k by (simp add: and_exp_eq_0_iff_not_bit to_int32_def bit_signed_take_bit_iff)
qed

lemma usage_label_index:
  "(u, label) \<in> set KEY_USAGE_LABELS \<Longrightarrow> (u', label) \<in> set KEY_USAGE_LABELS \<Longrightarrow> u = u'"
  by (auto simp: KEY_USAGE_LABELS_def)

lemma keyUsageList_documented:
  assumes "(u, label) \<in> set KEY_USAGE_LABELS"
  shows "label \<in> set (keyUsageList documented_flag n) \<longleftrightarrow> bit n (usage_index u)"
proof -
  have "label \<in> set (keyUsageList documented_flag n) \<longleftrightarrow>
      (\<exists>u'. (u', label) \<in> set KEY_USAGE_LABELS \<and> and (to_int32 n) (to_int32 (int (2 ^ usage_index u'))) \<noteq> 0)"
    unfolding keyUsageList_def usage_entries_documented by (force simp: image_iff)
  also have "\<dots> \<longleftrightarrow> and (to_int32 n) (to_int32 (int (2 ^ usage_index u))) \<noteq> 0"
    using assms usage_label_index by blast
  also have "\<dots> \<longleftrightarrow> bit n (usage_index u)" by (rule and_flag) (cases u; simp)
  finally show ?thesis .
qed

subsection \<open>Properties\<close>

text \<open>A certificate the package can parse is decoded; its SHA-256 fingerprint is a text from which exactly the
  bytes of the digest can be read back; it is reported as expired exactly after its last moment, and as having no day
  left from that moment on; with the documented numbering a key usage is listed exactly when its bit is set.\<close>

lemma decoder_reports_certificate:
  assumes "parse (trim pem) = Some cert" and "\<forall>b \<in> set (x_thumbprint256 cert). b < 256"
    and "(u, label) \<in> set KEY_USAGE_LABELS" and "x_keyUsages cert = Some n"
  shows "\<exists>d. decodeCert parse documented_flag now pem = Some d
    \<and> hexToBuf (dec_sha256 d) = Some (x_thumbprint256 cert)
    \<and> (dec_isExpired d \<longleftrightarrow> x_notAfter cert < now)
    \<and> (dec_daysRemaining d \<le> 0 \<longleftrightarrow> x_notAfter cert \<le> now)
    \<and> (label \<in> set (dec_keyUsages d) \<longleftrightarrow> bit n (usage_index u))"
proof -
  have "daysRemaining now (x_notAfter cert) \<le> 0 \<longleftrightarrow> x_notAfter cert \<le> now"
    unfolding daysRemaining_def by (subst ceil_div_least) auto
  then show ?thesis
    using assms hexToBuf_bufToHex keyUsageList_documented
    by (simp add: decodeCert_def decoded_def)
qed

definition example_cert :: x509_cert where
  "example_cert =
     \<lparr>x_subject = ''CN=a'', x_issuer = ''CN=a'', x_subjectField = (\<lambda>f. if f = ''CN'' then [''a''] else []),
      x_issuerField = (\<lambda>f. if f = ''CN'' then [''a''] else []), x_notBefore = 0, x_notAfter = 1000,
      x_serialNumber = ''0a1b'', x_signatureAlgorithm = ''ECDSA'',
      x_publicKey = \<lparr>alg_name = ''ECDSA'', alg_modulusLength = None, alg_hash = None, alg_namedCurve = Some ''P-256''\<rparr>,
      x_thumbprint = [1, 2], x_thumbprint256 = [10, 255], x_sans = None, x_keyUsages = Some 5,
      x_extendedKeyUsages = None, x_basicConstraints = Some (True, None), x_subjectKeyId = None,
      x_authorityKeyId = None, x_authorityInfo = None, x_crl = None\<rparr>"

lemma decoder_reports_certificate_witness:
  "\<exists>d. decodeCert (\<lambda>_. Some example_cert) documented_flag 2000 ''pem'' = Some d
     \<and> hexToBuf (dec_sha256 d) = Some [10, 255] \<and> dec_isExpired d
     \<and> ''Key Encipherment'' \<in> set (dec_keyUsages d)"
proof -
  have "bit (5 :: int) 2" by code_simp
  then show ?thesis
    using decoder_reports_certificate [of "\<lambda>_. Some example_cert" "''pem''" example_cert KeyEncipherment
        "''Key Encipherment''" 5 2000]
    by (auto simp: example_cert_def KEY_USAGE_LABELS_def)
qed

end
