(* ===== verification/PemDer.thy ===== *)
theory PemDer
  imports CertUtils
begin

section \<open>Converting PEM and DER (\<open>pages/toolbox/PemDerPage.tsx\<close>)\<close>

text \<open>
  The hex printer and reader, the hex dump, and the two panels of the page. PEM armour itself is read and written by
  \<open>PemConverter\<close> of \<open>@peculiar/x509\<close>: its \<open>decodeWithHeaders\<close> and \<open>encode\<close> are parameters, and either may throw.
\<close>

subsection \<open>Hexadecimal texts\<close>

definition bufToHex_spaced :: "nat list \<Rightarrow> string" where
  "bufToHex_spaced buf = toUpperCase (join '' '' (map byte_hex buf))"

text \<open>One line of the dump: offset, 16 bytes padded to 47 columns, and the printable characters.\<close>

definition ascii_char :: "nat \<Rightarrow> char" where
  "ascii_char b = (if 0x20 \<le> b \<and> b < 0x7f then char_of b else CHR ''.'')"

definition dump_line :: "nat \<Rightarrow> nat list \<Rightarrow> string" where
  "dump_line i chunk =
     toUpperCase (padStart 8 (CHR ''0'') (show_radix 16 i)) @ ''  ''
     @ padEnd 47 (CHR '' '') (join '' '' (map (\<lambda>b. toUpperCase (byte_hex b)) chunk)) @ ''  ''
     @ map ascii_char chunk"

text \<open>The loop over the buffer in steps of 16.\<close>

function dump_lines :: "nat \<Rightarrow> nat list \<Rightarrow> string list" where
  "dump_lines i bytes = (if bytes = [] then [] else dump_line i (take 16 bytes) # dump_lines (i + 16) (drop 16 bytes))"
  by pat_completeness auto
termination by (relation "measure (\<lambda>(i, bytes). length bytes)") simp_all

declare dump_lines.simps [simp del]

definition hexDump :: "nat list \<Rightarrow> nat \<Rightarrow> string list \<times> bool" where
  "hexDump bytes maxBytes =
     (let truncated = length bytes > maxBytes;
          slice = (if truncated then take maxBytes bytes else bytes)
      in (dump_lines 0 slice, truncated))"

text \<open>\<open>raw.trim().replace(/[\s:]/g, '')\<close>, the test of the digits, and the bytes of the pairs.\<close>

definition hex_cleaned :: "string \<Rightarrow> string" where
  "hex_cleaned raw = filter (\<lambda>c. \<not> is_ws c \<and> c \<noteq> CHR '':'') (trim raw)"

fun hex_pairs :: "string \<Rightarrow> nat list" where
  "hex_pairs (a # b # rest) = nat (the (parseInt (Some 16) [a, b])) mod 256 # hex_pairs rest"
| "hex_pairs _ = []"

definition hex_message :: string where
  "hex_message = ''Invalid hex '' @ em_dash @ '' expected pairs of hex digits, optionally separated by spaces or colons.''"

definition parseHexInput :: "string \<Rightarrow> string + nat list" where
  "parseHexInput raw =
     (let cleaned = hex_cleaned raw in
      if \<not> (cleaned \<noteq> [] \<and> list_all (\<lambda>c. digit_val 16 c \<noteq> None) cleaned) \<or> length cleaned mod 2 \<noteq> 0
      then Inl hex_message
      else Inr (hex_pairs cleaned))"

subsection \<open>The conversions\<close>

definition PEM_TAGS :: "string list" where
  "PEM_TAGS =
     [''CERTIFICATE'', ''CERTIFICATE REQUEST'', ''PRIVATE KEY'', ''EC PRIVATE KEY'', ''RSA PRIVATE KEY'',
      ''PUBLIC KEY'', ''X509 CRL'']"

record PemToDerResult =
  ptd_tag :: string
  ptd_der :: "nat list"
  ptd_hexFull :: string
  ptd_dump :: "string list \<times> bool"

definition convertPemToDer ::
  "(string \<Rightarrow> string + (string \<times> nat list) list) \<Rightarrow> string \<Rightarrow> string + PemToDerResult" where
  "convertPemToDer decode pem =
     (case decode (trim pem) of
        Inl m \<Rightarrow> Inl m
      | Inr [] \<Rightarrow> Inl ''No PEM blocks found.''
      | Inr ((typ, der) # _) \<Rightarrow>
          Inr \<lparr>ptd_tag = typ, ptd_der = der, ptd_hexFull = bufToHex_spaced der, ptd_dump = hexDump der 256\<rparr>)"

subsection \<open>The panel from PEM to DER\<close>

record ptd_panel =
  ptd_pem :: string
  ptd_result :: "PemToDerResult option"
  ptd_error :: "string option"

definition ptd_init :: ptd_panel where
  "ptd_init = \<lparr>ptd_pem = [], ptd_result = None, ptd_error = None\<rparr>"

definition ptd_handleConvert ::
  "(string \<Rightarrow> string + (string \<times> nat list) list) \<Rightarrow> ptd_panel \<Rightarrow> ptd_panel" where
  "ptd_handleConvert decode p =
     (case convertPemToDer decode (ptd_pem p) of
        Inr r \<Rightarrow> p\<lparr>ptd_error := None, ptd_result := Some r\<rparr>
      | Inl m \<Rightarrow> p\<lparr>ptd_error := Some m, ptd_result := None\<rparr>)"

definition ptd_typed :: "string \<Rightarrow> ptd_panel \<Rightarrow> ptd_panel" where
  "ptd_typed v p = p\<lparr>ptd_pem := v, ptd_result := None, ptd_error := None\<rparr>"

definition der_filename :: "string \<Rightarrow> string" where
  "der_filename tag = replace_ws_runs (CHR ''_'') (toLowerCase tag) @ ''.der''"

subsection \<open>The panel from DER to PEM\<close>

record dtp_panel =
  dtp_hex :: string
  dtp_tag :: string
  dtp_pem :: string
  dtp_error :: "string option"
  dtp_fileName :: "string option"

definition dtp_init :: dtp_panel where
  "dtp_init = \<lparr>dtp_hex = [], dtp_tag = ''CERTIFICATE'', dtp_pem = [], dtp_error = None, dtp_fileName = None\<rparr>"

type_synonym pem_encoder = "nat list \<Rightarrow> string \<Rightarrow> string + string"

definition dtp_convert :: "pem_encoder \<Rightarrow> nat list \<Rightarrow> string \<Rightarrow> dtp_panel \<Rightarrow> dtp_panel" where
  "dtp_convert encode der currentTag p =
     (case encode der currentTag of
        Inr pem \<Rightarrow> p\<lparr>dtp_error := None, dtp_pem := pem\<rparr>
      | Inl m \<Rightarrow> p\<lparr>dtp_error := Some m, dtp_pem := []\<rparr>)"

definition handleHexConvert :: "pem_encoder \<Rightarrow> dtp_panel \<Rightarrow> dtp_panel" where
  "handleHexConvert encode p =
     (let p1 = p\<lparr>dtp_error := None, dtp_pem := []\<rparr> in
      case parseHexInput (dtp_hex p) of
        Inr bytes \<Rightarrow> dtp_convert encode bytes (dtp_tag p) p1
      | Inl m \<Rightarrow> p1\<lparr>dtp_error := Some m\<rparr>)"

text \<open>Choosing a file; its content arrives later and is converted with the tag of the time it was chosen.\<close>

definition dtp_handleFile :: "string \<Rightarrow> dtp_panel \<Rightarrow> dtp_panel" where
  "dtp_handleFile name p = p\<lparr>dtp_fileName := Some name, dtp_hex := [], dtp_pem := [], dtp_error := None\<rparr>"

definition dtp_fileLoaded :: "pem_encoder \<Rightarrow> string \<Rightarrow> nat list \<Rightarrow> dtp_panel \<Rightarrow> dtp_panel" where
  "dtp_fileLoaded encode chosenTag buf p = dtp_convert encode buf chosenTag p"

definition dtp_handleTagChange :: "pem_encoder \<Rightarrow> string \<Rightarrow> dtp_panel \<Rightarrow> dtp_panel" where
  "dtp_handleTagChange encode newTag p =
     (let p1 = p\<lparr>dtp_tag := newTag\<rparr> in
      if dtp_pem p \<noteq> []
      then (case parseHexInput (dtp_hex p) of
              Inr bytes \<Rightarrow> dtp_convert encode bytes newTag p1
            | Inl m \<Rightarrow> p1)
      else p1)"

definition dtp_typed :: "string \<Rightarrow> dtp_panel \<Rightarrow> dtp_panel" where
  "dtp_typed v p = p\<lparr>dtp_hex := v, dtp_pem := [], dtp_error := None, dtp_fileName := None\<rparr>"

definition dtp_handleClear :: "dtp_panel \<Rightarrow> dtp_panel" where
  "dtp_handleClear p = p\<lparr>dtp_hex := [], dtp_pem := [], dtp_error := None, dtp_fileName := None\<rparr>"

definition pem_filename :: "string \<Rightarrow> string" where
  "pem_filename tag = replace_ws_runs (CHR ''_'') (toLowerCase tag) @ ''.pem''"

text \<open>What a user does in the panel without choosing a file.\<close>

datatype dtp_event = HexTyped string | ConvertPressed | TagPicked string | ClearPressed

fun dtp_step :: "pem_encoder \<Rightarrow> dtp_event \<Rightarrow> dtp_panel \<Rightarrow> dtp_panel" where
  "dtp_step encode (HexTyped v) p = dtp_typed v p"
| "dtp_step encode ConvertPressed p = handleHexConvert encode p"
| "dtp_step encode (TagPicked t) p = dtp_handleTagChange encode t p"
| "dtp_step encode ClearPressed p = dtp_handleClear p"

subsection \<open>Reading hexadecimal texts back\<close>

lemma parseInt_byte:
  assumes "digit_val 16 a = Some x" and "digit_val 16 b = Some y"
  shows "parseInt (Some 16) [a, b] = Some (int (x * 16 + y))"
proof -
  have "\<not> is_ws a" using digit_val_not_ws [OF _ assms(1)] by simp
  moreover have "digit_val 16 (CHR ''-'') = None" "digit_val 16 (CHR ''+'') = None" "digit_val 16 (CHR ''x'') = None"
    "digit_val 16 (CHR ''X'') = None" by code_simp+
  ultimately show ?thesis
    using assms by (auto simp: parseInt_def parse_magnitude_def read_unsigned_def)
qed

lemma upper_byte_digits:
  assumes "b < 256"
  shows "\<exists>u v. toUpperCase (byte_hex b) = [u, v] \<and> digit_val 16 u = Some (b div 16) \<and> digit_val 16 v = Some (b mod 16)"
  using assms by (simp add: byte_hex_digits toUpperCase_def digit_val_to_upper)

lemma hex_pairs_bytes:
  "\<forall>b \<in> set buf. b < 256 \<Longrightarrow> hex_pairs (concat (map (\<lambda>b. toUpperCase (byte_hex b)) buf)) = buf"
proof (induction buf)
  case (Cons b buf)
  then obtain u v where uv: "toUpperCase (byte_hex b) = [u, v]" "digit_val 16 u = Some (b div 16)"
    "digit_val 16 v = Some (b mod 16)" using upper_byte_digits [of b] by auto
  then have "nat (the (parseInt (Some 16) [u, v])) mod 256 = b"
    using parseInt_byte [OF uv(2,3)] Cons.prems by (simp add: mult.commute)
  with uv Cons show ?case by simp
qed simp

lemma hex_digits_clean: "digit_val 16 c \<noteq> None \<Longrightarrow> \<not> is_ws c \<and> c \<noteq> CHR '':''"
proof -
  have "digit_val 16 (CHR '':'') = None" by code_simp
  then show "digit_val 16 c \<noteq> None \<Longrightarrow> ?thesis" using digit_val_not_ws [of 16 c] by auto
qed

lemma filter_join:
  assumes "\<forall>w \<in> set ws. \<forall>c \<in> set w. P c" and "\<forall>c \<in> set sep. \<not> P c"
  shows "filter P (join sep ws) = concat ws"
  using assms by (induction sep ws rule: join.induct) (auto simp: filter_id_conv filter_empty_conv)

lemma parseHexInput_join:
  assumes bytes: "\<forall>b \<in> set buf. b < 256" and "buf \<noteq> []" and sep: "\<forall>c \<in> set sep. is_ws c \<or> c = CHR '':''"
  shows "parseHexInput (join sep (map (\<lambda>b. toUpperCase (byte_hex b)) buf)) = Inr buf"
proof -
  let ?ws = "map (\<lambda>b. toUpperCase (byte_hex b)) buf"
  have digits: "\<forall>w \<in> set ?ws. \<forall>c \<in> set w. digit_val 16 c \<noteq> None"
    using bytes upper_byte_digits by fastforce
  have len: "length (concat ?ws) = 2 * length buf"
    using bytes by (induction buf) (simp_all add: toUpperCase_def)
  have two: "length (concat ?ws) mod 2 = 0" using len by simp
  have ne: "concat ?ws \<noteq> []" using len \<open>buf \<noteq> []\<close> by (metis length_0_conv mult_eq_0_iff zero_neq_numeral)
  have words: "\<forall>w \<in> set ?ws. word w"
  proof
    fix w assume w: "w \<in> set ?ws"
    with bytes upper_byte_digits have "w \<noteq> []" by fastforce
    with w digits hex_digits_clean show "word w" by (auto simp: word_def)
  qed
  have "trim (join sep ?ws) = join sep ?ws" using words \<open>buf \<noteq> []\<close> by (intro trim_join_words) auto
  moreover have "filter (\<lambda>c. \<not> is_ws c \<and> c \<noteq> CHR '':'') (join sep ?ws) = concat ?ws"
    using digits hex_digits_clean sep by (intro filter_join) blast+
  ultimately have "hex_cleaned (join sep ?ws) = concat ?ws" by (simp add: hex_cleaned_def)
  moreover have "list_all (\<lambda>c. digit_val 16 c \<noteq> None) (concat ?ws)" using digits by (auto simp: list_all_iff)
  ultimately show ?thesis
    using two ne hex_pairs_bytes [OF bytes] unfolding parseHexInput_def by (simp only: Let_def simp_thms if_False)
qed

lemma upper_join_bytes:
  assumes "toUpperCase sep = sep"
  shows "toUpperCase (join sep (map byte_hex buf)) = join sep (map (\<lambda>b. toUpperCase (byte_hex b)) buf)"
  using assms by (simp add: toUpperCase_join o_def)

text \<open>The columns of a dump line.\<close>

lemma length_hex_columns:
  "\<forall>b \<in> set chunk. b < 256 \<Longrightarrow> chunk \<noteq> [] \<Longrightarrow>
     length (join '' '' (map (\<lambda>b. toUpperCase (byte_hex b)) chunk)) = 3 * length chunk - 1"
proof (induction chunk rule: induct_list012)
  case (3 x y zs)
  then have "length (join '' '' (map (\<lambda>b. toUpperCase (byte_hex b)) (y # zs))) = 3 * length (y # zs) - 1" by simp
  with 3 show ?case by (simp add: toUpperCase_def)
qed (simp_all add: toUpperCase_def)

definition hex_column :: "string \<Rightarrow> string" where
  "hex_column line = take 47 (drop 10 line)"

lemma length_offset:
  assumes "i < 16 ^ 8"
  shows "length (padStart 8 (CHR ''0'') (show_radix 16 i)) = 8"
proof -
  have "n < 16 ^ k \<Longrightarrow> k > 0 \<Longrightarrow> length (show_radix 16 n) \<le> k" for n k :: nat
  proof (induction k arbitrary: n)
    case (Suc k)
    show ?case
    proof (cases "n < 16")
      case False
      then have eq: "show_radix 16 n = show_radix 16 (n div 16) @ [digit_char (n mod 16)]"
        by (subst show_radix.simps) simp
      have "n div 16 < 16 ^ k" using Suc.prems by (simp add: less_mult_imp_div_less mult.commute)
      moreover from this False have "k > 0" by (cases k) auto
      ultimately show ?thesis using Suc.IH by (simp add: eq)
    qed (simp add: show_radix_small)
  qed simp
  from this [OF assms] show ?thesis by (simp add: padStart_def)
qed

lemma parse_trailing_blanks: "parseHexInput (s @ replicate n (CHR '' '')) = parseHexInput s"
proof -
  have ws: "is_ws (CHR '' '')" by code_simp
  have "hex_cleaned t = filter (\<lambda>c. \<not> is_ws c \<and> c \<noteq> CHR '':'') t" for t
  proof -
    have "filter P (dropWhile is_ws u) = filter P u" if "\<And>c. is_ws c \<Longrightarrow> \<not> P c" for P u
      using that by (induction u) auto
    then show ?thesis by (simp add: hex_cleaned_def trim_def flip: rev_filter)
  qed
  then have "hex_cleaned (s @ replicate n (CHR '' '')) = hex_cleaned s" using ws by simp
  then show ?thesis by (simp add: parseHexInput_def)
qed

lemma dump_line_bytes:
  assumes "\<forall>b \<in> set chunk. b < 256" and "chunk \<noteq> []" and "length chunk \<le> 16" and "i < 16 ^ 8"
  shows "parseHexInput (hex_column (dump_line i chunk)) = Inr chunk"
proof -
  let ?h = "join '' '' (map (\<lambda>b. toUpperCase (byte_hex b)) chunk)"
  have "length (padEnd 47 (CHR '' '') ?h) = 47"
    using length_hex_columns [OF assms(1,2)] assms(3) by (simp add: padEnd_def)
  moreover have "length (toUpperCase (padStart 8 (CHR ''0'') (show_radix 16 i))) = 8"
    using length_offset [OF assms(4)] by (simp add: toUpperCase_def)
  ultimately have "hex_column (dump_line i chunk) = padEnd 47 (CHR '' '') ?h"
    unfolding hex_column_def dump_line_def by simp
  moreover have "parseHexInput ?h = Inr chunk"
    by (rule parseHexInput_join [OF assms(1,2)]) (simp add: is_ws_def)
  ultimately show ?thesis by (simp add: padEnd_def parse_trailing_blanks)
qed

text \<open>Reading the columns of all lines gives the bytes back.\<close>

definition line_bytes :: "string \<Rightarrow> nat list" where
  "line_bytes line = (case parseHexInput (hex_column line) of Inr bs \<Rightarrow> bs | Inl _ \<Rightarrow> [])"

lemma chunk_count: "n > 0 \<Longrightarrow> (n + 15) div 16 = Suc ((n - 16 + 15) div 16)" for n :: nat
proof (cases "n \<le> 16")
  case True
  assume "n > 0"
  with True have "(n + 15) div 16 = Suc 0" by (intro div_nat_eqI) simp_all
  with True show ?thesis by simp
next
  case False
  then have "n + 15 = (n - 16 + 15) + 16" by simp
  then show ?thesis by simp
qed

lemma dump_lines_bytes:
  "\<forall>b \<in> set bytes. b < 256 \<Longrightarrow> i + length bytes < 16 ^ 8 \<Longrightarrow>
     concat (map line_bytes (dump_lines i bytes)) = bytes \<and> length (dump_lines i bytes) = (length bytes + 15) div 16"
proof (induction i bytes rule: dump_lines.induct)
  case (1 i bytes)
  show ?case
  proof (cases "bytes = []")
    case False
    have "line_bytes (dump_line i (take 16 bytes)) = take 16 bytes"
      unfolding line_bytes_def using 1 False
      by (subst dump_line_bytes) (auto dest: in_set_takeD)
    moreover have "concat (map line_bytes (dump_lines (i + 16) (drop 16 bytes))) = drop 16 bytes
        \<and> length (dump_lines (i + 16) (drop 16 bytes)) = (length (drop 16 bytes) + 15) div 16"
    proof (cases "length bytes \<le> 16")
      case False
      then show ?thesis using 1 \<open>bytes \<noteq> []\<close> by (intro "1.IH") (auto dest: in_set_dropD)
    qed (simp add: dump_lines.simps)
    moreover have "(length bytes + 15) div 16 = Suc ((length (drop 16 bytes) + 15) div 16)"
      using False chunk_count [of "length bytes"] by simp
    ultimately show ?thesis using False by (subst (1 2) dump_lines.simps) simp
  qed (simp add: dump_lines.simps)
qed

subsection \<open>The panel keeps text, tag and output together\<close>

definition dtp_consistent :: "pem_encoder \<Rightarrow> dtp_panel \<Rightarrow> bool" where
  "dtp_consistent encode p \<longleftrightarrow>
     dtp_pem p \<noteq> [] \<longrightarrow> (\<exists>bytes. parseHexInput (dtp_hex p) = Inr bytes \<and> encode bytes (dtp_tag p) = Inr (dtp_pem p))"

lemma dtp_step_consistent:
  assumes "dtp_consistent encode p"
  shows "dtp_consistent encode (dtp_step encode ev p)"
proof (cases ev)
  case ConvertPressed
  show ?thesis
    unfolding ConvertPressed
    by (cases "parseHexInput (dtp_hex p)")
      (auto simp: dtp_consistent_def handleHexConvert_def dtp_convert_def Let_def split: sum.splits)
next
  case (TagPicked t)
  show ?thesis
    using assms unfolding TagPicked
    by (cases "parseHexInput (dtp_hex p)")
      (auto simp: dtp_consistent_def dtp_handleTagChange_def dtp_convert_def Let_def split: sum.splits)
qed (auto simp: dtp_consistent_def dtp_typed_def dtp_handleClear_def)

lemma dtp_run_consistent: "dtp_consistent encode p \<Longrightarrow> dtp_consistent encode (fold (dtp_step encode) evs p)"
  by (induction evs arbitrary: p) (simp_all add: dtp_step_consistent)

subsection \<open>Properties\<close>

text \<open>The hex text that the converter offers for copying, and the colon-separated fingerprints of the decoder,
  are accepted by the hex input of the converter and read back as exactly the same bytes; and the hex columns of the
  dump, read line by line, are exactly the first 256 bytes, 16 on a line.\<close>

lemma hex_output_reads_back:
  assumes "\<forall>b \<in> set buf. b < 256" and "buf \<noteq> []"
  shows "parseHexInput (bufToHex_spaced buf) = Inr buf
    \<and> parseHexInput (bufToHex buf '':'') = Inr buf
    \<and> concat (map line_bytes (fst (hexDump buf 256))) = take 256 buf
    \<and> length (fst (hexDump buf 256)) = (min 256 (length buf) + 15) div 16
    \<and> (snd (hexDump buf 256) \<longleftrightarrow> length buf > 256)"
proof -
  have "parseHexInput (bufToHex_spaced buf) = Inr buf"
    using parseHexInput_join [OF assms, of "'' ''"] unfolding bufToHex_spaced_def
    by (subst upper_join_bytes) (simp_all add: is_ws_def toUpperCase_def to_upper_def is_lower_def charCode_def)
  moreover have "parseHexInput (bufToHex buf '':'') = Inr buf"
    using parseHexInput_join [OF assms, of "'':''"] unfolding bufToHex_def
    by (subst upper_join_bytes) (simp_all add: toUpperCase_def to_upper_def is_lower_def charCode_def)
  moreover have "\<forall>b \<in> set (take 256 buf). b < 256" using assms(1) by (auto dest: in_set_takeD)
  then have "concat (map line_bytes (dump_lines 0 (take 256 buf))) = take 256 buf
      \<and> length (dump_lines 0 (take 256 buf)) = (length (take 256 buf) + 15) div 16"
    by (intro dump_lines_bytes) simp_all
  moreover have "(if length buf > 256 then take 256 buf else buf) = take 256 buf" by simp
  ultimately show ?thesis by (simp only: hexDump_def Let_def fst_conv snd_conv) (simp add: min.commute)
qed

lemma hex_output_reads_back_witness:
  "parseHexInput ''30 82 0A'' = Inr [48, 130, 10]"
proof -
  have "bufToHex_spaced [48, 130, 10] = ''30 82 0A''" by code_simp
  then show ?thesis using hex_output_reads_back [of "[48, 130, 10]"] by simp
qed

text \<open>As long as only the hex input is used, the PEM on screen is always the encoding of the entered bytes under
  the selected type, whatever is typed, converted, cleared or selected. After a file was converted this is lost:
  selecting another type then leaves the PEM of the old type on screen, to be saved under the name of the new one.\<close>

lemma shown_pem_has_selected_type:
  "dtp_consistent encode (fold (dtp_step encode) evs dtp_init)
   \<and> dtp_pem (dtp_handleTagChange encode newTag
        ((dtp_fileLoaded encode t buf (dtp_handleFile name p))\<lparr>dtp_tag := t\<rparr>))
       = dtp_pem (dtp_fileLoaded encode t buf (dtp_handleFile name p))"
proof -
  have "dtp_consistent encode dtp_init" by (simp add: dtp_consistent_def dtp_init_def)
  moreover have "parseHexInput [] = Inl hex_message"
    by (simp add: parseHexInput_def hex_cleaned_def)
  ultimately show ?thesis
    by (simp add: dtp_run_consistent dtp_handleTagChange_def dtp_fileLoaded_def dtp_handleFile_def dtp_convert_def Let_def
        split: sum.splits)
qed

end
