(* ===== verification/CertChain.thy ===== *)
theory CertChain
  imports CertUtils LibUtils
begin

section \<open>Building and checking a chain (\<open>pages/toolbox/CertChainPage.tsx\<close>)\<close>

text \<open>
  Finding the PEM blocks in a pasted text, the verdict on a chain, and the page. Parsing a certificate and
  \<open>X509ChainBuilder.build\<close> (which also verifies signatures) belong to \<open>@peculiar/x509\<close> and are parameters that may throw.
\<close>

subsection \<open>Finding the blocks\<close>

definition BEGIN_CERT :: string where
  "BEGIN_CERT = ''-----BEGIN CERTIFICATE-----''"

definition END_CERT :: string where
  "END_CERT = ''-----END CERTIFICATE-----''"

text \<open>The shortest text up to the next end line, and what follows that line.\<close>

fun until_end :: "string \<Rightarrow> (string \<times> string) option" where
  "until_end s =
     (if startsWith s END_CERT then Some ([], drop (length END_CERT) s)
      else (case s of [] \<Rightarrow> None | c # cs \<Rightarrow> map_option (\<lambda>(b, rest). (c # b, rest)) (until_end cs)))"

declare until_end.simps [simp del]

text \<open>\<open>/-----BEGIN CERTIFICATE-----[\s\S]+?-----END CERTIFICATE-----/\<close> at the start of a text.\<close>

definition match_pem :: "string \<Rightarrow> (string \<times> string) option" where
  "match_pem s =
     (if startsWith s BEGIN_CERT
      then (case drop (length BEGIN_CERT) s of
              [] \<Rightarrow> None
            | c # cs \<Rightarrow> map_option (\<lambda>(b, rest). (BEGIN_CERT @ c # b @ END_CERT, rest)) (until_end cs))
      else None)"

lemma until_end_shorter: "until_end s = Some (b, rest) \<Longrightarrow> length rest < length s"
proof (induction s arbitrary: b)
  case Nil
  have "\<not> startsWith [] END_CERT" by (simp add: startsWith_def END_CERT_def)
  then show ?case using Nil by (simp add: until_end.simps)
next
  case (Cons c cs)
  show ?case
  proof (cases "startsWith (c # cs) END_CERT")
    case True
    then show ?thesis using Cons.prems by (subst (asm) until_end.simps) (auto simp: END_CERT_def)
  next
    case False
    then obtain b' where "until_end cs = Some (b', rest)"
      using Cons.prems by (subst (asm) until_end.simps) auto
    then show ?thesis using Cons.IH by fastforce
  qed
qed

lemma match_pem_shorter: "match_pem s = Some (m, rest) \<Longrightarrow> length rest < length s"
proof -
  assume m: "match_pem s = Some (m, rest)"
  then obtain c cs b where "drop (length BEGIN_CERT) s = c # cs" "until_end cs = Some (b, rest)"
    by (auto simp: match_pem_def split: if_splits list.splits)
  moreover from this have "length cs < length s" by (metis Suc_le_lessD length_Cons length_drop diff_le_self)
  ultimately show ?thesis using until_end_shorter by fastforce
qed

text \<open>\<open>raw.match(re) ?? []\<close>: the matches from left to right.\<close>

function pem_blocks :: "string \<Rightarrow> string list" where
  "pem_blocks s =
     (case match_pem s of
        Some (m, rest) \<Rightarrow> m # pem_blocks rest
      | None \<Rightarrow> (case s of [] \<Rightarrow> [] | _ # cs \<Rightarrow> pem_blocks cs))"
  by pat_completeness auto
termination by (relation "measure length") (auto dest: match_pem_shorter)

declare pem_blocks.simps [simp del]

record chain_cert = x509_cert +
  cc_pem :: string

text \<open>\<open>matches.map((pem) => new X509Certificate(pem))\<close>: the first block that does not parse throws.\<close>

fun parse_all :: "(string \<Rightarrow> string + chain_cert) \<Rightarrow> string list \<Rightarrow> string + chain_cert list" where
  "parse_all parse [] = Inr []"
| "parse_all parse (b # bs) =
     (case parse b of
        Inl m \<Rightarrow> Inl m
      | Inr c \<Rightarrow> (case parse_all parse bs of Inl m \<Rightarrow> Inl m | Inr cs \<Rightarrow> Inr (c # cs)))"

definition parsePems :: "(string \<Rightarrow> string + chain_cert) \<Rightarrow> string \<Rightarrow> string + chain_cert list" where
  "parsePems parse raw = parse_all parse (pem_blocks raw)"

subsection \<open>Reading a certificate\<close>

definition isExpired :: "int \<Rightarrow> chain_cert \<Rightarrow> bool" where
  "isExpired now cert \<longleftrightarrow> now < x_notBefore cert \<or> now > x_notAfter cert"

definition isSelfSigned :: "chain_cert \<Rightarrow> bool" where
  "isSelfSigned cert \<longleftrightarrow> x_issuer cert = x_subject cert"

definition sanList :: "chain_cert \<Rightarrow> string list" where
  "sanList cert = (case x_sans cert of None \<Rightarrow> [] | Some ns \<Rightarrow> map (\<lambda>(t, v). t @ '':'' @ v) ns)"

definition usage_labels :: "(KeyUsage \<times> string) list" where
  "usage_labels =
     [(DigitalSignature, ''Digital Signature''), (NonRepudiation, ''Non Repudiation''),
      (KeyEncipherment, ''Key Encipherment''), (DataEncipherment, ''Data Encipherment''),
      (KeyAgreement, ''Key Agreement''), (KeyCertSign, ''Cert Sign''), (CRLSign, ''CRL Sign'')]"

definition chain_keyUsageList :: "(KeyUsage \<Rightarrow> nat) \<Rightarrow> chain_cert \<Rightarrow> string list" where
  "chain_keyUsageList flag cert =
     (case x_keyUsages cert of
        None \<Rightarrow> []
      | Some usages \<Rightarrow>
          map snd (filter (\<lambda>(u, _). and (to_int32 usages) (to_int32 (int (flag u))) \<noteq> 0) usage_labels))"

definition isCA :: "chain_cert \<Rightarrow> bool" where
  "isCA cert \<longleftrightarrow> (case x_basicConstraints cert of None \<Rightarrow> False | Some (ca, _) \<Rightarrow> ca)"

definition cert_cn :: "chain_cert \<Rightarrow> string" where
  "cert_cn cert = (case x_subjectField cert ''CN'' of [] \<Rightarrow> x_subject cert | v # _ \<Rightarrow> v)"

subsection \<open>The verdict\<close>

record ChainResult =
  cr_chain :: "chain_cert list"
  cr_valid :: bool
  cr_incomplete :: bool
  cr_wasReordered :: bool
  cr_errors :: "string list"

definition quote_mark :: string where
  "quote_mark = [CHR 0x22]"

definition expiry_errors :: "int \<Rightarrow> chain_cert list \<Rightarrow> string list" where
  "expiry_errors now chain =
     map (\<lambda>c. quote_mark @ cert_cn c @ quote_mark @ '' is expired or not yet valid.'') (filter (isExpired now) chain)"

definition ca_errors :: "chain_cert list \<Rightarrow> string list" where
  "ca_errors chain =
     map (\<lambda>c. quote_mark @ cert_cn c @ quote_mark @ '' is missing the CA basic constraint.'')
       (filter (\<lambda>c. \<not> isCA c) (drop 1 chain))"

definition leaf_of :: "chain_cert list \<Rightarrow> chain_cert" where
  "leaf_of certs =
     (let leaves = filter (\<lambda>c. \<not> isCA c) certs in if length leaves > 0 then leaves ! 0 else certs ! 0)"

definition incomplete_chain :: "chain_cert list \<Rightarrow> bool" where
  "incomplete_chain chain \<longleftrightarrow> length chain > 0 \<and> \<not> isSelfSigned (last chain)"

definition was_reordered :: "chain_cert list \<Rightarrow> chain_cert list \<Rightarrow> bool" where
  "was_reordered certs chain \<longleftrightarrow>
     (let inputInChain = filter (\<lambda>c. cc_pem c \<in> set (map cc_pem chain)) certs in
      list_ex (\<lambda>i. \<not> (i < length chain \<and> cc_pem (inputInChain ! i) = cc_pem (chain ! i))) [0..<length inputInChain])"

definition buildChain ::
  "int \<Rightarrow> (chain_cert list \<Rightarrow> chain_cert \<Rightarrow> string + chain_cert list) \<Rightarrow> chain_cert list \<Rightarrow> ChainResult" where
  "buildChain now build certs =
     (case build certs (leaf_of certs) of
        Inl m \<Rightarrow> \<lparr>cr_chain = certs, cr_valid = False, cr_incomplete = True, cr_wasReordered = False, cr_errors = [m]\<rparr>
      | Inr chain \<Rightarrow>
          (let incomplete = incomplete_chain chain;
               errors = expiry_errors now chain @ ca_errors chain
                 @ (if incomplete then [''Chain is incomplete '' @ em_dash @ '' root certificate not found.''] else [])
           in \<lparr>cr_chain = chain, cr_valid = (length errors = 0), cr_incomplete = incomplete,
               cr_wasReordered = was_reordered certs chain, cr_errors = errors\<rparr>))"

definition downloadChain :: "chain_cert list \<Rightarrow> string" where
  "downloadChain chain = join [CHR 0x0A] (map cc_pem chain)"

subsection \<open>The page\<close>

record chain_page =
  ch_input :: string
  ch_result :: "ChainResult option"
  ch_parseError :: "string option"
  ch_loading :: bool

definition chain_page_init :: chain_page where
  "chain_page_init = \<lparr>ch_input = [], ch_result = None, ch_parseError = None, ch_loading = False\<rparr>"

definition chain_typed :: "string \<Rightarrow> chain_page \<Rightarrow> chain_page" where
  "chain_typed v p = p\<lparr>ch_input := v, ch_result := None, ch_parseError := None\<rparr>"

definition no_pem_message :: string where
  "no_pem_message = ''No valid PEM certificates found. Paste one or more -----BEGIN CERTIFICATE----- blocks.''"

text \<open>
  \<open>parsePems\<close> runs outside the \<open>try\<close> block: when a block does not parse the handler rejects and shows nothing.
  The build itself is awaited, so the handler is a part before it (with the certificates to build) and a part after.
\<close>

definition handleBuild ::
  "(string \<Rightarrow> string + chain_cert) \<Rightarrow> chain_page \<Rightarrow> chain_page \<times> chain_cert list option" where
  "handleBuild parse p =
     (let p1 = p\<lparr>ch_parseError := None, ch_result := None\<rparr> in
      case parsePems parse (ch_input p) of
        Inl _ \<Rightarrow> (p1, None)
      | Inr certs \<Rightarrow>
          if length certs = 0 then (p1\<lparr>ch_parseError := Some no_pem_message\<rparr>, None)
          else (p1\<lparr>ch_loading := True\<rparr>, Some certs))"

definition chain_built :: "ChainResult \<Rightarrow> chain_page \<Rightarrow> chain_page" where
  "chain_built r p = p\<lparr>ch_result := Some r, ch_loading := False\<rparr>"

definition build_disabled :: "chain_page \<Rightarrow> bool" where
  "build_disabled p \<longleftrightarrow> trim (ch_input p) = [] \<or> ch_loading p"

definition positionLabel :: "nat \<Rightarrow> nat \<Rightarrow> string" where
  "positionLabel i n =
     (if i = 0 then ''Leaf'' else if i = n - 1 then ''Root'' else ''Intermediate '' @ show_int (int i))"

definition chain_badges :: "int \<Rightarrow> string \<Rightarrow> chain_cert \<Rightarrow> string list" where
  "chain_badges now position cert =
     [position]
     @ (if isExpired now cert then [''Expired''] else [])
     @ (if isSelfSigned cert \<and> \<not> isCA cert then [''Self-Signed''] else [])
     @ (if isSelfSigned cert \<and> isCA cert then [''Root CA''] else [])
     @ (if isCA cert \<and> \<not> isSelfSigned cert then [''Intermediate CA''] else [])"

datatype chain_banner = ValidBanner string | IncompleteBanner "string list" | InvalidBanner "string list"

definition banner_of :: "ChainResult \<Rightarrow> chain_banner" where
  "banner_of r =
     (if cr_valid r
      then ValidBanner (''Chain is valid '' @ em_dash @ '' '' @ plural (int (length (cr_chain r))) ''certificate'' None
             @ '', trusted to root.'')
      else if cr_incomplete r then IncompleteBanner (cr_errors r)
      else InvalidBanner (cr_errors r))"

text \<open>The certificates of the current text that the shown chain does not use; a block that does not parse throws here too.\<close>

definition unused_certs :: "(string \<Rightarrow> string + chain_cert) \<Rightarrow> string \<Rightarrow> ChainResult \<Rightarrow> string + chain_cert list" where
  "unused_certs parse input r =
     (case parsePems parse input of
        Inl m \<Rightarrow> Inl m
      | Inr certs \<Rightarrow> Inr (filter (\<lambda>c. cc_pem c \<notin> set (map cc_pem (cr_chain r))) certs))"

definition unused_message :: "chain_cert list \<Rightarrow> string option" where
  "unused_message unused =
     (let n = int (length unused) in
      if unused = [] then None
      else Some (show_int n @ '' pasted '' @ plural n ''certificate'' None @ '' '' @ plural n ''was'' (Some ''were'')
             @ '' not used in the chain.''))"

subsection \<open>A pasted bundle\<close>

text \<open>A block around a body, and a bundle of blocks with other text before each and after the last.\<close>

definition pem_block :: "string \<Rightarrow> string" where
  "pem_block body = BEGIN_CERT @ body @ END_CERT"

definition pasted :: "(string \<times> string) list \<Rightarrow> string \<Rightarrow> string" where
  "pasted parts trailer = concat (map (\<lambda>(junk, body). junk @ pem_block body) parts) @ trailer"

definition dash_free :: "string \<Rightarrow> bool" where
  "dash_free s \<longleftrightarrow> CHR ''-'' \<notin> set s"

lemma startsWith_marker:
  "startsWith (c # s) BEGIN_CERT \<Longrightarrow> c = CHR ''-''" "startsWith (c # s) END_CERT \<Longrightarrow> c = CHR ''-''"
  by (simp_all add: startsWith_def BEGIN_CERT_def END_CERT_def)

lemma startsWith_append: "startsWith (w @ s) w"
  by (simp add: startsWith_def)

lemma until_end_body: "dash_free b \<Longrightarrow> until_end (b @ END_CERT @ s) = Some (b, s)"
proof (induction b)
  case (Cons c cs)
  then have "\<not> startsWith (c # cs @ END_CERT @ s) END_CERT" using startsWith_marker(2) by (auto simp: dash_free_def)
  with Cons show ?case by (subst until_end.simps) (simp add: dash_free_def)
qed (subst until_end.simps, simp add: startsWith_append)

lemma match_pem_block: "dash_free body \<Longrightarrow> body \<noteq> [] \<Longrightarrow> match_pem (pem_block body @ s) = Some (pem_block body, s)"
proof (cases body)
  case (Cons c cs)
  assume "dash_free body"
  then have "until_end (cs @ END_CERT @ s) = Some (cs, s)"
    using Cons by (intro until_end_body) (simp add: dash_free_def)
  then show ?thesis
    unfolding match_pem_def pem_block_def Cons by (simp add: startsWith_append)
qed simp

lemma pem_blocks_junk: "dash_free junk \<Longrightarrow> pem_blocks (junk @ s) = pem_blocks s"
proof (induction junk)
  case (Cons c cs)
  then have "match_pem (c # cs @ s) = None"
    using startsWith_marker(1) [of c "cs @ s"] by (auto simp: match_pem_def dash_free_def)
  with Cons show ?case by (subst pem_blocks.simps) (simp add: dash_free_def)
qed simp

lemma pem_blocks_bundle:
  assumes "\<forall>(junk, body) \<in> set parts. dash_free junk \<and> dash_free body \<and> body \<noteq> []" and "dash_free trailer"
  shows "pem_blocks (pasted parts trailer) = map (\<lambda>(junk, body). pem_block body) parts"
  using assms(1)
proof (induction parts)
  case Nil
  have "match_pem [] = None" by (simp add: match_pem_def startsWith_def BEGIN_CERT_def)
  then have "pem_blocks [] = []" by (subst pem_blocks.simps) simp
  then show ?case using pem_blocks_junk [OF assms(2), of "[]"] by (simp add: pasted_def)
next
  case (Cons part parts)
  obtain junk body where p: "part = (junk, body)" by (cases part)
  with Cons.prems have ok: "dash_free junk" "dash_free body" "body \<noteq> []" by auto
  have "pasted (part # parts) trailer = junk @ pem_block body @ pasted parts trailer" by (simp add: pasted_def p)
  then have "pem_blocks (pasted (part # parts) trailer) = pem_blocks (pem_block body @ pasted parts trailer)"
    using pem_blocks_junk [OF ok(1)] by simp
  also have "\<dots> = pem_block body # pem_blocks (pasted parts trailer)"
    by (subst pem_blocks.simps) (simp add: match_pem_block [OF ok(2,3)])
  finally show ?case using Cons p by simp
qed

lemma same_start_iff:
  "(\<forall>i < length xs. i < length ys \<and> f (xs ! i) = f (ys ! i)) \<longleftrightarrow> map f xs = take (length xs) (map f ys)"
proof
  assume all: "\<forall>i < length xs. i < length ys \<and> f (xs ! i) = f (ys ! i)"
  have "length xs \<le> length ys"
  proof (rule ccontr)
    assume "\<not> length xs \<le> length ys"
    then have "length ys < length xs" by simp
    with all have "length ys < length ys" by blast
    then show False by simp
  qed
  with all show "map f xs = take (length xs) (map f ys)" by (auto simp: list_eq_iff_nth_eq)
next
  assume eq: "map f xs = take (length xs) (map f ys)"
  show "\<forall>i < length xs. i < length ys \<and> f (xs ! i) = f (ys ! i)"
  proof (intro allI impI)
    fix i assume i: "i < length xs"
    have "length xs \<le> length ys" using arg_cong [OF eq, of length] by (simp add: min_def split: if_splits)
    then show "i < length ys \<and> f (xs ! i) = f (ys ! i)" using i arg_cong [OF eq, of "\<lambda>l. l ! i"] by simp
  qed
qed

lemma was_reordered_iff:
  "was_reordered certs chain \<longleftrightarrow>
     map cc_pem (filter (\<lambda>c. cc_pem c \<in> set (map cc_pem chain)) certs)
     \<noteq> take (length (filter (\<lambda>c. cc_pem c \<in> set (map cc_pem chain)) certs)) (map cc_pem chain)"
  unfolding was_reordered_def Let_def same_start_iff [symmetric] list_ex_iff by auto

subsection \<open>What the verdict means\<close>

lemma errors_empty_iff:
  "expiry_errors now chain = [] \<longleftrightarrow> (\<forall>c \<in> set chain. \<not> isExpired now c)"
  "ca_errors chain = [] \<longleftrightarrow> (\<forall>c \<in> set (tl chain). isCA c)"
  by (auto simp: expiry_errors_def ca_errors_def filter_empty_conv drop_Suc)

text \<open>\<^bold>\<open>C15\<close>: The verdict is exactly the stated policy: when the library builds a chain, the page calls it valid if and
  only if every certificate is inside its validity window, every certificate after the leaf carries the CA constraint and
  the last one is self-signed; it calls it incomplete exactly when the last one is not self-signed; and it reports a wrong
  order exactly when the pasted certificates that occur in the chain, in their pasted order, are not an initial part of it.
  When the library throws, the result is invalid, incomplete, and carries the library's message alone.\<close>

theorem chain_verdict:
  "case build certs (leaf_of certs) of
     Inl m \<Rightarrow> \<not> cr_valid (buildChain now build certs) \<and> cr_incomplete (buildChain now build certs)
              \<and> cr_errors (buildChain now build certs) = [m] \<and> cr_chain (buildChain now build certs) = certs
   | Inr chain \<Rightarrow>
       cr_chain (buildChain now build certs) = chain
       \<and> (cr_valid (buildChain now build certs) =
            (list_all (\<lambda>c. x_notBefore c \<le> now \<and> now \<le> x_notAfter c) chain \<and> list_all isCA (tl chain)
             \<and> (chain = [] \<or> x_issuer (last chain) = x_subject (last chain))))
       \<and> (cr_incomplete (buildChain now build certs) = (chain \<noteq> [] \<and> x_issuer (last chain) \<noteq> x_subject (last chain)))
       \<and> (cr_wasReordered (buildChain now build certs) =
            (map cc_pem (filter (\<lambda>c. cc_pem c \<in> set (map cc_pem chain)) certs)
             \<noteq> take (length (filter (\<lambda>c. cc_pem c \<in> set (map cc_pem chain)) certs)) (map cc_pem chain)))"
proof (cases "build certs (leaf_of certs)")
  case (Inl m)
  then show ?thesis by (simp add: buildChain_def)
next
  case (Inr chain)
  have exp: "list_all (\<lambda>c. x_notBefore c \<le> now \<and> now \<le> x_notAfter c) chain = (expiry_errors now chain = [])"
    by (auto simp: errors_empty_iff isExpired_def list_all_iff not_less)
  have ca: "list_all isCA (tl chain) = (ca_errors chain = [])" by (simp add: errors_empty_iff list_all_iff)
  have inc: "incomplete_chain chain = (chain \<noteq> [] \<and> x_issuer (last chain) \<noteq> x_subject (last chain))"
    by (simp add: incomplete_chain_def isSelfSigned_def)
  have "cr_valid (buildChain now build certs) =
      (expiry_errors now chain = [] \<and> ca_errors chain = [] \<and> \<not> incomplete_chain chain)"
    "cr_incomplete (buildChain now build certs) = incomplete_chain chain"
    "cr_wasReordered (buildChain now build certs) = was_reordered certs chain"
    "cr_chain (buildChain now build certs) = chain"
    by (simp_all add: buildChain_def Inr Let_def)
  then show ?thesis unfolding exp ca Inr sum.case was_reordered_iff inc by blast
qed

text \<open>\<^bold>\<open>C16\<close>: Scanning a pasted text ends on every input, and finds every certificate block exactly once and in order, whatever
  text stands before, between and after the blocks, provided neither the bodies nor that text contain a dash (base64
  never does): the certificates parsed are those of the blocks.\<close>

theorem pasted_certificates_found:
  assumes "\<forall>(junk, body) \<in> set parts. dash_free junk \<and> dash_free body \<and> body \<noteq> []" and "dash_free trailer"
  shows "parsePems parse (pasted parts trailer) = parse_all parse (map (pem_block \<circ> snd) parts)"
  by (simp add: parsePems_def pem_blocks_bundle [OF assms] comp_def case_prod_unfold)

theorem pasted_certificates_found_witness:
  "parsePems (\<lambda>_. Inl ''bad'') (pasted [(''leaf: '', ''MIIB''), ([], ''MIIC'')] ''done'') = Inl ''bad''"
  using pasted_certificates_found [of "[(''leaf: '', ''MIIB''), ([], ''MIIC'')]" "''done''" "\<lambda>_. Inl ''bad''"]
  by (simp add: dash_free_def)

end
