(* ===== verification/CertDiff.thy ===== *)
theory CertDiff
  imports CertUtils LibUtils "HOL-Library.Char_ord" "HOL-Library.List_Lexorder"
begin

section \<open>Comparing two certificates (\<open>pages/toolbox/CertDiffPage.tsx\<close>)\<close>

text \<open>
  The table of the comparison, the count of differences above it and the page. The decoder, the date format of the locale and
  the text of an extended key usage that is no string (a name inherited by every object) are parameters. Names are sorted by
  their bytes, the order of \<open>sort()\<close> except between characters outside and at the end of the basic plane.
\<close>

subsection \<open>Rows\<close>

datatype RowStatus = RowMatch | RowDiff | OnlyA | OnlyB

datatype side = SideA | SideB

datatype row_mark = Unmarked | Highlighted | Muted

fun rowBg :: "RowStatus \<Rightarrow> side \<Rightarrow> row_mark" where
  "rowBg RowMatch s = Unmarked"
| "rowBg RowDiff s = Highlighted"
| "rowBg OnlyA s = (if s = SideA then Highlighted else Muted)"
| "rowBg OnlyB s = (if s = SideB then Highlighted else Muted)"

definition row_status :: "string \<Rightarrow> string \<Rightarrow> RowStatus" where
  "row_status aVal bVal =
     (if aVal = [] \<and> bVal \<noteq> [] then OnlyB
      else if aVal \<noteq> [] \<and> bVal = [] then OnlyA
      else if aVal \<noteq> bVal then RowDiff else RowMatch)"

text \<open>A row has two cells, each with its mark and its value (an empty value is shown as a dash).\<close>

record diff_row =
  dr_label :: string
  dr_a :: "row_mark \<times> string"
  dr_b :: "row_mark \<times> string"

definition DiffRow :: "string \<Rightarrow> string option \<Rightarrow> string option \<Rightarrow> diff_row" where
  "DiffRow label a b =
     (let aVal = nullish a []; bVal = nullish b []; status = row_status aVal bVal in
      \<lparr>dr_label = label, dr_a = (rowBg status SideA, aVal), dr_b = (rowBg status SideB, bVal)\<rparr>)"

text \<open>Both columns list the names of both certificates; a column highlights those the other one lacks.\<close>

definition all_sans :: "(string \<times> string) list \<Rightarrow> (string \<times> string) list \<Rightarrow> string list" where
  "all_sans a b = sort (js_set_of (js_set_of (map snd a) @ js_set_of (map snd b)))"

definition SansDiffRow ::
  "(string \<times> string) list \<Rightarrow> (string \<times> string) list \<Rightarrow> ((string \<times> bool) list \<times> (string \<times> bool) list) option" where
  "SansDiffRow a b =
     (let allValues = all_sans a b in
      if length allValues = 0 then None
      else Some (map (\<lambda>v. (v, \<not> js_set_has (js_set_of (map snd b)) v)) allValues,
                 map (\<lambda>v. (v, \<not> js_set_has (js_set_of (map snd a)) v)) allValues))"

subsection \<open>The table\<close>

datatype table_item =
    SectionDivider string
  | RowItem diff_row
  | SansItem "(string \<times> bool) list" "(string \<times> bool) list"
  | NumberItem nat \<comment> \<open>a number among the children is rendered as text\<close>

definition dnVal :: "(string \<times> string list) list \<Rightarrow> string \<Rightarrow> string" where
  "dnVal dn key = (case map_of dn key of None \<Rightarrow> [] | Some vs \<Rightarrow> join '', '' vs)"

definition DN_label :: "string \<Rightarrow> string" where
  "DN_label f = (case obj_get DN_LABELS f of Own l \<Rightarrow> l | _ \<Rightarrow> f)"

definition dn_rows :: "(string \<times> string list) list \<Rightarrow> (string \<times> string list) list \<Rightarrow> table_item list" where
  "dn_rows a b =
     concat (map (\<lambda>f.
       (let av = dnVal a f; bv = dnVal b f in
        if av = [] \<and> bv = [] then [] else [RowItem (DiffRow (DN_label f) (or_undefined av) (or_undefined bv))])) DN_FIELDS)"

definition constraints_text :: "DecodedCert \<Rightarrow> string" where
  "constraints_text c =
     (if dec_isCA c
      then ''CA: true'' @ (case dec_pathLength c of None \<Rightarrow> [] | Some n \<Rightarrow> '', Path: '' @ show_int n)
      else ''CA: false'')"

definition eku_texts :: "string \<Rightarrow> DecodedCert \<Rightarrow> string list" where
  "eku_texts inherited c = map (\<lambda>v. case v of Own s \<Rightarrow> s | _ \<Rightarrow> inherited) (dec_extendedKeyUsages c)"

definition newline :: string where
  "newline = [CHR 0x0A]"

text \<open>\<open>(a.length || b.length) && rows\<close>: when both are empty the value is the number 0, which is rendered.\<close>

definition unless_zero :: "nat \<Rightarrow> table_item list \<Rightarrow> table_item list" where
  "unless_zero n rows = (if n = 0 then [NumberItem 0] else rows)"

definition DiffTable :: "(int \<Rightarrow> string) \<Rightarrow> string \<Rightarrow> DecodedCert \<Rightarrow> DecodedCert \<Rightarrow> table_item list" where
  "DiffTable fmtDate inherited a b =
     [SectionDivider ''Subject''] @ dn_rows (dec_subject a) (dec_subject b)
     @ [SectionDivider ''Issuer''] @ dn_rows (dec_issuer a) (dec_issuer b)
     @ [SectionDivider ''Validity'',
        RowItem (DiffRow ''Not Before'' (Some (fmtDate (dec_notBefore a))) (Some (fmtDate (dec_notBefore b)))),
        RowItem (DiffRow ''Not After'' (Some (fmtDate (dec_notAfter a))) (Some (fmtDate (dec_notAfter b)))),
        SectionDivider ''Certificate Details'',
        RowItem (DiffRow ''Serial Number'' (Some (dec_serialNumber a)) (Some (dec_serialNumber b))),
        RowItem (DiffRow ''Signature Algorithm'' (Some (dec_signatureAlgorithm a)) (Some (dec_signatureAlgorithm b))),
        RowItem (DiffRow ''Public Key'' (Some (dec_publicKeyInfo a)) (Some (dec_publicKeyInfo b))),
        SectionDivider ''Fingerprints'',
        RowItem (DiffRow ''SHA-256'' (Some (dec_sha256 a)) (Some (dec_sha256 b))),
        RowItem (DiffRow ''SHA-1'' (Some (dec_sha1 a)) (Some (dec_sha1 b))),
        SectionDivider ''Subject Alternative Names'']
     @ (case SansDiffRow (dec_sans a) (dec_sans b) of None \<Rightarrow> [] | Some (x, y) \<Rightarrow> [SansItem x y])
     @ [SectionDivider ''Key Usage'',
        RowItem (DiffRow ''Key Usage'' (or_undefined (join '', '' (dec_keyUsages a))) (or_undefined (join '', '' (dec_keyUsages b)))),
        RowItem (DiffRow ''Extended Key Usage'' (or_undefined (join '', '' (eku_texts inherited a)))
          (or_undefined (join '', '' (eku_texts inherited b)))),
        SectionDivider ''Extensions'',
        RowItem (DiffRow ''Basic Constraints'' (Some (constraints_text a)) (Some (constraints_text b)))]
     @ (if truthy (dec_subjectKeyId a) \<or> truthy (dec_subjectKeyId b)
        then [RowItem (DiffRow ''Subject Key Identifier'' (dec_subjectKeyId a) (dec_subjectKeyId b))] else [])
     @ (if truthy (dec_authorityKeyId a) \<or> truthy (dec_authorityKeyId b)
        then [RowItem (DiffRow ''Authority Key Identifier'' (dec_authorityKeyId a) (dec_authorityKeyId b))] else [])
     @ unless_zero (if length (dec_ocspUrls a) \<noteq> 0 then length (dec_ocspUrls a) else length (dec_ocspUrls b))
         [SectionDivider ''Authority Info Access'',
          RowItem (DiffRow ''OCSP'' (or_undefined (join newline (dec_ocspUrls a))) (or_undefined (join newline (dec_ocspUrls b)))),
          RowItem (DiffRow ''CA Issuers'' (or_undefined (join newline (dec_caIssuerUrls a)))
            (or_undefined (join newline (dec_caIssuerUrls b))))]
     @ unless_zero (if length (dec_crlUrls a) \<noteq> 0 then length (dec_crlUrls a) else length (dec_crlUrls b))
         [SectionDivider ''CRL Distribution Points'',
          RowItem (DiffRow ''CRL URLs'' (or_undefined (join newline (dec_crlUrls a))) (or_undefined (join newline (dec_crlUrls b))))]"

subsection \<open>The count of differences\<close>

text \<open>The outcome of each \<open>check\<close>; of two valid dates the ISO texts are equal exactly when the instants are.\<close>

definition checks :: "string \<Rightarrow> DecodedCert \<Rightarrow> DecodedCert \<Rightarrow> bool list" where
  "checks inherited a b =
     concat (map (\<lambda>f. [dnVal (dec_subject a) f \<noteq> dnVal (dec_subject b) f, dnVal (dec_issuer a) f \<noteq> dnVal (dec_issuer b) f])
       DN_FIELDS)
     @ [dec_notBefore a \<noteq> dec_notBefore b, dec_notAfter a \<noteq> dec_notAfter b,
        dec_serialNumber a \<noteq> dec_serialNumber b, dec_signatureAlgorithm a \<noteq> dec_signatureAlgorithm b,
        dec_publicKeyInfo a \<noteq> dec_publicKeyInfo b, dec_sha256 a \<noteq> dec_sha256 b,
        join '','' (dec_keyUsages a) \<noteq> join '','' (dec_keyUsages b),
        join '','' (eku_texts inherited a) \<noteq> join '','' (eku_texts inherited b)]"

definition sans_differ :: "(string \<times> string) list \<Rightarrow> (string \<times> string) list \<Rightarrow> bool" where
  "sans_differ a b \<longleftrightarrow>
     (let aSet = js_set_of (map snd a); bSet = js_set_of (map snd b)
      in list_ex (\<lambda>v. \<not> js_set_has bSet v) aSet \<or> list_ex (\<lambda>v. \<not> js_set_has aSet v) bSet)"

definition diffCount :: "string \<Rightarrow> DecodedCert \<Rightarrow> DecodedCert \<Rightarrow> nat" where
  "diffCount inherited a b =
     length (filter (\<lambda>d. d) (checks inherited a b)) + (if sans_differ (dec_sans a) (dec_sans b) then 1 else 0)"

text \<open>The badge: the noun without the number.\<close>

definition diff_badge :: "nat \<Rightarrow> string" where
  "diff_badge differences = (if differences = 0 then ''Identical'' else plural (int differences) ''difference'' None)"

subsection \<open>The page\<close>

record diff_page =
  df_pemA :: string
  df_pemB :: string
  df_certA :: "DecodedCert option"
  df_certB :: "DecodedCert option"
  df_errorA :: "string option"
  df_errorB :: "string option"
  df_loading :: bool

definition diff_page_init :: diff_page where
  "diff_page_init =
     \<lparr>df_pemA = [], df_pemB = [], df_certA = None, df_certB = None, df_errorA = None, df_errorB = None, df_loading = False\<rparr>"

text \<open>
  \<open>handleCompare\<close> at its \<open>await\<close>: the state while both texts are decoded, and the state afterwards. A decoder that throws gives the
  message of the error, or nothing when what is thrown is no \<open>Error\<close>.
\<close>

definition compare_start :: "diff_page \<Rightarrow> diff_page" where
  "compare_start p = p\<lparr>df_certA := None, df_certB := None, df_errorA := None, df_errorB := None, df_loading := True\<rparr>"

definition compare_finish :: "string option + DecodedCert \<Rightarrow> string option + DecodedCert \<Rightarrow> diff_page \<Rightarrow> diff_page" where
  "compare_finish resA resB p =
     (let pA = (case resA of
          Inr c \<Rightarrow> p\<lparr>df_certA := Some c\<rparr>
        | Inl m \<Rightarrow> p\<lparr>df_errorA := Some (nullish m ''Failed to parse Certificate A'')\<rparr>);
          pB = (case resB of
          Inr c \<Rightarrow> pA\<lparr>df_certB := Some c\<rparr>
        | Inl m \<Rightarrow> pA\<lparr>df_errorB := Some (nullish m ''Failed to parse Certificate B'')\<rparr>)
      in pB\<lparr>df_loading := False\<rparr>)"

definition handleCompare :: "(string \<Rightarrow> string option + DecodedCert) \<Rightarrow> diff_page \<Rightarrow> diff_page" where
  "handleCompare decode p = compare_finish (decode (df_pemA p)) (decode (df_pemB p)) (compare_start p)"

definition handleClear :: "diff_page \<Rightarrow> diff_page" where
  "handleClear p = p\<lparr>df_pemA := [], df_pemB := [], df_certA := None, df_certB := None, df_errorA := None, df_errorB := None\<rparr>"

definition typed_A :: "string \<Rightarrow> diff_page \<Rightarrow> diff_page" where
  "typed_A v p = p\<lparr>df_pemA := v, df_certA := None, df_errorA := None\<rparr>"

definition typed_B :: "string \<Rightarrow> diff_page \<Rightarrow> diff_page" where
  "typed_B v p = p\<lparr>df_pemB := v, df_certB := None, df_errorB := None\<rparr>"

definition canCompare :: "diff_page \<Rightarrow> bool" where
  "canCompare p \<longleftrightarrow> 0 < length (trim (df_pemA p)) \<and> 0 < length (trim (df_pemB p))"

definition differences :: "string \<Rightarrow> diff_page \<Rightarrow> nat option" where
  "differences inherited p =
     (case (df_certA p, df_certB p) of (Some a, Some b) \<Rightarrow> Some (diffCount inherited a b) | _ \<Rightarrow> None)"

text \<open>The result: the badge and the table, when both certificates are there.\<close>

definition diff_result :: "(int \<Rightarrow> string) \<Rightarrow> string \<Rightarrow> diff_page \<Rightarrow> (string \<times> table_item list) option" where
  "diff_result fmtDate inherited p =
     (case (df_certA p, df_certB p) of
        (Some a, Some b) \<Rightarrow> Some (diff_badge (diffCount inherited a b), DiffTable fmtDate inherited a b)
      | _ \<Rightarrow> None)"

subsection \<open>Identical certificates\<close>

fun unmarked_item :: "table_item \<Rightarrow> bool" where
  "unmarked_item (RowItem r) \<longleftrightarrow> fst (dr_a r) = Unmarked \<and> fst (dr_b r) = Unmarked"
| "unmarked_item (SansItem x y) \<longleftrightarrow> list_all (\<lambda>(_, m). \<not> m) x \<and> list_all (\<lambda>(_, m). \<not> m) y"
| "unmarked_item _ \<longleftrightarrow> True"

lemma row_unmarked: "unmarked_item (RowItem (DiffRow label a b)) \<longleftrightarrow> nullish a [] = nullish b []"
  by (simp add: DiffRow_def row_status_def Let_def)

lemma sans_unmarked: "SansDiffRow s s = Some (x, y) \<Longrightarrow> unmarked_item (SansItem x y)"
  by (auto simp: SansDiffRow_def all_sans_def list_all_iff js_set_has_def set_js_set_of Let_def split: if_splits)

lemma table_same: "list_all unmarked_item (DiffTable fmt inherited a a)"
proof -
  have dn: "list_all unmarked_item (dn_rows x x)" for x
    by (auto simp: dn_rows_def list_all_iff row_unmarked Let_def simp del: unmarked_item.simps split: if_splits)
  have sans: "list_all unmarked_item (case SansDiffRow s s of None \<Rightarrow> [] | Some (x, y) \<Rightarrow> [SansItem x y])" for s
    using sans_unmarked [of s] by (auto split: option.splits)
  show ?thesis
    unfolding DiffTable_def list_all_append
    by (intro conjI dn sans) (simp_all add: unless_zero_def row_unmarked del: unmarked_item.simps(1))
qed

lemma diffCount_same: "diffCount inherited a a = 0"
  by (auto simp: diffCount_def checks_def sans_differ_def list_ex_iff js_set_has_def Let_def filter_empty_conv)

lemma diffCount_zero:
  assumes "dec_sha256 a = dec_sha256 b \<Longrightarrow> a = b"
  shows "diffCount inherited a b = 0 \<longleftrightarrow> a = b"
proof
  assume "diffCount inherited a b = 0"
  then have "\<forall>d \<in> set (checks inherited a b). \<not> d" by (auto simp: diffCount_def filter_empty_conv)
  then have "dec_sha256 a = dec_sha256 b" by (simp add: checks_def)
  then show "a = b" by (rule assms)
qed (simp add: diffCount_same)

lemma table_unmarked:
  assumes "dec_sha256 a = dec_sha256 b \<Longrightarrow> a = b"
  shows "list_all unmarked_item (DiffTable fmt inherited a b) \<longleftrightarrow> a = b"
proof
  assume "list_all unmarked_item (DiffTable fmt inherited a b)"
  then have "unmarked_item (RowItem (DiffRow ''SHA-256'' (Some (dec_sha256 a)) (Some (dec_sha256 b))))"
    unfolding DiffTable_def by (simp del: unmarked_item.simps)
  then have "dec_sha256 a = dec_sha256 b" by (simp add: row_unmarked del: unmarked_item.simps)
  then show "a = b" by (rule assms)
qed (simp add: table_same)

text \<open>The badge and the table agree on what identical means. When a comparison ends with both texts decoded, to two
  certificates whose SHA-256 fingerprints only agree if the certificates do, the page shows a result; its badge says Identical
  exactly when they are the same certificate, and that is exactly when no cell of the table is marked.\<close>

lemma diff_identical_iff_unmarked:
  assumes "dec_sha256 a = dec_sha256 b \<longrightarrow> a = b" and "decode (df_pemA p) = Inr a" and "decode (df_pemB p) = Inr b"
  shows "\<exists>badge table. diff_result fmt inherited (handleCompare decode p) = Some (badge, table)
      \<and> (badge = ''Identical'' \<longleftrightarrow> a = b) \<and> (list_all unmarked_item table \<longleftrightarrow> a = b)"
proof -
  have "diff_badge n = ''Identical'' \<longleftrightarrow> n = 0" for n by (simp add: diff_badge_def plural_def)
  then show ?thesis
    using assms diffCount_zero [of a b inherited] table_unmarked [of a b fmt inherited]
    by (simp add: diff_result_def handleCompare_def compare_finish_def Let_def)
qed

definition example_decoded :: DecodedCert where
  "example_decoded = decoded documented_flag 2000 example_cert"

lemma diff_identical_iff_unmarked_witness:
  "\<exists>badge table. diff_result (\<lambda>_. []) [] (handleCompare (\<lambda>_. Inr example_decoded) diff_page_init) = Some (badge, table)
     \<and> badge = ''Identical'' \<and> list_all unmarked_item table"
  using diff_identical_iff_unmarked [of example_decoded example_decoded "\<lambda>_. Inr example_decoded" diff_page_init]
  by simp

text \<open>When a text does not decode, its error is shown and there is no result.\<close>

lemma failed_side_shown:
  "decode (df_pemA p) = Inl m \<Longrightarrow>
     diff_result fmt inherited (handleCompare decode p) = None \<and> df_errorA (handleCompare decode p) \<noteq> None"
  "decode (df_pemB p) = Inl m \<Longrightarrow>
     diff_result fmt inherited (handleCompare decode p) = None \<and> df_errorB (handleCompare decode p) \<noteq> None"
  by (simp_all add: diff_result_def handleCompare_def compare_finish_def compare_start_def Let_def
      split: sum.split option.split)

text \<open>
  The table of two certificates without URLs ends with two stray zeros; the column of a certificate lists, unmarked, names it
  does not have; and the badge of several differences does not say how many.
\<close>

lemma stray_zeros:
  "take 2 (rev (DiffTable fmt inherited example_decoded example_decoded)) = [NumberItem 0, NumberItem 0]"
proof -
  have "dec_ocspUrls example_decoded = []" "dec_crlUrls example_decoded = []"
    by (simp_all add: example_decoded_def decoded_def example_cert_def crl_urls_def)
  then show ?thesis by (simp add: DiffTable_def unless_zero_def)
qed

lemma foreign_name_listed: "SansDiffRow [] [(''dns'', ''b.test'')] = Some ([(''b.test'', False)], [(''b.test'', True)])"
  by code_simp

lemma badge_without_number: "diff_badge 3 = ''differences''"
  by code_simp

text \<open>Differences that the count leaves out are still marked in the table: it ignores the constraints, key identifiers and URLs.\<close>

lemma uncounted_difference:
  "checks inherited a (a\<lparr>dec_isCA := \<not> dec_isCA a\<rparr>) = checks inherited a a
   \<and> constraints_text (a\<lparr>dec_isCA := \<not> dec_isCA a\<rparr>) \<noteq> constraints_text a"
  by (simp add: checks_def eku_texts_def constraints_text_def)

text \<open>A text that is changed while it is being decoded is compared as it was before.\<close>

lemma stale_comparison:
  "df_pemA (compare_finish (Inr old) r (typed_A v (compare_start p))) = v
   \<and> df_certA (compare_finish (Inr old) r (typed_A v (compare_start p))) = Some old"
  by (simp add: compare_finish_def typed_A_def Let_def split: sum.split)

end
