(* ===== verification/FormDialog.thy ===== *)
theory FormDialog
  imports Async
begin

section \<open>Dialogs that save something\<close>

text \<open>
  The settings pages share one pattern: a dialog with its own state, a \<open>handleSubmit\<close> that validates, marks itself as
  submitting, awaits a request and then either tells the page (\<open>onSaved\<close>, \<open>onClose\<close>) or shows the error, and a page
  that opens and closes it. Most of them can be dismissed at any time (Escape, a click outside), also while a request is
  under way, and the second half of \<open>handleSubmit\<close> then still runs. This theory holds the page side of the pattern (\<open>form_step\<close>) and the
  contract of such a dialog (the locale \<open>form_dialog\<close>), which the theories of the pages interpret for each of their dialogs.
\<close>

subsection \<open>A dialog on its page\<close>

text \<open>
  The operations of one dialog. \<open>fo_open\<close> gives its state after the page has opened it; a dialog with a \<open>key\<close> of its own
  (\<open>fo_keyed\<close>) is mounted anew then. \<open>fo_submit\<close> is the part of \<open>handleSubmit\<close> before its \<open>try\<close> block: whether the block
  is entered, and the new state. \<open>fo_body\<close> is the block, for the state the handler has captured and the answers of the server;
  \<open>fo_finish\<close> is what \<open>catch\<close> and \<open>finally\<close> do to the state. \<open>fo_enter\<close> says whether the Enter key calls
  \<open>handleSubmit\<close> past the disabled button, \<open>fo_locked\<close> whether the dialog ignores being dismissed.
\<close>

record ('d, 't, 'e, 'a, 'v) form_ops =
  fo_keyed :: bool
  fo_enter :: bool
  fo_locked :: "'d \<Rightarrow> bool"
  fo_open :: "'t \<Rightarrow> 'd \<Rightarrow> 'd"
  fo_close :: "'d \<Rightarrow> 'd"
  fo_edit :: "'e \<Rightarrow> 'd \<Rightarrow> 'd"
  fo_busy :: "'d \<Rightarrow> bool"
  fo_error :: "'d \<Rightarrow> string option"
  fo_submit :: "'d \<Rightarrow> bool \<times> 'd"
  fo_body :: "'d \<Rightarrow> 'a \<Rightarrow> 'v io"
  fo_finish :: "js_exn + 'v \<Rightarrow> 'd \<Rightarrow> 'd"

text \<open>
  The mounted instance of the dialog and its number, whether it is open, the handler runs under way (the instance that
  started them and the state they captured), how many have been started, have succeeded and have failed, the session and the
  requests made.
\<close>

record 'd form_world =
  fw_dialog :: 'd
  fw_open :: bool
  fw_instance :: nat
  fw_pending :: "(nat \<times> 'd) list"
  fw_started :: nat
  fw_saved :: nat
  fw_failed :: nat
  fw_client :: client
  fw_calls :: "http_call list"

datatype ('t, 'e, 'a) form_event =
    FormOpened 't
  | FormEdited 'e
  | SubmitPressed
  | EnterPressed
  | FormAnswered nat 'a
  | FormClosed

definition form_start :: "'d \<Rightarrow> client \<Rightarrow> 'd form_world" where
  "form_start d c =
     \<lparr>fw_dialog = d, fw_open = False, fw_instance = 0, fw_pending = [], fw_started = 0, fw_saved = 0, fw_failed = 0,
      fw_client = c, fw_calls = []\<rparr>"

definition form_submit :: "('d, 't, 'e, 'a, 'v) form_ops \<Rightarrow> 'd form_world \<Rightarrow> 'd form_world" where
  "form_submit ops w =
     (case fo_submit ops (fw_dialog w) of
        (False, d) \<Rightarrow> w\<lparr>fw_dialog := d\<rparr>
      | (True, d) \<Rightarrow>
          w\<lparr>fw_dialog := d, fw_pending := fw_pending w @ [(fw_instance w, fw_dialog w)], fw_started := Suc (fw_started w)\<rparr>)"

text \<open>The end of a handler run: the state of its own instance, if still mounted, and the page, whichever instance is open.\<close>

definition form_answer :: "('d, 't, 'e, 'a, 'v) form_ops \<Rightarrow> nat \<Rightarrow> 'a \<Rightarrow> 'd form_world \<Rightarrow> 'd form_world" where
  "form_answer ops i a w =
     (case fw_pending w ! i of
        (n, d0) \<Rightarrow>
          (case fo_body ops d0 a (fw_client w) of
             (ks, c, r) \<Rightarrow>
               let d1 = (if n = fw_instance w then fo_finish ops r (fw_dialog w) else fw_dialog w);
                   w1 = w\<lparr>fw_pending := take i (fw_pending w) @ drop (Suc i) (fw_pending w), fw_client := c,
                          fw_calls := fw_calls w @ ks\<rparr>
               in (case r of
                     Inr v \<Rightarrow> w1\<lparr>fw_dialog := fo_close ops d1, fw_open := False, fw_saved := Suc (fw_saved w)\<rparr>
                   | Inl e \<Rightarrow> w1\<lparr>fw_dialog := d1, fw_failed := Suc (fw_failed w)\<rparr>)))"

fun form_step :: "('d, 't, 'e, 'a, 'v) form_ops \<Rightarrow> ('t, 'e, 'a) form_event \<Rightarrow> 'd form_world \<Rightarrow> 'd form_world" where
  "form_step ops (FormOpened t) w =
     (if fw_open w then w
      else w\<lparr>fw_open := True, fw_dialog := fo_open ops t (fw_dialog w),
             fw_instance := (if fo_keyed ops then Suc (fw_instance w) else fw_instance w)\<rparr>)"
| "form_step ops (FormEdited e) w = (if fw_open w then w\<lparr>fw_dialog := fo_edit ops e (fw_dialog w)\<rparr> else w)"
| "form_step ops SubmitPressed w = (if fw_open w \<and> \<not> fo_busy ops (fw_dialog w) then form_submit ops w else w)"
| "form_step ops EnterPressed w = (if fw_open w \<and> fo_enter ops then form_submit ops w else w)"
| "form_step ops (FormAnswered i a) w = (if i < length (fw_pending w) then form_answer ops i a w else w)"
| "form_step ops FormClosed w =
     (if fw_open w \<and> \<not> fo_locked ops (fw_dialog w)
      then w\<lparr>fw_open := False, fw_dialog := fo_close ops (fw_dialog w)\<rparr> else w)"

definition form_run ::
  "('d, 't, 'e, 'a, 'v) form_ops \<Rightarrow> ('t, 'e, 'a) form_event list \<Rightarrow> 'd form_world \<Rightarrow> 'd form_world" where
  "form_run ops events w = fold (form_step ops) events w"

subsection \<open>The contract\<close>

text \<open>
  Every run is accounted for, and a dialog that refuses to submit is waiting for an answer; and, where the button is the only way to
  submit, an instance has at most one run under way.
\<close>

definition form_accounted :: "('d, 't, 'e, 'a, 'v) form_ops \<Rightarrow> 'd form_world \<Rightarrow> bool" where
  "form_accounted ops w \<longleftrightarrow>
     fw_started w = length (fw_pending w) + fw_saved w + fw_failed w
     \<and> (fo_busy ops (fw_dialog w) \<longrightarrow> fw_instance w \<in> fst ` set (fw_pending w))
     \<and> (\<forall>n \<in> fst ` set (fw_pending w). n \<le> fw_instance w)"

definition one_at_a_time :: "('d, 't, 'e, 'a, 'v) form_ops \<Rightarrow> 'd form_world \<Rightarrow> bool" where
  "one_at_a_time ops w \<longleftrightarrow>
     distinct (map fst (fw_pending w)) \<and> (fw_instance w \<in> fst ` set (fw_pending w) \<longrightarrow> fo_busy ops (fw_dialog w))"

text \<open>
  After any run of a dialog on its page every submit is under way or counted once, and once the requests under way are
  answered, in whatever way, the dialog can be submitted again.
\<close>

definition dialog_recovers :: "('d, 't, 'e, 'a, 'v) form_ops \<Rightarrow> 'd \<Rightarrow> bool" where
  "dialog_recovers ops d \<longleftrightarrow>
     (\<forall>events c answers. let w = form_run ops events (form_start d c) in
        fw_started w = length (fw_pending w) + fw_saved w + fw_failed w
        \<and> (length (fw_pending w) \<le> length answers \<longrightarrow>
             \<not> fo_busy ops (fw_dialog (form_run ops (map (FormAnswered 0) answers) w))))"

lemma form_answer_effect:
  "fw_pending (form_answer ops i a w) = take i (fw_pending w) @ drop (Suc i) (fw_pending w)"
  "fw_calls (form_answer ops i a w) = fw_calls w @ io_calls (fo_body ops (snd (fw_pending w ! i)) a) (fw_client w)"
  "fw_client (form_answer ops i a w) = io_client (fo_body ops (snd (fw_pending w ! i)) a) (fw_client w)"
  "fw_saved (form_answer ops i a w) =
     fw_saved w + (case io_result (fo_body ops (snd (fw_pending w ! i)) a) (fw_client w) of Inr _ \<Rightarrow> 1 | Inl _ \<Rightarrow> 0)"
  by (simp_all add: form_answer_def Let_def split: prod.split sum.split)

lemma set_without: "i < length xs \<Longrightarrow> set (take i xs @ drop (Suc i) xs) \<subseteq> set xs"
  using set_take_subset [of i xs] set_drop_subset [of "Suc i" xs] by auto

lemma fst_without: "i < length xs \<Longrightarrow> fst (xs ! i) \<noteq> n \<Longrightarrow> n \<in> fst ` set xs \<Longrightarrow>
    n \<in> fst ` set (take i xs @ drop (Suc i) xs)"
proof -
  assume i: "i < length xs" and n: "fst (xs ! i) \<noteq> n" "n \<in> fst ` set xs"
  have "set xs = set (take i xs @ xs ! i # drop (Suc i) xs)" using id_take_nth_drop [OF i] by simp
  with n show ?thesis by auto
qed

lemma distinct_without:
  assumes "i < length xs" and "distinct (map fst xs)"
  shows "distinct (map fst (take i xs @ drop (Suc i) xs)) \<and> fst (xs ! i) \<notin> fst ` set (take i xs @ drop (Suc i) xs)"
proof -
  have "map fst xs = map fst (take i xs) @ fst (xs ! i) # map fst (drop (Suc i) xs)"
    using id_take_nth_drop [OF assms(1)] by (metis list.simps(9) map_append)
  with assms(2) show ?thesis by auto
qed

text \<open>An error whose text is not empty: an empty one is kept in the state but nothing is rendered for it.\<close>

fun visible_error :: "js_exn \<Rightarrow> bool" where
  "visible_error (ApiError _ m) \<longleftrightarrow> m \<noteq> []"
| "visible_error (OtherError _) \<longleftrightarrow> True"

lemma api_message_visible [simp]: "fallback \<noteq> [] \<Longrightarrow> visible_error err \<Longrightarrow> api_message fallback err \<noteq> []"
  by (cases err) auto

locale form_dialog =
  fixes ops :: "('d, 't, 'e, 'a, 'v) form_ops"
  assumes edit_busy: "fo_busy ops (fo_edit ops e d) = fo_busy ops d"
    and close_busy: "fo_busy ops (fo_close ops d) = fo_busy ops d"
    and open_busy: "fo_busy ops (fo_open ops t d) = (\<not> fo_keyed ops \<and> fo_busy ops d)"
    and submit_started: "fo_submit ops d = (True, d') \<Longrightarrow> fo_busy ops d' \<and> \<not> truthy (fo_error ops d')"
    and submit_refused: "fo_submit ops d = (False, d') \<Longrightarrow> fo_busy ops d' = fo_busy ops d"
    and finish_idle: "\<not> fo_busy ops (fo_finish ops r d)"
    and finish_error: "visible_error err \<Longrightarrow> truthy (fo_error ops (fo_finish ops (Inl err) d))"
begin

lemma accounted_submit: "form_accounted ops w \<Longrightarrow> form_accounted ops (form_submit ops w)"
  by (auto simp: form_submit_def form_accounted_def submit_refused split: prod.splits bool.splits)

lemma answer_pending:
  "fw_pending (form_answer ops i a w) = take i (fw_pending w) @ drop (Suc i) (fw_pending w)"
  "fw_instance (form_answer ops i a w) = fw_instance w" "fw_started (form_answer ops i a w) = fw_started w"
  "fw_saved (form_answer ops i a w) + fw_failed (form_answer ops i a w) = Suc (fw_saved w + fw_failed w)"
  by (simp_all add: form_answer_def Let_def split: prod.split sum.split)

lemma answer_busy:
  "fo_busy ops (fw_dialog (form_answer ops i a w)) =
     (fst (fw_pending w ! i) \<noteq> fw_instance w \<and> fo_busy ops (fw_dialog w))"
  by (auto simp: form_answer_def Let_def close_busy finish_idle split: prod.split sum.split)

lemma accounted_answer:
  assumes "form_accounted ops w" and i: "i < length (fw_pending w)"
  shows "form_accounted ops (form_answer ops i a w)"
proof -
  have "fw_started w = length (fw_pending w) + fw_saved w + fw_failed w" using assms(1) by (simp add: form_accounted_def)
  moreover have "length (take i (fw_pending w) @ drop (Suc i) (fw_pending w)) = length (fw_pending w) - 1" using i by simp
  ultimately have "fw_started (form_answer ops i a w) = length (fw_pending (form_answer ops i a w))
      + fw_saved (form_answer ops i a w) + fw_failed (form_answer ops i a w)"
    unfolding answer_pending(1,3) using i answer_pending(4) [of i a w] by linarith
  moreover have "fo_busy ops (fw_dialog (form_answer ops i a w)) \<longrightarrow>
      fw_instance (form_answer ops i a w) \<in> fst ` set (fw_pending (form_answer ops i a w))"
    unfolding answer_busy answer_pending using assms fst_without [OF i] by (auto simp: form_accounted_def)
  moreover have "\<forall>n \<in> fst ` set (fw_pending (form_answer ops i a w)). n \<le> fw_instance (form_answer ops i a w)"
    unfolding answer_pending using assms(1) set_without [OF i] unfolding form_accounted_def by blast
  ultimately show ?thesis by (simp only: form_accounted_def)
qed

lemma accounted_step: "form_accounted ops w \<Longrightarrow> form_accounted ops (form_step ops ev w)"
proof (cases ev)
  case (FormOpened t)
  assume "form_accounted ops w"
  then show ?thesis unfolding FormOpened by (auto simp: form_accounted_def open_busy le_Suc_eq)
next
  case (FormEdited e)
  assume "form_accounted ops w"
  then show ?thesis unfolding FormEdited by (simp add: form_accounted_def edit_busy)
next
  case FormClosed
  assume "form_accounted ops w"
  then show ?thesis unfolding FormClosed by (simp add: form_accounted_def close_busy)
qed (simp_all add: accounted_submit accounted_answer)

lemma accounted_run: "\<not> fo_busy ops d \<Longrightarrow> form_accounted ops (form_run ops events (form_start d c))"
proof -
  assume "\<not> fo_busy ops d"
  then have "form_accounted ops (form_start d c)" by (simp add: form_accounted_def form_start_def)
  then show ?thesis unfolding form_run_def
    by (induction events arbitrary: "d" rule: rev_induct) (simp_all add: accounted_step)
qed

text \<open>Once every run under way is answered, whatever the answers, the dialog takes a submit again.\<close>

lemma settled_idle:
  assumes "form_accounted ops w"
  shows "\<not> fo_busy ops (fw_dialog (form_run ops (map (FormAnswered 0) answers) w))
    \<or> length answers < length (fw_pending w)"
  using assms
proof (induction answers arbitrary: w)
  case Nil
  then show ?case by (auto simp: form_run_def form_accounted_def)
next
  case (Cons a answers)
  show ?case
  proof (cases "fw_pending w")
    case Nil
    then have "form_step ops (FormAnswered 0 a) w = w" by simp
    with Cons.IH [OF Cons.prems] Nil show ?thesis by (simp add: form_run_def)
  next
    case (Cons p ps)
    then have step: "form_step ops (FormAnswered 0 a) w = form_answer ops 0 a w" by simp
    have "length (fw_pending (form_answer ops 0 a w)) = length ps" by (simp add: answer_pending Cons)
    then show ?thesis
      using Cons.IH [OF accounted_answer [OF Cons.prems, of 0 a]] Cons by (simp add: form_run_def step)
  qed
qed

lemma recovers: "\<not> fo_busy ops d \<Longrightarrow> dialog_recovers ops d"
proof -
  assume "\<not> fo_busy ops d"
  then have a: "form_accounted ops (form_run ops events (form_start d c))" for events c by (rule accounted_run)
  have "\<not> fo_busy ops (fw_dialog (form_run ops (map (FormAnswered 0) answers) (form_run ops events (form_start d c))))"
    if "length (fw_pending (form_run ops events (form_start d c))) \<le> length answers" for events c answers
    using settled_idle [OF a, of answers events c] that by simp
  moreover have "fw_started w = length (fw_pending w) + fw_saved w + fw_failed w"
    if "w = form_run ops events (form_start d c)" for w events c
    using a [of events c] that by (simp add: form_accounted_def)
  ultimately show ?thesis unfolding dialog_recovers_def Let_def by blast
qed

text \<open>An answer reports to the page, whichever instance is open, exactly when the body has not thrown.\<close>

lemma answer_reports:
  assumes "i < length (fw_pending w)"
    and "io_result (fo_body ops (snd (fw_pending w ! i)) a) (fw_client w) = r"
  shows "fw_saved (form_step ops (FormAnswered i a) w) = fw_saved w + (case r of Inr _ \<Rightarrow> 1 | Inl _ \<Rightarrow> 0)"
    and "fw_open (form_step ops (FormAnswered i a) w) = (case r of Inr _ \<Rightarrow> False | Inl _ \<Rightarrow> fw_open w)"
    and "r = Inl err \<Longrightarrow> visible_error err \<Longrightarrow> fst (fw_pending w ! i) = fw_instance w \<Longrightarrow>
      truthy (fo_error ops (fw_dialog (form_step ops (FormAnswered i a) w)))"
  using assms by (auto simp: form_answer_def Let_def finish_error split: prod.splits sum.splits)

end

text \<open>A dialog that is submitted by its button alone.\<close>

locale guarded_dialog = form_dialog +
  assumes no_enter: "\<not> fo_enter ops"
begin

lemma one_submit:
  assumes "one_at_a_time ops w" and "\<not> fo_busy ops (fw_dialog w)"
  shows "one_at_a_time ops (form_submit ops w)"
  using assms
  by (auto simp: form_submit_def one_at_a_time_def submit_started submit_refused split: prod.splits bool.splits)

lemma one_answer:
  assumes one: "one_at_a_time ops w" and i: "i < length (fw_pending w)"
  shows "one_at_a_time ops (form_answer ops i a w)"
proof -
  have d: "distinct (map fst (fw_pending w))" using one by (simp add: one_at_a_time_def)
  have "fw_instance w \<in> fst ` set (take i (fw_pending w) @ drop (Suc i) (fw_pending w)) \<longrightarrow>
      fst (fw_pending w ! i) \<noteq> fw_instance w \<and> fo_busy ops (fw_dialog w)"
    using distinct_without [OF i d] image_mono [OF set_without [OF i], of fst] one unfolding one_at_a_time_def
    by (metis subsetD)
  then show ?thesis
    using distinct_without [OF i d] by (simp only: one_at_a_time_def answer_pending answer_busy)
qed

lemma one_step:
  "form_accounted ops w \<Longrightarrow> one_at_a_time ops w \<Longrightarrow> one_at_a_time ops (form_step ops ev w)"
proof (cases ev)
  case (FormOpened t)
  assume "form_accounted ops w"
  then have "Suc (fw_instance w) \<notin> fst ` set (fw_pending w)" by (auto simp: form_accounted_def)
  moreover assume "one_at_a_time ops w"
  ultimately show ?thesis unfolding FormOpened by (simp add: one_at_a_time_def open_busy)
next
  case (FormEdited e)
  assume "one_at_a_time ops w"
  then show ?thesis unfolding FormEdited by (simp add: one_at_a_time_def edit_busy)
next
  case FormClosed
  assume "one_at_a_time ops w"
  then show ?thesis unfolding FormClosed by (simp add: one_at_a_time_def close_busy)
qed (simp_all add: one_submit one_answer no_enter)

lemma one_run: "\<not> fo_busy ops d \<Longrightarrow> one_at_a_time ops (form_run ops events (form_start d c))"
proof (induction events rule: rev_induct)
  case Nil
  then show ?case by (simp add: one_at_a_time_def form_run_def form_start_def)
next
  case (snoc ev events)
  then show ?case using one_step [OF accounted_run [OF snoc.prems]] by (simp add: form_run_def)
qed

end

end
