(* ===== verification/UserSettings.thy ===== *)
theory UserSettings
  imports FormDialog ApiCalls ListParts
begin

section \<open>Managing users (\<open>pages/settings/UsersPage.tsx\<close>)\<close>

text \<open>
  The four dialogs of the page (add or edit a user, change a password, delete, reset the second factor), each with its
  validation, its request and its error handling, and the page: filters, list requests, the row menus and their
  permissions. Each dialog interprets the contract of \<open>FormDialog\<close>. Forms are only submitted when the browser's own
  checks (\<open>required\<close>, \<open>type="email"\<close>) pass; they are not needed for what is proved here.
\<close>

subsection \<open>Badges\<close>

definition ROLE_LABEL :: "(string \<times> string) list" where
  "ROLE_LABEL = [(''admin'', ''Admin''), (''operator'', ''Operator''), (''viewer'', ''Viewer'')]"

definition RoleBadge :: "string \<Rightarrow> string" where
  "RoleBadge role = nullish (map_of ROLE_LABEL role) role"

definition ProviderBadge :: "UserProvider \<Rightarrow> string" where
  "ProviderBadge provider = (if provider = ProviderOidc then ''OIDC'' else ''Local'')"

subsection \<open>Adding and editing\<close>

record user_dialog =
  ud_user :: "User option"
  ud_username :: string
  ud_password :: string
  ud_role :: UserRole
  ud_provider :: UserProvider
  ud_notify :: bool
  ud_firstName :: string
  ud_lastName :: string
  ud_email :: string
  ud_submitting :: bool
  ud_error :: "string option"

definition user_dialog_init :: "User option \<Rightarrow> user_dialog" where
  "user_dialog_init user =
     \<lparr>ud_user = user,
      ud_username = (case user of None \<Rightarrow> [] | Some u \<Rightarrow> user_username u),
      ud_password = [],
      ud_role = (case user of None \<Rightarrow> RoleViewer | Some u \<Rightarrow> user_role u),
      ud_provider = (case user of None \<Rightarrow> ProviderLocal | Some u \<Rightarrow> user_provider u),
      ud_notify = (case user of None \<Rightarrow> False | Some u \<Rightarrow> user_notify u),
      ud_firstName = (case user of None \<Rightarrow> [] | Some u \<Rightarrow> nullish (user_firstName u) []),
      ud_lastName = (case user of None \<Rightarrow> [] | Some u \<Rightarrow> nullish (user_lastName u) []),
      ud_email = (case user of None \<Rightarrow> [] | Some u \<Rightarrow> nullish (user_email u) []),
      ud_submitting = False, ud_error = None\<rparr>"

definition nullable :: "string \<Rightarrow> string option" where
  "nullable s = or_undefined (trim s)"

fun user_role_string :: "UserRole \<Rightarrow> string" where
  "user_role_string RoleAdmin = ''admin''"
| "user_role_string RoleOperator = ''operator''"
| "user_role_string RoleViewer = ''viewer''"

fun user_provider_string :: "UserProvider \<Rightarrow> string" where
  "user_provider_string ProviderLocal = ''local''"
| "user_provider_string ProviderOidc = ''oidc''"

definition user_update :: "user_dialog \<Rightarrow> UpdateUserRequest" where
  "user_update d =
     \<lparr>updateUserRequest_username = trim (ud_username d), updateUserRequest_role = user_role_string (ud_role d),
      updateUserRequest_provider = user_provider_string (ud_provider d), updateUserRequest_notify = ud_notify d,
      updateUserRequest_firstName = Some (nullable (ud_firstName d)),
      updateUserRequest_lastName = Some (nullable (ud_lastName d)),
      updateUserRequest_email = Some (nullable (ud_email d))\<rparr>"

definition user_create :: "user_dialog \<Rightarrow> CreateUserRequest" where
  "user_create d =
     \<lparr>createUserRequest_username = trim (ud_username d),
      createUserRequest_password = (if ud_provider d = ProviderLocal then Some (ud_password d) else None),
      createUserRequest_role = user_role_string (ud_role d),
      createUserRequest_provider = user_provider_string (ud_provider d),
      createUserRequest_notify = ud_notify d,
      createUserRequest_firstName = Some (nullable (ud_firstName d)),
      createUserRequest_lastName = Some (nullable (ud_lastName d)),
      createUserRequest_email = Some (nullable (ud_email d))\<rparr>"

definition user_problem :: "user_dialog \<Rightarrow> string option" where
  "user_problem d =
     (if trim (ud_username d) = [] then Some ''Username is required.''
      else if ud_user d = None \<and> ud_provider d = ProviderLocal \<and> ud_password d = []
      then Some ''Password is required for local users.''
      else None)"

definition user_submit :: "user_dialog \<Rightarrow> bool \<times> user_dialog" where
  "user_submit d =
     (case user_problem d of
        Some m \<Rightarrow> (False, d\<lparr>ud_error := Some m\<rparr>)
      | None \<Rightarrow> (True, d\<lparr>ud_submitting := True, ud_error := None\<rparr>))"

definition user_body :: "user_dialog \<Rightarrow> User fetch_result \<Rightarrow> User option io" where
  "user_body d answer =
     (case ud_user d of
        Some u \<Rightarrow> await (updateUser (user_id u) (user_update d)) answer
      | None \<Rightarrow> await (createUser (user_create d)) answer)"

definition user_finish :: "js_exn + User option \<Rightarrow> user_dialog \<Rightarrow> user_dialog" where
  "user_finish r d =
     (case r of
        Inr _ \<Rightarrow> d\<lparr>ud_submitting := False\<rparr>
      | Inl err \<Rightarrow>
          d\<lparr>ud_submitting := False,
            ud_error := Some (api_message (''Failed to '' @ (if ud_user d \<noteq> None then ''update'' else ''create'') @ '' user.'') err)\<rparr>)"

text \<open>The controls; the switch for alert mails is disabled while there is no address.\<close>

datatype user_edit =
    TypeUsername string | TypeFirstName string | TypeLastName string | TypeEmail string | TypePassword string
  | PickProvider UserProvider | PickRole UserRole | SwitchNotify bool

fun user_edited :: "user_edit \<Rightarrow> user_dialog \<Rightarrow> user_dialog" where
  "user_edited (TypeUsername s) d = d\<lparr>ud_username := s\<rparr>"
| "user_edited (TypeFirstName s) d = d\<lparr>ud_firstName := s\<rparr>"
| "user_edited (TypeLastName s) d = d\<lparr>ud_lastName := s\<rparr>"
| "user_edited (TypeEmail s) d = d\<lparr>ud_email := s\<rparr>"
| "user_edited (TypePassword s) d =
     (if ud_provider d = ProviderLocal \<and> ud_user d = None then d\<lparr>ud_password := s\<rparr> else d)"
| "user_edited (PickProvider p) d = d\<lparr>ud_provider := p\<rparr>"
| "user_edited (PickRole r) d = d\<lparr>ud_role := r\<rparr>"
| "user_edited (SwitchNotify b) d = (if trim (ud_email d) = [] then d else d\<lparr>ud_notify := b\<rparr>)"

definition user_button :: "user_dialog \<Rightarrow> string" where
  "user_button d =
     (if ud_submitting d then (if ud_user d \<noteq> None then ''Saving'' else ''Adding'') @ ellipsis
      else if ud_user d \<noteq> None then ''Save Changes'' else ''Add User'')"

definition user_ops :: "(user_dialog, User option, user_edit, User fetch_result, User option) form_ops" where
  "user_ops =
     \<lparr>fo_keyed = True, fo_enter = False, fo_locked = (\<lambda>_. False), fo_open = (\<lambda>user _. user_dialog_init user), fo_close = (\<lambda>d. d),
      fo_edit = user_edited, fo_busy = ud_submitting, fo_error = ud_error, fo_submit = user_submit, fo_body = user_body,
      fo_finish = user_finish\<rparr>"

interpretation user_form: guarded_dialog user_ops
proof unfold_locales
  fix e d show "fo_busy user_ops (fo_edit user_ops e d) = fo_busy user_ops d" by (cases e) (simp_all add: user_ops_def)
qed (auto simp: user_ops_def user_dialog_init_def user_submit_def user_finish_def split: option.splits sum.splits)

subsection \<open>Changing a password\<close>

record password_dialog =
  pw_user :: "User option"
  pw_password :: string
  pw_confirm :: string
  pw_submitting :: bool
  pw_error :: "string option"

definition password_init :: "User option \<Rightarrow> password_dialog" where
  "password_init user = \<lparr>pw_user = user, pw_password = [], pw_confirm = [], pw_submitting = False, pw_error = None\<rparr>"

definition password_submit :: "password_dialog \<Rightarrow> bool \<times> password_dialog" where
  "password_submit d =
     (if pw_user d = None then (False, d)
      else if pw_password d = [] then (False, d\<lparr>pw_error := Some ''Password is required.''\<rparr>)
      else if pw_password d \<noteq> pw_confirm d then (False, d\<lparr>pw_error := Some ''Passwords do not match.''\<rparr>)
      else (True, d\<lparr>pw_submitting := True, pw_error := None\<rparr>))"

definition password_body :: "password_dialog \<Rightarrow> unit fetch_result \<Rightarrow> unit option io" where
  "password_body d answer =
     (case pw_user d of
        None \<Rightarrow> io_return None
      | Some u \<Rightarrow> await (changePassword (user_id u) (pw_password d)) answer)"

definition password_finish :: "js_exn + unit option \<Rightarrow> password_dialog \<Rightarrow> password_dialog" where
  "password_finish r d =
     (case r of
        Inr _ \<Rightarrow> d\<lparr>pw_submitting := False\<rparr>
      | Inl err \<Rightarrow> d\<lparr>pw_submitting := False, pw_error := Some (api_message ''Failed to change password.'' err)\<rparr>)"

definition password_edited :: "string \<times> string \<Rightarrow> password_dialog \<Rightarrow> password_dialog" where
  "password_edited = (\<lambda>(p, q) d. d\<lparr>pw_password := p, pw_confirm := q\<rparr>)"

definition password_ops :: "(password_dialog, User, string \<times> string, unit fetch_result, unit option) form_ops" where
  "password_ops =
     \<lparr>fo_keyed = True, fo_enter = False, fo_locked = (\<lambda>_. False), fo_open = (\<lambda>user _. password_init (Some user)),
      fo_close = (\<lambda>d. d\<lparr>pw_user := None\<rparr>), fo_edit = password_edited, fo_busy = pw_submitting, fo_error = pw_error,
      fo_submit = password_submit, fo_body = password_body, fo_finish = password_finish\<rparr>"

interpretation password_form: guarded_dialog password_ops
  by unfold_locales
    (auto simp: password_ops_def password_init_def password_submit_def password_finish_def password_edited_def
      split: if_splits sum.splits)

subsection \<open>Deleting a user and resetting the second factor\<close>

text \<open>Two copies of one component; neither has a \<open>key\<close>, so both keep their error and their loading flag when they open again.\<close>

record user_confirm =
  uc_user :: "User option"
  uc_loading :: bool
  uc_error :: "string option"

definition user_confirm_init :: user_confirm where
  "user_confirm_init = \<lparr>uc_user = None, uc_loading = False, uc_error = None\<rparr>"

definition handleDelete_user :: "user_confirm \<Rightarrow> bool \<times> user_confirm" where
  "handleDelete_user d = (if uc_user d = None then (False, d) else (True, d\<lparr>uc_loading := True, uc_error := None\<rparr>))"

definition delete_user_body :: "user_confirm \<Rightarrow> unit fetch_result \<Rightarrow> unit option io" where
  "delete_user_body d answer =
     (case uc_user d of None \<Rightarrow> io_return None | Some u \<Rightarrow> await (deleteUser (user_id u)) answer)"

definition user_confirm_finish :: "string \<Rightarrow> js_exn + unit option \<Rightarrow> user_confirm \<Rightarrow> user_confirm" where
  "user_confirm_finish fallback r d =
     (case r of
        Inr _ \<Rightarrow> d\<lparr>uc_loading := False\<rparr>
      | Inl err \<Rightarrow> d\<lparr>uc_loading := False, uc_error := Some (api_message fallback err)\<rparr>)"

definition delete_user_ops :: "(user_confirm, User, unit, unit fetch_result, unit option) form_ops" where
  "delete_user_ops =
     \<lparr>fo_keyed = False, fo_enter = False, fo_locked = (\<lambda>_. False), fo_open = (\<lambda>user d. d\<lparr>uc_user := Some user\<rparr>),
      fo_close = (\<lambda>d. d\<lparr>uc_user := None\<rparr>), fo_edit = (\<lambda>_ d. d), fo_busy = uc_loading, fo_error = uc_error,
      fo_submit = handleDelete_user, fo_body = delete_user_body,
      fo_finish = user_confirm_finish ''Failed to delete user.''\<rparr>"

definition handleReset :: "user_confirm \<Rightarrow> bool \<times> user_confirm" where
  "handleReset d = (if uc_user d = None then (False, d) else (True, d\<lparr>uc_loading := True, uc_error := None\<rparr>))"

definition reset_body :: "user_confirm \<Rightarrow> unit fetch_result \<Rightarrow> unit option io" where
  "reset_body d answer =
     (case uc_user d of None \<Rightarrow> io_return None | Some u \<Rightarrow> await (resetUserTOTP (user_id u)) answer)"

definition reset_ops :: "(user_confirm, User, unit, unit fetch_result, unit option) form_ops" where
  "reset_ops =
     \<lparr>fo_keyed = False, fo_enter = False, fo_locked = (\<lambda>_. False), fo_open = (\<lambda>user d. d\<lparr>uc_user := Some user\<rparr>),
      fo_close = (\<lambda>d. d\<lparr>uc_user := None\<rparr>), fo_edit = (\<lambda>_ d. d), fo_busy = uc_loading, fo_error = uc_error,
      fo_submit = handleReset, fo_body = reset_body, fo_finish = user_confirm_finish ''Failed to reset 2FA.''\<rparr>"

interpretation delete_user_form: guarded_dialog delete_user_ops
  by unfold_locales
    (auto simp: delete_user_ops_def handleDelete_user_def user_confirm_finish_def split: if_splits sum.splits)

interpretation reset_form: guarded_dialog reset_ops
  by unfold_locales (auto simp: reset_ops_def handleReset_def user_confirm_finish_def split: if_splits sum.splits)

subsection \<open>The page\<close>

definition ROLE_OPTIONS :: "(string \<times> string) list" where
  "ROLE_OPTIONS = [([], ''All roles''), (''admin'', ''Admin''), (''operator'', ''Operator''), (''viewer'', ''Viewer'')]"

definition PROVIDER_OPTIONS :: "(string \<times> string) list" where
  "PROVIDER_OPTIONS = [([], ''All providers''), (''local'', ''Local''), (''oidc'', ''OIDC'')]"

definition user_SORT_OPTIONS :: "(string \<times> string) list" where
  "user_SORT_OPTIONS =
     (let arrow = [CHR 0xE2, CHR 0x86, CHR 0x92] in
      [([], ''Newest first''), (''username'', ''Username A'' @ arrow @ ''Z''), (''name'', ''Name A'' @ arrow @ ''Z'')])"

record users_page =
  up_page :: int
  up_search :: string
  up_debouncedSearch :: string
  up_roleFilter :: string
  up_providerFilter :: string
  up_sortOption :: string
  up_mutationError :: "string option"
  up_addSeq :: nat
  up_addOpen :: bool
  up_editTarget :: "User option"

definition users_page_init :: users_page where
  "users_page_init =
     \<lparr>up_page = 1, up_search = [], up_debouncedSearch = [], up_roleFilter = [], up_providerFilter = [], up_sortOption = [],
      up_mutationError = None, up_addSeq = 0, up_addOpen = False, up_editTarget = None\<rparr>"

definition users_query :: "users_page \<Rightarrow> UserList api_call" where
  "users_query p =
     listUsers (up_page p) PAGE_SIZE (up_debouncedSearch p) (up_roleFilter p) (up_providerFilter p) (up_sortOption p)"

text \<open>A change of the search text (400 ms later) or of a filter, with the effect that goes back to the first page.\<close>

datatype users_event =
    SearchSettled string | RolePicked string | ProviderPicked string | SortPicked string | PageTurned page_button

fun users_step :: "int \<Rightarrow> users_event \<Rightarrow> users_page \<Rightarrow> users_page" where
  "users_step totalCount (SearchSettled s) p =
     (if s = up_debouncedSearch p then p else p\<lparr>up_search := s, up_debouncedSearch := s, up_page := 1\<rparr>)"
| "users_step totalCount (RolePicked r) p = (if r = up_roleFilter p then p else p\<lparr>up_roleFilter := r, up_page := 1\<rparr>)"
| "users_step totalCount (ProviderPicked v) p =
     (if v = up_providerFilter p then p else p\<lparr>up_providerFilter := v, up_page := 1\<rparr>)"
| "users_step totalCount (SortPicked s) p = (if s = up_sortOption p then p else p\<lparr>up_sortOption := s, up_page := 1\<rparr>)"
| "users_step totalCount (PageTurned b) p = p\<lparr>up_page := turn_page totalCount b (up_page p)\<rparr>"

definition handleToggleEnabled :: "User \<Rightarrow> User fetch_result \<Rightarrow> users_page \<Rightarrow> client \<Rightarrow> http_call list \<times> client \<times> users_page" where
  "handleToggleEnabled user answer p c =
     (case await (setUserEnabled (user_id user) (\<not> user_enabled user)) answer c of
        (ks, c1, Inr _) \<Rightarrow> (ks, c1, p)
      | (ks, c1, Inl err) \<Rightarrow> (ks, c1, p\<lparr>up_mutationError := Some (api_message ''Failed to update user.'' err)\<rparr>))"

definition handleAdd :: "users_page \<Rightarrow> users_page" where
  "handleAdd p = p\<lparr>up_addSeq := up_addSeq p + 1, up_addOpen := True\<rparr>"

definition handleCloseDialog :: "users_page \<Rightarrow> users_page" where
  "handleCloseDialog p = p\<lparr>up_addOpen := False, up_editTarget := None\<rparr>"

definition user_dialog_key :: "users_page \<Rightarrow> string" where
  "user_dialog_key p =
     (case up_editTarget p of Some u \<Rightarrow> user_id u | None \<Rightarrow> ''add-'' @ show_int (int (up_addSeq p)))"

definition user_dialog_open :: "users_page \<Rightarrow> bool" where
  "user_dialog_open p \<longleftrightarrow> up_addOpen p \<or> up_editTarget p \<noteq> None"

text \<open>The name line of a row, when there is one.\<close>

definition full_name :: "User \<Rightarrow> string option" where
  "full_name u =
     (if truthy (user_firstName u) \<or> truthy (user_lastName u)
      then Some (join '' '' (map the (filter truthy [user_firstName u, user_lastName u]))) else None)"

text \<open>The menu of a row: which entries are shown, and which of them are enabled.\<close>

datatype user_action = EditUser | EnableUser | DisableUser | ChangePassword | Reset2FA | DeleteUser

definition user_menu :: "bool \<Rightarrow> bool \<Rightarrow> string \<Rightarrow> User \<Rightarrow> (user_action \<times> bool) list" where
  "user_menu admin canResetCreds currentUserID u =
     (if admin
      then [(EditUser, True), (if user_enabled u then DisableUser else EnableUser, user_id u \<noteq> currentUserID)]
           @ (if user_provider u = ProviderLocal \<and> canResetCreds then [(ChangePassword, True)] else [])
           @ (if user_provider u = ProviderLocal \<and> user_totpEnabled u \<and> canResetCreds then [(Reset2FA, True)] else [])
           @ [(DeleteUser, True)]
      else [])"

definition currentUserID :: "client \<Rightarrow> string" where
  "currentUserID c =
     (case Option.bind (getIdentity c) (\<lambda>payload. json_field payload ''uid'') of Some (JStr uid) \<Rightarrow> uid | _ \<Rightarrow> [])"

text \<open>The menu as the page renders it; \<^const>\<open>None\<close> when a permission check throws.\<close>

definition users_menu :: "client \<Rightarrow> User \<Rightarrow> (user_action \<times> bool) list option" where
  "users_menu c u =
     (case (can ''users:edit'' c, can ''users:credentials'' c) of
        (Some admin, Some creds) \<Rightarrow> Some (user_menu admin creds (currentUserID c) u)
      | _ \<Rightarrow> None)"

datatype users_table = UsersLoading | NoUserMatches | NoUsersYet | UserRows "User list"

definition users_table_of :: "bool \<Rightarrow> User list \<Rightarrow> users_page \<Rightarrow> users_table" where
  "users_table_of isLoading users p =
     (if isLoading then UsersLoading
      else if users = [] then
        (if up_debouncedSearch p \<noteq> [] \<or> up_roleFilter p \<noteq> [] \<or> up_providerFilter p \<noteq> [] then NoUserMatches else NoUsersYet)
      else UserRows users)"

subsection \<open>What the dialogs send\<close>

lemma nullable_simps: "nullable s = Some v \<longleftrightarrow> v = trim s \<and> trim s \<noteq> []" "nullable s = None \<longleftrightarrow> trim s = []"
  by (auto simp: nullable_def or_undefined_def)

lemma user_calls:
  "io_calls (user_body d answer) c =
     [case ud_user d of
        Some u \<Rightarrow> \<lparr>call_method = ''PUT'', call_url = BASE @ ''/users/'' @ user_id u, call_headers = request_headers c,
                   call_body = Some (json_UpdateUserRequest (user_update d))\<rparr>
      | None \<Rightarrow> \<lparr>call_method = ''POST'', call_url = BASE @ ''/users'', call_headers = request_headers c,
                 call_body = Some (json_CreateUserRequest (user_create d))\<rparr>]"
  by (simp add: user_body_def io_await_simps updateUser_def createUser_def api_verbs request_def split: option.split)

lemma user_submit_started:
  "fst (user_submit d) \<longleftrightarrow>
     trim (ud_username d) \<noteq> [] \<and> (ud_user d = None \<longrightarrow> ud_provider d = ProviderLocal \<longrightarrow> ud_password d \<noteq> [])"
  by (auto simp: user_submit_def user_problem_def split: option.split)

text \<open>A stored text: absent, or non-empty and without white space at its ends.\<close>

definition stored :: "string option \<Rightarrow> bool" where
  "stored s \<longleftrightarrow> (case s of None \<Rightarrow> True | Some v \<Rightarrow> v \<noteq> [] \<and> trim v = v)"

lemma stored_nullable: "stored s \<Longrightarrow> nullable (nullish s []) = s"
  by (cases s) (auto simp: stored_def nullable_def)

text \<open>Opening the dialog for a user and saving it unchanged sends the values the user has.\<close>

lemma edit_unchanged_keeps_user:
  assumes "user_username u \<noteq> []" "trim (user_username u) = user_username u"
    and "stored (user_firstName u)" "stored (user_lastName u)" "stored (user_email u)"
  shows "fst (user_submit (user_dialog_init (Some u)))
    \<and> user_update (user_dialog_init (Some u)) =
      \<lparr>updateUserRequest_username = user_username u, updateUserRequest_role = user_role_string (user_role u),
       updateUserRequest_provider = user_provider_string (user_provider u), updateUserRequest_notify = user_notify u,
       updateUserRequest_firstName = Some (user_firstName u), updateUserRequest_lastName = Some (user_lastName u),
       updateUserRequest_email = Some (user_email u)\<rparr>"
  using assms by (simp add: user_update_def user_submit_started user_dialog_init_def stored_nullable)

text \<open>The switch keeps its value when the address is removed: alerts are then requested for a user without an address.\<close>

lemma notify_without_email:
  assumes "trim addr \<noteq> []"
  shows "(let d = user_edited (TypeEmail []) (user_edited (SwitchNotify True) (user_edited (TypeEmail addr) (user_dialog_init None)))
     in createUserRequest_notify (user_create d) \<and> createUserRequest_email (user_create d) = Some None)"
  using assms by (simp add: user_dialog_init_def user_create_def Let_def nullable_simps)

text \<open>
  The answer to a dialog that was dismissed while saving closes the dialog that is open by then. A mounted dialog that is not
  the one that asked loses its input that way.
\<close>

lemma late_answer_closes_next_dialog:
  assumes "delivers answer u" and x: "trim (user_username x) \<noteq> []"
    and w: "w = form_run user_ops
       [FormOpened (Some x), SubmitPressed, FormClosed, FormOpened None, FormEdited (TypeUsername name)]
       (form_start (user_dialog_init None) c)"
  shows "fw_open w \<and> ud_username (fw_dialog w) = name \<and> \<not> ud_submitting (fw_dialog w)
    \<and> \<not> fw_open (form_step user_ops (FormAnswered 0 answer) w)"
proof -
  have "user_submit (user_dialog_init (Some x)) =
      (True, (user_dialog_init (Some x))\<lparr>ud_submitting := True, ud_error := None\<rparr>)"
    using x by (simp add: user_submit_def user_problem_def user_dialog_init_def)
  then have w': "fw_pending w = [(1, user_dialog_init (Some x))]" "fw_client w = c" "fw_open w"
    "ud_username (fw_dialog w) = name" "\<not> ud_submitting (fw_dialog w)"
    unfolding w form_run_def
    by (simp_all add: form_start_def user_ops_def form_submit_def) (simp_all add: user_dialog_init_def)
  have "snd (updateUser i r c answer) = (c, Inr (Some u))" for i r
    using read_answer_delivers [OF assms(1)] by (simp add: updateUser_def api_verbs request_def)
  then have r: "io_result (fo_body user_ops (snd (fw_pending w ! 0)) answer) (fw_client w) = Inr (Some u)"
    by (simp add: w' user_ops_def user_body_def user_dialog_init_def io_await_simps)
  have "\<not> fw_open (form_step user_ops (FormAnswered 0 answer) w)"
    using user_form.answer_reports(2) [OF _ r] by (simp add: w'(1))
  with w' show ?thesis by simp
qed

subsection \<open>Who may reset credentials\<close>

lemma users_menu_eq:
  assumes "identity_role c = Some (JStr role)" and "role \<notin> set object_prototype_members"
  shows "users_menu c u = Some (user_menu (Has role ''users:edit'') (Has role ''users:credentials'') (currentUserID c) u)"
  using assms by (simp add: users_menu_def can_def hasPermission_server)

text \<open>For every signed-in user whose role is not a name inherited from \<open>Object.prototype\<close>, the row menu of the users page offers
  to change a password or to reset a second factor exactly when the server's table grants the role both \<open>users:edit\<close> and
  \<open>users:credentials\<close> and the account is a local one (with a second factor, for the reset); roles without \<open>users:edit\<close> get no menu at all; and
  nobody can switch off the account they are signed in with.\<close>

lemma credential_actions_follow_server:
  assumes "identity_role c = Some (JStr role)" and "role \<notin> set object_prototype_members"
  shows "\<exists>menu. users_menu c u = Some menu
    \<and> ((ChangePassword, True) \<in> set menu \<longleftrightarrow>
         Has role ''users:edit'' \<and> Has role ''users:credentials'' \<and> user_provider u = ProviderLocal)
    \<and> ((Reset2FA, True) \<in> set menu \<longleftrightarrow>
         Has role ''users:edit'' \<and> Has role ''users:credentials'' \<and> user_provider u = ProviderLocal \<and> user_totpEnabled u)
    \<and> (menu = [] \<longleftrightarrow> \<not> Has role ''users:edit'')
    \<and> (user_id u = currentUserID c \<longrightarrow> (DisableUser, True) \<notin> set menu)"
  using assms by (auto simp: users_menu_eq user_menu_def)

definition example_user :: User where
  "example_user =
     \<lparr>user_id = ''u1'', user_username = ''jane'', user_role = RoleViewer, user_provider = ProviderLocal, user_enabled = True,
      user_notify = False, user_firstName = None, user_lastName = None, user_email = None, user_calendarToken = None,
      user_totpEnabled = True, user_createdAt = [], user_updatedAt = []\<rparr>"

lemma credential_actions_follow_server_witness:
  "\<exists>menu. users_menu (setToken (jwt ''h'' example_payload ''s'') (client_load (\<lambda>_. None))) example_user = Some menu \<and> menu = []"
proof -
  let ?c = "setToken (jwt ''h'' example_payload ''s'') (client_load (\<lambda>_. None))"
  have ascii: "\<forall>x \<in> set example_payload. charCode x < 128" by (simp add: example_payload_def charCode_def)
  have "token_payload (jwt ''h'' example_payload ''s'') = Some (JObj [(''exp'', jint 1700000000), (''role'', JStr ''viewer'')])"
    using token_payload_jwt [of "''h''" example_payload "''s''"] ascii example_payload_parse by simp
  then have r: "identity_role ?c = Some (JStr ''viewer'')"
    by (simp add: identity_role_def getIdentity_def setToken_def)
  have v: "''viewer'' \<notin> set object_prototype_members" by (rule roles_not_inherited)
  have "\<not> Has ''viewer'' ''users:edit''" by (simp add: Has_def RolePermissions_def)
  then show ?thesis using credential_actions_follow_server [OF r v, of example_user] by auto
qed

end
