(* ===== verification/TagSettings.thy ===== *)
theory TagSettings
  imports FormDialog ApiCalls
begin

section \<open>Managing tags (\<open>pages/settings/TagsPage.tsx\<close>)\<close>

text \<open>
  The dialogs for a category and for a tag, the confirmation of a delete, the two tables and the page. The two
  editing dialogs stay mounted and are filled by an effect when they open; both also submit on the Enter key, past the
  disabled button, so they interpret \<open>form_dialog\<close> but not \<open>guarded_dialog\<close>. Their error is the empty text when there is none.
\<close>

definition emptyStr :: "string option \<Rightarrow> string" where
  "emptyStr v = nullish v []"

subsection \<open>The category dialog\<close>

record category_dialog =
  cd_initial :: "TagCategory option"
  cd_name :: string
  cd_description :: string
  cd_submitting :: bool
  cd_error :: string

definition category_init :: category_dialog where
  "category_init = \<lparr>cd_initial = None, cd_name = [], cd_description = [], cd_submitting = False, cd_error = []\<rparr>"

text \<open>The effect on \<open>open\<close> and \<open>initial\<close>.\<close>

definition category_opened :: "TagCategory option \<Rightarrow> category_dialog \<Rightarrow> category_dialog" where
  "category_opened initial d =
     d\<lparr>cd_initial := initial,
       cd_name := (case initial of None \<Rightarrow> [] | Some cat \<Rightarrow> tagCategory_name cat),
       cd_description := (case initial of None \<Rightarrow> [] | Some cat \<Rightarrow> emptyStr (tagCategory_description cat)),
       cd_error := []\<rparr>"

definition category_submit :: "category_dialog \<Rightarrow> bool \<times> category_dialog" where
  "category_submit d =
     (if trim (cd_name d) = [] then (False, d\<lparr>cd_error := ''Name is required''\<rparr>)
      else (True, d\<lparr>cd_submitting := True, cd_error := []\<rparr>))"

definition category_body :: "category_dialog \<Rightarrow> TagCategory fetch_result \<Rightarrow> TagCategory option io" where
  "category_body d answer =
     (case cd_initial d of
        Some cat \<Rightarrow>
          await (updateTagCategory (tagCategory_id cat) (trim (cd_name d)) (Some (or_undefined (trim (cd_description d))))) answer
      | None \<Rightarrow> await (createTagCategory (trim (cd_name d)) (or_undefined (trim (cd_description d)))) answer)"

definition category_finish :: "js_exn + TagCategory option \<Rightarrow> category_dialog \<Rightarrow> category_dialog" where
  "category_finish r d =
     (case r of
        Inr _ \<Rightarrow> d\<lparr>cd_submitting := False\<rparr>
      | Inl err \<Rightarrow> d\<lparr>cd_submitting := False, cd_error := api_message ''Failed to save category'' err\<rparr>)"

datatype category_edit = TypeCategoryName string | TypeCategoryDescription string

fun category_edited :: "category_edit \<Rightarrow> category_dialog \<Rightarrow> category_dialog" where
  "category_edited (TypeCategoryName s) d = d\<lparr>cd_name := s\<rparr>"
| "category_edited (TypeCategoryDescription s) d = d\<lparr>cd_description := s\<rparr>"

definition category_ops ::
  "(category_dialog, TagCategory option, category_edit, TagCategory fetch_result, TagCategory option) form_ops" where
  "category_ops =
     \<lparr>fo_keyed = False, fo_enter = True, fo_locked = (\<lambda>_. False), fo_open = category_opened, fo_close = (\<lambda>d. d\<lparr>cd_initial := None\<rparr>),
      fo_edit = category_edited, fo_busy = cd_submitting, fo_error = (\<lambda>d. Some (cd_error d)), fo_submit = category_submit,
      fo_body = category_body, fo_finish = category_finish\<rparr>"

interpretation category_form: form_dialog category_ops
proof unfold_locales
  fix e d show "fo_busy category_ops (fo_edit category_ops e d) = fo_busy category_ops d"
    by (cases e) (simp_all add: category_ops_def)
qed (auto simp: category_ops_def category_opened_def category_submit_def category_finish_def split: if_splits sum.splits)

subsection \<open>The tag dialog\<close>

record tag_form =
  td_initial :: "Tag option"
  td_categoryId :: string
  td_name :: string
  td_description :: string
  td_submitting :: bool
  td_error :: string

definition tag_form_init :: tag_form where
  "tag_form_init =
     \<lparr>td_initial = None, td_categoryId = [], td_name = [], td_description = [], td_submitting = False, td_error = []\<rparr>"

text \<open>
  The effect on \<open>open\<close>, \<open>initial\<close>, \<open>defaultCategoryId\<close> (never passed by the page) and \<open>categories\<close>.
\<close>

definition tag_form_opened :: "Tag option \<times> TagCategory list \<Rightarrow> tag_form \<Rightarrow> tag_form" where
  "tag_form_opened = (\<lambda>(initial, categories) d.
     d\<lparr>td_initial := initial,
       td_categoryId :=
         (case initial of
            Some t \<Rightarrow> tag_categoryId t
          | None \<Rightarrow> (case categories of [] \<Rightarrow> [] | cat # _ \<Rightarrow> tagCategory_id cat)),
       td_name := (case initial of None \<Rightarrow> [] | Some t \<Rightarrow> tag_name t),
       td_description := (case initial of None \<Rightarrow> [] | Some t \<Rightarrow> emptyStr (tag_description t)),
       td_error := []\<rparr>)"

definition tag_form_submit :: "tag_form \<Rightarrow> bool \<times> tag_form" where
  "tag_form_submit d =
     (if trim (td_name d) = [] then (False, d\<lparr>td_error := ''Name is required''\<rparr>)
      else if td_categoryId d = [] then (False, d\<lparr>td_error := ''Category is required''\<rparr>)
      else (True, d\<lparr>td_submitting := True, td_error := []\<rparr>))"

definition tag_form_body :: "tag_form \<Rightarrow> Tag fetch_result \<Rightarrow> Tag option io" where
  "tag_form_body d answer =
     (case td_initial d of
        Some t \<Rightarrow> await (updateTag (tag_id t) (trim (td_name d)) (Some (or_undefined (trim (td_description d))))) answer
      | None \<Rightarrow> await (createTag (td_categoryId d) (trim (td_name d)) (or_undefined (trim (td_description d)))) answer)"

definition tag_form_finish :: "js_exn + Tag option \<Rightarrow> tag_form \<Rightarrow> tag_form" where
  "tag_form_finish r d =
     (case r of
        Inr _ \<Rightarrow> d\<lparr>td_submitting := False\<rparr>
      | Inl err \<Rightarrow> d\<lparr>td_submitting := False, td_error := api_message ''Failed to save tag'' err\<rparr>)"

text \<open>
  The controls, and a new rendering of the page: the page builds the list of categories anew each time, so the effect runs
  again while the dialog is open. The category can only be picked for a new tag.
\<close>

datatype tag_edit =
    TypeTagName string | TypeTagDescription string | PickCategory string | PageRendered "TagCategory list"

fun tag_form_edited :: "tag_edit \<Rightarrow> tag_form \<Rightarrow> tag_form" where
  "tag_form_edited (TypeTagName s) d = d\<lparr>td_name := s\<rparr>"
| "tag_form_edited (TypeTagDescription s) d = d\<lparr>td_description := s\<rparr>"
| "tag_form_edited (PickCategory s) d = (if td_initial d = None then d\<lparr>td_categoryId := s\<rparr> else d)"
| "tag_form_edited (PageRendered categories) d = tag_form_opened (td_initial d, categories) d"

definition tag_form_ops ::
  "(tag_form, Tag option \<times> TagCategory list, tag_edit, Tag fetch_result, Tag option) form_ops" where
  "tag_form_ops =
     \<lparr>fo_keyed = False, fo_enter = True, fo_locked = (\<lambda>_. False), fo_open = tag_form_opened, fo_close = (\<lambda>d. d\<lparr>td_initial := None\<rparr>),
      fo_edit = tag_form_edited, fo_busy = td_submitting, fo_error = (\<lambda>d. Some (td_error d)), fo_submit = tag_form_submit,
      fo_body = tag_form_body, fo_finish = tag_form_finish\<rparr>"

interpretation tag_editor: form_dialog tag_form_ops
proof unfold_locales
  fix e d show "fo_busy tag_form_ops (fo_edit tag_form_ops e d) = fo_busy tag_form_ops d"
    by (cases e) (simp_all add: tag_form_ops_def tag_form_opened_def)
qed (auto simp: tag_form_ops_def tag_form_opened_def tag_form_submit_def tag_form_finish_def split: if_splits sum.splits)

subsection \<open>Confirming a delete\<close>

text \<open>
  What the page passes to the dialog. The callback \<open>onConfirm\<close> is the request and, when it has not thrown, closing the
  dialog and refetching; \<open>handleConfirm\<close> has no \<open>catch\<close>, so a failure only ends the deleting state.
\<close>

datatype delete_kind = DeleteTag | DeleteCategory

record tag_delete =
  tdel_open :: bool
  tdel_label :: string
  tdel_kind :: delete_kind
  tdel_impactedTags :: "string list option"
  tdel_warning :: "string option"
  tdel_target :: string
  tdel_deleting :: bool

definition tag_delete_init :: tag_delete where
  "tag_delete_init =
     \<lparr>tdel_open = False, tdel_label = [], tdel_kind = DeleteTag, tdel_impactedTags = None, tdel_warning = None,
      tdel_target = [], tdel_deleting = False\<rparr>"

definition onDelete_tag :: "Tag \<Rightarrow> tag_delete \<Rightarrow> tag_delete" where
  "onDelete_tag t d =
     d\<lparr>tdel_open := True, tdel_label := tag_name t, tdel_kind := DeleteTag, tdel_impactedTags := None,
       tdel_warning := Some ''This will remove the tag from all endpoints it is currently assigned to.'',
       tdel_target := tag_id t\<rparr>"

definition onDelete_category :: "CategoryWithTags list \<Rightarrow> TagCategory \<Rightarrow> tag_delete \<Rightarrow> tag_delete" where
  "onDelete_category categories cat d =
     (let tagNames = (case find (\<lambda>x. tagCategory_id x = tagCategory_id cat) categories of
                        None \<Rightarrow> [] | Some fullCat \<Rightarrow> map tag_name (categoryWithTags_tags fullCat))
      in d\<lparr>tdel_open := True, tdel_label := tagCategory_name cat, tdel_kind := DeleteCategory,
           tdel_impactedTags := Some tagNames,
           tdel_warning := (if length tagNames = 0 then None
              else Some ''These tags will also be removed from any endpoints they are currently assigned to.''),
           tdel_target := tagCategory_id cat\<rparr>)"

text \<open>The second component tells whether the list is fetched again.\<close>

definition tag_handleConfirm_delete :: "unit fetch_result \<Rightarrow> tag_delete \<Rightarrow> client \<Rightarrow> http_call list \<times> client \<times> bool \<times> tag_delete" where
  "tag_handleConfirm_delete answer d c =
     (let body = (case tdel_kind d of
                    DeleteTag \<Rightarrow> await (deleteTag (tdel_target d)) answer
                  | DeleteCategory \<Rightarrow> await (deleteTagCategory (tdel_target d)) answer)
      in case body c of
           (ks, c1, Inr _) \<Rightarrow> (ks, c1, True, d\<lparr>tdel_open := False, tdel_deleting := False\<rparr>)
         | (ks, c1, Inl _) \<Rightarrow> (ks, c1, False, d\<lparr>tdel_deleting := False\<rparr>))"

definition impact_heading :: "string list option \<Rightarrow> string option" where
  "impact_heading impacted =
     (case impacted of
        None \<Rightarrow> None
      | Some ts \<Rightarrow>
          if length ts > 0
          then Some (show_int (int (length ts)) @ '' '' @ (if length ts = 1 then ''tag'' else ''tags'') @ '' will also be deleted'')
          else None)"

subsection \<open>The page\<close>

datatype TabValue = TagsTab | CategoriesTab

definition TABS :: "(TabValue \<times> string) list" where
  "TABS = [(TagsTab, ''Tags''), (CategoriesTab, ''Categories'')]"

text \<open>The rows of the two tables: a tag with the name of its category; the name and the description of a category.\<close>

definition TagsTable_rows :: "CategoryWithTags list \<Rightarrow> (Tag \<times> string) list" where
  "TagsTable_rows categories =
     concat (map (\<lambda>cat. map (\<lambda>t. (t, tagCategory_name cat)) (categoryWithTags_tags cat)) categories)"

definition row_description :: "string option \<Rightarrow> string" where
  "row_description description = nullish description em_dash"

definition CategoriesTable_rows :: "CategoryWithTags list \<Rightarrow> (string \<times> string) list" where
  "CategoriesTable_rows categories =
     map (\<lambda>cat. (tagCategory_name cat, row_description (tagCategory_description cat))) categories"

definition categoryList :: "CategoryWithTags list \<Rightarrow> TagCategory list" where
  "categoryList categories = map TagCategory.truncate categories"

subsection \<open>What the dialogs do\<close>

lemma category_calls:
  "map call_method (io_calls (category_body d answer) c) = [if cd_initial d = None then ''POST'' else ''PUT'']"
  by (simp add: category_body_def io_await_simps updateTagCategory_def createTagCategory_def api_verbs request_def
      split: option.split)

text \<open>A rendering of the page while a tag is being edited throws away what was typed.\<close>

lemma rerender_discards_input:
  "td_name (tag_form_edited (PageRendered cats) (tag_form_edited (TypeTagName s) (tag_form_opened (initial, cats) d)))
     = (case initial of None \<Rightarrow> [] | Some t \<Rightarrow> tag_name t)"
  by (simp add: tag_form_opened_def)

text \<open>The Enter key submits again while the first submit is under way, so one category can be created twice.\<close>

lemma enter_creates_twice:
  assumes "trim name \<noteq> []" and "delivers answer cat" and "delivers answer' cat'"
    and w: "w = form_run category_ops
       [FormOpened None, FormEdited (TypeCategoryName name), EnterPressed, EnterPressed, FormAnswered 0 answer, FormAnswered 0 answer']
       (form_start category_init c)"
  shows "map call_method (fw_calls w) = [''POST'', ''POST''] \<and> fw_saved w = 2"
proof -
  let ?d = "category_init\<lparr>cd_name := name\<rparr>"
  let ?d' = "category_init\<lparr>cd_name := name, cd_submitting := True, cd_error := []\<rparr>"
  let ?w = "form_run category_ops [FormOpened None, FormEdited (TypeCategoryName name), EnterPressed, EnterPressed]
      (form_start category_init c)"
  have p: "fw_pending ?w = [(0, ?d), (0, ?d')]" "fw_client ?w = c" "fw_calls ?w = []" "fw_saved ?w = 0"
    using assms(1)
    by (simp_all add: form_run_def form_start_def category_ops_def form_submit_def category_opened_def category_submit_def
        category_init_def)
  have body: "fo_body category_ops = category_body" by (simp add: category_ops_def)
  have ok: "io_client (category_body e answer) c = c" "io_result (category_body e answer) c = Inr (Some cat)"
    "io_result (category_body e answer') c = Inr (Some cat')" for e
    using read_answer_delivers [OF assms(2), of c] read_answer_delivers [OF assms(3), of c]
    by (simp_all add: category_body_def io_await_simps updateTagCategory_def createTagCategory_def api_verbs request_def
        split: option.split)
  have "w = form_answer category_ops 0 answer' (form_answer category_ops 0 answer ?w)"
    unfolding w using p(1) by (simp add: form_run_def form_answer_effect)
  then have "fw_calls w = io_calls (category_body ?d answer) c @ io_calls (category_body ?d' answer') c" "fw_saved w = 2"
    by (simp_all add: form_answer_effect p body ok)
  then show ?thesis by (simp add: category_calls category_init_def)
qed

text \<open>A delete that fails leaves the dialog open, idle and without any message.\<close>

lemma failed_tag_delete_is_silent:
  assumes "tag_handleConfirm_delete (FetchFailed m) d c = (ks, c', refetched, d')"
  shows "\<not> refetched \<and> d' = d\<lparr>tdel_deleting := False\<rparr>"
  using assms
  by (auto simp: tag_handleConfirm_delete_def await_def deleteTag_def deleteTagCategory_def api_verbs request_def read_answer_def
      Let_def split: delete_kind.splits)

lemma TagsTable_complete:
  "(t, n) \<in> set (TagsTable_rows categories) \<longleftrightarrow>
     (\<exists>cat \<in> set categories. t \<in> set (categoryWithTags_tags cat) \<and> n = tagCategory_name cat)"
  by (auto simp: TagsTable_rows_def)

end
