(* ===== verification/ScannerSettings.thy ===== *)
theory ScannerSettings
  imports FormDialog ApiCalls Expiry Schedule
begin

section \<open>Managing scanners (\<open>pages/settings/ScannersPage.tsx\<close>)\<close>

text \<open>
  The dialogs that create, edit, regenerate and revoke a scanner, the dialog that reveals a token, and the page. A thread count
  comes from a number field that the browser only submits with a whole number from 1 to 100, so it is an \<^typ>\<open>int\<close>.
  The description of a schedule and the relative times are in \<open>Schedule\<close> and \<open>Expiry\<close>.
\<close>

subsection \<open>Creating\<close>

record create_scanner =
  sc_name :: string
  sc_cronExpr :: string
  sc_threads :: int
  sc_submitting :: bool
  sc_error :: "string option"

definition create_scanner_init :: create_scanner where
  "create_scanner_init =
     \<lparr>sc_name = [], sc_cronExpr = ''0 2 * * *'', sc_threads = 5, sc_submitting = False, sc_error = None\<rparr>"

definition create_scanner_submit :: "create_scanner \<Rightarrow> bool \<times> create_scanner" where
  "create_scanner_submit d =
     (if trim (sc_name d) = [] then (False, d\<lparr>sc_error := Some ''Name is required.''\<rparr>)
      else if sc_threads d < 1 then (False, d\<lparr>sc_error := Some ''Threads must be at least 1.''\<rparr>)
      else (True, d\<lparr>sc_submitting := True, sc_error := None\<rparr>))"

record create_answers =
  ans_created :: "ScannerTokenCreated fetch_result"
  ans_updated :: "ScannerToken fetch_result"

text \<open>
  The configuration goes into a second request unless it is the one a scanner gets by default. The value is what is passed to
  \<open>onCreated\<close>. The page reads \<open>created.token\<close> there, so \<open>undefined\<close> throws inside the block.
\<close>

definition create_scanner_body :: "create_scanner \<Rightarrow> create_answers \<Rightarrow> ScannerTokenCreated io" where
  "create_scanner_body d a =
     io_bind (await (createScanner (trim (sc_name d))) (ans_created a)) (\<lambda>created.
     io_bind (io_when (sc_cronExpr d \<noteq> ''0 * * * *'' \<or> sc_threads d \<noteq> 5)
       (io_bind (io_the created) (\<lambda>s.
          await (updateScanner (scannerToken_id s) (trim (sc_name d)) (sc_cronExpr d) (sc_threads d)) (ans_updated a)))) (\<lambda>_.
     io_the created))"

definition create_scanner_finish :: "js_exn + ScannerTokenCreated \<Rightarrow> create_scanner \<Rightarrow> create_scanner" where
  "create_scanner_finish r d =
     (case r of
        Inr _ \<Rightarrow> d\<lparr>sc_submitting := False\<rparr>
      | Inl err \<Rightarrow> d\<lparr>sc_submitting := False, sc_error := Some (api_message ''Failed to create scanner.'' err)\<rparr>)"

datatype scanner_edit = TypeScannerName string | PickSchedule string | TypeThreads int

fun create_scanner_edited :: "scanner_edit \<Rightarrow> create_scanner \<Rightarrow> create_scanner" where
  "create_scanner_edited (TypeScannerName s) d = d\<lparr>sc_name := s\<rparr>"
| "create_scanner_edited (PickSchedule e) d = d\<lparr>sc_cronExpr := e\<rparr>"
| "create_scanner_edited (TypeThreads n) d = d\<lparr>sc_threads := n\<rparr>"

definition create_scanner_ops :: "(create_scanner, unit, scanner_edit, create_answers, ScannerTokenCreated) form_ops" where
  "create_scanner_ops =
     \<lparr>fo_keyed = True, fo_enter = False, fo_locked = (\<lambda>_. False), fo_open = (\<lambda>_ _. create_scanner_init), fo_close = (\<lambda>d. d),
      fo_edit = create_scanner_edited, fo_busy = sc_submitting, fo_error = sc_error, fo_submit = create_scanner_submit,
      fo_body = create_scanner_body, fo_finish = create_scanner_finish\<rparr>"

interpretation create_scanner_form: guarded_dialog create_scanner_ops
proof unfold_locales
  fix e d show "fo_busy create_scanner_ops (fo_edit create_scanner_ops e d) = fo_busy create_scanner_ops d"
    by (cases e) (simp_all add: create_scanner_ops_def)
qed (auto simp: create_scanner_ops_def create_scanner_init_def create_scanner_submit_def create_scanner_finish_def
    split: if_splits sum.splits)

subsection \<open>Editing\<close>

record edit_scanner =
  se_scanner :: "ScannerToken option"
  se_name :: string
  se_cronExpr :: string
  se_concurrency :: int
  se_submitting :: bool
  se_error :: "string option"

definition edit_scanner_init :: "ScannerToken option \<Rightarrow> edit_scanner" where
  "edit_scanner_init scanner =
     \<lparr>se_scanner = scanner,
      se_name = (case scanner of None \<Rightarrow> [] | Some s \<Rightarrow> scannerToken_name s),
      se_cronExpr = (case scanner of None \<Rightarrow> ''0 * * * *'' | Some s \<Rightarrow> scannerToken_scanCronExpression s),
      se_concurrency = (case scanner of None \<Rightarrow> 5 | Some s \<Rightarrow> scannerToken_scanConcurrency s),
      se_submitting = False, se_error = None\<rparr>"

definition edit_scanner_submit :: "edit_scanner \<Rightarrow> bool \<times> edit_scanner" where
  "edit_scanner_submit d =
     (if se_scanner d = None then (False, d)
      else if trim (se_name d) = [] then (False, d\<lparr>se_error := Some ''Name is required.''\<rparr>)
      else if se_concurrency d < 1 then (False, d\<lparr>se_error := Some ''Threads must be at least 1.''\<rparr>)
      else (True, d\<lparr>se_submitting := True, se_error := None\<rparr>))"

definition edit_scanner_body :: "edit_scanner \<Rightarrow> ScannerToken fetch_result \<Rightarrow> ScannerToken option io" where
  "edit_scanner_body d answer =
     (case se_scanner d of
        None \<Rightarrow> io_return None
      | Some s \<Rightarrow> await (updateScanner (scannerToken_id s) (trim (se_name d)) (se_cronExpr d) (se_concurrency d)) answer)"

definition edit_scanner_finish :: "js_exn + ScannerToken option \<Rightarrow> edit_scanner \<Rightarrow> edit_scanner" where
  "edit_scanner_finish r d =
     (case r of
        Inr _ \<Rightarrow> d\<lparr>se_submitting := False\<rparr>
      | Inl err \<Rightarrow> d\<lparr>se_submitting := False, se_error := Some (api_message ''Failed to update scanner.'' err)\<rparr>)"

fun edit_scanner_edited :: "scanner_edit \<Rightarrow> edit_scanner \<Rightarrow> edit_scanner" where
  "edit_scanner_edited (TypeScannerName s) d = d\<lparr>se_name := s\<rparr>"
| "edit_scanner_edited (PickSchedule e) d = d\<lparr>se_cronExpr := e\<rparr>"
| "edit_scanner_edited (TypeThreads n) d = d\<lparr>se_concurrency := n\<rparr>"

definition edit_scanner_ops ::
  "(edit_scanner, ScannerToken, scanner_edit, ScannerToken fetch_result, ScannerToken option) form_ops" where
  "edit_scanner_ops =
     \<lparr>fo_keyed = True, fo_enter = False, fo_locked = (\<lambda>_. False), fo_open = (\<lambda>s _. edit_scanner_init (Some s)),
      fo_close = (\<lambda>d. d\<lparr>se_scanner := None\<rparr>), fo_edit = edit_scanner_edited, fo_busy = se_submitting, fo_error = se_error,
      fo_submit = edit_scanner_submit, fo_body = edit_scanner_body, fo_finish = edit_scanner_finish\<rparr>"

interpretation edit_scanner_form: guarded_dialog edit_scanner_ops
proof unfold_locales
  fix e d show "fo_busy edit_scanner_ops (fo_edit edit_scanner_ops e d) = fo_busy edit_scanner_ops d"
    by (cases e) (simp_all add: edit_scanner_ops_def)
qed (auto simp: edit_scanner_ops_def edit_scanner_init_def edit_scanner_submit_def edit_scanner_finish_def
    split: if_splits sum.splits)

subsection \<open>Regenerating a token and revoking\<close>

record scanner_confirm =
  sd_scanner :: "ScannerToken option"
  sd_loading :: bool
  sd_error :: "string option"

definition scanner_confirm_init :: scanner_confirm where
  "scanner_confirm_init = \<lparr>sd_scanner = None, sd_loading = False, sd_error = None\<rparr>"

definition scanner_confirm_submit :: "scanner_confirm \<Rightarrow> bool \<times> scanner_confirm" where
  "scanner_confirm_submit d = (if sd_scanner d = None then (False, d) else (True, d\<lparr>sd_loading := True, sd_error := None\<rparr>))"

definition scanner_confirm_finish :: "string \<Rightarrow> js_exn + 'v \<Rightarrow> scanner_confirm \<Rightarrow> scanner_confirm" where
  "scanner_confirm_finish fallback r d =
     (case r of
        Inr _ \<Rightarrow> d\<lparr>sd_loading := False\<rparr>
      | Inl err \<Rightarrow> d\<lparr>sd_loading := False, sd_error := Some (api_message fallback err)\<rparr>)"

text \<open>\<open>onRegenerated(res.token)\<close>: the new token, or a \<open>TypeError\<close> when there is no answer.\<close>

definition regenerate_body :: "scanner_confirm \<Rightarrow> ScannerTokenRegenerated fetch_result \<Rightarrow> string io" where
  "regenerate_body d answer =
     (case sd_scanner d of
        None \<Rightarrow> io_return []
      | Some s \<Rightarrow>
          io_bind (await (regenerateScannerToken (scannerToken_id s)) answer) (\<lambda>res.
          io_bind (io_the res) (\<lambda>r. io_return (scannerTokenRegenerated_token r))))"

definition revoke_body :: "scanner_confirm \<Rightarrow> unit fetch_result \<Rightarrow> unit option io" where
  "revoke_body d answer =
     (case sd_scanner d of None \<Rightarrow> io_return None | Some s \<Rightarrow> await (deleteScanner (scannerToken_id s)) answer)"

definition regenerate_ops :: "(scanner_confirm, ScannerToken, unit, ScannerTokenRegenerated fetch_result, string) form_ops" where
  "regenerate_ops =
     \<lparr>fo_keyed = False, fo_enter = False, fo_locked = (\<lambda>_. False), fo_open = (\<lambda>s d. d\<lparr>sd_scanner := Some s\<rparr>),
      fo_close = (\<lambda>d. d\<lparr>sd_scanner := None\<rparr>), fo_edit = (\<lambda>_ d. d), fo_busy = sd_loading, fo_error = sd_error,
      fo_submit = scanner_confirm_submit, fo_body = regenerate_body,
      fo_finish = scanner_confirm_finish ''Failed to regenerate scanner token.''\<rparr>"

definition revoke_ops :: "(scanner_confirm, ScannerToken, unit, unit fetch_result, unit option) form_ops" where
  "revoke_ops =
     \<lparr>fo_keyed = False, fo_enter = False, fo_locked = (\<lambda>_. False), fo_open = (\<lambda>s d. d\<lparr>sd_scanner := Some s\<rparr>),
      fo_close = (\<lambda>d. d\<lparr>sd_scanner := None\<rparr>), fo_edit = (\<lambda>_ d. d), fo_busy = sd_loading, fo_error = sd_error,
      fo_submit = scanner_confirm_submit, fo_body = revoke_body,
      fo_finish = scanner_confirm_finish ''Failed to revoke scanner token.''\<rparr>"

interpretation regenerate_form: guarded_dialog regenerate_ops
  by unfold_locales
    (auto simp: regenerate_ops_def scanner_confirm_submit_def scanner_confirm_finish_def split: if_splits sum.splits)

interpretation revoke_form: guarded_dialog revoke_ops
  by unfold_locales
    (auto simp: revoke_ops_def scanner_confirm_submit_def scanner_confirm_finish_def split: if_splits sum.splits)

subsection \<open>The page\<close>

datatype reveal_badge = NewBadge | RotatedBadge

record scanners_page =
  sp_addSeq :: nat
  sp_addOpen :: bool
  sp_revealToken :: "string option"
  sp_revealBadge :: reveal_badge
  sp_editTarget :: "ScannerToken option"
  sp_regenTarget :: "ScannerToken option"
  sp_deleteTarget :: "ScannerToken option"
  sp_mutationError :: "string option"

definition scanners_page_init :: scanners_page where
  "scanners_page_init =
     \<lparr>sp_addSeq = 0, sp_addOpen = False, sp_revealToken = None, sp_revealBadge = NewBadge, sp_editTarget = None,
      sp_regenTarget = None, sp_deleteTarget = None, sp_mutationError = None\<rparr>"

definition handleCreated :: "ScannerTokenCreated \<Rightarrow> scanners_page \<Rightarrow> scanners_page" where
  "handleCreated created p = p\<lparr>sp_revealBadge := NewBadge, sp_revealToken := Some (scannerTokenCreated_token created)\<rparr>"

definition handleRegenerated :: "string \<Rightarrow> scanners_page \<Rightarrow> scanners_page" where
  "handleRegenerated tok p = p\<lparr>sp_revealBadge := RotatedBadge, sp_revealToken := Some tok\<rparr>"

definition openRegenerate :: "ScannerToken \<Rightarrow> scanners_page \<Rightarrow> scanners_page" where
  "openRegenerate s p = p\<lparr>sp_editTarget := None, sp_regenTarget := Some s\<rparr>"

definition handleSetDefault ::
  "ScannerToken \<Rightarrow> unit fetch_result \<Rightarrow> scanners_page \<Rightarrow> client \<Rightarrow> http_call list \<times> client \<times> scanners_page" where
  "handleSetDefault s answer p c =
     (case await (setDefaultScanner (scannerToken_id s)) answer c of
        (ks, c1, Inr _) \<Rightarrow> (ks, c1, p)
      | (ks, c1, Inl err) \<Rightarrow> (ks, c1, p\<lparr>sp_mutationError := Some (api_message ''Failed to set default scanner.'' err)\<rparr>))"

text \<open>A submit of the create or the regenerate dialog, together with what the page does at its end.\<close>

definition create_scanner_run ::
  "create_scanner \<Rightarrow> create_answers \<Rightarrow> scanners_page \<Rightarrow> client \<Rightarrow> http_call list \<times> client \<times> create_scanner \<times> scanners_page" where
  "create_scanner_run d a p c =
     (case create_scanner_submit d of
        (False, d1) \<Rightarrow> ([], c, d1, p)
      | (True, d1) \<Rightarrow>
          (case create_scanner_body d a c of
             (ks, c1, Inr created) \<Rightarrow>
               (ks, c1, create_scanner_finish (Inr created) d1, (handleCreated created p)\<lparr>sp_addOpen := False\<rparr>)
           | (ks, c1, Inl err) \<Rightarrow> (ks, c1, create_scanner_finish (Inl err) d1, p)))"

definition activeScanners :: "int \<Rightarrow> ScannerToken list \<Rightarrow> nat" where
  "activeScanners now scanners =
     length (filter (\<lambda>s. truthy (scannerToken_lastUsedAt s)
       \<and> num_less (elapsed now (the (scannerToken_lastUsedAt s))) 3600000) scanners)"

definition totalThreads :: "ScannerToken list \<Rightarrow> int" where
  "totalThreads scanners = foldl (\<lambda>sum s. sum + scannerToken_scanConcurrency s) 0 scanners"

text \<open>\<open>Math.round((active / total) * 100)\<close>, with halves rounded up.\<close>

definition active_pct :: "nat \<Rightarrow> nat \<Rightarrow> nat" where
  "active_pct active all = (if all = 0 then 0 else (200 * active + all) div (2 * all))"

datatype StatSignal = StatNeutral | StatGreen | StatAmber | StatRed

definition active_signal :: "nat \<Rightarrow> nat \<Rightarrow> StatSignal" where
  "active_signal active all =
     (if all = 0 then StatNeutral else if active = 0 then StatRed else if active < all then StatAmber else StatGreen)"

record scanner_row =
  srow_name :: string
  srow_default :: "bool option"
  srow_schedule :: string
  srow_threads :: int
  srow_dot :: string
  srow_lastUsed :: string

text \<open>A row; \<open>srow_default\<close> is \<open>Some True\<close> for the tick, \<open>Some False\<close> for the button, \<^const>\<open>None\<close> for neither.\<close>

definition scanner_row_of :: "bool \<Rightarrow> int \<Rightarrow> ScannerToken \<Rightarrow> scanner_row" where
  "scanner_row_of admin now s =
     \<lparr>srow_name = scannerToken_name s,
      srow_default = (if scannerToken_isDefault s then Some True else if admin then Some False else None),
      srow_schedule = snd (scheduleDisplay (scannerToken_scanCronExpression s)),
      srow_threads = scannerToken_scanConcurrency s,
      srow_dot = statusDot (scannerToken_lastUsedAt s) now,
      srow_lastUsed = (if truthy (scannerToken_lastUsedAt s) then fmtRelative_scanner (the (scannerToken_lastUsedAt s)) now
                       else ''Never'')\<rparr>"

datatype scanner_action = SetAsDefault | EditScanner | RegenerateToken | RevokeScanner

definition scanner_menu :: "bool \<Rightarrow> ScannerToken \<Rightarrow> scanner_action list" where
  "scanner_menu admin s =
     (if admin then (if scannerToken_isDefault s then [] else [SetAsDefault]) @ [EditScanner, RegenerateToken, RevokeScanner]
      else [])"

subsection \<open>What a scanner is created with\<close>

text \<open>
  The server's side (\<open>internal/scanners/handler.go\<close>): \<open>Create\<close> and \<open>Update\<close> decode the body, refuse an empty name and fill in defaults for an
  empty schedule and a thread count below one; the result is what is stored.
\<close>

definition defaultCron :: string where
  "defaultCron = ''0 * * * *''"

definition scanner_config :: "json option \<Rightarrow> (string \<times> string \<times> int) option" where
  "scanner_config body =
     (case body of
        Some (JObj fs) \<Rightarrow>
          (let name = string_field fs ''name''; cron = string_field fs ''scanCronExpression''; n = int_field fs ''scanConcurrency''
           in if name = [] then None
              else Some (name, if cron = [] then defaultCron else cron, if n \<le> 0 then 5 else n))
      | _ \<Rightarrow> None)"

lemma scanner_config_create:
  "name \<noteq> [] \<Longrightarrow> scanner_config (call_body (fst (createScanner name c a))) = Some (name, ''0 * * * *'', 5)"
  by (simp add: createScanner_def api_verbs request_def jobject_def scanner_config_def string_field_def int_field_def
      defaultCron_def)

lemma scanner_config_update:
  "name \<noteq> [] \<Longrightarrow> cron \<noteq> [] \<Longrightarrow> 1 \<le> n \<Longrightarrow>
     scanner_config (call_body (fst (updateScanner sid name cron n c a))) = Some (name, cron, n)"
  by (simp add: updateScanner_def api_verbs request_def jobject_def scanner_config_def string_field_def int_field_def)

lemma scanner_calls:
  "call_url (fst (createScanner name c a)) = BASE @ ''/scanners''"
  "call_url (fst (updateScanner sid name cron n c a')) = BASE @ ''/scanners/'' @ sid"
  "snd (createScanner name c a) = read_answer c a" "snd (updateScanner sid name cron n c a') = read_answer c a'"
  by (simp_all add: createScanner_def updateScanner_def api_verbs request_def)

lemma create_scanner_started:
  "trim (sc_name d) \<noteq> [] \<Longrightarrow> 1 \<le> sc_threads d \<Longrightarrow>
     create_scanner_submit d = (True, d\<lparr>sc_submitting := True, sc_error := None\<rparr>)"
  by (simp add: create_scanner_submit_def)

lemma create_scanner_body_ok:
  assumes "delivers (ans_created a) created" and "delivers (ans_updated a) updated"
  shows "create_scanner_body d a c =
    (fst (createScanner (trim (sc_name d)) c (ans_created a))
     # (if sc_cronExpr d \<noteq> ''0 * * * *'' \<or> sc_threads d \<noteq> 5
        then [fst (updateScanner (scannerToken_id created) (trim (sc_name d)) (sc_cronExpr d) (sc_threads d) c (ans_updated a))]
        else []), c, Inr created)"
proof (rule prod_eqI)
  have r: "read_answer c (ans_created a) = (c, Inr (Some created))" "read_answer c (ans_updated a) = (c, Inr (Some updated))"
    using assms by (simp_all add: read_answer_delivers)
  show "fst (create_scanner_body d a c) = fst (fst (createScanner (trim (sc_name d)) c (ans_created a))
     # (if sc_cronExpr d \<noteq> ''0 * * * *'' \<or> sc_threads d \<noteq> 5
        then [fst (updateScanner (scannerToken_id created) (trim (sc_name d)) (sc_cronExpr d) (sc_threads d) c (ans_updated a))]
        else []), c, Inr created)"
    by (simp add: create_scanner_body_def io_simps scanner_calls r)
  have "io_client (create_scanner_body d a) c = c" "io_result (create_scanner_body d a) c = Inr created"
    by (simp_all add: create_scanner_body_def io_simps scanner_calls r)
  then show "snd (create_scanner_body d a c) = snd (fst (createScanner (trim (sc_name d)) c (ans_created a))
     # (if sc_cronExpr d \<noteq> ''0 * * * *'' \<or> sc_threads d \<noteq> 5
        then [fst (updateScanner (scannerToken_id created) (trim (sc_name d)) (sc_cronExpr d) (sc_threads d) c (ans_updated a))]
        else []), c, Inr created)"
    by (simp add: prod_eq_iff)
qed

text \<open>A scanner is created with the configuration that was entered. When the server accepts the requests, the last one
  stores exactly the entered name (trimmed), schedule and thread count, also when the second request is left out because the
  configuration is the default of the server; the first request goes to the collection and the second, if any, to the scanner
  just created; the page then shows the token of the answer and the dialog is closed.\<close>

lemma created_scanner_configured:
  assumes "trim (sc_name d) \<noteq> []" and "1 \<le> sc_threads d" and "sc_cronExpr d \<noteq> []"
    and "delivers (ans_created a) created" and "delivers (ans_updated a) updated"
    and "create_scanner_run d a p c = (calls, c', d', p')"
  shows "scanner_config (call_body (last calls)) = Some (trim (sc_name d), sc_cronExpr d, sc_threads d)
    \<and> (map call_url calls = [BASE @ ''/scanners'']
       \<or> map call_url calls = [BASE @ ''/scanners'', BASE @ ''/scanners/'' @ scannerToken_id created])
    \<and> sp_revealToken p' = Some (scannerTokenCreated_token created) \<and> \<not> sp_addOpen p' \<and> \<not> sc_submitting d'"
proof -
  have "calls = fst (create_scanner_body d a c)" "p' = (handleCreated created p)\<lparr>sp_addOpen := False\<rparr>"
    "d' = create_scanner_finish (Inr created) (d\<lparr>sc_submitting := True, sc_error := None\<rparr>)"
    using assms(6) create_scanner_started [OF assms(1,2)] create_scanner_body_ok [OF assms(4,5), of d c]
    by (auto simp: create_scanner_run_def)
  then show ?thesis
    using assms(1-3) create_scanner_body_ok [OF assms(4,5), of d c]
    by (auto simp: scanner_calls scanner_config_create scanner_config_update handleCreated_def create_scanner_finish_def)
qed

definition example_scanner :: ScannerTokenCreated where
  "example_scanner =
     \<lparr>scannerToken_id = ''s1'', scannerToken_name = ''edge'', scannerToken_isDefault = False,
      scannerToken_scanCronExpression = ''0 * * * *'', scannerToken_scanConcurrency = 5, scannerToken_createdAt = [],
      scannerToken_lastUsedAt = None, scannerTokenCreated_token = ''secret''\<rparr>"

lemma created_scanner_configured_witness:
  "sp_revealToken (snd (snd (snd (create_scanner_run (create_scanner_init\<lparr>sc_name := ''edge''\<rparr>)
      \<lparr>ans_created = delivery example_scanner, ans_updated = delivery (ScannerToken.truncate example_scanner)\<rparr>
      scanners_page_init (client_load Map.empty))))) = Some ''secret''"
proof -
  let ?d = "create_scanner_init\<lparr>sc_name := ''edge''\<rparr>"
  let ?a = "\<lparr>ans_created = delivery example_scanner, ans_updated = delivery (ScannerToken.truncate example_scanner)\<rparr>"
  obtain calls c' d' p' where run:
    "create_scanner_run ?d ?a scanners_page_init (client_load Map.empty) = (calls, c', d', p')" by (metis prod_cases4)
  have "trim (sc_name ?d) \<noteq> []" "1 \<le> sc_threads ?d" "sc_cronExpr ?d \<noteq> []"
    by (simp_all add: create_scanner_init_def trim_def is_ws_def)
  from created_scanner_configured [OF this _ _ run, of example_scanner "ScannerToken.truncate example_scanner"]
  have "sp_revealToken p' = Some (scannerTokenCreated_token example_scanner)" by (simp add: delivers_delivery)
  then show ?thesis unfolding run by (simp add: example_scanner_def)
qed

text \<open>
  When the server creates the scanner and refuses the second request, the token is never shown: the dialog stays open with the
  error, and submitting again creates another scanner.
\<close>

lemma created_token_lost:
  assumes "trim (sc_name d) \<noteq> []" and "1 \<le> sc_threads d" and "sc_cronExpr d \<noteq> ''0 * * * *''"
    and "delivers (ans_created a) created" and "snd (read_answer c (ans_updated a)) = Inl err"
    and "create_scanner_run d a p c = (calls, c', d', p')"
  shows "p' = p \<and> d' = d\<lparr>sc_submitting := False, sc_error := Some (api_message ''Failed to create scanner.'' err)\<rparr>
    \<and> map call_url calls = [BASE @ ''/scanners'', BASE @ ''/scanners/'' @ scannerToken_id created]
    \<and> (\<exists>c2 d2 p2 ks. create_scanner_run d' a p' c' = (ks, c2, d2, p2) \<and> call_url (hd ks) = BASE @ ''/scanners'')"
proof -
  have r: "read_answer x (ans_created a) = (x, Inr (Some created))" for x
    using assms(4) by (simp add: read_answer_delivers)
  have res: "io_result (create_scanner_body d a) c = Inl err"
    "io_calls (create_scanner_body d a) c =
       [fst (createScanner (trim (sc_name d)) c (ans_created a)),
        fst (updateScanner (scannerToken_id created) (trim (sc_name d)) (sc_cronExpr d) (sc_threads d) c (ans_updated a))]"
    using assms(3,5) by (simp_all add: create_scanner_body_def io_simps scanner_calls r)
  obtain ks c1 where body: "create_scanner_body d a c = (ks, c1, Inl err)"
    using res(1) by (metis prod.collapse)
  have out: "p' = p" "d' = d\<lparr>sc_submitting := False, sc_error := Some (api_message ''Failed to create scanner.'' err)\<rparr>"
    "calls = io_calls (create_scanner_body d a) c"
    using assms(6) body create_scanner_started [OF assms(1,2)]
    by (simp_all add: create_scanner_run_def create_scanner_finish_def)
  have "\<exists>c2 d2 p2 ks. create_scanner_run e a p' c' = (ks, c2, d2, p2) \<and> call_url (hd ks) = BASE @ ''/scanners''"
    if "trim (sc_name e) \<noteq> []" "1 \<le> sc_threads e" for e
  proof -
    have "call_url (hd (io_calls (create_scanner_body e a) c')) = BASE @ ''/scanners''"
      by (simp add: create_scanner_body_def io_simps scanner_calls)
    then show ?thesis
      using create_scanner_started [OF that] by (auto simp: create_scanner_run_def split: prod.split sum.split)
  qed
  from this [of d'] assms(1,2) out res(2) show ?thesis by (simp add: scanner_calls)
qed

lemma active_pct_bound:
  assumes "active \<le> all"
  shows "active_pct active all \<le> 100"
proof (cases "all = 0")
  case False
  with assms have "200 * active + all < 101 * (2 * all)" by simp
  then have "(200 * active + all) div (2 * all) < 101" by (rule less_mult_imp_div_less)
  with False show ?thesis by (simp add: active_pct_def)
qed (simp add: active_pct_def)

end
