(* ===== verification/CronText.thy ===== *)
theory CronText
  imports Schedule
begin

section \<open>Schedules in words (\<open>pages/settings/MaintenancePage.tsx\<close>, \<open>pages/discovery/DiscoveryNetworksPage.tsx\<close>)\<close>

text \<open>
  The maintenance page and the discovery networks page each have a \<open>describeCron\<close> of their own. The first only puts the shapes
  of the schedule picker into words and shows every other expression as it is; the second looks at fewer fields.
\<close>

definition cron_parts :: "string \<Rightarrow> (string \<times> string \<times> string \<times> string \<times> string) option" where
  "cron_parts expr =
     (case split_ws (trim expr) of [mi, hr, dm, mon, dow] \<Rightarrow> Some (mi, hr, dm, mon, dow) | _ \<Rightarrow> None)"

definition DAYS :: "string list" where
  "DAYS = [''Sun'', ''Mon'', ''Tue'', ''Wed'', ''Thu'', ''Fri'', ''Sat'']"

text \<open>The expression \<open>/^\d+$/\<close>.\<close>

definition SIMPLE :: "string \<Rightarrow> bool" where
  "SIMPLE s \<longleftrightarrow> s \<noteq> [] \<and> list_all is_digit s"

definition clock_time :: "string \<Rightarrow> string \<Rightarrow> string" where
  "clock_time hr mi = '' at '' @ padStart 2 (CHR ''0'') hr @ '':'' @ padStart 2 (CHR ''0'') mi"

text \<open>\<open>DAYS[n]\<close> for a number that is a weekday, the field itself otherwise (also for \<open>NaN\<close>, which no comparison accepts).\<close>

definition day_name :: "string \<Rightarrow> string" where
  "day_name dow = (case parseInt None dow of Some n \<Rightarrow> if 0 \<le> n \<and> n \<le> 6 then DAYS ! nat n else dow | None \<Rightarrow> dow)"

definition describeCron_network :: "string \<Rightarrow> string" where
  "describeCron_network expr =
     (case cron_parts expr of
        None \<Rightarrow> expr
      | Some (mi, hr, dm, mon, dow) \<Rightarrow>
          (let time = (if hr \<noteq> ''*'' \<and> mi \<noteq> ''*'' then clock_time hr mi else []) in
           if dm = ''*'' \<and> dow = ''*'' then ''Daily'' @ time
           else if dm = ''*'' \<and> dow \<noteq> ''*'' then ''Weekly ('' @ day_name dow @ '')'' @ time
           else if dm \<noteq> ''*'' \<and> dow = ''*'' then ''Monthly'' @ time
           else expr))"

definition describeCron_job :: "string \<Rightarrow> string" where
  "describeCron_job expr =
     (case cron_parts expr of
        None \<Rightarrow> expr
      | Some (mi, hr, dm, mon, dow) \<Rightarrow>
          (if mon \<noteq> ''*'' then expr
           else if list_ex (\<lambda>p. p \<noteq> ''*'' \<and> \<not> SIMPLE p) [mi, hr, dm, dow] then expr
           else if hr = ''*'' \<and> dm = ''*'' \<and> dow = ''*'' then
             (if mi = ''*'' then expr
              else if mi = ''0'' then ''Hourly'' else ''Hourly at :'' @ padStart 2 (CHR ''0'') mi)
           else if hr = ''*'' \<or> mi = ''*'' then expr
           else
             (let time = clock_time hr mi in
              if dm = ''*'' \<and> dow = ''*'' then ''Daily'' @ time
              else if dm = ''*'' \<and> dow \<noteq> ''*'' then ''Weekly ('' @ day_name dow @ '')'' @ time
              else if dm \<noteq> ''*'' \<and> dow = ''*'' then ''Monthly'' @ time
              else expr)))"

subsection \<open>The words for the schedules of the picker\<close>

lemma cron_parts_join:
  assumes "word a" "word b" "word c" "word d" "word e"
  shows "cron_parts (a @ '' '' @ b @ '' '' @ c @ '' '' @ d @ '' '' @ e) = Some (a, b, c, d, e)"
proof -
  have j: "a @ '' '' @ b @ '' '' @ c @ '' '' @ d @ '' '' @ e = join '' '' [a, b, c, d, e]" by simp
  have w: "\<forall>w \<in> set [a, b, c, d, e]. word w" using assms by simp
  have "trim (join '' '' [a, b, c, d, e]) = join '' '' [a, b, c, d, e]" by (rule trim_join_words [OF _ w]) simp
  moreover have "split_ws (join '' '' [a, b, c, d, e]) = [a, b, c, d, e]"
    by (rule split_ws_join [OF _ w]) (simp_all add: is_ws_def)
  ultimately show ?thesis unfolding cron_parts_def j by simp
qed

lemma scheduleToCron_parts:
  "frequency s = Hourly \<or> frequency s = Custom \<Longrightarrow>
     cron_parts (scheduleToCron s) = Some (''0'', ''*'', ''*'', ''*'', ''*'')"
  "frequency s = Daily \<Longrightarrow>
     cron_parts (scheduleToCron s) = Some (show_int (minute s), show_int (hour s), ''*'', ''*'', ''*'')"
  "frequency s = Weekly \<Longrightarrow>
     cron_parts (scheduleToCron s) = Some (show_int (minute s), show_int (hour s), ''*'', ''*'', show_int (weekday s))"
  "frequency s = Monthly \<Longrightarrow>
     cron_parts (scheduleToCron s) = Some (show_int (minute s), show_int (hour s), show_int (day s), ''*'', ''*'')"
  using cron_parts_join [of "''0''" "''*''" "''*''" "''*''" "''*''"]
    cron_parts_join [of "show_int (minute s)" "show_int (hour s)" "''*''" "''*''" "''*''"]
    cron_parts_join [of "show_int (minute s)" "show_int (hour s)" "''*''" "''*''" "show_int (weekday s)"]
    cron_parts_join [of "show_int (minute s)" "show_int (hour s)" "show_int (day s)" "''*''" "''*''"]
  by (auto simp: scheduleToCron_def word_show_int)

lemma SIMPLE_show_int: "0 \<le> n \<Longrightarrow> SIMPLE (show_int n)"
  by (auto simp: SIMPLE_def show_int_def list_all_iff dest: show_nat_digits)

lemma SIMPLE_zero: "SIMPLE ''0''"
  by (simp add: SIMPLE_def is_digit_def charCode_def)

lemma day_name_show_int: "0 \<le> n \<Longrightarrow> n \<le> 6 \<Longrightarrow> day_name (show_int n) = DAYS ! nat n"
  by (simp add: day_name_def parseInt_show_int)

text \<open>A schedule in the ranges of the controls, and its description.\<close>

definition schedule_ok :: "Schedule \<Rightarrow> bool" where
  "schedule_ok s \<longleftrightarrow> hour s \<in> set HOURS \<and> 0 \<le> minute s \<and> minute s \<le> 59 \<and> 0 \<le> weekday s \<and> weekday s \<le> 6 \<and> 1 \<le> day s"

definition schedule_words :: "Schedule \<Rightarrow> string" where
  "schedule_words s =
     (let time = '' at '' @ pad2 (hour s) @ '':'' @ pad2 (minute s) in
      case frequency s of
        Daily \<Rightarrow> ''Daily'' @ time
      | Weekly \<Rightarrow> ''Weekly ('' @ DAYS ! nat (weekday s) @ '')'' @ time
      | Monthly \<Rightarrow> ''Monthly'' @ time
      | _ \<Rightarrow> ''Hourly'')"

lemma clock_time_show: "clock_time (show_int h) (show_int m) = '' at '' @ pad2 h @ '':'' @ pad2 m"
  by (simp add: clock_time_def pad2_def)

lemma describe_schedule: "schedule_ok s \<Longrightarrow> describeCron_job (scheduleToCron s) = schedule_words s"
proof -
  assume ok: "schedule_ok s"
  then have nonneg: "0 \<le> hour s" "0 \<le> minute s" "0 \<le> weekday s" "weekday s \<le> 6" "0 \<le> day s"
    by (auto simp: schedule_ok_def HOURS_def)
  show ?thesis
    by (cases "frequency s")
      (simp_all add: describeCron_job_def scheduleToCron_parts schedule_words_def SIMPLE_show_int nonneg clock_time_show
        day_name_show_int Let_def SIMPLE_zero)
qed

text \<open>The maintenance page never mislabels a schedule: an expression with a range, a list, a step or a month is shown as
  it is, and every schedule the picker can produce is described by its frequency, weekday and time. Whatever it puts into
  words, the discovery networks page describes with the same words, except that it calls every hourly schedule a daily one.\<close>

lemma cron_descriptions_agree:
  assumes "cron_parts e = Some (mi, hr, dm, mon, dow)" and "schedule_ok s"
  shows "((\<exists>f \<in> {mi, hr, dm, mon, dow}. f \<noteq> ''*'' \<and> \<not> SIMPLE f) \<or> mon \<noteq> ''*'' \<longrightarrow> describeCron_job e = e)
    \<and> describeCron_job (scheduleToCron s) = schedule_words s
    \<and> (describeCron_job e \<noteq> e \<longrightarrow>
         describeCron_network e = (if hr = ''*'' then ''Daily'' else describeCron_job e))"
proof (intro conjI)
  show "(\<exists>f \<in> {mi, hr, dm, mon, dow}. f \<noteq> ''*'' \<and> \<not> SIMPLE f) \<or> mon \<noteq> ''*'' \<longrightarrow> describeCron_job e = e"
    by (auto simp: describeCron_job_def assms(1))
  show "describeCron_job (scheduleToCron s) = schedule_words s" by (rule describe_schedule [OF assms(2)])
  show "describeCron_job e \<noteq> e \<longrightarrow> describeCron_network e = (if hr = ''*'' then ''Daily'' else describeCron_job e)"
    by (simp add: describeCron_job_def describeCron_network_def assms(1) Let_def)
qed

lemma cron_descriptions_agree_witness:
  "describeCron_job ''0 9-17 * * 1-5'' = ''0 9-17 * * 1-5''
   \<and> describeCron_job (scheduleToCron DEFAULT_SCHED) = ''Daily at 02:00''"
proof -
  have p: "cron_parts ''0 9-17 * * 1-5'' = Some (''0'', ''9-17'', ''*'', ''*'', ''1-5'')" and s: "schedule_ok DEFAULT_SCHED"
    and f: "\<not> SIMPLE ''9-17''" and w: "schedule_words DEFAULT_SCHED = ''Daily at 02:00''"
    by code_simp+
  show ?thesis using cron_descriptions_agree [OF p s] f w by simp
qed

text \<open>What the networks page makes of expressions outside the picker: working hours, a yearly run, an hourly one.\<close>

lemma network_descriptions_mislead:
  "describeCron_network ''0 9-17 * * 1-5'' = ''Weekly (Mon) at 9-17:00''
   \<and> describeCron_network ''0 2 1 6 *'' = ''Monthly at 02:00''
   \<and> describeCron_network (scheduleToCron \<lparr>frequency = Hourly, hour = 0, minute = 0, weekday = 0, day = 1\<rparr>) = ''Daily''"
  by code_simp

end
