(* ===== verification/Maintenance.thy ===== *)
theory Maintenance
  imports FormDialog ApiCalls CronText
begin

section \<open>Scheduled jobs (\<open>pages/settings/MaintenancePage.tsx\<close>)\<close>

text \<open>
  The six jobs, the table, the dialog that edits a schedule and a retention and runs a job, and the part of the server the
  dialog writes to (\<open>internal/settings/handler.go\<close>). A retention is a whole number of days: the server refuses any other body.
\<close>

subsection \<open>The jobs\<close>

datatype Tone = Emerald | Amber | Blue

text \<open>The answers of the server to the requests of a runner or of a retention; each uses the one of its type.\<close>

record job_answers =
  ja_update :: "ScheduledJob fetch_result"
  ja_scanDays :: "ScanHistoryRetentionResponse fetch_result"
  ja_auditDays :: "AuditLogRetentionResponse fetch_result"
  ja_purge :: "PurgeResponse fetch_result"
  ja_refresh :: "RefreshRootStoresResponse fetch_result"

record job_retention =
  jr_get :: "job_answers \<Rightarrow> int option io"
  jr_set :: "int \<Rightarrow> job_answers \<Rightarrow> int option io"
  jr_queryKey :: string
  jr_label :: string
  jr_hint :: string

record JobConfig =
  jc_name :: string
  jc_tone :: Tone
  jc_title :: string
  jc_description :: string
  jc_runner :: "(job_answers \<Rightarrow> string io) option"
  jc_retention :: "job_retention option"

definition removed_message :: "string \<Rightarrow> string \<Rightarrow> int \<Rightarrow> string" where
  "removed_message one many deleted =
     (if deleted = 1 then ''Removed 1 '' @ one @ ''.'' else ''Removed '' @ show_int deleted @ '' '' @ many @ ''.'')"

text \<open>A runner that purges: \<open>r.deleted\<close> throws when there is no answer.\<close>

definition purge_runner :: "PurgeResponse api_call \<Rightarrow> string \<Rightarrow> string \<Rightarrow> job_answers \<Rightarrow> string io" where
  "purge_runner call one many a =
     io_bind (await call (ja_purge a)) (\<lambda>r.
     io_bind (io_the r) (\<lambda>p. io_return (removed_message one many (purgeResponse_deleted p))))"

definition refresh_runner :: "job_answers \<Rightarrow> string io" where
  "refresh_runner a = io_bind (await runRefreshRootStores (ja_refresh a)) (\<lambda>_. io_return ''Refresh complete.'')"

definition scan_history_days :: job_retention where
  "scan_history_days =
     \<lparr>jr_get = (\<lambda>a. io_bind (await getScanHistoryRetention (ja_scanDays a))
        (\<lambda>r. io_return (map_option scanHistoryRetentionResponse_days r))),
      jr_set = (\<lambda>days a. io_bind (await (setScanHistoryRetention days) (ja_scanDays a))
        (\<lambda>r. io_return (map_option scanHistoryRetentionResponse_days r))),
      jr_queryKey = ''scan-history-retention'', jr_label = ''Retention'', jr_hint = ''Keep history for''\<rparr>"

definition audit_log_days :: job_retention where
  "audit_log_days =
     \<lparr>jr_get = (\<lambda>a. io_bind (await getAuditLogRetention (ja_auditDays a))
        (\<lambda>r. io_return (map_option auditLogRetentionResponse_days r))),
      jr_set = (\<lambda>days a. io_bind (await (setAuditLogRetention days) (ja_auditDays a))
        (\<lambda>r. io_return (map_option auditLogRetentionResponse_days r))),
      jr_queryKey = ''audit-log-retention'', jr_label = ''Retention'', jr_hint = ''Keep logs for''\<rparr>"

definition JOBS :: "JobConfig list" where
  "JOBS =
     [\<lparr>jc_name = ''expiry_alerts'', jc_tone = Emerald, jc_title = ''Certificate Expiry Alerts'',
       jc_description = ''Send email alerts to subscribers when certificates approach their expiry thresholds.'',
       jc_runner = None, jc_retention = None\<rparr>,
      \<lparr>jc_name = ''purge_expiry_alerts'', jc_tone = Amber, jc_title = ''Purge Expiry Alert Records'',
       jc_description = ''Remove sent-alert tracking records for certificates that are no longer active on any endpoint. '' @
         ''Clears the slate for replaced certificates so fresh alerts fire for new ones.'',
       jc_runner = Some (purge_runner runPurgeExpiryAlerts ''record'' ''records''), jc_retention = None\<rparr>,
      \<lparr>jc_name = ''purge_scan_history'', jc_tone = Amber, jc_title = ''Purge Scan History'',
       jc_description = ''Remove scan history records older than the retention window. '' @
         ''The most recent entry per endpoint is always kept regardless of age.'',
       jc_runner = Some (purge_runner runPurgeScanHistory ''row'' ''rows''), jc_retention = Some scan_history_days\<rparr>,
      \<lparr>jc_name = ''purge_audit_logs'', jc_tone = Amber, jc_title = ''Purge Audit Logs'',
       jc_description = ''Remove audit log entries older than the retention window.'',
       jc_runner = Some (purge_runner runPurgeAuditLogs ''entry'' ''entries''), jc_retention = Some audit_log_days\<rparr>,
      \<lparr>jc_name = ''purge_unreferenced_certs'', jc_tone = Amber, jc_title = ''Purge Unreferenced Certificates'',
       jc_description = ''Delete certificates no longer referenced by any endpoint, scan-history row, discovery-inbox entry, '' @
         ''root store, or other certificate'' @ [CHR 0x27] @ ''s issuer chain. Trust anchors are never removed.'',
       jc_runner = Some (purge_runner runPurgeUnreferencedCerts ''certificate'' ''certificates''), jc_retention = None\<rparr>,
      \<lparr>jc_name = ''refresh_root_stores'', jc_tone = Blue, jc_title = ''Refresh Root Stores'',
       jc_description = ''Pull the latest Apple, Chrome, Microsoft, and Mozilla root CA bundles from CCADB '' @
         ''and update trust anchor membership.'',
       jc_runner = Some refresh_runner, jc_retention = None\<rparr>]"

lemma JOBS_names: "distinct (map jc_name JOBS)"
  by (simp add: JOBS_def)

lemma JOBS_retention:
  assumes "cfg \<in> set JOBS"
  shows "jc_retention cfg =
    (if jc_name cfg = ''purge_scan_history'' then Some scan_history_days
     else if jc_name cfg = ''purge_audit_logs'' then Some audit_log_days else None)"
  using assms by (auto simp: JOBS_def)

subsection \<open>The table\<close>

text \<open>The expression \<open>/fail|error/i\<close>.\<close>

definition lastRunFailed :: "string \<Rightarrow> bool" where
  "lastRunFailed status \<longleftrightarrow> js_includes (toLowerCase status) ''fail'' \<or> js_includes (toLowerCase status) ''error''"

datatype run_mark = NoRunYet | RunFailed string | RunSucceeded string

datatype job_action = EditJob | RunNow | DisableJob | EnableJob

record job_row =
  jrow_title :: string
  jrow_schedule :: string
  jrow_lastRun :: "string option" \<comment> \<open>the instant, shown in the locale format; none is shown as Never\<close>
  jrow_status :: run_mark
  jrow_enabled :: bool
  jrow_menu :: "(job_action \<times> bool) list option" \<comment> \<open>none when the menu button is disabled\<close>

definition JobRow :: "JobConfig \<Rightarrow> ScheduledJob option \<Rightarrow> bool \<Rightarrow> bool \<Rightarrow> job_row" where
  "JobRow cfg job toggling running =
     (let enabled = (case job of None \<Rightarrow> False | Some j \<Rightarrow> scheduledJob_enabled j) in
      \<lparr>jrow_title = jc_title cfg,
       jrow_schedule = (case job of None \<Rightarrow> em_dash | Some j \<Rightarrow> describeCron_job (scheduledJob_cronExpression j)),
       jrow_lastRun = (case job of None \<Rightarrow> None
         | Some j \<Rightarrow> if truthy (scheduledJob_lastRunAt j) then scheduledJob_lastRunAt j else None),
       jrow_status = (case job of None \<Rightarrow> NoRunYet
         | Some j \<Rightarrow> (case scheduledJob_lastRunStatus j of None \<Rightarrow> NoRunYet
             | Some status \<Rightarrow> if lastRunFailed status then RunFailed status else RunSucceeded status)),
       jrow_enabled = enabled,
       jrow_menu = (if job = None then None
         else Some ([(EditJob, True)] @ (if jc_runner cfg = None then [] else [(RunNow, \<not> running)])
           @ [(if enabled then DisableJob else EnableJob, \<not> toggling)]))\<rparr>)"

definition find_job :: "string \<Rightarrow> ScheduledJob list option \<Rightarrow> ScheduledJob option" where
  "find_job name jobs = (case jobs of None \<Rightarrow> None | Some js \<Rightarrow> find (\<lambda>j. scheduledJob_name j = name) js)"

definition job_table :: "ScheduledJob list option \<Rightarrow> bool \<Rightarrow> string option \<Rightarrow> job_row list" where
  "job_table jobs toggling runningName =
     map (\<lambda>cfg. JobRow cfg (find_job (jc_name cfg) jobs) toggling (runningName = Some (jc_name cfg))) JOBS"

definition toggle_job :: "ScheduledJob \<Rightarrow> ScheduledJob fetch_result \<Rightarrow> ScheduledJob option io" where
  "toggle_job job answer =
     await (updateScheduledJob (scheduledJob_name job) (scheduledJob_cronExpression job) (\<not> scheduledJob_enabled job)) answer"

subsection \<open>The dialog\<close>

text \<open>\<open>jd_cfg\<close>, \<open>jd_job\<close> and \<open>jd_retentionData\<close> are what the page and the cache pass to it.\<close>

record job_dialog =
  jd_cfg :: "JobConfig option"
  jd_job :: "ScheduledJob option"
  jd_retentionData :: "int option"
  jd_cron :: string
  jd_enabled :: bool
  jd_retention :: int
  jd_saving :: bool
  jd_running :: bool
  jd_error :: "string option"
  jd_runResult :: "string option"

definition job_dialog_init :: job_dialog where
  "job_dialog_init =
     \<lparr>jd_cfg = None, jd_job = None, jd_retentionData = None, jd_cron = ''0 * * * *'', jd_enabled = True, jd_retention = 90,
      jd_saving = False, jd_running = False, jd_error = None, jd_runResult = None\<rparr>"

text \<open>The effect on \<open>[open, job]\<close>.\<close>

definition job_effect :: "ScheduledJob \<Rightarrow> job_dialog \<Rightarrow> job_dialog" where
  "job_effect job d =
     d\<lparr>jd_cron := scheduledJob_cronExpression job, jd_enabled := scheduledJob_enabled job, jd_error := None, jd_runResult := None\<rparr>"

definition job_opened :: "JobConfig \<times> ScheduledJob \<Rightarrow> job_dialog \<Rightarrow> job_dialog" where
  "job_opened target d =
     job_effect (snd target) (d\<lparr>jd_cfg := Some (fst target), jd_job := Some (snd target), jd_retentionData := None\<rparr>)"

definition job_closed :: "job_dialog \<Rightarrow> job_dialog" where
  "job_closed d = d\<lparr>jd_cfg := None, jd_job := None, jd_retentionData := None\<rparr>"

text \<open>
  What happens in the dialog: its controls, the two answers of the cache (an answer that equals the previous one keeps the old
  object, so no effect runs), and \<open>handleRun\<close> at its start and at its end.
\<close>

datatype job_edit =
    PickJobSchedule string
  | SwitchJob bool
  | TypeRetention int
  | JobsArrived "ScheduledJob list option"
  | RetentionArrived int
  | RunPressed
  | RunFinished "js_exn + string"

definition jobs_arrived :: "ScheduledJob list option \<Rightarrow> job_dialog \<Rightarrow> job_dialog" where
  "jobs_arrived jobs d =
     (case jd_cfg d of
        None \<Rightarrow> d
      | Some cfg \<Rightarrow>
          (let job = find_job (jc_name cfg) jobs; d1 = d\<lparr>jd_job := job\<rparr>
           in (case job of
                 Some j \<Rightarrow> if job = jd_job d then d1 else job_effect j d1
               | None \<Rightarrow> d1)))"

definition retention_arrived :: "int \<Rightarrow> job_dialog \<Rightarrow> job_dialog" where
  "retention_arrived days d =
     (case jd_cfg d of
        None \<Rightarrow> d
      | Some cfg \<Rightarrow>
          if jc_retention cfg = None \<or> jd_retentionData d = Some days then d
          else d\<lparr>jd_retentionData := Some days, jd_retention := days\<rparr>)"

definition run_start :: "job_dialog \<Rightarrow> job_dialog" where
  "run_start d =
     (case jd_cfg d of
        None \<Rightarrow> d
      | Some cfg \<Rightarrow>
          if jc_runner cfg = None \<or> jd_running d \<or> jd_saving d then d
          else d\<lparr>jd_running := True, jd_error := None, jd_runResult := None\<rparr>)"

definition run_finish :: "js_exn + string \<Rightarrow> job_dialog \<Rightarrow> job_dialog" where
  "run_finish r d =
     (case r of
        Inr msg \<Rightarrow> d\<lparr>jd_running := False, jd_runResult := (if msg = [] then jd_runResult d else Some msg)\<rparr>
      | Inl _ \<Rightarrow> d\<lparr>jd_running := False, jd_error := Some ''Run failed.''\<rparr>)"

definition run_body :: "job_dialog \<Rightarrow> job_answers \<Rightarrow> string io" where
  "run_body d a =
     (case jd_cfg d of
        None \<Rightarrow> io_return []
      | Some cfg \<Rightarrow> (case jc_runner cfg of None \<Rightarrow> io_return [] | Some runner \<Rightarrow> runner a))"

fun job_edited :: "job_edit \<Rightarrow> job_dialog \<Rightarrow> job_dialog" where
  "job_edited (PickJobSchedule s) d = d\<lparr>jd_cron := s\<rparr>"
| "job_edited (SwitchJob b) d = d\<lparr>jd_enabled := b\<rparr>"
| "job_edited (TypeRetention n) d = d\<lparr>jd_retention := n\<rparr>"
| "job_edited (JobsArrived jobs) d = jobs_arrived jobs d"
| "job_edited (RetentionArrived n) d = retention_arrived n d"
| "job_edited RunPressed d = run_start d"
| "job_edited (RunFinished r) d = run_finish r d"

definition job_submit :: "job_dialog \<Rightarrow> bool \<times> job_dialog" where
  "job_submit d =
     (if jd_cfg d = None \<or> jd_job d = None then (False, d) else (True, d\<lparr>jd_saving := True, jd_error := None\<rparr>))"

text \<open>Up to two requests, started together.\<close>

definition job_body :: "job_dialog \<Rightarrow> job_answers \<Rightarrow> unit io" where
  "job_body d a =
     (case (jd_cfg d, jd_job d) of
        (Some cfg, Some job) \<Rightarrow>
          io_both
            (io_when (jd_cron d \<noteq> scheduledJob_cronExpression job \<or> jd_enabled d \<noteq> scheduledJob_enabled job)
               (await (updateScheduledJob (jc_name cfg) (jd_cron d) (jd_enabled d)) (ja_update a)))
            (case (jc_retention cfg, jd_retentionData d) of
               (Some ret, Some days) \<Rightarrow> io_when (jd_retention d \<noteq> days) (jr_set ret (jd_retention d) a)
             | _ \<Rightarrow> io_return ())
      | _ \<Rightarrow> io_return ())"

definition job_finish :: "js_exn + unit \<Rightarrow> job_dialog \<Rightarrow> job_dialog" where
  "job_finish r d =
     (case r of
        Inr _ \<Rightarrow> d\<lparr>jd_saving := False\<rparr>
      | Inl _ \<Rightarrow> d\<lparr>jd_saving := False, jd_error := Some ''Failed to save schedule.''\<rparr>)"

definition job_ops :: "(job_dialog, JobConfig \<times> ScheduledJob, job_edit, job_answers, unit) form_ops" where
  "job_ops =
     \<lparr>fo_keyed = False, fo_enter = False, fo_locked = jd_saving, fo_open = job_opened, fo_close = job_closed,
      fo_edit = job_edited, fo_busy = jd_saving, fo_error = jd_error, fo_submit = job_submit, fo_body = job_body,
      fo_finish = job_finish\<rparr>"

lemma job_edited_saving: "jd_saving (job_edited e d) = jd_saving d"
  by (cases e) (simp_all add: jobs_arrived_def retention_arrived_def run_start_def run_finish_def job_effect_def Let_def
      split: option.split sum.split)

interpretation job_form: guarded_dialog job_ops
  by unfold_locales
    (auto simp: job_ops_def job_edited_saving job_closed_def job_opened_def job_effect_def job_submit_def job_finish_def
      split: if_splits sum.splits)

text \<open>The line under the controls about the last run, and the hint of the switch.\<close>

definition job_last_run :: "job_dialog \<Rightarrow> (string \<times> string option) option" where
  "job_last_run d =
     (case jd_job d of
        None \<Rightarrow> None
      | Some j \<Rightarrow>
          if truthy (scheduledJob_lastRunAt j)
          then Some (the (scheduledJob_lastRunAt j), if truthy (scheduledJob_lastRunStatus j) then scheduledJob_lastRunStatus j else None)
          else None)"

definition job_switch_hint :: "job_dialog \<Rightarrow> string" where
  "job_switch_hint d = (if jd_enabled d then ''Runs automatically on its schedule.'' else ''Will not run automatically.'')"

definition job_buttons :: "job_dialog \<Rightarrow> (string \<times> bool) option \<times> bool \<times> (string \<times> bool)" where
  "job_buttons d =
     ((case jd_cfg d of
         None \<Rightarrow> None
       | Some cfg \<Rightarrow>
           if jc_runner cfg = None then None
           else Some (if jd_running d then ''Running'' @ ellipsis else ''Run Now'', \<not> (jd_running d \<or> jd_saving d))),
      \<not> jd_saving d,
      (if jd_saving d then ''Saving'' @ ellipsis else ''Save'', \<not> (jd_saving d \<or> jd_job d = None)))"

subsection \<open>What a save leaves on the server\<close>

text \<open>
  The server's side: the schedule and state of each job and the two retentions. A job that does not exist, an empty schedule and a
  retention outside of 1 to 3650 days are refused.
\<close>

record job_store =
  js_jobs :: "string \<Rightarrow> (string \<times> bool) option"
  js_scanDays :: int
  js_auditDays :: int

definition update_days :: "(string \<times> json) list \<Rightarrow> int \<Rightarrow> int" where
  "update_days body old = (let days = int_field body ''days'' in if days < 1 \<or> days > 3650 then old else days)"

definition update_job :: "string \<Rightarrow> (string \<times> json) list \<Rightarrow> job_store \<Rightarrow> job_store" where
  "update_job name body st =
     (let cron = string_field body ''cronExpression'' in
      if cron = [] \<or> js_jobs st name = None then st
      else st\<lparr>js_jobs := (js_jobs st)(name \<mapsto> (cron, bool_field body ''enabled''))\<rparr>)"

definition serve_save :: "http_call \<Rightarrow> job_store \<Rightarrow> job_store" where
  "serve_save k st =
     (case call_body k of
        Some (JObj body) \<Rightarrow>
          (if call_method k \<noteq> ''PUT'' then st
           else if call_url k = BASE @ ''/maintenance/scan-history-retention''
           then st\<lparr>js_scanDays := update_days body (js_scanDays st)\<rparr>
           else if call_url k = BASE @ ''/maintenance/audit-log-retention''
           then st\<lparr>js_auditDays := update_days body (js_auditDays st)\<rparr>
           else if startsWith (call_url k) (BASE @ ''/maintenance/scheduled-jobs/'')
           then update_job (drop (length (BASE @ ''/maintenance/scheduled-jobs/'')) (call_url k)) body st
           else st)
      | _ \<Rightarrow> st)"

lemma serve_update:
  "serve_save (fst (updateScheduledJob name cron b c a)) st =
     (if cron = [] \<or> js_jobs st name = None then st else st\<lparr>js_jobs := (js_jobs st)(name \<mapsto> (cron, b))\<rparr>)"
  by (simp add: serve_save_def updateScheduledJob_def api_verbs request_def jobject_def json_fields update_job_def
      startsWith_def BASE_def)

lemma serve_scan_days:
  "serve_save (fst (setScanHistoryRetention n c a)) st =
     st\<lparr>js_scanDays := (if n < 1 \<or> n > 3650 then js_scanDays st else n)\<rparr>"
  by (simp add: serve_save_def setScanHistoryRetention_def api_verbs request_def jobject_def json_fields update_days_def)

lemma serve_audit_days:
  "serve_save (fst (setAuditLogRetention n c a)) st =
     st\<lparr>js_auditDays := (if n < 1 \<or> n > 3650 then js_auditDays st else n)\<rparr>"
  by (simp add: serve_save_def setAuditLogRetention_def api_verbs request_def jobject_def json_fields update_days_def BASE_def)

lemma jr_set_calls:
  "io_calls (jr_set scan_history_days n a) c = [fst (setScanHistoryRetention n c (ja_scanDays a))]"
  "io_calls (jr_set audit_log_days n a) c = [fst (setAuditLogRetention n c (ja_auditDays a))]"
  by (simp_all add: scan_history_days_def audit_log_days_def io_simps split: sum.split)

text \<open>The retention of a job on the server, the one the dialog shows, and the store with what the dialog shows.\<close>

definition stored_days :: "JobConfig \<Rightarrow> job_store \<Rightarrow> int" where
  "stored_days cfg st = (if jc_name cfg = ''purge_scan_history'' then js_scanDays st else js_auditDays st)"

definition shown_days :: "job_dialog \<Rightarrow> int option" where
  "shown_days d =
     (case jd_cfg d of
        None \<Rightarrow> None
      | Some cfg \<Rightarrow> if jc_retention cfg \<noteq> None \<and> jd_retentionData d \<noteq> None then Some (jd_retention d) else None)"

definition as_shown :: "job_dialog \<Rightarrow> JobConfig \<Rightarrow> job_store \<Rightarrow> job_store" where
  "as_shown d cfg st =
     st\<lparr>js_jobs := (js_jobs st)(jc_name cfg \<mapsto> (jd_cron d, jd_enabled d)),
        js_scanDays := (if jc_name cfg = ''purge_scan_history'' then nullish (shown_days d) (js_scanDays st) else js_scanDays st),
        js_auditDays := (if jc_name cfg = ''purge_audit_logs'' then nullish (shown_days d) (js_auditDays st) else js_auditDays st)\<rparr>"

text \<open>The dialog shows a job of the page as the server has it, apart from what was edited since.\<close>

definition dialog_fresh :: "job_dialog \<Rightarrow> JobConfig \<Rightarrow> job_store \<Rightarrow> bool" where
  "dialog_fresh d cfg st \<longleftrightarrow>
     cfg \<in> set JOBS \<and> jd_cfg d = Some cfg
     \<and> (case jd_job d of
          None \<Rightarrow> False
        | Some job \<Rightarrow> js_jobs st (jc_name cfg) = Some (scheduledJob_cronExpression job, scheduledJob_enabled job))
     \<and> (case jd_retentionData d of None \<Rightarrow> True | Some days \<Rightarrow> days = stored_days cfg st)"

definition job_input_ok :: "job_dialog \<Rightarrow> bool" where
  "job_input_ok d \<longleftrightarrow> jd_cron d \<noteq> [] \<and> 1 \<le> jd_retention d \<and> jd_retention d \<le> 3650"

text \<open>The two parts of a save, and what each does to the store.\<close>

definition update_calls :: "job_dialog \<Rightarrow> JobConfig \<Rightarrow> ScheduledJob \<Rightarrow> client \<Rightarrow> ScheduledJob fetch_result \<Rightarrow> http_call list" where
  "update_calls d cfg job c answer =
     (if jd_cron d \<noteq> scheduledJob_cronExpression job \<or> jd_enabled d \<noteq> scheduledJob_enabled job
      then [fst (updateScheduledJob (jc_name cfg) (jd_cron d) (jd_enabled d) c answer)] else [])"

definition retention_calls :: "job_dialog \<Rightarrow> JobConfig \<Rightarrow> client \<Rightarrow> job_answers \<Rightarrow> http_call list" where
  "retention_calls d cfg c a =
     (case (jc_retention cfg, jd_retentionData d) of
        (Some ret, Some days) \<Rightarrow> if jd_retention d \<noteq> days then io_calls (jr_set ret (jd_retention d) a) c else []
      | _ \<Rightarrow> [])"

lemma job_body_calls:
  assumes "jd_cfg d = Some cfg" and "jd_job d = Some job"
  shows "io_calls (job_body d a) c = update_calls d cfg job c (ja_update a) @ retention_calls d cfg c a"
  using assms by (auto simp: job_body_def update_calls_def retention_calls_def io_simps split: option.split)

lemma update_calls_serve:
  assumes "js_jobs st (jc_name cfg) = Some (scheduledJob_cronExpression job, scheduledJob_enabled job)" and "jd_cron d \<noteq> []"
  shows "fold serve_save (update_calls d cfg job c answer) st
    = st\<lparr>js_jobs := (js_jobs st)(jc_name cfg \<mapsto> (jd_cron d, jd_enabled d))\<rparr>"
  using assms by (auto simp: update_calls_def serve_update fun_upd_idem)

lemma retention_calls_serve:
  assumes "cfg \<in> set JOBS" and "jd_cfg d = Some cfg" and "1 \<le> jd_retention d" "jd_retention d \<le> 3650"
    and "\<And>n. jd_retentionData d = Some n \<Longrightarrow> n = stored_days cfg st"
  shows "fold serve_save (retention_calls d cfg c a) st
    = st\<lparr>js_scanDays := (if jc_name cfg = ''purge_scan_history'' then nullish (shown_days d) (js_scanDays st) else js_scanDays st),
         js_auditDays := (if jc_name cfg = ''purge_audit_logs'' then nullish (shown_days d) (js_auditDays st) else js_auditDays st)\<rparr>"
proof -
  have in_range: "\<not> (jd_retention d < 1 \<or> 3650 < jd_retention d)" using assms(3,4) by simp
  consider (scan) "jc_name cfg = ''purge_scan_history''" "jc_retention cfg = Some scan_history_days"
    | (audit) "jc_name cfg = ''purge_audit_logs''" "jc_retention cfg = Some audit_log_days"
    | (neither) "jc_name cfg \<noteq> ''purge_scan_history''" "jc_name cfg \<noteq> ''purge_audit_logs''" "jc_retention cfg = None"
    using JOBS_retention [OF assms(1)] by (auto split: if_splits)
  then show ?thesis
  proof cases
    case scan
    then show ?thesis
      using assms(2,5) in_range
      by (cases "jd_retentionData d")
        (simp_all add: retention_calls_def shown_days_def jr_set_calls serve_scan_days stored_days_def)
  next
    case audit
    then show ?thesis
      using assms(2,5) in_range
      by (cases "jd_retentionData d")
        (simp_all add: retention_calls_def shown_days_def jr_set_calls serve_audit_days stored_days_def)
  next
    case neither
    then show ?thesis by (simp add: retention_calls_def)
  qed
qed

lemma retention_calls_none:
  assumes "cfg \<in> set JOBS" and "jd_cfg d = Some cfg"
    and "\<And>n. jd_retentionData d = Some n \<Longrightarrow> n = stored_days cfg st"
  shows "retention_calls d cfg c a = [] \<longleftrightarrow>
    (jc_name cfg = ''purge_scan_history'' \<longrightarrow> nullish (shown_days d) (js_scanDays st) = js_scanDays st)
    \<and> (jc_name cfg = ''purge_audit_logs'' \<longrightarrow> nullish (shown_days d) (js_auditDays st) = js_auditDays st)"
  using assms(2,3)
  by (cases "jd_retentionData d")
    (simp_all add: retention_calls_def shown_days_def jr_set_calls stored_days_def JOBS_retention [OF assms(1)])

lemma calls_length: "cfg \<in> set JOBS \<Longrightarrow> length (update_calls d cfg job c x) \<le> 1 \<and> length (retention_calls d cfg c a) \<le> 1"
  by (auto simp: update_calls_def retention_calls_def JOBS_retention jr_set_calls split: option.split)

lemma rev_short: "length xs \<le> 1 \<Longrightarrow> rev xs = xs"
  by (cases xs) auto

lemma job_store_same:
  "st\<lparr>js_jobs := f, js_scanDays := m, js_auditDays := n\<rparr> = st \<longleftrightarrow> f = js_jobs st \<and> m = js_scanDays st \<and> n = js_auditDays st"
  by (cases st) auto

text \<open>\<^bold>\<open>C20\<close>: saving a job brings the server to exactly what the dialog shows, with as few requests as possible. When the dialog
  shows the job as the server has it apart from the edits, and the input is in range, the requests of a save (at most two), served in either order, leave the
  schedule, the state and the retention of this job as shown and everything else as it was; and nothing is sent exactly when
  nothing was changed.\<close>

theorem maintenance_save_exact:
  assumes "dialog_fresh d cfg st" and "job_input_ok d"
  shows "fold serve_save (io_calls (job_body d a) c) st = as_shown d cfg st
    \<and> fold serve_save (rev (io_calls (job_body d a) c)) st = as_shown d cfg st
    \<and> length (io_calls (job_body d a) c) \<le> 2
    \<and> (io_calls (job_body d a) c = [] \<longleftrightarrow> as_shown d cfg st = st)"
proof -
  obtain job where job: "jd_job d = Some job"
    and stored: "js_jobs st (jc_name cfg) = Some (scheduledJob_cronExpression job, scheduledJob_enabled job)"
    using assms(1) by (auto simp: dialog_fresh_def split: option.splits)
  have cfg: "cfg \<in> set JOBS" "jd_cfg d = Some cfg"
    and days: "\<And>n. jd_retentionData d = Some n \<Longrightarrow> n = stored_days cfg st"
    using assms(1) by (auto simp: dialog_fresh_def split: option.splits)
  have input: "jd_cron d \<noteq> []" "1 \<le> jd_retention d" "jd_retention d \<le> 3650" using assms(2) by (auto simp: job_input_ok_def)
  let ?u = "update_calls d cfg job c (ja_update a)" and ?r = "retention_calls d cfg c a"
  have calls: "io_calls (job_body d a) c = ?u @ ?r" by (rule job_body_calls [OF cfg(2) job])
  have short: "length ?u \<le> 1" "length ?r \<le> 1" using calls_length [OF cfg(1)] by blast+
  have "?u = [] \<longleftrightarrow> js_jobs st (jc_name cfg) = Some (jd_cron d, jd_enabled d)"
    using stored by (auto simp: update_calls_def)
  then have unchanged: "?u @ ?r = [] \<longleftrightarrow> as_shown d cfg st = st"
    unfolding as_shown_def job_store_same append_is_Nil_conv
    using days by (simp add: retention_calls_none [OF cfg, of st c a] fun_upd_idem_iff)
  let ?st = "st\<lparr>js_jobs := (js_jobs st)(jc_name cfg \<mapsto> (jd_cron d, jd_enabled d))\<rparr>"
  have "n = stored_days cfg ?st" if "jd_retentionData d = Some n" for n using days [OF that] by (simp add: stored_days_def)
  then have "fold serve_save (?u @ ?r) st = as_shown d cfg st"
    by (simp add: update_calls_serve [OF stored input(1)] retention_calls_serve [OF cfg input(2,3), of ?st] as_shown_def
        split: option.split)
  moreover have "fold serve_save (?r @ ?u) st = as_shown d cfg st"
    using stored
    by (simp add: retention_calls_serve [OF cfg input(2,3) days] update_calls_serve [OF _ input(1)] as_shown_def)
  moreover have "length (?u @ ?r) \<le> 2" using short by simp
  ultimately show ?thesis unfolding calls rev_append rev_short [OF short(1)] rev_short [OF short(2)]
    by (intro conjI unchanged)
qed

definition example_job :: ScheduledJob where
  "example_job =
     \<lparr>scheduledJob_name = ''purge_audit_logs'', scheduledJob_displayName = [], scheduledJob_cronExpression = ''0 3 * * *'',
      scheduledJob_enabled = True, scheduledJob_lastRunAt = None, scheduledJob_lastRunStatus = None\<rparr>"

theorem maintenance_save_exact_witness:
  "\<forall>a c. js_auditDays (fold serve_save
     (io_calls (job_body (job_edited (TypeRetention 30) (job_edited (RetentionArrived 90)
         (job_opened (JOBS ! 3, example_job) job_dialog_init))) a) c)
     \<lparr>js_jobs = [''purge_audit_logs'' \<mapsto> (''0 3 * * *'', True)], js_scanDays = 90, js_auditDays = 90\<rparr>) = 30"
proof (intro allI)
  fix a c
  let ?d = "job_edited (TypeRetention 30) (job_edited (RetentionArrived 90) (job_opened (JOBS ! 3, example_job) job_dialog_init))"
  let ?st = "\<lparr>js_jobs = [''purge_audit_logs'' \<mapsto> (''0 3 * * *'', True)], js_scanDays = 90, js_auditDays = 90\<rparr>"
  have job: "JOBS ! 3 \<in> set JOBS" "jc_name (JOBS ! 3) = ''purge_audit_logs''" "jc_retention (JOBS ! 3) = Some audit_log_days"
    by (simp_all add: JOBS_def)
  have d: "jd_cfg ?d = Some (JOBS ! 3)" "jd_job ?d = Some example_job" "jd_retentionData ?d = Some 90" "jd_retention ?d = 30"
    "jd_cron ?d = ''0 3 * * *''"
    by (simp_all add: retention_arrived_def job_opened_def job_effect_def job(3) example_job_def)
  have "dialog_fresh ?d (JOBS ! 3) ?st"
    unfolding dialog_fresh_def d by (simp add: job stored_days_def example_job_def)
  moreover have "job_input_ok ?d" unfolding job_input_ok_def d by simp
  ultimately have "fold serve_save (io_calls (job_body ?d a) c) ?st = as_shown ?d (JOBS ! 3) ?st"
    using maintenance_save_exact by blast
  moreover have "shown_days ?d = Some 30" unfolding shown_days_def d by (simp add: job)
  ultimately show "js_auditDays (fold serve_save (io_calls (job_body ?d a) c) ?st) = 30" by (simp add: as_shown_def job)
qed

subsection \<open>What goes wrong\<close>

text \<open>
  One of two requests may fail alone: the dialog then says that saving has failed, although the server has taken the other half.
\<close>

lemma half_saved:
  assumes "dialog_fresh d cfg st" and "jd_job d = Some job" and "snd (read_answer c (ja_update a)) = Inl err"
    and "jd_cron d \<noteq> scheduledJob_cronExpression job"
  shows "io_result (job_body d a) c = Inl err
    \<and> io_calls (job_body d a) c = update_calls d cfg job c (ja_update a) @ retention_calls d cfg c a"
proof -
  have cfg: "jd_cfg d = Some cfg" using assms(1) by (simp add: dialog_fresh_def)
  have "snd (snd (updateScheduledJob (jc_name cfg) (jd_cron d) (jd_enabled d) c (ja_update a))) = Inl err"
    using assms(3) by (simp add: updateScheduledJob_def api_call_result)
  then show ?thesis
    using assms(4) by (simp add: job_body_calls [OF cfg assms(2)]) (simp add: job_body_def cfg assms(2) io_simps)
qed

text \<open>
  The message of \<open>Run Now\<close> does not stay: a run refreshes the jobs, the refreshed job has a new time of its last run, and the
  effect on \<open>[open, job]\<close> then drops the message, and with it every change of the schedule that was not saved.
\<close>

lemma run_message_wiped:
  assumes "jd_cfg d = Some cfg" and "find_job (jc_name cfg) jobs = Some j" and "jd_job d \<noteq> Some j" and "msg \<noteq> []"
  shows "jd_runResult (job_edited (RunFinished (Inr msg)) d) = Some msg
    \<and> jd_runResult (job_edited (JobsArrived jobs) (job_edited (RunFinished (Inr msg)) d)) = None
    \<and> jd_cron (job_edited (JobsArrived jobs) (job_edited (RunFinished (Inr msg)) d)) = scheduledJob_cronExpression j"
  using assms by (simp add: jobs_arrived_def run_finish_def job_effect_def Let_def)

text \<open>A run that ends after its dialog was closed reports in the dialog of whichever job is open by then.\<close>

lemma run_message_elsewhere:
  "msg \<noteq> [] \<Longrightarrow>
     jd_cfg (run_finish (Inr msg) (job_opened (other, j) (job_closed (run_start d)))) = Some other
     \<and> jd_runResult (run_finish (Inr msg) (job_opened (other, j) (job_closed (run_start d)))) = Some msg"
  by (simp add: run_finish_def job_opened_def job_effect_def)

text \<open>
  The texts the server records: after a scheduled run, whatever came of it, after a purge by hand and after a refresh by hand. None of them
  is read as a failure, so the table never shows one.
\<close>

datatype recorded_run = ScheduledRun | PurgedByHand nat | RefreshedByHand

fun recorded_status :: "recorded_run \<Rightarrow> string" where
  "recorded_status ScheduledRun = ''success''"
| "recorded_status (PurgedByHand n) = ''removed '' @ show_nat n @ '' rows (manual run)''"
| "recorded_status RefreshedByHand = ''manual run''"

lemma js_includes_digits:
  "\<forall>c \<in> set ds. is_digit c \<Longrightarrow> p \<noteq> [] \<Longrightarrow> \<not> is_digit (hd p) \<Longrightarrow> js_includes (ds @ s) p = js_includes s p"
proof (induction ds)
  case (Cons c ds)
  then obtain x xs where "p = x # xs" by (cases p) auto
  with Cons show ?case by auto
qed simp

lemma toLowerCase_digits: "\<forall>c \<in> set ds. is_digit c \<Longrightarrow> toLowerCase ds = ds"
  unfolding toLowerCase_def by (intro map_idI) (auto simp: to_lower_def is_upper_def is_digit_def)

lemma failures_never_shown: "\<not> lastRunFailed (recorded_status r)"
proof (cases r)
  case (PurgedByHand n)
  have d: "\<forall>c \<in> set (show_nat n). is_digit c" using show_nat_digits by blast
  have low: "toLowerCase (recorded_status r) = ''removed '' @ show_nat n @ '' rows (manual run)''"
    using toLowerCase_digits [OF d] unfolding PurgedByHand
    by (simp add: toLowerCase_def to_lower_def is_upper_def charCode_def)
  obtain c cs where n: "show_nat n = c # cs" "is_digit c" using d by (cases "show_nat n") simp_all
  have "js_includes (show_nat n @ '' rows (manual run)'') ''fail'' = js_includes '' rows (manual run)'' ''fail''"
    "js_includes (show_nat n @ '' rows (manual run)'') ''error'' = js_includes '' rows (manual run)'' ''error''"
    using d by (intro js_includes_digits; simp add: is_digit_def charCode_def)+
  then show ?thesis unfolding lastRunFailed_def low by simp
qed (code_simp | simp add: lastRunFailed_def toLowerCase_def to_lower_def is_upper_def charCode_def)+

end
