(* ===== verification/MailSettings.thy ===== *)
theory MailSettings
  imports Async ApiCalls
begin

section \<open>Mail settings (\<open>pages/settings/MailConfigPage.tsx\<close>)\<close>

text \<open>
  The form of the SMTP settings, saving and sending a test mail, and what the server does with the password
  (\<open>internal/mail/handler.go\<close>). The port is a number field inside the form: the browser only submits a whole number from 1 to 65535.
\<close>

datatype PasswordMode = KeepPassword | ChangePassword

record mail_form =
  mf_enabled :: bool
  mf_smtpHost :: string
  mf_smtpPort :: int
  mf_authType :: MailAuthType
  mf_smtpUsername :: string
  mf_password :: string
  mf_passwordMode :: PasswordMode
  mf_fromAddress :: string
  mf_fromName :: string
  mf_tlsMode :: MailTlsMode
  mf_saving :: bool
  mf_testing :: bool
  mf_testRecipient :: string
  mf_saveError :: "string option"
  mf_testResult :: "(bool \<times> string) option"

definition mail_form_init :: mail_form where
  "mail_form_init =
     \<lparr>mf_enabled = False, mf_smtpHost = [], mf_smtpPort = 587, mf_authType = MailAuthPlain, mf_smtpUsername = [],
      mf_password = [], mf_passwordMode = ChangePassword, mf_fromAddress = [], mf_fromName = [],
      mf_tlsMode = MailTlsStarttls, mf_saving = False, mf_testing = False, mf_testRecipient = [], mf_saveError = None,
      mf_testResult = None\<rparr>"

text \<open>The effect on \<open>[mailConfig]\<close>.\<close>

definition mail_loaded :: "MailConfig \<Rightarrow> mail_form \<Rightarrow> mail_form" where
  "mail_loaded cfg f =
     f\<lparr>mf_enabled := mailConfig_enabled cfg, mf_smtpHost := mailConfig_smtpHost cfg,
       mf_smtpPort := (if mailConfig_smtpPort cfg = 0 then 587 else mailConfig_smtpPort cfg),
       mf_authType := mailConfig_authType cfg, mf_smtpUsername := mailConfig_smtpUsername cfg,
       mf_fromAddress := mailConfig_fromAddress cfg, mf_fromName := mailConfig_fromName cfg,
       mf_tlsMode := mailConfig_tlsMode cfg,
       mf_passwordMode := (if mailConfig_passwordSet cfg then KeepPassword else mf_passwordMode f)\<rparr>"

fun auth_string :: "MailAuthType \<Rightarrow> string" where
  "auth_string MailAuthNone = ''none''"
| "auth_string MailAuthPlain = ''plain''"
| "auth_string MailAuthLogin = ''login''"

fun tls_string :: "MailTlsMode \<Rightarrow> string" where
  "tls_string MailTlsNone = ''none''"
| "tls_string MailTlsStarttls = ''starttls''"
| "tls_string MailTlsTls = ''tls''"

definition mail_request :: "mail_form \<Rightarrow> SaveMailConfigRequest" where
  "mail_request f =
     \<lparr>saveMailConfigRequest_enabled = mf_enabled f, saveMailConfigRequest_smtpHost = trim (mf_smtpHost f),
      saveMailConfigRequest_smtpPort = mf_smtpPort f, saveMailConfigRequest_authType = auth_string (mf_authType f),
      saveMailConfigRequest_smtpUsername = (if mf_authType f \<noteq> MailAuthNone then trim (mf_smtpUsername f) else []),
      saveMailConfigRequest_smtpPassword =
        (if mf_authType f \<noteq> MailAuthNone \<and> mf_passwordMode f = ChangePassword then mf_password f else []),
      saveMailConfigRequest_fromAddress = trim (mf_fromAddress f), saveMailConfigRequest_fromName = trim (mf_fromName f),
      saveMailConfigRequest_tlsMode = tls_string (mf_tlsMode f)\<rparr>"

text \<open>The part of \<open>handleSave\<close> before its \<open>await\<close>, and the part after it, with the values the handler has captured.\<close>

definition mail_save_start :: "mail_form \<Rightarrow> mail_form" where
  "mail_save_start f = f\<lparr>mf_saving := True, mf_saveError := None, mf_testResult := None\<rparr>"

definition mail_save_finish :: "mail_form \<Rightarrow> js_exn + 'v \<Rightarrow> mail_form \<Rightarrow> mail_form" where
  "mail_save_finish captured r f =
     (case r of
        Inr _ \<Rightarrow>
          (if mf_passwordMode captured = ChangePassword \<and> mf_password captured \<noteq> []
           then f\<lparr>mf_passwordMode := KeepPassword, mf_password := [], mf_saving := False\<rparr>
           else f\<lparr>mf_saving := False\<rparr>)
      | Inl err \<Rightarrow> f\<lparr>mf_saveError := Some (api_message ''Failed to save mail config.'' err), mf_saving := False\<rparr>)"

definition mail_save :: "mail_form \<Rightarrow> MailConfig fetch_result \<Rightarrow> client \<Rightarrow> http_call list \<times> client \<times> mail_form" where
  "mail_save f answer c =
     (case await (saveMailConfig (mail_request f)) answer c of
        (ks, c1, r) \<Rightarrow> (ks, c1, mail_save_finish f r (mail_save_start f)))"

text \<open>\<open>handleTest\<close>, in the same way.\<close>

definition mail_test_start :: "mail_form \<Rightarrow> mail_form" where
  "mail_test_start f = f\<lparr>mf_testing := True, mf_testResult := None\<rparr>"

definition mail_test_call :: "mail_form \<Rightarrow> unit fetch_result \<Rightarrow> unit option io" where
  "mail_test_call f answer = await (testMailConfig (or_undefined (trim (mf_testRecipient f)))) answer"

definition mail_test_finish :: "mail_form \<Rightarrow> js_exn + 'v \<Rightarrow> mail_form \<Rightarrow> mail_form" where
  "mail_test_finish captured r f =
     (case r of
        Inr _ \<Rightarrow>
          (let to = (if trim (mf_testRecipient captured) \<noteq> [] then trim (mf_testRecipient captured) else mf_fromAddress captured)
           in f\<lparr>mf_testResult := Some (True, ''Test email sent to '' @ to @ ''.''), mf_testing := False\<rparr>)
      | Inl err \<Rightarrow> f\<lparr>mf_testResult := Some (False, api_message ''Test email failed.'' err), mf_testing := False\<rparr>)"

datatype mail_edit =
    EnableMail bool
  | TypeHost string
  | TypePort int
  | PickTls MailTlsMode
  | PickAuth MailAuthType
  | TypeUsername string
  | TypeMailPassword string
  | ChangePressed
  | CancelPressed
  | TypeFrom string
  | TypeFromName string
  | TypeRecipient string

fun mail_edited :: "mail_edit \<Rightarrow> mail_form \<Rightarrow> mail_form" where
  "mail_edited (EnableMail b) f = f\<lparr>mf_enabled := b\<rparr>"
| "mail_edited (TypeHost s) f = f\<lparr>mf_smtpHost := s\<rparr>"
| "mail_edited (TypePort n) f = f\<lparr>mf_smtpPort := n\<rparr>"
| "mail_edited (PickTls m) f = f\<lparr>mf_tlsMode := m\<rparr>"
| "mail_edited (PickAuth a) f = f\<lparr>mf_authType := a\<rparr>"
| "mail_edited (TypeUsername s) f = f\<lparr>mf_smtpUsername := s\<rparr>"
| "mail_edited (TypeMailPassword s) f = f\<lparr>mf_password := s\<rparr>"
| "mail_edited ChangePressed f = f\<lparr>mf_passwordMode := ChangePassword, mf_password := []\<rparr>"
| "mail_edited CancelPressed f = f\<lparr>mf_passwordMode := KeepPassword, mf_password := []\<rparr>"
| "mail_edited (TypeFrom s) f = f\<lparr>mf_fromAddress := s\<rparr>"
| "mail_edited (TypeFromName s) f = f\<lparr>mf_fromName := s\<rparr>"
| "mail_edited (TypeRecipient s) f = f\<lparr>mf_testRecipient := s\<rparr>"

text \<open>Which controls the form shows.\<close>

datatype password_control = NoPasswordField | PasswordPlaceholder | PasswordInput

definition password_control_of :: "mail_form \<Rightarrow> password_control" where
  "password_control_of f =
     (if mf_authType f = MailAuthNone then NoPasswordField
      else if mf_passwordMode f = KeepPassword then PasswordPlaceholder else PasswordInput)"

definition mail_buttons :: "mail_form \<Rightarrow> (string \<times> bool) \<times> (string \<times> bool)" where
  "mail_buttons f =
     ((if mf_saving f then ''Saving'' @ ellipsis else ''Save'', \<not> mf_saving f),
      (if mf_testing f then ''Sending'' @ ellipsis else ''Send'', \<not> (mf_testing f \<or> \<not> mf_enabled f)))"

definition TLS_OPTIONS :: "(MailTlsMode \<times> string) list" where
  "TLS_OPTIONS = [(MailTlsStarttls, ''STARTTLS''), (MailTlsTls, ''TLS / SSL''), (MailTlsNone, ''None'')]"

definition AUTH_OPTIONS :: "(MailAuthType \<times> string) list" where
  "AUTH_OPTIONS = [(MailAuthPlain, ''PLAIN''), (MailAuthLogin, ''LOGIN''), (MailAuthNone, ''None'')]"

subsection \<open>The password on the server\<close>

text \<open>The password that is stored after an accepted save, from the one stored before; an empty one means there is none.\<close>

definition saved_password :: "SaveMailConfigRequest \<Rightarrow> string \<Rightarrow> string" where
  "saved_password req existing =
     (if saveMailConfigRequest_authType req \<noteq> ''none'' then
        (if saveMailConfigRequest_smtpPassword req \<noteq> [] then saveMailConfigRequest_smtpPassword req else existing)
      else [])"

definition username_missing :: "SaveMailConfigRequest \<Rightarrow> bool" where
  "username_missing req \<longleftrightarrow> saveMailConfigRequest_authType req \<noteq> ''none'' \<and> saveMailConfigRequest_smtpUsername req = []"

lemma auth_string_none [simp]: "auth_string a = ''none'' \<longleftrightarrow> a = MailAuthNone"
  by (cases a) simp_all

text \<open>A settings record that is loaded and saved unchanged keeps its password and all other values.\<close>

definition stored_mail :: "MailConfig \<Rightarrow> bool" where
  "stored_mail cfg \<longleftrightarrow>
     mailConfig_smtpPort cfg \<noteq> 0
     \<and> (\<forall>s \<in> {mailConfig_smtpHost cfg, mailConfig_smtpUsername cfg, mailConfig_fromAddress cfg, mailConfig_fromName cfg}. trim s = s)
     \<and> (mailConfig_authType cfg = MailAuthNone \<longrightarrow> mailConfig_smtpUsername cfg = [] \<and> \<not> mailConfig_passwordSet cfg)"

lemma mail_unchanged:
  assumes "stored_mail cfg" and "mailConfig_passwordSet cfg \<longleftrightarrow> existing \<noteq> []"
  shows "saved_password (mail_request (mail_loaded cfg mail_form_init)) existing = existing
    \<and> mail_request (mail_loaded cfg mail_form_init) =
        \<lparr>saveMailConfigRequest_enabled = mailConfig_enabled cfg, saveMailConfigRequest_smtpHost = mailConfig_smtpHost cfg,
         saveMailConfigRequest_smtpPort = mailConfig_smtpPort cfg,
         saveMailConfigRequest_authType = auth_string (mailConfig_authType cfg),
         saveMailConfigRequest_smtpUsername = mailConfig_smtpUsername cfg, saveMailConfigRequest_smtpPassword = [],
         saveMailConfigRequest_fromAddress = mailConfig_fromAddress cfg, saveMailConfigRequest_fromName = mailConfig_fromName cfg,
         saveMailConfigRequest_tlsMode = tls_string (mailConfig_tlsMode cfg)\<rparr>"
  using assms by (auto simp: mail_request_def mail_loaded_def mail_form_init_def saved_password_def stored_mail_def)

text \<open>The password of the page after a save, whatever was edited: it is never lost unless the authentication is switched off.\<close>

lemma saved_password_cases:
  "saved_password (mail_request f) existing =
     (if mf_authType f = MailAuthNone then []
      else if mf_passwordMode f = ChangePassword \<and> mf_password f \<noteq> [] then mf_password f else existing)"
  by (simp add: saved_password_def mail_request_def)

text \<open>
  The placeholder of a stored password may stand for none at all: after \<open>Cancel\<close> on a page that never had one, after a password
  was typed and the authentication then switched off (the save drops it, the page keeps it as stored), and after a save
  without authentication has erased the stored one.
\<close>

lemma placeholder_without_password:
  "password_control_of (mail_edited CancelPressed mail_form_init) = PasswordPlaceholder"
  by (simp add: password_control_of_def mail_form_init_def)

lemma typed_password_dropped:
  assumes "s \<noteq> []"
  shows "saved_password (mail_request (mail_edited (PickAuth MailAuthNone) (mail_edited (TypeMailPassword s) mail_form_init))) old = []
    \<and> password_control_of (mail_edited (PickAuth MailAuthPlain)
        (mail_save_finish (mail_edited (PickAuth MailAuthNone) (mail_edited (TypeMailPassword s) mail_form_init)) (Inr v)
          (mail_save_start (mail_edited (PickAuth MailAuthNone) (mail_edited (TypeMailPassword s) mail_form_init)))))
      = PasswordPlaceholder"
  using assms
  by (simp add: saved_password_def mail_request_def password_control_of_def mail_save_finish_def mail_save_start_def
      mail_form_init_def)

lemma erased_password_shown:
  assumes "mailConfig_passwordSet cfg" and "f = mail_edited (PickAuth MailAuthNone) (mail_loaded cfg mail_form_init)"
  shows "saved_password (mail_request f) old = []
    \<and> password_control_of (mail_edited (PickAuth MailAuthPlain) (mail_save_finish f (Inr v) (mail_save_start f))) = PasswordPlaceholder
    \<and> saved_password (mail_request (mail_edited (PickAuth MailAuthPlain) (mail_save_finish f (Inr v) (mail_save_start f)))) [] = []"
  using assms
  by (simp add: saved_password_def mail_request_def password_control_of_def mail_save_finish_def mail_save_start_def
      mail_loaded_def mail_form_init_def)

text \<open>
  A test mail is sent with the saved settings, to the saved sender when no recipient is given, while the page names the sender
  of the form, which may not be saved.
\<close>

lemma test_names_unsaved_sender:
  "mf_testRecipient f = [] \<Longrightarrow>
     call_body (fst (testMailConfig (or_undefined (trim (mf_testRecipient f))) c a)) = Some (JObj [(''to'', JStr [])])
     \<and> mf_testResult (mail_test_finish f (Inr v) f) = Some (True, ''Test email sent to '' @ mf_fromAddress f @ ''.'')"
  by (simp add: testMailConfig_def api_verbs request_def jobject_def mail_test_finish_def)

end
