(* ===== verification/GroupSettings.thy ===== *)
theory GroupSettings
  imports Async ApiCalls ListParts
begin

section \<open>Groups (\<open>pages/settings/GroupFormPage.tsx\<close>, \<open>pages/settings/GroupsPage.tsx\<close>)\<close>

text \<open>
  The form of a group with its host picker, the list of groups, and the part of the server's pagination that the form
  relies on (\<open>pkg/pagination\<close>).
\<close>

subsection \<open>The host picker\<close>

text \<open>
  \<open>ph_armed\<close> is the text of a search whose timer runs, \<open>ph_asked\<close> the searches under way, each with the selection it was asked
  with. A failed search ends in the same way without touching the results; nothing catches its error.
\<close>

record host_picker =
  ph_search :: string
  ph_results :: "EndpointListItem list"
  ph_loading :: bool
  ph_armed :: "string option"
  ph_asked :: "(string \<times> string js_set) list"

definition picker_empty :: host_picker where
  "picker_empty = \<lparr>ph_search = [], ph_results = [], ph_loading = False, ph_armed = None, ph_asked = []\<rparr>"

text \<open>The effect on \<open>[search, selectedIDs]\<close>: it clears the timer and, for a text, starts another one.\<close>

definition picker_search_effect :: "host_picker \<Rightarrow> host_picker" where
  "picker_search_effect p =
     (if trim (ph_search p) = [] then p\<lparr>ph_armed := None, ph_results := []\<rparr>
      else p\<lparr>ph_armed := Some (trim (ph_search p))\<rparr>)"

definition picker_typed :: "string \<Rightarrow> host_picker \<Rightarrow> host_picker" where
  "picker_typed s p = picker_search_effect (p\<lparr>ph_search := s\<rparr>)"

definition picker_closed :: "host_picker \<Rightarrow> host_picker" where
  "picker_closed p = picker_search_effect (p\<lparr>ph_search := [], ph_results := []\<rparr>)"

definition picker_timer :: "string js_set \<Rightarrow> host_picker \<Rightarrow> host_picker" where
  "picker_timer selected p =
     (case ph_armed p of
        None \<Rightarrow> p
      | Some s \<Rightarrow> p\<lparr>ph_armed := None, ph_loading := True, ph_asked := ph_asked p @ [(s, selected)]\<rparr>)"

definition picker_query :: "string \<Rightarrow> EndpointList api_call" where
  "picker_query s = listEndpoints 1 50 s [] [] [] AnyType AnyProtocol []"

definition picker_answered :: "nat \<Rightarrow> EndpointListItem list option \<Rightarrow> host_picker \<Rightarrow> host_picker" where
  "picker_answered i answer p =
     (if i < length (ph_asked p)
      then p\<lparr>ph_loading := False, ph_asked := take i (ph_asked p) @ drop (Suc i) (ph_asked p),
             ph_results := (case answer of
                 None \<Rightarrow> ph_results p
               | Some items \<Rightarrow> filter (\<lambda>h. \<not> js_set_has (snd (ph_asked p ! i)) (endpointListItem_id h)) items)\<rparr>
      else p)"

datatype picker_view = TypeToSearch | PickerSearching | NoHostsFound | HostsFound "EndpointListItem list"

definition picker_view_of :: "host_picker \<Rightarrow> picker_view" where
  "picker_view_of p =
     (if trim (ph_search p) = [] then TypeToSearch
      else if ph_loading p then PickerSearching
      else if length (ph_results p) = 0 then NoHostsFound
      else HostsFound (ph_results p))"

definition host_address :: "EndpointListItem \<Rightarrow> string" where
  "host_address h = endpointListItem_dnsName h @ '':'' @ show_int (endpointListItem_port h)"

subsection \<open>The form\<close>

record group_form =
  gf_name :: string
  gf_description :: string
  gf_selectedHosts :: "EndpointListItem list"
  gf_pickerOpen :: bool
  gf_saving :: bool
  gf_error :: "string option"
  gf_ready :: bool
  gf_picker :: host_picker

definition group_isEdit :: "string option \<Rightarrow> bool" where
  "group_isEdit gid = truthy gid"

definition group_form_init :: "string option \<Rightarrow> group_form" where
  "group_form_init gid =
     \<lparr>gf_name = [], gf_description = [], gf_selectedHosts = [], gf_pickerOpen = False, gf_saving = False, gf_error = None,
      gf_ready = (\<not> group_isEdit gid), gf_picker = picker_empty\<rparr>"

text \<open>
  The query of an existing group: three requests, all of which must succeed; \<open>hostList.items\<close> throws when that answer is
  missing. Without its data the form is never ready and the page stays at \<open>Loading\<close>.
\<close>

definition group_data ::
  "Group outcome \<Rightarrow> string list outcome \<Rightarrow> EndpointList outcome \<Rightarrow> (Group option \<times> string list option \<times> EndpointListItem list) option" where
  "group_data gr hostIDs hostList =
     (case (gr, hostIDs, hostList) of
        (Inr g, Inr ids, Inr (Some hosts)) \<Rightarrow> Some (g, ids, paginatedList_items hosts)
      | _ \<Rightarrow> None)"

definition group_loaded :: "Group \<Rightarrow> string list \<Rightarrow> EndpointListItem list \<Rightarrow> group_form \<Rightarrow> group_form" where
  "group_loaded gr hostIDs hostList f =
     f\<lparr>gf_name := group_name gr, gf_description := nullish (group_description gr) [],
       gf_selectedHosts := filter (\<lambda>h. endpointListItem_id h \<in> set hostIDs) hostList, gf_ready := True\<rparr>"

definition addHost :: "EndpointListItem \<Rightarrow> group_form \<Rightarrow> group_form" where
  "addHost host f =
     f\<lparr>gf_selectedHosts :=
         (if list_ex (\<lambda>h. endpointListItem_id h = endpointListItem_id host) (gf_selectedHosts f) then gf_selectedHosts f
          else gf_selectedHosts f @ [host])\<rparr>"

definition removeHost :: "string \<Rightarrow> group_form \<Rightarrow> group_form" where
  "removeHost hostID f = f\<lparr>gf_selectedHosts := filter (\<lambda>h. endpointListItem_id h \<noteq> hostID) (gf_selectedHosts f)\<rparr>"

definition selectedIDs :: "group_form \<Rightarrow> string js_set" where
  "selectedIDs f = js_set_of (map endpointListItem_id (gf_selectedHosts f))"

definition group_request :: "group_form \<Rightarrow> GroupRequest" where
  "group_request f =
     \<lparr>groupRequest_name = trim (gf_name f), groupRequest_description = Some (or_undefined (trim (gf_description f))),
      groupRequest_hostIds = map endpointListItem_id (gf_selectedHosts f)\<rparr>"

text \<open>\<open>handleSave\<close>; the last component is where the page navigates to. \<open>saving\<close> stays set when it does.\<close>

definition group_save ::
  "string option \<Rightarrow> group_form \<Rightarrow> Group fetch_result \<Rightarrow> client \<Rightarrow> http_call list \<times> client \<times> group_form \<times> string option" where
  "group_save gid f answer c =
     (if trim (gf_name f) = [] then ([], c, f\<lparr>gf_error := Some ''Name is required.''\<rparr>, None)
      else
        (let f1 = f\<lparr>gf_saving := True, gf_error := None\<rparr>;
             body = (if group_isEdit gid then await (updateGroup (the gid) (group_request f)) answer
                     else await (createGroup (group_request f)) answer)
         in (case body c of
               (ks, c1, Inr _) \<Rightarrow> (ks, c1, f1, Some ''/settings/groups'')
             | (ks, c1, Inl _) \<Rightarrow>
                 (ks, c1,
                  f1\<lparr>gf_error := Some (''Failed to '' @ (if group_isEdit gid then ''update'' else ''create'') @ '' group.''),
                     gf_saving := False\<rparr>, None))))"

datatype group_event =
    GroupNameTyped string
  | GroupDescriptionTyped string
  | PickerOpened
  | PickerClosed
  | PickerTyped string
  | PickerTimer
  | PickerAnswered nat "EndpointListItem list option"
  | PickerChosen EndpointListItem
  | HostRemoved string

text \<open>
  The effect of the picker runs again whenever the selection is a new set, which it is after every rendering of the page: each
  event restarts the timer of a search that is waiting.
\<close>

fun group_form_step :: "group_event \<Rightarrow> group_form \<Rightarrow> group_form" where
  "group_form_step (GroupNameTyped s) f = f\<lparr>gf_name := s, gf_picker := picker_search_effect (gf_picker f)\<rparr>"
| "group_form_step (GroupDescriptionTyped s) f = f\<lparr>gf_description := s, gf_picker := picker_search_effect (gf_picker f)\<rparr>"
| "group_form_step PickerOpened f = f\<lparr>gf_pickerOpen := True, gf_picker := picker_search_effect (gf_picker f)\<rparr>"
| "group_form_step PickerClosed f = f\<lparr>gf_pickerOpen := False, gf_picker := picker_closed (gf_picker f)\<rparr>"
| "group_form_step (PickerTyped s) f = f\<lparr>gf_picker := picker_typed s (gf_picker f)\<rparr>"
| "group_form_step PickerTimer f = f\<lparr>gf_picker := picker_timer (selectedIDs f) (gf_picker f)\<rparr>"
| "group_form_step (PickerAnswered i answer) f = f\<lparr>gf_picker := picker_answered i answer (gf_picker f)\<rparr>"
| "group_form_step (PickerChosen h) f =
     (if picker_view_of (gf_picker f) = HostsFound (ph_results (gf_picker f)) \<and> h \<in> set (ph_results (gf_picker f))
      then (addHost h f)\<lparr>gf_picker := picker_search_effect ((gf_picker f)\<lparr>ph_search := [], ph_results := []\<rparr>)\<rparr>
      else f)"
| "group_form_step (HostRemoved i) f = (removeHost i f)\<lparr>gf_picker := picker_search_effect (gf_picker f)\<rparr>"

definition group_run :: "group_event list \<Rightarrow> group_form \<Rightarrow> group_form" where
  "group_run events f = fold group_form_step events f"

subsection \<open>The list\<close>

record groups_page =
  gp_page :: int
  gp_deleteTarget :: "Group option"
  gp_deleting :: bool

definition groups_init :: groups_page where
  "groups_init = \<lparr>gp_page = 1, gp_deleteTarget = None, gp_deleting = False\<rparr>"

definition groups_query :: "groups_page \<Rightarrow> GroupList api_call" where
  "groups_query p = listGroups (gp_page p) PAGE_SIZE"

definition groups_line :: "int \<Rightarrow> int \<Rightarrow> string" where
  "groups_line page tot =
     (if tot = 0 then ''No groups''
      else ''Showing '' @ show_int (rangeStart page tot) @ [CHR 0xE2, CHR 0x80, CHR 0x93] @ show_int (rangeEnd page tot)
        @ '' of '' @ show_int tot @ '' '' @ (if tot = 1 then ''group'' else ''groups''))"

definition group_row :: "Group \<Rightarrow> string \<times> string" where
  "group_row g = (group_name g, nullish (group_description g) em_dash)"

definition group_edit_link :: "Group \<Rightarrow> string" where
  "group_edit_link g = ''/settings/groups/'' @ group_id g @ ''/edit''"

text \<open>
  \<open>handleDelete\<close> with the number of rows on the page, for the target it has captured: the second component says whether the list
  is fetched again. Nothing catches an error; the dialog then stays open.
\<close>

definition group_delete ::
  "nat \<Rightarrow> unit fetch_result \<Rightarrow> groups_page \<Rightarrow> client \<Rightarrow> http_call list \<times> client \<times> groups_page \<times> bool" where
  "group_delete rows answer p c =
     (case gp_deleteTarget p of
        None \<Rightarrow> ([], c, p, False)
      | Some g \<Rightarrow>
          (case await (deleteGroup (group_id g)) answer c of
             (ks, c1, Inr _) \<Rightarrow>
               (if rows = 1 \<and> gp_page p > 1
                then (ks, c1, p\<lparr>gp_deleteTarget := None, gp_page := gp_page p - 1, gp_deleting := False\<rparr>, False)
                else (ks, c1, p\<lparr>gp_deleteTarget := None, gp_deleting := False\<rparr>, True))
           | (ks, c1, Inl _) \<Rightarrow> (ks, c1, p\<lparr>gp_deleting := False\<rparr>, False)))"

text \<open>After the last row of the last page is gone the page is the last one again: it never ends up behind the end.\<close>

lemma group_delete_page:
  assumes "1 \<le> gp_page p" and "gp_page p \<le> totalPages tot" and "gp_deleteTarget p = Some g"
    and "snd (read_answer c answer) = Inr v" and "rows = rangeEnd (gp_page p) tot - rangeStart (gp_page p) tot + 1"
    and "0 < tot" and "group_delete (nat rows) answer p c = (ks, c', p', refetch)"
  shows "gp_page p' \<le> totalPages (tot - 1) \<and> 1 \<le> gp_page p' \<and> gp_deleteTarget p' = None"
proof -
  have res: "io_result (await (deleteGroup (group_id g)) answer) c = Inr v"
    using assms(4) by (simp add: io_simps deleteGroup_def api_call_result)
  obtain ks1 c1 where run: "await (deleteGroup (group_id g)) answer c = (ks1, c1, Inr v)" using res by (metis prod.collapse)
  have p': "p' = (if nat rows = 1 \<and> gp_page p > 1
      then p\<lparr>gp_deleteTarget := None, gp_page := gp_page p - 1, gp_deleting := False\<rparr>
      else p\<lparr>gp_deleteTarget := None, gp_deleting := False\<rparr>)"
    using assms(3,7) run by (auto simp: group_delete_def split: if_splits)
  let ?n = "gp_page p"
  show ?thesis
  proof (cases "nat rows = 1 \<and> 1 < ?n")
    case True
    then have "rangeEnd ?n tot = rangeStart ?n tot" using assms(5) by linarith
    then have "tot = (?n - 1) * PAGE_SIZE + 1"
      using assms(6) by (simp add: rangeEnd_def rangeStart_def PAGE_SIZE_def min_def split: if_splits)
    then have "\<not> ceil_div (tot - 1) PAGE_SIZE \<le> ?n - 1 - 1"
      unfolding ceil_div_least [OF PAGE_SIZE_pos] by (simp add: PAGE_SIZE_def)
    then show ?thesis using True p' by (simp add: totalPages_def)
  next
    case False
    have page: "gp_page p' = ?n" "gp_deleteTarget p' = None" using False p' by auto
    have "?n \<le> totalPages (tot - 1)"
    proof (cases "?n = 1")
      case True
      then show ?thesis by (simp add: totalPages_def)
    next
      case False
      have "\<not> ceil_div tot PAGE_SIZE \<le> ?n - 1" using False assms(1,2) by (auto simp: totalPages_def)
      then have "(?n - 1) * PAGE_SIZE < tot" unfolding ceil_div_least [OF PAGE_SIZE_pos] by linarith
      moreover have "rows \<noteq> 1" using False assms(1) \<open>\<not> (nat rows = 1 \<and> 1 < ?n)\<close> by auto
      ultimately have "(?n - 1) * PAGE_SIZE < tot - 1"
        using assms(5,6) by (auto simp: rangeEnd_def rangeStart_def PAGE_SIZE_def min_def split: if_splits)
      then have "\<not> ceil_div (tot - 1) PAGE_SIZE \<le> ?n - 1" unfolding ceil_div_least [OF PAGE_SIZE_pos] by linarith
      then show ?thesis by (simp add: totalPages_def)
    qed
    then show ?thesis using page assms(1) by simp
  qed
qed

subsection \<open>Editing keeps the group, as long as the hosts fit on a page\<close>

text \<open>What the server answers for a page: the size is limited to 100, whatever is asked for.\<close>

definition clamp_size :: "int \<Rightarrow> int \<Rightarrow> int \<Rightarrow> int" where
  "clamp_size defaultSize maxSize pageSize =
     (let n = (if pageSize < 1 then defaultSize else pageSize) in if n > maxSize then maxSize else n)"

definition served_endpoints :: "int \<Rightarrow> int \<Rightarrow> 'a list \<Rightarrow> 'a list" where
  "served_endpoints page pageSize rows =
     (let n = nat (clamp_size 20 100 pageSize); p = (if page < 1 then 1 else page)
      in take n (drop (nat (p - 1) * n) rows))"

lemma served_first_page: "served_endpoints 1 200 rows = take 100 rows"
  by (simp add: served_endpoints_def clamp_size_def)

lemma distinct_addHost:
  "distinct (map endpointListItem_id (gf_selectedHosts f)) \<Longrightarrow> distinct (map endpointListItem_id (gf_selectedHosts (addHost h f)))"
  by (auto simp: addHost_def list_ex_iff)

lemma distinct_removeHost:
  "distinct (map endpointListItem_id (gf_selectedHosts f)) \<Longrightarrow> distinct (map endpointListItem_id (gf_selectedHosts (removeHost i f)))"
  by (simp add: removeHost_def distinct_map_filter)

lemma distinct_group_run:
  "distinct (map endpointListItem_id (gf_selectedHosts f)) \<Longrightarrow>
     distinct (map endpointListItem_id (gf_selectedHosts (group_run events f)))"
proof (induction events arbitrary: f)
  case (Cons e events)
  have "distinct (map endpointListItem_id (gf_selectedHosts (group_form_step e f)))"
    using Cons.prems distinct_addHost [of f] distinct_removeHost [of f] by (cases e) auto
  then show ?case using Cons.IH by (simp add: group_run_def)
qed (simp add: group_run_def)

lemma loaded_ids:
  "set (map endpointListItem_id (gf_selectedHosts (group_loaded g members hosts f)))
     = set members \<inter> endpointListItem_id ` set hosts"
  by (auto simp: group_loaded_def)

text \<open>What the group form sends. However the picker is used and in whatever order its searches are answered, no host is
  sent twice. A group that is opened and saved unchanged keeps its name, its description and
  its members exactly when all of its members are among the first hundred endpoints of the server, the most that fit on a page: the form asks for 200
  and drops the members it did not get.\<close>

lemma group_form_members:
  assumes "distinct (map endpointListItem_id all)" and "set members \<subseteq> endpointListItem_id ` set all"
    and "f = group_loaded g members (served_endpoints 1 200 all) (group_form_init gid)"
    and "trim (group_name g) = group_name g" and "group_description g \<noteq> Some []"
    and "\<forall>d. group_description g = Some d \<longrightarrow> trim d = d"
  shows "distinct (groupRequest_hostIds (group_request (group_run events f)))
    \<and> groupRequest_name (group_request f) = group_name g
    \<and> groupRequest_description (group_request f) = Some (group_description g)
    \<and> (set (groupRequest_hostIds (group_request f)) = set members
         \<longleftrightarrow> set members \<subseteq> endpointListItem_id ` set (take 100 all))
    \<and> (length all \<le> 100 \<longrightarrow> set (groupRequest_hostIds (group_request f)) = set members)"
proof -
  have hosts: "set (groupRequest_hostIds (group_request f)) = set members \<inter> endpointListItem_id ` set (take 100 all)"
    unfolding assms(3) served_first_page using loaded_ids [of g members "take 100 all" "group_form_init gid"]
    by (simp add: group_request_def)
  have "distinct (map endpointListItem_id (take 100 all))" using assms(1) by (simp add: take_map [symmetric])
  then have "distinct (map endpointListItem_id (gf_selectedHosts f))"
    unfolding assms(3) served_first_page by (simp add: group_loaded_def distinct_map_filter)
  then have "distinct (groupRequest_hostIds (group_request (group_run events f)))"
    by (simp add: group_request_def distinct_group_run)
  moreover have "groupRequest_name (group_request f) = group_name g"
    "groupRequest_description (group_request f) = Some (group_description g)"
    using assms(4-6) unfolding assms(3)
    by (cases "group_description g"; simp add: group_request_def group_loaded_def or_undefined_def)+
  moreover have "set (groupRequest_hostIds (group_request f)) = set members
      \<longleftrightarrow> set members \<subseteq> endpointListItem_id ` set (take 100 all)"
    unfolding hosts by blast
  moreover have "length all \<le> 100 \<longrightarrow> set (groupRequest_hostIds (group_request f)) = set members"
    unfolding hosts using assms(2) by auto
  ultimately show ?thesis by blast
qed

definition example_host :: EndpointListItem where
  "example_host =
     \<lparr>endpointListItem_id = ''e1'', endpointListItem_name = ''web'', endpointListItem_type = ''host'',
      endpointListItem_dnsName = ''web.test'', endpointListItem_port = 443, endpointListItem_url = None,
      endpointListItem_enabled = True, endpointListItem_scanExempt = False, endpointListItem_scannerId = None,
      endpointListItem_scannerName = None, endpointListItem_earliestExpiry = None, endpointListItem_lastScannedAt = None,
      endpointListItem_lastScanError = None, endpointListItem_errorSince = None, endpointListItem_lastResolvedIp = None,
      endpointListItem_tags = []\<rparr>"

definition example_group :: Group where
  "example_group =
     \<lparr>group_id = ''g1'', group_name = ''Apps'', group_description = None, group_createdAt = [], group_updatedAt = []\<rparr>"

lemma group_form_members_witness:
  "set (groupRequest_hostIds (group_request
     (group_loaded example_group [''e1''] (served_endpoints 1 200 [example_host]) (group_form_init (Some ''g1''))))) = {''e1''}"
proof -
  have "trim (group_name example_group) = group_name example_group" "group_description example_group = None"
    by (simp_all add: example_group_def trim_def is_ws_def)
  then show ?thesis
    using group_form_members [of "[example_host]" "[''e1'']" _ example_group "Some ''g1''"]
    by (simp add: example_host_def)
qed

text \<open>A group whose member is the 101st endpoint loses it when it is saved without a change.\<close>

lemma member_beyond_page_lost:
  assumes "length all = 101" and "distinct (map endpointListItem_id all)"
  shows "groupRequest_hostIds (group_request
    (group_loaded g [endpointListItem_id (all ! 100)] (served_endpoints 1 200 all) (group_form_init gid))) = []"
proof -
  have "endpointListItem_id h \<noteq> endpointListItem_id (all ! 100)" if "h \<in> set (take 100 all)" for h
  proof -
    from that obtain i where i: "i < 100" "h = all ! i" using assms(1) by (auto simp: in_set_conv_nth)
    then show ?thesis using assms nth_eq_iff_index_eq [OF assms(2), of i 100] by simp
  qed
  then show ?thesis by (simp add: served_first_page group_request_def group_loaded_def filter_empty_conv)
qed

text \<open>
  The picker does not cancel a search that is under way: the answer to an older text replaces the results of a newer one.
\<close>

lemma older_answer_wins:
  "ph_search p = s \<Longrightarrow> ph_asked p = [(old, sel), (s, sel)] \<Longrightarrow>
     ph_results (picker_answered 0 (Some oldHosts) (picker_answered 1 (Some hosts) p))
       = filter (\<lambda>h. \<not> js_set_has sel (endpointListItem_id h)) oldHosts"
  by (simp add: picker_answered_def)

end
