(* ===== verification/Discovery.thy ===== *)
theory Discovery
  imports FormDialog ApiCalls Expiry CronText ListParts EndpointForm
begin

section \<open>Discovery (\<open>pages/discovery/DiscoveryNetworksPage.tsx\<close>, \<open>pages/discovery/DiscoveryInboxPage.tsx\<close>)\<close>

text \<open>
  The networks page with its form and its delete confirmation, and the inbox of discovered hosts with its filters, its pages and
  its delete confirmation. The three dialogs are interpretations of \<open>guarded_dialog\<close>.
\<close>

subsection \<open>Ports\<close>

text \<open>\<open>s.split(/[\s,]+/).filter(Boolean)\<close>: the maximal runs of characters that are no separators.\<close>

definition port_separator :: "char \<Rightarrow> bool" where
  "port_separator c \<longleftrightarrow> is_ws c \<or> c = CHR '',''"

function port_parts :: "string \<Rightarrow> string list" where
  "port_parts s =
     (case dropWhile port_separator s of
        [] \<Rightarrow> []
      | c # cs \<Rightarrow>
          (c # takeWhile (\<lambda>x. \<not> port_separator x) cs) # port_parts (dropWhile (\<lambda>x. \<not> port_separator x) cs))"
  by pat_completeness auto
termination
proof (relation "measure length")
  fix s c cs assume "dropWhile port_separator s = c # cs"
  then have "length (c # cs) \<le> length s" by (metis length_dropWhile_le)
  moreover have "length (dropWhile (\<lambda>x. \<not> port_separator x) cs) \<le> length cs" by (rule length_dropWhile_le)
  ultimately show "(dropWhile (\<lambda>x. \<not> port_separator x) cs, s) \<in> measure length" by simp
qed simp

declare port_parts.simps [simp del]

text \<open>The loop over the parts, with its early return.\<close>

fun read_ports :: "string list \<Rightarrow> int list \<Rightarrow> int list option" where
  "read_ports [] ports = (if ports \<noteq> [] then Some ports else None)"
| "read_ports (p # ps) ports =
     (case parseInt (Some 10) p of
        None \<Rightarrow> None
      | Some n \<Rightarrow> if n < 1 \<or> n > 65535 then None else read_ports ps (ports @ [n]))"

definition parsePorts :: "string \<Rightarrow> int list option" where
  "parsePorts portsRaw = read_ports (port_parts portsRaw) []"

definition show_ports :: "int list \<Rightarrow> string" where
  "show_ports ports = join '', '' (map show_int ports)"

definition port_number :: "int \<Rightarrow> bool" where
  "port_number n \<longleftrightarrow> 1 \<le> n \<and> n \<le> 65535"

lemma show_int_no_separator: "\<forall>x \<in> set (show_int n). \<not> port_separator x"
  using word_show_int [of n] show_int_chars [of "CHR '',''" n] by (auto simp: port_separator_def word_def)

lemma port_parts_word:
  assumes "w \<noteq> []" and "\<forall>x \<in> set w. \<not> port_separator x" and "rest = [] \<or> port_separator (hd rest)"
  shows "port_parts (w @ rest) = w # port_parts rest"
proof -
  obtain c cs where w: "w = c # cs" using assms(1) by (cases w) auto
  have "takeWhile (\<lambda>x. \<not> port_separator x) (cs @ rest) = cs" "dropWhile (\<lambda>x. \<not> port_separator x) (cs @ rest) = rest"
    using assms(2,3) w by (cases rest; auto simp: takeWhile_append dropWhile_append)+
  then show ?thesis using assms(2) w by (subst port_parts.simps) simp
qed

lemma port_parts_sep: "port_separator c \<Longrightarrow> port_parts (c # s) = port_parts s"
  by (subst (1 2) port_parts.simps) simp

lemma port_parts_show: "port_parts (show_ports ports) = map show_int ports"
  unfolding show_ports_def
proof (induction ports rule: induct_list012)
  case 1
  then show ?case by (simp add: port_parts.simps)
next
  case (2 n)
  have "port_parts [] = []" by (simp add: port_parts.simps)
  then show ?case using port_parts_word [of "show_int n" "[]"] show_int_no_separator word_show_int [of n] by (simp add: word_def)
next
  case (3 n m ns)
  have "port_parts (show_int n @ '', '' @ join '', '' (map show_int (m # ns)))
      = show_int n # port_parts ('', '' @ join '', '' (map show_int (m # ns)))"
    using show_int_no_separator word_show_int [of n] by (intro port_parts_word) (auto simp: word_def port_separator_def)
  moreover have "port_parts ('', '' @ r) = port_parts r" for r
    by (simp add: port_parts_sep port_separator_def is_ws_def)
  ultimately show ?case using "3.IH"(2) by simp
qed

lemma read_ports_valid: "read_ports ps acc = Some ports \<Longrightarrow> list_all port_number acc \<Longrightarrow> list_all port_number ports \<and> ports \<noteq> []"
  by (induction ps arbitrary: acc) (auto simp: port_number_def split: if_splits option.splits)

lemma read_ports_show:
  "list_all port_number ports \<Longrightarrow> acc @ ports \<noteq> [] \<Longrightarrow> read_ports (map show_int ports) acc = Some (acc @ ports)"
  by (induction ports arbitrary: acc) (auto simp: port_number_def parseInt_show_int)

lemma parsePorts_show: "list_all port_number ports \<Longrightarrow> ports \<noteq> [] \<Longrightarrow> parsePorts (show_ports ports) = Some ports"
  by (simp add: parsePorts_def port_parts_show read_ports_show)

lemma parsePorts_valid: "parsePorts s = Some ports \<Longrightarrow> list_all port_number ports \<and> ports \<noteq> []"
  by (auto simp: parsePorts_def dest: read_ports_valid)

text \<open>A range of ports is not rejected: only its first port is kept. So is a decimal fraction.\<close>

lemma port_range_cut:
  "parsePorts ''8000-8100, 443.5'' = Some [8000, 443]"
  by code_simp

subsection \<open>The form of a network\<close>

record network_dialog =
  nd_initial :: "DiscoveryNetwork option"
  nd_name :: string
  nd_range :: string
  nd_portsRaw :: string
  nd_scannerId :: string
  nd_cron :: string
  nd_enabled :: bool
  nd_saving :: bool
  nd_error :: "string option"

definition network_dialog_init :: network_dialog where
  "network_dialog_init =
     \<lparr>nd_initial = None, nd_name = [], nd_range = [], nd_portsRaw = ''443'', nd_scannerId = ''none'', nd_cron = ''0 2 * * *'',
      nd_enabled = True, nd_saving = False, nd_error = None\<rparr>"

text \<open>The effect on \<open>[open, initial]\<close>: every field but \<open>saving\<close> is set.\<close>

definition network_opened :: "DiscoveryNetwork option \<Rightarrow> network_dialog \<Rightarrow> network_dialog" where
  "network_opened initial d =
     \<lparr>nd_initial = initial,
      nd_name = (case initial of None \<Rightarrow> [] | Some n \<Rightarrow> discoveryNetwork_name n),
      nd_range = (case initial of None \<Rightarrow> [] | Some n \<Rightarrow> discoveryNetwork_range n),
      nd_portsRaw = (case initial of None \<Rightarrow> ''443'' | Some n \<Rightarrow> show_ports (discoveryNetwork_ports n)),
      nd_scannerId = (case initial of None \<Rightarrow> ''none'' | Some n \<Rightarrow> nullish (discoveryNetwork_scannerId n) ''none''),
      nd_cron = (case initial of None \<Rightarrow> ''0 2 * * *'' | Some n \<Rightarrow> discoveryNetwork_cronExpression n),
      nd_enabled = (case initial of None \<Rightarrow> True | Some n \<Rightarrow> discoveryNetwork_enabled n),
      nd_saving = nd_saving d, nd_error = None\<rparr>"

definition ports_message :: string where
  "ports_message = ''Ports must be valid numbers between 1'' @ [CHR 0xE2, CHR 0x80, CHR 0x93] @ ''65535.''"

definition network_submit :: "network_dialog \<Rightarrow> bool \<times> network_dialog" where
  "network_submit d =
     (if trim (nd_name d) = [] then (False, d\<lparr>nd_error := Some ''Name is required.''\<rparr>)
      else if trim (nd_range d) = [] then (False, d\<lparr>nd_error := Some ''Range is required.''\<rparr>)
      else if parsePorts (nd_portsRaw d) = None then (False, d\<lparr>nd_error := Some ports_message\<rparr>)
      else if trim (nd_cron d) = [] then (False, d\<lparr>nd_error := Some ''Cron expression is required.''\<rparr>)
      else (True, d\<lparr>nd_saving := True, nd_error := None\<rparr>))"

definition network_request :: "network_dialog \<Rightarrow> CreateDiscoveryNetworkRequest" where
  "network_request d =
     \<lparr>createDiscoveryNetworkRequest_name = trim (nd_name d), createDiscoveryNetworkRequest_range = trim (nd_range d),
      createDiscoveryNetworkRequest_ports = nullish (parsePorts (nd_portsRaw d)) [],
      createDiscoveryNetworkRequest_scannerId = (if nd_scannerId d = ''none'' then None else Some (nd_scannerId d)),
      createDiscoveryNetworkRequest_cronExpression = trim (nd_cron d), createDiscoveryNetworkRequest_enabled = nd_enabled d\<rparr>"

definition network_body :: "network_dialog \<Rightarrow> DiscoveryNetwork fetch_result \<Rightarrow> DiscoveryNetwork option io" where
  "network_body d answer =
     (case nd_initial d of
        Some n \<Rightarrow> await (updateDiscoveryNetwork (discoveryNetwork_id n) (network_request d)) answer
      | None \<Rightarrow> await (createDiscoveryNetwork (network_request d)) answer)"

definition network_finish :: "js_exn + 'v \<Rightarrow> network_dialog \<Rightarrow> network_dialog" where
  "network_finish r d =
     (case r of
        Inr _ \<Rightarrow> d\<lparr>nd_saving := False\<rparr>
      | Inl err \<Rightarrow> d\<lparr>nd_saving := False, nd_error := Some (api_message ''An unexpected error occurred.'' err)\<rparr>)"

datatype network_edit =
    TypeNetworkName string
  | TypeRange string
  | TypePorts string
  | PickNetworkScanner string
  | PickNetworkSchedule string
  | SwitchNetwork bool

fun network_edited :: "network_edit \<Rightarrow> network_dialog \<Rightarrow> network_dialog" where
  "network_edited (TypeNetworkName s) d = d\<lparr>nd_name := s\<rparr>"
| "network_edited (TypeRange s) d = d\<lparr>nd_range := s\<rparr>"
| "network_edited (TypePorts s) d = d\<lparr>nd_portsRaw := s\<rparr>"
| "network_edited (PickNetworkScanner s) d = d\<lparr>nd_scannerId := s\<rparr>"
| "network_edited (PickNetworkSchedule s) d = d\<lparr>nd_cron := s\<rparr>"
| "network_edited (SwitchNetwork b) d = d\<lparr>nd_enabled := b\<rparr>"

text \<open>The page mounts the dialog twice: for a new network (always opened without one) and for an existing one.\<close>

definition network_ops ::
  "(network_dialog, DiscoveryNetwork option, network_edit, DiscoveryNetwork fetch_result, DiscoveryNetwork option) form_ops" where
  "network_ops =
     \<lparr>fo_keyed = False, fo_enter = False, fo_locked = (\<lambda>_. False), fo_open = network_opened,
      fo_close = (\<lambda>d. d\<lparr>nd_initial := None\<rparr>), fo_edit = network_edited, fo_busy = nd_saving, fo_error = nd_error,
      fo_submit = network_submit, fo_body = network_body, fo_finish = network_finish\<rparr>"

interpretation network_form: guarded_dialog network_ops
proof unfold_locales
  fix e d show "fo_busy network_ops (fo_edit network_ops e d) = fo_busy network_ops d"
    by (cases e) (simp_all add: network_ops_def)
qed (auto simp: network_ops_def network_opened_def network_submit_def network_finish_def split: if_splits sum.splits)

definition network_title :: "network_dialog \<Rightarrow> string \<times> string" where
  "network_title d =
     (case nd_initial d of
        Some _ \<Rightarrow> (''Edit Network'', ''Update network configuration'')
      | None \<Rightarrow> (''Create Network'', ''Discover hosts on your network''))"

definition network_button :: "network_dialog \<Rightarrow> string" where
  "network_button d =
     (if nd_saving d then ''Saving'' @ ellipsis else if nd_initial d \<noteq> None then ''Save changes'' else ''Create Network'')"

subsection \<open>Deleting a network\<close>

record 'r target_dialog =
  tg_target :: "'r option"
  tg_loading :: bool
  tg_error :: "string option"

definition target_init :: "'r target_dialog" where
  "target_init = \<lparr>tg_target = None, tg_loading = False, tg_error = None\<rparr>"

definition target_submit :: "'r target_dialog \<Rightarrow> bool \<times> 'r target_dialog" where
  "target_submit d = (if tg_target d = None then (False, d) else (True, d\<lparr>tg_loading := True, tg_error := None\<rparr>))"

definition target_finish :: "string \<Rightarrow> js_exn + 'v \<Rightarrow> 'r target_dialog \<Rightarrow> 'r target_dialog" where
  "target_finish fallback r d =
     (case r of
        Inr _ \<Rightarrow> d\<lparr>tg_loading := False\<rparr>
      | Inl err \<Rightarrow> d\<lparr>tg_loading := False, tg_error := Some (api_message fallback err)\<rparr>)"

definition delete_network_body :: "DiscoveryNetwork target_dialog \<Rightarrow> unit fetch_result \<Rightarrow> unit option io" where
  "delete_network_body d answer =
     (case tg_target d of
        None \<Rightarrow> io_return None
      | Some n \<Rightarrow> await (deleteDiscoveryNetwork (discoveryNetwork_id n)) answer)"

definition delete_network_ops ::
  "(DiscoveryNetwork target_dialog, DiscoveryNetwork, unit, unit fetch_result, unit option) form_ops" where
  "delete_network_ops =
     \<lparr>fo_keyed = False, fo_enter = False, fo_locked = (\<lambda>_. False), fo_open = (\<lambda>n d. d\<lparr>tg_target := Some n\<rparr>),
      fo_close = (\<lambda>d. d\<lparr>tg_target := None\<rparr>), fo_edit = (\<lambda>_ d. d), fo_busy = tg_loading, fo_error = tg_error,
      fo_submit = target_submit, fo_body = delete_network_body,
      fo_finish = target_finish ''An unexpected error occurred.''\<rparr>"

interpretation delete_network_form: guarded_dialog delete_network_ops
  by unfold_locales (auto simp: delete_network_ops_def target_submit_def target_finish_def split: if_splits sum.splits)

subsection \<open>The networks page\<close>

definition toggle_request :: "DiscoveryNetwork \<Rightarrow> UpdateDiscoveryNetworkRequest" where
  "toggle_request n =
     \<lparr>createDiscoveryNetworkRequest_name = discoveryNetwork_name n, createDiscoveryNetworkRequest_range = discoveryNetwork_range n,
      createDiscoveryNetworkRequest_ports = discoveryNetwork_ports n,
      createDiscoveryNetworkRequest_scannerId = discoveryNetwork_scannerId n,
      createDiscoveryNetworkRequest_cronExpression = discoveryNetwork_cronExpression n,
      createDiscoveryNetworkRequest_enabled = (\<not> discoveryNetwork_enabled n)\<rparr>"

definition toggle_network :: "DiscoveryNetwork \<Rightarrow> DiscoveryNetwork fetch_result \<Rightarrow> DiscoveryNetwork option io" where
  "toggle_network n answer = await (updateDiscoveryNetwork (discoveryNetwork_id n) (toggle_request n)) answer"

record networks_page =
  np_showCreate :: bool
  np_editing :: "DiscoveryNetwork option"
  np_deleting :: "DiscoveryNetwork option"

definition networks_page_init :: networks_page where
  "networks_page_init = \<lparr>np_showCreate = False, np_editing = None, np_deleting = None\<rparr>"

definition networks_query :: "DiscoveryNetworkList api_call" where
  "networks_query = listDiscoveryNetworks 1 100"

definition networks_of :: "DiscoveryNetworkList option \<Rightarrow> DiscoveryNetwork list" where
  "networks_of data = (case data of None \<Rightarrow> [] | Some d \<Rightarrow> discoveryNetworkList_items d)"

definition network_stats ::
  "DiscoveryNetworkList option \<Rightarrow> DiscoveryInboxList option \<Rightarrow> (string \<times> int option \<times> SignalColor) list" where
  "network_stats data inboxData =
     (let networks = networks_of data;
          activeCount = length (filter discoveryNetwork_enabled networks);
          totalCount = (case data of None \<Rightarrow> int (length networks) | Some d \<Rightarrow> discoveryNetworkList_totalCount d);
          uniquePorts = length (js_set_of (concat (map discoveryNetwork_ports networks)))
      in [(''Active Networks'', Some (int activeCount), if activeCount = 0 then SignalAmber else SignalGreen),
          (''Total Networks'', Some totalCount, SignalNeutral),
          (''Discovered Assets'', map_option discoveryInboxList_totalCount inboxData, SignalNeutral),
          (''Unique Ports'', Some (int uniquePorts), SignalNeutral)])"

text \<open>A row of the table, and the card that stands for it on a narrow screen.\<close>

record network_row =
  nr_name :: string
  nr_range :: string
  nr_ports :: "int list"
  nr_scannerDot :: bool \<comment> \<open>green\<close>
  nr_scanner :: string
  nr_schedule :: string
  nr_enabled :: bool

definition NetworkRow :: "DiscoveryNetwork \<Rightarrow> network_row" where
  "NetworkRow n =
     \<lparr>nr_name = discoveryNetwork_name n, nr_range = discoveryNetwork_range n, nr_ports = discoveryNetwork_ports n,
      nr_scannerDot = truthy (discoveryNetwork_scannerId n), nr_scanner = nullish (discoveryNetwork_scannerName n) ''None'',
      nr_schedule = describeCron_network (discoveryNetwork_cronExpression n), nr_enabled = discoveryNetwork_enabled n\<rparr>"

datatype network_value = PlainValue string | PortValues "int list" | DottedValue bool string

definition NetworkCard :: "DiscoveryNetwork \<Rightarrow> (string \<times> bool) \<times> (string \<times> network_value) list" where
  "NetworkCard n =
     ((discoveryNetwork_name n, discoveryNetwork_enabled n),
      [(''Range:'', PlainValue (discoveryNetwork_range n)),
       (''Ports:'', PortValues (discoveryNetwork_ports n)),
       (''Scanner:'', DottedValue (truthy (discoveryNetwork_scannerId n)) (nullish (discoveryNetwork_scannerName n) ''None'')),
       (''Schedule:'', PlainValue (describeCron_network (discoveryNetwork_cronExpression n)))])"

datatype network_action = EditNetwork | DisableNetwork | EnableNetwork | DeleteNetwork

text \<open>The entries of the menu and whether each can be chosen.\<close>

definition NetworkActionsMenu :: "DiscoveryNetwork \<Rightarrow> bool \<Rightarrow> (network_action \<times> bool) list" where
  "NetworkActionsMenu n toggling =
     [(EditNetwork, True), (if discoveryNetwork_enabled n then DisableNetwork else EnableNetwork, \<not> toggling),
      (DeleteNetwork, True)]"

datatype networks_table = NetworksLoading | NoNetworks | NetworkRows "(DiscoveryNetwork \<times> (network_action \<times> bool) list) list"

definition networks_table_of :: "bool \<Rightarrow> bool \<Rightarrow> bool \<Rightarrow> DiscoveryNetworkList option \<Rightarrow> networks_table" where
  "networks_table_of canEdit isLoading toggling data =
     (if isLoading then NetworksLoading
      else if networks_of data = [] then NoNetworks
      else NetworkRows (map (\<lambda>n. (n, if canEdit then NetworkActionsMenu n toggling else [])) (networks_of data)))"

text \<open>The page's own part of what the menu and the dialogs do.\<close>

datatype networks_event =
    CreatePressed
  | NetworkAction network_action DiscoveryNetwork
  | CreateClosed
  | EditClosed
  | DeleteClosed

fun networks_step :: "networks_event \<Rightarrow> networks_page \<Rightarrow> networks_page" where
  "networks_step CreatePressed p = p\<lparr>np_showCreate := True\<rparr>"
| "networks_step (NetworkAction EditNetwork n) p = p\<lparr>np_editing := Some n\<rparr>"
| "networks_step (NetworkAction DeleteNetwork n) p = p\<lparr>np_deleting := Some n\<rparr>"
| "networks_step (NetworkAction _ n) p = p"
| "networks_step CreateClosed p = p\<lparr>np_showCreate := False\<rparr>"
| "networks_step EditClosed p = p\<lparr>np_editing := None\<rparr>"
| "networks_step DeleteClosed p = p\<lparr>np_deleting := None\<rparr>"

subsection \<open>What the form and the switch send\<close>

definition valid_network_request :: "CreateDiscoveryNetworkRequest \<Rightarrow> bool" where
  "valid_network_request r \<longleftrightarrow>
     (\<forall>s \<in> {createDiscoveryNetworkRequest_name r, createDiscoveryNetworkRequest_range r,
            createDiscoveryNetworkRequest_cronExpression r}. s \<noteq> [] \<and> trim s = s)
     \<and> createDiscoveryNetworkRequest_ports r \<noteq> [] \<and> list_all port_number (createDiscoveryNetworkRequest_ports r)"

text \<open>A network as the server keeps it: the values of a valid request, and no scanner whose id is the form's word for none.\<close>

definition network_values :: "DiscoveryNetwork \<Rightarrow> CreateDiscoveryNetworkRequest" where
  "network_values n = (toggle_request n)\<lparr>createDiscoveryNetworkRequest_enabled := discoveryNetwork_enabled n\<rparr>"

definition stored_network :: "DiscoveryNetwork \<Rightarrow> bool" where
  "stored_network n \<longleftrightarrow> valid_network_request (network_values n) \<and> discoveryNetwork_scannerId n \<noteq> Some ''none''"

lemma network_request_valid: "network_submit d = (True, d') \<Longrightarrow> valid_network_request (network_request d)"
  by (auto simp: network_submit_def valid_network_request_def network_request_def dest: parsePorts_valid split: if_splits)

lemma network_request_opened:
  assumes "stored_network n"
  shows "network_request (network_opened (Some n) d) = network_values n"
    and "fst (network_submit (network_opened (Some n) d))"
proof -
  have p: "parsePorts (show_ports (discoveryNetwork_ports n)) = Some (discoveryNetwork_ports n)"
    using assms by (intro parsePorts_show) (simp_all add: stored_network_def valid_network_request_def network_values_def toggle_request_def)
  then show "network_request (network_opened (Some n) d) = network_values n"
    using assms
    by (cases "discoveryNetwork_scannerId n")
      (simp_all add: stored_network_def valid_network_request_def network_values_def toggle_request_def network_request_def
        network_opened_def)
  show "fst (network_submit (network_opened (Some n) d))"
    using assms p
    by (simp add: stored_network_def valid_network_request_def network_values_def toggle_request_def network_submit_def
        network_opened_def)
qed

lemma network_body_call:
  "nd_initial d = Some n \<Longrightarrow>
     io_calls (network_body d a) c = [fst (updateDiscoveryNetwork (discoveryNetwork_id n) (network_request d) c a)]"
  "nd_initial d = None \<Longrightarrow> io_calls (network_body d a) c = [fst (createDiscoveryNetwork (network_request d) c a)]"
  by (simp_all add: network_body_def io_simps)

text \<open>The form of a discovery network sends valid networks only, and neither it nor the switch in the menu changes what
  was not touched. A submit that passes the checks makes one request, for a network with a trimmed name, range and schedule
  and with at least one port, all of them port numbers; a submit that does not pass shows an error. Opening a stored network
  and saving it unchanged passes the checks and sends its own values back (ports included, which are edited as text), and the
  switch sends the same values with the opposite state, to the same address.\<close>

lemma network_form_faithful:
  assumes "stored_network n"
  shows "(\<exists>d'. network_submit (network_opened (Some n) d0) = (True, d'))
    \<and> io_calls (network_body (network_opened (Some n) d0) a) c
        = [fst (updateDiscoveryNetwork (discoveryNetwork_id n) (network_values n) c a)]
    \<and> io_calls (toggle_network n a) c
        = [fst (updateDiscoveryNetwork (discoveryNetwork_id n)
             ((network_values n)\<lparr>createDiscoveryNetworkRequest_enabled := \<not> discoveryNetwork_enabled n\<rparr>) c a)]
    \<and> (case network_submit d of
         (True, d') \<Rightarrow> \<exists>k r. io_calls (network_body d a) c = [k] \<and> call_body k = Some (json_DiscoveryNetworkRequest r)
           \<and> valid_network_request r
       | (False, d') \<Rightarrow> truthy (nd_error d') \<and> nd_saving d' = nd_saving d)"
proof (intro conjI)
  let ?o = "network_opened (Some n) d0"
  show "\<exists>d'. network_submit ?o = (True, d')" using network_request_opened(2) [OF assms, of d0] by (metis prod.collapse)
  have "nd_initial ?o = Some n" by (simp add: network_opened_def)
  then show "io_calls (network_body ?o a) c = [fst (updateDiscoveryNetwork (discoveryNetwork_id n) (network_values n) c a)]"
    using network_body_call(1) [of ?o n a c] network_request_opened(1) [OF assms, of d0] by simp
  show "io_calls (toggle_network n a) c
      = [fst (updateDiscoveryNetwork (discoveryNetwork_id n)
           ((network_values n)\<lparr>createDiscoveryNetworkRequest_enabled := \<not> discoveryNetwork_enabled n\<rparr>) c a)]"
    by (simp add: toggle_network_def io_simps network_values_def toggle_request_def)
  have call: "\<exists>k. io_calls (network_body d a) c = [k] \<and> call_body k = Some (json_DiscoveryNetworkRequest (network_request d))"
    by (cases "nd_initial d")
      (simp_all add: network_body_call updateDiscoveryNetwork_def createDiscoveryNetwork_def api_call_body)
  show "case network_submit d of
      (True, d') \<Rightarrow> \<exists>k r. io_calls (network_body d a) c = [k] \<and> call_body k = Some (json_DiscoveryNetworkRequest r)
        \<and> valid_network_request r
    | (False, d') \<Rightarrow> truthy (nd_error d') \<and> nd_saving d' = nd_saving d"
  proof (cases "network_submit d")
    case (Pair b d')
    show ?thesis
    proof (cases b)
      case True
      with Pair call network_request_valid [of d d'] show ?thesis by auto
    next
      case False
      with Pair show ?thesis by (auto simp: network_submit_def ports_message_def split: if_splits)
    qed
  qed
qed

definition example_network :: DiscoveryNetwork where
  "example_network =
     \<lparr>discoveryNetwork_id = ''n1'', discoveryNetwork_name = ''Office'', discoveryNetwork_range = ''10.0.0.0/24'',
      discoveryNetwork_ports = [443, 8443], discoveryNetwork_scannerId = None, discoveryNetwork_scannerName = None,
      discoveryNetwork_cronExpression = ''0 2 * * *'', discoveryNetwork_enabled = True, discoveryNetwork_createdAt = [],
      discoveryNetwork_updatedAt = []\<rparr>"

lemma network_form_faithful_witness:
  "\<exists>d'. network_submit (network_opened (Some example_network) network_dialog_init) = (True, d')"
proof -
  have "stored_network example_network" by code_simp
  then show ?thesis using network_form_faithful by blast
qed

subsection \<open>The inbox\<close>

definition delete_item_body :: "DiscoveryInboxItem target_dialog \<Rightarrow> unit fetch_result \<Rightarrow> unit option io" where
  "delete_item_body d answer =
     (case tg_target d of
        None \<Rightarrow> io_return None
      | Some item \<Rightarrow> await (deleteDiscoveryInboxItem (discoveryInboxItem_id item)) answer)"

definition delete_item_ops ::
  "(DiscoveryInboxItem target_dialog, DiscoveryInboxItem, unit, unit fetch_result, unit option) form_ops" where
  "delete_item_ops =
     \<lparr>fo_keyed = False, fo_enter = False, fo_locked = (\<lambda>_. False), fo_open = (\<lambda>i d. d\<lparr>tg_target := Some i\<rparr>),
      fo_close = (\<lambda>d. d\<lparr>tg_target := None\<rparr>), fo_edit = (\<lambda>_ d. d), fo_busy = tg_loading, fo_error = tg_error,
      fo_submit = target_submit, fo_body = delete_item_body, fo_finish = target_finish ''Failed to delete.''\<rparr>"

interpretation delete_item_form: guarded_dialog delete_item_ops
  by unfold_locales (auto simp: delete_item_ops_def target_submit_def target_finish_def split: if_splits sum.splits)

text \<open>The page; \<open>ip_requests\<close> are the dismissals under way, in the order they were sent.\<close>

record inbox_page =
  ip_showDismissed :: bool
  ip_page :: int
  ip_networkFilter :: string
  ip_deleteTarget :: "DiscoveryInboxItem option"
  ip_dismissing :: "string option"
  ip_requests :: "string list"

definition inbox_init :: inbox_page where
  "inbox_init =
     \<lparr>ip_showDismissed = False, ip_page = 1, ip_networkFilter = [], ip_deleteTarget = None, ip_dismissing = None,
      ip_requests = []\<rparr>"

definition inbox_query :: "inbox_page \<Rightarrow> DiscoveryInboxList api_call" where
  "inbox_query p = listDiscoveryInbox (ip_page p) PAGE_SIZE (ip_networkFilter p) [] (ip_showDismissed p)"

definition inbox_items :: "DiscoveryInboxList option \<Rightarrow> DiscoveryInboxItem list" where
  "inbox_items data = (case data of None \<Rightarrow> [] | Some d \<Rightarrow> discoveryInboxList_items d)"

definition inbox_total :: "DiscoveryInboxList option \<Rightarrow> int" where
  "inbox_total data = (case data of None \<Rightarrow> 0 | Some d \<Rightarrow> discoveryInboxList_totalCount d)"

definition dismissedCount :: "DiscoveryInboxList option \<Rightarrow> DiscoveryInboxList option \<Rightarrow> int option" where
  "dismissedCount newCountData allCountData =
     (case (map_option discoveryInboxList_totalCount allCountData, map_option discoveryInboxList_totalCount newCountData) of
        (Some allCount, Some newCount) \<Rightarrow> Some (allCount - newCount)
      | _ \<Rightarrow> None)"

definition networkOptions :: "DiscoveryNetworkList option \<Rightarrow> (string \<times> string) list" where
  "networkOptions networksData =
     ([], ''All Networks'') # map (\<lambda>n. (discoveryNetwork_id n, discoveryNetwork_name n)) (networks_of networksData)"

datatype inbox_badge = BadgeNew | BadgeDismissed

definition StatusBadge :: "string \<Rightarrow> inbox_badge" where
  "StatusBadge status = (if status = ''new'' then BadgeNew else BadgeDismissed)"

datatype inbox_action = PromoteItem | DismissItem | DeleteItem

definition InboxActionsMenu :: "DiscoveryInboxItem \<Rightarrow> string option \<Rightarrow> (inbox_action \<times> bool) list" where
  "InboxActionsMenu item dismissing =
     (if discoveryInboxItem_status item \<noteq> ''dismissed''
      then [(PromoteItem, True), (DismissItem, dismissing \<noteq> Some (discoveryInboxItem_id item))] else [])
     @ [(DeleteItem, True)]"

record inbox_row =
  ir_status :: inbox_badge
  ir_ip :: string
  ir_port :: int
  ir_host :: string
  ir_network :: "string option"
  ir_lastSeen :: string
  ir_dimmed :: bool
  ir_menu :: "(inbox_action \<times> bool) list"

text \<open>A row; the card of a narrow screen shows the same values, with the port behind the address.\<close>

definition InboxRow :: "bool \<Rightarrow> int \<Rightarrow> string option \<Rightarrow> DiscoveryInboxItem \<Rightarrow> inbox_row" where
  "InboxRow canEdit now dismissing item =
     \<lparr>ir_status = StatusBadge (discoveryInboxItem_status item), ir_ip = discoveryInboxItem_ip item,
      ir_port = discoveryInboxItem_port item, ir_host = nullish (discoveryInboxItem_rdns item) em_dash,
      ir_network = (if truthy (discoveryInboxItem_networkName item) then discoveryInboxItem_networkName item else None),
      ir_lastSeen = fmtRelative_inbox (discoveryInboxItem_lastSeenAt item) now,
      ir_dimmed = (discoveryInboxItem_status item = ''dismissed''),
      ir_menu = (if canEdit then InboxActionsMenu item dismissing else [])\<rparr>"

definition InboxCard :: "bool \<Rightarrow> int \<Rightarrow> string option \<Rightarrow> DiscoveryInboxItem \<Rightarrow>
    string \<times> inbox_badge \<times> (string \<times> string) list \<times> (inbox_action \<times> bool) list" where
  "InboxCard canEdit now dismissing item =
     (discoveryInboxItem_ip item @ '':'' @ show_int (discoveryInboxItem_port item), StatusBadge (discoveryInboxItem_status item),
      [(''Hostname:'', nullish (discoveryInboxItem_rdns item) em_dash),
       (''Network:'', if truthy (discoveryInboxItem_networkName item) then the (discoveryInboxItem_networkName item) else em_dash),
       (''Last seen:'', fmtRelative_inbox (discoveryInboxItem_lastSeenAt item) now)],
      if canEdit then InboxActionsMenu item dismissing else [])"

text \<open>The cards on top, with their colours, and the table.\<close>

definition inbox_stats :: "DiscoveryInboxList option \<Rightarrow> DiscoveryInboxList option \<Rightarrow> (string \<times> int option \<times> string) list" where
  "inbox_stats newCountData allCountData =
     [(''New Findings'', map_option discoveryInboxList_totalCount newCountData, ''blue''),
      (''Dismissed'', dismissedCount newCountData allCountData, ''neutral'')]"

datatype inbox_table = InboxLoading | NothingDiscovered | InboxRows "inbox_row list"

definition inbox_table_of :: "bool \<Rightarrow> bool \<Rightarrow> int \<Rightarrow> DiscoveryInboxList option \<Rightarrow> inbox_page \<Rightarrow> inbox_table" where
  "inbox_table_of canEdit isLoading now data p =
     (if isLoading then InboxLoading
      else if inbox_items data = [] then NothingDiscovered
      else InboxRows (map (InboxRow canEdit now (ip_dismissing p)) (inbox_items data)))"

text \<open>Adding an item as an endpoint leads to the endpoint form.\<close>

definition promote_link :: "DiscoveryInboxItem \<Rightarrow> string" where
  "promote_link item = ''/endpoints/new?from_inbox='' @ discoveryInboxItem_id item"

definition inbox_footer :: "int \<Rightarrow> int \<Rightarrow> (int \<times> int \<times> int \<times> string) option" where
  "inbox_footer page totalCount = page_footer ''discovery'' page totalCount"

text \<open>
  What happens on the page: the filters, the pages, the dialog, and \<open>handleDismiss\<close> split at its \<open>await\<close>; a dismissal
  ends in the same way with an error, which nothing catches.
\<close>

datatype inbox_event =
    SwitchDismissed bool
  | PickNetwork string
  | TurnInboxPage page_button
  | DeletePressed DiscoveryInboxItem
  | DeleteDialogClosed
  | DismissPressed DiscoveryInboxItem
  | DismissAnswered nat

fun inbox_step :: "int \<Rightarrow> inbox_event \<Rightarrow> inbox_page \<Rightarrow> inbox_page" where
  "inbox_step totalCount (SwitchDismissed v) p = p\<lparr>ip_showDismissed := v, ip_page := 1\<rparr>"
| "inbox_step totalCount (PickNetwork v) p = p\<lparr>ip_networkFilter := v, ip_page := 1\<rparr>"
| "inbox_step totalCount (TurnInboxPage b) p = p\<lparr>ip_page := turn_page totalCount b (ip_page p)\<rparr>"
| "inbox_step totalCount (DeletePressed item) p = p\<lparr>ip_deleteTarget := Some item\<rparr>"
| "inbox_step totalCount DeleteDialogClosed p = p\<lparr>ip_deleteTarget := None\<rparr>"
| "inbox_step totalCount (DismissPressed item) p =
     (if (DismissItem, True) \<in> set (InboxActionsMenu item (ip_dismissing p))
      then p\<lparr>ip_dismissing := Some (discoveryInboxItem_id item), ip_requests := ip_requests p @ [discoveryInboxItem_id item]\<rparr>
      else p)"
| "inbox_step totalCount (DismissAnswered i) p =
     (if i < length (ip_requests p)
      then p\<lparr>ip_dismissing := None, ip_requests := take i (ip_requests p) @ drop (Suc i) (ip_requests p)\<rparr>
      else p)"

text \<open>Each event comes with the count of the page it happens on.\<close>

definition inbox_run :: "(int \<times> inbox_event) list \<Rightarrow> inbox_page \<Rightarrow> inbox_page" where
  "inbox_run events p = fold (\<lambda>(tot, ev). inbox_step tot ev) events p"

lemma inbox_page_positive: "1 \<le> ip_page p \<Longrightarrow> 1 \<le> ip_page (inbox_run events p)"
proof (induction events arbitrary: p)
  case (Cons e events)
  obtain tot ev where e: "e = (tot, ev)" by (cases e)
  have "1 \<le> ip_page (inbox_step tot ev p)"
  proof (cases ev)
    case (TurnInboxPage b)
    with Cons.prems show ?thesis by (cases b) (simp_all add: prevDisabled_def)
  qed (use Cons.prems in simp_all)
  then show ?case using Cons.IH by (simp add: inbox_run_def e)
qed (simp add: inbox_run_def)

text \<open>A dismissal that is marked is under way; the converse fails, see below.\<close>

definition dismissing_pending :: "inbox_page \<Rightarrow> bool" where
  "dismissing_pending p \<longleftrightarrow> (\<forall>i. ip_dismissing p = Some i \<longrightarrow> i \<in> set (ip_requests p))"

lemma dismissing_pending_run: "dismissing_pending p \<Longrightarrow> dismissing_pending (inbox_run events p)"
proof (induction events arbitrary: p)
  case (Cons e events)
  obtain tot ev where e: "e = (tot, ev)" by (cases e)
  have "dismissing_pending (inbox_step tot ev p)"
    using Cons.prems by (cases ev) (auto simp: dismissing_pending_def)
  then show ?case using Cons.IH by (simp add: inbox_run_def e)
qed (simp add: inbox_run_def)

text \<open>
  The page keeps one id for all dismissals: when the first of two is answered, the second is free to be dismissed again although its
  request is still under way.
\<close>

lemma dismissed_twice:
  assumes "discoveryInboxItem_status a = ''new''" and "discoveryInboxItem_status b = ''new''"
    and "discoveryInboxItem_id a \<noteq> discoveryInboxItem_id b"
  shows "ip_requests (inbox_run [(2, DismissPressed a), (2, DismissPressed b), (2, DismissAnswered 0), (2, DismissPressed b)] inbox_init)
    = [discoveryInboxItem_id b, discoveryInboxItem_id b]"
  using assms by (simp add: inbox_run_def inbox_init_def InboxActionsMenu_def)

text \<open>When the last row of the last page is deleted the page stays behind the end, and its footer counts backwards.\<close>

lemma inbox_behind_end:
  "inbox_footer 3 40 = Some (41, 40, 40, ''discoverys'') \<and> nextDisabled 3 40 \<and> \<not> prevDisabled 3"
  by code_simp

text \<open>
  The two pages share the cache entry of the network list although one asks for 100 networks and the other for 200; neither turns
  pages, so a network behind the first 100 is not shown at all.
\<close>

lemma network_lists_asked_for:
  "call_url (fst (networks_query c a)) = BASE @ ''/discovery/networks?page=1&page_size=100''"
proof -
  have "show_int 100 = ''100''" by (simp add: show_int_def show_radix.simps digit_char_def char_of_eq_iff)
  then show ?thesis by (simp add: show_one networks_query_def listDiscoveryNetworks_def api_call_url)
qed

text \<open>Adding an item from the inbox opens the endpoint form for that item.\<close>

lemma promote_opens_form:
  assumes "\<forall>x \<in> set (discoveryInboxItem_id item). is_alnum x \<or> x = CHR ''-''" and "discoveryInboxItem_id item \<noteq> []"
  shows "fromInboxId \<lparr>route_id = None, route_search = params_parse (address_query (promote_link item))\<rparr>
    = Some (discoveryInboxItem_id item)"
proof -
  have plain: "form_encode (discoveryInboxItem_id item) = discoveryInboxItem_id item" using assms(1) by (intro form_plain) auto
  have key: "form_encode ''from_inbox'' = ''from_inbox''" by (rule form_plain) (simp add: char_eval)
  have "address_query (promote_link item) = params_toString [(''from_inbox'', discoveryInboxItem_id item)]"
    by (simp add: address_query_def promote_link_def split_first_def params_toString_def params_pair_def plain key)
  then show ?thesis by (simp add: params_roundtrip fromInboxId_def params_get_def)
qed

end
