(* ===== verification/MonitorCalendar.thy ===== *)
theory MonitorCalendar
  imports ApiCalls JsCollections JsDates Expiry "HOL-Library.Multiset"
begin

section \<open>The calendar of expiries (\<open>pages/monitor/MonitorCalendarView.tsx\<close>)\<close>

text \<open>
  The month grid, the grouping of the expiring certificates by day, and the navigation. Months count from 0 as in the
  source. \<open>new Date(year, month, day)\<close> is a local date, so its weekday and the length of its month are those of the
  calendar; years below 100 (which \<open>Date\<close> moves into the twentieth century) do not occur. The clock's own day is an argument.
\<close>

subsection \<open>Days\<close>

definition MONTH_NAMES :: "string list" where
  "MONTH_NAMES =
     [''January'', ''February'', ''March'', ''April'', ''May'', ''June'', ''July'', ''August'', ''September'', ''October'',
      ''November'', ''December'']"

definition DOW :: "string list" where
  "DOW = [''SUN'', ''MON'', ''TUE'', ''WED'', ''THU'', ''FRI'', ''SAT'']"

definition WEEKDAY_LONG :: "string list" where
  "WEEKDAY_LONG = [''Sunday'', ''Monday'', ''Tuesday'', ''Wednesday'', ''Thursday'', ''Friday'', ''Saturday'']"

text \<open>\<open>getDay()\<close>: 1970-01-01 was a Thursday.\<close>

definition getDay :: "int \<Rightarrow> nat \<Rightarrow> int \<Rightarrow> nat" where
  "getDay y m d = nat ((day_number y (Suc m) d + 4) mod 7)"

text \<open>\<open>new Date(year, month + 1, 0).getDate()\<close>: the last day of the month.\<close>

definition daysInMonth :: "int \<Rightarrow> nat \<Rightarrow> nat" where
  "daysInMonth y m = nat (days_in_month (leap_year y) (Suc m))"

definition two_digits :: "nat \<Rightarrow> string" where
  "two_digits n = padStart 2 (CHR ''0'') (show_int (int n))"

definition date_key :: "int \<Rightarrow> nat \<Rightarrow> nat \<Rightarrow> string" where
  "date_key y m d = show_int y @ ''-'' @ two_digits (m + 1) @ ''-'' @ two_digits d"

definition toDateKey :: "string \<Rightarrow> string" where
  "toDateKey s = take 10 s"

definition todayKey :: "int \<times> nat \<times> nat \<Rightarrow> string" where
  "todayKey = (\<lambda>(y, m, d). date_key y m d)"

definition urgencyChip :: "int \<Rightarrow> tone" where
  "urgencyChip days = (if days < 0 then RedTone else if days \<le> 30 then AmberTone else GreenTone)"

definition urgencyDot :: "int \<Rightarrow> tone" where
  "urgencyDot days = (if days < 0 then RedTone else if days \<le> 30 then AmberTone else GreenTone)"

definition daysLabel :: "int \<Rightarrow> string" where
  "daysLabel days =
     (if days < 0 then ''Expired '' @ show_int \<bar>days\<bar> @ ''d ago''
      else if days = 0 then ''Expires today''
      else show_int days @ ''d remaining'')"

subsection \<open>Grouping\<close>

definition group_step ::
  "ExpiringCertItem \<Rightarrow> (string, ExpiringCertItem list) js_map \<Rightarrow> (string, ExpiringCertItem list) js_map" where
  "group_step cert m =
     (let key = toDateKey (expiringCertItem_notAfter cert) in js_map_set key (nullish (js_map_get m key) [] @ [cert]) m)"

definition groupByDate :: "ExpiringCertItem list \<Rightarrow> (string, ExpiringCertItem list) js_map" where
  "groupByDate items = fold group_step items js_map_empty"

text \<open>The certificates of a day, the most urgent first (\<open>sort\<close> is stable).\<close>

definition day_certs :: "(string, ExpiringCertItem list) js_map \<Rightarrow> string \<Rightarrow> ExpiringCertItem list" where
  "day_certs byDate dateStr = sort_key expiringCertItem_daysRemaining (nullish (js_map_get byDate dateStr) [])"

definition MAX_VISIBLE :: nat where
  "MAX_VISIBLE = 3"

text \<open>The chips of a cell and the number of certificates that are not shown.\<close>

definition cell_chips :: "(string, ExpiringCertItem list) js_map \<Rightarrow> string \<Rightarrow> (string \<times> tone) list \<times> nat option" where
  "cell_chips byDate dateStr =
     (let endpoints = day_certs byDate dateStr in
      (map (\<lambda>c. (expiringCertItem_endpointName c, urgencyChip (expiringCertItem_daysRemaining c))) (take MAX_VISIBLE endpoints),
       if length endpoints > MAX_VISIBLE then Some (length endpoints - MAX_VISIBLE) else None))"

subsection \<open>The grid\<close>

text \<open>\<open>while (cells.length % 7 !== 0) cells.push(null)\<close>\<close>

function pad_week :: "'a option list \<Rightarrow> 'a option list" where
  "pad_week cells = (if length cells mod 7 \<noteq> 0 then pad_week (cells @ [None]) else cells)"
  by pat_completeness auto
termination
proof (relation "measure (\<lambda>cells. (7 - length cells mod 7) mod 7)")
  fix cells :: "'a option list" assume n: "length cells mod 7 \<noteq> 0"
  have "Suc (length cells) mod 7 = (if Suc (length cells mod 7) = 7 then 0 else Suc (length cells mod 7))"
    by (simp add: mod_Suc)
  moreover have "length cells mod 7 < 7" by simp
  ultimately show "(cells @ [None], cells) \<in> measure (\<lambda>cells. (7 - length cells mod 7) mod 7)"
    using n by (simp split: if_splits)
qed simp

declare pad_week.simps [simp del]

function weeks_of :: "'a list \<Rightarrow> 'a list list" where
  "weeks_of cells = (if cells = [] then [] else take 7 cells # weeks_of (drop 7 cells))"
  by pat_completeness auto
termination by (relation "measure length") auto

declare weeks_of.simps [simp del]

definition month_cells :: "int \<Rightarrow> nat \<Rightarrow> string option list" where
  "month_cells year month =
     replicate (getDay year month 1) None @ map (\<lambda>i. Some (date_key year month (i + 1))) [0..<daysInMonth year month]"

definition buildGrid :: "int \<Rightarrow> nat \<Rightarrow> string option list list" where
  "buildGrid year month = weeks_of (pad_week (month_cells year month))"

text \<open>\<open>Number\<close> of a text of digits.\<close>

definition formatLongDate :: "string \<Rightarrow> string option" where
  "formatLongDate dateStr =
     (case map (read_radix 10 0) (split_char (CHR ''-'') dateStr) of
        [y, m, d] \<Rightarrow>
          Some (WEEKDAY_LONG ! getDay (int y) (m - 1) (int d) @ '', '' @ MONTH_NAMES ! (m - 1) @ '' '' @ show_int (int d))
      | _ \<Rightarrow> None)"

subsection \<open>The view\<close>

record calendar_view =
  cv_year :: int
  cv_month :: nat
  cv_selectedDate :: string

definition calendar_init :: "int \<times> nat \<times> nat \<Rightarrow> calendar_view" where
  "calendar_init = (\<lambda>(y, m, d). \<lparr>cv_year = y, cv_month = m, cv_selectedDate = todayKey (y, m, d)\<rparr>)"

definition monthPrefix :: "int \<Rightarrow> nat \<Rightarrow> string" where
  "monthPrefix year month = show_int year @ ''-'' @ two_digits (month + 1)"

text \<open>The effect that moves the selection into the shown month.\<close>

definition calendar_effect ::
  "int \<times> nat \<times> nat \<Rightarrow> (string, ExpiringCertItem list) js_map \<Rightarrow> calendar_view \<Rightarrow> calendar_view" where
  "calendar_effect today byDate v =
     (if startsWith (cv_selectedDate v) (monthPrefix (cv_year v) (cv_month v)) then v
      else (let flat = map the (filter (\<lambda>d. d \<noteq> None) (concat (buildGrid (cv_year v) (cv_month v)))) in
            v\<lparr>cv_selectedDate :=
                (case find (\<lambda>d. length (nullish (js_map_get byDate d) []) > 0) flat of
                   Some d \<Rightarrow> d
                 | None \<Rightarrow> (case flat of [] \<Rightarrow> todayKey today | d # _ \<Rightarrow> d))\<rparr>))"

definition prevMonth :: "calendar_view \<Rightarrow> calendar_view" where
  "prevMonth v =
     (if cv_month v = 0 then v\<lparr>cv_year := cv_year v - 1, cv_month := 11\<rparr> else v\<lparr>cv_month := cv_month v - 1\<rparr>)"

definition nextMonth :: "calendar_view \<Rightarrow> calendar_view" where
  "nextMonth v =
     (if cv_month v = 11 then v\<lparr>cv_year := cv_year v + 1, cv_month := 0\<rparr> else v\<lparr>cv_month := cv_month v + 1\<rparr>)"

definition calendar_query :: "ExpiringCertList api_call" where
  "calendar_query = listActive 1 10000 [] [] [] []"

definition sidebar_count :: "nat \<Rightarrow> string" where
  "sidebar_count n =
     (if n = 0 then ''No certificates expire on this date.''
      else show_int (int n) @ '' certificate'' @ (if n = 1 then [] else ''s'') @ '' expiring'')"

subsection \<open>The loops\<close>

lemma pad_week_eq: "pad_week cells = cells @ replicate ((7 - length cells mod 7) mod 7) None"
proof (induction cells rule: pad_week.induct)
  case (1 cells)
  show ?case
  proof (cases "length cells mod 7 = 0")
    case False
    have m: "Suc (length cells) mod 7 = (if Suc (length cells mod 7) = 7 then 0 else Suc (length cells mod 7))"
      by (simp add: mod_Suc)
    have "length cells mod 7 < 7" by simp
    with m False have "(7 - length cells mod 7) mod 7 = Suc ((7 - Suc (length cells) mod 7) mod 7)"
      by (simp split: if_splits)
    then show ?thesis using False 1 by (subst pad_week.simps) simp
  qed (subst pad_week.simps, simp)
qed

lemma pad_week_full: "7 dvd length (pad_week cells)"
proof -
  have "7 dvd n + (7 - n mod 7) mod 7" for n :: nat
  proof (cases "n mod 7 = 0")
    case False
    then have "(7 - n mod 7) mod 7 = 7 - n mod 7" by simp
    moreover have "n + (7 - n mod 7) = n div 7 * 7 + 7" using div_mult_mod_eq [of n 7] mod_less_divisor [of 7 n] by linarith
    ultimately show ?thesis by simp
  qed auto
  then show ?thesis by (simp add: pad_week_eq)
qed

lemma concat_weeks_of: "concat (weeks_of cells) = cells"
  by (induction cells rule: weeks_of.induct) (subst weeks_of.simps, simp)

lemma weeks_of_full: "7 dvd length cells \<Longrightarrow> w \<in> set (weeks_of cells) \<Longrightarrow> length w = 7"
proof (induction cells rule: weeks_of.induct)
  case (1 cells)
  show ?case
  proof (cases "cells = []")
    case False
    have le: "7 \<le> length cells" using "1.prems"(1) False by (auto dest: dvd_imp_le)
    moreover have "7 dvd length (drop 7 cells)" using "1.prems"(1) le by (simp add: dvd_diff_nat)
    moreover have "w = take 7 cells \<or> w \<in> set (weeks_of (drop 7 cells))"
      using "1.prems"(2) False by (subst (asm) weeks_of.simps) auto
    ultimately show ?thesis using "1.IH" [OF False] by auto
  qed (use "1.prems"(2) in \<open>simp add: weeks_of.simps\<close>)
qed

lemma concat_buildGrid: "concat (buildGrid y m) = pad_week (month_cells y m)"
  by (simp add: buildGrid_def concat_weeks_of)

lemma length_month_cells: "length (month_cells y m) = getDay y m 1 + daysInMonth y m"
  by (simp add: month_cells_def)

text \<open>The cell of a day, and its column.\<close>

lemma getDay_step: "(getDay y m 1 + d) mod 7 = getDay y m (int d + 1)"
proof -
  have "day_number y (Suc m) (int d + 1) + 4 = (day_number y (Suc m) 1 + 4) + int d" by (simp add: day_number_def)
  then have "getDay y m (int d + 1) = nat (((day_number y (Suc m) 1 + 4) + int d) mod 7)" by (simp only: getDay_def)
  also have "\<dots> = nat (((day_number y (Suc m) 1 + 4) mod 7 + int d) mod 7)" by (simp only: mod_add_left_eq)
  also have "\<dots> = nat ((int (getDay y m 1) + int d) mod 7)" by (simp add: getDay_def)
  also have "\<dots> = (getDay y m 1 + d) mod 7" by (metis nat_int of_nat_add zmod_int of_nat_numeral)
  finally show ?thesis by simp
qed

lemma grid_cell:
  assumes "1 \<le> d" and "d \<le> daysInMonth y m"
  shows "concat (buildGrid y m) ! (getDay y m 1 + (d - 1)) = Some (date_key y m d)"
    and "getDay y m 1 + (d - 1) < length (concat (buildGrid y m))"
    and "(getDay y m 1 + (d - 1)) mod 7 = getDay y m (int d)"
proof -
  have "[0..<daysInMonth y m] ! (d - 1) = d - 1" using assms by simp
  then have "month_cells y m ! (getDay y m 1 + (d - 1)) = Some (date_key y m d)"
    using assms unfolding month_cells_def by (subst nth_append_length_plus [of "replicate (getDay y m 1) None", simplified]) simp
  moreover have "getDay y m 1 + (d - 1) < length (month_cells y m)" using assms by (simp add: length_month_cells)
  ultimately show "concat (buildGrid y m) ! (getDay y m 1 + (d - 1)) = Some (date_key y m d)"
    "getDay y m 1 + (d - 1) < length (concat (buildGrid y m))"
    by (simp_all add: concat_buildGrid pad_week_eq nth_append)
  show "(getDay y m 1 + (d - 1)) mod 7 = getDay y m (int d)"
    using getDay_step [of y m "d - 1"] assms(1) by (simp add: of_nat_diff)
qed

lemma grid_days:
  "map the (filter (\<lambda>c. c \<noteq> None) (concat (buildGrid y m))) = map (\<lambda>i. date_key y m (i + 1)) [0..<daysInMonth y m]"
  by (simp add: concat_buildGrid pad_week_eq month_cells_def o_def)

text \<open>Keys of different days differ.\<close>

lemma daysInMonth_bound: "daysInMonth y m \<le> 31"
  by (simp add: daysInMonth_def days_in_month_def)

lemma read_leading_zeros: "read_radix 10 0 (replicate k (CHR ''0'') @ s) = read_radix 10 0 s"
  by (induction k) (simp_all add: digit_val_eval)

lemma two_digits_read [simp]: "read_radix 10 0 (two_digits n) = n"
  by (simp add: two_digits_def padStart_def read_leading_zeros show_int_def read_show_radix)

lemma two_digits_no_dash: "CHR ''-'' \<notin> set (two_digits n)"
  using show_nat_digits [of "CHR ''-''" n]
  by (auto simp: two_digits_def padStart_def show_int_def is_digit_def charCode_def)

lemma two_digits_inject [simp]: "two_digits n = two_digits k \<longleftrightarrow> n = k"
  by (metis two_digits_read)

lemma show_int_no_dash: "0 \<le> y \<Longrightarrow> CHR ''-'' \<notin> set (show_int y)"
  using show_nat_digits [of "CHR ''-''" "nat y"] by (auto simp: show_int_def is_digit_def charCode_def)

lemma split_date_key:
  "0 \<le> y \<Longrightarrow> split_char (CHR ''-'') (date_key y m d) = [show_int y, two_digits (m + 1), two_digits d]"
  using split_char_join [of "[show_int y, two_digits (m + 1), two_digits d]" "CHR ''-''"]
  by (simp add: date_key_def show_int_no_dash two_digits_no_dash)

lemma date_key_inject:
  assumes "0 \<le> y" and eq: "date_key y m d = date_key y m' d'"
  shows "m = m' \<and> d = d'"
proof -
  have "[show_int y, two_digits (m + 1), two_digits d] = [show_int y, two_digits (m' + 1), two_digits d']"
    using split_date_key [OF assms(1), of m d] split_date_key [OF assms(1), of m' d'] unfolding eq by simp
  then show ?thesis by simp
qed

lemma read_show_int: "0 \<le> y \<Longrightarrow> read_radix 10 0 (show_int y) = nat y"
  by (simp add: show_int_def read_show_radix)

lemma formatLongDate_key:
  assumes "0 \<le> y"
  shows "formatLongDate (date_key y m d) =
     Some (WEEKDAY_LONG ! getDay y m (int d) @ '', '' @ MONTH_NAMES ! m @ '' '' @ show_int (int d))"
  unfolding formatLongDate_def split_date_key [OF assms] list.map read_show_int [OF assms] two_digits_read
  using assms by (simp only: list.case nat_0_le add_diff_cancel_right')

lemma groupByDate_get:
  "js_map_get (groupByDate items) key =
     (if filter (\<lambda>c. toDateKey (expiringCertItem_notAfter c) = key) items = [] then None
      else Some (filter (\<lambda>c. toDateKey (expiringCertItem_notAfter c) = key) items))"
proof (induction items arbitrary: key rule: rev_induct)
  case Nil
  then show ?case by (simp add: groupByDate_def alist_map.get_empty)
next
  case (snoc c items)
  have "groupByDate (items @ [c]) = group_step c (groupByDate items)" by (simp add: groupByDate_def)
  then show ?case by (simp add: group_step_def Let_def alist_map.get_put snoc)
qed

lemma day_certs_get:
  "day_certs (groupByDate items) key =
     sort_key expiringCertItem_daysRemaining (filter (\<lambda>c. toDateKey (expiringCertItem_notAfter c) = key) items)"
  by (simp add: day_certs_def groupByDate_get)

lemma grid_nth:
  assumes "i < length (concat (buildGrid y m))"
  shows "concat (buildGrid y m) ! i =
    (if getDay y m 1 \<le> i \<and> i < getDay y m 1 + daysInMonth y m then Some (date_key y m (i - getDay y m 1 + 1)) else None)"
proof (cases "i < length (month_cells y m)")
  case True
  then have "concat (buildGrid y m) ! i = month_cells y m ! i" by (simp add: concat_buildGrid pad_week_eq nth_append)
  also have "\<dots> = (if getDay y m 1 \<le> i then Some (date_key y m (i - getDay y m 1 + 1)) else None)"
  proof (cases "getDay y m 1 \<le> i")
    case le: True
    then have "i - getDay y m 1 < daysInMonth y m" using True by (simp add: length_month_cells)
    then show ?thesis using le by (simp add: month_cells_def nth_append)
  qed (simp add: month_cells_def nth_append)
  finally show ?thesis using True by (simp add: length_month_cells)
next
  case False
  with assms show ?thesis
    by (simp add: concat_buildGrid pad_week_eq nth_append length_month_cells)
qed

lemma grid_cell_unique:
  assumes "0 \<le> y" and "i < length (concat (buildGrid y m))" and "concat (buildGrid y m) ! i = Some (date_key y m d)"
  shows "i = getDay y m 1 + (d - 1)"
proof -
  have "getDay y m 1 \<le> i" "date_key y m (i - getDay y m 1 + 1) = date_key y m d"
    using assms(3) unfolding grid_nth [OF assms(2)] by (simp_all split: if_splits)
  with date_key_inject [OF assms(1)] have "i - getDay y m 1 + 1 = d" by blast
  with \<open>getDay y m 1 \<le> i\<close> show ?thesis by simp
qed

subsection \<open>Navigation\<close>

lemma month_navigation:
  assumes "cv_month v < 12"
  shows "cv_month (nextMonth v) < 12" "cv_month (prevMonth v) < 12" "prevMonth (nextMonth v) = v" "nextMonth (prevMonth v) = v"
    "12 * cv_year (nextMonth v) + int (cv_month (nextMonth v)) = 12 * cv_year v + int (cv_month v) + 1"
  using assms by (auto simp: nextMonth_def prevMonth_def)

lemma month_has_days: "1 \<le> daysInMonth y m"
  by (simp add: daysInMonth_def days_in_month_def)

lemma date_key_prefix: "startsWith (date_key y m d) (monthPrefix y m)"
  by (simp add: startsWith_def date_key_def monthPrefix_def)

text \<open>After the effect the selected day is in the shown month.\<close>

lemma calendar_effect_in_month:
  "startsWith (cv_selectedDate (calendar_effect today byDate v)) (monthPrefix (cv_year v) (cv_month v))"
proof (cases "startsWith (cv_selectedDate v) (monthPrefix (cv_year v) (cv_month v))")
  case False
  let ?flat = "map the (filter (\<lambda>d. d \<noteq> None) (concat (buildGrid (cv_year v) (cv_month v))))"
  have flat: "?flat = map (\<lambda>i. date_key (cv_year v) (cv_month v) (i + 1)) [0..<daysInMonth (cv_year v) (cv_month v)]"
    by (rule grid_days)
  have all: "startsWith d (monthPrefix (cv_year v) (cv_month v))" if "d \<in> set ?flat" for d
    using that date_key_prefix unfolding flat by auto
  have "?flat \<noteq> []" using month_has_days [of "cv_year v" "cv_month v"] unfolding flat by simp
  then obtain d ds where d: "?flat = d # ds" by (cases ?flat) auto
  show ?thesis
  proof (cases "find (\<lambda>d. length (nullish (js_map_get byDate d) []) > 0) ?flat")
    case None
    with False d show ?thesis using all [of d] by (simp add: calendar_effect_def Let_def)
  next
    case (Some x)
    have "find P xs = Some x \<Longrightarrow> x \<in> set xs" for P and xs :: "string list" by (auto simp: find_Some_iff)
    then have "x \<in> set ?flat" using Some by blast
    from all [OF this] Some False show ?thesis by (simp add: calendar_effect_def Let_def)
  qed
qed (simp add: calendar_effect_def)

subsection \<open>Properties\<close>

text \<open>\<^bold>\<open>C18\<close>: the calendar of a month is right. Both loops that build it end; every week has seven cells; the cells that are not empty
  are the days of the month in order; each day has exactly one cell, in the column of its weekday; the certificates of that cell are
  exactly those whose expiry date is that day, the most urgent first; and the heading of the sidebar names the day.\<close>

theorem calendar_shows_every_expiry:
  assumes "0 \<le> y" and "1 \<le> d" and "d \<le> daysInMonth y m"
  shows "list_all (\<lambda>w. length w = 7) (buildGrid y m)
    \<and> map the (filter (\<lambda>c. c \<noteq> None) (concat (buildGrid y m))) = map (\<lambda>i. date_key y m (i + 1)) [0..<daysInMonth y m]
    \<and> (\<exists>!i. i < length (concat (buildGrid y m)) \<and> concat (buildGrid y m) ! i = Some (date_key y m d))
    \<and> concat (buildGrid y m) ! (getDay y m 1 + (d - 1)) = Some (date_key y m d)
    \<and> (getDay y m 1 + (d - 1)) mod 7 = getDay y m (int d)
    \<and> mset (day_certs (groupByDate items) (date_key y m d))
        = mset (filter (\<lambda>c. toDateKey (expiringCertItem_notAfter c) = date_key y m d) items)
    \<and> sorted (map expiringCertItem_daysRemaining (day_certs (groupByDate items) (date_key y m d)))
    \<and> formatLongDate (date_key y m d)
        = Some (WEEKDAY_LONG ! getDay y m (int d) @ '', '' @ MONTH_NAMES ! m @ '' '' @ show_int (int d))"
proof (intro conjI)
  show "list_all (\<lambda>w. length w = 7) (buildGrid y m)"
    using weeks_of_full [OF pad_week_full] by (auto simp: list_all_iff buildGrid_def)
  show "\<exists>!i. i < length (concat (buildGrid y m)) \<and> concat (buildGrid y m) ! i = Some (date_key y m d)"
    using grid_cell(1,2) [OF assms(2,3)] grid_cell_unique [OF assms(1)] by blast
  show "mset (day_certs (groupByDate items) (date_key y m d))
      = mset (filter (\<lambda>c. toDateKey (expiringCertItem_notAfter c) = date_key y m d) items)"
    "sorted (map expiringCertItem_daysRemaining (day_certs (groupByDate items) (date_key y m d)))"
    by (simp_all add: day_certs_get)
qed (rule grid_days grid_cell(1) [OF assms(2,3)] grid_cell(3) [OF assms(2,3)] formatLongDate_key [OF assms(1)])+

theorem calendar_shows_every_expiry_witness:
  "concat (buildGrid 2024 1) ! (getDay 2024 1 1 + (29 - 1)) = Some (date_key 2024 1 29)"
proof -
  have "(29::nat) \<le> daysInMonth 2024 1" by (simp add: daysInMonth_def days_in_month_def leap_year_def)
  then show ?thesis using calendar_shows_every_expiry [where y = 2024 and m = 1 and d = 29 and items = "[]"] by simp
qed

end
