(* ===== verification/GlobalSearch.thy ===== *)
theory GlobalSearch
  imports ApiCalls
begin

section \<open>The search box (\<open>components/layout/GlobalSearch.tsx\<close>)\<close>

text \<open>
  The result list, its grouping on screen and the keyboard. The results belong to the debounced query and are an
  argument; \<open>length\<close> of a query counts bytes here, which agrees with the source on ASCII.
\<close>

subsection \<open>Results\<close>

definition MIN_CHARS :: nat where
  "MIN_CHARS = 2"

datatype item_kind = EndpointItem | CertificateItem | ScannerItem

text \<open>\<open>item_type\<close> is there for endpoints only.\<close>

record FlatItem =
  item_kind :: item_kind
  item_id :: string
  item_title :: string
  item_subtitle :: string
  item_type :: "string option"
  item_href :: string

definition endpoint_item :: "SearchEndpoint \<Rightarrow> FlatItem" where
  "endpoint_item e =
     \<lparr>item_kind = EndpointItem, item_id = searchEndpoint_id e, item_title = searchEndpoint_name e,
      item_subtitle = searchEndpoint_subtitle e, item_type = Some (searchEndpoint_type e),
      item_href = ''/endpoints/'' @ searchEndpoint_id e\<rparr>"

definition certificate_item :: "SearchCertificate \<Rightarrow> FlatItem" where
  "certificate_item c =
     \<lparr>item_kind = CertificateItem, item_id = searchCertificate_fingerprint c,
      item_title = (if searchCertificate_commonName c \<noteq> [] then searchCertificate_commonName c
                    else take 16 (searchCertificate_fingerprint c) @ ellipsis),
      item_subtitle = searchCertificate_fingerprint c, item_type = None,
      item_href = ''/certificates/'' @ searchCertificate_fingerprint c\<rparr>"

definition scanner_item :: "SearchScanner \<Rightarrow> FlatItem" where
  "scanner_item s =
     \<lparr>item_kind = ScannerItem, item_id = searchScanner_id s, item_title = searchScanner_name s, item_subtitle = ''Scanner'',
      item_type = None, item_href = ''/settings/scanners''\<rparr>"

definition flatten :: "SearchResults option \<Rightarrow> FlatItem list" where
  "flatten results =
     (case results of
        None \<Rightarrow> []
      | Some r \<Rightarrow>
          map endpoint_item (searchResults_endpoints r) @ map certificate_item (searchResults_certificates r)
          @ map scanner_item (searchResults_scanners r))"

subsection \<open>State and keys\<close>

record search_box =
  sb_query :: string
  sb_debounced :: string
  sb_open :: bool
  sb_activeIdx :: nat

definition search_init :: search_box where
  "search_init = \<lparr>sb_query = [], sb_debounced = [], sb_open = False, sb_activeIdx = 0\<rparr>"

definition search_enabled :: "search_box \<Rightarrow> bool" where
  "search_enabled b \<longleftrightarrow> length (sb_debounced b) \<ge> MIN_CHARS"

definition search_query :: "search_box \<Rightarrow> SearchResults api_call option" where
  "search_query b = (if search_enabled b then Some (universalSearch (sb_debounced b)) else None)"

definition search_timer_fired :: "search_box \<Rightarrow> search_box" where
  "search_timer_fired b = b\<lparr>sb_debounced := trim (sb_query b)\<rparr>"

definition search_typed :: "string \<Rightarrow> search_box \<Rightarrow> search_box" where
  "search_typed s b = b\<lparr>sb_query := s, sb_open := True, sb_activeIdx := 0\<rparr>"

definition search_focused :: "search_box \<Rightarrow> search_box" where
  "search_focused b = b\<lparr>sb_open := True\<rparr>"

definition clicked_outside :: "search_box \<Rightarrow> search_box" where
  "clicked_outside b = b\<lparr>sb_open := False\<rparr>"

text \<open>The effect that keeps the highlighted row inside the list.\<close>

definition clamp_active :: "FlatItem list \<Rightarrow> search_box \<Rightarrow> search_box" where
  "clamp_active items b = (if sb_activeIdx b \<ge> length items then b\<lparr>sb_activeIdx := 0\<rparr> else b)"

definition pick :: "FlatItem \<Rightarrow> search_box \<Rightarrow> search_box \<times> string option" where
  "pick item b = (b\<lparr>sb_open := False, sb_query := [], sb_debounced := []\<rparr>, Some (item_href item))"

datatype search_key = ArrowDown | ArrowUp | EnterKey | EscapeKey | OtherKey

text \<open>The new state and where the browser goes, if anywhere.\<close>

fun onKeyDown :: "FlatItem list \<Rightarrow> search_key \<Rightarrow> search_box \<Rightarrow> search_box \<times> string option" where
  "onKeyDown items ArrowDown b =
     (let b1 = b\<lparr>sb_open := True\<rparr> in
      (if length items > 0 then b1\<lparr>sb_activeIdx := (sb_activeIdx b + 1) mod length items\<rparr> else b1, None))"
| "onKeyDown items ArrowUp b =
     (if length items > 0 then b\<lparr>sb_activeIdx := nat ((int (sb_activeIdx b) - 1 + int (length items)) mod int (length items))\<rparr> else b,
      None)"
| "onKeyDown items EnterKey b = (if sb_activeIdx b < length items then pick (items ! sb_activeIdx b) b else (b, None))"
| "onKeyDown items EscapeKey b = (b\<lparr>sb_open := False\<rparr>, None)"
| "onKeyDown items OtherKey b = (b, None)"

definition onHover :: "nat \<Rightarrow> search_box \<Rightarrow> search_box" where
  "onHover i b = b\<lparr>sb_activeIdx := i\<rparr>"

definition showDropdown :: "search_box \<Rightarrow> bool" where
  "showDropdown b \<longleftrightarrow> sb_open b \<and> search_enabled b"

datatype dropdown = NoDropdown | Searching | NoMatches | Groups "(string \<times> (FlatItem \<times> nat) list) list"

definition grouped :: "FlatItem list \<Rightarrow> item_kind \<Rightarrow> (FlatItem \<times> nat) list" where
  "grouped items k = filter (\<lambda>(item, idx). item_kind item = k) (zip items [0..<length items])"

text \<open>The three groups in the order they are rendered; an empty one is left out.\<close>

definition SearchGroups :: "FlatItem list \<Rightarrow> (string \<times> (FlatItem \<times> nat) list) list" where
  "SearchGroups items =
     filter (\<lambda>(label, rows). rows \<noteq> [])
       [(''Endpoints'', grouped items EndpointItem), (''Certificates'', grouped items CertificateItem),
        (''Scanners'', grouped items ScannerItem)]"

definition dropdown_of :: "bool \<Rightarrow> FlatItem list \<Rightarrow> search_box \<Rightarrow> dropdown" where
  "dropdown_of isFetching items b =
     (if \<not> showDropdown b then NoDropdown
      else if isFetching \<and> length items = 0 then Searching
      else if length items = 0 then NoMatches
      else Groups (SearchGroups items))"

subsection \<open>The order on screen\<close>

lemma filter_blocks:
  assumes "\<forall>x \<in> set as. f x = k" and "\<forall>x \<in> set bs. f x = l" and "\<forall>x \<in> set cs. f x = m" and "distinct [k, l, m]"
  shows "filter (\<lambda>x. f x = k) (as @ bs @ cs) @ filter (\<lambda>x. f x = l) (as @ bs @ cs) @ filter (\<lambda>x. f x = m) (as @ bs @ cs)
     = as @ bs @ cs"
proof -
  have "filter (\<lambda>x. f x = k) as = as" "filter (\<lambda>x. f x = l) as = []" "filter (\<lambda>x. f x = m) as = []"
    "filter (\<lambda>x. f x = k) bs = []" "filter (\<lambda>x. f x = l) bs = bs" "filter (\<lambda>x. f x = m) bs = []"
    "filter (\<lambda>x. f x = k) cs = []" "filter (\<lambda>x. f x = l) cs = []" "filter (\<lambda>x. f x = m) cs = cs"
    using assms by (auto simp: filter_id_conv filter_empty_conv)
  then show ?thesis by simp
qed

lemma zip_kind: "\<forall>x \<in> set (map g xs). item_kind x = k \<Longrightarrow> \<forall>p \<in> set (zip (map g xs) ns). item_kind (fst p) = k"
  by (auto dest!: set_zip_leftD)

text \<open>The rows of the groups, one group after the other, are the items in their flat order with their flat indices.\<close>

lemma groups_in_flat_order:
  "concat (map snd (SearchGroups (flatten results))) = zip (flatten results) [0..<length (flatten results)]"
proof (cases results)
  case (Some r)
  let ?e = "map endpoint_item (searchResults_endpoints r)" and ?c = "map certificate_item (searchResults_certificates r)"
    and ?s = "map scanner_item (searchResults_scanners r)"
  have items: "flatten results = ?e @ ?c @ ?s" by (simp add: flatten_def Some)
  have "concat (map snd (SearchGroups (flatten results))) =
      grouped (flatten results) EndpointItem @ grouped (flatten results) CertificateItem @ grouped (flatten results) ScannerItem"
    by (simp add: SearchGroups_def)
  also have "\<dots> = zip (flatten results) [0..<length (flatten results)]"
    unfolding grouped_def case_prod_unfold items zip_append1
    by (rule filter_blocks)
      (rule zip_kind, simp add: endpoint_item_def certificate_item_def scanner_item_def,
       rule zip_kind, simp add: endpoint_item_def certificate_item_def scanner_item_def,
       rule zip_kind, simp add: endpoint_item_def certificate_item_def scanner_item_def, simp)
  finally show ?thesis .
qed (simp add: flatten_def SearchGroups_def grouped_def)

subsection \<open>The keyboard\<close>

lemma arrow_down_run:
  "0 < length items \<Longrightarrow> sb_activeIdx b < length items \<Longrightarrow>
     sb_activeIdx (((\<lambda>b. fst (onKeyDown items ArrowDown b)) ^^ k) b) = (sb_activeIdx b + k) mod length items"
  by (induction k) (simp_all add: mod_Suc_eq Let_def)

lemma arrow_up_down:
  assumes "sb_activeIdx b < length items"
  shows "sb_activeIdx (fst (onKeyDown items ArrowUp (fst (onKeyDown items ArrowDown b)))) = sb_activeIdx b"
proof -
  let ?n = "length items" and ?i = "sb_activeIdx b"
  have "(int ((?i + 1) mod ?n) - 1 + int ?n) mod int ?n = int ?i"
  proof (cases "?i + 1 = ?n")
    case False
    then have "(?i + 1) mod ?n = ?i + 1" using assms by simp
    then show ?thesis using assms by (simp add: mod_pos_pos_trivial)
  next
    case True
    then have "(?i + 1) mod ?n = 0" by simp
    moreover have "int 0 - 1 + int ?n = int ?i" using True by simp
    ultimately show ?thesis using assms by (simp only: mod_pos_pos_trivial of_nat_less_iff of_nat_0_le_iff)
  qed
  then show ?thesis using assms by (simp add: Let_def)
qed

text \<open>The keyboard follows the screen. The rows shown in the groups, from top to bottom, are the results in their flat order, so
  pressing the down key \<open>k\<close> times from the first row highlights the \<open>k\<close>-th row shown (starting over after the last), the up key
  undoes the down key, and Enter opens the page of the highlighted row and of no other. When the list becomes shorter the highlight stays inside it.\<close>

lemma search_keyboard_follows_screen:
  assumes "items = flatten results" and "0 < length items" and "sb_activeIdx b = 0"
    and "b' = ((\<lambda>b. fst (onKeyDown items ArrowDown b)) ^^ k) b"
  shows "concat (map snd (SearchGroups items)) ! (k mod length items) = (items ! (k mod length items), k mod length items)
    \<and> sb_activeIdx b' = k mod length items
    \<and> sb_activeIdx (fst (onKeyDown items ArrowUp (fst (onKeyDown items ArrowDown b')))) = sb_activeIdx b'
    \<and> snd (onKeyDown items EnterKey b') = Some (item_href (items ! (k mod length items)))
    \<and> sb_activeIdx (clamp_active items' b') < max 1 (length items')"
proof -
  have k: "k mod length items < length items" using assms(2) by simp
  have idx: "sb_activeIdx b' = k mod length items"
    unfolding assms(4) using arrow_down_run [OF assms(2), of b k] assms(2,3) by simp
  moreover have "concat (map snd (SearchGroups items)) ! (k mod length items) = (items ! (k mod length items), k mod length items)"
    using k unfolding assms(1) groups_in_flat_order by simp
  moreover have "sb_activeIdx (fst (onKeyDown items ArrowUp (fst (onKeyDown items ArrowDown b')))) = sb_activeIdx b'"
    using k idx by (intro arrow_up_down) simp
  moreover have "snd (onKeyDown items EnterKey b') = Some (item_href (items ! (k mod length items)))"
    using k idx by (simp add: pick_def)
  moreover have "sb_activeIdx (clamp_active items' b') < max 1 (length items')" by (auto simp: clamp_active_def max_def)
  ultimately show ?thesis by blast
qed

definition example_results :: SearchResults where
  "example_results =
     \<lparr>searchResults_endpoints = [\<lparr>searchEndpoint_id = ''e1'', searchEndpoint_name = ''web'', searchEndpoint_type = ''host'',
        searchEndpoint_subtitle = []\<rparr>], searchResults_certificates = [],
      searchResults_scanners = [\<lparr>searchScanner_id = ''s1'', searchScanner_name = ''edge''\<rparr>]\<rparr>"

lemma search_keyboard_follows_screen_witness:
  "snd (onKeyDown (flatten (Some example_results)) EnterKey
      (((\<lambda>b. fst (onKeyDown (flatten (Some example_results)) ArrowDown b)) ^^ 3) search_init)) = Some ''/settings/scanners''"
proof -
  have n: "length (flatten (Some example_results)) = 2" by (simp add: flatten_def example_results_def)
  have "0 < length (flatten (Some example_results))" "sb_activeIdx search_init = 0" by (simp_all add: n search_init_def)
  from search_keyboard_follows_screen [OF refl this refl, of 3 "[]"]
  have "snd (onKeyDown (flatten (Some example_results)) EnterKey
      (((\<lambda>b. fst (onKeyDown (flatten (Some example_results)) ArrowDown b)) ^^ 3) search_init))
     = Some (item_href (flatten (Some example_results) ! (3 mod length (flatten (Some example_results)))))" by (elim conjE)
  moreover have "(3::nat) mod 2 = 1" by simp
  moreover have "item_href (flatten (Some example_results) ! 1) = ''/settings/scanners''"
    by (simp add: flatten_def example_results_def scanner_item_def)
  ultimately show ?thesis by (simp only: n)
qed

text \<open>Until the timer fires, the results still belong to the previous query: Enter then opens one of those.\<close>

lemma enter_before_timer:
  assumes "items \<noteq> []"
  shows "snd (onKeyDown items EnterKey (search_typed s b)) = Some (item_href (items ! 0)) \<and> sb_debounced (search_typed s b) = sb_debounced b"
  using assms by (simp add: search_typed_def pick_def)

end
