(* ===== verification/TwoFactor.thy ===== *)
theory TwoFactor
  imports Async ApiCalls
begin

section \<open>Two-factor settings (\<open>pages/account/Account2FAPage.tsx\<close>)\<close>

text \<open>
  Setting up, disabling and regenerating the recovery codes of the second factor. The requests of a handler run in one step with
  the answers as arguments. Drawing the QR code belongs to the package \<open>qrcode\<close> and is a parameter that may throw. The code fields
  have \<open>maxLength\<close> 6 and drop what is not a digit.
\<close>

subsection \<open>State\<close>

text \<open>\<open>tp_status\<close> is \<^const>\<open>None\<close> for \<open>null\<close>, and \<open>Some None\<close> when an unanswered request has made it \<open>undefined\<close>.\<close>

record totp_page =
  tp_isLocal :: "bool option"
  tp_status :: "TOTPStatus option option"
  tp_loading :: bool
  tp_setupURI :: "string option"
  tp_setupSecret :: "string option"
  tp_qrDataUrl :: "string option"
  tp_verifyCode :: string
  tp_setupError :: "string option"
  tp_submitting :: bool
  tp_recoveryCodes :: "string list option"
  tp_disableOpen :: bool
  tp_regenOpen :: bool

definition totp_page_init :: totp_page where
  "totp_page_init =
     \<lparr>tp_isLocal = None, tp_status = None, tp_loading = True, tp_setupURI = None, tp_setupSecret = None, tp_qrDataUrl = None,
      tp_verifyCode = [], tp_setupError = None, tp_submitting = False, tp_recoveryCodes = None, tp_disableOpen = False,
      tp_regenOpen = False\<rparr>"

text \<open>The effect on mounting: it has no \<open>catch\<close>, so a failing request leaves the page as it was.\<close>

definition totp_load ::
  "User fetch_result \<Rightarrow> TOTPStatus fetch_result \<Rightarrow> totp_page \<Rightarrow> client \<Rightarrow> http_call list \<times> client \<times> totp_page" where
  "totp_load me_answer status_answer p c =
     (case io_bind (await getMe me_answer) io_the c of
        (ks, c1, Inl _) \<Rightarrow> (ks, c1, p)
      | (ks, c1, Inr me) \<Rightarrow>
          (let p1 = p\<lparr>tp_isLocal := Some (user_provider me = ProviderLocal)\<rparr> in
           if user_provider me = ProviderLocal
           then (case await getTOTPStatus status_answer c1 of
                   (ks', c2, Inr s) \<Rightarrow> (ks @ ks', c2, p1\<lparr>tp_status := Some s, tp_loading := False\<rparr>)
                 | (ks', c2, Inl _) \<Rightarrow> (ks @ ks', c2, p1))
           else (ks, c1, p1\<lparr>tp_loading := False\<rparr>)))"

subsection \<open>Setting up\<close>

definition start_failed :: string where
  "start_failed = ''Failed to start setup. Try again.''"

definition startSetup ::
  "(string \<Rightarrow> string option) \<Rightarrow> TOTPSetup fetch_result \<Rightarrow> totp_page \<Rightarrow> client \<Rightarrow> http_call list \<times> client \<times> totp_page" where
  "startSetup toDataURL answer p c =
     (let p1 = p\<lparr>tp_setupError := None, tp_verifyCode := []\<rparr> in
      case io_bind (await beginTOTPSetup answer) io_the c of
        (ks, c1, Inl _) \<Rightarrow> (ks, c1, p1\<lparr>tp_setupError := Some start_failed\<rparr>)
      | (ks, c1, Inr setup) \<Rightarrow>
          (let p2 = p1\<lparr>tp_setupURI := Some (totpSetup_uri setup), tp_setupSecret := Some (totpSetup_secret setup)\<rparr> in
           case toDataURL (totpSetup_uri setup) of
             Some url \<Rightarrow> (ks, c1, p2\<lparr>tp_qrDataUrl := Some url\<rparr>)
           | None \<Rightarrow> (ks, c1, p2\<lparr>tp_setupError := Some start_failed\<rparr>)))"

definition invalid_code :: string where
  "invalid_code = ''Invalid code. Make sure your phone clock is correct and try again.''"

definition clear_setup :: "totp_page \<Rightarrow> totp_page" where
  "clear_setup p = p\<lparr>tp_setupURI := None, tp_setupSecret := None, tp_qrDataUrl := None, tp_verifyCode := []\<rparr>"

text \<open>The status is asked for inside the same \<open>try\<close> block, after the codes are kept and the set-up is cleared.\<close>

definition confirmSetup ::
  "TOTPVerifyResponse fetch_result \<Rightarrow> TOTPStatus fetch_result \<Rightarrow> totp_page \<Rightarrow> client \<Rightarrow> http_call list \<times> client \<times> totp_page" where
  "confirmSetup answer status_answer p c =
     (let p1 = p\<lparr>tp_setupError := None, tp_submitting := True\<rparr> in
      case io_bind (await (confirmTOTPSetup (trim (tp_verifyCode p))) answer) io_the c of
        (ks, c1, Inl _) \<Rightarrow> (ks, c1, p1\<lparr>tp_setupError := Some invalid_code, tp_submitting := False\<rparr>)
      | (ks, c1, Inr res) \<Rightarrow>
          (let p2 = clear_setup (p1\<lparr>tp_recoveryCodes := Some (totpVerifyResponse_recoveryCodes res)\<rparr>) in
           case await getTOTPStatus status_answer c1 of
             (ks', c2, Inr s) \<Rightarrow> (ks @ ks', c2, p2\<lparr>tp_status := Some s, tp_submitting := False\<rparr>)
           | (ks', c2, Inl _) \<Rightarrow> (ks @ ks', c2, p2\<lparr>tp_setupError := Some invalid_code, tp_submitting := False\<rparr>)))"

definition cancelSetup :: "totp_page \<Rightarrow> totp_page" where
  "cancelSetup p = (clear_setup p)\<lparr>tp_setupError := None\<rparr>"

text \<open>Typing into a code field.\<close>

definition code_typed :: "string \<Rightarrow> string" where
  "code_typed v = filter is_digit (take 6 v)"

definition verify_typed :: "string \<Rightarrow> totp_page \<Rightarrow> totp_page" where
  "verify_typed v p = p\<lparr>tp_verifyCode := code_typed v\<rparr>"

definition verify_disabled :: "totp_page \<Rightarrow> bool" where
  "verify_disabled p \<longleftrightarrow> tp_submitting p \<or> length (tp_verifyCode p) \<noteq> 6"

subsection \<open>What is shown\<close>

datatype totp_view =
    RedirectToAccount
  | BlankPage
  | RenderThrows
  | EnabledCard string
  | SetupCard "string option" "string option" "string option"
  | DisabledCard

definition codes_text :: "int \<Rightarrow> string" where
  "codes_text n =
     show_int n @ '' recovery code'' @ (if n = 1 then [] else ''s'') @ '' remaining.''
     @ (if n \<le> 2 then '' Regenerate a new set soon '' @ em_dash @ '' running out locks you out if you lose your device.'' else [])"

text \<open>The set-up card shows the QR code, the secret and the error.\<close>

definition totp_view_of :: "totp_page \<Rightarrow> totp_view" where
  "totp_view_of p =
     (if tp_isLocal p = Some False then RedirectToAccount
      else case tp_status p of
             None \<Rightarrow> BlankPage
           | Some s \<Rightarrow>
               if tp_loading p \<or> tp_isLocal p = None then BlankPage
               else (case s of
                       None \<Rightarrow> RenderThrows
                     | Some st \<Rightarrow>
                         if totpStatus_enabled st then EnabledCard (codes_text (totpStatus_remainingRecoveryCodes st))
                         else if truthy (tp_setupURI p) then SetupCard (tp_qrDataUrl p) (tp_setupSecret p) (tp_setupError p)
                         else DisabledCard))"

definition recovery_file :: "string list \<Rightarrow> string" where
  "recovery_file codes = join [CHR 0x0A] codes @ [CHR 0x0A]"

subsection \<open>The dialogs\<close>

record disable_dialog =
  dd_password :: string
  dd_code :: string
  dd_error :: "string option"
  dd_submitting :: bool

definition disable_opened :: "disable_dialog \<Rightarrow> disable_dialog" where
  "disable_opened d = d\<lparr>dd_password := [], dd_code := [], dd_error := None, dd_submitting := False\<rparr>"

definition disable_disabled :: "disable_dialog \<Rightarrow> bool" where
  "disable_disabled d \<longleftrightarrow> dd_submitting d \<or> dd_password d = [] \<or> dd_code d = []"

text \<open>
  \<open>onDisabled\<close> closes the dialog and asks for the status; it is not awaited by the dialog, so its failure changes nothing else.
\<close>

definition disable_submit ::
  "unit fetch_result \<Rightarrow> TOTPStatus fetch_result \<Rightarrow> disable_dialog \<Rightarrow> totp_page \<Rightarrow> client
     \<Rightarrow> http_call list \<times> client \<times> disable_dialog \<times> totp_page" where
  "disable_submit answer status_answer d p c =
     (let d1 = d\<lparr>dd_error := None, dd_submitting := True\<rparr> in
      case await (disableTOTP (dd_password d) (trim (dd_code d))) answer c of
        (ks, c1, Inl _) \<Rightarrow> (ks, c1, d1\<lparr>dd_error := Some ''Invalid password or code.'', dd_submitting := False\<rparr>, p)
      | (ks, c1, Inr _) \<Rightarrow>
          (case await getTOTPStatus status_answer c1 of
             (ks', c2, Inr s) \<Rightarrow> (ks @ ks', c2, d1, p\<lparr>tp_disableOpen := False, tp_status := Some s\<rparr>)
           | (ks', c2, Inl _) \<Rightarrow> (ks @ ks', c2, d1, p\<lparr>tp_disableOpen := False\<rparr>)))"

record regen_dialog =
  rd_code :: string
  rd_error :: "string option"
  rd_submitting :: bool

definition regen_opened :: "regen_dialog \<Rightarrow> regen_dialog" where
  "regen_opened d = d\<lparr>rd_code := [], rd_error := None, rd_submitting := False\<rparr>"

definition regen_typed :: "string \<Rightarrow> regen_dialog \<Rightarrow> regen_dialog" where
  "regen_typed v d = d\<lparr>rd_code := code_typed v\<rparr>"

definition regen_disabled :: "regen_dialog \<Rightarrow> bool" where
  "regen_disabled d \<longleftrightarrow> rd_submitting d \<or> length (rd_code d) \<noteq> 6"

definition regen_submit ::
  "TOTPVerifyResponse fetch_result \<Rightarrow> TOTPStatus fetch_result \<Rightarrow> regen_dialog \<Rightarrow> totp_page \<Rightarrow> client
     \<Rightarrow> http_call list \<times> client \<times> regen_dialog \<times> totp_page" where
  "regen_submit answer status_answer d p c =
     (let d1 = d\<lparr>rd_error := None, rd_submitting := True\<rparr> in
      case io_bind (await (regenerateTOTPRecoveryCodes (trim (rd_code d))) answer) io_the c of
        (ks, c1, Inl _) \<Rightarrow> (ks, c1, d1\<lparr>rd_error := Some ''Invalid code.'', rd_submitting := False\<rparr>, p)
      | (ks, c1, Inr res) \<Rightarrow>
          (let p1 = p\<lparr>tp_regenOpen := False, tp_recoveryCodes := Some (totpVerifyResponse_recoveryCodes res)\<rparr> in
           case await getTOTPStatus status_answer c1 of
             (ks', c2, Inr s) \<Rightarrow> (ks @ ks', c2, d1, p1\<lparr>tp_status := Some s\<rparr>)
           | (ks', c2, Inl _) \<Rightarrow> (ks @ ks', c2, d1, p1)))"

subsection \<open>Sequences of events\<close>

text \<open>What happens on the page: a button is only pressed where it is shown and enabled. The client is carried along.\<close>

inductive totp_step :: "totp_page \<times> client \<Rightarrow> totp_page \<times> client \<Rightarrow> bool" where
  loaded: "totp_load a b p c = (ks, c', p') \<Longrightarrow> tp_loading p \<Longrightarrow> totp_step (p, c) (p', c')"
| started: "totp_view_of p = DisabledCard \<Longrightarrow> startSetup qr a p c = (ks, c', p') \<Longrightarrow> totp_step (p, c) (p', c')"
| typed: "totp_view_of p = SetupCard q s e \<Longrightarrow> totp_step (p, c) (verify_typed v p, c)"
| confirmed: "totp_view_of p = SetupCard q s e \<Longrightarrow> \<not> verify_disabled p \<Longrightarrow> confirmSetup a b p c = (ks, c', p') \<Longrightarrow>
    totp_step (p, c) (p', c')"
| cancelled: "totp_view_of p = SetupCard q s e \<Longrightarrow> totp_step (p, c) (cancelSetup p, c)"
| disabled: "totp_view_of p = EnabledCard m \<Longrightarrow> \<not> disable_disabled d \<Longrightarrow> disable_submit a b d p c = (ks, c', d', p') \<Longrightarrow>
    totp_step (p, c) (p', c')"
| regenerated: "totp_view_of p = EnabledCard m \<Longrightarrow> \<not> regen_disabled r \<Longrightarrow> regen_submit a b r p c = (ks, c', r', p') \<Longrightarrow>
    totp_step (p, c) (p', c')"
| codes_saved: "totp_step (p, c) (p\<lparr>tp_recoveryCodes := None\<rparr>, c)"

inductive_cases totp_step_cases: "totp_step (p, c) (p', c')"

inductive totp_reachable :: "totp_page \<times> client \<Rightarrow> bool" where
  start: "totp_reachable (totp_page_init, c)"
| step: "totp_reachable s \<Longrightarrow> totp_step s s' \<Longrightarrow> totp_reachable s'"

subsection \<open>The invariant\<close>

text \<open>
  The code field holds at most six digits; a set-up has its secret and its address, and is only in progress for a local account whose
  second factor is off.
\<close>

definition totp_inv :: "totp_page \<Rightarrow> bool" where
  "totp_inv p \<longleftrightarrow>
     list_all is_digit (tp_verifyCode p) \<and> length (tp_verifyCode p) \<le> 6
     \<and> (tp_setupSecret p \<noteq> None \<longrightarrow> tp_setupURI p \<noteq> None) \<and> (tp_qrDataUrl p \<noteq> None \<longrightarrow> tp_setupURI p \<noteq> None)
     \<and> (tp_setupURI p \<noteq> None \<longrightarrow>
          tp_isLocal p = Some True \<and> \<not> tp_loading p \<and> (\<exists>st. tp_status p = Some (Some st) \<and> \<not> totpStatus_enabled st))"

lemma view_EnabledCard:
  "totp_view_of p = EnabledCard m \<Longrightarrow> totp_inv p \<Longrightarrow> tp_setupURI p = None \<and> tp_setupSecret p = None \<and> tp_qrDataUrl p = None"
  by (auto simp: totp_view_of_def totp_inv_def split: if_splits option.splits)

lemma view_DisabledCard:
  "totp_view_of p = DisabledCard \<Longrightarrow>
     tp_isLocal p = Some True \<and> \<not> tp_loading p \<and> (\<exists>st. tp_status p = Some (Some st) \<and> \<not> totpStatus_enabled st)"
  by (auto simp: totp_view_of_def split: if_splits option.splits)

lemma totp_inv_loaded: "totp_inv p \<Longrightarrow> tp_loading p \<Longrightarrow> totp_load a b p c = (ks, c', p') \<Longrightarrow> totp_inv p'"
  by (auto simp: totp_load_def totp_inv_def Let_def split: prod.splits sum.splits if_splits)

lemma totp_inv_started: "totp_inv p \<Longrightarrow> totp_view_of p = DisabledCard \<Longrightarrow> startSetup qr a p c = (ks, c', p') \<Longrightarrow> totp_inv p'"
  by (drule view_DisabledCard) (auto simp: startSetup_def totp_inv_def Let_def split: prod.splits sum.splits option.splits)

lemma totp_inv_confirmed: "totp_inv p \<Longrightarrow> confirmSetup a b p c = (ks, c', p') \<Longrightarrow> totp_inv p'"
  by (auto simp: confirmSetup_def clear_setup_def totp_inv_def Let_def split: prod.splits sum.splits)

lemma totp_inv_disabled:
  "totp_inv p \<Longrightarrow> totp_view_of p = EnabledCard m \<Longrightarrow> disable_submit a b d p c = (ks, c', d', p') \<Longrightarrow> totp_inv p'"
  by (drule (1) view_EnabledCard)
    (auto simp: disable_submit_def totp_inv_def Let_def split: prod.splits sum.splits)

lemma totp_inv_regenerated:
  "totp_inv p \<Longrightarrow> totp_view_of p = EnabledCard m \<Longrightarrow> regen_submit a b r p c = (ks, c', r', p') \<Longrightarrow> totp_inv p'"
  by (drule (1) view_EnabledCard)
    (auto simp: regen_submit_def totp_inv_def Let_def split: prod.splits sum.splits)

lemma code_typed_digits: "list_all is_digit (code_typed v) \<and> length (code_typed v) \<le> 6"
  using length_filter_le [of is_digit "take 6 v"] by (simp add: code_typed_def list_all_iff)

lemma totp_inv_small_steps:
  "totp_inv p \<Longrightarrow> totp_inv (verify_typed v p)" "totp_inv p \<Longrightarrow> totp_inv (cancelSetup p)"
  "totp_inv p \<Longrightarrow> totp_inv (p\<lparr>tp_recoveryCodes := None\<rparr>)"
  using code_typed_digits [of v] by (simp_all add: totp_inv_def verify_typed_def cancelSetup_def clear_setup_def)

lemma totp_step_inv: "totp_step (p, c) (p', c') \<Longrightarrow> totp_inv p \<Longrightarrow> totp_inv p'"
  by (erule totp_step_cases)
    (auto intro: totp_inv_loaded totp_inv_started totp_inv_confirmed totp_inv_disabled totp_inv_regenerated totp_inv_small_steps)

lemma reachable_inv: "totp_reachable s \<Longrightarrow> totp_inv (fst s)"
proof (induction rule: totp_reachable.induct)
  case (start c)
  then show ?case by (simp add: totp_inv_def totp_page_init_def)
next
  case (step s s')
  then show ?case by (metis prod.collapse totp_step_inv)
qed

lemma digits_trim: "list_all is_digit s \<Longrightarrow> trim s = s"
  by (rule trim_no_ws) (auto simp: list_all_iff is_digit_not_ws)

subsection \<open>Properties\<close>


definition example_me :: User where
  "example_me =
     \<lparr>user_id = ''u1'', user_username = ''jane'', user_role = RoleViewer, user_provider = ProviderLocal, user_enabled = True,
      user_notify = False, user_firstName = None, user_lastName = None, user_email = None, user_calendarToken = None,
      user_totpEnabled = False, user_createdAt = [], user_updatedAt = []\<rparr>"

definition example_off :: totp_page where
  "example_off =
     totp_page_init\<lparr>tp_isLocal := Some True, tp_loading := False,
       tp_status := Some (Some \<lparr>totpStatus_enabled = False, totpStatus_remainingRecoveryCodes = 0\<rparr>)\<rparr>"

definition example_setup :: totp_page where
  "example_setup =
     example_off\<lparr>tp_setupURI := Some ''otpauth'', tp_setupSecret := Some ''ABC'', tp_qrDataUrl := Some ''png'', tp_verifyCode := ''123456''\<rparr>"

lemma example_setup_reachable: "totp_reachable (example_setup, c)"
proof -
  let ?me = "delivery example_me"
  let ?off = "delivery \<lparr>totpStatus_enabled = False, totpStatus_remainingRecoveryCodes = 0\<rparr>"
  let ?secret = "delivery \<lparr>totpSetup_secret = ''ABC'', totpSetup_uri = ''otpauth''\<rparr>"
  obtain ks where load: "totp_load ?me ?off totp_page_init c = (ks, c, example_off)"
    by (simp add: totp_load_def io_bind_def await_def getMe_def getTOTPStatus_def api_verbs request_def io_the_def io_return_def
        read_answer_delivers [OF delivers_delivery] example_me_def example_off_def totp_page_init_def)
  have r1: "totp_reachable (example_off, c)"
    by (rule totp_reachable.step [OF totp_reachable.start totp_step.loaded [OF load]]) (simp add: totp_page_init_def)
  obtain ks' where begun: "startSetup (\<lambda>_. Some ''png'') ?secret example_off c = (ks', c, example_setup\<lparr>tp_verifyCode := []\<rparr>)"
    by (simp add: startSetup_def io_bind_def await_def beginTOTPSetup_def api_verbs request_def io_the_def io_return_def
        read_answer_delivers [OF delivers_delivery] example_off_def example_setup_def totp_page_init_def)
  have r2: "totp_reachable (example_setup\<lparr>tp_verifyCode := []\<rparr>, c)"
    by (rule totp_reachable.step [OF r1 totp_step.started [OF _ begun]])
      (simp add: example_off_def totp_page_init_def totp_view_of_def)
  have typed: "verify_typed ''123456'' (example_setup\<lparr>tp_verifyCode := []\<rparr>) = example_setup"
    by (simp add: verify_typed_def code_typed_def example_setup_def is_digit_def charCode_def)
  have view: "totp_view_of (example_setup\<lparr>tp_verifyCode := []\<rparr>) = SetupCard (Some ''png'') (Some ''ABC'') None"
    by (simp add: example_setup_def example_off_def totp_page_init_def totp_view_of_def)
  show ?thesis using totp_reachable.step [OF r2 totp_step.typed [OF view, where v = "''123456''"]] unfolding typed .
qed


text \<open>A failing request to start a set-up is shown nowhere: its message is part of the card that only appears once it has succeeded.\<close>

lemma failed_start_not_shown:
  assumes "totp_view_of p = DisabledCard" and "startSetup qr (FetchFailed m) p c = (ks, c', p')" and "tp_setupURI p = None"
  shows "totp_view_of p' = DisabledCard \<and> tp_setupError p' = Some start_failed"
  using assms
  by (auto simp: startSetup_def Let_def io_bind_def await_def beginTOTPSetup_def api_verbs request_def read_answer_def totp_view_of_def
      split: if_splits option.splits)

text \<open>A page whose first request fails stays blank.\<close>

lemma failed_load_stays_blank:
  assumes "totp_load (FetchFailed m) b totp_page_init c = (ks, c', p')"
  shows "totp_view_of p' = BlankPage"
  using assms
  by (auto simp: totp_load_def io_bind_def await_def getMe_def api_verbs request_def read_answer_def totp_page_init_def totp_view_of_def)

end
