(* ===== verification/AccountPages.thy ===== *)
theory AccountPages
  imports Async ApiCalls JsCollections
begin

section \<open>The account pages (\<open>pages/account\<close>)\<close>

text \<open>
  Profile, password and notifications, and what the server does with their requests: the profile and the password
  (\<open>internal/users/handler.go\<close>), the tag subscriptions and the certificates a user is alerted about (\<open>internal/db\<close>). The password
  hash of the server is a parameter, and so is its check of mail addresses. The pages of the second factor and of the API keys have their own theories.
\<close>

subsection \<open>The overview\<close>

text \<open>\<open>AccountPage\<close>: the cards and where they lead; the two for local accounts lead nowhere until the user is known.\<close>

definition AccountPage :: "User option \<Rightarrow> (string \<times> string option) list" where
  "AccountPage me =
     (let isLocal = (map_option user_provider me = Some ProviderLocal) in
      [(''Profile'', Some ''/account/profile''),
       (''Password'', if isLocal then Some ''/account/password'' else None),
       (''Two-Factor Authentication'', if isLocal then Some ''/account/2fa'' else None),
       (''Notifications'', Some ''/account/notifications''),
       (''API Keys'', Some ''/account/api-keys'')])"

subsection \<open>The profile\<close>

record profile_page =
  pf_user :: "User option"
  pf_firstName :: string
  pf_lastName :: string
  pf_email :: string
  pf_saving :: bool
  pf_error :: "string option"
  pf_success :: bool

definition profile_init :: profile_page where
  "profile_init =
     \<lparr>pf_user = None, pf_firstName = [], pf_lastName = [], pf_email = [], pf_saving = False, pf_error = None, pf_success = False\<rparr>"

text \<open>The effect on mounting; nothing catches its error.\<close>

definition profile_loaded :: "User \<Rightarrow> profile_page \<Rightarrow> profile_page" where
  "profile_loaded u p =
     p\<lparr>pf_user := Some u, pf_firstName := nullish (user_firstName u) [], pf_lastName := nullish (user_lastName u) [],
       pf_email := nullish (user_email u) []\<rparr>"

definition profile_load :: "User fetch_result \<Rightarrow> profile_page \<Rightarrow> client \<Rightarrow> http_call list \<times> client \<times> profile_page" where
  "profile_load answer p c =
     (case io_bind (await getMe answer) io_the c of
        (ks, c1, Inr u) \<Rightarrow> (ks, c1, profile_loaded u p)
      | (ks, c1, Inl _) \<Rightarrow> (ks, c1, p))"

text \<open>A member that is \<open>undefined\<close> is left out of the body.\<close>

definition given :: "string option \<Rightarrow> string option option" where
  "given v = (case v of None \<Rightarrow> None | Some s \<Rightarrow> Some (Some s))"

definition profile_request :: "User \<Rightarrow> profile_page \<Rightarrow> UpdateMeRequest" where
  "profile_request u p =
     \<lparr>updateMeRequest_notify = user_notify u, updateMeRequest_firstName = given (or_undefined (trim (pf_firstName p))),
      updateMeRequest_lastName = given (or_undefined (trim (pf_lastName p))),
      updateMeRequest_email = given (or_undefined (trim (pf_email p)))\<rparr>"

text \<open>\<open>save\<close>. The user of the page is replaced by the answer, which a 401 makes \<open>undefined\<close>.\<close>

definition profile_save :: "User fetch_result \<Rightarrow> profile_page \<Rightarrow> client \<Rightarrow> http_call list \<times> client \<times> profile_page" where
  "profile_save answer p c =
     (case pf_user p of
        None \<Rightarrow> ([], c, p)
      | Some u \<Rightarrow>
          (let p1 = p\<lparr>pf_saving := True, pf_error := None, pf_success := False\<rparr> in
           case await (updateMe (profile_request u p)) answer c of
             (ks, c1, Inr updated) \<Rightarrow> (ks, c1, p1\<lparr>pf_user := updated, pf_success := True, pf_saving := False\<rparr>)
           | (ks, c1, Inl _) \<Rightarrow> (ks, c1, p1\<lparr>pf_error := Some ''Failed to save profile.'', pf_saving := False\<rparr>)))"

text \<open>\<open>UpdateMe\<close> of the server for an accepted address: an absent member is stored as no value.\<close>

definition sent_value :: "string option option \<Rightarrow> string option" where
  "sent_value v = (case v of None \<Rightarrow> None | Some s \<Rightarrow> s)"

definition valid_email :: "(string \<Rightarrow> bool) \<Rightarrow> string option \<Rightarrow> bool" where
  "valid_email parses e = (case e of None \<Rightarrow> True | Some s \<Rightarrow> s = [] \<or> parses s)"

definition serve_me :: "(string \<Rightarrow> bool) \<Rightarrow> UpdateMeRequest \<Rightarrow> User \<Rightarrow> User option" where
  "serve_me parses req u =
     (if \<not> valid_email parses (sent_value (updateMeRequest_email req)) then None
      else Some (u\<lparr>user_notify := updateMeRequest_notify req, user_firstName := sent_value (updateMeRequest_firstName req),
                   user_lastName := sent_value (updateMeRequest_lastName req), user_email := sent_value (updateMeRequest_email req)\<rparr>))"

lemma sent_given [simp]: "sent_value (given v) = v"
  by (simp add: sent_value_def given_def split: option.split)

subsection \<open>The password\<close>

record password_page =
  pw_isLocal :: "bool option"
  pw_current :: string
  pw_new :: string
  pw_confirm :: string
  pw_saving :: bool
  pw_error :: "string option"
  pw_success :: bool

definition own_password_init :: password_page where
  "own_password_init =
     \<lparr>pw_isLocal = None, pw_current = [], pw_new = [], pw_confirm = [], pw_saving = False, pw_error = None, pw_success = False\<rparr>"

datatype password_view = RedirectToAccount | BlankPage | PasswordForm

definition password_view_of :: "password_page \<Rightarrow> password_view" where
  "password_view_of p =
     (case pw_isLocal p of None \<Rightarrow> BlankPage | Some l \<Rightarrow> if l then PasswordForm else RedirectToAccount)"

definition password_problem :: "password_page \<Rightarrow> string option" where
  "password_problem p =
     (if pw_new p \<noteq> pw_confirm p then Some ''Passwords do not match.''
      else if length (pw_new p) < 8 then Some ''Password must be at least 8 characters.''
      else None)"

definition password_failed :: string where
  "password_failed = ''Failed to update password. Check your current password and try again.''"

definition password_save :: "unit fetch_result \<Rightarrow> password_page \<Rightarrow> client \<Rightarrow> http_call list \<times> client \<times> password_page" where
  "password_save answer p c =
     (let p1 = p\<lparr>pw_error := None, pw_success := False\<rparr> in
      case password_problem p of
        Some m \<Rightarrow> ([], c, p1\<lparr>pw_error := Some m\<rparr>)
      | None \<Rightarrow>
          (case await (changeMyPassword (pw_current p) (pw_new p)) answer c of
             (ks, c1, Inr _) \<Rightarrow>
               (ks, c1, p1\<lparr>pw_current := [], pw_new := [], pw_confirm := [], pw_success := True, pw_saving := False\<rparr>)
           | (ks, c1, Inl _) \<Rightarrow> (ks, c1, p1\<lparr>pw_error := Some password_failed, pw_saving := False\<rparr>)))"

definition password_button :: "password_page \<Rightarrow> string \<times> bool" where
  "password_button p =
     (if pw_saving p then ''Updating'' @ ellipsis else ''Update Password'', \<not> (pw_saving p \<or> pw_new p = []))"

text \<open>
  \<open>ChangeMyPassword\<close> of the server: its status and the hash that is stored afterwards. \<open>compare\<close> checks a password against a hash
  and \<open>hash\<close> makes one, or fails, as bcrypt does beyond 72 bytes.
\<close>

definition serve_password ::
  "(string \<Rightarrow> string \<Rightarrow> bool) \<Rightarrow> (string \<Rightarrow> string option) \<Rightarrow> string \<Rightarrow> string \<Rightarrow> string option \<Rightarrow> int \<times> string option" where
  "serve_password compare hash current new stored =
     (if current = [] \<or> new = [] then (400, stored)
      else case stored of
             None \<Rightarrow> (400, stored)
           | Some h \<Rightarrow>
               if \<not> compare h current then (401, stored)
               else (case hash new of None \<Rightarrow> (500, stored) | Some h' \<Rightarrow> (204, Some h')))"

subsection \<open>Alert mails\<close>

record notify_page =
  nf_user :: "User option"
  nf_notify :: bool
  nf_categories :: "CategoryWithTags list"
  nf_selectedTagIds :: "string js_set"
  nf_byTags :: bool
  nf_calendarToken :: "string option"
  nf_rotating :: bool
  nf_savingNotify :: bool
  nf_savingTags :: bool
  nf_notifyError :: "string option"
  nf_tagsError :: "string option"
  nf_notifySuccess :: bool
  nf_tagsSuccess :: bool

definition notify_init :: notify_page where
  "notify_init =
     \<lparr>nf_user = None, nf_notify = False, nf_categories = [], nf_selectedTagIds = js_set_empty, nf_byTags = False,
      nf_calendarToken = None, nf_rotating = False, nf_savingNotify = False, nf_savingTags = False, nf_notifyError = None,
      nf_tagsError = None, nf_notifySuccess = False, nf_tagsSuccess = False\<rparr>"

text \<open>The three effects on the answers of the queries.\<close>

definition me_arrived :: "User \<Rightarrow> notify_page \<Rightarrow> notify_page" where
  "me_arrived u p = p\<lparr>nf_user := Some u, nf_notify := user_notify u, nf_calendarToken := user_calendarToken u\<rparr>"

definition categories_arrived :: "CategoryWithTags list \<Rightarrow> notify_page \<Rightarrow> notify_page" where
  "categories_arrived cats p = p\<lparr>nf_categories := filter (\<lambda>c. 0 < length (categoryWithTags_tags c)) cats\<rparr>"

definition subscriptions_arrived :: "TagWithCategory list \<Rightarrow> notify_page \<Rightarrow> notify_page" where
  "subscriptions_arrived subs p =
     p\<lparr>nf_selectedTagIds := js_set_of (map tagWithCategory_id subs), nf_byTags := (0 < length subs)\<rparr>"

definition notify_request :: "bool \<Rightarrow> User \<Rightarrow> UpdateMeRequest" where
  "notify_request v u =
     \<lparr>updateMeRequest_notify = v, updateMeRequest_firstName = given (user_firstName u),
      updateMeRequest_lastName = given (user_lastName u), updateMeRequest_email = given (user_email u)\<rparr>"

definition switch_disabled :: "notify_page \<Rightarrow> bool" where
  "switch_disabled p \<longleftrightarrow> \<not> truthy (Option.bind (nf_user p) user_email) \<or> nf_savingNotify p"

text \<open>\<open>saveNotify\<close>: \<open>updated.notify\<close> throws when there is no answer; the page then has no user any more.\<close>

definition saveNotify :: "bool \<Rightarrow> User fetch_result \<Rightarrow> notify_page \<Rightarrow> client \<Rightarrow> http_call list \<times> client \<times> notify_page" where
  "saveNotify v answer p c =
     (case nf_user p of
        None \<Rightarrow> ([], c, p)
      | Some u \<Rightarrow>
          (let p1 = p\<lparr>nf_notifyError := None, nf_notifySuccess := False, nf_savingNotify := False\<rparr>;
               reverted = (\<lambda>q. q\<lparr>nf_notifyError := Some ''Failed to save notification preference.'', nf_notify := \<not> v\<rparr>)
           in (case await (updateMe (notify_request v u)) answer c of
                 (ks, c1, Inr (Some updated)) \<Rightarrow>
                   (ks, c1, p1\<lparr>nf_user := Some updated, nf_notify := user_notify updated, nf_notifySuccess := True\<rparr>)
               | (ks, c1, Inr None) \<Rightarrow> (ks, c1, reverted (p1\<lparr>nf_user := None\<rparr>))
               | (ks, c1, Inl _) \<Rightarrow> (ks, c1, reverted p1))))"

subsection \<open>The scope\<close>

text \<open>\<open>toggleTag\<close> and \<open>toggleAll\<close> on the set of selected tags.\<close>

definition toggleTag :: "string \<Rightarrow> notify_page \<Rightarrow> notify_page" where
  "toggleTag tagId p = p\<lparr>nf_selectedTagIds := js_set_toggle tagId (nf_selectedTagIds p)\<rparr>"

definition notify_toggleAll :: "string list \<Rightarrow> bool \<Rightarrow> notify_page \<Rightarrow> notify_page" where
  "notify_toggleAll tagIds selectAll p =
     p\<lparr>nf_selectedTagIds :=
         (if selectAll then fold js_set_add tagIds (nf_selectedTagIds p) else fold js_set_delete tagIds (nf_selectedTagIds p))\<rparr>"

text \<open>\<open>CategorySection\<close>: the state of its checkbox, the badge, and whether it is unfolded (on mounting, and by the effect that
  unfolds it once).\<close>

definition section_tagIds :: "CategoryWithTags \<Rightarrow> string list" where
  "section_tagIds category = map tag_id (categoryWithTags_tags category)"

definition selectedCount :: "CategoryWithTags \<Rightarrow> string js_set \<Rightarrow> nat" where
  "selectedCount category selected = length (filter (js_set_has selected) (section_tagIds category))"

definition allSelected :: "CategoryWithTags \<Rightarrow> string js_set \<Rightarrow> bool" where
  "allSelected category selected \<longleftrightarrow>
     selectedCount category selected = length (section_tagIds category) \<and> 0 < length (section_tagIds category)"

definition someSelected :: "CategoryWithTags \<Rightarrow> string js_set \<Rightarrow> bool" where
  "someSelected category selected \<longleftrightarrow> 0 < selectedCount category selected \<and> \<not> allSelected category selected"

definition section_badge :: "CategoryWithTags \<Rightarrow> string js_set \<Rightarrow> string option" where
  "section_badge category selected =
     (if 0 < selectedCount category selected
      then Some (show_int (int (selectedCount category selected)) @ ''/'' @ show_int (int (length (section_tagIds category))))
      else None)"

record section_state =
  st_expanded :: bool
  st_initialised :: bool

definition section_init :: "CategoryWithTags \<Rightarrow> string js_set \<Rightarrow> section_state" where
  "section_init category selected =
     \<lparr>st_expanded = (someSelected category selected \<or> allSelected category selected), st_initialised = False\<rparr>"

definition section_effect :: "CategoryWithTags \<Rightarrow> string js_set \<Rightarrow> section_state \<Rightarrow> section_state" where
  "section_effect category selected s =
     (if \<not> st_initialised s \<and> (someSelected category selected \<or> allSelected category selected)
      then \<lparr>st_expanded = True, st_initialised = True\<rparr> else s)"

definition section_clicked :: "section_state \<Rightarrow> section_state" where
  "section_clicked s = s\<lparr>st_expanded := \<not> st_expanded s\<rparr>"

text \<open>What the user can do to the scope.\<close>

datatype scope_event = ModePicked bool | TagTicked string | SectionTicked CategoryWithTags

fun scope_step :: "scope_event \<Rightarrow> notify_page \<Rightarrow> notify_page" where
  "scope_step (ModePicked byTags) p = p\<lparr>nf_byTags := byTags\<rparr>"
| "scope_step (TagTicked i) p = toggleTag i p"
| "scope_step (SectionTicked category) p =
     notify_toggleAll (section_tagIds category) (\<not> allSelected category (nf_selectedTagIds p)) p"

definition scope_run :: "scope_event list \<Rightarrow> notify_page \<Rightarrow> notify_page" where
  "scope_run events p = fold scope_step events p"

definition scope_ids :: "notify_page \<Rightarrow> string list" where
  "scope_ids p = (if nf_byTags p then nf_selectedTagIds p else [])"

definition saveTags ::
  "TagWithCategory list fetch_result \<Rightarrow> notify_page \<Rightarrow> client \<Rightarrow> http_call list \<times> client \<times> notify_page" where
  "saveTags answer p c =
     (let p1 = p\<lparr>nf_tagsError := None, nf_tagsSuccess := False, nf_savingTags := False\<rparr> in
      case io_bind (await (setMyTagSubscriptions (scope_ids p)) answer) io_the c of
        (ks, c1, Inr updated) \<Rightarrow>
          (ks, c1, p1\<lparr>nf_selectedTagIds := js_set_of (map tagWithCategory_id updated), nf_tagsSuccess := True\<rparr>)
      | (ks, c1, Inl _) \<Rightarrow> (ks, c1, p1\<lparr>nf_tagsError := Some ''Failed to save notification scope.''\<rparr>))"

subsection \<open>The calendar feed\<close>

text \<open>\<open>generateCalendarToken\<close>, also \<open>generate\<close> of \<open>AccountCalendarPage\<close>, which the route table no longer reaches.\<close>

definition generateCalendarToken ::
  "CalendarTokenResponse fetch_result \<Rightarrow> notify_page \<Rightarrow> client \<Rightarrow> http_call list \<times> client \<times> notify_page" where
  "generateCalendarToken answer p c =
     (case io_bind (await rotateCalendarToken answer) io_the c of
        (ks, c1, Inr res) \<Rightarrow>
          (ks, c1, p\<lparr>nf_calendarToken := Some (calendarTokenResponse_calendarToken res), nf_rotating := False\<rparr>)
      | (ks, c1, Inl _) \<Rightarrow> (ks, c1, p\<lparr>nf_rotating := False\<rparr>))"

definition feedUrl :: "string \<Rightarrow> notify_page \<Rightarrow> string" where
  "feedUrl origin p =
     (case nf_calendarToken p of
        Some (x # xs) \<Rightarrow> origin @ ''/api/v1/calendar/u/'' @ (x # xs) @ ''/feed.ics''
      | _ \<Rightarrow> [])"

definition feed_button :: "notify_page \<Rightarrow> string \<times> bool" where
  "feed_button p =
     (if truthy (nf_calendarToken p) then (if nf_rotating p then ''Regenerating'' @ ellipsis else ''Regenerate'')
      else (if nf_rotating p then ''Generating'' @ ellipsis else ''Generate Feed URL''), \<not> nf_rotating p)"

subsection \<open>Alerts on the server\<close>

text \<open>
  The tag subscriptions of a user (a set: a repeated one breaks the primary key and the request fails) and the certificates
  the user is alerted about and finds in the feed. Of certificates that expire on the same day the order is not determined; the
  model keeps the order they are stored in.
\<close>

definition serve_subscriptions :: "string list \<Rightarrow> string list option" where
  "serve_subscriptions tagIds = (if distinct tagIds then Some tagIds else None)"

definition tagged_endpoints :: "string list \<Rightarrow> (string \<times> string) list \<Rightarrow> string list" where
  "tagged_endpoints subs endpoint_tags = remdups (map fst (filter (\<lambda>(_, t). t \<in> set subs) endpoint_tags))"

definition ListExpiringActiveCerts :: "int \<Rightarrow> ExpiringCertItem list \<Rightarrow> ExpiringCertItem list" where
  "ListExpiringActiveCerts maxDays certs =
     sort_key expiringCertItem_daysRemaining (filter (\<lambda>c. expiringCertItem_daysRemaining c \<le> maxDays) certs)"

definition ListExpiringActiveCertsTagged ::
  "string list \<Rightarrow> (string \<times> string) list \<Rightarrow> int \<Rightarrow> ExpiringCertItem list \<Rightarrow> ExpiringCertItem list" where
  "ListExpiringActiveCertsTagged subs endpoint_tags maxDays certs =
     (let endpointIDs = tagged_endpoints subs endpoint_tags in
      if endpointIDs = [] then ListExpiringActiveCerts maxDays certs
      else ListExpiringActiveCerts maxDays (filter (\<lambda>c. expiringCertItem_endpointId c \<in> set endpointIDs) certs))"

subsection \<open>Profile and switch keep each other's values\<close>

text \<open>A profile is stored as the pages store it: names and address are trimmed, and no value is the empty text.\<close>

definition stored_profile :: "User \<Rightarrow> bool" where
  "stored_profile u \<longleftrightarrow>
     (\<forall>v \<in> {user_firstName u, user_lastName u, user_email u}. v \<noteq> Some [] \<and> map_option trim v = v)"

lemma profile_text: "v \<noteq> Some [] \<Longrightarrow> map_option trim v = v \<Longrightarrow> or_undefined (trim (nullish v [])) = v"
  by (cases v) (auto simp: or_undefined_def)

lemma profile_unchanged:
  "stored_profile u \<Longrightarrow> valid_email parses (user_email u) \<Longrightarrow>
     serve_me parses (profile_request u (profile_loaded u p)) u = Some u"
  by (simp add: stored_profile_def serve_me_def profile_request_def profile_loaded_def profile_text)

lemma notify_keeps_profile:
  "valid_email parses (user_email u) \<Longrightarrow> serve_me parses (notify_request v u) u = Some (u\<lparr>user_notify := v\<rparr>)"
  by (simp add: serve_me_def notify_request_def)

text \<open>
  The notifications page takes the user from the cache of its query, which a save on the profile page does not invalidate. The
  switch then sends the old names and the old address back and undoes the save.
\<close>

lemma stale_switch_undoes_profile:
  assumes "valid_email parses (user_email u)" and "serve_me parses (profile_request u p) u = Some u'"
  shows "serve_me parses (notify_request v u) u' = Some (u\<lparr>user_notify := v\<rparr>)"
  using assms by (auto simp: serve_me_def notify_request_def profile_request_def split: if_splits)

text \<open>A session that has ended is reported as a saved profile, and the page then forgets its user.\<close>

lemma expired_profile_saved:
  assumes "pf_user p = Some u"
  shows "pf_success (snd (snd (profile_save (Fetched (res\<lparr>res_status := 401\<rparr>)) p c)))
    \<and> pf_user (snd (snd (profile_save (Fetched (res\<lparr>res_status := 401\<rparr>)) p c))) = None"
  using assms
  by (simp add: profile_save_def await_def updateMe_def api_verbs request_def read_answer_def res_ok_def Let_def)

subsection \<open>What the password page reports\<close>


definition filled_password :: password_page where
  "filled_password = own_password_init\<lparr>pw_isLocal := Some True, pw_current := ''wrong'', pw_new := ''new-secret'', pw_confirm := ''new-secret''\<rparr>"


subsection \<open>What the scope selects\<close>

lemma scope_step_inv: "distinct (nf_selectedTagIds p) \<Longrightarrow> distinct (nf_selectedTagIds (scope_step ev p))"
proof (cases ev)
  case (SectionTicked category)
  assume d: "distinct (nf_selectedTagIds p)"
  have "distinct (fold js_set_delete is s)" if "distinct s" for "is" and s :: "string js_set"
    using that by (induction "is" arbitrary: s) (simp_all add: js_set_delete_def distinct_removeAll)
  then show ?thesis
    unfolding SectionTicked using d list_set.inv_add_all [of "nf_selectedTagIds p" "section_tagIds category"]
    by (simp add: notify_toggleAll_def)
qed (simp_all add: toggleTag_def js_set_toggle_def js_set_add_def js_set_delete_def distinct_removeAll)

lemma scope_run_inv: "distinct (nf_selectedTagIds p) \<Longrightarrow> distinct (nf_selectedTagIds (scope_run events p))"
  unfolding scope_run_def by (induction events arbitrary: p) (simp_all add: scope_step_inv)

lemma set_tagged_endpoints: "set (tagged_endpoints subs et) = fst ` {x \<in> set et. snd x \<in> set subs}"
  by (auto simp: tagged_endpoints_def)

lemma allSelected_iff:
  "allSelected category s \<longleftrightarrow> section_tagIds category \<noteq> [] \<and> set (section_tagIds category) \<subseteq> set s"
  unfolding allSelected_def selectedCount_def js_set_has_def length_greater_0_conv
  by (metis filter_True length_filter_less nat_neq_iff subsetI subset_code(1))

text \<open>The checkbox of a category flips all of its tags and no other.\<close>

lemma section_ticked_flips:
  assumes "section_tagIds category \<noteq> []"
  shows "allSelected category (nf_selectedTagIds (scope_step (SectionTicked category) p))
      \<longleftrightarrow> \<not> allSelected category (nf_selectedTagIds p)"
    and "i \<notin> set (section_tagIds category) \<Longrightarrow>
      i \<in> set (nf_selectedTagIds (scope_step (SectionTicked category) p)) \<longleftrightarrow> i \<in> set (nf_selectedTagIds p)"
proof -
  have add: "set (fold js_set_add is s) = set is \<union> set s" for "is" and s :: "string js_set"
    by (induction "is" arbitrary: s) (auto simp: js_set_add_def)
  have del: "set (fold js_set_delete is s) = set s - set is" for "is" and s :: "string js_set"
    by (induction "is" arbitrary: s) (auto simp: js_set_delete_def)
  have "set xs \<subseteq> A - set xs \<longleftrightarrow> xs = []" for xs :: "string list" and A by (cases xs) auto
  then show "allSelected category (nf_selectedTagIds (scope_step (SectionTicked category) p))
      \<longleftrightarrow> \<not> allSelected category (nf_selectedTagIds p)"
    unfolding allSelected_iff using assms
    by (auto simp: notify_toggleAll_def add del allSelected_iff)
  show "i \<notin> set (section_tagIds category) \<Longrightarrow>
      i \<in> set (nf_selectedTagIds (scope_step (SectionTicked category) p)) \<longleftrightarrow> i \<in> set (nf_selectedTagIds p)"
    by (simp add: notify_toggleAll_def add del)
qed


definition example_tag :: TagWithCategory where
  "example_tag =
     \<lparr>tagWithCategory_id = ''t1'', tagWithCategory_categoryId = ''c1'', tagWithCategory_categoryName = ''Env'',
      tagWithCategory_name = ''prod'', tagWithCategory_description = None\<rparr>"

definition example_expiring :: "string \<Rightarrow> ExpiringCertItem" where
  "example_expiring e =
     \<lparr>expiringCertItem_endpointId = e, expiringCertItem_endpointName = [], expiringCertItem_endpointType = ''host'',
      expiringCertItem_fingerprint = [], expiringCertItem_commonName = [], expiringCertItem_sans = [], expiringCertItem_issuerCn = [],
      expiringCertItem_notAfter = [], expiringCertItem_daysRemaining = 7, expiringCertItem_tags = []\<rparr>"


text \<open>Choosing tags and ticking none is saved as no restriction at all.\<close>

lemma tags_without_ticks:
  "nf_byTags p \<Longrightarrow> nf_selectedTagIds p = [] \<Longrightarrow>
     ListExpiringActiveCertsTagged (scope_ids p) et n certs = ListExpiringActiveCerts n certs"
  by (simp add: scope_ids_def ListExpiringActiveCertsTagged_def tagged_endpoints_def)

text \<open>Saving the scope of all endpoints forgets the ticks.\<close>

lemma all_endpoints_forgets_ticks:
  "\<not> nf_byTags p \<Longrightarrow> delivers answer [] \<Longrightarrow> nf_selectedTagIds (snd (snd (saveTags answer p c))) = []"
  using read_answer_delivers [of answer "[]" c]
  by (simp add: saveTags_def io_bind_def await_def io_the_def io_return_def Let_def setMyTagSubscriptions_def api_verbs request_def
      js_set_of_def js_set_empty_def)

end
