(* ===== verification/ApiKeys.thy ===== *)
theory ApiKeys
  imports Async ApiCalls LibUtils
begin

section \<open>API keys (\<open>pages/account/AccountAPIKeysPage.tsx\<close>, \<open>pages/settings/APIKeysPage.tsx\<close>)\<close>

text \<open>
  A user's own keys (the list, the dialog that creates one, the one that reveals its token and the one that revokes it) next to
  the keys on the server (\<open>internal/apikeys/handler.go\<close>, \<open>internal/db/api_keys_store.go\<close>), under every interleaving of user events and
  answers; and the list of all keys for administrators. Dates in the locale format and the clipboard are not modelled.
\<close>

subsection \<open>The page of a user\<close>

text \<open>
  An entry of \<open>kp_keys\<close> that is \<^const>\<open>None\<close> is \<open>undefined\<close>, on which rendering throws. A created key is kept in the list together with
  its token; the model drops the token there, as nothing reads it.
\<close>

record keys_page =
  kp_keys :: "APIKey option list"
  kp_createOpen :: bool
  kp_name :: string
  kp_submitting :: bool
  kp_error :: "string option"
  kp_revealToken :: "string option"
  kp_deleteTarget :: "APIKey option"
  kp_deleting :: bool

definition keys_page_init :: keys_page where
  "keys_page_init =
     \<lparr>kp_keys = [], kp_createOpen = False, kp_name = [], kp_submitting = False, kp_error = None, kp_revealToken = None,
      kp_deleteTarget = None, kp_deleting = False\<rparr>"

definition keys_arrived :: "APIKey list \<Rightarrow> keys_page \<Rightarrow> keys_page" where
  "keys_arrived keysData p = p\<lparr>kp_keys := map Some keysData\<rparr>"

text \<open>The effect of \<open>CreateKeyDialog\<close> on \<open>open\<close>; the mark of a request under way is reset, too.\<close>

definition create_opened :: "keys_page \<Rightarrow> keys_page" where
  "create_opened p = p\<lparr>kp_createOpen := True, kp_name := [], kp_error := None, kp_submitting := False\<rparr>"

definition create_disabled :: "keys_page \<Rightarrow> bool" where
  "create_disabled p \<longleftrightarrow> kp_submitting p \<or> trim (kp_name p) = []"

text \<open>
  \<open>handleSubmit\<close> before and after its \<open>await\<close>. \<open>onCreated\<close> puts the key into the list before it reads the token: an answer that is
  \<open>undefined\<close> leaves an \<open>undefined\<close> entry and then throws.
\<close>

definition create_start :: "keys_page \<Rightarrow> keys_page" where
  "create_start p = p\<lparr>kp_submitting := True, kp_error := None\<rparr>"

definition key_of :: "CreatedAPIKey \<Rightarrow> APIKey" where
  "key_of k =
     \<lparr>apiKey_id = apiKey_id k, apiKey_name = apiKey_name k, apiKey_prefix = apiKey_prefix k,
      apiKey_lastUsedAt = apiKey_lastUsedAt k, apiKey_createdAt = apiKey_createdAt k\<rparr>"

definition create_finish :: "CreatedAPIKey outcome \<Rightarrow> keys_page \<Rightarrow> keys_page" where
  "create_finish r p =
     (let catch = (\<lambda>q. q\<lparr>kp_error := Some ''Failed to create API key.'', kp_submitting := False\<rparr>) in
      case r of
        Inr (Some k) \<Rightarrow>
          p\<lparr>kp_keys := Some (key_of k) # kp_keys p, kp_revealToken := Some (createdAPIKey_token k), kp_createOpen := False\<rparr>
      | Inr None \<Rightarrow> catch (p\<lparr>kp_keys := None # kp_keys p\<rparr>)
      | Inl _ \<Rightarrow> catch p)"

text \<open>\<open>handleDelete\<close>, for the target it has captured; an error only leaves the dialog open.\<close>

definition key_delete_finish :: "APIKey \<Rightarrow> unit outcome \<Rightarrow> keys_page \<Rightarrow> keys_page" where
  "key_delete_finish target r p =
     (case r of
        Inr _ \<Rightarrow> p\<lparr>kp_keys := filter (\<lambda>k. map_option apiKey_id k \<noteq> Some (apiKey_id target)) (kp_keys p), kp_deleteTarget := None,
                   kp_deleting := False\<rparr>
      | Inl _ \<Rightarrow> p\<lparr>kp_deleting := False\<rparr>)"

text \<open>The rows: name, prefix, and whether the key was ever used.\<close>

datatype keys_view = KeysThrow | NoKeys | KeyRows "(string \<times> string \<times> bool) list"

definition key_row :: "APIKey \<Rightarrow> string \<times> string \<times> bool" where
  "key_row k = (apiKey_name k, apiKey_prefix k @ ellipsis, truthy (apiKey_lastUsedAt k))"

definition keys_view_of :: "keys_page \<Rightarrow> keys_view" where
  "keys_view_of p =
     (if None \<in> set (kp_keys p) then KeysThrow
      else if length (kp_keys p) = 0 then NoKeys
      else KeyRows (map (key_row \<circ> the) (kp_keys p)))"

text \<open>\<open>TokenRevealDialog\<close> is open for a token that is not empty, and any way of closing it forgets the token.\<close>

definition reveal_open :: "keys_page \<Rightarrow> bool" where
  "reveal_open p \<longleftrightarrow> truthy (kp_revealToken p)"

subsection \<open>The keys on the server\<close>

text \<open>The keys of the user, the newest first. The identity, the token and its prefix of a new key are drawn by the server.\<close>

definition key_status :: "int \<Rightarrow> 'v fetch_result" where
  "key_status n =
     Fetched \<lparr>res_status = n, res_statusText = [], res_contentType = None, res_text = [], res_json = None\<rparr>"

definition serve_create_key :: "CreatedAPIKey \<Rightarrow> string \<Rightarrow> APIKey list \<Rightarrow> CreatedAPIKey fetch_result \<times> APIKey list" where
  "serve_create_key drawn name keys =
     (if name = [] then (key_status 400, keys)
      else let k = drawn\<lparr>apiKey_name := name\<rparr> in (delivery k, key_of k # keys))"

definition serve_delete_key :: "string \<Rightarrow> APIKey list \<Rightarrow> unit fetch_result \<times> APIKey list" where
  "serve_delete_key i keys =
     (if i \<in> apiKey_id ` set keys then (key_status 204, filter (\<lambda>k. apiKey_id k \<noteq> i) keys) else (key_status 404, keys))"

subsection \<open>The page and the server\<close>

text \<open>The names of the keys being created and the keys being revoked, in the order of the requests.\<close>

record keys_world =
  kw_page :: keys_page
  kw_server :: "APIKey list"
  kw_client :: client
  kw_creating :: "string list"
  kw_revoking :: "APIKey list"

text \<open>An answer is the server's own, or an error that did not change anything there.\<close>

datatype key_event =
    CreatePressed
  | CreateDismissed
  | KeyNameTyped string
  | KeySubmitted
  | KeyCreated nat CreatedAPIKey "CreatedAPIKey fetch_result option"
  | TokenDismissed
  | RevokeChosen APIKey
  | RevokeDismissed
  | RevokeConfirmed
  | KeyRevoked nat "unit fetch_result option"

definition key_created :: "nat \<Rightarrow> CreatedAPIKey \<Rightarrow> CreatedAPIKey fetch_result option \<Rightarrow> keys_world \<Rightarrow> keys_world" where
  "key_created i drawn fault w =
     (case (case fault of Some a \<Rightarrow> (a, kw_server w) | None \<Rightarrow> serve_create_key drawn (kw_creating w ! i) (kw_server w)) of
        (answer, keys) \<Rightarrow>
          (case createAPIKey (kw_creating w ! i) (kw_client w) answer of
             (_, c, r) \<Rightarrow>
               w\<lparr>kw_page := create_finish r (kw_page w), kw_server := keys, kw_client := c, kw_creating := remove_nth i (kw_creating w)\<rparr>))"

definition key_revoked :: "nat \<Rightarrow> unit fetch_result option \<Rightarrow> keys_world \<Rightarrow> keys_world" where
  "key_revoked i fault w =
     (let k = kw_revoking w ! i in
      case (case fault of Some a \<Rightarrow> (a, kw_server w) | None \<Rightarrow> serve_delete_key (apiKey_id k) (kw_server w)) of
        (answer, keys) \<Rightarrow>
          (case deleteAPIKey (apiKey_id k) (kw_client w) answer of
             (_, c, r) \<Rightarrow>
               w\<lparr>kw_page := key_delete_finish k r (kw_page w), kw_server := keys, kw_client := c,
                 kw_revoking := remove_nth i (kw_revoking w)\<rparr>))"

fun key_event_step :: "key_event \<Rightarrow> keys_world \<Rightarrow> keys_world" where
  "key_event_step CreatePressed w = (if kp_createOpen (kw_page w) then w else w\<lparr>kw_page := create_opened (kw_page w)\<rparr>)"
| "key_event_step CreateDismissed w = w\<lparr>kw_page := (kw_page w)\<lparr>kp_createOpen := False\<rparr>\<rparr>"
| "key_event_step (KeyNameTyped s) w = w\<lparr>kw_page := (kw_page w)\<lparr>kp_name := s\<rparr>\<rparr>"
| "key_event_step KeySubmitted w =
     (if kp_createOpen (kw_page w) \<and> \<not> create_disabled (kw_page w)
      then w\<lparr>kw_page := create_start (kw_page w), kw_creating := kw_creating w @ [trim (kp_name (kw_page w))]\<rparr> else w)"
| "key_event_step (KeyCreated i drawn fault) w = (if i < length (kw_creating w) then key_created i drawn fault w else w)"
| "key_event_step TokenDismissed w = w\<lparr>kw_page := (kw_page w)\<lparr>kp_revealToken := None\<rparr>\<rparr>"
| "key_event_step (RevokeChosen k) w =
     (if Some k \<in> set (kp_keys (kw_page w)) then w\<lparr>kw_page := (kw_page w)\<lparr>kp_deleteTarget := Some k\<rparr>\<rparr> else w)"
| "key_event_step RevokeDismissed w = w\<lparr>kw_page := (kw_page w)\<lparr>kp_deleteTarget := None\<rparr>\<rparr>"
| "key_event_step RevokeConfirmed w =
     (case kp_deleteTarget (kw_page w) of
        None \<Rightarrow> w
      | Some k \<Rightarrow>
          if kp_deleting (kw_page w) then w
          else w\<lparr>kw_page := (kw_page w)\<lparr>kp_deleting := True\<rparr>, kw_revoking := kw_revoking w @ [k]\<rparr>)"
| "key_event_step (KeyRevoked i fault) w = (if i < length (kw_revoking w) then key_revoked i fault w else w)"

text \<open>A page whose rendering has thrown is unmounted.\<close>

definition keys_step :: "key_event \<Rightarrow> keys_world \<Rightarrow> keys_world" where
  "keys_step ev w = (if keys_view_of (kw_page w) = KeysThrow then w else key_event_step ev w)"

text \<open>Which events can happen: an answer in place of the server's own is an error, and a new key has an identity of its own.\<close>

fun fails :: "'v fetch_result \<Rightarrow> bool" where
  "fails (FetchFailed _) \<longleftrightarrow> True"
| "fails (Fetched res) \<longleftrightarrow> \<not> res_ok res"

fun event_possible :: "key_event \<Rightarrow> keys_world \<Rightarrow> bool" where
  "event_possible (KeyCreated i drawn fault) w \<longleftrightarrow>
     (case fault of None \<Rightarrow> apiKey_id drawn \<notin> apiKey_id ` set (kw_server w) | Some a \<Rightarrow> fails a)"
| "event_possible (KeyRevoked i fault) w \<longleftrightarrow> (case fault of None \<Rightarrow> True | Some a \<Rightarrow> fails a)"
| "event_possible _ w \<longleftrightarrow> True"

definition keys_start :: "APIKey list \<Rightarrow> client \<Rightarrow> keys_world" where
  "keys_start keys c =
     \<lparr>kw_page = keys_arrived keys keys_page_init, kw_server = keys, kw_client = c, kw_creating = [], kw_revoking = []\<rparr>"

inductive keys_reachable :: "keys_world \<Rightarrow> bool" where
  loaded: "distinct (map apiKey_id keys) \<Longrightarrow> client_token c \<noteq> None \<Longrightarrow> keys_reachable (keys_start keys c)"
| event: "keys_reachable w \<Longrightarrow> event_possible ev w \<Longrightarrow> keys_reachable (keys_step ev w)"

subsection \<open>The list follows the server\<close>

text \<open>
  The invariant: while the session lasts, the list is the server's, the names of the keys being created are not empty, and at most one key
  is being revoked, which still exists.
\<close>

definition keys_inv :: "keys_world \<Rightarrow> bool" where
  "keys_inv w \<longleftrightarrow>
     client_token (kw_client w) = None
     \<or> kp_keys (kw_page w) = map Some (kw_server w) \<and> distinct (map apiKey_id (kw_server w))
       \<and> [] \<notin> set (kw_creating w)
       \<and> (if kp_deleting (kw_page w) then \<exists>k. kw_revoking w = [k] else kw_revoking w = [])"

lemma fails_answer:
  "fails a \<Longrightarrow> (fst (read_answer c a) = c \<and> (\<exists>e. snd (read_answer c a) = Inl e)) \<or> client_token (fst (read_answer c a)) = None"
  by (cases a) (auto simp: read_answer_def clearToken_def)

lemma answer_key_status:
  "read_answer c (key_status 204) = (c, Inr None)" "read_answer c (key_status 404) = (c, Inl (ApiError 404 []))"
  by (simp_all add: key_status_def read_answer_def res_ok_def trim_def)

lemma token_gone: "client_token c = None \<Longrightarrow> client_token (fst (read_answer c a)) = None"
  using read_answer_token [of c a] by auto

lemma key_created_inv:
  assumes inv: "keys_inv w" and i: "i < length (kw_creating w)" and ok: "event_possible (KeyCreated i drawn fault) w"
  shows "keys_inv (key_created i drawn fault w)"
proof (cases "client_token (kw_client w) = None")
  case True
  then show ?thesis
    by (simp add: keys_inv_def key_created_def createAPIKey_def api_verbs request_def token_gone split: prod.split)
       (metis fst_conv token_gone)
next
  case False
  note inv' = inv [unfolded keys_inv_def, simplified False simp_thms]
  have name: "kw_creating w ! i \<noteq> []" using inv' i by (metis nth_mem)
  have rest: "[] \<notin> set (remove_nth i (kw_creating w))" using inv' set_remove_nth by fastforce
  show ?thesis
  proof (cases fault)
    case None
    have run: "read_answer (kw_client w) (delivery (drawn\<lparr>apiKey_name := kw_creating w ! i\<rparr>))
        = (kw_client w, Inr (Some (drawn\<lparr>apiKey_name := kw_creating w ! i\<rparr>)))"
      by (rule read_answer_delivers [OF delivers_delivery])
    show ?thesis
      using inv' rest ok None name
      by (auto simp: keys_inv_def key_created_def createAPIKey_def api_verbs request_def run serve_create_key_def create_finish_def
          key_of_def image_iff Let_def)
  next
    case (Some a)
    then have "fails a" using ok by simp
    then show ?thesis
      using fails_answer [of a "kw_client w"] inv' rest Some
      by (auto simp: keys_inv_def key_created_def createAPIKey_def api_verbs request_def create_finish_def Let_def split: prod.split)
  qed
qed

lemma filter_map_Some:
  "filter (\<lambda>k. \<forall>z. k = Some z \<longrightarrow> f z \<noteq> i) (map Some xs) = map Some (filter (\<lambda>k. f k \<noteq> i) xs)"
  by (induction xs) auto

lemma key_revoked_inv:
  assumes inv: "keys_inv w" and i: "i < length (kw_revoking w)" and ok: "event_possible (KeyRevoked i fault) w"
  shows "keys_inv (key_revoked i fault w)"
proof (cases "client_token (kw_client w) = None")
  case True
  then show ?thesis
    by (simp add: keys_inv_def key_revoked_def deleteAPIKey_def api_verbs request_def Let_def split: prod.split)
       (metis fst_conv token_gone)
next
  case False
  note inv' = inv [unfolded keys_inv_def, simplified False simp_thms]
  obtain k where k: "kw_revoking w = [k]" using inv' i by (auto split: if_splits)
  show ?thesis
  proof (cases fault)
    case None
    show ?thesis
      using inv' i None
      by (auto simp: keys_inv_def key_revoked_def deleteAPIKey_def api_verbs request_def serve_delete_key_def answer_key_status k
          key_delete_finish_def filter_map_Some distinct_map_filter remove_nth_def Let_def)
  next
    case (Some a)
    then have "fails a" using ok by simp
    then show ?thesis
      using fails_answer [of a "kw_client w"] inv' i Some
      by (auto simp: keys_inv_def key_revoked_def deleteAPIKey_def api_verbs request_def key_delete_finish_def k remove_nth_def Let_def
          split: prod.split)
  qed
qed

lemma keys_step_inv: "keys_inv w \<Longrightarrow> event_possible ev w \<Longrightarrow> keys_inv (keys_step ev w)"
proof (cases ev)
  case (KeyCreated i drawn fault)
  then show "keys_inv w \<Longrightarrow> event_possible ev w \<Longrightarrow> keys_inv (keys_step ev w)"
    using key_created_inv [of w i drawn fault] by (simp add: keys_step_def)
next
  case (KeyRevoked i fault)
  then show "keys_inv w \<Longrightarrow> event_possible ev w \<Longrightarrow> keys_inv (keys_step ev w)"
    using key_revoked_inv [of w i fault] by (simp add: keys_step_def)
qed (auto simp: keys_inv_def keys_step_def create_opened_def create_start_def create_disabled_def split: option.split)

lemma keys_reachable_inv: "keys_reachable w \<Longrightarrow> keys_inv w"
proof (induction rule: keys_reachable.induct)
  case (loaded keys c)
  then show ?case by (simp add: keys_inv_def keys_start_def keys_arrived_def keys_page_init_def)
qed (rule keys_step_inv)


definition example_created :: CreatedAPIKey where
  "example_created =
     \<lparr>apiKey_id = ''k1'', apiKey_name = [], apiKey_prefix = ''tls_ab'', apiKey_lastUsedAt = None, apiKey_createdAt = [],
      createdAPIKey_token = ''tls_abcdef''\<rparr>"

definition example_session :: client where
  "example_session = setToken ''t'' (client_load Map.empty)"

definition example_keys_run :: keys_world where
  "example_keys_run =
     fold keys_step [CreatePressed, KeyNameTyped ''ci'', KeySubmitted, KeyCreated 0 example_created None] (keys_start [] example_session)"

lemma example_keys_reachable: "keys_reachable example_keys_run"
  unfolding example_keys_run_def fold_simps comp_apply id_apply
  by (intro keys_reachable.event keys_reachable.loaded)
     (simp_all add: example_session_def setToken_def, (simp add: keys_step_def keys_view_of_def keys_start_def keys_arrived_def
       keys_page_init_def create_opened_def create_start_def create_disabled_def)?)


text \<open>
  A second creation, begun while the first one is under way, replaces the revealed token when its answer comes: the first token is
  never shown again.
\<close>

lemma first_token_lost:
  "kp_revealToken (create_finish (Inr (Some k2)) (create_finish (Inr (Some k1)) p)) = Some (createdAPIKey_token k2)"
  by (simp add: create_finish_def)

text \<open>An ended session breaks the page while it is left: the missing key is put into the list before its token is read.\<close>

lemma expired_create_breaks_page:
  assumes "\<not> keys_view_of (kw_page w) = KeysThrow" and "0 < length (kw_creating w)"
  shows "keys_view_of (kw_page (keys_step (KeyCreated 0 drawn (Some (key_status 401))) w)) = KeysThrow"
  using assms
  by (simp add: keys_step_def key_created_def createAPIKey_def api_verbs request_def key_status_def read_answer_def res_ok_def
      create_finish_def keys_view_of_def Let_def)

text \<open>A revocation confirmed for one key closes the dialog that was opened for another one in the meantime.\<close>

lemma late_revoke_closes_dialog: "kp_deleteTarget (key_delete_finish k (Inr v) (p\<lparr>kp_deleteTarget := Some k'\<rparr>)) = None"
  by (simp add: key_delete_finish_def)

subsection \<open>All keys\<close>

record admin_keys_page =
  ap_search :: string
  ap_target :: "AdminAPIKey option"
  ap_revoking :: bool
  ap_revokeError :: "string option"

definition admin_keys_init :: admin_keys_page where
  "admin_keys_init = \<lparr>ap_search = [], ap_target = None, ap_revoking = False, ap_revokeError = None\<rparr>"

definition key_matches :: "string \<Rightarrow> AdminAPIKey \<Rightarrow> bool" where
  "key_matches search k \<longleftrightarrow>
     js_includes (toLowerCase (apiKey_name k)) (toLowerCase search)
     \<or> js_includes (toLowerCase (adminAPIKey_username k)) (toLowerCase search)
     \<or> js_includes (toLowerCase (apiKey_prefix k)) (toLowerCase search)"

definition admin_filtered :: "AdminAPIKey list \<Rightarrow> admin_keys_page \<Rightarrow> AdminAPIKey list" where
  "admin_filtered allKeys p = (if trim (ap_search p) \<noteq> [] then filter (key_matches (ap_search p)) allKeys else allKeys)"

definition admin_toolbar :: "AdminAPIKey list \<Rightarrow> admin_keys_page \<Rightarrow> string" where
  "admin_toolbar allKeys p =
     (let n = int (length (admin_filtered allKeys p)) in
      if n = 0 then ''No keys''
      else show_int n @ '' '' @ plural n ''key'' None
        @ (if ap_search p \<noteq> [] then '' matching search'' else '' across all users''))"

datatype admin_keys_table = AdminKeysLoading | NoKeyMatches | NoKeysYet | AdminKeys "AdminAPIKey list"

definition admin_keys_table_of :: "AdminAPIKey list option \<Rightarrow> admin_keys_page \<Rightarrow> admin_keys_table" where
  "admin_keys_table_of data p =
     (case data of
        None \<Rightarrow> AdminKeysLoading
      | Some allKeys \<Rightarrow>
          if admin_filtered allKeys p = [] then (if ap_search p \<noteq> [] then NoKeyMatches else NoKeysYet)
          else AdminKeys (admin_filtered allKeys p))"

text \<open>\<open>handleRevoke\<close>; the last component says whether the list is fetched again.\<close>

definition handleRevoke :: "unit fetch_result \<Rightarrow> admin_keys_page \<Rightarrow> client \<Rightarrow> http_call list \<times> client \<times> admin_keys_page \<times> bool" where
  "handleRevoke answer p c =
     (case ap_target p of
        None \<Rightarrow> ([], c, p, False)
      | Some k \<Rightarrow>
          (let p1 = p\<lparr>ap_revokeError := None, ap_revoking := False\<rparr> in
           case await (revokeAPIKey (apiKey_id k)) answer c of
             (ks, c1, Inr _) \<Rightarrow> (ks, c1, p1\<lparr>ap_target := None\<rparr>, True)
           | (ks, c1, Inl _) \<Rightarrow> (ks, c1, p1\<lparr>ap_revokeError := Some ''Failed to revoke key.''\<rparr>, False)))"

definition revoke_dismissed :: "admin_keys_page \<Rightarrow> admin_keys_page" where
  "revoke_dismissed p = p\<lparr>ap_target := None, ap_revokeError := None\<rparr>"

lemma admin_filtered_subset: "set (admin_filtered allKeys p) \<subseteq> set allKeys"
  by (auto simp: admin_filtered_def)

text \<open>The text is trimmed for the question whether there is one, but not for the comparison: a blank behind it hides every key
  whose fields have none.\<close>

lemma js_includes_char: "js_includes s [x] \<longleftrightarrow> x \<in> set s"
  by (induction s) auto

lemma js_includes_set: "js_includes s p \<Longrightarrow> set p \<subseteq> set s"
proof (induction s)
  case (Cons x s)
  then show ?case using set_take_subset [of "length p" "x # s"] by auto
qed simp

lemma trailing_blank_hides_keys:
  assumes "trim (ap_search p) \<noteq> []" and "CHR 0x20 \<in> set (ap_search p)"
    and "\<forall>k \<in> set allKeys. CHR 0x20 \<notin> set (apiKey_name k) \<union> set (adminAPIKey_username k) \<union> set (apiKey_prefix k)"
  shows "admin_keys_table_of (Some allKeys) p = NoKeyMatches"
proof -
  have low: "to_lower ch = CHR 0x20 \<longleftrightarrow> ch = CHR 0x20" for ch
  proof (cases "is_upper ch")
    case True
    then have "charCode (to_lower ch) = charCode ch + 32" "65 \<le> charCode ch"
      by (simp_all add: to_lower_def is_upper_def code_char_of)
    then show ?thesis by (auto simp: charCode_def)
  qed (simp add: to_lower_def)
  have "CHR 0x20 \<in> set (toLowerCase s) \<longleftrightarrow> CHR 0x20 \<in> set s" for s
    unfolding toLowerCase_def set_map using low by (metis image_iff)
  then have "\<not> key_matches (ap_search p) k" if "k \<in> set allKeys" for k
    using assms(2,3) that js_includes_set unfolding key_matches_def by blast
  then have "admin_filtered allKeys p = []" using assms(1) by (simp add: admin_filtered_def filter_empty_conv)
  moreover have "ap_search p \<noteq> []" using assms(2) by auto
  ultimately show ?thesis by (simp add: admin_keys_table_of_def)
qed

end
