(* ===== verification/Dashboard.thy ===== *)
theory Dashboard
  imports EndpointList Expiry ApiCalls LibUtils
begin

section \<open>The dashboard (\<open>pages/DashboardPage.tsx\<close>)\<close>

text \<open>
  The counts, the panels and where their rows lead. A query that has not been answered is \<^const>\<open>None\<close>. Percentages are
  computed exactly, half up, where the source computes with doubles. The list of expiring certificates has one row for each
  endpoint that uses a certificate; the counts are those of different fingerprints.
\<close>

subsection \<open>Counts\<close>

definition expires_before :: "int \<Rightarrow> ExpiringCertItem \<Rightarrow> bool" where
  "expires_before now i \<longleftrightarrow> (case date_parse (expiringCertItem_notAfter i) of None \<Rightarrow> False | Some t \<Rightarrow> t < now)"

definition expires_later :: "int \<Rightarrow> ExpiringCertItem \<Rightarrow> bool" where
  "expires_later now i \<longleftrightarrow> (case date_parse (expiringCertItem_notAfter i) of None \<Rightarrow> False | Some t \<Rightarrow> t \<ge> now)"

definition distinct_fingerprints :: "ExpiringCertItem list \<Rightarrow> nat" where
  "distinct_fingerprints items = length (js_set_of (map expiringCertItem_fingerprint items))"

definition expiredCount :: "int \<Rightarrow> ExpiringCertItem list option \<Rightarrow> nat option" where
  "expiredCount now expiring = map_option (\<lambda>items. distinct_fingerprints (filter (expires_before now) items)) expiring"

definition expiringCount :: "int \<Rightarrow> ExpiringCertItem list option \<Rightarrow> nat option" where
  "expiringCount now expiring = map_option (\<lambda>items. distinct_fingerprints (filter (expires_later now) items)) expiring"

text \<open>The cards: label, value (a dash while unknown), the line below and the signal.\<close>

definition card_value :: "int option \<Rightarrow> string" where
  "card_value n = (case n of None \<Rightarrow> em_dash | Some k \<Rightarrow> show_int k)"

definition count_signal :: "SignalColor \<Rightarrow> int option \<Rightarrow> SignalColor" where
  "count_signal bad n = (case n of None \<Rightarrow> SignalNeutral | Some k \<Rightarrow> if k = 0 then SignalGreen else bad)"

definition dashboard_cards ::
  "int \<Rightarrow> int option \<Rightarrow> int option \<Rightarrow> ExpiringCertItem list option \<Rightarrow> int option \<Rightarrow> (string \<times> string \<times> string \<times> SignalColor) list" where
  "dashboard_cards now hostCount certCount expiring errorCount =
     (let soon = map_option int (expiringCount now expiring); gone = map_option int (expiredCount now expiring) in
      [(''Endpoints Monitored'', card_value hostCount, ''Total configured endpoints'', SignalNeutral),
       (''Certificates Tracked'', card_value certCount, ''Unique certificates ingested'', SignalNeutral),
       (''Expiring Soon (<=30D)'', card_value soon, ''Active certs expiring soon'', count_signal SignalAmber soon),
       (''Expired'', card_value gone, if gone = Some 0 then ''No expired certificates'' else ''Requires immediate action'',
        count_signal SignalRed gone),
       (''Scan Errors'', card_value errorCount, ''Currently failing endpoints'', count_signal SignalRed errorCount)])"

text \<open>The requests of the page.\<close>

definition dashboard_endpoint_query :: "EndpointList api_call" where
  "dashboard_endpoint_query = listEndpoints 1 1 [] [] [] [] AnyType AnyProtocol []"

definition dashboard_error_query :: "EndpointList api_call" where
  "dashboard_error_query = listErrorEndpoints 1 10 AnyType"

definition dashboard_cert_query :: "CertificateList api_call" where
  "dashboard_cert_query = listCertificates 1 1 [] [] []"

definition dashboard_expiring_query :: "ExpiringCertList api_call" where
  "dashboard_expiring_query = getExpiringCerts 30"

subsection \<open>Expiring certificates\<close>

text \<open>A row: its text, where the text leads, the issuer, the badge and the menu. The card shows the same.\<close>

record expiring_view =
  ev_name :: string
  ev_link :: string
  ev_issuer :: string
  ev_badge :: badge
  ev_menu :: "(string \<times> string) list"

definition ExpiringActionsMenu :: "ExpiringCertItem \<Rightarrow> (string \<times> string) list" where
  "ExpiringActionsMenu item =
     [(''View Endpoint'', ''/endpoints/'' @ expiringCertItem_endpointId item),
      (''View Certificate'', ''/certificates/'' @ expiringCertItem_fingerprint item)]"

definition ExpiringRow :: "int \<Rightarrow> ExpiringCertItem \<Rightarrow> expiring_view" where
  "ExpiringRow now item =
     \<lparr>ev_name = expiringCertItem_commonName item, ev_link = ''/certificates/'' @ expiringCertItem_fingerprint item,
      ev_issuer = (if expiringCertItem_issuerCn item = [] then em_dash else expiringCertItem_issuerCn item),
      ev_badge = DaysLeftBadge_dashboard now (expiringCertItem_notAfter item), ev_menu = ExpiringActionsMenu item\<rparr>"

definition ExpiringCard :: "int \<Rightarrow> ExpiringCertItem \<Rightarrow> expiring_view" where
  "ExpiringCard now item =
     \<lparr>ev_name = expiringCertItem_commonName item, ev_link = ''/certificates/'' @ expiringCertItem_fingerprint item,
      ev_issuer = (if expiringCertItem_issuerCn item = [] then em_dash else expiringCertItem_issuerCn item),
      ev_badge = DaysLeftBadge_dashboard now (expiringCertItem_notAfter item), ev_menu = ExpiringActionsMenu item\<rparr>"

datatype 'r panel = PanelLoading | PanelEmpty string | PanelRows "'r list"

definition expiring_panel :: "int \<Rightarrow> ExpiringCertItem list option \<Rightarrow> expiring_view panel" where
  "expiring_panel now expiring =
     (case expiring of
        None \<Rightarrow> PanelLoading
      | Some items \<Rightarrow>
          if length items = 0 then PanelEmpty ''No certificates expiring within 30 days.'' else PanelRows (map (ExpiringRow now) items))"

subsection \<open>Scan errors\<close>

record error_view =
  er_name :: string
  er_link :: string
  er_message :: string
  er_lastAttempt :: string
  er_age :: string

definition last_attempt :: "int \<Rightarrow> EndpointListItem \<Rightarrow> string" where
  "last_attempt now e =
     (case endpointListItem_lastScannedAt e of
        Some (x # xs) \<Rightarrow> relAge now (x # xs) @ '' ago''
      | _ \<Rightarrow> em_dash)"

definition error_age :: "int \<Rightarrow> EndpointListItem \<Rightarrow> string" where
  "error_age now e = (case endpointListItem_errorSince e of Some (x # xs) \<Rightarrow> relAge now (x # xs) | _ \<Rightarrow> ''?'')"

text \<open>The card shows a dash for a missing message, the row an empty cell.\<close>

definition ErrorRow :: "int \<Rightarrow> EndpointListItem \<Rightarrow> error_view" where
  "ErrorRow now e =
     \<lparr>er_name = endpointListItem_name e, er_link = ''/endpoints/'' @ endpointListItem_id e,
      er_message = nullish (endpointListItem_lastScanError e) [], er_lastAttempt = last_attempt now e, er_age = error_age now e\<rparr>"

definition ErrorCard :: "int \<Rightarrow> EndpointListItem \<Rightarrow> error_view" where
  "ErrorCard now e =
     \<lparr>er_name = endpointListItem_name e, er_link = ''/endpoints/'' @ endpointListItem_id e,
      er_message = (if truthy (endpointListItem_lastScanError e) then nullish (endpointListItem_lastScanError e) [] else em_dash),
      er_lastAttempt = last_attempt now e, er_age = error_age now e\<rparr>"

definition error_panel :: "int \<Rightarrow> EndpointListItem list option \<Rightarrow> error_view panel" where
  "error_panel now errorHosts =
     (case errorHosts of
        None \<Rightarrow> PanelLoading
      | Some hosts \<Rightarrow>
          if length hosts = 0 then PanelEmpty ''No scan errors. All endpoints are healthy.'' else PanelRows (map (ErrorRow now) hosts))"

subsection \<open>TLS distribution\<close>

text \<open>\<open>Math.round((count / total) * 100)\<close>, or 0 without endpoints.\<close>

definition percent_of :: "int \<Rightarrow> int \<Rightarrow> int" where
  "percent_of n tot = (if tot > 0 then (200 * n + tot) div (2 * tot) else 0)"

record tls_bar =
  tb_label :: string
  tb_pct :: int
  tb_coloured :: bool
  tb_link :: "string option"

definition protocol_link :: "string \<Rightarrow> string" where
  "protocol_link slug = ''/endpoints/host?protocol='' @ slug"

definition TLSBar :: "string \<Rightarrow> int \<Rightarrow> int \<Rightarrow> bool \<Rightarrow> string \<Rightarrow> tls_bar" where
  "TLSBar label n tot coloured slug =
     \<lparr>tb_label = label, tb_pct = percent_of n tot, tb_coloured = coloured,
      tb_link = (if slug = [] \<or> n = 0 then None else Some (protocol_link slug))\<rparr>"

text \<open>The bars and the alert about deprecated protocols.\<close>

definition tls_panel :: "TLSPostureReport \<Rightarrow> tls_bar list \<times> string option" where
  "tls_panel r =
     (let tot = tlsPostureReport_scannedEndpoints r; p = tlsPostureReport_protocols r;
          bar = (\<lambda>label n warns slug. TLSBar label n tot (warns \<and> percent_of n tot > 0) slug);
          legacyPct = percent_of (tlsPostureReport_legacyEndpoints r) tot
      in ([bar ''TLS 1.3'' (tlsProtocolCounts_tls13 p) False ''tls13'', bar ''TLS 1.2'' (tlsProtocolCounts_tls12 p) False ''tls12'',
           bar ''TLS 1.1'' (tlsProtocolCounts_tls11 p) True ''tls11'', bar ''TLS 1.0'' (tlsProtocolCounts_tls10 p) True ''tls10'']
          @ (if tlsProtocolCounts_ssl30 p > 0 then [bar ''SSL 3.0 (Broken)'' (tlsProtocolCounts_ssl30 p) True ''ssl30''] else []),
          if legacyPct > 0
          then Some (show_int legacyPct @ ''% of endpoints still utilize deprecated TLS protocols. Plan migration soon.'')
          else None))"

text \<open>The trust programs: name, count, link.\<close>

definition program_panel :: "RootStoreSummary list option \<Rightarrow> (string \<times> int \<times> string) panel" where
  "program_panel rootStores =
     (case rootStores of
        None \<Rightarrow> PanelLoading
      | Some stores \<Rightarrow>
          if length stores = 0 then PanelEmpty ''No programs yet.''
          else PanelRows (map (\<lambda>s. (rootStoreSummary_name s, rootStoreSummary_anchorCount s,
                                    ''/root-stores?store='' @ rootStoreSummary_id s)) stores))"

subsection \<open>The counts and the rows agree\<close>

lemma distinct_fingerprints_card: "distinct_fingerprints items = card (expiringCertItem_fingerprint ` set items)"
  using distinct_card [OF distinct_js_set_of, of "map expiringCertItem_fingerprint items"]
  by (simp add: distinct_fingerprints_def set_js_set_of)

lemma badge_expired:
  "date_parse (expiringCertItem_notAfter i) = Some t \<Longrightarrow>
     badge_text (DaysLeftBadge_dashboard now (expiringCertItem_notAfter i)) = ''EXPIRED'' \<longleftrightarrow> expires_before now i"
  using days_left_less [of "expiringCertItem_notAfter i" t now 0]
  by (auto simp: badges_by_state expiryState_def expires_before_def Let_def)

text \<open>The cards of the dashboard and its table count the same certificates. With readable dates, and one date for
  each fingerprint, the two counts add up to the number of different certificates in the table, the Expired card is green
  exactly when no row has the badge EXPIRED, and the Expiring Soon card exactly when every row has it.\<close>

lemma dashboard_counts_match_rows:
  assumes "\<forall>i \<in> set items. date_parse (expiringCertItem_notAfter i) \<noteq> None"
    and "\<forall>i \<in> set items. \<forall>j \<in> set items. expiringCertItem_fingerprint i = expiringCertItem_fingerprint j \<longrightarrow>
          expiringCertItem_notAfter i = expiringCertItem_notAfter j"
    and "dashboard_cards now hosts certs (Some items) errors = [c1, c2, soon, gone, c5]"
  shows "the (expiredCount now (Some items)) + the (expiringCount now (Some items)) = distinct_fingerprints items
    \<and> (snd (snd (snd gone)) = SignalGreen \<longleftrightarrow> (\<forall>i \<in> set items. badge_text (ev_badge (ExpiringRow now i)) \<noteq> ''EXPIRED''))
    \<and> (snd (snd (snd soon)) = SignalGreen \<longleftrightarrow> (\<forall>i \<in> set items. badge_text (ev_badge (ExpiringRow now i)) = ''EXPIRED''))"
proof -
  let ?f = expiringCertItem_fingerprint
  let ?B = "{i \<in> set items. expires_before now i}" and ?L = "{i \<in> set items. expires_later now i}"
  have split: "expires_later now i \<longleftrightarrow> \<not> expires_before now i" if "i \<in> set items" for i
    using assms(1) that by (auto simp: expires_before_def expires_later_def)
  have same: "expires_before now i \<longleftrightarrow> expires_before now j" if "i \<in> set items" "j \<in> set items" "?f i = ?f j" for i j
  proof -
    have "expiringCertItem_notAfter i = expiringCertItem_notAfter j" using assms(2) that by blast
    then show ?thesis by (simp add: expires_before_def)
  qed
  have "?f ` ?B \<inter> ?f ` ?L = {}" using split same by blast
  moreover have "?f ` ?B \<union> ?f ` ?L = ?f ` set items" using split by blast
  ultimately have total: "card (?f ` ?B) + card (?f ` ?L) = card (?f ` set items)"
    using card_Un_disjoint [of "?f ` ?B" "?f ` ?L"] by simp
  have expired: "badge_text (ev_badge (ExpiringRow now i)) = ''EXPIRED'' \<longleftrightarrow> expires_before now i" if "i \<in> set items" for i
  proof -
    have "date_parse (expiringCertItem_notAfter i) \<noteq> None" by (rule bspec [OF assms(1) that])
    then obtain t where "date_parse (expiringCertItem_notAfter i) = Some t"
      by (cases "date_parse (expiringCertItem_notAfter i)") simp_all
    then show ?thesis unfolding ExpiringRow_def expiring_view.simps by (rule badge_expired)
  qed
  have signal: "count_signal bad (Some n) = SignalGreen \<longleftrightarrow> n = 0" if "bad \<noteq> SignalGreen" for bad n
    using that by (simp add: count_signal_def)
  have cards: "snd (snd (snd soon)) = count_signal SignalAmber (Some (int (card (?f ` ?L))))"
      "snd (snd (snd gone)) = count_signal SignalRed (Some (int (card (?f ` ?B))))"
    using assms(3) by (auto simp only: dashboard_cards_def Let_def list.inject expiringCount_def expiredCount_def option.map
        distinct_fingerprints_card set_filter snd_conv)
  have "snd (snd (snd gone)) = SignalGreen \<longleftrightarrow> card (?f ` ?B) = 0" "snd (snd (snd soon)) = SignalGreen \<longleftrightarrow> card (?f ` ?L) = 0"
    unfolding cards by (simp_all only: signal SignalColor.distinct not_False_eq_True of_nat_eq_0_iff)
  moreover have "card (?f ` ?B) = 0 \<longleftrightarrow> (\<forall>i \<in> set items. \<not> expires_before now i)"
    "card (?f ` ?L) = 0 \<longleftrightarrow> (\<forall>i \<in> set items. expires_before now i)"
    using split by (auto simp: card_eq_0_iff)
  ultimately show ?thesis using total expired
    by (simp add: expiredCount_def expiringCount_def distinct_fingerprints_card)
qed

definition example_due :: "string \<Rightarrow> string \<Rightarrow> ExpiringCertItem" where
  "example_due e f =
     \<lparr>expiringCertItem_endpointId = e, expiringCertItem_endpointName = e, expiringCertItem_endpointType = ''host'',
      expiringCertItem_fingerprint = f, expiringCertItem_commonName = f, expiringCertItem_sans = [], expiringCertItem_issuerCn = [],
      expiringCertItem_notAfter = ''2024-03-01T12:30:15.250Z'', expiringCertItem_daysRemaining = 0, expiringCertItem_tags = []\<rparr>"

text \<open>Two endpoints with one certificate that has not expired yet: one certificate expires soon, none has expired.\<close>

lemma dashboard_counts_match_rows_witness:
  "the (expiredCount 0 (Some [example_due ''e1'' ''f1'', example_due ''e2'' ''f1'']))
   + the (expiringCount 0 (Some [example_due ''e1'' ''f1'', example_due ''e2'' ''f1''])) = 1"
proof -
  let ?items = "[example_due ''e1'' ''f1'', example_due ''e2'' ''f1'']"
  obtain c1 c2 soon gone c5 where cards: "dashboard_cards 0 None None (Some ?items) None = [c1, c2, soon, gone, c5]"
    by (simp add: dashboard_cards_def Let_def)
  have date: "expiringCertItem_notAfter (example_due e f) = ''2024-03-01T12:30:15.250Z''" for e f
    by (simp only: example_due_def ExpiringCertItem.simps)
  have dates: "\<forall>i \<in> set ?items. expiringCertItem_notAfter i = ''2024-03-01T12:30:15.250Z''"
    by (simp only: list.set ball_simps date)
  have valid: "\<forall>i \<in> set ?items. date_parse (expiringCertItem_notAfter i) \<noteq> None"
    using dates by (metis date_parse_example option.distinct(1))
  have "\<forall>i \<in> set ?items. \<forall>j \<in> set ?items. expiringCertItem_fingerprint i = expiringCertItem_fingerprint j \<longrightarrow>
      expiringCertItem_notAfter i = expiringCertItem_notAfter j"
    using dates by metis
  note conjunct1 [OF dashboard_counts_match_rows [OF valid this cards]]
  also have "distinct_fingerprints ?items = 1" by code_simp
  finally show ?thesis .
qed

text \<open>
  A percentage is between 0 and 100 as long as the part is not larger than the whole, and it is 0 for less than half a percent: the alert
  about deprecated protocols is then not shown although there are such endpoints.
\<close>

lemma percent_of_bounds: "0 \<le> n \<Longrightarrow> n \<le> tot \<Longrightarrow> 0 \<le> percent_of n tot \<and> percent_of n tot \<le> 100"
proof (cases "0 < tot")
  case True
  assume "0 \<le> n" "n \<le> tot"
  then have "200 * n + tot < 101 * (2 * tot)" using True by simp
  then have "(200 * n + tot) div (2 * tot) < 101" using True floor_less [of "2 * tot" "200 * n + tot" 101] by (simp add: algebra_simps)
  moreover have "0 \<le> (200 * n + tot) div (2 * tot)" using True \<open>0 \<le> n\<close> by (simp add: pos_imp_zdiv_nonneg_iff)
  ultimately show ?thesis using True by (simp add: percent_of_def)
qed (simp add: percent_of_def)

lemma percent_of_zero: "0 \<le> n \<Longrightarrow> percent_of n tot = 0 \<longleftrightarrow> tot \<le> 0 \<or> 200 * n < tot"
proof (cases "0 < tot")
  case True
  assume n: "0 \<le> n"
  have "0 \<le> (200 * n + tot) div (2 * tot)" using True n by (simp add: pos_imp_zdiv_nonneg_iff)
  moreover have "(200 * n + tot) div (2 * tot) < 1 \<longleftrightarrow> 200 * n + tot < 2 * tot"
    using True floor_less [of "2 * tot" "200 * n + tot" 1] by simp
  ultimately show ?thesis using True by (auto simp: percent_of_def)
qed (simp add: percent_of_def)

lemma few_legacy_endpoints_no_alert:
  "0 < tlsPostureReport_legacyEndpoints r \<Longrightarrow> 200 * tlsPostureReport_legacyEndpoints r < tlsPostureReport_scannedEndpoints r \<Longrightarrow>
     snd (tls_panel r) = None"
  using percent_of_zero [of "tlsPostureReport_legacyEndpoints r" "tlsPostureReport_scannedEndpoints r"]
  by (simp add: tls_panel_def Let_def)

lemma dashboard_rows_and_cards_agree:
  "ExpiringRow now i = ExpiringCard now i"
  "truthy (endpointListItem_lastScanError e) \<Longrightarrow> ErrorRow now e = ErrorCard now e"
  by (simp_all add: ExpiringRow_def ExpiringCard_def ErrorRow_def ErrorCard_def)

end
