(* ===== verification/Reports.thy ===== *)
theory Reports
  imports Dashboard "HOL-Library.Product_Lexorder"
begin

section \<open>The TLS posture report (\<open>pages/reports/TLSPosturePage.tsx\<close> and \<open>internal/db/reports_store.go\<close>)\<close>

text \<open>
  The server's report over the endpoint tables, the page that shows it, and the endpoint list its rows lead to. A table row
  carries its TLS profile, which the database holds at most once for each endpoint. The classification of cipher suites is a
  parameter here (\<open>sev\<close>, \<open>reason\<close>; \<open>CipherTable\<close> has the table of the package \<open>tlsprofile\<close>), as is the database's matching
  of search texts (\<open>ilike\<close>). Where the database leaves the order open, rows keep the order of the table.
\<close>

subsection \<open>The tables\<close>

record tls_profile =
  pr_tls10 :: bool
  pr_tls11 :: bool
  pr_tls12 :: bool
  pr_tls13 :: bool
  pr_ssl30 :: bool
  pr_cipherSuites :: "string list"
  pr_scanError :: "string option"

record endpoint_row =
  en_id :: string
  en_name :: string
  en_dnsName :: string
  en_type :: string
  en_enabled :: bool
  en_lastScanError :: "string option"
  en_tagIds :: "string list"
  en_profile :: "tls_profile option"

definition good_profile :: "endpoint_row \<Rightarrow> tls_profile option" where
  "good_profile e =
     (case en_profile e of None \<Rightarrow> None | Some p \<Rightarrow> if pr_scanError p = None then Some p else None)"

definition good_profiles :: "endpoint_row list \<Rightarrow> tls_profile list" where
  "good_profiles db = List.map_filter good_profile db"

definition count_where :: "('a \<Rightarrow> bool) \<Rightarrow> 'a list \<Rightarrow> int" where
  "count_where P xs = int (length (filter P xs))"

text \<open>A current certificate of an endpoint, joined with its issuer.\<close>

record issued_cert =
  cc_endpointId :: string
  cc_selfIssued :: bool
  cc_issuerName :: "string option"

subsection \<open>The report of the server\<close>

definition legacy_profile :: "tls_profile \<Rightarrow> bool" where
  "legacy_profile p \<longleftrightarrow> pr_ssl30 p \<or> pr_tls10 p \<or> pr_tls11 p"

definition report_protocols :: "endpoint_row list \<Rightarrow> TLSProtocolCounts" where
  "report_protocols db =
     \<lparr>tlsProtocolCounts_tls13 = count_where pr_tls13 (good_profiles db),
      tlsProtocolCounts_tls12 = count_where pr_tls12 (good_profiles db),
      tlsProtocolCounts_tls11 = count_where pr_tls11 (good_profiles db),
      tlsProtocolCounts_tls10 = count_where pr_tls10 (good_profiles db),
      tlsProtocolCounts_ssl30 = count_where pr_ssl30 (good_profiles db)\<rparr>"

definition accepts_cipher :: "string \<Rightarrow> tls_profile \<Rightarrow> bool" where
  "accepts_cipher c p \<longleftrightarrow> c \<in> set (pr_cipherSuites p)"

definition report_ciphers ::
  "(string \<Rightarrow> TLSSeverity) \<Rightarrow> (string \<Rightarrow> string) \<Rightarrow> endpoint_row list \<Rightarrow> TLSCipherCount list" where
  "report_ciphers sev reason db =
     map (\<lambda>c. \<lparr>tlsCipherCount_cipher = c, tlsCipherCount_count = count_where (accepts_cipher c) (good_profiles db),
                tlsCipherCount_severity = sev c, tlsCipherCount_reason = or_undefined (reason c)\<rparr>)
       (sort_key (\<lambda>c. - count_where (accepts_cipher c) (good_profiles db))
         (remdups (concat (map pr_cipherSuites (good_profiles db)))))"

definition issuer_label :: "issued_cert \<Rightarrow> string" where
  "issuer_label c =
     (if cc_selfIssued c then ''Self-signed''
      else case cc_issuerName c of Some name \<Rightarrow> name | None \<Rightarrow> ''Unknown CA'')"

definition issuer_count :: "issued_cert list \<Rightarrow> string \<Rightarrow> int" where
  "issuer_count certs l = int (length (remdups (map cc_endpointId (filter (\<lambda>c. issuer_label c = l) certs))))"

definition report_issuers :: "issued_cert list \<Rightarrow> TLSIssuerCount list" where
  "report_issuers certs =
     map (\<lambda>l. \<lparr>tlsIssuerCount_issuer = l, tlsIssuerCount_count = issuer_count certs l\<rparr>)
       (take 10 (sort_key (\<lambda>l. - issuer_count certs l) (remdups (map issuer_label certs))))"

text \<open>The concerns about one endpoint, with the worst severity; \<^const>\<open>None\<close>: no concern.\<close>

definition allAttentionIssues ::
  "(string \<Rightarrow> TLSSeverity) \<Rightarrow> bool \<Rightarrow> bool \<Rightarrow> bool \<Rightarrow> string list \<Rightarrow> (string list \<times> TLSSeverity) option" where
  "allAttentionIssues sev ssl30 tls10 tls11 ciphers =
     (let criticalCount = count_where (\<lambda>c. sev c = SeverityCritical) ciphers;
          warningCount = count_where (\<lambda>c. sev c = SeverityWarning) ciphers;
          issues =
            (if ssl30 then [''Supports SSL 3.0''] else [])
            @ (if tls10 then [''Supports TLS 1.0''] else [])
            @ (if tls11 then [''Supports TLS 1.1''] else [])
            @ (if criticalCount > 0 then [''Accepts '' @ show_int criticalCount @ '' critical cipher suite(s)''] else [])
            @ (if warningCount > 0 then [''Accepts '' @ show_int warningCount @ '' weak cipher suite(s)''] else []);
          w1 = (if ssl30 then SeverityCritical else SeverityOk);
          w2 = (if tls10 then SeverityCritical else w1);
          w3 = (if tls11 \<and> w2 \<noteq> SeverityCritical then SeverityWarning else w2);
          w4 = (if criticalCount > 0 then SeverityCritical else w3);
          w5 = (if warningCount > 0 \<and> w4 = SeverityOk then SeverityWarning else w4)
      in if issues = [] then None else Some (issues, w5))"

definition scan_rank :: "endpoint_row \<times> tls_profile \<Rightarrow> nat" where
  "scan_rank r = (if pr_ssl30 (snd r) then 0 else if pr_tls10 (snd r) then 1 else if pr_tls11 (snd r) then 2 else 3)"

text \<open>The rows of the last query; the table is given in the order of the names.\<close>

definition scan_rows :: "endpoint_row list \<Rightarrow> (endpoint_row \<times> tls_profile) list" where
  "scan_rows db =
     sort_key scan_rank
       (List.map_filter (\<lambda>e. if en_enabled e then map_option (Pair e) (good_profile e) else None) db)"

definition has_weak_cipher :: "(string \<Rightarrow> TLSSeverity) \<Rightarrow> tls_profile \<Rightarrow> bool" where
  "has_weak_cipher sev p \<longleftrightarrow> list_ex (\<lambda>c. sev c \<noteq> SeverityOk) (pr_cipherSuites p)"

definition attention_item :: "(string \<Rightarrow> TLSSeverity) \<Rightarrow> endpoint_row \<times> tls_profile \<Rightarrow> TLSAttentionItem option" where
  "attention_item sev r =
     map_option (\<lambda>(issues, severity).
         \<lparr>tlsAttentionItem_endpointId = en_id (fst r), tlsAttentionItem_endpointName = en_name (fst r),
          tlsAttentionItem_issues = issues, tlsAttentionItem_severity = severity\<rparr>)
       (allAttentionIssues sev (pr_ssl30 (snd r)) (pr_tls10 (snd r)) (pr_tls11 (snd r)) (pr_cipherSuites (snd r)))"

definition GetTLSPostureReport ::
  "(string \<Rightarrow> TLSSeverity) \<Rightarrow> (string \<Rightarrow> string) \<Rightarrow> endpoint_row list \<Rightarrow> issued_cert list \<Rightarrow> TLSPostureReport" where
  "GetTLSPostureReport sev reason db certs =
     \<lparr>tlsPostureReport_totalEndpoints = count_where en_enabled db,
      tlsPostureReport_scannedEndpoints = count_where (\<lambda>e. en_enabled e \<and> en_profile e \<noteq> None) db,
      tlsPostureReport_weakCipherEndpoints = count_where (\<lambda>r. has_weak_cipher sev (snd r)) (scan_rows db),
      tlsPostureReport_protocols = report_protocols db,
      tlsPostureReport_legacyEndpoints = count_where legacy_profile (good_profiles db),
      tlsPostureReport_ciphers = report_ciphers sev reason db,
      tlsPostureReport_issuers = report_issuers certs,
      tlsPostureReport_attention = List.map_filter (attention_item sev) (scan_rows db)\<rparr>"

subsection \<open>The endpoint list of the server\<close>

definition validProtocolFilters :: "string \<Rightarrow> (tls_profile \<Rightarrow> bool) option" where
  "validProtocolFilters protocol =
     map_of [(''ssl30'', pr_ssl30), (''tls10'', pr_tls10), (''tls11'', pr_tls11), (''tls12'', pr_tls12), (''tls13'', pr_tls13)]
       protocol"

text \<open>The conditions of \<open>ListEndpoints\<close>, and the total it reports with each page.\<close>

definition endpoint_where ::
  "(string \<Rightarrow> string \<Rightarrow> bool) \<Rightarrow> bool \<Rightarrow> string \<Rightarrow> string \<Rightarrow> string \<Rightarrow> string \<Rightarrow> string \<Rightarrow> string \<Rightarrow> endpoint_row \<Rightarrow> bool" where
  "endpoint_where ilike hasError search status tagID endpointType protocol cipher e \<longleftrightarrow>
     (hasError \<longrightarrow> en_lastScanError e \<noteq> None)
     \<and> (search \<noteq> [] \<longrightarrow> ilike search (en_name e) \<or> ilike search (en_dnsName e))
     \<and> (status = ''enabled'' \<longrightarrow> en_enabled e)
     \<and> (status = ''disabled'' \<longrightarrow> \<not> en_enabled e)
     \<and> (endpointType \<in> {''host'', ''saml'', ''manual''} \<longrightarrow> en_type e = endpointType)
     \<and> (tagID \<noteq> [] \<longrightarrow> tagID \<in> set (en_tagIds e))
     \<and> (validProtocolFilters protocol \<noteq> None \<or> cipher \<noteq> [] \<longrightarrow>
          (case good_profile e of
             None \<Rightarrow> False
           | Some p \<Rightarrow>
               (case validProtocolFilters protocol of None \<Rightarrow> True | Some column \<Rightarrow> column p)
               \<and> (cipher \<noteq> [] \<longrightarrow> accepts_cipher cipher p)))"

definition query_get :: "string \<Rightarrow> string \<Rightarrow> string" where
  "query_get qs k = nullish (params_get (params_parse qs) k) []"

definition ListEndpoints_total :: "(string \<Rightarrow> string \<Rightarrow> bool) \<Rightarrow> string \<Rightarrow> endpoint_row list \<Rightarrow> int" where
  "ListEndpoints_total ilike qs db =
     count_where (endpoint_where ilike (query_get qs ''has_error'' = ''true'') (query_get qs ''name'') (query_get qs ''status'')
       (query_get qs ''tag_id'') (query_get qs ''type'') (query_get qs ''protocol'') (query_get qs ''cipher'')) db"

text \<open>An update that gives an endpoint another type clears the rows of the old type, but keeps its TLS profile.\<close>

definition UpdateEndpoint_type :: "string \<Rightarrow> string \<Rightarrow> string \<Rightarrow> endpoint_row list \<Rightarrow> endpoint_row list" where
  "UpdateEndpoint_type eid typ dnsName db =
     map (\<lambda>e. if en_id e = eid
               then e\<lparr>en_type := typ, en_dnsName := (if typ = ''host'' \<or> typ = [] then dnsName else [])\<rparr> else e) db"

subsection \<open>The page\<close>

definition protocolChartData :: "TLSPostureReport \<Rightarrow> (string \<times> string \<times> int \<times> string) list" where
  "protocolChartData report =
     (let p = tlsPostureReport_protocols report in
      [(''SSL 3.0'', ''ssl30'', tlsProtocolCounts_ssl30 p, ''var(--color-ssl30)''),
       (''TLS 1.0'', ''tls10'', tlsProtocolCounts_tls10 p, ''var(--color-tls10)''),
       (''TLS 1.1'', ''tls11'', tlsProtocolCounts_tls11 p, ''var(--color-tls11)''),
       (''TLS 1.2'', ''tls12'', tlsProtocolCounts_tls12 p, ''var(--color-tls12)''),
       (''TLS 1.3'', ''tls13'', tlsProtocolCounts_tls13 p, ''var(--color-tls13)'')])"

definition PROTOCOL_BAR_CLASS :: "string js_object" where
  "PROTOCOL_BAR_CLASS =
     [(''TLS 1.3'', ''bg-[var(--chart-1)]''), (''TLS 1.2'', ''bg-[var(--chart-2)]''), (''TLS 1.1'', ''bg-amber-500''),
      (''TLS 1.0'', ''bg-destructive''), (''SSL 3.0'', ''bg-destructive'')]"

record protocol_bar =
  pb_label :: string
  pb_count :: int
  pb_pct :: int
  pb_class :: "string property"
  pb_link :: "string option"

definition protocol_bars :: "TLSPostureReport \<Rightarrow> protocol_bar list" where
  "protocol_bars report =
     map (\<lambda>(protocol, slug, n, fill).
         \<lparr>pb_label = protocol, pb_count = n, pb_pct = percent_of n (tlsPostureReport_scannedEndpoints report),
          pb_class = obj_get PROTOCOL_BAR_CLASS protocol,
          pb_link = (if n = 0 then None else Some (''/endpoints/host?protocol='' @ slug))\<rparr>)
       (rev (protocolChartData report))"

text \<open>The chart of issuers.\<close>

definition CHART_COLORS :: "string list" where
  "CHART_COLORS = [''var(--chart-1)'', ''var(--chart-2)'', ''var(--chart-3)'', ''var(--chart-4)'', ''var(--chart-5)'']"

definition chart_color :: "nat \<Rightarrow> string" where
  "chart_color i = (if i < length CHART_COLORS then CHART_COLORS ! i else CHART_COLORS ! 0)"

definition caConfig :: "(string \<times> string) js_object" where
  "caConfig =
     [(''issuer0'', [], ''var(--chart-1)''), (''issuer1'', [], ''var(--chart-2)''), (''issuer2'', [], ''var(--chart-3)''),
      (''issuer3'', [], ''var(--chart-4)''), (''issuer4'', [], ''var(--chart-5)'')]"

record chart_datum =
  cd_issuer :: string
  cd_count :: int
  cd_fill :: string

definition issuerChartData :: "TLSIssuerCount list \<Rightarrow> chart_datum list" where
  "issuerChartData issuers =
     map (\<lambda>(i, r). \<lparr>cd_issuer = tlsIssuerCount_issuer r, cd_count = tlsIssuerCount_count r, cd_fill = chart_color i\<rparr>)
       (enumerate 0 (take 5 issuers))"

definition buildIssuerConfig :: "TLSIssuerCount list \<Rightarrow> (string \<times> string) js_object" where
  "buildIssuerConfig issuers =
     map (\<lambda>(i, r). (''issuer'' @ show_int (int i), tlsIssuerCount_issuer r, chart_color i)) (enumerate 0 (take 5 issuers))"

text \<open>
  The entry of a chart's configuration for an item of its legend (\<open>components/ui/chart.tsx\<close>). An item and the datum it
  carries are given by their members that are strings.
\<close>

definition config_label_key :: "string js_object \<Rightarrow> string js_object option \<Rightarrow> string \<Rightarrow> string" where
  "config_label_key item datum key =
     (case map_of item key of
        Some s \<Rightarrow> s
      | None \<Rightarrow> (case datum of None \<Rightarrow> key | Some d \<Rightarrow> (case map_of d key of Some s \<Rightarrow> s | None \<Rightarrow> key)))"

definition getPayloadConfigFromPayload ::
  "'v js_object \<Rightarrow> string js_object \<Rightarrow> string js_object option \<Rightarrow> string \<Rightarrow> 'v property" where
  "getPayloadConfigFromPayload config item datum key =
     (let k = config_label_key item datum key in if obj_in k config then obj_get config k else obj_get config key)"

definition legend_label :: "(string \<times> string) js_object \<Rightarrow> string js_object \<Rightarrow> string js_object option \<Rightarrow> string \<Rightarrow> string option" where
  "legend_label config item datum key =
     (case getPayloadConfigFromPayload config item datum key of Own (label, color) \<Rightarrow> Some label | _ \<Rightarrow> None)"

text \<open>The legend of the issuers: each item carries its datum.\<close>

definition issuer_legend :: "(chart_datum \<Rightarrow> string js_object) \<Rightarrow> TLSIssuerCount list \<Rightarrow> string option list" where
  "issuer_legend item issuers =
     map (\<lambda>d. legend_label (buildIssuerConfig issuers) (item d) (Some [(''issuer'', cd_issuer d), (''fill'', cd_fill d)]) ''issuer'')
       (issuerChartData issuers)"

text \<open>The cards: label, value, the line below, and whether the icon is highlighted.\<close>

definition weakProtoCount :: "TLSPostureReport \<Rightarrow> int" where
  "weakProtoCount r =
     (let p = tlsPostureReport_protocols r in tlsProtocolCounts_tls11 p + tlsProtocolCounts_tls10 p + tlsProtocolCounts_ssl30 p)"

definition selfSignedCount :: "TLSPostureReport \<Rightarrow> int" where
  "selfSignedCount r =
     (case find (\<lambda>i. tlsIssuerCount_issuer i = ''Self-signed'') (tlsPostureReport_issuers r) of
        None \<Rightarrow> 0
      | Some i \<Rightarrow> tlsIssuerCount_count i)"

definition posture_cards :: "TLSPostureReport option \<Rightarrow> (string \<times> int \<times> string option \<times> bool) list" where
  "posture_cards report =
     (let tls13Count = (case report of None \<Rightarrow> 0 | Some r \<Rightarrow> tlsProtocolCounts_tls13 (tlsPostureReport_protocols r));
          weak = (case report of None \<Rightarrow> 0 | Some r \<Rightarrow> weakProtoCount r);
          selfSigned = (case report of None \<Rightarrow> 0 | Some r \<Rightarrow> selfSignedCount r);
          weakCipherCount = (case report of None \<Rightarrow> 0 | Some r \<Rightarrow> tlsPostureReport_weakCipherEndpoints r);
          tot = (case report of None \<Rightarrow> 0 | Some r \<Rightarrow> tlsPostureReport_totalEndpoints r)
      in [(''TLS 1.3'', tls13Count,
           if tot > 0 then Some (show_int (percent_of tls13Count tot) @ ''% of endpoints'') else None, True),
          (''Weak protocol'', weak, Some ''Support SSL 3.0, TLS 1.0, or 1.1'', weak > 0),
          (''Self-signed'', selfSigned, Some ''No trusted CA'', selfSigned > 0),
          (''Weak ciphers'', weakCipherCount, Some ''Negotiated on at least one scan'', weakCipherCount > 0)])"

definition posture_heading :: "bool \<Rightarrow> TLSPostureReport option \<Rightarrow> string" where
  "posture_heading isLoading report =
     (let tot = (case report of None \<Rightarrow> 0 | Some r \<Rightarrow> tlsPostureReport_totalEndpoints r) in
      if isLoading then ''Loading'' @ ellipsis
      else ''Protocol versions, cipher suites, and certificate authorities across '' @ show_int tot @ '' ''
           @ plural tot ''endpoint'' None @ ''.'')"

text \<open>The table of cipher suites.\<close>

fun SeverityIndicator :: "TLSSeverity \<Rightarrow> string" where
  "SeverityIndicator SeverityCritical = ''Critical''"
| "SeverityIndicator SeverityWarning = ''Warning''"
| "SeverityIndicator SeverityOk = ''OK''"

fun severity_order :: "TLSSeverity \<Rightarrow> nat" where
  "severity_order SeverityCritical = 0"
| "severity_order SeverityWarning = 1"
| "severity_order SeverityOk = 2"

definition sortedCiphers :: "TLSCipherCount list \<Rightarrow> TLSCipherCount list" where
  "sortedCiphers ciphers = sort_key (\<lambda>c. (severity_order (tlsCipherCount_severity c), - tlsCipherCount_count c)) ciphers"

record cipher_view =
  cv_name :: string
  cv_link :: "(string \<times> string) option"
  cv_count :: int
  cv_severity :: string
  cv_note :: string

text \<open>A link comes with its accessible label. The card of small screens puts count and note in one line.\<close>

definition cipher_link :: "TLSCipherCount \<Rightarrow> (string \<times> string) option" where
  "cipher_link c =
     (if tlsCipherCount_count c > 0
      then Some (''/endpoints/host?cipher='' @ encodeURIComponent (tlsCipherCount_cipher c),
                 ''View '' @ show_int (tlsCipherCount_count c) @ '' '' @ plural (tlsCipherCount_count c) ''endpoint'' None
                 @ '' accepting '' @ tlsCipherCount_cipher c)
      else None)"

definition cipher_row :: "TLSCipherCount \<Rightarrow> cipher_view" where
  "cipher_row c =
     \<lparr>cv_name = tlsCipherCount_cipher c, cv_link = cipher_link c, cv_count = tlsCipherCount_count c,
      cv_severity = SeverityIndicator (tlsCipherCount_severity c), cv_note = nullish (tlsCipherCount_reason c) em_dash\<rparr>"

definition cipher_card_line :: "TLSCipherCount \<Rightarrow> string" where
  "cipher_card_line c =
     show_int (tlsCipherCount_count c) @ '' '' @ plural (tlsCipherCount_count c) ''endpoint'' None
     @ (if truthy (tlsCipherCount_reason c) then '' '' @ em_dash @ '' '' @ nullish (tlsCipherCount_reason c) [] else [])"

definition cipher_table :: "TLSPostureReport \<Rightarrow> cipher_view list option" where
  "cipher_table r =
     (if length (tlsPostureReport_ciphers r) > 0 then Some (map cipher_row (sortedCiphers (tlsPostureReport_ciphers r))) else None)"

text \<open>Endpoints needing attention: the count in the title and the rows (name, link, severity, issues).\<close>

definition attention_count :: "TLSPostureReport \<Rightarrow> string" where
  "attention_count r =
     (let n = int (length (tlsPostureReport_attention r)) in show_int n @ '' '' @ plural n ''endpoint'' None)"

definition attention_panel :: "TLSPostureReport \<Rightarrow> (string \<times> string \<times> string \<times> string list) panel" where
  "attention_panel r =
     (if length (tlsPostureReport_attention r) = 0 then PanelEmpty ''No issues found.''
      else PanelRows (map (\<lambda>item. (tlsAttentionItem_endpointName item, ''/endpoints/'' @ tlsAttentionItem_endpointId item,
             SeverityIndicator (tlsAttentionItem_severity item), tlsAttentionItem_issues item)) (tlsPostureReport_attention r)))"

text \<open>Opening a link of the report: the page of host endpoints reads the address, and asks the server for its first page.\<close>

definition opened_total ::
  "(string \<Rightarrow> string \<Rightarrow> bool) \<Rightarrow> client \<Rightarrow> EndpointList fetch_result \<Rightarrow> endpoint_row list \<Rightarrow> string \<Rightarrow> int option" where
  "opened_total ilike c answer db link =
     map_option (\<lambda>call. ListEndpoints_total ilike (address_query (call_url (fst (call c answer)))) db)
       (list_query HostEndpoint (endpoint_page_init (params_parse (address_query link))))"

text \<open>The overview of the reports (\<open>pages/ReportsPage.tsx\<close>): where a card leads, its title and its description.\<close>

definition REPORTS :: "(string \<times> string \<times> string) list" where
  "REPORTS =
     [(''/reports/tls-posture'', ''TLS Posture'',
       ''Protocol versions, cipher suites, and certificate authority breakdown across your fleet.'')]"

subsection \<open>A row of the report and the list it opens\<close>

lemma count_good_profiles:
  "count_where P (good_profiles db) = count_where (\<lambda>e. case good_profile e of None \<Rightarrow> False | Some p \<Rightarrow> P p) db"
  by (induction db) (auto simp: count_where_def good_profiles_def List.map_filter_simps split: option.split)

lemma count_where_cong: "(\<And>x. x \<in> set xs \<Longrightarrow> P x \<longleftrightarrow> Q x) \<Longrightarrow> count_where P xs = count_where Q xs"
  by (simp add: count_where_def cong: filter_cong)

lemma query_get_listEndpoints:
  "query_get (address_query (call_url (fst (listEndpoints p ps n s so t ty pr ci c a)))) k =
     nullish (query_value (endpoint_query p ps n s so t ty pr ci) k) []"
proof -
  have "call_url (fst (listEndpoints p ps n s so t ty pr ci c a)) =
      ''/api/v1/endpoints'' @ ''?'' @ endpoint_query p ps n s so t ty pr ci"
    by (simp add: listEndpoints_url BASE_def)
  moreover have "\<forall>c \<in> set ''/api/v1/endpoints''. c \<noteq> CHR ''?''" by simp
  ultimately show ?thesis by (simp only: address_query_append query_get_def query_value_def)
qed

lemma list_total:
  "ListEndpoints_total ilike (address_query (call_url (fst (listEndpoints p ps [] [] [] [] ty pr ci c a)))) db =
     count_where (endpoint_where ilike False [] [] [] (type_filter_string ty) (protocol_filter_string pr) ci) db"
  by (simp add: ListEndpoints_total_def query_get_listEndpoints endpoint_query_values or_undefined_def)

lemma opened_protocol:
  assumes "protocol_filter_string pr = slug" and "slug \<noteq> []"
  shows "opened_total ilike c a db (''/endpoints/host?protocol='' @ slug) =
    Some (count_where (endpoint_where ilike False [] [] [] ''host'' slug []) db)"
proof -
  have key: "encodeURIComponent ''protocol'' = ''protocol''" by (rule uri_plain) (simp add: char_eval)
  have slug: "encodeURIComponent slug = slug"
    unfolding assms(1) [symmetric] by (rule uri_plain) (cases pr; simp add: char_eval)
  have "address_query (''/endpoints/host'' @ ''?'' @ ''protocol='' @ slug) = ''protocol='' @ slug"
    by (rule address_query_append) simp
  then have "params_parse (address_query (''/endpoints/host?protocol='' @ slug)) = [(''protocol'', slug)]"
    using params_parse_uri_pair [OF key, of slug] slug by simp
  moreover have "list_query HostEndpoint (endpoint_page_init [(''protocol'', slug)]) =
      Some (listEndpoints 1 PAGE_SIZE [] [] [] [] HostType pr [])"
    using assms by (cases pr) (auto simp: list_query_def endpoint_page_init_def protocolFilter_def rawProtocol_def cipherFilter_def
        params_get_def obj_in_def PROTOCOL_LABEL_def as_ProtocolFilter_def)
  ultimately show ?thesis using assms(1) by (simp add: opened_total_def list_total)
qed

lemma opened_cipher:
  "opened_total ilike c a db (''/endpoints/host?cipher='' @ encodeURIComponent cipher) =
    Some (count_where (endpoint_where ilike False [] [] [] ''host'' [] cipher) db)"
proof -
  have enc: "encodeURIComponent ''cipher'' = ''cipher''" by (rule uri_plain) (simp add: char_eval)
  have "address_query (''/endpoints/host'' @ ''?'' @ ''cipher='' @ encodeURIComponent cipher) = ''cipher='' @ encodeURIComponent cipher"
    by (rule address_query_append) simp
  then have "params_parse (address_query (''/endpoints/host?cipher='' @ encodeURIComponent cipher)) = [(''cipher'', cipher)]"
    using params_parse_uri_pair [OF enc, of cipher] by simp
  moreover have "list_query HostEndpoint (endpoint_page_init [(''cipher'', cipher)]) =
      Some (listEndpoints 1 PAGE_SIZE [] [] [] [] HostType AnyProtocol cipher)"
    by (simp add: list_query_def endpoint_page_init_def protocolFilter_absent cipherFilter_def params_get_def as_ProtocolFilter_any)
  ultimately show ?thesis by (simp add: opened_total_def list_total)
qed

lemma where_host_protocol:
  assumes "\<forall>e \<in> set db. en_profile e \<noteq> None \<longrightarrow> en_type e = ''host''" and "validProtocolFilters slug = Some column"
  shows "count_where (endpoint_where ilike False [] [] [] ''host'' slug []) db = count_where column (good_profiles db)"
  unfolding count_good_profiles
  using assms by (intro count_where_cong) (auto simp: endpoint_where_def good_profile_def split: option.splits)

lemma where_host_cipher:
  assumes "\<forall>e \<in> set db. en_profile e \<noteq> None \<longrightarrow> en_type e = ''host''" and "cipher \<noteq> []"
  shows "count_where (endpoint_where ilike False [] [] [] ''host'' [] cipher) db = count_where (accepts_cipher cipher) (good_profiles db)"
  unfolding count_good_profiles
  using assms
  by (intro count_where_cong) (auto simp: endpoint_where_def good_profile_def validProtocolFilters_def split: option.splits)

lemma protocol_bar_link:
  assumes hosts: "\<forall>e \<in> set db. en_profile e \<noteq> None \<longrightarrow> en_type e = ''host''"
    and bar: "bar \<in> set (protocol_bars (GetTLSPostureReport sev reason db certs))"
  shows "case pb_link bar of None \<Rightarrow> pb_count bar = 0 | Some link \<Rightarrow> opened_total ilike c a db link = Some (pb_count bar)"
proof -
  have "\<exists>pr \<in> {Ssl30, Tls10, Tls11, Tls12, Tls13}.
      (case validProtocolFilters (protocol_filter_string pr) of
         None \<Rightarrow> False | Some column \<Rightarrow> pb_count bar = count_where column (good_profiles db))
      \<and> pb_link bar = (if pb_count bar = 0 then None else Some (''/endpoints/host?protocol='' @ protocol_filter_string pr))"
    using bar
    by (simp add: protocol_bars_def protocolChartData_def GetTLSPostureReport_def report_protocols_def validProtocolFilters_def Let_def)
      (elim disjE; simp)
  then obtain pr where pr: "pr \<in> {Ssl30, Tls10, Tls11, Tls12, Tls13}"
      "case validProtocolFilters (protocol_filter_string pr) of
         None \<Rightarrow> False | Some column \<Rightarrow> pb_count bar = count_where column (good_profiles db)"
      "pb_link bar = (if pb_count bar = 0 then None else Some (''/endpoints/host?protocol='' @ protocol_filter_string pr))"
    by (elim bexE conjE)
  obtain column where "validProtocolFilters (protocol_filter_string pr) = Some column"
      "pb_count bar = count_where column (good_profiles db)"
    using pr(2) by (cases "validProtocolFilters (protocol_filter_string pr)") simp_all
  moreover have "protocol_filter_string pr \<noteq> []" using pr(1) by (cases pr) simp_all
  ultimately show ?thesis using pr(3) opened_protocol [OF refl] where_host_protocol [OF hosts] by simp
qed

lemma cipher_row_link:
  assumes hosts: "\<forall>e \<in> set db. en_profile e \<noteq> None \<longrightarrow> en_type e = ''host''"
    and named: "\<forall>p \<in> set (good_profiles db). [] \<notin> set (pr_cipherSuites p)"
    and row: "x \<in> set (tlsPostureReport_ciphers (GetTLSPostureReport sev reason db certs))"
  shows "case cv_link (cipher_row x) of
      None \<Rightarrow> cv_count (cipher_row x) = 0
    | Some (link, label) \<Rightarrow> opened_total ilike c a db link = Some (cv_count (cipher_row x))"
proof -
  have "tlsCipherCount_count x = count_where (accepts_cipher (tlsCipherCount_cipher x)) (good_profiles db)"
    and "tlsCipherCount_cipher x \<noteq> []"
    using row named by (auto simp: GetTLSPostureReport_def report_ciphers_def)
  then show ?thesis
    using opened_cipher where_host_cipher [OF hosts, of "tlsCipherCount_cipher x"]
    by (auto simp: cipher_row_def cipher_link_def count_where_def)
qed


definition posture_row :: "string \<Rightarrow> bool \<Rightarrow> bool \<Rightarrow> string list \<Rightarrow> endpoint_row" where
  "posture_row eid enabled legacy ciphers =
     \<lparr>en_id = eid, en_name = eid, en_dnsName = eid, en_type = ''host'', en_enabled = enabled, en_lastScanError = None, en_tagIds = [],
      en_profile = Some \<lparr>pr_tls10 = legacy, pr_tls11 = legacy, pr_tls12 = True, pr_tls13 = False, pr_ssl30 = False,
                         pr_cipherSuites = ciphers, pr_scanError = None\<rparr>\<rparr>"

definition example_table :: "endpoint_row list" where
  "example_table = [posture_row ''a'' True True [''AES'', ''RC4 & MD5''], posture_row ''b'' False False [''AES'']]"

lemmas example_defs = example_table_def posture_row_def good_profiles_def good_profile_def count_where_def List.map_filter_simps

lemmas example_bars = protocol_bars_def protocolChartData_def GetTLSPostureReport_def report_protocols_def percent_of_def example_defs


text \<open>An endpoint that is turned from host to SAML keeps its profile: it still counts on the bar, but no list shows it.\<close>

lemma type_change_breaks_drill_down:
  assumes "good_profile e = Some p" and "pr_tls12 p" and "en_id e = eid"
  shows "count_where pr_tls12 (good_profiles (UpdateEndpoint_type eid ''saml'' dns [e])) = 1
    \<and> opened_total ilike c a (UpdateEndpoint_type eid ''saml'' dns [e]) ''/endpoints/host?protocol=tls12'' = Some 0"
proof -
  have kept: "good_profile (e\<lparr>en_type := t, en_dnsName := d\<rparr>) = good_profile e" for t d by (simp add: good_profile_def)
  have "opened_total ilike c a db (''/endpoints/host?protocol='' @ ''tls12'') =
      Some (count_where (endpoint_where ilike False [] [] [] ''host'' ''tls12'' []) db)" for db
    by (rule opened_protocol [of Tls12]) simp_all
  then show ?thesis
    using assms by (simp add: UpdateEndpoint_type_def good_profiles_def List.map_filter_simps count_where_def endpoint_where_def kept)
qed

subsection \<open>Endpoints needing attention\<close>

lemma count_where_pos: "count_where P xs > 0 \<longleftrightarrow> (\<exists>x \<in> set xs. P x)"
  by (auto simp: count_where_def filter_empty_conv)

lemma attention_issues_none:
  "allAttentionIssues sev ssl30 tls10 tls11 ciphers = None \<longleftrightarrow>
     \<not> ssl30 \<and> \<not> tls10 \<and> \<not> tls11 \<and> (\<forall>c \<in> set ciphers. sev c = SeverityOk)"
proof -
  have "sev c = SeverityOk \<longleftrightarrow> sev c \<noteq> SeverityCritical \<and> sev c \<noteq> SeverityWarning" for c by (cases "sev c") simp_all
  then show ?thesis unfolding allAttentionIssues_def Let_def count_where_pos by auto
qed

lemma attention_severity:
  "allAttentionIssues sev ssl30 tls10 tls11 ciphers = Some (issues, worst) \<Longrightarrow>
     worst = (if ssl30 \<or> tls10 \<or> (\<exists>c \<in> set ciphers. sev c = SeverityCritical) then SeverityCritical else SeverityWarning)"
  unfolding allAttentionIssues_def Let_def count_where_pos by (auto split: if_splits)

lemma set_map_filter_iff: "set (List.map_filter f xs) = {y. \<exists>x \<in> set xs. f x = Some y}"
  by (force simp: List.map_filter_def)

lemma set_scan_rows: "set (scan_rows db) = {(e, p). e \<in> set db \<and> en_enabled e \<and> good_profile e = Some p}"
  by (auto simp: scan_rows_def set_map_filter_iff split: if_splits)

text \<open>The reference: which profiles are bad, and how bad.\<close>

definition needs_attention :: "(string \<Rightarrow> TLSSeverity) \<Rightarrow> endpoint_row \<Rightarrow> tls_profile \<Rightarrow> bool" where
  "needs_attention sev e p \<longleftrightarrow> en_enabled e \<and> good_profile e = Some p \<and> (legacy_profile p \<or> has_weak_cipher sev p)"

definition worst_concern :: "(string \<Rightarrow> TLSSeverity) \<Rightarrow> tls_profile \<Rightarrow> TLSSeverity" where
  "worst_concern sev p =
     (if pr_ssl30 p \<or> pr_tls10 p \<or> (\<exists>c \<in> set (pr_cipherSuites p). sev c = SeverityCritical) then SeverityCritical
      else SeverityWarning)"

lemma attention_item_iff:
  assumes "en_enabled e" and "good_profile e = Some p"
  shows "(\<exists>item. attention_item sev (e, p) = Some item) \<longleftrightarrow> needs_attention sev e p"
    and "attention_item sev (e, p) = Some item \<Longrightarrow> tlsAttentionItem_endpointId item = en_id e
      \<and> tlsAttentionItem_endpointName item = en_name e \<and> tlsAttentionItem_severity item = worst_concern sev p"
proof -
  have "has_weak_cipher sev p \<longleftrightarrow> \<not> (\<forall>c \<in> set (pr_cipherSuites p). sev c = SeverityOk)"
    by (auto simp: has_weak_cipher_def list_ex_iff)
  then show "(\<exists>item. attention_item sev (e, p) = Some item) \<longleftrightarrow> needs_attention sev e p"
    using assms attention_issues_none [of sev "pr_ssl30 p" "pr_tls10 p" "pr_tls11 p" "pr_cipherSuites p"]
    by (auto simp: attention_item_def needs_attention_def legacy_profile_def)
  show "attention_item sev (e, p) = Some item \<Longrightarrow> tlsAttentionItem_endpointId item = en_id e
      \<and> tlsAttentionItem_endpointName item = en_name e \<and> tlsAttentionItem_severity item = worst_concern sev p"
    using attention_severity by (fastforce simp: attention_item_def worst_concern_def)
qed

lemma needs_attention_item:
  "needs_attention sev e p \<longleftrightarrow> en_enabled e \<and> good_profile e = Some p \<and> (\<exists>item. attention_item sev (e, p) = Some item)"
  using attention_item_iff(1) [of e p sev] by (auto simp: needs_attention_def)

lemma set_attention:
  "set (tlsPostureReport_attention (GetTLSPostureReport sev reason db certs)) =
     {item. \<exists>e \<in> set db. \<exists>p. needs_attention sev e p \<and> attention_item sev (e, p) = Some item}"
  unfolding GetTLSPostureReport_def TLSPostureReport.simps set_map_filter_iff set_scan_rows needs_attention_item by auto

definition attention_rows :: "TLSPostureReport \<Rightarrow> (string \<times> string \<times> string) set" where
  "attention_rows r =
     (case attention_panel r of PanelRows rows \<Rightarrow> (\<lambda>(name, link, severity, issues). (name, link, severity)) ` set rows | _ \<Rightarrow> {})"

lemma attention_rows_items:
  "attention_rows r =
     (\<lambda>i. (tlsAttentionItem_endpointName i, ''/endpoints/'' @ tlsAttentionItem_endpointId i,
           SeverityIndicator (tlsAttentionItem_severity i))) ` set (tlsPostureReport_attention r)"
  by (auto simp: attention_rows_def attention_panel_def image_image)

text \<open>The attention list shows exactly the enabled endpoints whose last scan worked and that accept a deprecated protocol
  or a cipher suite that is not classified as fine. An entry is critical exactly when the endpoint accepts SSL 3.0, TLS 1.0 or
  a critical cipher suite, a warning otherwise, and the page says that there are no issues only when there are none.\<close>

lemma attention_list_exact:
  "attention_rows (GetTLSPostureReport sev reason db certs) =
     {(en_name e, ''/endpoints/'' @ en_id e, SeverityIndicator (worst_concern sev p)) | e p. e \<in> set db \<and> needs_attention sev e p}
   \<and> (attention_panel (GetTLSPostureReport sev reason db certs) = PanelEmpty ''No issues found.'') =
       (\<not> (\<exists>e \<in> set db. \<exists>p. needs_attention sev e p))"
proof -
  let ?r = "GetTLSPostureReport sev reason db certs"
  let ?shown = "\<lambda>i. (tlsAttentionItem_endpointName i, ''/endpoints/'' @ tlsAttentionItem_endpointId i,
      SeverityIndicator (tlsAttentionItem_severity i))"
  let ?expected = "\<lambda>e p. (en_name e, ''/endpoints/'' @ en_id e, SeverityIndicator (worst_concern sev p))"
  have item: "\<exists>i. attention_item sev (e, p) = Some i" if "needs_attention sev e p" for e p
    using that by (simp add: needs_attention_item)
  have shown: "?shown i = ?expected e p" if "needs_attention sev e p" "attention_item sev (e, p) = Some i" for e p i
    using that attention_item_iff(2) [of e p sev i] by (simp add: needs_attention_def)
  have "?shown ` {i. \<exists>e \<in> set db. \<exists>p. needs_attention sev e p \<and> attention_item sev (e, p) = Some i}
      = {?expected e p | e p. e \<in> set db \<and> needs_attention sev e p}" (is "?A = ?B")
  proof (intro equalityI subsetI)
    fix x assume "x \<in> ?A"
    then obtain e p i where "e \<in> set db" "needs_attention sev e p" "attention_item sev (e, p) = Some i" "x = ?shown i" by blast
    then show "x \<in> ?B" using shown by blast
  next
    fix x assume "x \<in> ?B"
    then obtain e p where ep: "e \<in> set db" "needs_attention sev e p" and x: "x = ?expected e p" by blast
    then obtain i where i: "attention_item sev (e, p) = Some i" using item by blast
    show "x \<in> ?A" unfolding x using shown [OF ep(2) i, symmetric] ep i by blast
  qed
  then have "attention_rows ?r = {?expected e p | e p. e \<in> set db \<and> needs_attention sev e p}"
    by (simp only: attention_rows_items set_attention)
  moreover have "attention_panel ?r = PanelEmpty ''No issues found.'' \<longleftrightarrow> set (tlsPostureReport_attention ?r) = {}"
    by (simp add: attention_panel_def)
  ultimately show ?thesis unfolding set_attention using item by blast
qed

subsection \<open>The counts\<close>

text \<open>The card of weak protocols adds the three bars, so an endpoint counts up to three times; the dashboard counts it once.\<close>

lemma count_where_or:
  "count_where (\<lambda>x. P x \<or> Q x) xs \<le> count_where P xs + count_where Q xs"
  "count_where P xs \<le> count_where (\<lambda>x. P x \<or> Q x) xs"
  "count_where Q xs \<le> count_where (\<lambda>x. P x \<or> Q x) xs"
  by (induction xs) (auto simp: count_where_def)

lemma weak_protocol_counts:
  fixes db sev reason certs
  shows "tlsPostureReport_legacyEndpoints (GetTLSPostureReport sev reason db certs)
           \<le> weakProtoCount (GetTLSPostureReport sev reason db certs)
       \<and> weakProtoCount (GetTLSPostureReport sev reason db certs)
           \<le> 3 * tlsPostureReport_legacyEndpoints (GetTLSPostureReport sev reason db certs)"
proof -
  let ?ps = "good_profiles db"
  let ?old = "\<lambda>p. pr_tls10 p \<or> pr_tls11 p"
  have legacy: "legacy_profile = (\<lambda>p. pr_ssl30 p \<or> ?old p)" by (auto simp: legacy_profile_def)
  show ?thesis
    using count_where_or [where P = pr_ssl30 and Q = ?old and xs = ?ps] count_where_or [where P = pr_tls10 and Q = pr_tls11 and xs = ?ps]
    by (simp add: weakProtoCount_def GetTLSPostureReport_def report_protocols_def legacy)
qed

lemma weak_protocol_counted_twice:
  "weakProtoCount (GetTLSPostureReport sev reason [posture_row ''a'' True True []] []) = 2"
  "tlsPostureReport_legacyEndpoints (GetTLSPostureReport sev reason [posture_row ''a'' True True []] []) = 1"
  by (simp_all add: weakProtoCount_def GetTLSPostureReport_def report_protocols_def good_profiles_def good_profile_def
      posture_row_def count_where_def legacy_profile_def List.map_filter_simps)

text \<open>The bars count disabled endpoints, the whole they are a share of does not: a share can exceed 100 percent.\<close>

lemma protocol_share_above_100:
  "pb_pct (protocol_bars (GetTLSPostureReport (\<lambda>_. SeverityOk) (\<lambda>_. []) example_table []) ! 1) = 200"
  by (simp add: example_bars)

text \<open>No weak cipher suite without an entry in the attention list.\<close>

lemma length_map_filter: "length (List.map_filter f xs) = length (filter (\<lambda>x. f x \<noteq> None) xs)"
  by (induction xs) (auto simp: List.map_filter_simps split: option.split)

lemma weak_cipher_endpoints_listed:
  "tlsPostureReport_weakCipherEndpoints (GetTLSPostureReport sev reason db certs)
     \<le> int (length (tlsPostureReport_attention (GetTLSPostureReport sev reason db certs)))"
proof -
  have "filter (\<lambda>r. has_weak_cipher sev (snd r)) (scan_rows db)
      = filter (\<lambda>r. has_weak_cipher sev (snd r)) (filter (\<lambda>r. attention_item sev r \<noteq> None) (scan_rows db))"
    using attention_item_iff(1) [of _ _ sev]
    by (auto simp: set_scan_rows needs_attention_def intro!: filter_cong)
  then have "length (filter (\<lambda>r. has_weak_cipher sev (snd r)) (scan_rows db))
      \<le> length (filter (\<lambda>r. attention_item sev r \<noteq> None) (scan_rows db))"
    by (metis length_filter_le)
  then show ?thesis by (simp add: GetTLSPostureReport_def count_where_def length_map_filter)
qed

subsection \<open>The issuer chart\<close>

text \<open>The configuration of the chart is keyed by position, the legend looks an issuer up by its name: no item gets a label, unless
  an issuer happens to be called like a key.\<close>

lemma config_keys: "map_of (buildIssuerConfig issuers) k \<noteq> None \<Longrightarrow> \<exists>i < 5. k = ''issuer'' @ show_int (int i)"
  by (force simp: buildIssuerConfig_def enumerate_eq_zip dest!: map_of_SomeD dest: set_zip_leftD)

lemma issuer_legend_unlabelled:
  assumes "\<forall>d. map_of (item d) ''issuer'' = None"
    and "\<forall>r \<in> set issuers. \<forall>i < 5. tlsIssuerCount_issuer r \<noteq> ''issuer'' @ show_int (int i)"
  shows "set (issuer_legend item issuers) \<subseteq> {None}"
proof -
  have "show_int (int i) \<noteq> []" if "i < 5" for i :: nat by (simp add: show_int_def)
  then have "map_of (buildIssuerConfig issuers) ''issuer'' = None"
    using config_keys [of issuers "''issuer''"] by fastforce
  moreover have "map_of (buildIssuerConfig issuers) (cd_issuer d) = None" if "d \<in> set (issuerChartData issuers)" for d
  proof -
    have "\<exists>r \<in> set issuers. cd_issuer d = tlsIssuerCount_issuer r"
      using that by (force simp: issuerChartData_def enumerate_eq_zip dest: set_zip_rightD in_set_takeD)
    then show ?thesis using config_keys [of issuers "cd_issuer d"] assms(2) by fastforce
  qed
  ultimately show ?thesis
    using assms(1)
    by (auto simp: issuer_legend_def legend_label_def getPayloadConfigFromPayload_def config_label_key_def Let_def obj_get_def
        split: property.splits if_splits)
qed

subsection \<open>The order of the cipher table\<close>

lemma sortedCiphers_order:
  "mset (sortedCiphers cs) = mset cs"
  "sorted_wrt (\<lambda>c d. severity_order (tlsCipherCount_severity c) < severity_order (tlsCipherCount_severity d)
     \<or> (tlsCipherCount_severity c = tlsCipherCount_severity d \<and> tlsCipherCount_count c \<ge> tlsCipherCount_count d)) (sortedCiphers cs)"
proof -
  have inj: "severity_order s = severity_order t \<longleftrightarrow> s = t" for s t by (cases s; cases t) simp_all
  have "sorted (map (\<lambda>c. (severity_order (tlsCipherCount_severity c), - tlsCipherCount_count c)) (sortedCiphers cs))"
    unfolding sortedCiphers_def by (rule sorted_sort_key)
  then show "sorted_wrt (\<lambda>c d. severity_order (tlsCipherCount_severity c) < severity_order (tlsCipherCount_severity d)
     \<or> (tlsCipherCount_severity c = tlsCipherCount_severity d \<and> tlsCipherCount_count c \<ge> tlsCipherCount_count d)) (sortedCiphers cs)"
    by (auto simp: sorted_map less_eq_prod_def inj elim!: sorted_wrt_mono_rel [rotated])
  show "mset (sortedCiphers cs) = mset cs" by (simp add: sortedCiphers_def)
qed

end
