(* ===== verification/MonitorList.thy ===== *)
theory MonitorList
  imports Reports CertificateList
begin

section \<open>The list of active certificates (\<open>pages/monitor/MonitorListView.tsx\<close>, \<open>MonitorPage.tsx\<close>)\<close>

text \<open>
  The state of the list, its rows, the server's query behind it (\<open>internal/db/certificates_store.go\<close>), and the page that
  switches between list and calendar. The date format of the browser is the parameter \<open>fmtDate\<close>; the matching of search texts
  and the order of texts are the database's (\<open>ilike\<close>, \<open>collate\<close>).
\<close>

subsection \<open>State and handlers\<close>

record monitor_list =
  ml_page :: int
  ml_search :: string
  ml_debouncedSearch :: string
  ml_statusFilter :: string
  ml_sortOption :: string
  ml_tagFilter :: string

definition monitor_list_init :: monitor_list where
  "monitor_list_init =
     \<lparr>ml_page = 1, ml_search = [], ml_debouncedSearch = [], ml_statusFilter = [], ml_sortOption = [], ml_tagFilter = []\<rparr>"

definition monitor_status_options :: "(string \<times> string) list" where
  "monitor_status_options =
     [([], ''All''), (''expired'', ''Expired''), (''critical'', ''Critical ('' @ at_most @ ''7d)''),
      (''warning'', ''Warning ('' @ at_most @ ''30d)''), (''ok'', ''OK'')]"

definition monitor_sort_options :: "(string \<times> string) list" where
  "monitor_sort_options =
     [([], ''Expiring soonest''), (''days_desc'', ''Most time left''), (''endpoint_name'', ''Endpoint name A'' @ arrow @ ''Z''),
      (''common_name'', ''Common name A'' @ arrow @ ''Z'')]"

definition monitor_timer :: "monitor_list \<Rightarrow> monitor_list" where
  "monitor_timer s = s\<lparr>ml_debouncedSearch := ml_search s, ml_page := 1\<rparr>"

definition monitor_handleStatusChange :: "string \<Rightarrow> monitor_list \<Rightarrow> monitor_list" where
  "monitor_handleStatusChange v s = s\<lparr>ml_statusFilter := v, ml_page := 1\<rparr>"

definition monitor_handleSortChange :: "string \<Rightarrow> monitor_list \<Rightarrow> monitor_list" where
  "monitor_handleSortChange v s = s\<lparr>ml_sortOption := v, ml_page := 1\<rparr>"

definition monitor_handleTagChange :: "string \<Rightarrow> monitor_list \<Rightarrow> monitor_list" where
  "monitor_handleTagChange tagId s = s\<lparr>ml_tagFilter := tagId, ml_page := 1\<rparr>"

datatype monitor_event =
    MonitorTyped string | MonitorTimer | MonitorStatus string | MonitorSort string | MonitorTag string | MonitorTurn int page_button

fun monitor_step :: "monitor_event \<Rightarrow> monitor_list \<Rightarrow> monitor_list" where
  "monitor_step (MonitorTyped v) s = s\<lparr>ml_search := v\<rparr>"
| "monitor_step MonitorTimer s = monitor_timer s"
| "monitor_step (MonitorStatus v) s = monitor_handleStatusChange v s"
| "monitor_step (MonitorSort v) s = monitor_handleSortChange v s"
| "monitor_step (MonitorTag t) s = monitor_handleTagChange t s"
| "monitor_step (MonitorTurn tot b) s = s\<lparr>ml_page := turn_page tot b (ml_page s)\<rparr>"

definition monitor_query :: "monitor_list \<Rightarrow> ExpiringCertList api_call" where
  "monitor_query s =
     listActive (ml_page s) PAGE_SIZE (ml_debouncedSearch s) (ml_statusFilter s) (ml_sortOption s) (ml_tagFilter s)"

subsection \<open>Rows\<close>

definition monitor_TYPE_STYLE :: "string js_object" where
  "monitor_TYPE_STYLE =
     [(''host'', ''bg-muted text-blue-500 dark:text-blue-400''), (''saml'', ''bg-muted text-purple-500 dark:text-purple-400''),
      (''manual'', ''bg-muted text-muted-foreground'')]"

definition monitor_TYPE_LABEL :: "string js_object" where
  "monitor_TYPE_LABEL = [(''host'', ''Host''), (''saml'', ''SAML''), (''manual'', ''Manual'')]"

text \<open>The style and the text of a type; an inherited member would be shown as the function it is.\<close>

definition property_or :: "'v property \<Rightarrow> 'v \<Rightarrow> 'v property" where
  "property_or p d = (case p of Undefined \<Rightarrow> Own d | _ \<Rightarrow> p)"

definition TypeBadge :: "string \<Rightarrow> string property \<times> string property" where
  "TypeBadge typ =
     (property_or (obj_get monitor_TYPE_STYLE typ) ''bg-muted text-muted-foreground'', property_or (obj_get monitor_TYPE_LABEL typ) typ)"

definition MonitorTagChips :: "string \<Rightarrow> TagWithCategory list \<Rightarrow> tag_chip list option" where
  "MonitorTagChips tagFilter tags = (if length tags = 0 then None else Some (TagChips tagFilter tags))"

definition ActiveActionsMenu :: "ExpiringCertItem \<Rightarrow> (string \<times> menu_action) list" where
  "ActiveActionsMenu item =
     [(''View Endpoint'', NavigateTo (''/endpoints/'' @ expiringCertItem_endpointId item)),
      (''View Certificate'', NavigateTo (''/certificates/'' @ expiringCertItem_fingerprint item))]"

record active_view =
  av_endpoint :: "string \<times> string"
  av_type :: "string property \<times> string property"
  av_certificate :: "string \<times> string"
  av_issuer :: string
  av_expires :: string
  av_badge :: badge
  av_tags :: "tag_chip list option"
  av_menu :: "(string \<times> menu_action) list"

definition ActiveRow :: "(string \<Rightarrow> string) \<Rightarrow> int \<Rightarrow> string \<Rightarrow> ExpiringCertItem \<Rightarrow> active_view" where
  "ActiveRow fmtDate now tagFilter item =
     \<lparr>av_endpoint = (expiringCertItem_endpointName item, ''/endpoints/'' @ expiringCertItem_endpointId item),
      av_type = TypeBadge (expiringCertItem_endpointType item),
      av_certificate = (expiringCertItem_commonName item, ''/certificates/'' @ expiringCertItem_fingerprint item),
      av_issuer = (if expiringCertItem_issuerCn item = [] then em_dash else expiringCertItem_issuerCn item),
      av_expires = fmtDate (expiringCertItem_notAfter item),
      av_badge = DaysLeftBadge_monitor now (expiringCertItem_notAfter item),
      av_tags = MonitorTagChips tagFilter (expiringCertItem_tags item), av_menu = ActiveActionsMenu item\<rparr>"

definition ActiveCard :: "(string \<Rightarrow> string) \<Rightarrow> int \<Rightarrow> string \<Rightarrow> ExpiringCertItem \<Rightarrow> active_view" where
  "ActiveCard fmtDate now tagFilter item =
     \<lparr>av_endpoint = (expiringCertItem_endpointName item, ''/endpoints/'' @ expiringCertItem_endpointId item),
      av_type = TypeBadge (expiringCertItem_endpointType item),
      av_certificate = (expiringCertItem_commonName item, ''/certificates/'' @ expiringCertItem_fingerprint item),
      av_issuer = (if expiringCertItem_issuerCn item = [] then em_dash else expiringCertItem_issuerCn item),
      av_expires = fmtDate (expiringCertItem_notAfter item),
      av_badge = DaysLeftBadge_monitor now (expiringCertItem_notAfter item),
      av_tags = MonitorTagChips tagFilter (expiringCertItem_tags item), av_menu = ActiveActionsMenu item\<rparr>"

text \<open>React's key of a row.\<close>

definition active_key :: "ExpiringCertItem \<Rightarrow> string" where
  "active_key item = expiringCertItem_endpointId item @ ''-'' @ expiringCertItem_fingerprint item"

definition monitor_activeTag :: "CategoryWithTags list \<Rightarrow> monitor_list \<Rightarrow> (Tag \<times> string) option" where
  "monitor_activeTag categories s = find (\<lambda>(t, _). tag_id t = ml_tagFilter s) (allTags categories)"

text \<open>The menu of tags, when there are any: the entry for all tags, then the categories.\<close>

definition monitor_tag_menu ::
  "CategoryWithTags list \<Rightarrow> monitor_list \<Rightarrow> (bool \<times> (string \<times> (string \<times> bool \<times> string) list) list) option" where
  "monitor_tag_menu categories s =
     (if length (allTags categories) > 0
      then Some (ml_tagFilter s = [],
             map (\<lambda>cat. (tagCategory_name cat,
                          map (\<lambda>t. (tag_name t, ml_tagFilter s = tag_id t, tag_id t)) (categoryWithTags_tags cat))) categories)
      else None)"

definition monitor_chip :: "CategoryWithTags list \<Rightarrow> monitor_list \<Rightarrow> string option" where
  "monitor_chip categories s = map_option (\<lambda>(t, category). category @ '':'' @ tag_name t) (monitor_activeTag categories s)"

definition monitor_body ::
  "(string \<Rightarrow> string) \<Rightarrow> int \<Rightarrow> bool \<Rightarrow> ExpiringCertItem list \<Rightarrow> monitor_list \<Rightarrow> active_view panel" where
  "monitor_body fmtDate now isLoading items s =
     (if isLoading then PanelLoading
      else if length items = 0 then
        PanelEmpty (if ml_debouncedSearch s \<noteq> [] \<or> ml_statusFilter s \<noteq> [] then ''No certificates match your filters.''
                    else ''No endpoints with active certificates yet.'')
      else PanelRows (map (ActiveRow fmtDate now (ml_tagFilter s)) items))"

definition monitor_footer :: "int \<Rightarrow> monitor_list \<Rightarrow> (int \<times> int \<times> int \<times> string) option" where
  "monitor_footer totalCount s = page_footer ''certificate'' (ml_page s) totalCount"

subsection \<open>The server's query\<close>

text \<open>A row of the view of active certificates comes with the time its certificate expires.\<close>

type_synonym active_cert = "ExpiringCertItem \<times> int"

definition days_remaining :: "int \<Rightarrow> active_cert \<Rightarrow> int" where
  "days_remaining now r = (snd r - now) div day_ms"

definition active_status_where :: "int \<Rightarrow> string \<Rightarrow> bool" where
  "active_status_where days status =
     (if status = ''expired'' then days < 0
      else if status = ''critical'' then days \<ge> 0 \<and> days \<le> 7
      else if status = ''warning'' then days \<ge> 8 \<and> days \<le> 30
      else if status = ''ok'' then days > 30
      else True)"

definition active_where ::
  "(string \<Rightarrow> string \<Rightarrow> bool) \<Rightarrow> int \<Rightarrow> string \<Rightarrow> string \<Rightarrow> string \<Rightarrow> active_cert \<Rightarrow> bool" where
  "active_where ilike now search status tagID r \<longleftrightarrow>
     (search \<noteq> [] \<longrightarrow> ilike search (expiringCertItem_endpointName (fst r)) \<or> ilike search (expiringCertItem_commonName (fst r)))
     \<and> active_status_where (days_remaining now r) status
     \<and> (tagID \<noteq> [] \<longrightarrow> (\<exists>t \<in> set (expiringCertItem_tags (fst r)). tagWithCategory_id t = tagID))"

definition active_order :: "(string \<Rightarrow> int) \<Rightarrow> int \<Rightarrow> string \<Rightarrow> active_cert list \<Rightarrow> active_cert list" where
  "active_order collate now sortBy =
     (if sortBy = ''days_desc'' then sort_key (\<lambda>r. - days_remaining now r)
      else if sortBy = ''endpoint_name'' then sort_key (\<lambda>r. collate (expiringCertItem_endpointName (fst r)))
      else if sortBy = ''common_name'' then sort_key (\<lambda>r. collate (expiringCertItem_commonName (fst r)))
      else sort_key (days_remaining now))"

text \<open>The rows the handler answers from; a page is a part of them, the total their number.\<close>

definition ListAllActiveCerts ::
  "(string \<Rightarrow> string \<Rightarrow> bool) \<Rightarrow> (string \<Rightarrow> int) \<Rightarrow> int \<Rightarrow> string \<Rightarrow> active_cert list \<Rightarrow> active_cert list" where
  "ListAllActiveCerts ilike collate now qs rows =
     active_order collate now (query_get qs ''sort'')
       (filter (active_where ilike now (query_get qs ''name'') (query_get qs ''status'') (query_get qs ''tag_id'')) rows)"

text \<open>The status filter of the other list, that of all certificates, on the time a certificate expires.\<close>

definition certificate_status_where :: "int \<Rightarrow> int \<Rightarrow> string \<Rightarrow> bool" where
  "certificate_status_where now t status =
     (if status = ''expired'' then t < now
      else if status = ''critical'' then t \<ge> now \<and> t < now + 7 * day_ms
      else if status = ''warning'' then t \<ge> now + 7 * day_ms \<and> t < now + 30 * day_ms
      else if status = ''ok'' then t \<ge> now + 30 * day_ms
      else True)"

subsection \<open>List and calendar\<close>

datatype monitor_view = ListView | CalendarView

definition isView :: "string option \<Rightarrow> bool" where
  "isView v \<longleftrightarrow> v = Some ''list'' \<or> v = Some ''calendar''"

definition monitor_view_of :: "search_params \<Rightarrow> monitor_view" where
  "monitor_view_of ps =
     (let raw = params_get ps ''view'' in if isView raw \<and> raw = Some ''calendar'' then CalendarView else ListView)"

fun setView :: "monitor_view \<Rightarrow> search_params \<Rightarrow> search_params" where
  "setView ListView ps = params_delete ''view'' ps"
| "setView CalendarView ps = params_set ''view'' ''calendar'' ps"

definition MonitorPage :: "search_params \<Rightarrow> (string \<times> bool) list \<times> string" where
  "MonitorPage ps =
     ([(''List'', monitor_view_of ps = ListView), (''Calendar'', monitor_view_of ps = CalendarView)],
      if monitor_view_of ps = ListView then ''MonitorListView'' else ''MonitorCalendarView'')"

lemma view_follows_click:
  "monitor_view_of (setView v ps) = v"
  "k \<noteq> ''view'' \<Longrightarrow> params_get (setView v ps) k = params_get ps k"
  by (cases v; simp add: monitor_view_of_def isView_def params_get_delete params_get_set)+

lemma row_and_card_agree: "ActiveRow = ActiveCard"
  by (intro ext) (simp add: ActiveRow_def ActiveCard_def)

subsection \<open>The status filter and the badges\<close>

text \<open>What a badge says, in the words of the filter.\<close>

definition badge_bucket :: "badge \<Rightarrow> string" where
  "badge_bucket b =
     (if badge_text b = ''EXPIRED'' then ''expired''
      else if badge_tone b = RedTone then ''critical''
      else if badge_tone b = AmberTone then ''warning'' else ''ok'')"

lemma badge_bucket_days:
  assumes "date_parse notAfter = Some t"
  shows "badge_bucket (DaysLeftBadge_monitor now notAfter) = status \<longleftrightarrow>
    status \<in> {''expired'', ''critical'', ''warning'', ''ok''} \<and> active_status_where ((t - now) div day_ms) status"
proof -
  let ?d = "(t - now) div day_ms"
  have d: "days_left now notAfter = Some ?d" using assms by (simp add: days_left_def)
  have "badge_bucket (DaysLeftBadge_monitor now notAfter) =
      (if ?d < 0 then ''expired'' else if ?d \<le> 7 then ''critical'' else if ?d \<le> 30 then ''warning'' else ''ok'')"
    using day_texts_not_expired(2) [of "Some ?d"]
    by (simp add: badge_bucket_def DaysLeftBadge_monitor_def d del: show_num.simps)
  then show ?thesis unfolding active_status_where_def by auto
qed

lemma set_active_order [simp]: "set (active_order collate now sortBy rows) = set rows"
  by (simp add: active_order_def)

lemma monitor_query_get:
  "query_get (address_query (call_url (fst (monitor_query s c a)))) k =
     (if k = ''page'' then show_int (ml_page s) else if k = ''page_size'' then show_int PAGE_SIZE
      else nullish (map_of [(''name'', ml_debouncedSearch s), (''status'', ml_statusFilter s), (''sort'', ml_sortOption s),
                            (''tag_id'', ml_tagFilter s)] k) [])"
proof -
  let ?filters = "[(''name'', ml_debouncedSearch s), (''status'', ml_statusFilter s), (''sort'', ml_sortOption s), (''tag_id'', ml_tagFilter s)]"
  let ?q = "params_toString (filter_params (paged_params (ml_page s) PAGE_SIZE) ?filters)"
  have "call_url (fst (monitor_query s c a)) = ''/api/v1/certificates/active'' @ ''?'' @ ?q"
    by (simp add: monitor_query_def listActive_def api_call_url BASE_def)
  moreover have "\<forall>c \<in> set ''/api/v1/certificates/active''. c \<noteq> CHR ''?''" by simp
  ultimately have "query_get (address_query (call_url (fst (monitor_query s c a)))) k = nullish (query_value ?q k) []"
    by (simp only: address_query_append query_get_def query_value_def)
  moreover have "query_value ?q k = (if k = ''page'' then Some (show_int (ml_page s)) else if k = ''page_size'' then Some (show_int PAGE_SIZE)
      else Option.bind (map_of ?filters k) or_undefined)"
    by (rule query_value_paged) simp_all
  ultimately show ?thesis
    by (simp add: or_undefined_def split: option.split)
qed

text \<open>\<^bold>\<open>C25\<close>: choosing a status in the list of active certificates shows the rows with the badge of that status, and no others: with the
  clocks of browser and server in step, the rows the server selects for the request of the page are those it selects without a
  status filter whose badge says expired, at most 7 days, at most 30 days, or more. The search text and the tag keep their effect, and
  every row has exactly one of the four badges.\<close>

theorem monitor_filter_follows_badges:
  assumes "\<forall>r \<in> set rows. date_parse (expiringCertItem_notAfter (fst r)) = Some (snd r)"
    and "status \<in> {''expired'', ''critical'', ''warning'', ''ok''}"
  shows "set (ListAllActiveCerts ilike collate now
           (address_query (call_url (fst (monitor_query (monitor_handleStatusChange status s) c a)))) rows)
       = {r \<in> set (ListAllActiveCerts ilike collate now
                     (address_query (call_url (fst (monitor_query (monitor_handleStatusChange [] s) c a)))) rows).
            badge_bucket (av_badge (ActiveRow fmtDate now (ml_tagFilter s) (fst r))) = status}"
proof -
  have "badge_bucket (av_badge (ActiveRow fmtDate now (ml_tagFilter s) (fst r))) = status
      \<longleftrightarrow> active_status_where (days_remaining now r) status" if "r \<in> set rows" for r
    using badge_bucket_days [of "expiringCertItem_notAfter (fst r)" "snd r" now status] assms that
    by (simp add: ActiveRow_def days_remaining_def)
  moreover have "active_status_where d []" for d by (simp add: active_status_where_def)
  ultimately show ?thesis
    by (auto simp: ListAllActiveCerts_def monitor_query_get monitor_handleStatusChange_def active_where_def)
qed

definition example_active :: active_cert where
  "example_active = (example_due ''e1'' ''f1'', 1709296215250)"

text \<open>A certificate with seven and a half days left is critical.\<close>

theorem monitor_filter_follows_badges_witness:
  "\<forall>c a. set (ListAllActiveCerts (\<lambda>pat s. False) (\<lambda>s. 0) (1709296215250 - 648000000)
      (address_query (call_url (fst (monitor_query (monitor_handleStatusChange ''critical'' monitor_list_init) c a)))) [example_active])
   = {example_active}"
proof (intro allI)
  fix c a
  let ?now = "1709296215250 - 648000000 :: int"
  have stamp: "expiringCertItem_notAfter (fst example_active) = ''2024-03-01T12:30:15.250Z''"
    by (simp add: example_active_def example_due_def)
  then have date: "date_parse (expiringCertItem_notAfter (fst example_active)) = Some (snd example_active)"
    by (simp only: date_parse_example) (simp add: example_active_def)
  then have all: "\<forall>r \<in> set [example_active]. date_parse (expiringCertItem_notAfter (fst r)) = Some (snd r)"
    "''critical'' \<in> {''expired'', ''critical'', ''warning'', ''ok''}" by simp_all
  have "badge_bucket (av_badge (ActiveRow (\<lambda>d. d) ?now [] (fst example_active))) = ''critical''"
    using badge_bucket_days [OF date, of ?now "''critical''"]
    by (simp add: ActiveRow_def active_status_where_def example_active_def)
  moreover have "set (ListAllActiveCerts (\<lambda>pat s. False) (\<lambda>s. 0) ?now
      (address_query (call_url (fst (monitor_query (monitor_handleStatusChange [] monitor_list_init) c a)))) [example_active])
      = {example_active}"
    by (simp add: ListAllActiveCerts_def monitor_query_get monitor_handleStatusChange_def monitor_list_init_def active_where_def
        active_status_where_def)
  moreover have "ml_tagFilter monitor_list_init = []" by (simp add: monitor_list_init_def)
  ultimately show "set (ListAllActiveCerts (\<lambda>pat s. False) (\<lambda>s. 0) (1709296215250 - 648000000)
      (address_query (call_url (fst (monitor_query (monitor_handleStatusChange ''critical'' monitor_list_init) c a)))) [example_active])
   = {example_active}"
    using monitor_filter_follows_badges [of "[example_active]" "''critical''" "\<lambda>pat s. False" "\<lambda>s. 0" ?now monitor_list_init c a "\<lambda>d. d"]
      all by (simp only:) blast
qed

text \<open>
  The list of all certificates cuts one day earlier, under the same labels: certificates in their eighth and in their thirty-first day are
  the only ones on which the two lists differ. One of the first kind is critical here and not there.
\<close>

lemma day_bounds: "(t - now) div day_ms < n \<longleftrightarrow> t < now + n * day_ms" for t now n :: int
  using floor_less [of day_ms "t - now" n] by auto

lemma status_filters_by_day:
  fixes d t now :: int
  assumes "d < 0 \<longleftrightarrow> t < now" and "d < 7 \<longleftrightarrow> t < now + 7 * day_ms" and "d < 30 \<longleftrightarrow> t < now + 30 * day_ms"
    and "status \<in> {''expired'', ''critical'', ''warning'', ''ok''}"
  shows "certificate_status_where now t status \<longleftrightarrow>
    (if status = ''expired'' then d < 0 else if status = ''critical'' then 0 \<le> d \<and> d < 7
     else if status = ''warning'' then 7 \<le> d \<and> d < 30 else 30 \<le> d)"
proof -
  have "0 \<le> d \<longleftrightarrow> now \<le> t" "7 \<le> d \<longleftrightarrow> now + 7 * day_ms \<le> t" "30 \<le> d \<longleftrightarrow> now + 30 * day_ms \<le> t"
    using assms(1-3) by linarith+
  then have "certificate_status_where now t ''expired'' \<longleftrightarrow> d < 0" "certificate_status_where now t ''critical'' \<longleftrightarrow> 0 \<le> d \<and> d < 7"
    "certificate_status_where now t ''warning'' \<longleftrightarrow> 7 \<le> d \<and> d < 30" "certificate_status_where now t ''ok'' \<longleftrightarrow> 30 \<le> d"
    unfolding certificate_status_where_def using assms(1-3) by simp_all
  then show ?thesis using assms(4) by auto
qed

lemma certificate_status_days:
  assumes "status \<in> {''expired'', ''critical'', ''warning'', ''ok''}"
  shows "certificate_status_where now t status \<longleftrightarrow>
    (if status = ''expired'' then (t - now) div day_ms < 0
     else if status = ''critical'' then 0 \<le> (t - now) div day_ms \<and> (t - now) div day_ms < 7
     else if status = ''warning'' then 7 \<le> (t - now) div day_ms \<and> (t - now) div day_ms < 30
     else 30 \<le> (t - now) div day_ms)"
  using day_bounds [of t now 0] day_bounds [of t now 7] day_bounds [of t now 30] assms
  by (intro status_filters_by_day) simp_all

lemma status_filters_differ:
  assumes "status \<in> {''expired'', ''critical'', ''warning'', ''ok''}" and "(t - now) div day_ms = d"
  shows "(certificate_status_where now t status \<longleftrightarrow> active_status_where d status) \<longleftrightarrow>
    \<not> (d = 7 \<and> status \<in> {''critical'', ''warning''}) \<and> \<not> (d = 30 \<and> status \<in> {''warning'', ''ok''})"
  unfolding certificate_status_days [OF assms(1)] assms(2) active_status_where_def using assms(1)
  by (elim insertE emptyE; simp; arith)

lemma eighth_day:
  assumes "(t - now) div day_ms = 7"
  shows "active_status_where 7 ''critical'' \<and> \<not> certificate_status_where now t ''critical'' \<and> certificate_status_where now t ''warning''"
  using certificate_status_days [of "''critical''" now t] certificate_status_days [of "''warning''" now t] assms
  by (simp add: active_status_where_def)

text \<open>And a certificate in its thirty-first day is called expiring soon in the list of all certificates, whose filter calls it OK.\<close>

lemma thirty_first_day:
  assumes "date_parse notAfter = Some t" and "(t - now) div day_ms = 30"
  shows "certificate_status_where now t ''ok'' \<and> badge_text (ExpiryPill now notAfter) = ''Expiring Soon''"
  using certificate_status_days [of "''ok''" now t] assms by (simp add: ExpiryPill_def expiryState_def days_left_def Let_def)

text \<open>A tag filter without hits is reported as if there were no active certificate at all.\<close>

lemma tag_filter_not_mentioned:
  "monitor_body fmtDate now False [] (monitor_handleTagChange t monitor_list_init)
     = PanelEmpty ''No endpoints with active certificates yet.''"
  by (simp add: monitor_body_def monitor_handleTagChange_def monitor_list_init_def)

text \<open>A certificate that signs and encrypts for one endpoint gives two rows with one key.\<close>

lemma active_key_repeats:
  "expiringCertItem_endpointId i = expiringCertItem_endpointId j \<Longrightarrow> expiringCertItem_fingerprint i = expiringCertItem_fingerprint j \<Longrightarrow>
     active_key i = active_key j"
  by (simp add: active_key_def)

text \<open>Every change of the filters goes back to the first page; turning pages keeps them.\<close>

lemma monitor_step_page:
  "monitor_query (monitor_step e s) = monitor_query s \<or> ml_page (monitor_step e s) = 1 \<or> (\<exists>tot b. e = MonitorTurn tot b)"
  by (cases e) (simp_all add: monitor_timer_def monitor_handleStatusChange_def monitor_handleSortChange_def monitor_handleTagChange_def
      monitor_query_def)

end
