(* ===== verification/RootStores.thy ===== *)
theory RootStores
  imports Reports "HOL-Library.Multiset"
begin

section \<open>Root stores (\<open>pages/root-stores/RootStoresPage.tsx\<close>)\<close>

text \<open>
  The page of the trust anchors: a tab for each store, the store chosen by the address or by a click, the search and the list of
  anchors. The date format of the browser is the parameter \<open>fmtDate\<close>. \<^const>\<open>None\<close> as list of stores: not loaded yet.
\<close>

subsection \<open>State and handlers\<close>

record root_page =
  rp_searchParams :: search_params
  rp_activeStore :: "string option"
  rp_search :: string
  rp_debouncedSearch :: string
  rp_page :: int

definition root_page_init :: "search_params \<Rightarrow> root_page" where
  "root_page_init ps =
     \<lparr>rp_searchParams = ps, rp_activeStore = params_get ps ''store'', rp_search = [], rp_debouncedSearch = [], rp_page = 1\<rparr>"

definition STORE_ORDER :: "string list" where
  "STORE_ORDER = [''microsoft'', ''apple'', ''mozilla'', ''chrome'']"

text \<open>\<open>new Map(stores.map(s => [s.id, s]))\<close>: a later store with the same id wins.\<close>

definition store_by_id :: "RootStoreSummary list \<Rightarrow> string \<Rightarrow> RootStoreSummary option" where
  "store_by_id stores = map_of (rev (map (\<lambda>s. (rootStoreSummary_id s, s)) stores))"

definition orderedStores :: "RootStoreSummary list option \<Rightarrow> RootStoreSummary list" where
  "orderedStores stores =
     (case stores of
        None \<Rightarrow> []
      | Some ss \<Rightarrow>
          List.map_filter (store_by_id ss) STORE_ORDER
          @ filter (\<lambda>s. rootStoreSummary_id s \<notin> set STORE_ORDER) ss)"

text \<open>The effect that chooses the first store when there is none.\<close>

definition first_store_effect :: "RootStoreSummary list option \<Rightarrow> root_page \<Rightarrow> root_page" where
  "first_store_effect stores s =
     (if \<not> truthy (rp_activeStore s) \<and> length (orderedStores stores) > 0
      then s\<lparr>rp_activeStore := Some (rootStoreSummary_id (hd (orderedStores stores)))\<rparr> else s)"

definition root_search_timer :: "root_page \<Rightarrow> root_page" where
  "root_search_timer s = s\<lparr>rp_debouncedSearch := rp_search s, rp_page := 1\<rparr>"

definition selectStore :: "string \<Rightarrow> root_page \<Rightarrow> root_page" where
  "selectStore i s =
     s\<lparr>rp_activeStore := Some i, rp_page := 1, rp_search := [], rp_debouncedSearch := [], rp_searchParams := [(''store'', i)]\<rparr>"

datatype root_event = StoreClicked string | RootTyped string | RootTimer | RootTurn int page_button

fun root_step :: "root_event \<Rightarrow> root_page \<Rightarrow> root_page" where
  "root_step (StoreClicked i) s = selectStore i s"
| "root_step (RootTyped v) s = s\<lparr>rp_search := v\<rparr>"
| "root_step RootTimer s = root_search_timer s"
| "root_step (RootTurn tot b) s = s\<lparr>rp_page := turn_page tot b (rp_page s)\<rparr>"

text \<open>The request for the anchors, which waits for a store.\<close>

definition root_query :: "root_page \<Rightarrow> RootStoreAnchorList api_call option" where
  "root_query s =
     map_option (\<lambda>i. listRootStoreAnchors i (rp_page s) PAGE_SIZE (rp_debouncedSearch s)) (rp_activeStore s)"

subsection \<open>What the page shows\<close>

definition currentStore :: "RootStoreSummary list option \<Rightarrow> root_page \<Rightarrow> RootStoreSummary option" where
  "currentStore stores s = find (\<lambda>x. Some (rootStoreSummary_id x) = rp_activeStore s) (orderedStores stores)"

text \<open>The tabs: name, whether active, and the store a click selects; \<^const>\<open>None\<close> while the stores load.\<close>

definition store_tabs :: "bool \<Rightarrow> RootStoreSummary list option \<Rightarrow> root_page \<Rightarrow> (string \<times> bool \<times> string) list option" where
  "store_tabs storesLoading stores s =
     (if storesLoading then None
      else Some (map (\<lambda>x. (rootStoreSummary_name x, Some (rootStoreSummary_id x) = rp_activeStore s, rootStoreSummary_id x))
             (orderedStores stores)))"

text \<open>The line about the store: program, anchors, last refresh, source.\<close>

definition store_meta ::
  "(string \<Rightarrow> string) \<Rightarrow> RootStoreSummary list option \<Rightarrow> root_page \<Rightarrow> (string \<times> int \<times> string \<times> string option) option" where
  "store_meta fmtDate stores s =
     map_option (\<lambda>x. (rootStoreSummary_name x, rootStoreSummary_anchorCount x,
          if truthy (rootStoreSummary_updatedAt x) then fmtDate (nullish (rootStoreSummary_updatedAt x) []) else em_dash,
          or_undefined (rootStoreSummary_sourceUrl x)))
       (currentStore stores s)"

record anchor_view =
  an_name :: string
  an_link :: string
  an_org :: string
  an_until :: string
  an_fingerprint :: string

definition anchor_row :: "(string \<Rightarrow> string) \<Rightarrow> RootStoreAnchorItem \<Rightarrow> anchor_view" where
  "anchor_row fmtDate item =
     \<lparr>an_name = (if rootStoreAnchorItem_commonName item = [] then em_dash else rootStoreAnchorItem_commonName item),
      an_link = ''/certificates/'' @ rootStoreAnchorItem_fingerprint item,
      an_org = (if rootStoreAnchorItem_subjectOrg item = [] then em_dash else rootStoreAnchorItem_subjectOrg item),
      an_until = fmtDate (rootStoreAnchorItem_notAfter item),
      an_fingerprint = take 16 (rootStoreAnchorItem_fingerprint item) @ ellipsis\<rparr>"

definition anchor_items :: "RootStoreAnchorList option \<Rightarrow> RootStoreAnchorItem list" where
  "anchor_items data = (case data of None \<Rightarrow> [] | Some d \<Rightarrow> rootStoreAnchorList_items d)"

definition anchor_total :: "RootStoreAnchorList option \<Rightarrow> int" where
  "anchor_total data = (case data of None \<Rightarrow> 0 | Some d \<Rightarrow> rootStoreAnchorList_totalCount d)"

definition anchor_body ::
  "(string \<Rightarrow> string) \<Rightarrow> bool \<Rightarrow> RootStoreAnchorList option \<Rightarrow> root_page \<Rightarrow> anchor_view panel" where
  "anchor_body fmtDate isLoading data s =
     (if isLoading then PanelLoading
      else if length (anchor_items data) = 0 then
        PanelEmpty (if rp_debouncedSearch s \<noteq> [] then ''No anchors match your search.'' else ''No anchors in this root store yet.'')
      else PanelRows (map (anchor_row fmtDate) (anchor_items data)))"

definition anchor_footer :: "RootStoreAnchorList option \<Rightarrow> root_page \<Rightarrow> (int \<times> int \<times> int \<times> string) option" where
  "anchor_footer data s = page_footer ''anchor'' (rp_page s) (anchor_total data)"

subsection \<open>Properties\<close>

lemma store_by_id_iff:
  "distinct (map rootStoreSummary_id ss) \<Longrightarrow> store_by_id ss i = Some x \<longleftrightarrow> x \<in> set ss \<and> rootStoreSummary_id x = i"
  by (auto simp: store_by_id_def map_of_eq_Some_iff rev_map [symmetric] comp_def)

lemma store_by_id_known:
  assumes "distinct (map rootStoreSummary_id ss)"
  shows "store_by_id ss i = None \<longleftrightarrow> i \<notin> rootStoreSummary_id ` set ss"
proof -
  have "store_by_id ss i = None \<longleftrightarrow> (\<forall>x. store_by_id ss i \<noteq> Some x)" by (cases "store_by_id ss i") simp_all
  then show ?thesis unfolding store_by_id_iff [OF assms] by blast
qed

lemma set_orderedStores:
  assumes "distinct (map rootStoreSummary_id ss)"
  shows "set (orderedStores (Some ss)) = set ss"
proof -
  have "set (List.map_filter (store_by_id ss) is) = {x \<in> set ss. rootStoreSummary_id x \<in> set is}" for "is"
    unfolding set_map_filter_iff store_by_id_iff [OF assms] by blast
  then show ?thesis by (auto simp: orderedStores_def)
qed

lemma filter_same_key: "distinct (map f xs) \<Longrightarrow> x \<in> set xs \<Longrightarrow> filter (\<lambda>y. f y = f x) xs = [x]"
proof (induction xs)
  case (Cons a xs)
  show ?case
  proof (cases "x = a")
    case True
    then have "filter (\<lambda>y. f y = f x) xs = []" using Cons.prems(1) by (auto simp: filter_empty_conv image_iff)
    then show ?thesis using True by simp
  next
    case False
    then have "f a \<noteq> f x" using Cons.prems by auto
    then show ?thesis using False Cons by simp
  qed
qed simp

lemma distinct_orderedStores:
  assumes "distinct (map rootStoreSummary_id ss)"
  shows "distinct (map rootStoreSummary_id (orderedStores (Some ss)))"
proof -
  let ?known = "List.map_filter (store_by_id ss) STORE_ORDER"
  have ids: "map rootStoreSummary_id (List.map_filter (store_by_id ss) is) = filter (\<lambda>i. store_by_id ss i \<noteq> None) is" for "is"
  proof (induction "is")
    case (Cons i "is")
    have "rootStoreSummary_id a = i" if "store_by_id ss i = Some a" for a
      using that store_by_id_iff [OF assms] by blast
    then show ?case using Cons.IH by (cases "store_by_id ss i") (simp_all add: List.map_filter_simps)
  qed (simp add: List.map_filter_simps)
  moreover have "distinct STORE_ORDER" by (simp add: STORE_ORDER_def)
  ultimately have "distinct (map rootStoreSummary_id ?known)" "set (map rootStoreSummary_id ?known) \<subseteq> set STORE_ORDER"
    by (simp_all only: ids distinct_filter filter_is_subset)
  moreover have "distinct (map rootStoreSummary_id (filter (\<lambda>s. rootStoreSummary_id s \<notin> set STORE_ORDER) ss))"
    using assms by (rule distinct_map_filter)
  ultimately show ?thesis by (auto simp: orderedStores_def simp del: distinct_map)
qed

lemma find_of_filter: "filter P xs = [x] \<Longrightarrow> find P xs = Some x"
  by (induction xs) (auto split: if_splits)

text \<open>With different ids the tabs are the stores of the server, each once, the known programs first in the preferred order. When the
  address names no store or one of them, then after the effect exactly one tab is active, the line above the list describes that
  store, and the list asked for is the first page of its anchors.\<close>

lemma one_store_shown:
  assumes "distinct (map rootStoreSummary_id ss)" and "ss \<noteq> []"
    and "case params_get ps ''store'' of None \<Rightarrow> True | Some i \<Rightarrow> i = [] \<or> i \<in> rootStoreSummary_id ` set ss"
  shows "mset (orderedStores (Some ss)) = mset ss
    \<and> (\<exists>x \<in> set ss.
         root_query (first_store_effect (Some ss) (root_page_init ps)) = Some (listRootStoreAnchors (rootStoreSummary_id x) 1 PAGE_SIZE [])
       \<and> currentStore (Some ss) (first_store_effect (Some ss) (root_page_init ps)) = Some x
       \<and> filter (\<lambda>(name, active, i). active) (the (store_tabs False (Some ss) (first_store_effect (Some ss) (root_page_init ps))))
           = [(rootStoreSummary_name x, True, rootStoreSummary_id x)])"
proof -
  let ?os = "orderedStores (Some ss)" and ?s = "first_store_effect (Some ss) (root_page_init ps)"
  have os: "set ?os = set ss" "distinct (map rootStoreSummary_id ?os)"
    using set_orderedStores [OF assms(1)] distinct_orderedStores [OF assms(1)] by simp_all
  then have "mset ?os = mset ss"
    using assms(1) by (auto simp: distinct_map set_eq_iff_mset_eq_distinct [symmetric])
  moreover obtain x where x: "x \<in> set ?os" "rp_activeStore ?s = Some (rootStoreSummary_id x)"
  proof (cases "truthy (params_get ps ''store'')")
    case True
    then show ?thesis
      using assms(3) os(1) that by (auto simp: truthy_def first_store_effect_def root_page_init_def)
  next
    case False
    have "?os \<noteq> []" using os(1) assms(2) by auto
    then show ?thesis using False that [of "hd ?os"] by (simp add: first_store_effect_def root_page_init_def)
  qed
  moreover have "filter (\<lambda>y. rootStoreSummary_id y = rootStoreSummary_id x) ?os = [x]"
    using os(2) x(1) by (rule filter_same_key)
  moreover have "currentStore (Some ss) ?s = Some x"
    using calculation(3,4) by (simp add: currentStore_def find_of_filter)
  moreover have "root_query ?s = Some (listRootStoreAnchors (rootStoreSummary_id x) 1 PAGE_SIZE [])"
    using x(2) by (simp add: root_query_def first_store_effect_def root_page_init_def split: if_splits)
  ultimately show ?thesis
    using os(1) by (auto simp: store_tabs_def filter_map comp_def)
qed

definition example_store :: "string \<Rightarrow> RootStoreSummary" where
  "example_store i =
     \<lparr>rootStoreSummary_id = i, rootStoreSummary_name = i, rootStoreSummary_kind = [], rootStoreSummary_sourceUrl = [],
      rootStoreSummary_anchorCount = 0, rootStoreSummary_updatedAt = None\<rparr>"

text \<open>Mozilla comes before a store that is not in the preferred order, and is the one that is opened.\<close>

lemma one_store_shown_witness:
  "\<exists>x. root_query (first_store_effect (Some [example_store ''acme'', example_store ''mozilla'']) (root_page_init [])) =
      Some (listRootStoreAnchors (rootStoreSummary_id x) 1 PAGE_SIZE [])
    \<and> currentStore (Some [example_store ''acme'', example_store ''mozilla'']) (first_store_effect
         (Some [example_store ''acme'', example_store ''mozilla'']) (root_page_init [])) = Some x"
proof -
  have "distinct (map rootStoreSummary_id [example_store ''acme'', example_store ''mozilla''])" by (simp add: example_store_def)
  moreover have "case params_get [] ''store'' of None \<Rightarrow> True | Some i \<Rightarrow> i = [] \<or> i \<in> rootStoreSummary_id ` set [example_store ''acme'']"
    by (simp add: params_get_def)
  ultimately show ?thesis
    using one_store_shown [of "[example_store ''acme'', example_store ''mozilla'']" "[]"] by (auto simp: params_get_def)
qed

text \<open>A row of the dashboard's panel of programs opens the tab of its store, as the identifiers are plain words.\<close>

lemma program_link_opens_store:
  assumes "encodeURIComponent (rootStoreSummary_id x) = rootStoreSummary_id x"
  shows "params_get (params_parse (address_query (''/root-stores?store='' @ rootStoreSummary_id x))) ''store'' = Some (rootStoreSummary_id x)"
proof -
  have "encodeURIComponent ''store'' = ''store''" by (rule uri_plain) (simp add: char_eval)
  moreover have "address_query (''/root-stores'' @ ''?'' @ ''store='' @ rootStoreSummary_id x) = ''store='' @ rootStoreSummary_id x"
    by (rule address_query_append) simp
  ultimately show ?thesis
    using params_parse_uri_pair [of "''store''" "rootStoreSummary_id x"] assms by (simp add: params_get_def)
qed

text \<open>An address with an unknown store has no active tab, and the list of that store is asked for, which the server answers with an
  empty list: the page says that the root store has no anchors.\<close>

lemma unknown_store_kept:
  assumes "i \<noteq> []" and "i \<notin> rootStoreSummary_id ` set ss" and "distinct (map rootStoreSummary_id ss)"
  shows "currentStore (Some ss) (first_store_effect (Some ss) (root_page_init [(''store'', i)])) = None
    \<and> root_query (first_store_effect (Some ss) (root_page_init [(''store'', i)])) = Some (listRootStoreAnchors i 1 PAGE_SIZE [])"
  using assms set_orderedStores [OF assms(3)]
  by (auto simp: first_store_effect_def root_page_init_def params_get_def truthy_def currentStore_def root_query_def find_None_iff)

text \<open>An empty store in the address is not \<open>null\<close>: before the effect chooses a store the page asks for the anchors of the store without a
  name.\<close>

lemma empty_store_asked_for:
  "root_query (root_page_init [(''store'', [])]) = Some (listRootStoreAnchors [] 1 PAGE_SIZE [])"
  by (simp add: root_query_def root_page_init_def params_get_def)

text \<open>A click on a tab shows its first page without a search text, whatever was on before.\<close>

lemma tab_click_starts_fresh:
  "root_query (root_step (StoreClicked i) s) = Some (listRootStoreAnchors i 1 PAGE_SIZE [])
   \<and> root_step RootTimer (root_step (StoreClicked i) s) = root_step (StoreClicked i) s
   \<and> params_get (rp_searchParams (root_step (StoreClicked i) s)) ''store'' = Some i"
  by (simp add: root_query_def selectStore_def root_search_timer_def params_get_def)

end
