(* ===== verification/AlertSettings.thy ===== *)
theory AlertSettings
  imports ApiKeys JsNumbers
begin

section \<open>Alert thresholds (\<open>pages/settings/GeneralSettingsPage.tsx\<close>)\<close>

text \<open>
  The list of days before expiry at which users are alerted: the page, the handler of the server
  (\<open>internal/settings/handler.go\<close>), and the two together under every order of actions and answers.
\<close>

subsection \<open>The page\<close>

record thresholds_page =
  th_thresholds :: "int list"
  th_input :: string
  th_loading :: bool
  th_saving :: bool
  th_error :: "string option"
  th_success :: bool

definition DEFAULT_THRESHOLDS :: "int list" where
  "DEFAULT_THRESHOLDS = [30, 14, 7, 1]"

text \<open>The state after the effect has asked for the stored thresholds.\<close>

definition thresholds_init :: thresholds_page where
  "thresholds_init =
     \<lparr>th_thresholds = [], th_input = [], th_loading = True, th_saving = False, th_error = None, th_success = False\<rparr>"

text \<open>An error, or an answer without a value, which the page cannot read, leaves the defaults.\<close>

definition thresholds_loaded :: "AlertThresholdsResponse outcome \<Rightarrow> thresholds_page \<Rightarrow> thresholds_page" where
  "thresholds_loaded r p =
     (case r of
        Inr (Some v) \<Rightarrow> p\<lparr>th_thresholds := alertThresholdsResponse_thresholds v, th_loading := False\<rparr>
      | _ \<Rightarrow> p\<lparr>th_thresholds := DEFAULT_THRESHOLDS, th_loading := False\<rparr>)"

definition threshold_typed :: "string \<Rightarrow> thresholds_page \<Rightarrow> thresholds_page" where
  "threshold_typed v p = p\<lparr>th_input := v, th_error := None\<rparr>"

definition addThreshold :: "thresholds_page \<Rightarrow> thresholds_page" where
  "addThreshold p =
     (case parseInt (Some 10) (trim (th_input p)) of
        None \<Rightarrow> p\<lparr>th_error := Some ''Enter a value between 1 and 365.''\<rparr>
      | Some val \<Rightarrow>
          if val < 1 \<or> val > 365 then p\<lparr>th_error := Some ''Enter a value between 1 and 365.''\<rparr>
          else if val \<in> set (th_thresholds p) then p\<lparr>th_error := Some (show_int val @ '' is already in the list.'')\<rparr>
          else p\<lparr>th_thresholds := sort_key uminus (th_thresholds p @ [val]), th_input := [], th_error := None\<rparr>)"

definition removeThreshold :: "int \<Rightarrow> thresholds_page \<Rightarrow> thresholds_page" where
  "removeThreshold val p = p\<lparr>th_thresholds := filter (\<lambda>t. t \<noteq> val) (th_thresholds p), th_error := None\<rparr>"

text \<open>The two ways to save; \<^const>\<open>None\<close>: nothing is sent.\<close>

datatype save_kind = ResetKind | SaveKind

definition reset_start :: "thresholds_page \<Rightarrow> thresholds_page \<times> int list" where
  "reset_start p =
     (p\<lparr>th_thresholds := DEFAULT_THRESHOLDS, th_error := None, th_saving := True, th_success := False\<rparr>, DEFAULT_THRESHOLDS)"

definition save_start :: "thresholds_page \<Rightarrow> thresholds_page \<times> int list option" where
  "save_start p =
     (if length (th_thresholds p) = 0 then (p\<lparr>th_error := Some ''At least one threshold is required.''\<rparr>, None)
      else (p\<lparr>th_saving := True, th_error := None, th_success := False\<rparr>, Some (th_thresholds p)))"

definition save_failure :: "save_kind \<Rightarrow> string" where
  "save_failure k = (case k of ResetKind \<Rightarrow> ''Failed to reset thresholds.'' | SaveKind \<Rightarrow> ''Failed to save thresholds.'')"

definition save_answered :: "save_kind \<Rightarrow> AlertThresholdsResponse outcome \<Rightarrow> thresholds_page \<Rightarrow> thresholds_page" where
  "save_answered k r p =
     (case r of
        Inr (Some v) \<Rightarrow> p\<lparr>th_thresholds := alertThresholdsResponse_thresholds v, th_success := True, th_saving := False\<rparr>
      | Inl (ApiError status m) \<Rightarrow> p\<lparr>th_error := Some m, th_saving := False\<rparr>
      | _ \<Rightarrow> p\<lparr>th_error := Some (save_failure k), th_saving := False\<rparr>)"

text \<open>The chips, or a text without any; the label of the button and whether it is disabled.\<close>

definition threshold_chips :: "thresholds_page \<Rightarrow> string + string list" where
  "threshold_chips p =
     (if length (th_thresholds p) = 0 then Inl ''No thresholds configured.''
      else Inr (map (\<lambda>t. show_int t @ ''d'') (th_thresholds p)))"

definition save_button :: "thresholds_page \<Rightarrow> string \<times> bool" where
  "save_button p = (if th_saving p then ''Saving'' @ ellipsis else ''Save'', th_saving p)"

subsection \<open>The server\<close>

definition threshold_refusal :: "string \<Rightarrow> AlertThresholdsResponse fetch_result" where
  "threshold_refusal m =
     Fetched \<lparr>res_status = 400, res_statusText = ''Bad Request'', res_contentType = Some ''text/plain; charset=utf-8'', res_text = m,
              res_json = None\<rparr>"

text \<open>The loop over the values: the first that is out of range or repeats an earlier one decides.\<close>

fun threshold_check :: "int set \<Rightarrow> int list \<Rightarrow> string option" where
  "threshold_check seen [] = None"
| "threshold_check seen (t # ts) =
     (if t < 1 \<or> t > 365 then Some ''each threshold must be between 1 and 365 days''
      else if t \<in> seen then Some ''thresholds must be unique''
      else threshold_check (insert t seen) ts)"

definition SetAlertThresholds :: "int list \<Rightarrow> int list \<Rightarrow> AlertThresholdsResponse fetch_result \<times> int list" where
  "SetAlertThresholds req stored =
     (if length req = 0 then (threshold_refusal ''thresholds must contain at least one value'', stored)
      else case threshold_check {} req of
        Some m \<Rightarrow> (threshold_refusal m, stored)
      | None \<Rightarrow>
          let ordered = rev (sort req) in (delivery \<lparr>alertThresholdsResponse_thresholds = ordered\<rparr>, ordered))"

subsection \<open>Page and server\<close>

text \<open>The requests under way are in \<open>tw_pending\<close>. An answer is the server's own, or a fault that changed nothing there.\<close>

record thresholds_world =
  tw_page :: thresholds_page
  tw_server :: "int list"
  tw_client :: client
  tw_pending :: "(save_kind \<times> int list) list"

datatype fault = NoConnection string | ErrorStatus nat string

fun fault_answer :: "fault \<Rightarrow> 'b fetch_result" where
  "fault_answer (NoConnection m) = FetchFailed m"
| "fault_answer (ErrorStatus n m) =
     Fetched \<lparr>res_status = int n + 400, res_statusText = [], res_contentType = None, res_text = m, res_json = None\<rparr>"

datatype threshold_event =
    ThLoaded "fault option" | ThTyped string | ThAdd | ThRemove int | ThReset | ThSave | ThAnswered nat "fault option" | ThTimer

definition threshold_answered :: "nat \<Rightarrow> fault option \<Rightarrow> thresholds_world \<Rightarrow> thresholds_world" where
  "threshold_answered i fault w =
     (case tw_pending w ! i of
        (k, ts) \<Rightarrow>
          (case (case fault of Some f \<Rightarrow> (fault_answer f, tw_server w) | None \<Rightarrow> SetAlertThresholds ts (tw_server w)) of
             (answer, stored) \<Rightarrow>
               (case setAlertThresholds ts (tw_client w) answer of
                  (_, c, r) \<Rightarrow>
                    w\<lparr>tw_page := save_answered k r (tw_page w), tw_server := stored, tw_client := c,
                      tw_pending := remove_nth i (tw_pending w)\<rparr>)))"

text \<open>While the thresholds load nothing else is on screen.\<close>

fun threshold_event_step :: "threshold_event \<Rightarrow> thresholds_world \<Rightarrow> thresholds_world" where
  "threshold_event_step (ThLoaded fault) w =
     (case getAlertThresholds (tw_client w)
             (case fault of Some f \<Rightarrow> fault_answer f | None \<Rightarrow> delivery \<lparr>alertThresholdsResponse_thresholds = tw_server w\<rparr>) of
        (_, c, r) \<Rightarrow> if th_loading (tw_page w) then w\<lparr>tw_page := thresholds_loaded r (tw_page w), tw_client := c\<rparr> else w)"
| "threshold_event_step (ThTyped v) w = (if th_loading (tw_page w) then w else w\<lparr>tw_page := threshold_typed v (tw_page w)\<rparr>)"
| "threshold_event_step ThAdd w = (if th_loading (tw_page w) then w else w\<lparr>tw_page := addThreshold (tw_page w)\<rparr>)"
| "threshold_event_step (ThRemove v) w = (if th_loading (tw_page w) then w else w\<lparr>tw_page := removeThreshold v (tw_page w)\<rparr>)"
| "threshold_event_step ThReset w =
     (if th_loading (tw_page w) then w
      else case reset_start (tw_page w) of (p, ts) \<Rightarrow> w\<lparr>tw_page := p, tw_pending := tw_pending w @ [(ResetKind, ts)]\<rparr>)"
| "threshold_event_step ThSave w =
     (if th_loading (tw_page w) \<or> snd (save_button (tw_page w)) then w
      else case save_start (tw_page w) of
        (p, None) \<Rightarrow> w\<lparr>tw_page := p\<rparr>
      | (p, Some ts) \<Rightarrow> w\<lparr>tw_page := p, tw_pending := tw_pending w @ [(SaveKind, ts)]\<rparr>)"
| "threshold_event_step (ThAnswered i fault) w = (if i < length (tw_pending w) then threshold_answered i fault w else w)"
| "threshold_event_step ThTimer w = w\<lparr>tw_page := (tw_page w)\<lparr>th_success := False\<rparr>\<rparr>"

definition thresholds_start :: "client \<Rightarrow> int list \<Rightarrow> thresholds_world" where
  "thresholds_start c stored = \<lparr>tw_page = thresholds_init, tw_server = stored, tw_client = c, tw_pending = []\<rparr>"

definition thresholds_run :: "threshold_event list \<Rightarrow> thresholds_world \<Rightarrow> thresholds_world" where
  "thresholds_run evs w = fold threshold_event_step evs w"

subsection \<open>The list is always one the server accepts\<close>

definition valid_thresholds :: "int list \<Rightarrow> bool" where
  "valid_thresholds ts \<longleftrightarrow> sorted_wrt (\<lambda>a b. a > b) ts \<and> (\<forall>t \<in> set ts. 1 \<le> t \<and> t \<le> 365)"

lemma valid_default: "valid_thresholds DEFAULT_THRESHOLDS"
  by (simp add: valid_thresholds_def DEFAULT_THRESHOLDS_def)

lemma default_nonempty: "DEFAULT_THRESHOLDS \<noteq> []"
  by (simp add: DEFAULT_THRESHOLDS_def)

lemma strictly_descending: "distinct ts \<Longrightarrow> sorted (rev ts) \<Longrightarrow> sorted_wrt (\<lambda>a b. a > b) ts" for ts :: "int list"
  by (induction ts) (auto simp: sorted_append order.order_iff_strict)

lemma descending_distinct: "sorted_wrt (\<lambda>a b. a > b) ts \<Longrightarrow> distinct ts \<and> sorted (rev ts)" for ts :: "int list"
  by (induction ts) (auto simp: sorted_append order.order_iff_strict)

lemma sorted_negated: "sorted (map uminus ts) \<longleftrightarrow> sorted (rev ts)" for ts :: "int list"
  by (induction ts) (auto simp: sorted_append)

lemma valid_add:
  assumes "valid_thresholds ts" and "1 \<le> v" and "v \<le> 365" and "v \<notin> set ts"
  shows "valid_thresholds (sort_key uminus (ts @ [v]))"
proof -
  have "sorted (rev (sort_key uminus (ts @ [v])))"
    using sorted_sort_key [of uminus "ts @ [v]"] by (simp only: sorted_negated)
  moreover have "distinct (sort_key uminus (ts @ [v]))"
    using assms(1,4) descending_distinct [of ts] by (simp add: valid_thresholds_def)
  ultimately show ?thesis
    using assms strictly_descending by (auto simp: valid_thresholds_def)
qed

lemma valid_remove: "valid_thresholds ts \<Longrightarrow> valid_thresholds (filter P ts)"
  by (auto simp: valid_thresholds_def sorted_wrt_filter)

lemma threshold_check_ok:
  "threshold_check seen ts = None \<longleftrightarrow> distinct ts \<and> set ts \<inter> seen = {} \<and> (\<forall>t \<in> set ts. 1 \<le> t \<and> t \<le> 365)"
  by (induction seen ts rule: threshold_check.induct) auto

lemma server_accepts:
  assumes "valid_thresholds ts" and "ts \<noteq> []"
  shows "SetAlertThresholds ts stored = (delivery \<lparr>alertThresholdsResponse_thresholds = ts\<rparr>, ts)"
proof -
  have "distinct ts" "sorted (rev ts)" using assms(1) descending_distinct by (auto simp: valid_thresholds_def)
  then have "sort ts = rev ts" by (intro sorted_distinct_set_unique) simp_all
  then show ?thesis
    using assms \<open>distinct ts\<close> threshold_check_ok [of "{}" ts] by (simp add: SetAlertThresholds_def valid_thresholds_def)
qed

definition thresholds_inv :: "thresholds_world \<Rightarrow> bool" where
  "thresholds_inv w \<longleftrightarrow>
     valid_thresholds (th_thresholds (tw_page w)) \<and> valid_thresholds (tw_server w) \<and> tw_server w \<noteq> []
     \<and> (\<forall>(k, ts) \<in> set (tw_pending w). valid_thresholds ts \<and> ts \<noteq> [])"

lemma fault_not_delivered: "\<exists>e. snd (read_answer c (fault_answer f)) = e \<and> (\<forall>v. e \<noteq> Inr (Some v))"
  by (cases f) (auto simp: read_answer_def res_ok_def)

lemma page_after_fault:
  "th_thresholds (save_answered k (snd (read_answer c (fault_answer f))) p) = th_thresholds p"
  using fault_not_delivered [of c f]
  by (auto simp: save_answered_def split: sum.split option.split js_exn.split)

lemma set_threshold_answered:
  assumes "thresholds_inv w" and "i < length (tw_pending w)"
  shows "thresholds_inv (threshold_answered i fault w)"
    and "fault = None \<Longrightarrow> th_thresholds (tw_page (threshold_answered i fault w)) = tw_server (threshold_answered i fault w)"
proof -
  obtain k ts where kts: "tw_pending w ! i = (k, ts)" by fastforce
  then have "(k, ts) \<in> set (tw_pending w)" using assms(2) nth_mem by fastforce
  then have ts: "valid_thresholds ts" "ts \<noteq> []" using assms(1) by (auto simp: thresholds_inv_def)
  have rest: "set (remove_nth i (tw_pending w)) \<subseteq> set (tw_pending w)" by (rule set_remove_nth)
  have ok: "read_answer c (delivery v) = (c, Inr (Some v))" for c and v :: AlertThresholdsResponse
    by (rule read_answer_delivers [OF delivers_delivery])
  show "thresholds_inv (threshold_answered i fault w)"
  proof (cases fault)
    case None
    then show ?thesis
      using assms(1) ts rest
      by (auto simp: threshold_answered_def kts server_accepts setAlertThresholds_def api_verbs request_def ok save_answered_def
          thresholds_inv_def)
  next
    case (Some f)
    obtain c and r :: "AlertThresholdsResponse outcome" where cr: "read_answer (tw_client w) (fault_answer f) = (c, r)" by fastforce
    then have "th_thresholds (save_answered k r (tw_page w)) = th_thresholds (tw_page w)"
      using page_after_fault [of k "tw_client w" f "tw_page w"] by simp
    then show ?thesis
      using Some assms(1) rest
      by (auto simp: threshold_answered_def kts setAlertThresholds_def api_verbs request_def cr thresholds_inv_def)
  qed
  show "fault = None \<Longrightarrow> th_thresholds (tw_page (threshold_answered i fault w)) = tw_server (threshold_answered i fault w)"
    using ts by (simp add: threshold_answered_def kts server_accepts setAlertThresholds_def api_verbs request_def ok save_answered_def)
qed

lemma valid_addThreshold: "valid_thresholds (th_thresholds p) \<Longrightarrow> valid_thresholds (th_thresholds (addThreshold p))"
  using valid_add [of "th_thresholds p"] by (auto simp: addThreshold_def split: option.split)

lemma thresholds_inv_step: "thresholds_inv w \<Longrightarrow> thresholds_inv (threshold_event_step e w)"
proof (cases e)
  case (ThLoaded fault)
  assume inv: "thresholds_inv w"
  obtain call c r where call: "getAlertThresholds (tw_client w)
      (case fault of Some f \<Rightarrow> fault_answer f | None \<Rightarrow> delivery \<lparr>alertThresholdsResponse_thresholds = tw_server w\<rparr>) = (call, c, r)"
    by (metis prod.collapse)
  then have r: "(c, r) = read_answer (tw_client w)
      (case fault of Some f \<Rightarrow> fault_answer f | None \<Rightarrow> delivery \<lparr>alertThresholdsResponse_thresholds = tw_server w\<rparr>)"
    by (simp add: getAlertThresholds_def api_verbs request_def)
  have "valid_thresholds (th_thresholds (thresholds_loaded r (tw_page w)))"
  proof (cases fault)
    case None
    then have "r = Inr (Some \<lparr>alertThresholdsResponse_thresholds = tw_server w\<rparr>)"
      using r by (simp add: read_answer_delivers [OF delivers_delivery])
    then show ?thesis using inv by (simp add: thresholds_loaded_def thresholds_inv_def)
  next
    case (Some f)
    then have "\<forall>v. r \<noteq> Inr (Some v)" using r fault_not_delivered [of "tw_client w" f] by (metis option.simps(5) snd_conv)
    then show ?thesis by (auto simp: thresholds_loaded_def valid_default split: sum.split option.split)
  qed
  then show ?thesis using inv by (simp add: ThLoaded call thresholds_inv_def)
next
  case (ThAnswered i fault)
  assume "thresholds_inv w"
  then show ?thesis using set_threshold_answered(1) by (simp add: ThAnswered)
qed (auto simp: thresholds_inv_def threshold_typed_def valid_addThreshold removeThreshold_def valid_remove reset_start_def save_start_def
    valid_default default_nonempty)

text \<open>\<^bold>\<open>C26\<close>: whatever is typed, added, removed, reset and saved, in whatever order the requests are answered or fail, the list on the page and the
  one on the server are strictly descending lists of days between 1 and 365, the server never loses its last threshold, and every request
  under way is one the server accepts as it is: an answer that is not lost makes the page show what is stored.\<close>

theorem thresholds_always_valid:
  assumes "valid_thresholds stored" and "stored \<noteq> []"
  shows "valid_thresholds (th_thresholds (tw_page (thresholds_run evs (thresholds_start c stored))))
    \<and> valid_thresholds (tw_server (thresholds_run evs (thresholds_start c stored)))
    \<and> tw_server (thresholds_run evs (thresholds_start c stored)) \<noteq> []
    \<and> (\<forall>i < length (tw_pending (thresholds_run evs (thresholds_start c stored))).
         tw_server (thresholds_run (evs @ [ThAnswered i None]) (thresholds_start c stored))
           = snd (tw_pending (thresholds_run evs (thresholds_start c stored)) ! i)
       \<and> th_thresholds (tw_page (thresholds_run (evs @ [ThAnswered i None]) (thresholds_start c stored)))
           = tw_server (thresholds_run (evs @ [ThAnswered i None]) (thresholds_start c stored)))"
proof -
  let ?w = "thresholds_run evs (thresholds_start c stored)"
  have "thresholds_inv (thresholds_start c stored)"
    using assms by (simp add: thresholds_inv_def thresholds_start_def thresholds_init_def valid_thresholds_def)
  then have inv: "thresholds_inv ?w"
    unfolding thresholds_run_def by (induction evs arbitrary: c stored rule: rev_induct) (simp_all add: thresholds_inv_step)
  have "tw_server (threshold_answered i None ?w) = snd (tw_pending ?w ! i)" if "i < length (tw_pending ?w)" for i
  proof -
    have "valid_thresholds (snd (tw_pending ?w ! i)) \<and> snd (tw_pending ?w ! i) \<noteq> []"
      using inv nth_mem [OF that] by (auto simp: thresholds_inv_def)
    then show ?thesis
      by (auto simp: threshold_answered_def server_accepts split: prod.split)
  qed
  then show ?thesis
    using inv set_threshold_answered(2) [OF inv] by (simp add: thresholds_inv_def thresholds_run_def)
qed

text \<open>A threshold of 60 days is put in front of the others, saved and stored.\<close>

theorem thresholds_always_valid_witness:
  "tw_server (thresholds_run [ThLoaded None, ThTyped ''60'', ThAdd, ThSave, ThAnswered 0 None] (thresholds_start example_session [30, 7]))
     = [60, 30, 7]"
proof -
  let ?evs = "[ThLoaded None, ThTyped ''60'', ThAdd, ThSave]"
  have ok: "read_answer c (delivery v) = (c, Inr (Some v))" for c and v :: AlertThresholdsResponse
    by (rule read_answer_delivers [OF delivers_delivery])
  have parsed: "parseInt (Some 10) (trim ''60'') = Some 60" by code_simp
  have sorted: "sort_key uminus [30, 7, 60 :: int] = [60, 30, 7]" by simp
  have "tw_pending (thresholds_run ?evs (thresholds_start example_session [30, 7])) = [(SaveKind, [60, 30, 7])]"
    by (simp add: thresholds_run_def thresholds_start_def thresholds_init_def getAlertThresholds_def api_verbs request_def ok
        thresholds_loaded_def threshold_typed_def addThreshold_def parsed sorted save_button_def save_start_def)
  moreover have "valid_thresholds [30, 7]" by (simp add: valid_thresholds_def)
  ultimately show ?thesis
    using thresholds_always_valid [of "[30, 7]" ?evs example_session] by simp
qed

subsection \<open>What the page does not say\<close>

text \<open>When the stored thresholds cannot be read the page shows the defaults without a word, and a save stores them.\<close>

lemma failed_load_shows_defaults:
  "th_thresholds (tw_page (thresholds_run [ThLoaded (Some f)] (thresholds_start c stored))) = DEFAULT_THRESHOLDS
   \<and> th_error (tw_page (thresholds_run [ThLoaded (Some f)] (thresholds_start c stored))) = None"
proof -
  obtain c' and r :: "AlertThresholdsResponse outcome" where r: "read_answer c (fault_answer f) = (c', r)" by fastforce
  then have "\<forall>v. r \<noteq> Inr (Some v)" using fault_not_delivered [of c f] by (metis snd_conv)
  then show ?thesis
    by (auto simp: thresholds_run_def thresholds_start_def thresholds_init_def getAlertThresholds_def api_verbs request_def r
        thresholds_loaded_def split: sum.split option.split)
qed

text \<open>A change made while a save is under way is taken back by its answer.\<close>

lemma answer_overwrites_edit:
  "th_thresholds (save_answered k (Inr (Some v)) (removeThreshold d p)) = alertThresholdsResponse_thresholds v"
  by (simp add: save_answered_def)

text \<open>A reset that failed leaves the defaults on the page, which are not what is stored.\<close>

lemma failed_reset_shows_defaults:
  "th_thresholds (save_answered ResetKind (Inl e) (fst (reset_start p))) = DEFAULT_THRESHOLDS"
  by (cases e) (simp_all add: save_answered_def reset_start_def)

text \<open>The field for numbers accepts an exponent, of which only the digits in front count.\<close>

lemma exponent_ignored: "parseInt (Some 10) (trim ''1e2'') = Some 1"
  by code_simp

end
