(* ===== verification/TemplateSettings.thy ===== *)
theory TemplateSettings
  imports AlertSettings JsCollections
begin

section \<open>Notification templates (\<open>pages/settings/NotificationTemplatesPage.tsx\<close>)\<close>

text \<open>
  The preview of a template, the editor, the page with its list, the handlers of the server
  (\<open>internal/notificationtemplates/handler.go\<close>), and all of them under every order of actions and answers. A reset takes two
  requests; the second one does not go through the fetch helper. \<open>inherited\<close> is the text of a member that every object
  inherits.
\<close>

subsection \<open>The preview\<close>

definition channelLabel :: "string js_object" where
  "channelLabel = [(''email'', ''Email''), (''webhook'', ''Webhook'')]"

definition sampleValues :: "string js_object" where
  "sampleValues =
     [(''EndpointName'', ''api.example.com''), (''EndpointType'', ''tls''), (''CommonName'', ''api.example.com''),
      (''NotAfter'', ''Thu, 31 Dec 2026 00:00:00 UTC''), (''DaysRemaining'', ''14''),
      (''Fingerprint'', ''a3f9b1c2d4e56f7a8b9c0d1e2f3a4b5c6d7e8f9a0b1c2d3e4f5a6b7c8d9e0f1''),
      (''EndpointHost'', ''api.example.com:443''), (''ErrorMessage'', ''connection refused''), (''ErrorSince'', ''2026-04-09 10:30 UTC'')]"

definition word_char :: "char \<Rightarrow> bool" where
  "word_char c \<longleftrightarrow> is_alnum c \<or> c = CHR ''_''"

text \<open>A placeholder at the front of a text, with the rest behind it.\<close>

definition placeholder :: "string \<Rightarrow> (string \<times> string) option" where
  "placeholder s =
     (let key = takeWhile word_char (drop 3 s); rest = dropWhile word_char (drop 3 s)
      in if startsWith s ''{{.'' \<and> key \<noteq> [] \<and> startsWith rest ''}}'' then Some (key, drop 2 rest) else None)"

definition token_of :: "string \<Rightarrow> string" where
  "token_of name = ''{{.'' @ name @ ''}}''"

definition sample_of :: "(string \<Rightarrow> string) \<Rightarrow> string \<Rightarrow> string" where
  "sample_of inherited key =
     (case obj_get sampleValues key of Own v \<Rightarrow> v | Inherited \<Rightarrow> inherited key | Undefined \<Rightarrow> token_of key)"

lemma placeholder_shorter: "placeholder s = Some (key, rest) \<Longrightarrow> length rest < length s"
proof -
  assume a: "placeholder s = Some (key, rest)"
  then have "length rest \<le> length (dropWhile word_char (drop 3 s))" "takeWhile word_char (drop 3 s) \<noteq> []"
    by (auto simp: placeholder_def Let_def split: if_splits)
  moreover have "length (takeWhile word_char (drop 3 s)) + length (dropWhile word_char (drop 3 s)) = length s - 3"
    by (metis length_append length_drop takeWhile_dropWhile_id)
  ultimately show ?thesis by (cases "takeWhile word_char (drop 3 s)") auto
qed

text \<open>The first placeholder from the left is replaced, and the search goes on behind it.\<close>

function renderPreview :: "(string \<Rightarrow> string) \<Rightarrow> string \<Rightarrow> string" where
  "renderPreview inherited [] = []"
| "renderPreview inherited (c # s) =
     (case placeholder (c # s) of
        Some (key, rest) \<Rightarrow> sample_of inherited key @ renderPreview inherited rest
      | None \<Rightarrow> c # renderPreview inherited s)"
  by pat_completeness auto
termination
  by (relation "measure (length \<circ> snd)") (auto dest: placeholder_shorter)

definition VariableChip :: "TemplateVariable \<Rightarrow> string \<times> string \<times> string" where
  "VariableChip v =
     (let token = token_of (templateVariable_name v)
      in (token, templateVariable_description v, ''Click to copy '' @ token))"

subsection \<open>The editor\<close>

datatype editor_tab = EditTab | PreviewTab

record template_editor =
  te_subject :: string
  te_body :: string
  te_tab :: editor_tab
  te_saving :: bool
  te_resetting :: bool
  te_error :: "string option"
  te_dirty :: bool

text \<open>A new editor for a template; its effect sets the same values again.\<close>

definition editor_init :: "NotificationTemplate \<Rightarrow> template_editor" where
  "editor_init t =
     \<lparr>te_subject = nullish (notificationTemplate_subject t) [], te_body = notificationTemplate_body t, te_tab = EditTab,
      te_saving = False, te_resetting = False, te_error = None, te_dirty = False\<rparr>"

definition template_save_start :: "template_editor \<Rightarrow> template_editor" where
  "template_save_start e = e\<lparr>te_saving := True, te_error := None\<rparr>"

text \<open>The subject that is sent: a template without one keeps none.\<close>

definition sent_subject :: "NotificationTemplate \<Rightarrow> template_editor \<Rightarrow> string option" where
  "sent_subject t e = (if notificationTemplate_subject t \<noteq> None then Some (te_subject e) else None)"

definition template_save_finish :: "NotificationTemplate outcome \<Rightarrow> template_editor \<Rightarrow> template_editor" where
  "template_save_finish r e =
     (case r of
        Inr _ \<Rightarrow> e\<lparr>te_dirty := False, te_saving := False\<rparr>
      | Inl _ \<Rightarrow> e\<lparr>te_error := Some ''Failed to save template.'', te_saving := False\<rparr>)"

definition template_reset_start :: "template_editor \<Rightarrow> template_editor" where
  "template_reset_start e = e\<lparr>te_resetting := True, te_error := None\<rparr>"

definition template_reset_failed :: "template_editor \<Rightarrow> template_editor" where
  "template_reset_failed e = e\<lparr>te_error := Some ''Failed to reset template.'', te_resetting := False\<rparr>"

text \<open>The second request of a reset: its answer as \<open>fetch\<close> gives it. A status that is not a success changes nothing, without a message.\<close>

datatype reread = Reread NotificationTemplate | RereadRefused | RereadFailed

definition read_raw :: "NotificationTemplate fetch_result \<Rightarrow> reread" where
  "read_raw answer =
     (case answer of
        FetchFailed m \<Rightarrow> RereadFailed
      | Fetched res \<Rightarrow>
          if \<not> res_ok res then RereadRefused else case res_json res of None \<Rightarrow> RereadFailed | Some t \<Rightarrow> Reread t)"

definition template_reset_finish :: "reread \<Rightarrow> template_editor \<Rightarrow> template_editor" where
  "template_reset_finish r e =
     (case r of
        Reread t \<Rightarrow>
          e\<lparr>te_subject := nullish (notificationTemplate_subject t) [], te_body := notificationTemplate_body t, te_dirty := False,
            te_resetting := False\<rparr>
      | RereadRefused \<Rightarrow> e\<lparr>te_resetting := False\<rparr>
      | RereadFailed \<Rightarrow> template_reset_failed e)"

text \<open>The two buttons: label and whether disabled.\<close>

definition reset_button :: "NotificationTemplate \<Rightarrow> template_editor \<Rightarrow> string \<times> bool" where
  "reset_button t e =
     (if te_resetting e then ''Resetting'' @ ellipsis else ''Reset to default'', te_resetting e \<or> \<not> notificationTemplate_isCustom t)"

definition template_save_button :: "template_editor \<Rightarrow> string \<times> bool" where
  "template_save_button e = (if te_saving e then ''Saving'' @ ellipsis else ''Save'', te_saving e \<or> \<not> te_dirty e)"

subsection \<open>The page\<close>

definition template_key :: "NotificationTemplate \<Rightarrow> string \<times> string" where
  "template_key t = (notificationTemplate_eventType t, notificationTemplate_channel t)"

record templates_page =
  tp_templates :: "NotificationTemplate list"
  tp_selected :: "NotificationTemplate option"
  tp_editor :: template_editor
  tp_mounted :: nat
  tp_crashed :: bool

text \<open>
  The editor is a new one (with the next number) when a template with another key is selected, and the old one otherwise.
  The editor is on the page only when a template is selected.
\<close>

definition select_template :: "NotificationTemplate \<Rightarrow> templates_page \<Rightarrow> templates_page" where
  "select_template t p =
     (if map_option template_key (tp_selected p) = Some (template_key t) then p\<lparr>tp_selected := Some t\<rparr>
      else p\<lparr>tp_selected := Some t, tp_editor := editor_init t, tp_mounted := tp_mounted p + 1\<rparr>)"

definition templates_arrived :: "NotificationTemplate list \<Rightarrow> templates_page \<Rightarrow> templates_page" where
  "templates_arrived ts p =
     (let q = p\<lparr>tp_templates := ts\<rparr>
      in if length ts > 0 \<and> tp_selected p = None then select_template (hd ts) q else q)"

definition handleSaved :: "NotificationTemplate \<Rightarrow> templates_page \<Rightarrow> templates_page" where
  "handleSaved updated p =
     select_template updated
       (p\<lparr>tp_templates := map (\<lambda>t. if template_key t = template_key updated then updated else t) (tp_templates p)\<rparr>)"

definition template_rows :: "templates_page \<Rightarrow> (string \<times> string property \<times> bool \<times> bool) list" where
  "template_rows p =
     map (\<lambda>t. (notificationTemplate_label t,
               (case obj_get channelLabel (notificationTemplate_channel t) of
                  Undefined \<Rightarrow> Own (notificationTemplate_channel t) | x \<Rightarrow> x),
               notificationTemplate_isCustom t, map_option template_key (tp_selected p) = Some (template_key t)))
       (tp_templates p)"

subsection \<open>The preview replaces exactly the placeholders\<close>

lemma placeholder_token: "\<forall>c \<in> set name. word_char c \<Longrightarrow> name \<noteq> [] \<Longrightarrow> placeholder (token_of name @ rest) = Some (name, rest)"
  by (simp add: placeholder_def token_of_def startsWith_def word_char_def is_alnum_def is_digit_def is_lower_def is_upper_def
      charCode_def takeWhile_append2 dropWhile_append2 Let_def)

lemma preview_token:
  "\<forall>c \<in> set name. word_char c \<Longrightarrow> name \<noteq> [] \<Longrightarrow>
     renderPreview inherited (token_of name @ rest) = sample_of inherited name @ renderPreview inherited rest"
  using placeholder_token [of name rest] by (cases "token_of name @ rest") (auto simp: token_of_def)

lemma no_placeholder: "\<not> startsWith s ''{{.'' \<Longrightarrow> placeholder s = None"
  by (simp add: placeholder_def)

lemma preview_literal:
  "\<not> js_includes s ''{{.'' \<Longrightarrow> rest = [] \<or> startsWith rest ''{{.'' \<Longrightarrow>
     renderPreview inherited (s @ rest) = s @ renderPreview inherited rest"
proof (induction s)
  case (Cons c s)
  have "\<not> startsWith (c # s) ''{{.''" using Cons.prems(1) by (simp add: startsWith_def)
  then have "\<not> startsWith (c # s @ rest) ''{{.''"
    using Cons.prems(2)
    by (cases s; cases "tl s"; cases rest; cases "tl rest") (auto simp: startsWith_def)
  then have "renderPreview inherited ((c # s) @ rest) = c # renderPreview inherited (s @ rest)"
    by (simp add: no_placeholder)
  then show ?case using Cons by simp
qed simp

datatype segment = Literal string | Placeholder string

fun segment_text :: "segment \<Rightarrow> string" where
  "segment_text (Literal s) = s"
| "segment_text (Placeholder name) = token_of name"

fun segment_shown :: "(string \<Rightarrow> string) \<Rightarrow> segment \<Rightarrow> string" where
  "segment_shown inherited (Literal s) = s"
| "segment_shown inherited (Placeholder name) = sample_of inherited name"

text \<open>Texts between placeholders do not contain the opening mark of one; placeholders have a name.\<close>

fun separated :: "segment list \<Rightarrow> bool" where
  "separated [] = True"
| "separated (Literal s # segs) =
     (\<not> js_includes s ''{{.'' \<and> (case segs of Literal t # _ \<Rightarrow> False | _ \<Rightarrow> True) \<and> separated segs)"
| "separated (Placeholder name # segs) = (name \<noteq> [] \<and> (\<forall>c \<in> set name. word_char c) \<and> separated segs)"

lemma after_literal:
  "separated segs \<Longrightarrow> (case segs of Literal t # _ \<Rightarrow> False | _ \<Rightarrow> True) \<Longrightarrow>
     concat (map segment_text segs) = [] \<or> startsWith (concat (map segment_text segs)) ''{{.''"
  by (cases segs; cases "hd segs") (auto simp: token_of_def startsWith_def)

lemma preview_replaces_placeholders:
  "separated segs \<Longrightarrow>
     renderPreview inherited (concat (map segment_text segs)) = concat (map (segment_shown inherited) segs)"
proof (induction segs rule: separated.induct)
  case (2 s segs)
  then have "renderPreview inherited (s @ concat (map segment_text segs)) = s @ renderPreview inherited (concat (map segment_text segs))"
    using after_literal by (intro preview_literal) auto
  then show ?case using 2 by simp
next
  case (3 name segs)
  then show ?case using preview_token by simp
qed simp

text \<open>The samples include three variables that no event has: the preview shows them, the server cannot fill them in.\<close>

lemma preview_of_unknown_variables:
  "renderPreview inherited (token_of ''ErrorMessage'') = ''connection refused''"
  "renderPreview inherited (token_of ''Nope'') = token_of ''Nope''"
  "renderPreview inherited ''{{ .EndpointName }}'' = ''{{ .EndpointName }}''"
  by (simp_all add: renderPreview.simps [abs_def] placeholder_def token_of_def startsWith_def word_char_def is_alnum_def is_digit_def
      is_lower_def is_upper_def charCode_def sample_of_def obj_get_def sampleValues_def object_prototype_members_def)

subsection \<open>The server\<close>

text \<open>The stored overrides by key: subject, body, format. \<open>defs\<close> are the built-in templates.\<close>

type_synonym overrides = "string \<times> string \<Rightarrow> (string option \<times> string \<times> string) option"

definition effective :: "overrides \<Rightarrow> NotificationTemplate \<Rightarrow> NotificationTemplate" where
  "effective ov d =
     (case ov (template_key d) of
        None \<Rightarrow> d
      | Some (subject, body, fmt) \<Rightarrow>
          d\<lparr>notificationTemplate_subject := subject, notificationTemplate_body := body, notificationTemplate_format := fmt,
            notificationTemplate_isCustom := True\<rparr>)"

definition ListTemplates :: "NotificationTemplate list \<Rightarrow> overrides \<Rightarrow> NotificationTemplate list" where
  "ListTemplates defs ov = map (effective ov) defs"

definition find_default :: "NotificationTemplate list \<Rightarrow> string \<times> string \<Rightarrow> NotificationTemplate option" where
  "find_default defs k = find (\<lambda>d. template_key d = k) defs"

definition template_refusal :: "int \<Rightarrow> string \<Rightarrow> 'b fetch_result" where
  "template_refusal status m =
     Fetched \<lparr>res_status = status, res_statusText = [], res_contentType = Some ''text/plain; charset=utf-8'', res_text = m,
              res_json = None\<rparr>"

definition GetTemplate :: "NotificationTemplate list \<Rightarrow> overrides \<Rightarrow> string \<times> string \<Rightarrow> NotificationTemplate fetch_result" where
  "GetTemplate defs ov k =
     (case find_default defs k of
        None \<Rightarrow> template_refusal 404 ''unknown event type or channel''
      | Some d \<Rightarrow> delivery (effective ov d))"

definition UpdateTemplate ::
  "NotificationTemplate list \<Rightarrow> string \<times> string \<Rightarrow> string option \<Rightarrow> string \<Rightarrow> string \<Rightarrow> overrides
     \<Rightarrow> NotificationTemplate fetch_result \<times> overrides" where
  "UpdateTemplate defs k subject body fmt ov =
     (case find_default defs k of
        None \<Rightarrow> (template_refusal 404 ''unknown event type or channel'', ov)
      | Some d \<Rightarrow>
          if body = [] then (template_refusal 400 ''body is required'', ov)
          else let ov' = ov(k \<mapsto> (subject, body, if fmt = [] then ''html'' else fmt)) in (delivery (effective ov' d), ov'))"

definition ResetTemplate :: "string \<times> string \<Rightarrow> overrides \<Rightarrow> unit fetch_result \<times> overrides" where
  "ResetTemplate k ov =
     (Fetched \<lparr>res_status = 204, res_statusText = [], res_contentType = None, res_text = [], res_json = None\<rparr>, ov(k := None))"

subsection \<open>Page and server\<close>

text \<open>
  The requests under way: saves (with the number of the editor, the key and what is sent), deletions and second requests of
  resets (with the number and the key). The server does its part when it answers; a fault changes nothing there.
\<close>

record templates_world =
  xw_page :: templates_page
  xw_overrides :: overrides
  xw_client :: client
  xw_saving :: "(nat \<times> (string \<times> string) \<times> string option \<times> string \<times> string) list"
  xw_deleting :: "(nat \<times> string \<times> string) list"
  xw_rereading :: "(nat \<times> string \<times> string) list"

datatype template_event =
    TmplLoaded | TmplPicked NotificationTemplate | TmplSubject string | TmplBody string | TmplTab editor_tab | TmplSave | TmplReset
  | TmplSaved nat "fault option" | TmplDeleted nat "fault option" | TmplReread nat "fault option"

definition on_editor :: "nat \<Rightarrow> (template_editor \<Rightarrow> template_editor) \<Rightarrow> templates_page \<Rightarrow> templates_page" where
  "on_editor n f p = (if tp_mounted p = n then p\<lparr>tp_editor := f (tp_editor p)\<rparr> else p)"

definition template_saved :: "nat \<Rightarrow> NotificationTemplate outcome \<Rightarrow> templates_page \<Rightarrow> templates_page" where
  "template_saved n r p =
     (let q = on_editor n (template_save_finish r) p in
      case r of Inr (Some t) \<Rightarrow> handleSaved t q | Inr None \<Rightarrow> q\<lparr>tp_crashed := True\<rparr> | Inl _ \<Rightarrow> q)"

definition template_reread :: "nat \<Rightarrow> reread \<Rightarrow> templates_page \<Rightarrow> templates_page" where
  "template_reread n r p =
     (let q = on_editor n (template_reset_finish r) p in case r of Reread t \<Rightarrow> handleSaved t q | _ \<Rightarrow> q)"

definition save_event :: "NotificationTemplate list \<Rightarrow> nat \<Rightarrow> fault option \<Rightarrow> templates_world \<Rightarrow> templates_world" where
  "save_event defs i fault w =
     (case xw_saving w ! i of
        (n, k, subject, body, fmt) \<Rightarrow>
          (case (case fault of Some f \<Rightarrow> (fault_answer f, xw_overrides w) | None \<Rightarrow> UpdateTemplate defs k subject body fmt (xw_overrides w)) of
             (answer, ov) \<Rightarrow>
               (case updateNotificationTemplate (fst k) (snd k) subject body fmt (xw_client w) answer of
                  (_, c, r) \<Rightarrow>
                    w\<lparr>xw_page := template_saved n r (xw_page w), xw_overrides := ov, xw_client := c,
                      xw_saving := remove_nth i (xw_saving w)\<rparr>)))"

definition delete_event :: "nat \<Rightarrow> fault option \<Rightarrow> templates_world \<Rightarrow> templates_world" where
  "delete_event i fault w =
     (case xw_deleting w ! i of
        (n, k) \<Rightarrow>
          (case (case fault of Some f \<Rightarrow> (fault_answer f, xw_overrides w) | None \<Rightarrow> ResetTemplate k (xw_overrides w)) of
             (answer, ov) \<Rightarrow>
               (case resetNotificationTemplate (fst k) (snd k) (xw_client w) answer of
                  (_, c, r) \<Rightarrow>
                    (case r of
                       Inr _ \<Rightarrow>
                         w\<lparr>xw_overrides := ov, xw_client := c, xw_deleting := remove_nth i (xw_deleting w),
                           xw_rereading := xw_rereading w @ [(n, k)]\<rparr>
                     | Inl _ \<Rightarrow>
                         w\<lparr>xw_page := on_editor n template_reset_failed (xw_page w), xw_overrides := ov, xw_client := c,
                           xw_deleting := remove_nth i (xw_deleting w)\<rparr>))))"

definition reread_event :: "NotificationTemplate list \<Rightarrow> nat \<Rightarrow> fault option \<Rightarrow> templates_world \<Rightarrow> templates_world" where
  "reread_event defs i fault w =
     (case xw_rereading w ! i of
        (n, k) \<Rightarrow>
          w\<lparr>xw_page := template_reread n
              (read_raw (case fault of Some f \<Rightarrow> fault_answer f | None \<Rightarrow> GetTemplate defs (xw_overrides w) k)) (xw_page w),
            xw_rereading := remove_nth i (xw_rereading w)\<rparr>)"

fun template_event_step :: "NotificationTemplate list \<Rightarrow> template_event \<Rightarrow> templates_world \<Rightarrow> templates_world" where
  "template_event_step defs TmplLoaded w = w\<lparr>xw_page := templates_arrived (ListTemplates defs (xw_overrides w)) (xw_page w)\<rparr>"
| "template_event_step defs (TmplPicked t) w =
     (if t \<in> set (tp_templates (xw_page w)) then w\<lparr>xw_page := select_template t (xw_page w)\<rparr> else w)"
| "template_event_step defs (TmplSubject v) w =
     w\<lparr>xw_page := (xw_page w)\<lparr>tp_editor := (tp_editor (xw_page w))\<lparr>te_subject := v, te_dirty := True\<rparr>\<rparr>\<rparr>"
| "template_event_step defs (TmplBody v) w =
     w\<lparr>xw_page := (xw_page w)\<lparr>tp_editor := (tp_editor (xw_page w))\<lparr>te_body := v, te_dirty := True\<rparr>\<rparr>\<rparr>"
| "template_event_step defs (TmplTab b) w = w\<lparr>xw_page := (xw_page w)\<lparr>tp_editor := (tp_editor (xw_page w))\<lparr>te_tab := b\<rparr>\<rparr>\<rparr>"
| "template_event_step defs TmplSave w =
     (let p = xw_page w; e = tp_editor p in
      case tp_selected p of
        None \<Rightarrow> w
      | Some t \<Rightarrow>
          if snd (template_save_button e) then w
          else w\<lparr>xw_page := p\<lparr>tp_editor := template_save_start e\<rparr>,
                 xw_saving := xw_saving w @ [(tp_mounted p, template_key t, sent_subject t e, te_body e, notificationTemplate_format t)]\<rparr>)"
| "template_event_step defs TmplReset w =
     (let p = xw_page w; e = tp_editor p in
      case tp_selected p of
        None \<Rightarrow> w
      | Some t \<Rightarrow>
          if snd (reset_button t e) then w
          else w\<lparr>xw_page := p\<lparr>tp_editor := template_reset_start e\<rparr>, xw_deleting := xw_deleting w @ [(tp_mounted p, template_key t)]\<rparr>)"
| "template_event_step defs (TmplSaved i fault) w = (if i < length (xw_saving w) then save_event defs i fault w else w)"
| "template_event_step defs (TmplDeleted i fault) w = (if i < length (xw_deleting w) then delete_event i fault w else w)"
| "template_event_step defs (TmplReread i fault) w = (if i < length (xw_rereading w) then reread_event defs i fault w else w)"

text \<open>A page that has crashed does nothing any more.\<close>

definition template_step :: "NotificationTemplate list \<Rightarrow> template_event \<Rightarrow> templates_world \<Rightarrow> templates_world" where
  "template_step defs e w = (if tp_crashed (xw_page w) then w else template_event_step defs e w)"

definition templates_start :: "client \<Rightarrow> overrides \<Rightarrow> template_editor \<Rightarrow> templates_world" where
  "templates_start c ov e =
     \<lparr>xw_page = \<lparr>tp_templates = [], tp_selected = None, tp_editor = e, tp_mounted = 0, tp_crashed = False\<rparr>, xw_overrides = ov,
      xw_client = c, xw_saving = [], xw_deleting = [], xw_rereading = []\<rparr>"

subsection \<open>The list follows the server\<close>

definition in_step :: "NotificationTemplate list \<Rightarrow> overrides \<Rightarrow> (string \<times> string) set \<Rightarrow> NotificationTemplate list \<Rightarrow> bool" where
  "in_step defs ov open_keys ts \<longleftrightarrow>
     list_all2 (\<lambda>t d. template_key t = template_key d \<and> (template_key d \<notin> open_keys \<longrightarrow> t = effective ov d)) ts defs"

lemma key_effective [simp]: "template_key (effective ov d) = template_key d"
  by (auto simp: effective_def template_key_def split: option.split)

lemma effective_other: "ov' (template_key d) = ov (template_key d) \<Longrightarrow> effective ov' d = effective ov d"
  by (simp add: effective_def)

lemma in_step_list: "in_step defs ov K (ListTemplates defs ov)"
  by (simp add: in_step_def ListTemplates_def list.rel_map list_all2_same)

lemma in_step_all: "in_step defs ov {} ts \<Longrightarrow> ts = ListTemplates defs ov"
  unfolding in_step_def ListTemplates_def by (induction rule: list_all2_induct) auto

lemma in_step_replace:
  assumes "in_step defs ov K ts" and "\<forall>k. k \<noteq> template_key d \<longrightarrow> ov' k = ov k" and "K - {template_key d} \<subseteq> K'"
    and "d \<in> set defs" and "distinct (map template_key defs)"
  shows "in_step defs ov' K' (map (\<lambda>t. if template_key t = template_key (effective ov' d) then effective ov' d else t) ts)"
proof -
  have same: "x = d" if "x \<in> set defs" "template_key x = template_key d" for x
    using that assms(4,5) by (auto simp: distinct_map dest: inj_onD)
  have "list_all2 (\<lambda>t x. template_key (if template_key t = template_key d then effective ov' d else t) = template_key x
      \<and> (template_key x \<notin> K' \<longrightarrow> (if template_key t = template_key d then effective ov' d else t) = effective ov' x)) ts defs"
    using assms(1) unfolding in_step_def
  proof (rule list.rel_mono_strong)
    fix t x assume "t \<in> set ts" "x \<in> set defs"
      and tx: "template_key t = template_key x \<and> (template_key x \<notin> K \<longrightarrow> t = effective ov x)"
    show "template_key (if template_key t = template_key d then effective ov' d else t) = template_key x
      \<and> (template_key x \<notin> K' \<longrightarrow> (if template_key t = template_key d then effective ov' d else t) = effective ov' x)"
    proof (cases "template_key x = template_key d")
      case True
      then show ?thesis using tx same [OF \<open>x \<in> set defs\<close>] by simp
    next
      case False
      then have "effective ov' x = effective ov x" using assms(2) effective_other [of ov' x ov] by blast
      then show ?thesis using False tx assms(3) by auto
    qed
  qed
  then show ?thesis by (simp add: in_step_def list.rel_map)
qed

lemma in_step_mono:
  "in_step defs ov K ts \<Longrightarrow> K \<subseteq> K' \<Longrightarrow> \<forall>k. k \<notin> K' \<longrightarrow> ov' k = ov k \<Longrightarrow> in_step defs ov' K' ts"
  unfolding in_step_def by (erule list_all2_mono) (metis effective_other subsetD)

lemma find_default_Some: "find_default defs k = Some d \<Longrightarrow> d \<in> set defs \<and> template_key d = k"
  by (auto simp: find_default_def find_Some_iff)

lemma select_template_templates [simp]: "tp_templates (select_template t p) = tp_templates p"
  by (simp add: select_template_def)

lemma on_editor_templates [simp]: "tp_templates (on_editor n f p) = tp_templates p"
  by (simp add: on_editor_def)

lemma handleSaved_templates:
  "tp_templates (handleSaved u p) = map (\<lambda>t. if template_key t = template_key u then u else t) (tp_templates p)"
  by (simp add: handleSaved_def)

definition templates_inv :: "NotificationTemplate list \<Rightarrow> templates_world \<Rightarrow> bool" where
  "templates_inv defs w \<longleftrightarrow>
     tp_crashed (xw_page w) \<or> tp_templates (xw_page w) = []
     \<or> in_step defs (xw_overrides w) (snd ` set (xw_rereading w)) (tp_templates (xw_page w))"

lemma templates_inv_page:
  "templates_inv defs w \<Longrightarrow> tp_templates p = tp_templates (xw_page w) \<Longrightarrow> tp_crashed p \<longleftrightarrow> tp_crashed (xw_page w) \<Longrightarrow>
     templates_inv defs (w\<lparr>xw_page := p\<rparr>)"
  by (simp add: templates_inv_def)

lemma crashed_select [simp]: "tp_crashed (select_template t p) = tp_crashed p"
  by (simp add: select_template_def)

lemma crashed_on_editor [simp]: "tp_crashed (on_editor n f p) = tp_crashed p"
  by (simp add: on_editor_def)

lemma crashed_handleSaved [simp]: "tp_crashed (handleSaved t p) = tp_crashed p"
  by (simp add: handleSaved_def)

lemma read_fault: "snd (read_answer c (fault_answer f)) = r \<Longrightarrow> (\<exists>e. r = Inl e) \<or> r = Inr None"
  by (cases f) (auto simp: read_answer_def res_ok_def split: if_splits)

lemma read_refusal:
  "read_answer c (template_refusal 404 m) \<noteq> (c', Inr v)" "read_answer c (template_refusal 400 m) \<noteq> (c', Inr v)"
  by (auto simp: read_answer_def template_refusal_def res_ok_def)

lemma inv_save_event:
  assumes inv: "templates_inv defs w" and keys: "distinct (map template_key defs)" and "\<not> tp_crashed (xw_page w)"
  shows "templates_inv defs (save_event defs i fault w)"
proof -
  obtain n k subject body fmt where entry: "xw_saving w ! i = (n, k, subject, body, fmt)" by (metis prod.collapse)
  obtain answer ov where served: "(case fault of Some f \<Rightarrow> (fault_answer f, xw_overrides w)
      | None \<Rightarrow> UpdateTemplate defs k subject body fmt (xw_overrides w)) = (answer, ov)" by fastforce
  obtain c r where read: "read_answer (xw_client w) answer = (c, r)" by fastforce
  have new: "save_event defs i fault w =
      w\<lparr>xw_page := template_saved n r (xw_page w), xw_overrides := ov, xw_client := c, xw_saving := remove_nth i (xw_saving w)\<rparr>"
    by (simp add: save_event_def entry served updateNotificationTemplate_def api_verbs request_def read)
  show ?thesis
  proof (cases "\<exists>t. r = Inr (Some t)")
    case False
    then have "ov = xw_overrides w"
      using served read read_answer_delivers [OF delivers_delivery, of "xw_client w" "effective (_(k \<mapsto> _)) _"]
      by (auto simp: UpdateTemplate_def read_answer_delivers [OF delivers_delivery] Let_def split: option.splits if_splits)
    moreover have "tp_templates (template_saved n r (xw_page w)) = tp_templates (xw_page w)"
      "tp_crashed (xw_page w) \<longrightarrow> tp_crashed (template_saved n r (xw_page w))"
      using False by (auto simp: template_saved_def Let_def split: sum.split option.split)
    ultimately show ?thesis using inv assms(3) unfolding new by (auto simp: templates_inv_def)
  next
    case True
    then obtain t where t: "r = Inr (Some t)" by blast
    have "fault = None"
      using served read t read_fault [of "xw_client w" _ r] by (cases fault) (auto, metis snd_conv)
    moreover obtain d where d: "find_default defs k = Some d" "body \<noteq> []"
      using served read t calculation
      by (cases "find_default defs k") (auto simp: UpdateTemplate_def read_refusal split: if_splits)
    ultimately have ov: "ov = (xw_overrides w)(k \<mapsto> (subject, body, if fmt = [] then ''html'' else fmt))"
      and td: "t = effective ov d"
      using served read t by (auto simp: UpdateTemplate_def Let_def read_answer_delivers [OF delivers_delivery])
    have dk: "d \<in> set defs" "template_key d = k" using find_default_Some [OF d(1)] by auto
    have page: "tp_templates (template_saved n r (xw_page w))
        = map (\<lambda>x. if template_key x = template_key t then t else x) (tp_templates (xw_page w))"
      by (simp add: template_saved_def t handleSaved_templates Let_def)
    show ?thesis
    proof (cases "tp_templates (xw_page w) = []")
      case True
      then show ?thesis unfolding new by (simp add: templates_inv_def page)
    next
      case False
      then have "in_step defs (xw_overrides w) (snd ` set (xw_rereading w)) (tp_templates (xw_page w))"
        using inv assms(3) by (simp add: templates_inv_def)
      then have "in_step defs ov (snd ` set (xw_rereading w))
          (map (\<lambda>x. if template_key x = template_key (effective ov d) then effective ov d else x) (tp_templates (xw_page w)))"
        by (rule in_step_replace) (use dk keys in \<open>auto simp: ov\<close>)
      then show ?thesis unfolding new by (simp add: templates_inv_def page [unfolded td])
    qed
  qed
qed

lemma inv_delete_event:
  assumes inv: "templates_inv defs w" and "\<not> tp_crashed (xw_page w)"
  shows "templates_inv defs (delete_event i fault w)"
proof -
  obtain n k where entry: "xw_deleting w ! i = (n, k)" by (metis prod.collapse)
  obtain answer ov where served: "(case fault of Some f \<Rightarrow> (fault_answer f, xw_overrides w)
      | None \<Rightarrow> ResetTemplate k (xw_overrides w)) = (answer, ov)" by fastforce
  obtain c r where read: "read_answer (xw_client w) answer = (c, r)" by fastforce
  have ov: "\<forall>k'. k' \<noteq> k \<longrightarrow> ov k' = xw_overrides w k'"
    using served by (auto simp: ResetTemplate_def split: option.splits)
  have kept: "ov = xw_overrides w" if "\<exists>e. r = Inl e"
    using served read that
    by (cases fault) (auto simp: ResetTemplate_def read_answer_def res_ok_def)
  have open_more: "snd ` set (xw_rereading w) \<subseteq> snd ` set (xw_rereading w @ [(n, k)])" by auto
  have more: "in_step defs ov (snd ` set (xw_rereading w @ [(n, k)])) ts" if "in_step defs (xw_overrides w) (snd ` set (xw_rereading w)) ts" for ts
    using in_step_mono [OF that open_more, of ov] ov by auto
  show ?thesis
  proof (cases r)
    case (Inl e)
    then show ?thesis
      using inv kept by (auto simp: delete_event_def entry served resetNotificationTemplate_def api_verbs request_def read templates_inv_def)
  next
    case (Inr v)
    then show ?thesis
      using inv more assms(2)
      by (auto simp: delete_event_def entry served resetNotificationTemplate_def api_verbs request_def read templates_inv_def)
  qed
qed

lemma inv_reread_event:
  assumes inv: "templates_inv defs w" and keys: "distinct (map template_key defs)" and "i < length (xw_rereading w)"
    and "\<not> tp_crashed (xw_page w)"
  shows "templates_inv defs (reread_event defs i None w)"
proof -
  obtain n k where entry: "xw_rereading w ! i = (n, k)" by (metis prod.collapse)
  have rest: "snd ` set (xw_rereading w) - {k} \<subseteq> snd ` set (remove_nth i (xw_rereading w))"
    using set_remove_nth_insert [OF assms(3)] entry by auto
  have raw: "read_raw (delivery t) = Reread t" for t by (simp add: read_raw_def delivery_def res_ok_def)
  show ?thesis
  proof (cases "find_default defs k")
    case None
    then have "k \<notin> template_key ` set defs" by (auto simp: find_default_def find_None_iff)
    moreover have "read_raw (GetTemplate defs (xw_overrides w) k) = RereadRefused"
      by (simp add: GetTemplate_def None read_raw_def template_refusal_def res_ok_def)
    moreover have "in_step defs (xw_overrides w) (snd ` set (remove_nth i (xw_rereading w))) ts"
      if "in_step defs (xw_overrides w) (snd ` set (xw_rereading w)) ts" for ts
      using that rest calculation(1) unfolding in_step_def
      by (auto elim!: list.rel_mono_strong)
    ultimately show ?thesis
      using inv assms(4) by (auto simp: reread_event_def entry template_reread_def Let_def templates_inv_def)
  next
    case (Some d)
    then have d: "d \<in> set defs" "template_key d = k" using find_default_Some by auto
    have raw_d: "read_raw (GetTemplate defs (xw_overrides w) k) = Reread (effective (xw_overrides w) d)"
      by (simp add: GetTemplate_def Some raw)
    have page: "tp_templates (xw_page (reread_event defs i None w)) =
        map (\<lambda>t. if template_key t = template_key (effective (xw_overrides w) d) then effective (xw_overrides w) d else t)
          (tp_templates (xw_page w))"
      by (simp add: reread_event_def entry raw_d template_reread_def handleSaved_templates Let_def)
    have "in_step defs (xw_overrides w) (snd ` set (remove_nth i (xw_rereading w)))
        (map (\<lambda>t. if template_key t = template_key (effective (xw_overrides w) d) then effective (xw_overrides w) d else t)
          (tp_templates (xw_page w)))" if "in_step defs (xw_overrides w) (snd ` set (xw_rereading w)) (tp_templates (xw_page w))"
      by (rule in_step_replace [OF that _ _ d(1) keys]) (use rest d(2) in auto)
    then show ?thesis
      using inv page assms(4) by (auto simp: templates_inv_def reread_event_def entry)
  qed
qed

definition reread_fault :: "template_event \<Rightarrow> bool" where
  "reread_fault e = (case e of TmplReread i (Some f) \<Rightarrow> True | _ \<Rightarrow> False)"

lemma templates_inv_step:
  assumes inv: "templates_inv defs w" and keys: "distinct (map template_key defs)" and "\<not> reread_fault e"
  shows "templates_inv defs (template_step defs e w)"
proof (cases "tp_crashed (xw_page w)")
  case False
  show ?thesis
  proof (cases e)
    case TmplLoaded
    have "in_step defs (xw_overrides w) (snd ` set (xw_rereading w)) (ListTemplates defs (xw_overrides w))"
      by (rule in_step_mono [OF in_step_list]) auto
    then show ?thesis by (simp add: template_step_def TmplLoaded templates_inv_def templates_arrived_def Let_def)
  next
    case (TmplSaved i fault)
    then show ?thesis using False inv inv_save_event [OF inv keys False] by (simp add: template_step_def)
  next
    case (TmplDeleted i fault)
    then show ?thesis using False inv inv_delete_event [OF inv False] by (simp add: template_step_def)
  next
    case (TmplReread i fault)
    then have "fault = None" using assms(3) by (cases fault) (simp_all add: reread_fault_def)
    then show ?thesis using False inv TmplReread inv_reread_event [OF inv keys _ False] by (simp add: template_step_def)
  qed (use False inv in \<open>auto simp: template_step_def templates_inv_def Let_def split: option.split\<close>)
qed (use inv in \<open>simp add: template_step_def\<close>)


definition example_template :: NotificationTemplate where
  "example_template =
     \<lparr>notificationTemplate_eventType = ''cert_expired'', notificationTemplate_channel = ''email'', notificationTemplate_label = ''Expired'',
      notificationTemplate_subject = None, notificationTemplate_body = ''gone'', notificationTemplate_format = ''html'',
      notificationTemplate_isCustom = False, notificationTemplate_variables = []\<rparr>"

definition example_events :: "template_event list" where
  "example_events = [TmplLoaded, TmplBody ''over'', TmplSave, TmplSaved 0 None]"


subsection \<open>What the page does not do\<close>

text \<open>A reset whose second request is refused leaves the old template on the page, without a message.\<close>

lemma refused_reread_unnoticed:
  "tp_templates (template_reread n RereadRefused p) = tp_templates p"
  "te_error (template_reset_finish RereadRefused e) = te_error e"
  by (simp_all add: template_reread_def template_reset_finish_def Let_def)

text \<open>The answer to a save selects the saved template again: what was typed for another one meanwhile is gone.\<close>

lemma answer_changes_selection:
  assumes "tp_selected p = Some other" and "template_key other \<noteq> template_key t"
  shows "tp_selected (handleSaved t p) = Some t \<and> tp_editor (handleSaved t p) = editor_init t"
  using assms by (simp add: handleSaved_def select_template_def)

text \<open>What is typed while a save is under way counts as saved.\<close>

lemma typed_during_save_not_dirty:
  "te_dirty (template_save_finish (Inr v) (e\<lparr>te_body := b, te_dirty := True\<rparr>)) = False"
  by (simp add: template_save_finish_def)

text \<open>An ended session answers a save without a value, which the page cannot read.\<close>

lemma save_without_session_crashes: "tp_crashed (template_saved n (Inr None) p)"
  by (simp add: template_saved_def Let_def)

end
