(* ===== verification/AuditLogs.thy ===== *)
theory AuditLogs
  imports AlertSettings ListParts Dashboard
begin

section \<open>The audit log (\<open>pages/settings/AuditLogPage.tsx\<close>)\<close>

text \<open>
  Labels and colours of the actions, the rows with their details, search and paging; and the actions the server writes
  (\<open>internal/audit/action.go\<close>), with which the labels are to be kept in step. \<open>formatDate\<close> is the date format of the browser.
\<close>

subsection \<open>Actions\<close>

definition ACTION_LABELS :: "string js_object" where
  "ACTION_LABELS =
     [(''auth.login'', ''Login''), (''auth.login_failed'', ''Login Failed''), (''auth.oidc_login'', ''SSO Login''),
      (''endpoint.create'', ''Endpoint Created''), (''endpoint.update'', ''Endpoint Updated''), (''endpoint.delete'', ''Endpoint Deleted''),
      (''certificate.ingest'', ''Certificate Ingested''), (''certificate.delete'', ''Certificate Deleted''),
      (''scanner.create'', ''Scanner Created''), (''scanner.update'', ''Scanner Updated''), (''scanner.delete'', ''Scanner Deleted''),
      (''scanner.set_default'', ''Scanner Set Default''), (''scanner.regenerate_token'', ''Scanner Token Regenerated''),
      (''user.create'', ''User Created''), (''user.update'', ''User Updated''), (''user.delete'', ''User Deleted''),
      (''user.password_change'', ''Password Changed''), (''user.enabled_change'', ''User Enable/Disable''),
      (''me.password_change'', ''Password Changed (Self)''),
      (''group.create'', ''Group Created''), (''group.update'', ''Group Updated''), (''group.delete'', ''Group Deleted''),
      (''discovery.network.create'', ''Discovery Network Created''), (''discovery.network.update'', ''Discovery Network Updated''),
      (''discovery.network.delete'', ''Discovery Network Deleted''), (''discovery.inbox.promote'', ''Discovery Item Promoted''),
      (''settings.mail_config_update'', ''Mail Config Updated''), (''settings.alert_thresholds_update'', ''Alert Thresholds Updated''),
      (''settings.scheduled_job.update'', ''Scheduled Job Updated''),
      (''settings.scan_history_retention.update'', ''Scan History Retention Updated''),
      (''settings.audit_log_retention.update'', ''Audit Log Retention Updated''),
      (''maintenance.purge_scan_history.run'', ''Scan History Purged''), (''maintenance.purge_expiry_alerts.run'', ''Expiry Alerts Purged''),
      (''maintenance.purge_unreferenced_certs.run'', ''Unreferenced Certs Purged''),
      (''maintenance.purge_audit_logs.run'', ''Audit Logs Purged''), (''maintenance.refresh_root_stores.run'', ''Root Stores Refreshed''),
      (''maintenance.expiry_alerts.run'', ''Expiry Alerts Run'')]"

definition formatAction :: "string \<Rightarrow> string property" where
  "formatAction action = (case obj_get ACTION_LABELS action of Undefined \<Rightarrow> Own action | x \<Rightarrow> x)"

definition actionCategory :: "string \<Rightarrow> string" where
  "actionCategory action = hd (split_char (CHR ''.'') action)"

definition categoryColours :: "string js_object" where
  "categoryColours =
     [(''auth'', ''bg-blue-100 text-blue-800 dark:bg-blue-900/40 dark:text-blue-300''),
      (''endpoint'', ''bg-emerald-100 text-emerald-800 dark:bg-emerald-900/40 dark:text-emerald-300''),
      (''certificate'', ''bg-yellow-100 text-yellow-800 dark:bg-yellow-900/40 dark:text-yellow-300''),
      (''scanner'', ''bg-purple-100 text-purple-800 dark:bg-purple-900/40 dark:text-purple-300''),
      (''user'', ''bg-orange-100 text-orange-800 dark:bg-orange-900/40 dark:text-orange-300''),
      (''me'', ''bg-orange-100 text-orange-800 dark:bg-orange-900/40 dark:text-orange-300''),
      (''group'', ''bg-pink-100 text-pink-800 dark:bg-pink-900/40 dark:text-pink-300''),
      (''discovery'', ''bg-cyan-100 text-cyan-800 dark:bg-cyan-900/40 dark:text-cyan-300''),
      (''settings'', ''bg-slate-100 text-slate-800 dark:bg-slate-900/40 dark:text-slate-300''),
      (''maintenance'', ''bg-amber-100 text-amber-800 dark:bg-amber-900/40 dark:text-amber-300'')]"

definition ActionBadge :: "string \<Rightarrow> string property \<times> string property" where
  "ActionBadge action =
     ((case obj_get categoryColours (actionCategory action) of Undefined \<Rightarrow> Own ''bg-muted text-muted-foreground'' | x \<Rightarrow> x),
      formatAction action)"

subsection \<open>Rows\<close>

definition hasDetails :: "(string \<times> json) list option \<Rightarrow> bool" where
  "hasDetails details = (case details of None \<Rightarrow> False | Some members \<Rightarrow> length members > 0)"

definition resourceSummary :: "AuditLog \<Rightarrow> string" where
  "resourceSummary log =
     (if truthy (auditLog_resourceLabel log) then nullish (auditLog_resourceLabel log) []
      else if truthy (auditLog_resourceType log) \<and> truthy (auditLog_resourceId log)
        then nullish (auditLog_resourceType log) [] @ '' / '' @ nullish (auditLog_resourceId log) []
      else if truthy (auditLog_resourceType log) then nullish (auditLog_resourceType log) []
      else em_dash)"

text \<open>The line below a labelled resource.\<close>

definition resource_detail :: "AuditLog \<Rightarrow> string option" where
  "resource_detail log =
     (if truthy (auditLog_resourceLabel log) \<and> truthy (auditLog_resourceType log)
      then Some (nullish (auditLog_resourceType log) []
             @ (if truthy (auditLog_resourceId log) then '' '' @ middle_dot @ '' '' @ nullish (auditLog_resourceId log) [] else []))
      else None)"

record log_view =
  lv_expanded :: "bool option"
  lv_time :: string
  lv_user :: string
  lv_action :: "string property \<times> string property"
  lv_resource :: string
  lv_resourceDetail :: "string option"
  lv_ip :: string
  lv_details :: "(string \<times> json) list option"

text \<open>\<open>lv_expanded\<close> is \<^const>\<open>None\<close> for a row that cannot be expanded.\<close>

definition log_row :: "(string \<Rightarrow> string) \<Rightarrow> string option \<Rightarrow> AuditLog \<Rightarrow> log_view" where
  "log_row formatDate expandedId log =
     (let expandable = hasDetails (auditLog_details log); expanded = (expandedId = Some (auditLog_id log)) in
      \<lparr>lv_expanded = (if expandable then Some expanded else None), lv_time = formatDate (auditLog_createdAt log),
       lv_user = (if auditLog_username log = [] \<or> auditLog_username log = ''system'' then ''system'' else auditLog_username log),
       lv_action = ActionBadge (auditLog_action log), lv_resource = resourceSummary log, lv_resourceDetail = resource_detail log,
       lv_ip = nullish (auditLog_ipAddress log) em_dash,
       lv_details = (if expandable \<and> expanded then auditLog_details log else None)\<rparr>)"

subsection \<open>The page\<close>

definition LOG_PAGE_SIZE :: int where
  "LOG_PAGE_SIZE = 50"

record audit_page =
  lp_page :: int
  lp_search :: string
  lp_debouncedSearch :: string
  lp_expandedId :: "string option"

definition audit_page_init :: audit_page where
  "audit_page_init = \<lparr>lp_page = 1, lp_search = [], lp_debouncedSearch = [], lp_expandedId = None\<rparr>"

definition log_totalPages :: "int \<Rightarrow> int" where
  "log_totalPages totalCount = max 1 (ceil_div totalCount LOG_PAGE_SIZE)"

definition log_range :: "int \<Rightarrow> int \<Rightarrow> int \<times> int" where
  "log_range page totalCount =
     (if totalCount = 0 then 0 else (page - 1) * LOG_PAGE_SIZE + 1, min (page * LOG_PAGE_SIZE) totalCount)"

datatype audit_event = LogTyped string | LogTimer | LogToggled AuditLog | LogPrev | LogNext int

fun audit_step :: "audit_event \<Rightarrow> audit_page \<Rightarrow> audit_page" where
  "audit_step (LogTyped v) s = s\<lparr>lp_search := v\<rparr>"
| "audit_step LogTimer s = s\<lparr>lp_debouncedSearch := lp_search s, lp_page := 1\<rparr>"
| "audit_step (LogToggled log) s =
     (if hasDetails (auditLog_details log)
      then s\<lparr>lp_expandedId := (if lp_expandedId s = Some (auditLog_id log) then None else Some (auditLog_id log))\<rparr> else s)"
| "audit_step LogPrev s = (if lp_page s \<le> 1 then s else s\<lparr>lp_page := max 1 (lp_page s - 1)\<rparr>)"
| "audit_step (LogNext tot) s =
     (if lp_page s \<ge> log_totalPages tot then s else s\<lparr>lp_page := min (log_totalPages tot) (lp_page s + 1)\<rparr>)"

definition audit_query :: "audit_page \<Rightarrow> AuditLogList api_call" where
  "audit_query s = listAuditLogs (lp_page s) LOG_PAGE_SIZE (lp_debouncedSearch s) []"

definition audit_body :: "(string \<Rightarrow> string) \<Rightarrow> bool \<Rightarrow> AuditLog list \<Rightarrow> audit_page \<Rightarrow> log_view panel" where
  "audit_body formatDate isLoading logs s =
     (if isLoading then PanelLoading
      else if length logs = 0 then PanelEmpty ''No audit log entries found.''
      else PanelRows (map (log_row formatDate (lp_expandedId s)) logs))"

definition audit_footer :: "int \<Rightarrow> audit_page \<Rightarrow> (int \<times> int \<times> int) option" where
  "audit_footer totalCount s =
     (if totalCount = 0 then None
      else Some (fst (log_range (lp_page s) totalCount), snd (log_range (lp_page s) totalCount), totalCount))"

subsection \<open>The actions of the server\<close>

definition server_actions :: "string list" where
  "server_actions =
     [''auth.login'', ''auth.login_failed'', ''auth.oidc_login'',
      ''auth.totp.enable'', ''auth.totp.disable'', ''auth.totp.verify_failed'', ''auth.totp.recovery_used'',
      ''auth.totp.recovery_regenerate'', ''auth.bootstrap.breakglass'',
      ''endpoint.create'', ''endpoint.update'', ''endpoint.delete'', ''certificate.ingest'', ''certificate.delete'',
      ''scanner.create'', ''scanner.update'', ''scanner.delete'', ''scanner.set_default'', ''scanner.regenerate_token'',
      ''user.create'', ''user.update'', ''user.delete'', ''user.password_change'', ''user.enabled_change'', ''me.password_change'',
      ''group.create'', ''group.update'', ''group.delete'',
      ''discovery.network.create'', ''discovery.network.update'', ''discovery.network.delete'', ''discovery.inbox.promote'',
      ''settings.mail_config_update'', ''settings.alert_thresholds_update'',
      ''maintenance.purge_scan_history.run'', ''maintenance.purge_expiry_alerts.run'', ''maintenance.purge_unreferenced_certs.run'',
      ''maintenance.purge_audit_logs.run'', ''maintenance.refresh_root_stores.run'', ''maintenance.expiry_alerts.run'']"

text \<open>The actions that \<open>internal/settings/handler.go\<close> writes as literals.\<close>

definition literal_actions :: "string list" where
  "literal_actions =
     [''settings.scheduled_job.update'', ''settings.scan_history_retention.update'', ''settings.audit_log_retention.update'']"

text \<open>Every label belongs to an action of the server; the actions of the second factor and of the lockout recovery have none and are shown
  as they are. Every action has the colour of its category.\<close>

lemma labels_of_server_actions:
  "set (map fst ACTION_LABELS) \<subseteq> set (server_actions @ literal_actions)"
  "filter (\<lambda>a. map_of ACTION_LABELS a = None) (server_actions @ literal_actions) =
     [''auth.totp.enable'', ''auth.totp.disable'', ''auth.totp.verify_failed'', ''auth.totp.recovery_used'',
      ''auth.totp.recovery_regenerate'', ''auth.bootstrap.breakglass'']"
  "list_all (\<lambda>a. map_of categoryColours (actionCategory a) \<noteq> None) (server_actions @ literal_actions)"
  by code_simp+

text \<open>The buttons never leave the pages, and every entry is on exactly one of them.\<close>

lemma audit_page_bounds:
  "1 \<le> lp_page s \<Longrightarrow> lp_page s \<le> log_totalPages tot \<Longrightarrow> e = LogPrev \<or> e = LogNext tot \<Longrightarrow>
     1 \<le> lp_page (audit_step e s) \<and> lp_page (audit_step e s) \<le> log_totalPages tot"
  by (auto simp: log_totalPages_def)

lemma log_page_size_pos: "0 < LOG_PAGE_SIZE"
  by (simp add: LOG_PAGE_SIZE_def)

lemma audit_entry_on_one_page:
  assumes "1 \<le> i" and "i \<le> tot"
  shows "fst (log_range p tot) \<le> i \<and> i \<le> snd (log_range p tot) \<longleftrightarrow> p = ceil_div i LOG_PAGE_SIZE"
proof -
  have "p = ceil_div i LOG_PAGE_SIZE \<longleftrightarrow> ceil_div i LOG_PAGE_SIZE \<le> p \<and> \<not> ceil_div i LOG_PAGE_SIZE \<le> p - 1" by auto
  also have "\<dots> \<longleftrightarrow> i \<le> p * LOG_PAGE_SIZE \<and> \<not> i \<le> (p - 1) * LOG_PAGE_SIZE"
    by (simp only: ceil_div_least [OF log_page_size_pos])
  also have "\<dots> \<longleftrightarrow> fst (log_range p tot) \<le> i \<and> i \<le> snd (log_range p tot)"
    using assms by (auto simp: log_range_def)
  finally show ?thesis by simp
qed

text \<open>At most one row of a page is expanded, as the identifiers of the entries differ.\<close>

lemma one_row_expanded:
  assumes "distinct (map auditLog_id logs)"
  shows "length (filter (\<lambda>v. lv_expanded v = Some True) (map (log_row formatDate x) logs)) \<le> 1"
  using assms
proof (induction logs)
  case (Cons log logs)
  show ?case
  proof (cases "lv_expanded (log_row formatDate x log) = Some True")
    case True
    then have "x = Some (auditLog_id log)" by (auto simp: log_row_def Let_def split: if_splits)
    then have "filter (\<lambda>v. lv_expanded v = Some True) (map (log_row formatDate x) logs) = []"
      using Cons.prems by (auto simp: filter_empty_conv log_row_def Let_def split: if_splits)
    then show ?thesis using True by simp
  qed (use Cons in auto)
qed simp

end
