(* ===== verification/CipherTable.thy ===== *)
theory CipherTable
  imports ApiTypes
begin

section \<open>Cipher suites and their weaknesses (\<open>internal/tlsprofile/ciphers.go\<close>)\<close>

text \<open>
  The table of the server: the known suites with the reason and the severity it gives them, grouped by severity and reason.
  The pages show these texts as they are.
\<close>

definition critical_suites :: "(string \<times> string list) list" where
  "critical_suites =
     [(''NULL cipher '' @ em_dash @ '' no encryption; traffic is plaintext.'',
       [''TLS_RSA_WITH_NULL_MD5'', ''TLS_RSA_WITH_NULL_SHA'', ''TLS_RSA_WITH_NULL_SHA256'', ''TLS_ECDHE_RSA_WITH_NULL_SHA'',
        ''TLS_ECDHE_ECDSA_WITH_NULL_SHA'', ''TLS_ECDH_RSA_WITH_NULL_SHA'', ''TLS_ECDH_ECDSA_WITH_NULL_SHA'',
        ''TLS_PSK_WITH_NULL_SHA'', ''TLS_PSK_WITH_NULL_SHA256'', ''TLS_PSK_WITH_NULL_SHA384'', ''TLS_DHE_PSK_WITH_NULL_SHA'',
        ''TLS_DHE_PSK_WITH_NULL_SHA256'', ''TLS_DHE_PSK_WITH_NULL_SHA384'', ''TLS_RSA_PSK_WITH_NULL_SHA'',
        ''TLS_RSA_PSK_WITH_NULL_SHA256'', ''TLS_RSA_PSK_WITH_NULL_SHA384'', ''TLS_ECDHE_PSK_WITH_NULL_SHA'',
        ''TLS_ECDHE_PSK_WITH_NULL_SHA256'', ''TLS_ECDHE_PSK_WITH_NULL_SHA384'']),
      (''NULL cipher with anonymous key exchange '' @ em_dash @ '' no encryption and no authentication.'',
       [''TLS_ECDH_anon_WITH_NULL_SHA'']),
      (''EXPORT-grade cipher with 40-bit key; trivially broken.'',
       [''TLS_RSA_EXPORT_WITH_RC4_40_MD5'', ''TLS_RSA_EXPORT_WITH_RC2_CBC_40_MD5'', ''TLS_RSA_EXPORT_WITH_DES40_CBC_SHA'',
        ''TLS_DH_RSA_EXPORT_WITH_DES40_CBC_SHA'', ''TLS_DH_DSS_EXPORT_WITH_DES40_CBC_SHA'',
        ''TLS_DHE_RSA_EXPORT_WITH_DES40_CBC_SHA'', ''TLS_DHE_DSS_EXPORT_WITH_DES40_CBC_SHA'',
        ''TLS_KRB5_EXPORT_WITH_DES_CBC_40_SHA'', ''TLS_KRB5_EXPORT_WITH_RC2_CBC_40_SHA'', ''TLS_KRB5_EXPORT_WITH_RC4_40_SHA'',
        ''TLS_KRB5_EXPORT_WITH_DES_CBC_40_MD5'', ''TLS_KRB5_EXPORT_WITH_RC2_CBC_40_MD5'', ''TLS_KRB5_EXPORT_WITH_RC4_40_MD5'']),
      (''EXPORT-grade cipher with 40-bit key and anonymous key exchange; trivially broken.'',
       [''TLS_DH_anon_EXPORT_WITH_DES40_CBC_SHA'']),
      (''EXPORT-grade cipher with 56-bit key; trivially broken.'',
       [''TLS_RSA_EXPORT1024_WITH_RC4_56_MD5'', ''TLS_RSA_EXPORT1024_WITH_RC2_CBC_56_MD5'', ''TLS_RSA_EXPORT1024_WITH_DES_CBC_SHA'',
        ''TLS_DHE_DSS_EXPORT1024_WITH_DES_CBC_SHA'', ''TLS_RSA_EXPORT1024_WITH_RC4_56_SHA'',
        ''TLS_DHE_DSS_EXPORT1024_WITH_RC4_56_SHA'']),
      (''RC4 is cryptographically broken and prohibited in TLS (RFC 7465).'',
       [''TLS_RSA_WITH_RC4_128_MD5'', ''TLS_RSA_WITH_RC4_128_SHA'', ''TLS_ECDHE_RSA_WITH_RC4_128_SHA'',
        ''TLS_ECDHE_ECDSA_WITH_RC4_128_SHA'', ''TLS_ECDH_RSA_WITH_RC4_128_SHA'', ''TLS_ECDH_ECDSA_WITH_RC4_128_SHA'',
        ''TLS_PSK_WITH_RC4_128_SHA'', ''TLS_DHE_PSK_WITH_RC4_128_SHA'', ''TLS_RSA_PSK_WITH_RC4_128_SHA'',
        ''TLS_ECDHE_PSK_WITH_RC4_128_SHA'', ''TLS_DHE_DSS_WITH_RC4_128_SHA'', ''TLS_KRB5_WITH_RC4_128_SHA'',
        ''TLS_KRB5_WITH_RC4_128_MD5'']),
      (''RC4 is broken (RFC 7465); anonymous key exchange provides no authentication.'',
       [''TLS_DH_anon_WITH_RC4_128_MD5'', ''TLS_ECDH_anon_WITH_RC4_128_SHA'']),
      (''DES has a 56-bit key; brute-forceable on commodity hardware.'',
       [''TLS_RSA_WITH_DES_CBC_SHA'', ''TLS_DHE_RSA_WITH_DES_CBC_SHA'', ''TLS_DHE_DSS_WITH_DES_CBC_SHA'',
        ''TLS_DH_RSA_WITH_DES_CBC_SHA'', ''TLS_DH_DSS_WITH_DES_CBC_SHA'', ''TLS_KRB5_WITH_DES_CBC_SHA'',
        ''TLS_KRB5_WITH_DES_CBC_MD5'']),
      (''DES has a 56-bit key; anonymous key exchange provides no authentication.'',
       [''TLS_DH_anon_WITH_DES_CBC_SHA'']),
      (''3DES has a 64-bit block size; vulnerable to SWEET32. No forward secrecy.'',
       [''TLS_RSA_WITH_3DES_EDE_CBC_SHA'', ''TLS_DH_RSA_WITH_3DES_EDE_CBC_SHA'', ''TLS_DH_DSS_WITH_3DES_EDE_CBC_SHA'']),
      (''3DES has a 64-bit block size; vulnerable to SWEET32.'',
       [''TLS_DHE_RSA_WITH_3DES_EDE_CBC_SHA'', ''TLS_DHE_DSS_WITH_3DES_EDE_CBC_SHA'', ''TLS_ECDHE_RSA_WITH_3DES_EDE_CBC_SHA'',
        ''TLS_ECDHE_ECDSA_WITH_3DES_EDE_CBC_SHA'', ''TLS_PSK_WITH_3DES_EDE_CBC_SHA'', ''TLS_DHE_PSK_WITH_3DES_EDE_CBC_SHA'',
        ''TLS_RSA_PSK_WITH_3DES_EDE_CBC_SHA'', ''TLS_ECDHE_PSK_WITH_3DES_EDE_CBC_SHA'', ''TLS_SRP_SHA_WITH_3DES_EDE_CBC_SHA'',
        ''TLS_SRP_SHA_RSA_WITH_3DES_EDE_CBC_SHA'', ''TLS_SRP_SHA_DSS_WITH_3DES_EDE_CBC_SHA'', ''TLS_KRB5_WITH_3DES_EDE_CBC_SHA'',
        ''TLS_KRB5_WITH_3DES_EDE_CBC_MD5'']),
      (''3DES is vulnerable to SWEET32; anonymous key exchange provides no authentication.'',
       [''TLS_DH_anon_WITH_3DES_EDE_CBC_SHA'', ''TLS_ECDH_anon_WITH_3DES_EDE_CBC_SHA'']),
      (''3DES is vulnerable to SWEET32. Static ECDH provides no forward secrecy.'',
       [''TLS_ECDH_RSA_WITH_3DES_EDE_CBC_SHA'', ''TLS_ECDH_ECDSA_WITH_3DES_EDE_CBC_SHA'']),
      (''IDEA has a 64-bit block size; removed from TLS 1.2. No forward secrecy.'',
       [''TLS_RSA_WITH_IDEA_CBC_SHA'']),
      (''IDEA has a 64-bit block size; removed from TLS 1.2.'',
       [''TLS_KRB5_WITH_IDEA_CBC_SHA'', ''TLS_KRB5_WITH_IDEA_CBC_MD5'']),
      (''Anonymous DH provides no server authentication; trivial MITM.'',
       [''TLS_DH_anon_WITH_AES_128_CBC_SHA'', ''TLS_DH_anon_WITH_AES_256_CBC_SHA'', ''TLS_DH_anon_WITH_AES_128_CBC_SHA256'',
        ''TLS_DH_anon_WITH_AES_256_CBC_SHA256'', ''TLS_DH_anon_WITH_AES_128_GCM_SHA256'', ''TLS_DH_anon_WITH_AES_256_GCM_SHA384'',
        ''TLS_DH_anon_WITH_CAMELLIA_128_CBC_SHA'', ''TLS_DH_anon_WITH_CAMELLIA_256_CBC_SHA'',
        ''TLS_DH_anon_WITH_CAMELLIA_128_CBC_SHA256'', ''TLS_DH_anon_WITH_SEED_CBC_SHA'']),
      (''Anonymous ECDH provides no server authentication; trivial MITM.'',
       [''TLS_ECDH_anon_WITH_AES_128_CBC_SHA'', ''TLS_ECDH_anon_WITH_AES_256_CBC_SHA'']),
      (''GOST R 34.10-94 is obsolete; limited audit and interoperability.'',
       [''TLS_GOSTR341094_WITH_28147_CNT_IMIT'']),
      (''GOST R 34.10-94 is obsolete; uses MD5.'',
       [''TLS_GOSTR341094_RSA_WITH_28147_CNT_MD5'']),
      (''Non-standard GOST cipher with static RSA; limited audit.'',
       [''TLS_RSA_WITH_28147_CNT_GOST94''])]"

definition warning_suites :: "(string \<times> string list) list" where
  "warning_suites =
     [(''Non-standard GOST cipher; limited audit and interoperability.'',
       [''TLS_GOSTR341001_WITH_28147_CNT_IMIT'']),
      (''Draft ChaCha20-Poly1305 identifier (pre-RFC 7905); upgrade to the standard suite.'',
       [''TLS_ECDHE_RSA_WITH_CHACHA20_POLY1305_SHA256_OLD'', ''TLS_ECDHE_ECDSA_WITH_CHACHA20_POLY1305_SHA256_OLD'',
        ''TLS_DHE_RSA_WITH_CHACHA20_POLY1305_SHA256_OLD'']),
      (''Static RSA key exchange provides no forward secrecy.'',
       [''TLS_RSA_WITH_AES_128_CBC_SHA'', ''TLS_RSA_WITH_AES_256_CBC_SHA'', ''TLS_RSA_WITH_AES_128_CBC_SHA256'',
        ''TLS_RSA_WITH_AES_256_CBC_SHA256'', ''TLS_RSA_WITH_AES_128_GCM_SHA256'', ''TLS_RSA_WITH_AES_256_GCM_SHA384'',
        ''TLS_RSA_WITH_AES_128_CCM'', ''TLS_RSA_WITH_AES_256_CCM'', ''TLS_RSA_WITH_CAMELLIA_128_CBC_SHA'',
        ''TLS_RSA_WITH_CAMELLIA_256_CBC_SHA'', ''TLS_RSA_WITH_CAMELLIA_128_CBC_SHA256'']),
      (''Static RSA key exchange provides no forward secrecy; CCM-8 has a truncated authentication tag.'',
       [''TLS_RSA_WITH_AES_128_CCM_8'', ''TLS_RSA_WITH_AES_256_CCM_8'']),
      (''Static RSA key exchange provides no forward secrecy; SEED is a legacy cipher.'',
       [''TLS_RSA_WITH_SEED_CBC_SHA'']),
      (''Static DH key exchange provides no forward secrecy.'',
       [''TLS_DH_RSA_WITH_AES_128_CBC_SHA'', ''TLS_DH_RSA_WITH_AES_256_CBC_SHA'', ''TLS_DH_DSS_WITH_AES_128_CBC_SHA'',
        ''TLS_DH_DSS_WITH_AES_256_CBC_SHA'', ''TLS_DH_RSA_WITH_AES_128_CBC_SHA256'', ''TLS_DH_RSA_WITH_AES_256_CBC_SHA256'',
        ''TLS_DH_DSS_WITH_AES_128_CBC_SHA256'', ''TLS_DH_DSS_WITH_AES_256_CBC_SHA256'', ''TLS_DH_RSA_WITH_AES_128_GCM_SHA256'',
        ''TLS_DH_RSA_WITH_AES_256_GCM_SHA384'', ''TLS_DH_DSS_WITH_AES_128_GCM_SHA256'', ''TLS_DH_DSS_WITH_AES_256_GCM_SHA384'',
        ''TLS_DH_RSA_WITH_CAMELLIA_128_CBC_SHA'', ''TLS_DH_RSA_WITH_CAMELLIA_256_CBC_SHA'', ''TLS_DH_DSS_WITH_CAMELLIA_128_CBC_SHA'',
        ''TLS_DH_DSS_WITH_CAMELLIA_256_CBC_SHA'', ''TLS_DH_RSA_WITH_CAMELLIA_128_CBC_SHA256'',
        ''TLS_DH_DSS_WITH_CAMELLIA_128_CBC_SHA256'']),
      (''Static DH key exchange provides no forward secrecy; SEED is a legacy cipher.'',
       [''TLS_DH_RSA_WITH_SEED_CBC_SHA'', ''TLS_DH_DSS_WITH_SEED_CBC_SHA'']),
      (''Static ECDH key exchange provides no forward secrecy.'',
       [''TLS_ECDH_RSA_WITH_AES_128_CBC_SHA'', ''TLS_ECDH_RSA_WITH_AES_256_CBC_SHA'', ''TLS_ECDH_ECDSA_WITH_AES_128_CBC_SHA'',
        ''TLS_ECDH_ECDSA_WITH_AES_256_CBC_SHA'', ''TLS_ECDH_RSA_WITH_AES_128_CBC_SHA256'', ''TLS_ECDH_RSA_WITH_AES_256_CBC_SHA384'',
        ''TLS_ECDH_ECDSA_WITH_AES_128_CBC_SHA256'', ''TLS_ECDH_ECDSA_WITH_AES_256_CBC_SHA384'',
        ''TLS_ECDH_RSA_WITH_AES_128_GCM_SHA256'', ''TLS_ECDH_RSA_WITH_AES_256_GCM_SHA384'',
        ''TLS_ECDH_ECDSA_WITH_AES_128_GCM_SHA256'', ''TLS_ECDH_ECDSA_WITH_AES_256_GCM_SHA384'',
        ''TLS_ECDH_RSA_WITH_CAMELLIA_128_CBC_SHA256'', ''TLS_ECDH_RSA_WITH_CAMELLIA_256_CBC_SHA384'',
        ''TLS_ECDH_ECDSA_WITH_CAMELLIA_128_CBC_SHA256'', ''TLS_ECDH_ECDSA_WITH_CAMELLIA_256_CBC_SHA384'']),
      (''CBC mode without authenticated encryption. Prefer DHE+AES-GCM.'',
       [''TLS_DHE_RSA_WITH_AES_128_CBC_SHA'', ''TLS_DHE_RSA_WITH_AES_256_CBC_SHA'', ''TLS_DHE_RSA_WITH_AES_128_CBC_SHA256'',
        ''TLS_DHE_RSA_WITH_AES_256_CBC_SHA256'']),
      (''CBC mode without authenticated encryption; DSS is rarely used.'',
       [''TLS_DHE_DSS_WITH_AES_128_CBC_SHA'', ''TLS_DHE_DSS_WITH_AES_256_CBC_SHA'', ''TLS_DHE_DSS_WITH_AES_128_CBC_SHA256'',
        ''TLS_DHE_DSS_WITH_AES_256_CBC_SHA256'', ''TLS_DHE_DSS_WITH_CAMELLIA_128_CBC_SHA'',
        ''TLS_DHE_DSS_WITH_CAMELLIA_256_CBC_SHA'', ''TLS_DHE_DSS_WITH_CAMELLIA_128_CBC_SHA256'']),
      (''CBC mode without authenticated encryption.'',
       [''TLS_DHE_RSA_WITH_CAMELLIA_128_CBC_SHA'', ''TLS_DHE_RSA_WITH_CAMELLIA_256_CBC_SHA'',
        ''TLS_DHE_RSA_WITH_CAMELLIA_128_CBC_SHA256'', ''TLS_ECDHE_RSA_WITH_CAMELLIA_128_CBC_SHA256'',
        ''TLS_ECDHE_RSA_WITH_CAMELLIA_256_CBC_SHA384'', ''TLS_ECDHE_ECDSA_WITH_CAMELLIA_128_CBC_SHA256'',
        ''TLS_ECDHE_ECDSA_WITH_CAMELLIA_256_CBC_SHA384'', ''TLS_DHE_PSK_WITH_AES_128_CBC_SHA'', ''TLS_DHE_PSK_WITH_AES_256_CBC_SHA'',
        ''TLS_ECDHE_PSK_WITH_AES_128_CBC_SHA'', ''TLS_ECDHE_PSK_WITH_AES_256_CBC_SHA'', ''TLS_ECDHE_PSK_WITH_AES_128_CBC_SHA256'',
        ''TLS_ECDHE_PSK_WITH_AES_256_CBC_SHA384'']),
      (''SEED is a legacy cipher; CBC mode without authenticated encryption.'',
       [''TLS_DHE_RSA_WITH_SEED_CBC_SHA'']),
      (''SEED is a legacy cipher; CBC mode without authenticated encryption; DSS is rarely used.'',
       [''TLS_DHE_DSS_WITH_SEED_CBC_SHA'']),
      (''CBC mode without authenticated encryption. Prefer ECDHE+AES-GCM or ChaCha20-Poly1305.'',
       [''TLS_ECDHE_RSA_WITH_AES_128_CBC_SHA'', ''TLS_ECDHE_RSA_WITH_AES_256_CBC_SHA'', ''TLS_ECDHE_RSA_WITH_AES_128_CBC_SHA256'',
        ''TLS_ECDHE_RSA_WITH_AES_256_CBC_SHA384'', ''TLS_ECDHE_ECDSA_WITH_AES_128_CBC_SHA'',
        ''TLS_ECDHE_ECDSA_WITH_AES_256_CBC_SHA'', ''TLS_ECDHE_ECDSA_WITH_AES_128_CBC_SHA256'',
        ''TLS_ECDHE_ECDSA_WITH_AES_256_CBC_SHA384'']),
      (''CBC mode without authenticated encryption; PSK provides no forward secrecy.'',
       [''TLS_PSK_WITH_AES_128_CBC_SHA'', ''TLS_PSK_WITH_AES_256_CBC_SHA'']),
      (''CBC mode without authenticated encryption; static RSA provides no forward secrecy.'',
       [''TLS_RSA_PSK_WITH_AES_128_CBC_SHA'', ''TLS_RSA_PSK_WITH_AES_256_CBC_SHA'']),
      (''CBC mode without authenticated encryption; SRP is rarely used.'',
       [''TLS_SRP_SHA_WITH_AES_128_CBC_SHA'', ''TLS_SRP_SHA_WITH_AES_256_CBC_SHA'', ''TLS_SRP_SHA_RSA_WITH_AES_128_CBC_SHA'',
        ''TLS_SRP_SHA_RSA_WITH_AES_256_CBC_SHA'']),
      (''CBC mode without authenticated encryption; SRP+DSS is rarely used.'',
       [''TLS_SRP_SHA_DSS_WITH_AES_128_CBC_SHA'', ''TLS_SRP_SHA_DSS_WITH_AES_256_CBC_SHA'']),
      (''CCM-8 has a truncated 8-byte authentication tag; reduced integrity assurance.'',
       [''TLS_DHE_RSA_WITH_AES_128_CCM_8'', ''TLS_DHE_RSA_WITH_AES_256_CCM_8'', ''TLS_PSK_DHE_WITH_AES_128_CCM_8'',
        ''TLS_PSK_DHE_WITH_AES_256_CCM_8'', ''TLS_ECDHE_ECDSA_WITH_AES_128_CCM_8'', ''TLS_ECDHE_ECDSA_WITH_AES_256_CCM_8'']),
      (''PSK provides no forward secrecy.'',
       [''TLS_PSK_WITH_AES_128_CCM'', ''TLS_PSK_WITH_AES_256_CCM'']),
      (''PSK provides no forward secrecy; CCM-8 has a truncated authentication tag.'',
       [''TLS_PSK_WITH_AES_128_CCM_8'', ''TLS_PSK_WITH_AES_256_CCM_8'']),
      (''AEAD with forward secrecy, but DSS/DSA is rarely used and being phased out.'',
       [''TLS_DHE_DSS_WITH_AES_128_GCM_SHA256'', ''TLS_DHE_DSS_WITH_AES_256_GCM_SHA384''])]"

definition ok_suites :: "(string \<times> string list) list" where
  "ok_suites =
     [(''Forward secrecy with AES-128-GCM (AEAD). Recommended when ECDHE is unavailable.'',
       [''TLS_DHE_RSA_WITH_AES_128_GCM_SHA256'']),
      (''Forward secrecy with AES-256-GCM (AEAD). Recommended when ECDHE is unavailable.'',
       [''TLS_DHE_RSA_WITH_AES_256_GCM_SHA384'']),
      (''Forward secrecy with AES-128-CCM (AEAD).'',
       [''TLS_DHE_RSA_WITH_AES_128_CCM'', ''TLS_DHE_PSK_WITH_AES_128_CCM'', ''TLS_ECDHE_ECDSA_WITH_AES_128_CCM'']),
      (''Forward secrecy with AES-256-CCM (AEAD).'',
       [''TLS_DHE_RSA_WITH_AES_256_CCM'', ''TLS_DHE_PSK_WITH_AES_256_CCM'', ''TLS_ECDHE_ECDSA_WITH_AES_256_CCM'']),
      (''Forward secrecy with ChaCha20-Poly1305 (AEAD).'',
       [''TLS_DHE_RSA_WITH_CHACHA20_POLY1305_SHA256'', ''TLS_DHE_PSK_WITH_CHACHA20_POLY1305_SHA256'',
        ''TLS_ECDHE_PSK_WITH_CHACHA20_POLY1305_SHA256'']),
      (''Forward secrecy with AES-128-GCM (AEAD).'',
       [''TLS_DHE_PSK_WITH_AES_128_GCM_SHA256'']),
      (''Forward secrecy with AES-256-GCM (AEAD).'',
       [''TLS_DHE_PSK_WITH_AES_256_GCM_SHA384'']),
      (''Forward secrecy with AES-128-GCM (AEAD). Recommended.'',
       [''TLS_ECDHE_RSA_WITH_AES_128_GCM_SHA256'', ''TLS_ECDHE_ECDSA_WITH_AES_128_GCM_SHA256'']),
      (''Forward secrecy with AES-256-GCM (AEAD). Recommended.'',
       [''TLS_ECDHE_RSA_WITH_AES_256_GCM_SHA384'', ''TLS_ECDHE_ECDSA_WITH_AES_256_GCM_SHA384'']),
      (''Forward secrecy with ChaCha20-Poly1305 (AEAD). Recommended; preferred on hardware without AES acceleration.'',
       [''TLS_ECDHE_RSA_WITH_CHACHA20_POLY1305_SHA256'', ''TLS_ECDHE_ECDSA_WITH_CHACHA20_POLY1305_SHA256'']),
      (''ChaCha20-Poly1305 (AEAD); note PSK alone provides no forward secrecy.'',
       [''TLS_PSK_WITH_CHACHA20_POLY1305_SHA256'']),
      (''ChaCha20-Poly1305 (AEAD); note RSA-PSK provides no forward secrecy.'',
       [''TLS_RSA_PSK_WITH_CHACHA20_POLY1305_SHA256'']),
      (''TLS 1.3 mandatory suite. AEAD with built-in forward secrecy.'',
       [''TLS_AES_128_GCM_SHA256'']),
      (''TLS 1.3 suite. AEAD with built-in forward secrecy.'',
       [''TLS_AES_256_GCM_SHA384'']),
      (''TLS 1.3 suite. AEAD with built-in forward secrecy; preferred on hardware without AES acceleration.'',
       [''TLS_CHACHA20_POLY1305_SHA256''])]"

definition cipher_groups :: "(TLSSeverity \<times> string \<times> string list) list" where
  "cipher_groups =
     map (Pair SeverityCritical) critical_suites @ map (Pair SeverityWarning) warning_suites @ map (Pair SeverityOk) ok_suites"

definition cipherClassifications :: "string \<Rightarrow> TLSFinding option" where
  "cipherClassifications name =
     map_option (\<lambda>(sev, reason, names). \<lparr>tlsFinding_name = name, tlsFinding_reason = reason, tlsFinding_severity = sev\<rparr>)
       (find (\<lambda>(sev, reason, names). name \<in> set names) cipher_groups)"

definition unknown_reason :: string where
  "unknown_reason = ''Not a known-weak cipher suite; verify against your organisation'' @ [CHR 0x27] @ ''s policy.''"

definition CipherSeverity :: "string \<Rightarrow> TLSSeverity" where
  "CipherSeverity name = (case cipherClassifications name of Some f \<Rightarrow> tlsFinding_severity f | None \<Rightarrow> SeverityOk)"

definition CipherReason :: "string \<Rightarrow> string" where
  "CipherReason name = (case cipherClassifications name of Some f \<Rightarrow> tlsFinding_reason f | None \<Rightarrow> unknown_reason)"

lemma finding_name [simp]: "cipherClassifications name = Some f \<Longrightarrow> tlsFinding_name f = name"
  by (auto simp: cipherClassifications_def split: prod.split)

end
