(* ===== verification/TlsGrade.thy ===== *)
theory TlsGrade
  imports CipherTable Reports
begin

section \<open>Classification and grade of a TLS profile (\<open>internal/tlsprofile\<close>)\<close>

text \<open>
  What the server computes from a scanned profile when the endpoint page asks for it: \<open>Classify\<close>, \<open>Score\<close>, and the answer of
  \<open>GetTLSProfile\<close> in \<open>internal/endpoints/handler.go\<close>. The strength of the key in the certificate is an argument (negative: unknown), as it is
  read by the X.509 library of Go. Names of cipher suites are ASCII.
\<close>

subsection \<open>Findings (\<open>classify.go\<close>)\<close>

definition tls_finding :: "string \<Rightarrow> string \<Rightarrow> TLSSeverity \<Rightarrow> TLSFinding" where
  "tls_finding name reason sev = \<lparr>tlsFinding_name = name, tlsFinding_reason = reason, tlsFinding_severity = sev\<rparr>"

text \<open>The versions in the order in which they are reported, with whether the server accepts them.\<close>

definition versionClassifications :: "(string \<times> TLSFinding) list" where
  "versionClassifications =
     map (\<lambda>(name, reason, sev). (name, tls_finding name reason sev))
     [(''SSL 3.0'', ''Deprecated by RFC 7568 (June 2015). Vulnerable to POODLE with any CBC cipher.'', SeverityCritical),
      (''TLS 1.0'', ''Deprecated by RFC 8996 (March 2021). Vulnerable to POODLE and BEAST attacks.'', SeverityCritical),
      (''TLS 1.1'', ''Deprecated by RFC 8996 (March 2021). Lacks support for AEAD cipher suites.'', SeverityWarning),
      (''TLS 1.2'', ''Widely supported. Secure when restricted to AEAD cipher suites.'', SeverityOk),
      (''TLS 1.3'', ''Current best practice. AEAD-only; obsolete features removed from the protocol.'', SeverityOk)]"

definition versionEnabled :: "tls_profile \<Rightarrow> (string \<times> bool) list" where
  "versionEnabled p =
     [(''SSL 3.0'', pr_ssl30 p), (''TLS 1.0'', pr_tls10 p), (''TLS 1.1'', pr_tls11 p), (''TLS 1.2'', pr_tls12 p), (''TLS 1.3'', pr_tls13 p)]"

definition worst_of :: "TLSSeverity \<Rightarrow> TLSSeverity \<Rightarrow> TLSSeverity" where
  "worst_of a b =
     (if a = SeverityCritical \<or> b = SeverityCritical then SeverityCritical
      else if a = SeverityWarning \<or> b = SeverityWarning then SeverityWarning
      else SeverityOk)"

definition version_findings :: "tls_profile \<Rightarrow> TLSFinding list" where
  "version_findings p = map snd (filter (\<lambda>(name, f). map_of (versionEnabled p) name = Some True) versionClassifications)"

text \<open>A suite that is not in the table is listed all the same.\<close>

definition suite_finding :: "string \<Rightarrow> TLSFinding" where
  "suite_finding name =
     (case cipherClassifications name of Some f \<Rightarrow> f | None \<Rightarrow> tls_finding name unknown_reason SeverityOk)"

definition worst_finding :: "TLSFinding list \<Rightarrow> TLSSeverity \<Rightarrow> TLSSeverity" where
  "worst_finding fs overall = fold (\<lambda>f w. worst_of w (tlsFinding_severity f)) fs overall"

definition Classify :: "tls_profile \<Rightarrow> TLSClassification" where
  "Classify p =
     (let versions = version_findings p; suites = map suite_finding (pr_cipherSuites p)
      in \<lparr>tlsClassification_versions = versions, tlsClassification_cipherSuites = suites,
          tlsClassification_overallSeverity = worst_finding suites (worst_finding versions SeverityOk)\<rparr>)"

subsection \<open>Scores (\<open>score.go\<close>)\<close>

record score_input =
  si_ssl20 :: bool
  si_ssl30 :: bool
  si_tls10 :: bool
  si_tls11 :: bool
  si_tls12 :: bool
  si_tls13 :: bool
  si_cipherSuites :: "string list"
  si_keyExchangeBits :: int
  si_certNotTrusted :: bool
  si_certNameMismatch :: bool
  si_certExpired :: bool
  si_certSelfSigned :: bool
  si_certRevoked :: bool
  si_certInsecureSig :: bool
  si_certChainIncomplete :: bool
  si_vulnHeartbleed :: bool
  si_vulnPoodle :: bool
  si_vulnDrown :: bool
  si_vulnRobot :: bool
  si_hasForwardSecrecy :: bool
  si_hasAEAD :: bool
  si_hsts :: "bool option"

definition protocolScores :: "score_input \<Rightarrow> (int \<times> bool) list" where
  "protocolScores i =
     [(0, si_ssl20 i), (80, si_ssl30 i), (90, si_tls10 i), (95, si_tls11 i), (100, si_tls12 i), (100, si_tls13 i)]"

text \<open>The mean of the best and the worst of a list of scores; nothing in it gives 0.\<close>

definition best_worst :: "int list \<Rightarrow> int" where
  "best_worst ss =
     (let best = fold (\<lambda>s b. if s > b then s else b) ss (-1); worst = fold (\<lambda>s w. if s < w then s else w) ss 101
      in if best < 0 then 0 else (best + worst) div 2)"

definition scoreProtocols :: "score_input \<Rightarrow> int" where
  "scoreProtocols i = best_worst (map fst (filter snd (protocolScores i)))"

definition scoreKeyExchange :: "int \<Rightarrow> int option" where
  "scoreKeyExchange bits =
     (if bits < 0 then None
      else if bits = 0 then Some 0
      else if bits < 512 then Some 20
      else if bits < 1024 then Some 40
      else if bits < 2048 then Some 80
      else if bits < 4096 then Some 90
      else Some 100)"

definition cipherStrengthBits :: "(string \<times> int) list" where
  "cipherStrengthBits = [(''TLS_RSA_WITH_NULL_MD5'', 0), (''TLS_RSA_WITH_NULL_SHA'', 0), (''TLS_RSA_WITH_NULL_SHA256'', 0)]"

definition cipherEffectiveBits :: "string \<Rightarrow> int" where
  "cipherEffectiveBits name =
     (case map_of cipherStrengthBits name of
        Some bits \<Rightarrow> bits
      | None \<Rightarrow>
          let upper = toUpperCase name in
          if js_includes upper ''NULL'' then 0
          else if js_includes upper ''EXPORT'' then (if js_includes upper ''1024'' then 56 else 40)
          else if js_includes upper ''DES_CBC'' \<and> \<not> js_includes upper ''3DES'' then 56
          else if js_includes upper ''RC4'' then 128
          else if js_includes upper ''RC2'' then 128
          else if js_includes upper ''3DES'' then 112
          else if js_includes upper ''IDEA'' then 128
          else if js_includes upper ''SEED'' then 128
          else if js_includes upper ''CHACHA20'' then 256
          else if js_includes upper ''AES_256'' \<or> js_includes upper ''AES256'' then 256
          else if js_includes upper ''AES_128'' \<or> js_includes upper ''AES128'' then 128
          else if js_includes upper ''CAMELLIA_256'' \<or> js_includes upper ''CAMELLIA256'' then 256
          else if js_includes upper ''CAMELLIA_128'' \<or> js_includes upper ''CAMELLIA128'' then 128
          else if js_includes upper ''GOST'' \<or> js_includes upper ''28147'' then 256
          else 128)"

definition cipherBitsToScore :: "int \<Rightarrow> int" where
  "cipherBitsToScore bits = (if bits = 0 then 0 else if bits < 128 then 20 else if bits < 256 then 80 else 100)"

definition scoreCipherStrength :: "string list \<Rightarrow> int" where
  "scoreCipherStrength suites =
     (if length suites = 0 then 0 else best_worst (map (\<lambda>name. cipherBitsToScore (cipherEffectiveBits name)) suites))"

definition scoreToGrade :: "int \<Rightarrow> TLSGrade" where
  "scoreToGrade score =
     (if score \<ge> 80 then GradeA else if score \<ge> 65 then GradeB else if score \<ge> 50 then GradeC
      else if score \<ge> 35 then GradeD else if score \<ge> 20 then GradeE else GradeF)"

fun gradeRank :: "TLSGrade \<Rightarrow> int" where
  "gradeRank GradeF = 0"
| "gradeRank GradeE = 1"
| "gradeRank GradeD = 2"
| "gradeRank GradeC = 3"
| "gradeRank GradeB = 4"
| "gradeRank GradeAMinus = 5"
| "gradeRank GradeA = 6"
| "gradeRank GradeAPlus = 7"
| "gradeRank GradeT = -1"
| "gradeRank GradeM = -1"

definition capGrade :: "TLSGrade \<Rightarrow> TLSGrade \<Rightarrow> TLSGrade" where
  "capGrade current limit = (if gradeRank current > gradeRank limit then limit else current)"

subsubsection \<open>Kinds of suites\<close>

definition hasExportSuites :: "string list \<Rightarrow> bool" where
  "hasExportSuites suites \<longleftrightarrow> list_ex (\<lambda>s. js_includes (toUpperCase s) ''EXPORT'') suites"

definition hasRC4 :: "string list \<Rightarrow> bool" where
  "hasRC4 suites \<longleftrightarrow> list_ex (\<lambda>s. js_includes (toUpperCase s) ''RC4'') suites"

definition onlyRC4 :: "string list \<Rightarrow> bool" where
  "onlyRC4 suites \<longleftrightarrow> length suites \<noteq> 0 \<and> list_all (\<lambda>s. js_includes (toUpperCase s) ''RC4'') suites"

definition has3DES :: "string list \<Rightarrow> bool" where
  "has3DES suites \<longleftrightarrow> list_ex (\<lambda>s. js_includes (toUpperCase s) ''3DES'') suites"

definition isTLS13SuiteName :: "string \<Rightarrow> bool" where
  "isTLS13SuiteName upper \<longleftrightarrow> startsWith upper ''TLS_'' \<and> \<not> js_includes upper ''_WITH_''"

definition HasForwardSecrecy :: "string list \<Rightarrow> bool" where
  "HasForwardSecrecy suites \<longleftrightarrow>
     list_ex (\<lambda>s. let upper = toUpperCase s in
                js_includes upper ''ECDHE_'' \<or> js_includes upper ''DHE_'' \<or> isTLS13SuiteName upper) suites"

definition HasAEAD :: "string list \<Rightarrow> bool" where
  "HasAEAD suites \<longleftrightarrow>
     list_ex (\<lambda>s. let upper = toUpperCase s in
                js_includes upper ''_GCM_'' \<or> js_includes upper ''_CCM'' \<or> js_includes upper ''POLY1305'' \<or> isTLS13SuiteName upper)
       suites"

subsubsection \<open>The grade\<close>

text \<open>What forces the grade F, and the caps with their grades, in the order of the code.\<close>

definition failures :: "score_input \<Rightarrow> (bool \<times> string) list" where
  "failures i =
     [(si_ssl20 i, ''SSL 2.0 support forces F.''),
      (si_certExpired i, ''Expired certificate forces F.''),
      (si_certSelfSigned i, ''Self-signed certificate forces F.''),
      (si_certRevoked i, ''Revoked certificate forces F.''),
      (si_certInsecureSig i, ''Insecure certificate signature (MD2/MD5) forces F.''),
      (si_keyExchangeBits i > 0 \<and> si_keyExchangeBits i < 1024, ''Insecure DH parameters (< 1024 bits) forces F.''),
      (hasExportSuites (si_cipherSuites i), ''Export cipher suites force F.''),
      (si_vulnHeartbleed i, ''Heartbleed vulnerability forces F.''),
      (si_vulnDrown i, ''DROWN vulnerability forces F.''),
      (si_vulnRobot i, ''ROBOT vulnerability forces F.''),
      (si_ssl30 i \<and> \<not> si_tls10 i \<and> \<not> si_tls11 i \<and> \<not> si_tls12 i \<and> \<not> si_tls13 i, ''SSL 3.0 as best protocol forces F.''),
      (onlyRC4 (si_cipherSuites i), ''Only RC4 cipher suites forces F.'')]"

definition grade_caps :: "score_input \<Rightarrow> (bool \<times> TLSGrade \<times> string) list" where
  "grade_caps i =
     [(si_vulnPoodle i, GradeC, ''POODLE vulnerability caps grade at C.''),
      (has3DES (si_cipherSuites i) \<and> (si_tls11 i \<or> si_tls12 i \<or> si_tls13 i), GradeC, ''3DES with TLS 1.1+ caps grade at C.''),
      (hasRC4 (si_cipherSuites i) \<and> (si_tls11 i \<or> si_tls12 i \<or> si_tls13 i), GradeC, ''RC4 with TLS 1.1+ caps grade at C.''),
      (\<not> si_tls12 i \<and> \<not> si_tls13 i, GradeC, ''No TLS 1.2 or 1.3 support caps grade at C.''),
      (si_keyExchangeBits i > 0 \<and> si_keyExchangeBits i < 2048, GradeB, ''Weak DH parameters (< 2048 bits) cap grade at B.''),
      (hasRC4 (si_cipherSuites i), GradeB, ''RC4 support caps grade at B.''),
      (si_certChainIncomplete i, GradeB, ''Incomplete certificate chain caps grade at B.''),
      (\<not> si_hasForwardSecrecy i, GradeB, ''No forward secrecy caps grade at B.''),
      (\<not> si_hasAEAD i, GradeB, ''No AEAD cipher suites caps grade at B.''),
      (si_tls10 i \<or> si_tls11 i, GradeB, ''TLS 1.0 or 1.1 support caps grade at B.''),
      (\<not> si_tls13 i, GradeAMinus, ''Missing TLS 1.3 support caps grade at A-.''),
      (si_hsts i = Some False, GradeAMinus, ''Missing HSTS caps grade at A-.'')]"

definition failed_grade :: "score_input \<Rightarrow> TLSGrade \<Rightarrow> TLSGrade" where
  "failed_grade i grade = fold (\<lambda>(b, w) g. if b then GradeF else g) (failures i) grade"

definition capped_grade :: "score_input \<Rightarrow> TLSGrade \<Rightarrow> TLSGrade" where
  "capped_grade i grade =
     (if grade \<noteq> GradeF then fold (\<lambda>(b, limit, w) g. if b then capGrade g limit else g) (grade_caps i) grade else grade)"

definition finalScore :: "score_input \<Rightarrow> int" where
  "finalScore i =
     (case scoreKeyExchange (si_keyExchangeBits i) of
        Some keyEx \<Rightarrow> (scoreProtocols i * 30 + keyEx * 30 + scoreCipherStrength (si_cipherSuites i) * 40) div 100
      | None \<Rightarrow> (scoreProtocols i * 30 + scoreCipherStrength (si_cipherSuites i) * 40) div 70)"

definition score_warnings :: "score_input \<Rightarrow> TLSGrade \<Rightarrow> string list" where
  "score_warnings i grade =
     map snd (filter fst (failures i))
     @ (if grade \<noteq> GradeF then map (snd \<circ> snd) (filter fst (grade_caps i)) else [])
     @ (if si_certNotTrusted i then [''Certificate not trusted.''] else [])
     @ (if si_certNameMismatch i then [''Certificate name mismatch.''] else [])"

definition Score :: "score_input \<Rightarrow> TLSScore" where
  "Score i =
     (let failed = failed_grade i (scoreToGrade (finalScore i));
          capped = capped_grade i failed;
          trusted = (if si_certNotTrusted i then GradeT else capped);
          warnings = score_warnings i failed
      in \<lparr>tlsScore_protocolScore = scoreProtocols i, tlsScore_keyExchangeScore = scoreKeyExchange (si_keyExchangeBits i),
          tlsScore_cipherScore = scoreCipherStrength (si_cipherSuites i), tlsScore_score = finalScore i,
          tlsScore_grade = (if si_certNameMismatch i then GradeM else trusted),
          tlsScore_warnings = (if length warnings = 0 then None else Some warnings)\<rparr>)"

subsection \<open>The answer of the server\<close>

text \<open>What the handler knows; the rest is false or unknown.\<close>

definition profile_input :: "int \<Rightarrow> tls_profile \<Rightarrow> score_input" where
  "profile_input kexBits p =
     \<lparr>si_ssl20 = False, si_ssl30 = pr_ssl30 p, si_tls10 = pr_tls10 p, si_tls11 = pr_tls11 p, si_tls12 = pr_tls12 p,
      si_tls13 = pr_tls13 p, si_cipherSuites = pr_cipherSuites p, si_keyExchangeBits = kexBits, si_certNotTrusted = False,
      si_certNameMismatch = False, si_certExpired = False, si_certSelfSigned = False, si_certRevoked = False,
      si_certInsecureSig = False, si_certChainIncomplete = False, si_vulnHeartbleed = False, si_vulnPoodle = pr_ssl30 p,
      si_vulnDrown = False, si_vulnRobot = False, si_hasForwardSecrecy = HasForwardSecrecy (pr_cipherSuites p),
      si_hasAEAD = HasAEAD (pr_cipherSuites p), si_hsts = None\<rparr>"

definition GetTLSProfile :: "string \<Rightarrow> string \<Rightarrow> string option \<Rightarrow> int \<Rightarrow> tls_profile \<Rightarrow> EndpointTLSProfile" where
  "GetTLSProfile endpointID scannedAt selectedCipher kexBits p =
     \<lparr>endpointTLSProfile_endpointId = endpointID, endpointTLSProfile_scannedAt = scannedAt, endpointTLSProfile_ssl30 = pr_ssl30 p,
      endpointTLSProfile_tls10 = pr_tls10 p, endpointTLSProfile_tls11 = pr_tls11 p, endpointTLSProfile_tls12 = pr_tls12 p,
      endpointTLSProfile_tls13 = pr_tls13 p, endpointTLSProfile_cipherSuites = pr_cipherSuites p,
      endpointTLSProfile_selectedCipher = selectedCipher, endpointTLSProfile_scanError = pr_scanError p,
      endpointTLSProfile_classification = Classify p, endpointTLSProfile_score = Score (profile_input kexBits p)\<rparr>"

subsection \<open>Ranges\<close>

lemma fold_choice: "fold (\<lambda>s b. if P s b then s else b) ss x \<in> insert x (set ss)"
proof (induction ss arbitrary: x)
  case (Cons s ss)
  show ?case using Cons [of "if P s x then s else x"] by (auto split: if_splits)
qed simp

lemma best_worst_range:
  assumes "\<forall>s \<in> set ss. 0 \<le> s \<and> s \<le> 100"
  shows "0 \<le> best_worst ss \<and> best_worst ss \<le> 100"
proof (cases ss)
  case Nil
  then show ?thesis by (simp add: best_worst_def)
next
  case (Cons s ts)
  define best where "best = fold (\<lambda>s b. if s > b then s else b) ts s"
  define worst where "worst = fold (\<lambda>s w. if s < w then s else w) ts s"
  have s: "0 \<le> s" "s \<le> 100" and ts: "\<forall>t \<in> set ts. 0 \<le> t \<and> t \<le> 100" using assms Cons by auto
  have "best \<in> insert s (set ts)" "worst \<in> insert s (set ts)" unfolding best_def worst_def by (rule fold_choice)+
  then have "0 \<le> best" "best \<le> 100" "0 \<le> worst" "worst \<le> 100" using s ts by auto
  moreover have "best_worst ss = (if best < 0 then 0 else (best + worst) div 2)"
    using s by (simp add: best_worst_def Cons best_def worst_def)
  ultimately show ?thesis by simp
qed

lemma protocol_range: "0 \<le> scoreProtocols i \<and> scoreProtocols i \<le> 100"
  unfolding scoreProtocols_def by (rule best_worst_range) (auto simp: protocolScores_def split: if_splits)

lemma cipher_range: "0 \<le> scoreCipherStrength ss \<and> scoreCipherStrength ss \<le> 100"
proof -
  have "0 \<le> best_worst (map (\<lambda>name. cipherBitsToScore (cipherEffectiveBits name)) ss)
      \<and> best_worst (map (\<lambda>name. cipherBitsToScore (cipherEffectiveBits name)) ss) \<le> 100"
    by (rule best_worst_range) (auto simp: cipherBitsToScore_def)
  then show ?thesis by (simp add: scoreCipherStrength_def)
qed

lemma key_exchange_range: "scoreKeyExchange k = Some v \<Longrightarrow> 0 \<le> v \<and> v \<le> 100"
  by (auto simp: scoreKeyExchange_def split: if_splits)

lemma final_range: "0 \<le> finalScore i \<and> finalScore i \<le> 100"
  using protocol_range [of i] cipher_range [of "si_cipherSuites i"] key_exchange_range [of "si_keyExchangeBits i"]
  by (auto simp: finalScore_def split: option.split)

subsection \<open>The best grades\<close>

lemma rank_capGrade [simp]: "gradeRank (capGrade g limit) = min (gradeRank g) (gradeRank limit)"
  by (simp add: capGrade_def)

text \<open>The ranks of the grades that the page shows in green.\<close>

lemma rank_green: "gradeRank g \<ge> 5 \<longleftrightarrow> g = GradeAPlus \<or> g = GradeA \<or> g = GradeAMinus"
  by (cases g) simp_all

lemma rank_caps:
  "gradeRank (fold (\<lambda>(b, limit, w) g. if b then capGrade g limit else g) caps g) \<ge> 5 \<longleftrightarrow>
     gradeRank g \<ge> 5 \<and> (\<forall>(b, limit, w) \<in> set caps. b \<longrightarrow> gradeRank limit \<ge> 5)"
proof (induction caps arbitrary: g)
  case (Cons c caps)
  obtain b limit w where c: "c = (b, limit, w)" by (metis prod.collapse)
  show ?case using Cons [of "if b then capGrade g limit else g"] unfolding c by (cases b) (simp_all add: conj_assoc)
qed simp

lemma failed_grade_eq: "failed_grade i g = (if \<exists>(b, w) \<in> set (failures i). b then GradeF else g)"
proof -
  have "fold (\<lambda>(b, w) g. if b then GradeF else g) fs g = (if \<exists>(b, w) \<in> set fs. b then GradeF else g)" for fs :: "(bool \<times> string) list"
    by (induction fs arbitrary: g) auto
  then show ?thesis by (simp add: failed_grade_def)
qed

text \<open>What the best grades need, for the inputs that the handler gives.\<close>

definition sound_profile :: "int \<Rightarrow> tls_profile \<Rightarrow> bool" where
  "sound_profile k p \<longleftrightarrow>
     \<not> pr_ssl30 p \<and> \<not> pr_tls10 p \<and> \<not> pr_tls11 p \<and> (pr_tls12 p \<or> pr_tls13 p)
     \<and> HasForwardSecrecy (pr_cipherSuites p) \<and> HasAEAD (pr_cipherSuites p)
     \<and> \<not> hasRC4 (pr_cipherSuites p) \<and> \<not> has3DES (pr_cipherSuites p) \<and> \<not> hasExportSuites (pr_cipherSuites p)
     \<and> (k \<le> 0 \<or> 2048 \<le> k)"

lemma onlyRC4_hasRC4: "onlyRC4 ss \<Longrightarrow> hasRC4 ss"
  by (cases ss) (auto simp: onlyRC4_def hasRC4_def)

lemma green_grade_iff:
  "gradeRank (tlsScore_grade (Score (profile_input k p))) \<ge> 5 \<longleftrightarrow>
     sound_profile k p \<and> finalScore (profile_input k p) \<ge> 80"
proof -
  let ?i = "profile_input k p"
  let ?g = "scoreToGrade (finalScore ?i)"
  have start: "gradeRank ?g \<ge> 5 \<longleftrightarrow> finalScore ?i \<ge> 80" by (simp add: scoreToGrade_def)
  have grade: "tlsScore_grade (Score ?i) = capped_grade ?i (failed_grade ?i ?g)"
    by (simp add: Score_def Let_def profile_input_def)
  have failed: "(\<exists>(b, w) \<in> set (failures ?i). b) \<longleftrightarrow>
      (0 < k \<and> k < 1024) \<or> hasExportSuites (pr_cipherSuites p)
      \<or> (pr_ssl30 p \<and> \<not> pr_tls10 p \<and> \<not> pr_tls11 p \<and> \<not> pr_tls12 p \<and> \<not> pr_tls13 p) \<or> onlyRC4 (pr_cipherSuites p)"
    by (simp add: failures_def profile_input_def)
  have caps: "(\<forall>(b, limit, w) \<in> set (grade_caps ?i). b \<longrightarrow> gradeRank limit \<ge> 5) \<longleftrightarrow>
      \<not> pr_ssl30 p \<and> \<not> pr_tls10 p \<and> \<not> pr_tls11 p \<and> (pr_tls12 p \<or> pr_tls13 p)
      \<and> HasForwardSecrecy (pr_cipherSuites p) \<and> HasAEAD (pr_cipherSuites p)
      \<and> \<not> hasRC4 (pr_cipherSuites p) \<and> \<not> has3DES (pr_cipherSuites p) \<and> (k \<le> 0 \<or> 2048 \<le> k)"
    by (auto simp: grade_caps_def profile_input_def)
  have capped: "gradeRank (capped_grade ?i g) \<ge> 5 \<longleftrightarrow> gradeRank g \<ge> 5 \<and> (\<forall>(b, limit, w) \<in> set (grade_caps ?i). b \<longrightarrow> gradeRank limit \<ge> 5)"
    for g using rank_caps [of "grade_caps ?i" g] by (auto simp: capped_grade_def)
  show ?thesis
    unfolding grade capped caps failed_grade_eq failed sound_profile_def
    using start onlyRC4_hasRC4 [of "pr_cipherSuites p"] by auto
qed

end
