(* ===== verification/EndpointPosture.thy ===== *)
theory EndpointPosture
  imports TlsGrade
begin

section \<open>The security posture of a host endpoint (\<open>pages/endpoint/detail/HostEndpointDetailPage.tsx\<close>)\<close>

text \<open>
  The sections of the page that show the TLS profile: grade and scores, the banner, the chips of the protocol versions and the cipher
  suites. Of a class string the words that carry the colour are kept.
\<close>

subsection \<open>The state of the profile\<close>

datatype tls_state = TlsLoading | TlsNone | TlsFailed string | TlsReady EndpointTLSProfile

definition tls_state_of :: "bool \<Rightarrow> js_exn option \<Rightarrow> EndpointTLSProfile option \<Rightarrow> tls_state" where
  "tls_state_of tlsLoading tlsError tlsProfile =
     (if tlsLoading then TlsLoading
      else case tlsError of
        Some (ApiError status m) \<Rightarrow> if status = 404 then TlsNone else TlsFailed m
      | Some (OtherError m) \<Rightarrow> TlsFailed ''Failed to load TLS profile.''
      | None \<Rightarrow> (case tlsProfile of Some p \<Rightarrow> TlsReady p | None \<Rightarrow> TlsNone))"

subsection \<open>Findings\<close>

fun SeverityIcon :: "TLSSeverity \<Rightarrow> string \<times> string" where
  "SeverityIcon SeverityOk = (''ShieldCheck'', ''text-tertiary'')"
| "SeverityIcon SeverityWarning = (''ShieldAlert'', ''text-warning'')"
| "SeverityIcon SeverityCritical = (''ShieldX'', ''text-error'')"

fun FINDING_ACCENT :: "TLSSeverity \<Rightarrow> string" where
  "FINDING_ACCENT SeverityOk = ''border-l-tertiary''"
| "FINDING_ACCENT SeverityWarning = ''border-l-warning''"
| "FINDING_ACCENT SeverityCritical = ''border-l-error''"

definition FindingBadge :: "TLSSeverity \<Rightarrow> bool \<Rightarrow> string option" where
  "FindingBadge severity preferred =
     (if preferred then Some ''Preferred''
      else if severity = SeverityWarning then Some ''Weakness''
      else if severity = SeverityCritical then Some ''Critical''
      else None)"

record finding_view =
  fv_accent :: string
  fv_icon :: "string \<times> string"
  fv_name :: string
  fv_reason :: string
  fv_badge :: "string option"

definition FindingRow :: "TLSFinding \<Rightarrow> bool \<Rightarrow> finding_view" where
  "FindingRow finding preferred =
     \<lparr>fv_accent = FINDING_ACCENT (tlsFinding_severity finding), fv_icon = SeverityIcon (tlsFinding_severity finding),
      fv_name = tlsFinding_name finding, fv_reason = tlsFinding_reason finding,
      fv_badge = FindingBadge (tlsFinding_severity finding) preferred\<rparr>"

subsection \<open>The banner\<close>

definition of_severity :: "TLSSeverity \<Rightarrow> TLSFinding list \<Rightarrow> TLSFinding list" where
  "of_severity sev fs = filter (\<lambda>f. tlsFinding_severity f = sev) fs"

definition postureDetail :: "TLSClassification \<Rightarrow> string" where
  "postureDetail c =
     (let criticalCiphers = of_severity SeverityCritical (tlsClassification_cipherSuites c);
          warnCiphers = of_severity SeverityWarning (tlsClassification_cipherSuites c);
          criticalVersions = map tlsFinding_name (of_severity SeverityCritical (tlsClassification_versions c));
          n = length criticalCiphers; m = length warnCiphers
      in if tlsClassification_overallSeverity c = SeverityOk then ''No insecure protocols or cipher suites detected.''
         else if length criticalVersions > 0
           then join '' and '' criticalVersions @ '' '' @ (if length criticalVersions > 1 then ''are'' else ''is'') @ '' enabled.''
         else if n > 0
           then show_int (int n) @ '' critically weak cipher'' @ (if n > 1 then ''s'' else []) @ '' '' @ (if n > 1 then ''are'' else ''is'')
             @ '' accepted.''
         else if m > 0
           then show_int (int m) @ '' cipher'' @ (if m > 1 then ''s'' else []) @ '' without ECDHE forward secrecy ''
             @ (if m > 1 then ''are'' else ''is'') @ '' accepted.''
         else ''Weaknesses detected.'')"

record posture_style =
  ps_wrapper :: string
  ps_icon :: string
  ps_label :: string

fun POSTURE_STYLE :: "TLSSeverity \<Rightarrow> posture_style" where
  "POSTURE_STYLE SeverityOk =
     \<lparr>ps_wrapper = ''bg-tertiary-container/40'', ps_icon = ''text-tertiary'', ps_label = ''Strong Configuration''\<rparr>"
| "POSTURE_STYLE SeverityWarning =
     \<lparr>ps_wrapper = ''bg-warning-container/40'', ps_icon = ''text-warning'', ps_label = ''Weaknesses Detected''\<rparr>"
| "POSTURE_STYLE SeverityCritical =
     \<lparr>ps_wrapper = ''bg-error-container/40'', ps_icon = ''text-error'', ps_label = ''Insecure Configuration''\<rparr>"

definition PostureBanner :: "TLSClassification \<Rightarrow> posture_style \<times> string" where
  "PostureBanner c = (POSTURE_STYLE (tlsClassification_overallSeverity c), postureDetail c)"

subsection \<open>Grade and scores\<close>

fun gradeTextColor :: "TLSGrade \<Rightarrow> string" where
  "gradeTextColor GradeAPlus = ''text-tertiary''"
| "gradeTextColor GradeA = ''text-tertiary''"
| "gradeTextColor GradeAMinus = ''text-tertiary''"
| "gradeTextColor GradeB = ''text-warning''"
| "gradeTextColor GradeC = ''text-warning''"
| "gradeTextColor _ = ''text-error''"

record score_bar =
  sb_class :: string
  sb_text :: string
  sb_width :: int

definition ScoreBar :: "int option \<Rightarrow> score_bar" where
  "ScoreBar v =
     (case v of
        None \<Rightarrow> \<lparr>sb_class = ''bg-muted-foreground/20'', sb_text = em_dash, sb_width = 0\<rparr>
      | Some n \<Rightarrow>
          \<lparr>sb_class = (if n \<ge> 80 then ''bg-tertiary'' else if n \<ge> 50 then ''bg-warning'' else ''bg-error''),
           sb_text = show_int n @ ''/100'', sb_width = n\<rparr>)"

definition OverallScoreCard :: "int \<Rightarrow> string" where
  "OverallScoreCard score = show_int score @ ''/100''"

definition primaryCert :: "EndpointCert list \<Rightarrow> EndpointCert option" where
  "primaryCert certs =
     (case find (\<lambda>c. endpointCert_certUse c = ''tls'') certs of
        Some c \<Rightarrow> Some c
      | None \<Rightarrow> (case certs of [] \<Rightarrow> None | c # cs \<Rightarrow> Some c))"

record posture_view =
  pv_grade :: TLSGrade
  pv_gradeColor :: string
  pv_bars :: "(string \<times> score_bar) list"
  pv_banner :: "posture_style \<times> string"
  pv_cert :: cert_status_card
  pv_score :: string

definition SecurityPostureSection :: "int \<Rightarrow> tls_state \<Rightarrow> Endpoint \<Rightarrow> posture_view option" where
  "SecurityPostureSection now tlsState endpoint =
     (case tlsState of
        TlsReady profile \<Rightarrow>
          (let score = endpointTLSProfile_score profile in
           Some \<lparr>pv_grade = tlsScore_grade score, pv_gradeColor = gradeTextColor (tlsScore_grade score),
                 pv_bars =
                   [(''Protocol Support'', ScoreBar (Some (tlsScore_protocolScore score))),
                    (''Key Exchange'', ScoreBar (tlsScore_keyExchangeScore score)),
                    (''Cipher Strength'', ScoreBar (Some (tlsScore_cipherScore score)))],
                 pv_banner = PostureBanner (endpointTLSProfile_classification profile),
                 pv_cert = CertStatusCard now (primaryCert (endpoint_activeCerts endpoint)),
                 pv_score = OverallScoreCard (tlsScore_score score)\<rparr>)
      | _ \<Rightarrow> None)"

subsection \<open>Protocol versions\<close>

definition TLS_VERSION_ROW :: "(string \<times> (EndpointTLSProfile \<Rightarrow> bool)) list" where
  "TLS_VERSION_ROW =
     [(''TLS 1.3'', endpointTLSProfile_tls13), (''TLS 1.2'', endpointTLSProfile_tls12), (''TLS 1.1'', endpointTLSProfile_tls11),
      (''TLS 1.0'', endpointTLSProfile_tls10), (''SSL 3.0'', endpointTLSProfile_ssl30)]"

record version_chip =
  vc_text :: string
  vc_dot :: string
  vc_ring :: string
  vc_color :: string

definition VersionChip :: "string \<Rightarrow> bool \<Rightarrow> TLSSeverity option \<Rightarrow> version_chip" where
  "VersionChip name enabled severity =
     (if \<not> enabled
      then \<lparr>vc_text = name @ '' (OFF)'', vc_dot = ''bg-muted-foreground/30'', vc_ring = [], vc_color = ''text-muted-foreground/70''\<rparr>
      else
        \<lparr>vc_text = name,
         vc_dot = (if severity = Some SeverityCritical then ''bg-error'' else if severity = Some SeverityWarning then ''bg-warning''
                   else ''bg-tertiary''),
         vc_ring = (if severity = Some SeverityCritical then ''ring-1 ring-error/60''
                    else if severity = Some SeverityWarning then ''ring-1 ring-warning/60'' else []),
         vc_color = (if severity = Some SeverityCritical then ''text-error'' else if severity = Some SeverityWarning then ''text-warning''
                     else ''text-foreground'')\<rparr>)"

text \<open>A later entry of the map replaces an earlier one.\<close>

definition findingByName :: "TLSFinding list \<Rightarrow> string \<rightharpoonup> TLSFinding" where
  "findingByName fs = map_of (rev (map (\<lambda>v. (tlsFinding_name v, v)) fs))"

definition ActiveTLSProfileSection :: "tls_state \<Rightarrow> version_chip list option" where
  "ActiveTLSProfileSection tlsState =
     (case tlsState of
        TlsReady profile \<Rightarrow>
          Some (map (\<lambda>(name, key).
                  VersionChip name (key profile)
                    (map_option tlsFinding_severity (findingByName (tlsClassification_versions (endpointTLSProfile_classification profile)) name)))
                TLS_VERSION_ROW)
      | _ \<Rightarrow> None)"

subsection \<open>Cipher suites\<close>

datatype cipher_section =
    CipherMessage string
  | CipherError string
  | CipherRows string "string option" "finding_view panel"

definition suite_row :: "EndpointTLSProfile \<Rightarrow> TLSFinding \<Rightarrow> finding_view" where
  "suite_row profile f = FindingRow f (Some (tlsFinding_name f) = endpointTLSProfile_selectedCipher profile)"

definition CipherSuitesSection :: "tls_state \<Rightarrow> cipher_section" where
  "CipherSuitesSection tlsState =
     (case tlsState of
        TlsLoading \<Rightarrow> CipherMessage (''Loading'' @ ellipsis)
      | TlsNone \<Rightarrow> CipherMessage (''No TLS profile yet '' @ em_dash @ '' will be populated on the next scan cycle.'')
      | TlsFailed m \<Rightarrow> CipherError m
      | TlsReady profile \<Rightarrow>
          (let suites = tlsClassification_cipherSuites (endpointTLSProfile_classification profile) in
           CipherRows (''Cipher Suites ('' @ show_int (int (length suites)) @ '')'')
             (if truthy (endpointTLSProfile_scanError profile) then endpointTLSProfile_scanError profile else None)
             (if length suites > 0 then PanelRows (map (suite_row profile) suites)
              else PanelEmpty ''No cipher suites recorded.'')))"

subsection \<open>What the server's classification comes to\<close>

definition severity_of :: "bool \<Rightarrow> bool \<Rightarrow> TLSSeverity" where
  "severity_of critical warn = (if critical then SeverityCritical else if warn then SeverityWarning else SeverityOk)"

lemma worst_severity_of: "worst_of (severity_of a b) s = severity_of (a \<or> s = SeverityCritical) (b \<or> s = SeverityWarning)"
  by (cases s) (auto simp: worst_of_def severity_of_def)

lemma worst_finding_eq:
  "worst_finding fs (severity_of a b) =
     severity_of (a \<or> list_ex (\<lambda>f. tlsFinding_severity f = SeverityCritical) fs)
       (b \<or> list_ex (\<lambda>f. tlsFinding_severity f = SeverityWarning) fs)"
  by (induction fs arbitrary: a b) (simp_all add: worst_finding_def worst_severity_of disj_ac)

lemma suite_severity [simp]: "tlsFinding_severity (suite_finding n) = CipherSeverity n"
  by (simp add: suite_finding_def CipherSeverity_def tls_finding_def split: option.split)

lemma suite_name [simp]: "tlsFinding_name (suite_finding n) = n"
  by (auto simp: suite_finding_def tls_finding_def split: option.split)

lemma suite_reason [simp]: "tlsFinding_reason (suite_finding n) = CipherReason n"
  by (simp add: suite_finding_def CipherReason_def tls_finding_def split: option.split)

definition accepts_severity :: "TLSSeverity \<Rightarrow> tls_profile \<Rightarrow> bool" where
  "accepts_severity sev p \<longleftrightarrow> list_ex (\<lambda>n. CipherSeverity n = sev) (pr_cipherSuites p)"

lemma version_findings_severity:
  "list_ex (\<lambda>f. tlsFinding_severity f = SeverityCritical) (version_findings p) \<longleftrightarrow> pr_ssl30 p \<or> pr_tls10 p"
  "list_ex (\<lambda>f. tlsFinding_severity f = SeverityWarning) (version_findings p) \<longleftrightarrow> pr_tls11 p"
  by (simp_all add: version_findings_def versionClassifications_def versionEnabled_def tls_finding_def)

text \<open>The overall severity of a profile.\<close>

definition profile_severity :: "tls_profile \<Rightarrow> TLSSeverity" where
  "profile_severity p =
     severity_of (pr_ssl30 p \<or> pr_tls10 p \<or> accepts_severity SeverityCritical p) (pr_tls11 p \<or> accepts_severity SeverityWarning p)"

lemma list_ex_mapped: "list_ex P (map f xs) \<longleftrightarrow> list_ex (\<lambda>x. P (f x)) xs"
  by (induction xs) simp_all

lemma overall_severity: "tlsClassification_overallSeverity (Classify p) = profile_severity p"
proof -
  have "worst_finding fs SeverityOk =
      severity_of (list_ex (\<lambda>f. tlsFinding_severity f = SeverityCritical) fs) (list_ex (\<lambda>f. tlsFinding_severity f = SeverityWarning) fs)"
    for fs using worst_finding_eq [of fs False False] by (simp add: severity_of_def [of False False])
  then show ?thesis
    by (simp add: Classify_def worst_finding_eq version_findings_severity profile_severity_def accepts_severity_def Let_def list_ex_mapped
        disj_ac)
qed

lemma critical_versions:
  "map tlsFinding_name (of_severity SeverityCritical (version_findings p)) =
     (if pr_ssl30 p then [''SSL 3.0''] else []) @ (if pr_tls10 p then [''TLS 1.0''] else [])"
  by (simp add: of_severity_def version_findings_def versionClassifications_def versionEnabled_def tls_finding_def)

lemma length_of_severity:
  "length (of_severity sev (map suite_finding ns)) = length (filter (\<lambda>n. CipherSeverity n = sev) ns)"
  by (simp add: of_severity_def filter_map comp_def)

definition count_suites :: "TLSSeverity \<Rightarrow> tls_profile \<Rightarrow> nat" where
  "count_suites sev p = length (filter (\<lambda>n. CipherSeverity n = sev) (pr_cipherSuites p))"

lemma accepts_count: "accepts_severity sev p \<longleftrightarrow> count_suites sev p > 0"
  by (simp add: accepts_severity_def count_suites_def list_ex_iff filter_empty_conv)

text \<open>What the banner should say.\<close>

definition banner_text :: "tls_profile \<Rightarrow> string" where
  "banner_text p =
     (let n = count_suites SeverityCritical p; m = count_suites SeverityWarning p in
      if pr_ssl30 p \<and> pr_tls10 p then ''SSL 3.0 and TLS 1.0 are enabled.''
      else if pr_ssl30 p then ''SSL 3.0 is enabled.''
      else if pr_tls10 p then ''TLS 1.0 is enabled.''
      else if n > 1 then show_int (int n) @ '' critically weak ciphers are accepted.''
      else if n = 1 then ''1 critically weak cipher is accepted.''
      else if m > 1 then show_int (int m) @ '' ciphers without ECDHE forward secrecy are accepted.''
      else if m = 1 then ''1 cipher without ECDHE forward secrecy is accepted.''
      else if pr_tls11 p then ''Weaknesses detected.''
      else ''No insecure protocols or cipher suites detected.'')"

lemma detail_text: "postureDetail (Classify p) = banner_text p"
proof -
  have parts: "tlsClassification_cipherSuites (Classify p) = map suite_finding (pr_cipherSuites p)"
    "tlsClassification_versions (Classify p) = version_findings p" by (simp_all add: Classify_def Let_def)
  let ?n = "count_suites SeverityCritical p" and ?m = "count_suites SeverityWarning p"
  have counts: "length (filter (\<lambda>n. CipherSeverity n = SeverityCritical) (pr_cipherSuites p)) = ?n"
    "length (filter (\<lambda>n. CipherSeverity n = SeverityWarning) (pr_cipherSuites p)) = ?m" by (simp_all add: count_suites_def)
  have "?n = 0 \<or> ?n = 1 \<or> ?n > 1" "?m = 0 \<or> ?m = 1 \<or> ?m > 1" by auto
  then show ?thesis
    unfolding postureDetail_def parts critical_versions length_of_severity counts overall_severity profile_severity_def accepts_count
      banner_text_def Let_def
    by (elim disjE; cases "pr_ssl30 p"; cases "pr_tls10 p"; cases "pr_tls11 p") (simp_all add: severity_of_def show_one)
qed

lemma option_eqI: "(\<And>v. a = Some v \<longleftrightarrow> b = Some v) \<Longrightarrow> a = b"
  by (cases a; cases b) auto

lemma version_keys:
  "distinct (map fst versionClassifications)"
  "list_all (\<lambda>(n, f). tlsFinding_name f = n) versionClassifications"
  by (simp_all add: versionClassifications_def tls_finding_def)

lemma chips_of_classification:
  "findingByName (version_findings p) n = (if map_of (versionEnabled p) n = Some True then map_of versionClassifications n else None)"
proof -
  let ?vs = "filter (\<lambda>(name, f). map_of (versionEnabled p) name = Some True) versionClassifications"
  have "tlsFinding_name f = n" if "(n, f) \<in> set versionClassifications" for n f
    using that version_keys(2) by (auto simp: list_all_iff)
  then have "map (\<lambda>v. (tlsFinding_name v, v)) (map snd ?vs) = ?vs" by (auto intro!: map_idI)
  moreover have "distinct (map fst ?vs)" using version_keys(1) by (rule distinct_map_filter)
  ultimately have "findingByName (version_findings p) n = Some f \<longleftrightarrow> (n, f) \<in> set ?vs" for f
    by (simp add: findingByName_def version_findings_def map_of_eq_Some_iff rev_map [symmetric])
  then have same: "findingByName (version_findings p) n = Some f \<longleftrightarrow>
      (if map_of (versionEnabled p) n = Some True then map_of versionClassifications n else None) = Some f" for f
    by (simp add: map_of_eq_Some_iff [OF version_keys(1)])
  show ?thesis by (rule option_eqI) (rule same)
qed

lemma enabled_lookup:
  "map_of (versionEnabled p) ''TLS 1.3'' = Some (pr_tls13 p)" "map_of (versionEnabled p) ''TLS 1.2'' = Some (pr_tls12 p)"
  "map_of (versionEnabled p) ''TLS 1.1'' = Some (pr_tls11 p)" "map_of (versionEnabled p) ''TLS 1.0'' = Some (pr_tls10 p)"
  "map_of (versionEnabled p) ''SSL 3.0'' = Some (pr_ssl30 p)"
  by (simp_all add: versionEnabled_def)

lemma version_severity:
  "map_option tlsFinding_severity (map_of versionClassifications ''TLS 1.3'') = Some SeverityOk"
  "map_option tlsFinding_severity (map_of versionClassifications ''TLS 1.2'') = Some SeverityOk"
  "map_option tlsFinding_severity (map_of versionClassifications ''TLS 1.1'') = Some SeverityWarning"
  "map_option tlsFinding_severity (map_of versionClassifications ''TLS 1.0'') = Some SeverityCritical"
  "map_option tlsFinding_severity (map_of versionClassifications ''SSL 3.0'') = Some SeverityCritical"
  by (simp_all add: versionClassifications_def tls_finding_def)

definition shown_chip :: "string \<Rightarrow> bool \<Rightarrow> TLSSeverity \<Rightarrow> string \<times> string" where
  "shown_chip n b sev =
     (if b then (n, if sev = SeverityCritical then ''bg-error'' else if sev = SeverityWarning then ''bg-warning'' else ''bg-tertiary'')
      else (n @ '' (OFF)'', ''bg-muted-foreground/30''))"

lemma chip_shown:
  assumes "map_option tlsFinding_severity x = Some sev"
  shows "(vc_text (VersionChip n b (map_option tlsFinding_severity (if b then x else None))),
      vc_dot (VersionChip n b (map_option tlsFinding_severity (if b then x else None)))) = shown_chip n b sev"
  using assms by (cases b; cases sev) (auto simp: VersionChip_def shown_chip_def)


subsection \<open>Report and page\<close>

lemma worst_concern_severity: "worst_concern CipherSeverity p = profile_severity p \<or> profile_severity p = SeverityOk"
  by (auto simp: worst_concern_def profile_severity_def severity_of_def accepts_severity_def list_ex_iff)


subsection \<open>Scores and grade\<close>

lemma profile_input_fields [simp]:
  "si_keyExchangeBits (profile_input k p) = k" "si_cipherSuites (profile_input k p) = pr_cipherSuites p"
  "si_certNotTrusted (profile_input k p) = False" "si_certNameMismatch (profile_input k p) = False"
  by (simp_all add: profile_input_def)

lemma no_key_scores_low: "finalScore (profile_input 0 p) < 80"
proof -
  have "(x * 30 + y * 40) div 100 < 80" if "x \<le> 100" "y \<le> 100" for x y :: int
    using that zdiv_mono1 [of "x * 30 + y * 40" 7000 100] by simp
  then show ?thesis
    using protocol_range [of "profile_input 0 p"] cipher_range [of "pr_cipherSuites p"]
    by (simp add: finalScore_def scoreKeyExchange_def)
qed

text \<open>\<^bold>\<open>C30\<close>: for every stored profile and every key strength, known or not, the three bars of the page are between empty and full, and the overall
  score is a number between 0 and 100.\<close>

theorem score_bars_bounded:
  "case SecurityPostureSection now (TlsReady (GetTLSProfile ep stamp sel k p)) e of
     Some v \<Rightarrow> list_all (\<lambda>(l, bar). 0 \<le> sb_width bar \<and> sb_width bar \<le> 100) (pv_bars v)
       \<and> (\<exists>n. 0 \<le> n \<and> n \<le> 100 \<and> pv_score v = show_int n @ ''/100'')
   | None \<Rightarrow> False"
  using protocol_range [of "profile_input k p"] cipher_range [of "pr_cipherSuites p"] key_exchange_range [of k]
    final_range [of "profile_input k p"]
  by (cases "scoreKeyExchange k")
    (auto simp: SecurityPostureSection_def GetTLSProfile_def Score_def ScoreBar_def OverallScoreCard_def Let_def)


subsection \<open>What the page gets wrong\<close>

text \<open>The preferred suite has no mark for its weakness.\<close>

lemma preferred_hides_weakness: "fv_badge (FindingRow f True) = Some ''Preferred''"
  by (simp add: FindingRow_def FindingBadge_def)

text \<open>The best grade of the list is never given.\<close>

lemma no_A_plus: "tlsScore_grade (Score i) \<noteq> GradeAPlus"
proof -
  have fold: "gradeRank g \<le> 6 \<Longrightarrow> gradeRank (fold (\<lambda>(b, limit, w) g. if b then capGrade g limit else g) caps g) \<le> 6"
    for g and caps :: "(bool \<times> TLSGrade \<times> string) list"
    by (induction caps arbitrary: g) (auto simp: min_le_iff_disj)
  have "gradeRank (failed_grade i (scoreToGrade n)) \<le> 6" for n by (simp add: failed_grade_eq scoreToGrade_def)
  then have "gradeRank (capped_grade i (failed_grade i (scoreToGrade n))) \<le> 6" for n by (simp add: capped_grade_def fold)
  moreover have "g \<noteq> GradeAPlus" if "gradeRank g \<le> 6" for g using that by (cases g) simp_all
  ultimately have "capped_grade i (failed_grade i (scoreToGrade n)) \<noteq> GradeAPlus" for n by blast
  then show ?thesis by (simp add: Score_def Let_def)
qed

end
