(* ===== verification/EndpointDetail.thy ===== *)
theory EndpointDetail
  imports EndpointPosture BulkActions AuditLogs
begin

section \<open>The endpoint pages (\<open>pages/endpoint/EndpointDetailPage.tsx\<close>, \<open>pages/endpoint/detail\<close>)\<close>

text \<open>
  The parts the pages of the three kinds of endpoint share, their configuration sections, the notes dialog and the switches, and
  the handler of the server behind them (\<open>Patch\<close> in \<open>internal/endpoints/handler.go\<close>), which reads the endpoint and writes it in two
  separate statements. \<open>fmt\<close> is the date format of the browser. Other users of the server are not modelled.
\<close>

subsection \<open>Shared parts (\<open>detail/shared.tsx\<close>)\<close>

definition TYPE_LABEL_detail :: "string js_object" where
  "TYPE_LABEL_detail = [(''host'', ''Host''), (''saml'', ''SAML''), (''manual'', ''Manual'')]"

text \<open>A property of an object as it is rendered: the text of a member of its own, the given text otherwise.\<close>

definition own_or :: "string property \<Rightarrow> string property \<Rightarrow> string property" where
  "own_or x y = (case x of Undefined \<Rightarrow> y | _ \<Rightarrow> x)"

type_synonym crumb = "string \<times> string option"

definition BackBreadcrumb :: "string option \<Rightarrow> string option \<Rightarrow> crumb list" where
  "BackBreadcrumb name type =
     [case type of
        Some t \<Rightarrow> ((case obj_get TYPE_LABEL_detail t of Own l \<Rightarrow> l | _ \<Rightarrow> ''undefined'') @ '' Endpoints'', Some (''/endpoints/'' @ t))
      | None \<Rightarrow> (''Endpoints'', Some ''/endpoints''),
      (nullish name ellipsis, None)]"

record header_view =
  hv_badge :: "string property"
  hv_name :: string
  hv_scanned :: "string option"
  hv_editLink :: string
  hv_deleteLabel :: string

definition EndpointHeader :: "(string \<Rightarrow> string) \<Rightarrow> Endpoint \<Rightarrow> bool \<Rightarrow> header_view" where
  "EndpointHeader fmt e showLastScanned =
     \<lparr>hv_badge = own_or (obj_get TYPE_LABEL_detail (endpoint_type e)) (Own (endpoint_type e)), hv_name = endpoint_name e,
      hv_scanned =
        (if showLastScanned
         then Some (''Last scanned '' @ (case endpoint_lastScannedAt e of Some t \<Rightarrow> if t = [] then em_dash else fmt t | None \<Rightarrow> em_dash))
         else None),
      hv_editLink = ''/endpoints/'' @ endpoint_id e @ ''/edit'', hv_deleteLabel = ''Delete endpoint '' @ endpoint_name e\<rparr>"

text \<open>Where the page leads after its endpoint is deleted.\<close>

definition after_delete :: "Endpoint \<Rightarrow> string" where
  "after_delete e = ''/endpoints/'' @ endpoint_type e"

definition TagsRow :: "TagWithCategory list \<Rightarrow> (string option \<times> string) list option" where
  "TagsRow tags =
     (if length tags = 0 then None
      else Some (map (\<lambda>t. (categoryColor (tagWithCategory_categoryId t), tagWithCategory_categoryName t @ '':'' @ tagWithCategory_name t))
             tags))"

text \<open>The rows of a description list: a label with a text, a link or a switch.\<close>

datatype row_value = RowText string | RowLink string | RowSwitch bool | RowExpiry badge

definition MonitoringRows :: "Endpoint \<Rightarrow> bool \<Rightarrow> (string \<times> row_value) list" where
  "MonitoringRows e showScanning =
     (let scanningOn = (\<not> endpoint_scanExempt e) in
      [(''Monitored'', RowSwitch (endpoint_enabled e))] @ (if showScanning then [(''Scanning'', RowSwitch scanningOn)] else []))"

subsubsection \<open>Scan history\<close>

record history_view =
  hi_ok :: bool
  hi_time :: string
  hi_version :: "string option"
  hi_fingerprint :: "(string \<times> string) option"
  hi_error :: "string option"

definition shown_if :: "string option \<Rightarrow> string option" where
  "shown_if x = (if truthy x then x else None)"

definition certificate_link :: "string \<Rightarrow> string" where
  "certificate_link fp = ''/certificates/'' @ fp"

definition ScanHistoryRow :: "(string \<Rightarrow> string) \<Rightarrow> EndpointScanHistoryItem \<Rightarrow> history_view" where
  "ScanHistoryRow fmt item =
     \<lparr>hi_ok = (\<not> truthy (endpointScanHistoryItem_scanError item)), hi_time = fmt (endpointScanHistoryItem_scannedAt item),
      hi_version = shown_if (endpointScanHistoryItem_tlsVersion item),
      hi_fingerprint = map_option (\<lambda>fp. (certificate_link fp, fp)) (shown_if (endpointScanHistoryItem_fingerprint item)),
      hi_error = shown_if (endpointScanHistoryItem_scanError item)\<rparr>"

text \<open>The section: a message, or the rows with the link to the full history when there are more.\<close>

definition ScanHistorySection ::
  "(string \<Rightarrow> string) \<Rightarrow> EndpointScanHistoryItem list option \<Rightarrow> string \<Rightarrow> int \<Rightarrow> history_view panel \<times> (string \<times> string) option" where
  "ScanHistorySection fmt items endpointID totalCount =
     (case items of
        None \<Rightarrow> (PanelLoading, None)
      | Some rows \<Rightarrow>
          if length rows = 0 then (PanelEmpty ''No scan history yet.'', None)
          else (PanelRows (map (ScanHistoryRow fmt) rows),
                if totalCount > int (length rows)
                then Some (''/endpoints/'' @ endpointID @ ''/scan-history'', ''View full scan history ('' @ show_int totalCount @ '')'')
                else None))"

subsection \<open>The full scan history (\<open>EndpointScanHistoryPage.tsx\<close>)\<close>

definition HISTORY_PAGE_SIZE :: int where
  "HISTORY_PAGE_SIZE = 50"

definition history_totalPages :: "int \<Rightarrow> int" where
  "history_totalPages totalCount = max 1 (ceil_div totalCount HISTORY_PAGE_SIZE)"

definition history_range :: "int \<Rightarrow> int \<Rightarrow> int \<times> int" where
  "history_range page totalCount =
     (if totalCount = 0 then 0 else (page - 1) * HISTORY_PAGE_SIZE + 1, min (page * HISTORY_PAGE_SIZE) totalCount)"

definition history_prev :: "int \<Rightarrow> int" where
  "history_prev page = (if page \<le> 1 then page else max 1 (page - 1))"

definition history_next :: "int \<Rightarrow> int \<Rightarrow> int" where
  "history_next totalCount page =
     (if page \<ge> history_totalPages totalCount then page else min (history_totalPages totalCount) (page + 1))"

text \<open>Nothing is asked for without an identifier in the address.\<close>

definition history_query :: "string \<Rightarrow> int \<Rightarrow> EndpointScanHistoryList api_call option" where
  "history_query endpointID page = (if endpointID = [] then None else Some (getScanHistory endpointID page HISTORY_PAGE_SIZE))"

definition history_crumbs :: "Endpoint option \<Rightarrow> string \<Rightarrow> crumb list" where
  "history_crumbs endpoint endpointID =
     [case endpoint of
        Some e \<Rightarrow>
          (trim ((case obj_get TYPE_LABEL_detail (endpoint_type e) of Own l \<Rightarrow> l | _ \<Rightarrow> []) @ '' Endpoints''),
           Some (''/endpoints/'' @ endpoint_type e))
      | None \<Rightarrow> (''Endpoints'', Some ''/endpoints''),
      (nullish (map_option endpoint_name endpoint) ellipsis, if endpointID \<noteq> [] then Some (''/endpoints/'' @ endpointID) else None),
      (''Scan History'', None)]"

record full_history_view = history_view +
  hf_version :: string
  hf_resolvedIp :: string

definition history_page_row :: "(string \<Rightarrow> string) \<Rightarrow> EndpointScanHistoryItem \<Rightarrow> full_history_view" where
  "history_page_row fmt item =
     history_view.extend (ScanHistoryRow fmt item)
       \<lparr>hf_version = nullish (endpointScanHistoryItem_tlsVersion item) em_dash,
        hf_resolvedIp = nullish (endpointScanHistoryItem_resolvedIp item) em_dash\<rparr>"

definition history_body :: "(string \<Rightarrow> string) \<Rightarrow> bool \<Rightarrow> EndpointScanHistoryItem list \<Rightarrow> full_history_view panel" where
  "history_body fmt isLoading items =
     (if isLoading then PanelLoading
      else if length items = 0 then PanelEmpty ''No scan history yet.''
      else PanelRows (map (history_page_row fmt) items))"

definition history_footer :: "int \<Rightarrow> int \<Rightarrow> string + int \<times> int \<times> int" where
  "history_footer page totalCount =
     (if totalCount = 0 then Inl ''No entries''
      else Inr (fst (history_range page totalCount), snd (history_range page totalCount), totalCount))"

subsection \<open>The configuration of the three kinds\<close>

definition host_config :: "Endpoint \<Rightarrow> (string \<times> row_value) list \<times> string option" where
  "host_config e =
     ([(''DNS Name'', RowText (endpoint_dnsName e)), (''IP Address'', RowText (nullish (endpoint_ipAddress e) ''Auto'')),
       (''Port'', RowText (show_int (endpoint_port e))), (''Scanner'', RowText (nullish (endpoint_scannerName e) ''Default''))]
      @ MonitoringRows e True,
      shown_if (endpoint_lastScanError e))"

definition saml_field :: "string \<Rightarrow> (string \<Rightarrow> row_value) \<Rightarrow> string option \<Rightarrow> (string \<times> row_value) list" where
  "saml_field label show x = (case shown_if x of Some v \<Rightarrow> [(label, show v)] | None \<Rightarrow> [])"

definition saml_config :: "int \<Rightarrow> Endpoint \<Rightarrow> (string \<times> row_value) list" where
  "saml_config now e =
     [(''Metadata URL'', case shown_if (endpoint_url e) of Some u \<Rightarrow> RowLink u | None \<Rightarrow> RowText em_dash)]
     @ saml_field ''Entity ID'' RowText (Option.bind (endpoint_samlMetadata e) samlMetadata_entityId)
     @ saml_field ''Role'' RowText (Option.bind (endpoint_samlMetadata e) samlMetadata_role)
     @ saml_field ''Valid Until'' (\<lambda>v. RowExpiry (SAMLValidUntilValue now v)) (Option.bind (endpoint_samlMetadata e) samlMetadata_validUntil)
     @ [(''Scanner'', RowText (nullish (endpoint_scannerName e) ''Default''))]
     @ MonitoringRows e True"

definition manual_config :: "Endpoint \<Rightarrow> (string \<times> row_value) list" where
  "manual_config e = MonitoringRows e False"

text \<open>The page for the kind of an endpoint.\<close>

datatype detail_page_kind = HostPage | SAMLPage | ManualPage

definition page_of_type :: "string \<Rightarrow> detail_page_kind" where
  "page_of_type t = (if t = ''saml'' then SAMLPage else if t = ''manual'' then ManualPage else HostPage)"

datatype detail_view = DetailLoading | DetailError string | DetailNothing | DetailPage detail_page_kind Endpoint

definition EndpointDetailPage :: "bool \<Rightarrow> js_exn option \<Rightarrow> Endpoint option \<Rightarrow> detail_view" where
  "EndpointDetailPage isLoading error endpoint =
     (if isLoading then DetailLoading
      else case error of
        Some (ApiError status m) \<Rightarrow> DetailError m
      | Some (OtherError m) \<Rightarrow> DetailError ''Failed to load endpoint.''
      | None \<Rightarrow> (case endpoint of None \<Rightarrow> DetailNothing | Some e \<Rightarrow> DetailPage (page_of_type (endpoint_type e)) e))"

subsection \<open>The notes dialog\<close>

record notes_dialog =
  nd_open :: bool
  nd_value :: string
  nd_error :: string
  nd_pending :: bool

definition notes_closed :: notes_dialog where
  "notes_closed = \<lparr>nd_open = False, nd_value = [], nd_error = [], nd_pending = False\<rparr>"

text \<open>The effect on \<open>open\<close> and the stored notes.\<close>

definition notes_effect :: "Endpoint \<Rightarrow> notes_dialog \<Rightarrow> notes_dialog" where
  "notes_effect e d = (if nd_open d then d\<lparr>nd_value := nullish (endpoint_notes e) [], nd_error := []\<rparr> else d)"

definition notes_opened :: "Endpoint \<Rightarrow> notes_dialog \<Rightarrow> notes_dialog" where
  "notes_opened e d = (if nd_open d then d else notes_effect e (d\<lparr>nd_open := True\<rparr>))"

definition notes_dismissed :: "notes_dialog \<Rightarrow> notes_dialog" where
  "notes_dismissed d = (if nd_pending d then d else d\<lparr>nd_open := False\<rparr>)"

definition notes_sent :: "notes_dialog \<Rightarrow> string option" where
  "notes_sent d = (let trimmed = trim (nd_value d) in if trimmed = [] then None else Some trimmed)"

definition notes_failed :: "js_exn \<Rightarrow> notes_dialog \<Rightarrow> notes_dialog" where
  "notes_failed err d =
     d\<lparr>nd_error := (case err of ApiError status m \<Rightarrow> m | OtherError m \<Rightarrow> ''Failed to save notes''), nd_pending := False\<rparr>"

text \<open>Title, text and label of the button with whether it is disabled.\<close>

definition notes_view :: "Endpoint \<Rightarrow> notes_dialog \<Rightarrow> (string \<times> string \<times> string option \<times> string \<times> bool) option" where
  "notes_view e d =
     (if \<not> nd_open d then None
      else Some (if truthy (endpoint_notes e) then ''Edit Notes'' else ''Add Notes'', nd_value d,
                 (if nd_error d \<noteq> [] then Some (nd_error d) else None),
                 (if nd_pending d then ''Saving'' @ ellipsis else ''Save''), nd_pending d))"

definition NotesSection :: "Endpoint \<Rightarrow> string + string" where
  "NotesSection e = (case shown_if (endpoint_notes e) of Some t \<Rightarrow> Inr t | None \<Rightarrow> Inl ''No notes.'')"

subsection \<open>The pages\<close>

text \<open>What the three pages put together from the answers to their queries; the switches and the dialog are below.\<close>

record page_parts =
  pp_crumbs :: "crumb list"
  pp_header :: header_view
  pp_tags :: "(string option \<times> string) list option"
  pp_notes :: "string + string"

record host_parts = page_parts +
  hp_config :: "(string \<times> row_value) list \<times> string option"
  hp_history :: "history_view panel \<times> (string \<times> string) option"
  hp_posture :: "posture_view option"
  hp_versions :: "version_chip list option"
  hp_ciphers :: cipher_section

record saml_parts = page_parts +
  sp_error :: "string option"
  sp_config :: "(string \<times> row_value) list"
  sp_certs :: "cert_tile \<times> cert_tile"
  sp_history :: "history_view panel \<times> (string \<times> string) option"

record manual_parts = page_parts +
  mp_config :: "(string \<times> row_value) list"
  mp_cert :: cert_tile

definition page_parts_of :: "(string \<Rightarrow> string) \<Rightarrow> string \<Rightarrow> bool \<Rightarrow> TagWithCategory list option \<Rightarrow> Endpoint \<Rightarrow> page_parts" where
  "page_parts_of fmt type showLastScanned tagsData e =
     \<lparr>pp_crumbs = BackBreadcrumb (Some (endpoint_name e)) (Some type), pp_header = EndpointHeader fmt e showLastScanned,
      pp_tags = TagsRow (nullish tagsData []), pp_notes = NotesSection e\<rparr>"

definition recent_history ::
  "(string \<Rightarrow> string) \<Rightarrow> EndpointScanHistoryList option \<Rightarrow> Endpoint \<Rightarrow> history_view panel \<times> (string \<times> string) option" where
  "recent_history fmt historyData e =
     ScanHistorySection fmt (map_option paginatedList_items historyData) (endpoint_id e)
       (nullish (map_option paginatedList_totalCount historyData) 0)"

definition HostEndpointDetailPage ::
  "(string \<Rightarrow> string) \<Rightarrow> int \<Rightarrow> TagWithCategory list option \<Rightarrow> EndpointScanHistoryList option \<Rightarrow> tls_state \<Rightarrow> Endpoint \<Rightarrow> host_parts" where
  "HostEndpointDetailPage fmt now tagsData historyData tlsState e =
     page_parts.extend (page_parts_of fmt ''host'' True tagsData e)
       \<lparr>hp_config = host_config e, hp_history = recent_history fmt historyData e, hp_posture = SecurityPostureSection now tlsState e,
        hp_versions = ActiveTLSProfileSection tlsState, hp_ciphers = CipherSuitesSection tlsState\<rparr>"

definition SAMLEndpointDetailPage ::
  "(string \<Rightarrow> string) \<Rightarrow> int \<Rightarrow> TagWithCategory list option \<Rightarrow> EndpointScanHistoryList option \<Rightarrow> Endpoint \<Rightarrow> saml_parts" where
  "SAMLEndpointDetailPage fmt now tagsData historyData e =
     page_parts.extend (page_parts_of fmt ''saml'' True tagsData e)
       \<lparr>sp_error = shown_if (endpoint_lastScanError e), sp_config = saml_config now e,
        sp_certs = SAMLCertCards now (endpoint_activeCerts e), sp_history = recent_history fmt historyData e\<rparr>"

definition ManualEndpointDetailPage :: "(string \<Rightarrow> string) \<Rightarrow> int \<Rightarrow> TagWithCategory list option \<Rightarrow> Endpoint \<Rightarrow> manual_parts" where
  "ManualEndpointDetailPage fmt now tagsData e =
     page_parts.extend (page_parts_of fmt ''manual'' False tagsData e)
       \<lparr>mp_config = manual_config e, mp_cert = LinkedCertCards now (endpoint_activeCerts e)\<rparr>"

subsection \<open>The server\<close>

definition empty_patch :: PatchEndpointRequest where
  "empty_patch =
     \<lparr>patchEndpointRequest_name = None, patchEndpointRequest_dnsName = None, patchEndpointRequest_ipAddress = None,
      patchEndpointRequest_port = None, patchEndpointRequest_url = None, patchEndpointRequest_enabled = None,
      patchEndpointRequest_scanExempt = None, patchEndpointRequest_scannerId = None, patchEndpointRequest_notes = None\<rparr>"

text \<open>The checks of the fields, in the order of the code; the decoder has checked their types.\<close>

definition patch_refusal :: "PatchEndpointRequest \<Rightarrow> string option" where
  "patch_refusal r =
     (if patchEndpointRequest_name r = Some [] then Some ''name must be a non-empty string''
      else if patchEndpointRequest_dnsName r = Some [] then Some ''dnsName must be a non-empty string''
      else case patchEndpointRequest_port r of
        Some p \<Rightarrow> if p < 1 \<or> p > 65535 then Some ''port must be between 1 and 65535'' else None
      | None \<Rightarrow> None)"

definition or_current :: "'a option \<Rightarrow> 'a \<Rightarrow> 'a" where
  "or_current x v = (case x of Some y \<Rightarrow> y | None \<Rightarrow> v)"

text \<open>The record that is written: the endpoint as it was read, with the fields of the request.\<close>

definition patched_record :: "PatchEndpointRequest \<Rightarrow> Endpoint \<Rightarrow> Endpoint" where
  "patched_record r cur =
     cur\<lparr>endpoint_name := or_current (patchEndpointRequest_name r) (endpoint_name cur),
         endpoint_enabled := or_current (patchEndpointRequest_enabled r) (endpoint_enabled cur),
         endpoint_scanExempt := or_current (patchEndpointRequest_scanExempt r) (endpoint_scanExempt cur),
         endpoint_scannerId := or_current (patchEndpointRequest_scannerId r) (endpoint_scannerId cur),
         endpoint_notes := or_current (patchEndpointRequest_notes r) (endpoint_notes cur),
         endpoint_dnsName := or_current (patchEndpointRequest_dnsName r) (endpoint_dnsName cur),
         endpoint_ipAddress := or_current (patchEndpointRequest_ipAddress r) (endpoint_ipAddress cur),
         endpoint_port := or_current (patchEndpointRequest_port r) (endpoint_port cur),
         endpoint_url := or_current (patchEndpointRequest_url r) (endpoint_url cur)\<rparr>"

text \<open>
  \<open>UpdateEndpoint\<close> writes every field of the record that belongs to its type, and reads the endpoint again; \<open>scanner_name\<close> is the join with
  the scanners.
\<close>

definition UpdateEndpoint :: "(string option \<Rightarrow> string option) \<Rightarrow> string \<Rightarrow> Endpoint \<Rightarrow> Endpoint \<Rightarrow> Endpoint" where
  "UpdateEndpoint scanner_name now rec stored =
     (let e = stored\<lparr>endpoint_name := endpoint_name rec, endpoint_type := endpoint_type rec, endpoint_enabled := endpoint_enabled rec,
                endpoint_scanExempt := endpoint_scanExempt rec, endpoint_scannerId := endpoint_scannerId rec,
                endpoint_scannerName := scanner_name (endpoint_scannerId rec), endpoint_notes := endpoint_notes rec,
                endpoint_updatedAt := now\<rparr>
      in if endpoint_type rec = ''host'' \<or> endpoint_type rec = []
         then e\<lparr>endpoint_dnsName := endpoint_dnsName rec, endpoint_ipAddress := endpoint_ipAddress rec, endpoint_port := endpoint_port rec\<rparr>
         else if endpoint_type rec = ''saml'' then e\<lparr>endpoint_url := endpoint_url rec\<rparr>
         else e)"

subsection \<open>Page and server\<close>

text \<open>
  A request is asked for, then the server reads the endpoint, writes the record, and its answer arrives. \<open>dw_sent\<close> is the history of what the page
  has asked for. The two kinds of request differ in what the page does with the answer.
\<close>

datatype patch_kind = SwitchPatch | NotesPatch

record detail_world =
  dw_page :: Endpoint
  dw_notes :: notes_dialog
  dw_client :: client
  dw_server :: Endpoint
  dw_asked :: "(patch_kind \<times> PatchEndpointRequest) list"
  dw_reading :: "(patch_kind \<times> PatchEndpointRequest \<times> Endpoint) list"
  dw_answers :: "(patch_kind \<times> Endpoint fetch_result) list"
  dw_sent :: "PatchEndpointRequest list"

datatype detail_event =
    EnabledSwitched
  | ScanningSwitched
  | NotesOpened
  | NotesTyped string
  | NotesDismissed
  | NotesSaved
  | ServerRead nat
  | ServerWrote nat string
  | ServerFailed nat fault
  | PatchAnswered nat "fault option"

definition ask :: "patch_kind \<Rightarrow> PatchEndpointRequest \<Rightarrow> detail_world \<Rightarrow> detail_world" where
  "ask kind r w = w\<lparr>dw_asked := dw_asked w @ [(kind, r)], dw_sent := dw_sent w @ [r]\<rparr>"

text \<open>New data for the page; the effect of the dialog runs when the notes are others.\<close>

definition show_endpoint :: "Endpoint \<Rightarrow> detail_world \<Rightarrow> detail_world" where
  "show_endpoint e w =
     w\<lparr>dw_page := e, dw_notes := (if endpoint_notes e = endpoint_notes (dw_page w) then dw_notes w else notes_effect e (dw_notes w))\<rparr>"

text \<open>An answer without a value leaves the data as they are, and closes the dialog.\<close>

definition patch_answered :: "patch_kind \<Rightarrow> Endpoint outcome \<Rightarrow> detail_world \<Rightarrow> detail_world" where
  "patch_answered kind r w =
     (case r of
        Inl err \<Rightarrow> (case kind of SwitchPatch \<Rightarrow> w | NotesPatch \<Rightarrow> w\<lparr>dw_notes := notes_failed err (dw_notes w)\<rparr>)
      | Inr v \<Rightarrow>
          (let u = (case v of Some e \<Rightarrow> show_endpoint e w | None \<Rightarrow> w) in
           case kind of
             SwitchPatch \<Rightarrow> u
           | NotesPatch \<Rightarrow> u\<lparr>dw_notes := (dw_notes u)\<lparr>nd_open := False, nd_pending := False\<rparr>\<rparr>))"

definition server_wrote ::
  "(string option \<Rightarrow> string option) \<Rightarrow> string \<Rightarrow> patch_kind \<times> PatchEndpointRequest \<times> Endpoint \<Rightarrow> detail_world \<Rightarrow> detail_world" where
  "server_wrote scanner_name now entry w =
     (case entry of
        (kind, r, cur) \<Rightarrow>
          (case patch_refusal r of
             Some m \<Rightarrow> w\<lparr>dw_answers := dw_answers w @ [(kind, fault_answer (ErrorStatus 0 m))]\<rparr>
           | None \<Rightarrow>
               (let e = UpdateEndpoint scanner_name now (patched_record r cur) (dw_server w)
                in w\<lparr>dw_server := e, dw_answers := dw_answers w @ [(kind, delivery e)]\<rparr>)))"

definition answer_arrived :: "patch_kind \<times> Endpoint fetch_result \<Rightarrow> detail_world \<Rightarrow> detail_world" where
  "answer_arrived entry w =
     (case entry of
        (kind, answer) \<Rightarrow>
          (case patchEndpoint (endpoint_id (dw_page w)) empty_patch (dw_client w) answer of
             (_, c, r) \<Rightarrow> patch_answered kind r (w\<lparr>dw_client := c\<rparr>)))"

fun detail_step :: "(string option \<Rightarrow> string option) \<Rightarrow> detail_event \<Rightarrow> detail_world \<Rightarrow> detail_world" where
  "detail_step sn EnabledSwitched w =
     ask SwitchPatch (empty_patch\<lparr>patchEndpointRequest_enabled := Some (\<not> endpoint_enabled (dw_page w))\<rparr>) w"
| "detail_step sn ScanningSwitched w =
     (if page_of_type (endpoint_type (dw_page w)) = ManualPage then w
      else ask SwitchPatch (empty_patch\<lparr>patchEndpointRequest_scanExempt := Some (\<not> endpoint_scanExempt (dw_page w))\<rparr>) w)"
| "detail_step sn NotesOpened w = w\<lparr>dw_notes := notes_opened (dw_page w) (dw_notes w)\<rparr>"
| "detail_step sn (NotesTyped v) w = (if nd_open (dw_notes w) then w\<lparr>dw_notes := (dw_notes w)\<lparr>nd_value := v\<rparr>\<rparr> else w)"
| "detail_step sn NotesDismissed w = w\<lparr>dw_notes := notes_dismissed (dw_notes w)\<rparr>"
| "detail_step sn NotesSaved w =
     (if nd_open (dw_notes w) \<and> \<not> nd_pending (dw_notes w)
      then ask NotesPatch (empty_patch\<lparr>patchEndpointRequest_notes := Some (notes_sent (dw_notes w))\<rparr>)
             (w\<lparr>dw_notes := (dw_notes w)\<lparr>nd_pending := True\<rparr>\<rparr>)
      else w)"
| "detail_step sn (ServerRead i) w =
     (if i < length (dw_asked w)
      then (case dw_asked w ! i of
              (kind, r) \<Rightarrow> w\<lparr>dw_asked := remove_nth i (dw_asked w), dw_reading := dw_reading w @ [(kind, r, dw_server w)]\<rparr>)
      else w)"
| "detail_step sn (ServerWrote i now) w =
     (if i < length (dw_reading w)
      then server_wrote sn now (dw_reading w ! i) (w\<lparr>dw_reading := remove_nth i (dw_reading w)\<rparr>) else w)"
| "detail_step sn (ServerFailed i f) w =
     (if i < length (dw_asked w)
      then w\<lparr>dw_asked := remove_nth i (dw_asked w), dw_answers := dw_answers w @ [(fst (dw_asked w ! i), fault_answer f)]\<rparr> else w)"
| "detail_step sn (PatchAnswered i f) w =
     (if i < length (dw_answers w)
      then (let entry = dw_answers w ! i; v = w\<lparr>dw_answers := remove_nth i (dw_answers w)\<rparr> in
            answer_arrived (case f of Some x \<Rightarrow> (fst entry, fault_answer x) | None \<Rightarrow> entry) v)
      else w)"

definition detail_start :: "client \<Rightarrow> Endpoint \<Rightarrow> detail_world" where
  "detail_start c e =
     \<lparr>dw_page = e, dw_notes = notes_closed, dw_client = c, dw_server = e, dw_asked = [], dw_reading = [], dw_answers = [], dw_sent = []\<rparr>"

subsection \<open>What the page can change\<close>

definition one_field :: "PatchEndpointRequest \<Rightarrow> bool" where
  "one_field r \<longleftrightarrow>
     (\<exists>b. r = empty_patch\<lparr>patchEndpointRequest_enabled := Some b\<rparr>)
     \<or> (\<exists>b. r = empty_patch\<lparr>patchEndpointRequest_scanExempt := Some b\<rparr>)
     \<or> (\<exists>n. r = empty_patch\<lparr>patchEndpointRequest_notes := Some n\<rparr> \<and> (\<forall>t. n = Some t \<longrightarrow> t \<noteq> [] \<and> trim t = t))"

text \<open>
  An endpoint that comes from another by some of the requests: the two flags and the notes are the old ones or have been asked for, and only the time of
  the change and the name of the scanner, as the server reads it, may be others.
\<close>

definition drawn_from :: "(string option \<Rightarrow> string option) \<Rightarrow> PatchEndpointRequest set \<Rightarrow> Endpoint \<Rightarrow> Endpoint \<Rightarrow> bool" where
  "drawn_from sn S e0 e \<longleftrightarrow>
     e\<lparr>endpoint_enabled := endpoint_enabled e0, endpoint_scanExempt := endpoint_scanExempt e0, endpoint_notes := endpoint_notes e0,
       endpoint_scannerName := endpoint_scannerName e0, endpoint_updatedAt := endpoint_updatedAt e0\<rparr> = e0
     \<and> endpoint_scannerName e \<in> {endpoint_scannerName e0, sn (endpoint_scannerId e0)}
     \<and> (endpoint_enabled e = endpoint_enabled e0 \<or> Some (endpoint_enabled e) \<in> patchEndpointRequest_enabled ` S)
     \<and> (endpoint_scanExempt e = endpoint_scanExempt e0 \<or> Some (endpoint_scanExempt e) \<in> patchEndpointRequest_scanExempt ` S)
     \<and> (endpoint_notes e = endpoint_notes e0 \<or> Some (endpoint_notes e) \<in> patchEndpointRequest_notes ` S)"

lemma drawn_refl: "drawn_from sn S e e"
  by (simp add: drawn_from_def)

lemma drawn_mono: "drawn_from sn S e0 e \<Longrightarrow> S \<subseteq> T \<Longrightarrow> drawn_from sn T e0 e"
  unfolding drawn_from_def by blast

lemma or_current_simps [simp]: "or_current None v = v" "or_current (Some x) v = x"
  by (simp_all add: or_current_def)

lemma drawn_fields:
  "drawn_from sn S e0 e \<Longrightarrow>
     endpoint_name e = endpoint_name e0 \<and> endpoint_type e = endpoint_type e0 \<and> endpoint_scannerId e = endpoint_scannerId e0
     \<and> endpoint_dnsName e = endpoint_dnsName e0 \<and> endpoint_ipAddress e = endpoint_ipAddress e0 \<and> endpoint_port e = endpoint_port e0
     \<and> endpoint_url e = endpoint_url e0 \<and> endpoint_id e = endpoint_id e0"
  unfolding drawn_from_def by (cases e; cases e0) simp

lemma field_drawn:
  assumes "r \<in> S" and "v = v0 \<or> Some v \<in> f ` S"
  shows "or_current (f r) v = v0 \<or> Some (or_current (f r) v) \<in> f ` S"
proof (cases "f r")
  case None
  then show ?thesis using assms(2) by simp
next
  case (Some x)
  then show ?thesis using assms(1) by (metis imageI or_current_simps(2))
qed

lemma drawn_update:
  assumes cur: "drawn_from sn S e0 cur" and stored: "drawn_from sn S e0 stored" and r: "r \<in> S" "one_field r"
  shows "drawn_from sn S e0 (UpdateEndpoint sn now (patched_record r cur) stored)"
proof -
  let ?e = "stored\<lparr>endpoint_enabled := or_current (patchEndpointRequest_enabled r) (endpoint_enabled cur),
      endpoint_scanExempt := or_current (patchEndpointRequest_scanExempt r) (endpoint_scanExempt cur),
      endpoint_notes := or_current (patchEndpointRequest_notes r) (endpoint_notes cur),
      endpoint_scannerName := sn (endpoint_scannerId e0), endpoint_updatedAt := now\<rparr>"
  have r_fields: "patchEndpointRequest_name r = None" "patchEndpointRequest_dnsName r = None" "patchEndpointRequest_ipAddress r = None"
    "patchEndpointRequest_port r = None" "patchEndpointRequest_url r = None" "patchEndpointRequest_scannerId r = None"
    using r(2) by (auto simp: one_field_def empty_patch_def)
  have "UpdateEndpoint sn now (patched_record r cur) stored = ?e"
    using drawn_fields [OF cur] drawn_fields [OF stored]
    by (cases stored) (simp add: UpdateEndpoint_def patched_record_def r_fields Let_def)
  moreover have "drawn_from sn S e0 ?e"
  proof -
    have "?e\<lparr>endpoint_enabled := endpoint_enabled e0, endpoint_scanExempt := endpoint_scanExempt e0, endpoint_notes := endpoint_notes e0,
       endpoint_scannerName := endpoint_scannerName e0, endpoint_updatedAt := endpoint_updatedAt e0\<rparr> = e0"
      using stored unfolding drawn_from_def by simp
    moreover have "endpoint_enabled ?e = endpoint_enabled e0 \<or> Some (endpoint_enabled ?e) \<in> patchEndpointRequest_enabled ` S"
      using field_drawn [OF r(1), of "endpoint_enabled cur" "endpoint_enabled e0" patchEndpointRequest_enabled] cur unfolding drawn_from_def by simp
    moreover have "endpoint_scanExempt ?e = endpoint_scanExempt e0 \<or> Some (endpoint_scanExempt ?e) \<in> patchEndpointRequest_scanExempt ` S"
      using field_drawn [OF r(1), of "endpoint_scanExempt cur" "endpoint_scanExempt e0" patchEndpointRequest_scanExempt] cur unfolding drawn_from_def by simp
    moreover have "endpoint_notes ?e = endpoint_notes e0 \<or> Some (endpoint_notes ?e) \<in> patchEndpointRequest_notes ` S"
      using field_drawn [OF r(1), of "endpoint_notes cur" "endpoint_notes e0" patchEndpointRequest_notes] cur unfolding drawn_from_def by simp
    ultimately show ?thesis unfolding drawn_from_def by simp
  qed
  ultimately show ?thesis by simp
qed

definition answer_from :: "(string option \<Rightarrow> string option) \<Rightarrow> PatchEndpointRequest set \<Rightarrow> Endpoint \<Rightarrow> Endpoint fetch_result \<Rightarrow> bool" where
  "answer_from sn S e0 a \<longleftrightarrow> (\<forall>c e. snd (read_answer c a) = Inr (Some e) \<longrightarrow> drawn_from sn S e0 e)"

definition world_from :: "(string option \<Rightarrow> string option) \<Rightarrow> Endpoint \<Rightarrow> detail_world \<Rightarrow> bool" where
  "world_from sn e0 w \<longleftrightarrow>
     (let S = set (dw_sent w) in
      drawn_from sn S e0 (dw_page w) \<and> drawn_from sn S e0 (dw_server w)
      \<and> (\<forall>(k, r) \<in> set (dw_asked w). r \<in> S)
      \<and> (\<forall>(k, r, cur) \<in> set (dw_reading w). r \<in> S \<and> drawn_from sn S e0 cur)
      \<and> (\<forall>(k, a) \<in> set (dw_answers w). answer_from sn S e0 a)
      \<and> (\<forall>r \<in> S. one_field r))"

lemma answer_from_mono: "answer_from sn S e0 a \<Longrightarrow> S \<subseteq> T \<Longrightarrow> answer_from sn T e0 a"
  unfolding answer_from_def using drawn_mono by blast

lemma answer_from_fault: "answer_from sn S e0 (fault_answer f)"
  by (cases f) (auto simp: answer_from_def read_answer_def res_ok_def)

lemma answer_from_delivery: "drawn_from sn S e0 e \<Longrightarrow> answer_from sn S e0 (delivery e)"
  by (simp add: answer_from_def read_answer_delivers [OF delivers_delivery])

lemma world_from_start: "world_from sn e (detail_start c e)"
  by (simp add: world_from_def detail_start_def drawn_refl)

lemma world_from_dialog [simp]: "world_from sn e0 (w\<lparr>dw_notes := d\<rparr>) \<longleftrightarrow> world_from sn e0 w"
  by (simp add: world_from_def)

lemma world_from_client [simp]: "world_from sn e0 (w\<lparr>dw_client := c\<rparr>) \<longleftrightarrow> world_from sn e0 w"
  by (simp add: world_from_def)

lemma world_from_ask:
  assumes "world_from sn e0 w" and "one_field r"
  shows "world_from sn e0 (ask kind r w)"
proof -
  let ?S = "set (dw_sent w)" and ?T = "insert r (set (dw_sent w))"
  have m: "drawn_from sn ?S e0 e \<Longrightarrow> drawn_from sn ?T e0 e" "answer_from sn ?S e0 a \<Longrightarrow> answer_from sn ?T e0 a" for e a
    using drawn_mono [of sn ?S e0 e ?T] answer_from_mono [of sn ?S e0 a ?T] by blast+
  show ?thesis using assms m unfolding world_from_def ask_def Let_def by fastforce
qed

lemma world_from_read: "world_from sn e0 w \<Longrightarrow> world_from sn e0 (detail_step sn (ServerRead i) w)"
proof -
  assume w: "world_from sn e0 w"
  obtain kind r where entry: "dw_asked w ! i = (kind, r)" by fastforce
  show ?thesis
  proof (cases "i < length (dw_asked w)")
    case True
    then have "r \<in> set (dw_sent w)" using w entry nth_mem [OF True] unfolding world_from_def Let_def by fastforce
    then show ?thesis
      using w True set_remove_nth [of i "dw_asked w"] by (auto simp: world_from_def Let_def entry)
  qed (use w in simp)
qed

lemma world_from_wrote: "world_from sn e0 w \<Longrightarrow> world_from sn e0 (detail_step sn (ServerWrote i now) w)"
proof -
  assume w: "world_from sn e0 w"
  obtain kind r cur where entry: "dw_reading w ! i = (kind, r, cur)" by (metis prod.collapse)
  show ?thesis
  proof (cases "i < length (dw_reading w)")
    case True
    let ?S = "set (dw_sent w)"
    have r: "r \<in> ?S" "drawn_from sn ?S e0 cur" using w entry nth_mem [OF True] unfolding world_from_def Let_def by fastforce+
    then have r1: "one_field r" using w by (simp add: world_from_def Let_def)
    have stored: "drawn_from sn ?S e0 (dw_server w)" using w by (simp add: world_from_def Let_def)
    note new = drawn_update [OF r(2) stored r(1) r1, of now]
    show ?thesis
      using w True set_remove_nth [of i "dw_reading w"] new answer_from_delivery [OF new] answer_from_fault
      by (auto simp: world_from_def Let_def entry server_wrote_def simp del: fault_answer.simps split: option.split)
  qed (use w in simp)
qed

lemma world_from_failed: "world_from sn e0 w \<Longrightarrow> world_from sn e0 (detail_step sn (ServerFailed i f) w)"
  using set_remove_nth [of i "dw_asked w"] answer_from_fault
  by (auto simp: world_from_def Let_def simp del: fault_answer.simps)

lemma world_from_arrived:
  assumes "world_from sn e0 w" and "answer_from sn (set (dw_sent w)) e0 a"
  shows "world_from sn e0 (answer_arrived (kind, a) w)"
proof -
  obtain c and r :: "Endpoint outcome" where read: "read_answer (dw_client w) a = (c, r)" by fastforce
  have "drawn_from sn (set (dw_sent w)) e0 e" if "r = Inr (Some e)" for e
    using assms(2) read that by (simp add: answer_from_def) (metis snd_conv)
  then have "world_from sn e0 (show_endpoint e (w\<lparr>dw_client := c\<rparr>))" if "r = Inr (Some e)" for e
    using assms(1) that by (simp add: world_from_def show_endpoint_def Let_def)
  then show ?thesis
    using assms(1)
    by (auto simp: answer_arrived_def patchEndpoint_def api_verbs request_def read patch_answered_def Let_def
        split: sum.split option.split patch_kind.split)
qed

lemma world_from_answered: "world_from sn e0 w \<Longrightarrow> world_from sn e0 (detail_step sn (PatchAnswered i f) w)"
proof -
  assume w: "world_from sn e0 w"
  obtain kind a where entry: "dw_answers w ! i = (kind, a)" by fastforce
  show ?thesis
  proof (cases "i < length (dw_answers w)")
    case True
    then have a: "answer_from sn (set (dw_sent w)) e0 a" using w entry nth_mem [OF True] unfolding world_from_def Let_def by fastforce
    have v: "world_from sn e0 (w\<lparr>dw_answers := remove_nth i (dw_answers w)\<rparr>)"
      using w set_remove_nth [of i "dw_answers w"] by (auto simp: world_from_def Let_def)
    show ?thesis
      using world_from_arrived [OF v] a answer_from_fault True by (cases f) (simp_all add: entry Let_def del: fault_answer.simps)
  qed (use w in simp)
qed

lemma one_field_switch:
  "one_field (empty_patch\<lparr>patchEndpointRequest_enabled := Some b\<rparr>)" "one_field (empty_patch\<lparr>patchEndpointRequest_scanExempt := Some b\<rparr>)"
  unfolding one_field_def by blast+

lemma one_field_notes: "one_field (empty_patch\<lparr>patchEndpointRequest_notes := Some (notes_sent d)\<rparr>)"
  by (auto simp: one_field_def notes_sent_def Let_def)

lemma world_from_step: "world_from sn e0 w \<Longrightarrow> world_from sn e0 (detail_step sn ev w)"
proof (cases ev)
  case NotesSaved
  moreover assume "world_from sn e0 w"
  ultimately show ?thesis by (auto intro: world_from_ask one_field_notes)
qed (auto simp del: detail_step.simps(7-10)
    intro: world_from_ask one_field_switch world_from_read world_from_wrote world_from_failed world_from_answered)

text \<open>\<^bold>\<open>C32\<close>: whatever is switched, typed and saved on an endpoint page, and however the requests overlap on the server, fail or are answered in
  another order, the endpoint on the server and the one on the page differ from the first one at most in the two flags, the notes, the time
  of the change and the joined name of the scanner; each flag and the notes are the old ones or exactly what some request of the page asked for,
  and every request names a single field, with notes that are trimmed and not empty.\<close>

theorem endpoint_page_edits_only_its_fields:
  "let w = fold (detail_step sn) evs (detail_start c e) in
     drawn_from sn (set (dw_sent w)) e (dw_server w) \<and> drawn_from sn (set (dw_sent w)) e (dw_page w) \<and> list_all one_field (dw_sent w)"
proof -
  have "world_from sn e (fold (detail_step sn) evs w)" if "world_from sn e w" for w
    using that by (induction evs arbitrary: w) (simp_all add: world_from_step del: detail_step.simps)
  then show ?thesis using world_from_start [of sn e c] by (simp add: world_from_def list_all_iff Let_def)
qed

subsection \<open>Requests one after the other\<close>

text \<open>The abstract server: the two flags and the notes, and what a request does to them.\<close>

type_synonym edits = "bool \<times> bool \<times> string option"

definition edits_of :: "Endpoint \<Rightarrow> edits" where
  "edits_of e = (endpoint_enabled e, endpoint_scanExempt e, endpoint_notes e)"

fun apply_edit :: "PatchEndpointRequest \<Rightarrow> edits \<Rightarrow> edits" where
  "apply_edit r (enabled, exempt, notes) =
     (or_current (patchEndpointRequest_enabled r) enabled, or_current (patchEndpointRequest_scanExempt r) exempt,
      or_current (patchEndpointRequest_notes r) notes)"

text \<open>Requests are served one after the other and in order, none fails, and the answers arrive in order.\<close>

fun orderly :: "detail_event \<Rightarrow> detail_world \<Rightarrow> bool" where
  "orderly (ServerRead i) w = (i = 0 \<and> dw_reading w = [])"
| "orderly (ServerWrote i now) w = (i = 0)"
| "orderly (ServerFailed i f) w = False"
| "orderly (PatchAnswered i f) w = (i = 0 \<and> f = None)"
| "orderly _ w = True"

fun orderly_run :: "(string option \<Rightarrow> string option) \<Rightarrow> detail_event list \<Rightarrow> detail_world \<Rightarrow> bool" where
  "orderly_run sn [] w = True"
| "orderly_run sn (e # es) w = (orderly e w \<and> orderly_run sn es (detail_step sn e w))"

definition orderly_inv :: "Endpoint \<Rightarrow> detail_world \<Rightarrow> bool" where
  "orderly_inv e0 w \<longleftrightarrow>
     (\<exists>served es.
        dw_sent w = served @ map (\<lambda>(k, r, cur). r) (dw_reading w) @ map snd (dw_asked w)
      \<and> edits_of (dw_server w) = fold apply_edit served (edits_of e0)
      \<and> (dw_reading w = [] \<or> (\<exists>k r. dw_reading w = [(k, r, dw_server w)]))
      \<and> map snd (dw_answers w) = map delivery es \<and> last (dw_page w # es) = dw_server w
      \<and> (\<forall>r \<in> set (dw_sent w). one_field r))"

lemma orderly_ask: "orderly_inv e0 w \<Longrightarrow> one_field r \<Longrightarrow> orderly_inv e0 (ask kind r w)"
  unfolding orderly_inv_def ask_def by (elim exE conjE) (rule exI, rule exI, auto)

lemma one_field_accepted: "one_field r \<Longrightarrow> patch_refusal r = None"
  by (auto simp: one_field_def patch_refusal_def empty_patch_def)

lemma edits_update: "edits_of (UpdateEndpoint sn now (patched_record r cur) cur) = apply_edit r (edits_of cur)"
  by (simp add: edits_of_def UpdateEndpoint_def patched_record_def Let_def)

lemma orderly_read: "orderly_inv e0 w \<Longrightarrow> dw_reading w = [] \<Longrightarrow> orderly_inv e0 (detail_step sn (ServerRead 0) w)"
proof (cases "dw_asked w")
  case (Cons entry rest)
  assume inv: "orderly_inv e0 w" and "dw_reading w = []"
  obtain k r where "entry = (k, r)" by fastforce
  then show ?thesis
    using inv \<open>dw_reading w = []\<close> Cons unfolding orderly_inv_def
    by (elim exE conjE) (rule exI, rule exI, auto simp: remove_nth_def)
qed simp

lemma orderly_wrote: "orderly_inv e0 w \<Longrightarrow> orderly_inv e0 (detail_step sn (ServerWrote 0 now) w)"
proof (cases "dw_reading w")
  case (Cons entry rest)
  assume inv: "orderly_inv e0 w"
  then obtain served es where sent: "dw_sent w = served @ map (\<lambda>(k, r, cur). r) (dw_reading w) @ map snd (dw_asked w)"
    and edits: "edits_of (dw_server w) = fold apply_edit served (edits_of e0)"
    and reading: "\<exists>k r. dw_reading w = [(k, r, dw_server w)]"
    and answers: "map snd (dw_answers w) = map delivery es" and fields: "\<forall>r \<in> set (dw_sent w). one_field r"
    using Cons unfolding orderly_inv_def by auto
  from reading obtain k r where kr: "dw_reading w = [(k, r, dw_server w)]" by blast
  let ?e = "UpdateEndpoint sn now (patched_record r (dw_server w)) (dw_server w)"
  have "one_field r" using fields sent kr by simp
  then have step: "detail_step sn (ServerWrote 0 now) w =
      w\<lparr>dw_reading := [], dw_server := ?e, dw_answers := dw_answers w @ [(k, delivery ?e)]\<rparr>"
    by (simp add: kr server_wrote_def one_field_accepted remove_nth_def Let_def)
  show ?thesis unfolding orderly_inv_def step
    by (rule exI [of _ "served @ [r]"], rule exI [of _ "es @ [?e]"])
      (use sent kr answers fields in \<open>simp add: edits_update edits\<close>)
qed simp

lemma orderly_answered: "orderly_inv e0 w \<Longrightarrow> orderly_inv e0 (detail_step sn (PatchAnswered 0 None) w)"
proof (cases "dw_answers w")
  case (Cons entry rest)
  assume inv: "orderly_inv e0 w"
  then obtain served es where parts: "dw_sent w = served @ map (\<lambda>(k, r, cur). r) (dw_reading w) @ map snd (dw_asked w)"
    "edits_of (dw_server w) = fold apply_edit served (edits_of e0)"
    "dw_reading w = [] \<or> (\<exists>k r. dw_reading w = [(k, r, dw_server w)])"
    "map snd (dw_answers w) = map delivery es" "last (dw_page w # es) = dw_server w" "\<forall>r \<in> set (dw_sent w). one_field r"
    unfolding orderly_inv_def by blast
  then obtain e es' where es: "es = e # es'" "snd entry = delivery e" "map snd rest = map delivery es'" using Cons by (cases es) auto
  obtain k where entry: "entry = (k, delivery e)" using es(2) by (metis prod.collapse)
  let ?w = "detail_step sn (PatchAnswered 0 None) w"
  have arrived: "dw_page ?w = e" "dw_server ?w = dw_server w" "dw_reading ?w = dw_reading w" "dw_asked ?w = dw_asked w" "dw_sent ?w = dw_sent w"
    "dw_answers ?w = rest"
    by (auto simp: Cons entry remove_nth_def answer_arrived_def patchEndpoint_def api_verbs request_def
        read_answer_delivers [OF delivers_delivery] patch_answered_def show_endpoint_def Let_def split: patch_kind.split)
  show ?thesis unfolding orderly_inv_def arrived
    by (rule exI [of _ served], rule exI [of _ es']) (use parts es in auto)
qed simp

lemma orderly_dialog [simp]: "orderly_inv e0 (w\<lparr>dw_notes := d\<rparr>) \<longleftrightarrow> orderly_inv e0 w"
  by (simp add: orderly_inv_def)

lemma orderly_step: "orderly_inv e0 w \<Longrightarrow> orderly ev w \<Longrightarrow> orderly_inv e0 (detail_step sn ev w)"
proof (cases ev)
  case NotesSaved
  moreover assume "orderly_inv e0 w"
  ultimately show ?thesis by (auto intro: orderly_ask one_field_notes)
next
  case (ServerRead i)
  moreover assume "orderly_inv e0 w" "orderly ev w"
  ultimately show ?thesis using orderly_read by (simp del: detail_step.simps)
next
  case (ServerWrote i now)
  moreover assume "orderly_inv e0 w" "orderly ev w"
  ultimately show ?thesis using orderly_wrote by (simp del: detail_step.simps)
next
  case (PatchAnswered i f)
  moreover assume "orderly_inv e0 w" "orderly ev w"
  ultimately show ?thesis using orderly_answered by (simp del: detail_step.simps)
qed (auto intro: orderly_ask one_field_switch)

text \<open>\<^bold>\<open>C33\<close>: when the server serves the requests of the page one after the other and the answers arrive in order, then with none under way the
  page shows exactly the endpoint that is stored, and its flags and notes are the first ones changed by all the requests in the order in which
  the user made them.\<close>

theorem endpoint_page_settles:
  assumes "orderly_run sn evs (detail_start c e)" and "w = fold (detail_step sn) evs (detail_start c e)"
    and "dw_asked w = []" and "dw_reading w = []" and "dw_answers w = []"
  shows "dw_page w = dw_server w \<and> edits_of (dw_server w) = fold apply_edit (dw_sent w) (edits_of e)"
proof -
  have "orderly_inv e (detail_start c e)" by (simp add: orderly_inv_def detail_start_def)
  moreover have "orderly_inv e (fold (detail_step sn) evs v)" if "orderly_inv e v" "orderly_run sn evs v" for v
    using that by (induction evs arbitrary: v) (simp_all add: orderly_step del: detail_step.simps)
  ultimately have "orderly_inv e w" using assms(1,2) by blast
  then show ?thesis using assms(3-5) unfolding orderly_inv_def by auto
qed

definition example_detail_endpoint :: Endpoint where
  "example_detail_endpoint =
     \<lparr>endpoint_id = ''e1'', endpoint_name = ''web'', endpoint_type = ''host'', endpoint_dnsName = ''a.example'', endpoint_ipAddress = None,
      endpoint_lastResolvedIp = None, endpoint_port = 443, endpoint_url = None, endpoint_samlMetadata = None, endpoint_samlFetchedAt = None,
      endpoint_enabled = True, endpoint_scanExempt = False, endpoint_scannerId = None, endpoint_scannerName = None,
      endpoint_activeCerts = [], endpoint_lastScannedAt = None, endpoint_lastScanError = None, endpoint_errorSince = None,
      endpoint_notes = None, endpoint_createdAt = ''t0'', endpoint_updatedAt = ''t0''\<rparr>"

definition example_edits :: "detail_event list" where
  "example_edits =
     [EnabledSwitched, NotesOpened, NotesTyped '' ops '', NotesSaved, ServerRead 0, ServerWrote 0 ''t1'', ServerRead 0,
      ServerWrote 0 ''t2'', PatchAnswered 0 None, PatchAnswered 0 None]"

lemma trim_ops: "trim '' ops '' = ''ops''"
  by code_simp

lemmas detail_run = detail_start_def ask_def empty_patch_def notes_closed_def notes_opened_def notes_effect_def notes_sent_def trim_ops
  remove_nth_def server_wrote_def patch_refusal_def UpdateEndpoint_def patched_record_def answer_arrived_def patchEndpoint_def api_verbs
  request_def read_answer_delivers [OF delivers_delivery] patch_answered_def show_endpoint_def page_of_type_def Let_def

text \<open>The page stops the monitoring and adds notes; both requests are under way at once.\<close>

theorem endpoint_page_settles_witness:
  "edits_of (dw_server (fold (detail_step (\<lambda>i. None)) example_edits (detail_start example_session example_detail_endpoint)))
     = (False, False, Some ''ops'')"
proof -
  let ?w = "fold (detail_step (\<lambda>i. None)) example_edits (detail_start example_session example_detail_endpoint)"
  have run: "orderly_run (\<lambda>i. None) example_edits (detail_start example_session example_detail_endpoint)"
    by (simp add: example_edits_def example_detail_endpoint_def detail_run)
  have w: "dw_asked ?w = []" "dw_reading ?w = []" "dw_answers ?w = []"
    "dw_sent ?w = [empty_patch\<lparr>patchEndpointRequest_enabled := Some False\<rparr>, empty_patch\<lparr>patchEndpointRequest_notes := Some (Some ''ops'')\<rparr>]"
    by (simp_all add: example_edits_def example_detail_endpoint_def detail_run)
  from endpoint_page_settles [OF run refl w(1-3)] show ?thesis
    unfolding w(4) by (simp add: edits_of_def example_detail_endpoint_def empty_patch_def)
qed

subsection \<open>What goes wrong without that order\<close>

text \<open>Two switches at once: when the server reads twice before it writes, the first change is lost there.\<close>

lemma overlapping_requests_lose_a_change:
  "edits_of (dw_server (fold (detail_step (\<lambda>i. None))
      [EnabledSwitched, ScanningSwitched, ServerRead 0, ServerRead 0, ServerWrote 0 ''t1'', ServerWrote 0 ''t2'']
      (detail_start c example_detail_endpoint))) = (True, True, None)"
  by (simp add: example_detail_endpoint_def detail_run edits_of_def)

text \<open>Answers that overtake each other leave an old state on the page.\<close>

lemma overtaken_answer_is_stale:
  "let w = fold (detail_step (\<lambda>i. None))
      [EnabledSwitched, ScanningSwitched, ServerRead 0, ServerWrote 0 ''t1'', ServerRead 0, ServerWrote 0 ''t2'', PatchAnswered 1 None,
       PatchAnswered 0 None] (detail_start c example_detail_endpoint)
   in edits_of (dw_page w) = (False, False, None) \<and> edits_of (dw_server w) = (False, True, None)"
  by (simp add: example_detail_endpoint_def detail_run edits_of_def)

text \<open>A switch that fails says nothing.\<close>

lemma failed_switch_is_silent: "patch_answered SwitchPatch (Inl err) w = w"
  by (simp add: patch_answered_def)

text \<open>What is typed while the notes are saved is lost: the dialog closes, and shows the stored notes when it is opened again.\<close>

lemma notes_typed_during_save_lost:
  "let w = patch_answered NotesPatch (Inr (Some e)) (detail_step sn (NotesTyped v) x)
   in \<not> nd_open (dw_notes w) \<and> nd_value (notes_opened (dw_page w) (dw_notes w)) = nullish (endpoint_notes e) []"
  by (simp add: patch_answered_def notes_opened_def notes_effect_def show_endpoint_def Let_def)

text \<open>The pages of the history show every row on exactly one page.\<close>

lemma history_row_on_one_page:
  "1 \<le> i \<Longrightarrow> i \<le> tot \<Longrightarrow>
     fst (history_range p tot) \<le> i \<and> i \<le> snd (history_range p tot) \<longleftrightarrow> p = ceil_div i HISTORY_PAGE_SIZE"
  using audit_entry_on_one_page [of i tot p]
  by (simp add: history_range_def HISTORY_PAGE_SIZE_def log_range_def LOG_PAGE_SIZE_def)

end
