(* ===== verification/CertificatePage.thy ===== *)
theory CertificatePage
  imports Expiry BulkActions Dashboard RootStores
begin

section \<open>The certificate page (\<open>pages/certificates/CertificateDetailPage.tsx\<close>)\<close>

text \<open>
  Attributes, trust, endpoints and the chain of trust, which the page walks from issuer to issuer with a request for each step.
  \<open>fmtDate\<close> is the date format of the browser. A query that has not been answered is \<^const>\<open>None\<close>.
\<close>

subsection \<open>Texts\<close>

definition keyLabel :: "CertificateDetail \<Rightarrow> string" where
  "keyLabel cert =
     (if certificateDetail_keyAlgorithm cert = [] then []
      else if certificateDetail_keySize cert > 0
        then certificateDetail_keyAlgorithm cert @ '' '' @ show_int (certificateDetail_keySize cert) @ ''-bit''
      else certificateDetail_keyAlgorithm cert)"

definition named_part :: "string \<Rightarrow> string \<Rightarrow> string" where
  "named_part key v = (if v = [] then [] else key @ ''='' @ v)"

definition formatSubjectDN :: "CertificateDetail \<Rightarrow> string" where
  "formatSubjectDN cert =
     (let parts = filter (\<lambda>p. p \<noteq> [])
            [named_part ''CN'' (certificateDetail_commonName cert), named_part ''O'' (certificateDetail_subjectOrg cert),
             named_part ''OU'' (certificateDetail_subjectOrgUnit cert)]
      in if length parts > 0 then join '', '' parts else em_dash)"

definition or_dash :: "string \<Rightarrow> string" where
  "or_dash s = (if s = [] then em_dash else s)"

text \<open>Lists of chips and of addresses: a dash when they are empty.\<close>

definition ChipList :: "string list \<Rightarrow> string list" where
  "ChipList items = (if length items = 0 then [em_dash] else items)"

definition UrlList :: "string list \<Rightarrow> string list" where
  "UrlList urls = (if length urls = 0 then [em_dash] else urls)"

definition CertificateAttributesSection :: "CertificateDetail \<Rightarrow> (string \<times> string) list" where
  "CertificateAttributesSection cert =
     [(''Subject DN'', formatSubjectDN cert), (''Issuer DN'', formatIssuerDN cert), (''Serial Number'', certificateDetail_serialNumber cert),
      (''Signature Algorithm'', or_dash (certificateDetail_signatureAlgorithm cert)), (''Public Key'', or_dash (keyLabel cert)),
      (''Key Usage'',
       if length (certificateDetail_keyUsages cert) > 0 then join '', '' (certificateDetail_keyUsages cert) else em_dash)]
     @ (if length (certificateDetail_extKeyUsages cert) > 0
        then [(''Extended Key Usage'', join '', '' (certificateDetail_extKeyUsages cert))] else [])"

definition SANsSection :: "CertificateDetail \<Rightarrow> string list option" where
  "SANsSection cert =
     (if length (certificateDetail_sans cert) = 0 then None else Some (ChipList (certificateDetail_sans cert)))"

definition FingerprintsSection :: "CertificateDetail \<Rightarrow> (string \<times> string) list" where
  "FingerprintsSection cert =
     [(''SHA-256 Fingerprint'', certificateDetail_fingerprint cert), (''Subject Key ID'', or_dash (certificateDetail_subjectKeyId cert))]
     @ (if truthy (certificateDetail_authorityKeyId cert)
        then [(''Authority Key ID'', nullish (certificateDetail_authorityKeyId cert) [])] else [])"

definition RevocationSection :: "CertificateDetail \<Rightarrow> (string \<times> string list) list option" where
  "RevocationSection cert =
     (if length (certificateDetail_ocspUrls cert) = 0 \<and> length (certificateDetail_crlDistributionPoints cert) = 0 then None
      else Some [(''OCSP'', UrlList (certificateDetail_ocspUrls cert)),
                 (''CRL Distribution Points'', UrlList (certificateDetail_crlDistributionPoints cert))])"

subsection \<open>Trust\<close>

definition RootStoreTrustCard :: "RootStoreSummary list option \<Rightarrow> CertificateDetail \<Rightarrow> (string \<times> bool) panel" where
  "RootStoreTrustCard stores cert =
     (let trustedSet = js_set_of (certificateDetail_trustedBy cert) in
      case stores of
        None \<Rightarrow> PanelLoading
      | Some ss \<Rightarrow>
          if length ss = 0 then PanelEmpty ''No root stores configured.''
          else PanelRows (map (\<lambda>s. (rootStoreSummary_name s, rootStoreSummary_id s \<in> set trustedSet)) ss))"

subsection \<open>Endpoints\<close>

definition endpointIcon :: "string \<Rightarrow> string" where
  "endpointIcon type = (if type = ''saml'' then ''KeyRound'' else if type = ''manual'' then ''ShieldCheck'' else ''Server'')"

record endpoint_use =
  eu_link :: string
  eu_icon :: string
  eu_name :: string
  eu_subtitle :: string
  eu_mono :: bool
  eu_mark :: string

text \<open>\<open>eu_mark\<close> is the colour of the dot, or the date the endpoint was last seen with the certificate.\<close>

definition endpoint_use_of :: "string \<Rightarrow> EndpointListItem \<Rightarrow> endpoint_use" where
  "endpoint_use_of mark ep =
     \<lparr>eu_link = ''/endpoints/'' @ endpointListItem_id ep, eu_icon = endpointIcon (endpointListItem_type ep),
      eu_name = endpointListItem_name ep, eu_subtitle = endpointSubtitle ep, eu_mono = (endpointListItem_type ep = ''host''),
      eu_mark = mark\<rparr>"

definition EndpointUseRow :: "int \<Rightarrow> EndpointListItem \<Rightarrow> endpoint_use" where
  "EndpointUseRow now ep = endpoint_use_of (endpointDotClass now ep) ep"

definition HistoricalEndpointRow :: "(string \<Rightarrow> string) \<Rightarrow> HistoricalEndpointItem \<Rightarrow> endpoint_use" where
  "HistoricalEndpointRow fmtDate ep =
     endpoint_use_of (fmtDate (historicalEndpointItem_lastSeenAt ep)) (EndpointListItem.truncate ep)"

definition EndpointsSection :: "int \<Rightarrow> bool \<Rightarrow> EndpointListItem list option \<Rightarrow> endpoint_use panel" where
  "EndpointsSection now isLoading endpoints =
     (let endpointList = nullish endpoints [] in
      if isLoading then PanelLoading
      else if length endpointList = 0 then PanelEmpty ''No endpoints are currently using this certificate.''
      else PanelRows (map (EndpointUseRow now) endpointList))"

definition HistoricalEndpointsSection ::
  "(string \<Rightarrow> string) \<Rightarrow> bool \<Rightarrow> HistoricalEndpointItem list option \<Rightarrow> endpoint_use panel option" where
  "HistoricalEndpointsSection fmtDate isLoading endpoints =
     (let endpointList = nullish endpoints [] in
      if \<not> isLoading \<and> length endpointList = 0 then None
      else if isLoading then Some PanelLoading
      else Some (PanelRows (map (HistoricalEndpointRow fmtDate) endpointList)))"

subsection \<open>The chain of trust\<close>

record ChainCert =
  chainCert_fingerprint :: string
  chainCert_commonName :: string
  chainCert_issuerFingerprint :: "string option"
  chainCert_isTrustAnchor :: bool

datatype ChainRole = RootRole | IntermediateRole | LeafRole

record role_meta =
  rm_icon :: string
  rm_description :: string
  rm_pillLabel :: string

fun CHAIN_ROLE_META :: "ChainRole \<Rightarrow> role_meta" where
  "CHAIN_ROLE_META RootRole =
     \<lparr>rm_icon = ''Landmark'', rm_description = ''Root Certificate Authority'', rm_pillLabel = ''ROOT''\<rparr>"
| "CHAIN_ROLE_META IntermediateRole =
     \<lparr>rm_icon = ''Shield'', rm_description = ''Intermediate Certificate Authority'', rm_pillLabel = ''INTERMEDIATE''\<rparr>"
| "CHAIN_ROLE_META LeafRole = \<lparr>rm_icon = ''BadgeCheck'', rm_description = ''Entity Certificate'', rm_pillLabel = ''LEAF''\<rparr>"

definition ChainNode :: "ChainCert \<times> ChainRole \<Rightarrow> string \<times> string \<times> role_meta" where
  "ChainNode n =
     (''/certificates/'' @ chainCert_fingerprint (fst n), or_dash (chainCert_commonName (fst n)), CHAIN_ROLE_META (snd n))"

definition chain_cert_of :: "CertificateDetail \<Rightarrow> ChainCert" where
  "chain_cert_of cert =
     \<lparr>chainCert_fingerprint = certificateDetail_fingerprint cert, chainCert_commonName = certificateDetail_commonName cert,
      chainCert_issuerFingerprint = certificateDetail_issuerFingerprint cert,
      chainCert_isTrustAnchor = certificateDetail_isTrustAnchor cert\<rparr>"

text \<open>The loop of \<open>traverse\<close>: its variables, what it asks for next, and what it does with the answer.\<close>

record traversal =
  tr_result :: "ChainCert list"
  tr_seen :: "string js_set"
  tr_next :: "string option"
  tr_depth :: nat

definition traverse_init :: "CertificateDetail \<Rightarrow> traversal" where
  "traverse_init cert =
     \<lparr>tr_result = [], tr_seen = js_set_of [certificateDetail_fingerprint cert], tr_next = certificateDetail_issuerFingerprint cert,
      tr_depth = 0\<rparr>"

definition traverse_ask :: "traversal \<Rightarrow> string option" where
  "traverse_ask t =
     (case tr_next t of
        None \<Rightarrow> None
      | Some fp \<Rightarrow> if tr_depth t < 4 \<and> fp \<noteq> [] \<and> fp \<notin> set (tr_seen t) then Some fp else None)"

text \<open>The variables after an answer, and whether the loop goes on; an error, or an answer without a value, leaves it.\<close>

definition traverse_answer :: "CertificateDetail outcome \<Rightarrow> traversal \<Rightarrow> traversal \<times> bool" where
  "traverse_answer r t =
     (case r of
        Inr (Some parent) \<Rightarrow>
          (let u = t\<lparr>tr_seen := js_set_add (certificateDetail_fingerprint parent) (tr_seen t),
                     tr_result := tr_result t @ [chain_cert_of parent]\<rparr>
           in if certificateDetail_isTrustAnchor parent then (u, False)
              else (u\<lparr>tr_next := certificateDetail_issuerFingerprint parent, tr_depth := tr_depth t + 1\<rparr>, True))
      | _ \<Rightarrow> (t, False))"

text \<open>The section: what it shows, and the loop under way; a loop that was cancelled is forgotten.\<close>

record chain_section =
  cs_ancestors :: "ChainCert list"
  cs_loading :: bool
  cs_run :: "traversal option"

definition traverse_go :: "traversal \<times> bool \<Rightarrow> chain_section \<Rightarrow> chain_section" where
  "traverse_go tb s =
     (if snd tb \<and> traverse_ask (fst tb) \<noteq> None then s\<lparr>cs_run := Some (fst tb)\<rparr>
      else s\<lparr>cs_ancestors := tr_result (fst tb), cs_loading := False, cs_run := None\<rparr>)"

definition chain_effect :: "CertificateDetail \<Rightarrow> chain_section \<Rightarrow> chain_section" where
  "chain_effect cert s =
     (if certificateDetail_isTrustAnchor cert \<or> \<not> truthy (certificateDetail_issuerFingerprint cert)
      then s\<lparr>cs_loading := False, cs_run := None\<rparr>
      else traverse_go (traverse_init cert, True) s)"

definition chain_mounted :: "CertificateDetail \<Rightarrow> chain_section" where
  "chain_mounted cert =
     chain_effect cert
       \<lparr>cs_ancestors = [],
        cs_loading = (\<not> certificateDetail_isTrustAnchor cert \<and> truthy (certificateDetail_issuerFingerprint cert)), cs_run = None\<rparr>"

definition chain_answered :: "CertificateDetail outcome \<Rightarrow> chain_section \<Rightarrow> chain_section" where
  "chain_answered r s = (case cs_run s of None \<Rightarrow> s | Some t \<Rightarrow> traverse_go (traverse_answer r t) s)"

definition chain_roles :: "CertificateDetail \<Rightarrow> ChainCert list \<Rightarrow> (ChainCert \<times> ChainRole) list" where
  "chain_roles cert ancestors =
     (let reversed = rev ancestors in
      map (\<lambda>(i, c). (c, if i = 0 then RootRole else IntermediateRole)) (enumerate 0 reversed)
      @ [(chain_cert_of cert, if certificateDetail_isTrustAnchor cert then RootRole else LeafRole)])"

text \<open>\<^const>\<open>None\<close>: the text that the chain is being loaded.\<close>

definition ChainOfTrustSection :: "CertificateDetail \<Rightarrow> chain_section \<Rightarrow> (string \<times> string \<times> role_meta) list option" where
  "ChainOfTrustSection cert s =
     (if cs_loading s \<and> length (cs_ancestors s) = 0 then None else Some (map ChainNode (chain_roles cert (cs_ancestors s))))"

subsection \<open>The page\<close>

definition copy_label :: "bool \<Rightarrow> string" where
  "copy_label copied = (if copied then ''Copied!'' else ''Copy PEM'')"

definition pem_download :: "string \<Rightarrow> string \<Rightarrow> string \<times> string" where
  "pem_download pem commonName = ((if commonName = [] then ''certificate'' else commonName) @ ''.pem'', pem)"

definition bullet :: string where
  "bullet = [CHR 0xE2, CHR 0x80, CHR 0xA2]"

definition cert_subtitle :: "CertificateDetail \<Rightarrow> string option" where
  "cert_subtitle cert =
     (let bits = filter (\<lambda>b. b \<noteq> [])
            [if keyLabel cert = [] then [] else keyLabel cert @ '' Certificate'', certificateDetail_signatureAlgorithm cert]
      in if length bits > 0 then Some (join ('' '' @ bullet @ '' '') bits) else None)"

definition cert_crumbs :: "CertificateDetail option \<Rightarrow> string \<Rightarrow> (string \<times> string option) list" where
  "cert_crumbs cert fingerprint =
     [(''Certificates'', Some ''/certificates''),
      ((case cert of
          Some c \<Rightarrow> if certificateDetail_commonName c = [] then fingerprint else certificateDetail_commonName c
        | None \<Rightarrow> ellipsis), None)]"

text \<open>The answers the cards of the page wait for; the first component of the two lists of endpoints is whether they are loading.\<close>

record cert_queries =
  cq_stores :: "RootStoreSummary list option"
  cq_endpoints :: "bool \<times> EndpointListItem list option"
  cq_former :: "bool \<times> HistoricalEndpointItem list option"

record cert_page_parts =
  cp_title :: string
  cp_status :: cert_status
  cp_subtitle :: "string option"
  cp_copy :: string
  cp_download :: "string \<times> string"
  cp_deleteLabel :: "string option"
  cp_chain :: "(string \<times> string \<times> role_meta) list option"
  cp_attributes :: "(string \<times> string) list"
  cp_sans :: "string list option"
  cp_fingerprints :: "(string \<times> string) list"
  cp_revocation :: "(string \<times> string list) list option"
  cp_timeline :: timeline_card
  cp_trust :: "(string \<times> bool) panel"
  cp_endpoints :: "endpoint_use panel"
  cp_former :: "endpoint_use panel option"

text \<open>Below the path of the page: a text, a message, or the page; with \<open>CertNothing\<close> the path is not shown either.\<close>

datatype cert_page_view = CertLoading | CertError string | CertNothing | CertPage cert_page_parts

definition cert_body ::
  "(string \<Rightarrow> string) \<Rightarrow> int \<Rightarrow> client \<Rightarrow> string \<Rightarrow> bool \<Rightarrow> chain_section \<Rightarrow> cert_queries \<Rightarrow> CertificateDetail \<Rightarrow> cert_page_parts" where
  "cert_body fmtDate now c fingerprint copied chain qs cert =
     \<lparr>cp_title = or_dash (certificateDetail_commonName cert), cp_status = certStatus now cert, cp_subtitle = cert_subtitle cert,
      cp_copy = copy_label copied, cp_download = pem_download (certificateDetail_pem cert) (certificateDetail_commonName cert),
      cp_deleteLabel =
        (if can ''certs:edit'' c = Some True
         then Some (''Delete certificate ''
           @ (if certificateDetail_commonName cert = [] then fingerprint else certificateDetail_commonName cert))
         else None),
      cp_chain = ChainOfTrustSection cert chain, cp_attributes = CertificateAttributesSection cert, cp_sans = SANsSection cert,
      cp_fingerprints = FingerprintsSection cert, cp_revocation = RevocationSection cert, cp_timeline = ValidityTimelineCard now cert,
      cp_trust = RootStoreTrustCard (cq_stores qs) cert,
      cp_endpoints = EndpointsSection now (fst (cq_endpoints qs)) (snd (cq_endpoints qs)),
      cp_former = HistoricalEndpointsSection fmtDate (fst (cq_former qs)) (snd (cq_former qs))\<rparr>"

definition CertificateDetailPage ::
  "(string \<Rightarrow> string) \<Rightarrow> int \<Rightarrow> client \<Rightarrow> string \<Rightarrow> bool \<Rightarrow> js_exn option \<Rightarrow> bool \<Rightarrow> chain_section \<Rightarrow> cert_queries
     \<Rightarrow> CertificateDetail option \<Rightarrow> (string \<times> string option) list \<times> cert_page_view" where
  "CertificateDetailPage fmtDate now c fingerprint isLoading fetchError copied chain qs cert =
     (cert_crumbs cert fingerprint,
      if isLoading then CertLoading
      else case fetchError of
        Some err \<Rightarrow> CertError (error_text err)
      | None \<Rightarrow>
          (case cert of
             None \<Rightarrow> CertNothing
           | Some d \<Rightarrow> CertPage (cert_body fmtDate now c fingerprint copied chain qs d)))"

text \<open>Where the page leads when its certificate has been deleted.\<close>

definition after_certificate_delete :: string where
  "after_certificate_delete = ''/certificates''"

subsection \<open>The chain that is shown\<close>

text \<open>The section with a server that answers every request: one answer, and all of them; four are always enough.\<close>

definition chain_serve :: "(string \<Rightarrow> CertificateDetail outcome) \<Rightarrow> chain_section \<Rightarrow> chain_section" where
  "chain_serve fetch s =
     (case Option.bind (cs_run s) traverse_ask of Some fp \<Rightarrow> chain_answered (fetch fp) s | None \<Rightarrow> s)"

definition chain_settled :: "(string \<Rightarrow> CertificateDetail outcome) \<Rightarrow> CertificateDetail \<Rightarrow> chain_section" where
  "chain_settled fetch cert = (chain_serve fetch ^^ 4) (chain_mounted cert)"

definition faithful :: "(string \<Rightarrow> CertificateDetail outcome) \<Rightarrow> bool" where
  "faithful fetch \<longleftrightarrow> (\<forall>fp c. fetch fp = Inr (Some c) \<longrightarrow> certificateDetail_fingerprint c = fp)"

definition issued_by :: "ChainCert \<Rightarrow> ChainCert \<Rightarrow> bool" where
  "issued_by a b \<longleftrightarrow> chainCert_issuerFingerprint a = Some (chainCert_fingerprint b)"

text \<open>A part of the chain above a certificate: linked, without repetition, and with no anchor but the last one.\<close>

definition chain_above :: "CertificateDetail \<Rightarrow> ChainCert list \<Rightarrow> bool" where
  "chain_above cert ns \<longleftrightarrow>
     successively issued_by (chain_cert_of cert # ns) \<and> distinct (map chainCert_fingerprint (chain_cert_of cert # ns))
     \<and> length ns \<le> 4 \<and> list_all (\<lambda>n. \<not> chainCert_isTrustAnchor n) (butlast ns)"

definition traversal_ok :: "CertificateDetail \<Rightarrow> traversal \<Rightarrow> bool" where
  "traversal_ok cert t \<longleftrightarrow>
     chain_above cert (tr_result t) \<and> list_all (\<lambda>n. \<not> chainCert_isTrustAnchor n) (tr_result t)
     \<and> set (tr_seen t) = set (map chainCert_fingerprint (chain_cert_of cert # tr_result t))
     \<and> tr_next t = chainCert_issuerFingerprint (last (chain_cert_of cert # tr_result t))
     \<and> length (tr_result t) = tr_depth t"

lemma set_js_set_add [simp]: "set (js_set_add x s) = insert x (set s)"
  by (auto simp: js_set_add_def)

lemma chain_cert_fields [simp]:
  "chainCert_fingerprint (chain_cert_of c) = certificateDetail_fingerprint c"
  "chainCert_issuerFingerprint (chain_cert_of c) = certificateDetail_issuerFingerprint c"
  "chainCert_isTrustAnchor (chain_cert_of c) = certificateDetail_isTrustAnchor c"
  by (simp_all add: chain_cert_of_def)

lemma traversal_init_ok: "traversal_ok cert (traverse_init cert)"
  by (simp add: traversal_ok_def traverse_init_def chain_above_def js_set_of_def js_set_add_def js_set_empty_def)

lemma traverse_ask_Some:
  "traverse_ask t = Some fp \<longleftrightarrow> tr_next t = Some fp \<and> tr_depth t < 4 \<and> fp \<noteq> [] \<and> fp \<notin> set (tr_seen t)"
  by (auto simp: traverse_ask_def split: option.split)

lemma traverse_answer_ok:
  assumes ok: "traversal_ok cert t" and asked: "traverse_ask t = Some fp" and fetch: "faithful fetch"
  shows "chain_above cert (tr_result (fst (traverse_answer (fetch fp) t)))"
    and "snd (traverse_answer (fetch fp) t) \<Longrightarrow> traversal_ok cert (fst (traverse_answer (fetch fp) t))
      \<and> tr_depth (fst (traverse_answer (fetch fp) t)) = tr_depth t + 1"
proof -
  have next_fp: "chainCert_issuerFingerprint (last (chain_cert_of cert # tr_result t)) = Some fp" "tr_depth t < 4"
    and fresh: "fp \<notin> set (map chainCert_fingerprint (chain_cert_of cert # tr_result t))"
    using ok asked by (auto simp: traversal_ok_def traverse_ask_Some)
  have extended: "chain_above cert (tr_result t @ [chain_cert_of p])" if "fetch fp = Inr (Some p)" for p
  proof -
    have fp: "certificateDetail_fingerprint p = fp" using fetch that by (simp add: faithful_def)
    have "successively issued_by ((chain_cert_of cert # tr_result t) @ [chain_cert_of p])"
      using ok next_fp(1) fp unfolding traversal_ok_def chain_above_def successively_append_iff by (simp add: issued_by_def)
    moreover have "distinct (map chainCert_fingerprint ((chain_cert_of cert # tr_result t) @ [chain_cert_of p]))"
      using ok fresh fp unfolding traversal_ok_def chain_above_def by auto
    ultimately show ?thesis
      using ok next_fp(2) unfolding traversal_ok_def chain_above_def by simp
  qed
  show "chain_above cert (tr_result (fst (traverse_answer (fetch fp) t)))"
    using ok extended by (auto simp: traverse_answer_def traversal_ok_def Let_def split: sum.split option.split)
  show "snd (traverse_answer (fetch fp) t) \<Longrightarrow> traversal_ok cert (fst (traverse_answer (fetch fp) t))
      \<and> tr_depth (fst (traverse_answer (fetch fp) t)) = tr_depth t + 1"
    using ok extended by (auto simp: traverse_answer_def traversal_ok_def Let_def split: sum.splits option.splits if_splits)
qed

definition section_ok :: "CertificateDetail \<Rightarrow> nat \<Rightarrow> chain_section \<Rightarrow> bool" where
  "section_ok cert n s \<longleftrightarrow>
     (case cs_run s of
        None \<Rightarrow> chain_above cert (cs_ancestors s) \<and> \<not> cs_loading s
      | Some t \<Rightarrow> traversal_ok cert t \<and> traverse_ask t \<noteq> None \<and> n \<le> tr_depth t)"

lemma section_go:
  "chain_above cert (tr_result (fst tb)) \<Longrightarrow> (snd tb \<Longrightarrow> traversal_ok cert (fst tb) \<and> n \<le> tr_depth (fst tb)) \<Longrightarrow>
     section_ok cert n (traverse_go tb s)"
  by (auto simp: section_ok_def traverse_go_def)

lemma section_mounted: "section_ok cert 0 (chain_mounted cert)"
proof (cases "certificateDetail_isTrustAnchor cert \<or> \<not> truthy (certificateDetail_issuerFingerprint cert)")
  case True
  then show ?thesis by (auto simp: chain_mounted_def chain_effect_def section_ok_def chain_above_def)
next
  case False
  have "chain_above cert []" by (simp add: chain_above_def)
  then show ?thesis
    unfolding chain_mounted_def chain_effect_def if_not_P [OF False]
    by (intro section_go) (simp_all add: traversal_init_ok, simp add: traverse_init_def)
qed

lemma section_serve:
  assumes "section_ok cert n s" and "faithful fetch"
  shows "section_ok cert (Suc n) (chain_serve fetch s)"
proof (cases "cs_run s")
  case None
  then show ?thesis using assms(1) by (simp add: section_ok_def chain_serve_def)
next
  case (Some t)
  then obtain fp where fp: "traverse_ask t = Some fp" and ok: "traversal_ok cert t" "n \<le> tr_depth t"
    using assms(1) by (auto simp: section_ok_def)
  show ?thesis
    using traverse_answer_ok [OF ok(1) fp assms(2)] ok(2)
    by (auto simp: chain_serve_def Some fp chain_answered_def intro!: section_go)
qed

lemma section_settled: "faithful fetch \<Longrightarrow> section_ok cert 4 (chain_settled fetch cert)"
proof -
  assume f: "faithful fetch"
  have "section_ok cert n ((chain_serve fetch ^^ n) (chain_mounted cert))" for n
    by (induction n) (simp_all add: section_mounted section_serve [OF _ f])
  then show ?thesis by (simp add: chain_settled_def)
qed

lemma settled_done:
  "faithful fetch \<Longrightarrow> cs_run (chain_settled fetch cert) = None \<and> \<not> cs_loading (chain_settled fetch cert)
     \<and> chain_above cert (cs_ancestors (chain_settled fetch cert))"
  using section_settled [of fetch cert]
  by (cases "cs_run (chain_settled fetch cert)") (auto simp: section_ok_def traverse_ask_Some)

lemma tl_of_rev: "tl (rev xs) = rev (butlast xs)"
  by (metis butlast_rev rev_rev_ident)

lemma chain_roles_map: "map fst (chain_roles cert ns) = rev (chain_cert_of cert # ns)"
  by (simp add: chain_roles_def Let_def comp_def case_prod_unfold enumerate_eq_zip map_fst_zip)

lemma snd_chain_roles:
  "i < length ns \<Longrightarrow> snd (chain_roles cert ns ! i) = (if i = 0 then RootRole else IntermediateRole)"
  by (simp add: chain_roles_def Let_def nth_append nth_enumerate_eq)

lemma chain_roles_snoc:
  "chain_roles cert (ns @ [a]) = (a, RootRole) # map (\<lambda>n. (n, IntermediateRole)) (rev ns)
     @ [(chain_cert_of cert, if certificateDetail_isTrustAnchor cert then RootRole else LeafRole)]"
proof -
  have "map (\<lambda>(i, c). (c, if i = 0 then RootRole else IntermediateRole)) (enumerate (Suc k) xs)
      = map (\<lambda>n. (n, IntermediateRole)) xs" for k and xs :: "ChainCert list"
    by (auto intro!: nth_equalityI simp: nth_enumerate_eq)
  then show ?thesis by (simp add: chain_roles_def Let_def)
qed


text \<open>Three certificates: an entity, an intermediate and a root that is an anchor; and two that name each other as issuer.\<close>

definition example_certificate :: "string \<Rightarrow> string option \<Rightarrow> bool \<Rightarrow> CertificateDetail" where
  "example_certificate fp issuer anchor =
     \<lparr>certificateDetail_fingerprint = fp, certificateDetail_commonName = fp, certificateDetail_sans = [],
      certificateDetail_notBefore = ''2025-01-01'', certificateDetail_notAfter = ''2026-01-01'', certificateDetail_serialNumber = ''1'',
      certificateDetail_subjectKeyId = [], certificateDetail_authorityKeyId = None, certificateDetail_issuerFingerprint = issuer,
      certificateDetail_createdAt = ''2025-01-01'', certificateDetail_pem = [], certificateDetail_subjectOrg = [],
      certificateDetail_subjectOrgUnit = [], certificateDetail_issuerCn = [], certificateDetail_issuerOrg = [],
      certificateDetail_keyAlgorithm = ''RSA'', certificateDetail_keySize = 2048, certificateDetail_signatureAlgorithm = [],
      certificateDetail_keyUsages = [], certificateDetail_extKeyUsages = [], certificateDetail_ocspUrls = [],
      certificateDetail_crlDistributionPoints = [], certificateDetail_trustedBy = [], certificateDetail_isTrustAnchor = anchor\<rparr>"

definition example_inventory :: "string \<Rightarrow> CertificateDetail outcome" where
  "example_inventory fp =
     (if fp = ''mid'' then Inr (Some (example_certificate ''mid'' (Some ''root'') False))
      else if fp = ''root'' then Inr (Some (example_certificate ''root'' (Some ''root'') True))
      else if fp = ''left'' then Inr (Some (example_certificate ''left'' (Some ''right'') False))
      else if fp = ''right'' then Inr (Some (example_certificate ''right'' (Some ''left'') False))
      else Inl (ApiError 404 ''not found''))"

lemma faithful_example: "faithful example_inventory"
  by (auto simp: faithful_def example_inventory_def example_certificate_def split: if_splits)


text \<open>The issuers from a certificate up to a trust anchor, as the server stores them.\<close>

fun anchor_path :: "(string \<Rightarrow> CertificateDetail outcome) \<Rightarrow> CertificateDetail \<Rightarrow> CertificateDetail list \<Rightarrow> bool" where
  "anchor_path fetch c [] = certificateDetail_isTrustAnchor c"
| "anchor_path fetch c (p # ps) =
     (\<not> certificateDetail_isTrustAnchor c \<and> certificateDetail_issuerFingerprint c = Some (certificateDetail_fingerprint p)
      \<and> certificateDetail_fingerprint p \<noteq> [] \<and> fetch (certificateDetail_fingerprint p) = Inr (Some p) \<and> anchor_path fetch p ps)"

lemma serve_finished: "cs_run s = None \<Longrightarrow> (chain_serve fetch ^^ n) s = s"
  by (induction n) (simp_all add: chain_serve_def)

lemma walk_to_anchor:
  "anchor_path fetch c ps \<Longrightarrow> ps \<noteq> [] \<Longrightarrow> cs_run s = Some t \<Longrightarrow> tr_next t = certificateDetail_issuerFingerprint c \<Longrightarrow>
     tr_depth t + length ps \<le> 4 \<Longrightarrow> distinct (map certificateDetail_fingerprint ps) \<Longrightarrow>
     set (tr_seen t) \<inter> certificateDetail_fingerprint ` set ps = {} \<Longrightarrow>
     cs_run ((chain_serve fetch ^^ length ps) s) = None
     \<and> cs_ancestors ((chain_serve fetch ^^ length ps) s) = tr_result t @ map chain_cert_of ps"
proof (induction ps arbitrary: c s t)
  case Nil
  then show ?case by simp
next
  case (Cons p ps)
  let ?u = "t\<lparr>tr_seen := js_set_add (certificateDetail_fingerprint p) (tr_seen t), tr_result := tr_result t @ [chain_cert_of p]\<rparr>"
  let ?v = "?u\<lparr>tr_next := certificateDetail_issuerFingerprint p, tr_depth := tr_depth t + 1\<rparr>"
  have "traverse_ask t = Some (certificateDetail_fingerprint p)"
    using Cons.prems by (auto simp: traverse_ask_Some)
  then have step: "chain_serve fetch s = traverse_go (traverse_answer (Inr (Some p)) t) s"
    using Cons.prems by (simp add: chain_serve_def chain_answered_def)
  show ?case
  proof (cases "ps = []")
    case True
    then show ?thesis using Cons.prems step by (simp add: traverse_answer_def traverse_go_def)
  next
    case False
    then obtain q qs where ps: "ps = q # qs" by (cases ps) auto
    have go_on: "traverse_ask ?v = Some (certificateDetail_fingerprint q)"
      using Cons.prems by (auto simp: ps traverse_ask_Some)
    have "chain_serve fetch s = s\<lparr>cs_run := Some ?v\<rparr>"
      using Cons.prems go_on by (simp add: step ps traverse_answer_def traverse_go_def Let_def)
    moreover have "cs_run ((chain_serve fetch ^^ length ps) (s\<lparr>cs_run := Some ?v\<rparr>)) = None
      \<and> cs_ancestors ((chain_serve fetch ^^ length ps) (s\<lparr>cs_run := Some ?v\<rparr>)) = tr_result ?v @ map chain_cert_of ps"
      using Cons.prems False by (intro Cons.IH [of p]) auto
    ultimately show ?thesis by (simp add: funpow_swap1)
  qed
qed

text \<open>\<^bold>\<open>C34\<close>: when the certificates from the page's up to a trust anchor are in the inventory, are at most four above it and are all
  different, the chain shown is that path, complete and in order, with the anchor on top under the mark of a root.\<close>

theorem chain_reaches_anchor:
  assumes path: "anchor_path fetch cert ps" and ne: "ps \<noteq> []" and few: "length ps \<le> 4"
    and dist: "distinct (map certificateDetail_fingerprint (cert # ps))"
  shows "let ns = chain_roles cert (cs_ancestors (chain_settled fetch cert)) in
      map fst ns = rev (map chain_cert_of (cert # ps)) \<and> chainCert_isTrustAnchor (fst (hd ns)) \<and> snd (hd ns) = RootRole
    \<and> snd (last ns) = LeafRole \<and> list_all (\<lambda>n. snd n = IntermediateRole) (butlast (tl ns))"
proof -
  have top: "certificateDetail_isTrustAnchor (last ps)" using path ne by (induction fetch cert ps rule: anchor_path.induct) auto
  obtain p qs where ps: "ps = p # qs" using ne by (cases ps) auto
  have "chain_mounted cert = \<lparr>cs_ancestors = [], cs_loading = True, cs_run = Some (traverse_init cert)\<rparr>"
    using path dist by (auto simp: ps chain_mounted_def chain_effect_def traverse_go_def traverse_ask_def traverse_init_def set_js_set_of)
  then have walked: "cs_run ((chain_serve fetch ^^ length ps) (chain_mounted cert)) = None
      \<and> cs_ancestors ((chain_serve fetch ^^ length ps) (chain_mounted cert)) = map chain_cert_of ps"
    using walk_to_anchor [OF path ne, of "chain_mounted cert" "traverse_init cert"] few dist
    by (auto simp: traverse_init_def set_js_set_of)
  have "chain_settled fetch cert = (chain_serve fetch ^^ (4 - length ps)) ((chain_serve fetch ^^ length ps) (chain_mounted cert))"
    unfolding chain_settled_def using few by (metis funpow_add comp_apply le_add_diff_inverse2)
  then have ancestors: "cs_ancestors (chain_settled fetch cert) = map chain_cert_of ps"
    using walked by (simp add: serve_finished)
  obtain as a where as: "ps = as @ [a]" using ne by (cases ps rule: rev_cases) auto
  have "\<not> certificateDetail_isTrustAnchor cert" using path by (simp add: ps)
  then show ?thesis
    using top by (simp add: ancestors Let_def as chain_roles_snoc list_all_iff butlast_append comp_def)
qed

theorem chain_reaches_anchor_witness:
  "let cert = example_certificate ''leaf'' (Some ''mid'') False in
     map (chainCert_fingerprint \<circ> fst) (chain_roles cert (cs_ancestors (chain_settled example_inventory cert)))
       = [''root'', ''mid'', ''leaf'']"
  using chain_reaches_anchor [of example_inventory "example_certificate ''leaf'' (Some ''mid'') False"
      "[example_certificate ''mid'' (Some ''root'') False, example_certificate ''root'' (Some ''root'') True]"]
  by (simp add: Let_def example_certificate_def example_inventory_def map_map [symmetric] del: map_map)

text \<open>When the request for an issuer fails, the walk just ends: the certificate below the missing one stands on top as a root authority,
  although it is not an anchor.\<close>

lemma failed_walk_crowns_intermediate:
  assumes "\<not> certificateDetail_isTrustAnchor cert" "certificateDetail_issuerFingerprint cert = Some (certificateDetail_fingerprint p)"
    and "fetch (certificateDetail_fingerprint p) = Inr (Some p)" "certificateDetail_fingerprint p \<noteq> []"
    and "certificateDetail_fingerprint p \<noteq> certificateDetail_fingerprint cert"
    and "\<not> certificateDetail_isTrustAnchor p" "certificateDetail_issuerFingerprint p = Some q" "fetch q = Inl e"
  shows "chain_roles cert (cs_ancestors (chain_settled fetch cert)) = [(chain_cert_of p, RootRole), (chain_cert_of cert, LeafRole)]"
  using assms
  by (simp add: chain_settled_def numeral_eq_Suc chain_mounted_def chain_effect_def traverse_go_def traverse_ask_def traverse_init_def
      set_js_set_of chain_serve_def chain_answered_def traverse_answer_def Let_def chain_roles_snoc [of _ "[]", simplified])

text \<open>The effect does not clear the chain: a page that changes to an anchor which is already in the cache keeps the chain of the
  certificate before above it.\<close>

lemma anchor_keeps_old_chain:
  "certificateDetail_isTrustAnchor root \<Longrightarrow>
     map fst (chain_roles root (cs_ancestors (chain_effect root s))) = rev (cs_ancestors s) @ [chain_cert_of root]"
  by (simp add: chain_effect_def chain_roles_map)

text \<open>A failed request is not told from an empty answer: the endpoints read as none, the former ones disappear, and the root stores
  load for ever.\<close>

lemma failed_cards:
  "EndpointsSection now False None = PanelEmpty ''No endpoints are currently using this certificate.''"
  "HistoricalEndpointsSection fmtDate False None = None" "RootStoreTrustCard None cert = PanelLoading"
  by (simp_all add: EndpointsSection_def HistoricalEndpointsSection_def RootStoreTrustCard_def)

end
