(* ===== verification/DecoderPages.thy ===== *)
theory DecoderPages
  imports CertUtils CsrGenerator
begin

section \<open>The decoder pages (\<open>pages/toolbox/CertDecoderPage.tsx\<close>, \<open>CsrDecoderPage.tsx\<close>)\<close>

text \<open>
  Two pages with one shape: a text, the button that decodes it, and what was decoded. Certificates are decoded by \<open>lib/cert-utils.ts\<close>; the
  page for requests has a decoder of its own on the same package, whose classes for the extensions are parameters as its parser is. An
  exception is a value of \<open>thrown\<close>.
\<close>

subsection \<open>The page around a decoder\<close>

datatype thrown = ThrownError string | ThrownOther

definition thrown_text :: "string \<Rightarrow> thrown \<Rightarrow> string" where
  "thrown_text fallback e = (case e of ThrownError m \<Rightarrow> m | ThrownOther \<Rightarrow> fallback)"

text \<open>\<open>dp_running\<close> is the text that is being decoded.\<close>

record 'd decoder_page =
  dp_pem :: string
  dp_decoded :: "'d option"
  dp_error :: "string option"
  dp_loading :: bool
  dp_running :: "string option"

definition decoder_init :: "'d decoder_page" where
  "decoder_init = \<lparr>dp_pem = [], dp_decoded = None, dp_error = None, dp_loading = False, dp_running = None\<rparr>"

definition decode_disabled :: "'d decoder_page \<Rightarrow> bool" where
  "decode_disabled p \<longleftrightarrow> trim (dp_pem p) = [] \<or> dp_loading p"

definition decode_start :: "'d decoder_page \<Rightarrow> 'd decoder_page" where
  "decode_start p = p\<lparr>dp_error := None, dp_decoded := None, dp_loading := True, dp_running := Some (dp_pem p)\<rparr>"

definition decode_finish :: "string \<Rightarrow> (string \<Rightarrow> thrown + 'd) \<Rightarrow> 'd decoder_page \<Rightarrow> 'd decoder_page" where
  "decode_finish fallback decode p =
     (case dp_running p of
        None \<Rightarrow> p
      | Some pem \<Rightarrow>
          (case decode pem of
             Inr d \<Rightarrow> p\<lparr>dp_decoded := Some d, dp_loading := False, dp_running := None\<rparr>
           | Inl e \<Rightarrow> p\<lparr>dp_error := Some (thrown_text fallback e), dp_loading := False, dp_running := None\<rparr>))"

definition decoder_typed :: "string \<Rightarrow> 'd decoder_page \<Rightarrow> 'd decoder_page" where
  "decoder_typed v p = p\<lparr>dp_pem := v, dp_decoded := None, dp_error := None\<rparr>"

definition decoder_cleared :: "'d decoder_page \<Rightarrow> 'd decoder_page" where
  "decoder_cleared p = p\<lparr>dp_pem := [], dp_decoded := None, dp_error := None\<rparr>"

definition clear_shown :: "'d decoder_page \<Rightarrow> bool" where
  "clear_shown p \<longleftrightarrow> dp_pem p \<noteq> [] \<or> dp_decoded p \<noteq> None"

datatype decoder_event = DecoderTyped string | DecodePressed | DecodeSettled | ClearPressed

fun decoder_step :: "string \<Rightarrow> (string \<Rightarrow> thrown + 'd) \<Rightarrow> decoder_event \<Rightarrow> 'd decoder_page \<Rightarrow> 'd decoder_page" where
  "decoder_step fallback decode (DecoderTyped v) p = decoder_typed v p"
| "decoder_step fallback decode DecodePressed p = (if decode_disabled p then p else decode_start p)"
| "decoder_step fallback decode DecodeSettled p = decode_finish fallback decode p"
| "decoder_step fallback decode ClearPressed p = (if clear_shown p then decoder_cleared p else p)"

subsection \<open>What the pages show\<close>

datatype field_view = FieldText string | FieldTags "string property list" | FieldLinks "string list"

type_synonym field_section = "string \<times> (string \<times> field_view) list"

text \<open>Empty lists of tags and of addresses are a dash.\<close>

definition TagList :: "string property list \<Rightarrow> field_view" where
  "TagList items = (if length items = 0 then FieldText em_dash else FieldTags items)"

definition tool_UrlList :: "string list \<Rightarrow> field_view" where
  "tool_UrlList urls = (if length urls = 0 then FieldText em_dash else FieldLinks urls)"

definition ValidityBadge :: "DecodedCert \<Rightarrow> string \<times> string" where
  "ValidityBadge cert =
     (if dec_isExpired cert then (''ShieldX'', ''Expired'')
      else if dec_daysRemaining cert \<le> 30 then (''ShieldAlert'', ''Expires in '' @ show_int (dec_daysRemaining cert) @ ''d'')
      else (''ShieldCheck'', ''Valid '' @ middle_dot @ '' '' @ show_int (dec_daysRemaining cert) @ ''d remaining''))"

definition label_or :: "string js_object \<Rightarrow> string \<Rightarrow> string" where
  "label_or labels f = (case obj_get labels f of Own l \<Rightarrow> l | _ \<Rightarrow> f)"

definition DNSection :: "string \<Rightarrow> (string \<times> string list) list \<Rightarrow> field_section" where
  "DNSection title dn =
     (title,
      map (\<lambda>f. (label_or DN_LABELS f, FieldText (join '', '' (the (map_of dn f)))))
          (filter (\<lambda>f. map_of dn f \<noteq> None) DN_FIELDS)
      @ (if length dn = 0 then [([], FieldText em_dash)] else []))"

definition common_name :: "(string \<times> string list) list \<Rightarrow> string \<Rightarrow> string" where
  "common_name subject subjectString = (case map_of subject ''CN'' of Some (v # _) \<Rightarrow> v | _ \<Rightarrow> subjectString)"

definition san_badge :: "string \<times> string \<Rightarrow> string" where
  "san_badge san = (if fst san \<noteq> ''dns'' then ''['' @ fst san @ ''] '' else []) @ snd san"

definition san_list :: "(string \<times> string) list \<Rightarrow> field_view" where
  "san_list sans = (if length sans = 0 then FieldText ''None'' else FieldTags (map (\<lambda>s. Own (san_badge s)) sans))"

definition optional_field :: "string \<Rightarrow> string option \<Rightarrow> (string \<times> field_view) list" where
  "optional_field label x = (if truthy x then [(label, FieldText (the x))] else [])"

definition basic_constraints :: "DecodedCert \<Rightarrow> string" where
  "basic_constraints d =
     (if dec_isCA d
      then ''CA: true'' @ (case dec_pathLength d of Some n \<Rightarrow> '', Path Length: '' @ show_int n | None \<Rightarrow> [])
      else ''CA: false'')"

record cert_summary =
  csm_name :: string
  csm_validity :: "string \<times> string"
  csm_badges :: "string list"

definition cert_summary_of :: "DecodedCert \<Rightarrow> cert_summary" where
  "cert_summary_of d =
     \<lparr>csm_name = common_name (dec_subject d) (dec_subjectString d), csm_validity = ValidityBadge d,
      csm_badges = (if dec_isSelfSigned d then [''Self-signed''] else []) @ (if dec_isCA d then [''CA Certificate''] else [])\<rparr>"

definition cert_sections :: "(int \<Rightarrow> string) \<Rightarrow> DecodedCert \<Rightarrow> field_section list" where
  "cert_sections fmtDate d =
     [DNSection ''Subject'' (dec_subject d), DNSection ''Issuer'' (dec_issuer d),
      (''Validity'', [(''Not Before'', FieldText (fmtDate (dec_notBefore d))), (''Not After'', FieldText (fmtDate (dec_notAfter d)))]),
      (''Certificate Details'',
        [(''Serial Number'', FieldText (dec_serialNumber d)), (''Signature Algorithm'', FieldText (dec_signatureAlgorithm d)),
         (''Public Key'', FieldText (dec_publicKeyInfo d))]),
      (''Fingerprints'', [(''SHA-256'', FieldText (dec_sha256 d)), (''SHA-1'', FieldText (dec_sha1 d))]),
      (''Subject Alternative Names'', [([], san_list (dec_sans d))]),
      (''Key Usage'',
        [(''Key Usage'', TagList (map Own (dec_keyUsages d))), (''Extended Key Usage'', TagList (dec_extendedKeyUsages d))]),
      (''Extensions'',
        [(''Basic Constraints'', FieldText (basic_constraints d))]
        @ optional_field ''Subject Key Identifier'' (dec_subjectKeyId d)
        @ optional_field ''Authority Key Identifier'' (dec_authorityKeyId d)),
      (''Authority Info Access'', [(''OCSP'', tool_UrlList (dec_ocspUrls d)), (''CA Issuers'', tool_UrlList (dec_caIssuerUrls d))]),
      (''CRL Distribution Points'', [([], tool_UrlList (dec_crlUrls d))])]"

text \<open>Around what was decoded: the button with its label, whether the text can be cleared, and the error.\<close>

record 's decoder_view =
  dv_button :: "string \<times> bool"
  dv_clear :: bool
  dv_error :: "string option"
  dv_result :: "'s option"

definition decoder_view_of :: "('d \<Rightarrow> 's) \<Rightarrow> 'd decoder_page \<Rightarrow> 's decoder_view" where
  "decoder_view_of show p =
     \<lparr>dv_button = (if dp_loading p then ''Decoding'' @ ellipsis else ''Decode'', decode_disabled p), dv_clear = clear_shown p,
      dv_error = (if truthy (dp_error p) then dp_error p else None), dv_result = map_option show (dp_decoded p)\<rparr>"

definition CertDecoderPage :: "(int \<Rightarrow> string) \<Rightarrow> DecodedCert decoder_page \<Rightarrow> (cert_summary \<times> field_section list) decoder_view" where
  "CertDecoderPage fmtDate p = decoder_view_of (\<lambda>d. (cert_summary_of d, cert_sections fmtDate d)) p"

definition cert_decode :: "(string \<Rightarrow> thrown + x509_cert) \<Rightarrow> (KeyUsage \<Rightarrow> nat) \<Rightarrow> int \<Rightarrow> string \<Rightarrow> thrown + DecodedCert" where
  "cert_decode parse flag now pem = map_sum (\<lambda>e. e) (decoded flag now) (parse (trim pem))"

subsection \<open>The decoder for signing requests\<close>

record 'r x509_csr =
  xr_subject :: string
  xr_subjectField :: "string \<Rightarrow> string list"
  xr_signatureAlgorithm :: string
  xr_publicKey :: algorithm
  xr_extensions :: "(string \<times> 'r) list"

text \<open>The constructors of the classes for three extensions, which read the raw value of an extension.\<close>

record 'r extension_classes =
  read_SAN :: "'r \<Rightarrow> thrown + (string \<times> string) list"
  read_KeyUsages :: "'r \<Rightarrow> thrown + int"
  read_ExtendedKeyUsage :: "'r \<Rightarrow> thrown + string list"

definition OID_SAN :: string where
  "OID_SAN = ''2.5.29.17''"

definition OID_KEY_USAGE :: string where
  "OID_KEY_USAGE = ''2.5.29.15''"

definition OID_EKU :: string where
  "OID_EKU = ''2.5.29.37''"

definition findExt :: "(string \<times> 'r) list \<Rightarrow> string \<Rightarrow> ('r \<Rightarrow> thrown + 'e) \<Rightarrow> thrown + 'e option" where
  "findExt extensions oid ctor =
     (case find (\<lambda>e. fst e = oid) extensions of None \<Rightarrow> Inr None | Some e \<Rightarrow> map_sum (\<lambda>x. x) Some (ctor (snd e)))"

definition csr_pubKeyDescription :: "algorithm \<Rightarrow> string" where
  "csr_pubKeyDescription algo =
     (let name = alg_name algo in
      if js_includes name ''RSA'' then
        (let bits = (case alg_modulusLength algo of Some n \<Rightarrow> if n \<noteq> 0 then '' '' @ show_int n @ ''-bit'' else [] | None \<Rightarrow> []);
             hash = (case alg_hash algo of Some h \<Rightarrow> if h \<noteq> [] then '' / '' @ h else [] | None \<Rightarrow> [])
         in name @ bits @ hash)
      else if name = ''ECDSA'' \<or> name = ''ECDH'' \<or> name = ''EC'' then
        (case alg_namedCurve algo of Some cv \<Rightarrow> if cv \<noteq> [] then name @ '' ('' @ cv @ '')'' else name | None \<Rightarrow> name)
      else name)"

definition csr_KEY_USAGE_LABELS :: "(KeyUsage \<times> string) list" where
  "csr_KEY_USAGE_LABELS =
     [(DigitalSignature, ''Digital Signature''), (NonRepudiation, ''Non-Repudiation''), (KeyEncipherment, ''Key Encipherment''),
      (DataEncipherment, ''Data Encipherment''), (KeyAgreement, ''Key Agreement''), (KeyCertSign, ''Certificate Sign''),
      (CRLSign, ''CRL Sign''), (EncipherOnly, ''Encipher Only''), (DecipherOnly, ''Decipher Only'')]"

definition csr_EKU_LABELS :: "string js_object" where
  "csr_EKU_LABELS =
     [(''1.3.6.1.5.5.7.3.1'', ''Server Authentication''), (''1.3.6.1.5.5.7.3.2'', ''Client Authentication''),
      (''1.3.6.1.5.5.7.3.3'', ''Code Signing''), (''1.3.6.1.5.5.7.3.4'', ''Email Protection''),
      (''1.3.6.1.5.5.7.3.8'', ''Timestamping''), (''1.3.6.1.5.5.7.3.9'', ''OCSP Signing'')]"

definition csr_ekuLabel :: "string \<Rightarrow> string property" where
  "csr_ekuLabel u = (case obj_get csr_EKU_LABELS u of Undefined \<Rightarrow> Own u | v \<Rightarrow> v)"

definition csr_keyUsageList :: "(KeyUsage \<Rightarrow> nat) \<Rightarrow> int \<Rightarrow> string list" where
  "csr_keyUsageList flag flags =
     map snd (filter (\<lambda>(b, _). and (to_int32 flags) (to_int32 (int b)) \<noteq> 0)
       (sort_key fst (fold (\<lambda>(u, label). AList.update (flag u) label) csr_KEY_USAGE_LABELS [])))"

definition csr_DN_LABELS :: "string js_object" where
  "csr_DN_LABELS =
     [(''CN'', ''Common Name''), (''O'', ''Organization''), (''OU'', ''Organizational Unit''), (''C'', ''Country''),
      (''ST'', ''State / Province''), (''L'', ''Locality''), (''E'', ''Email''), (''emailAddress'', ''Email''),
      (''DC'', ''Domain Component''), (''SERIALNUMBER'', ''Serial Number''), (''UID'', ''User ID'')]"

definition csr_DN_FIELDS :: "string list" where
  "csr_DN_FIELDS = [''CN'', ''O'', ''OU'', ''C'', ''ST'', ''L'', ''E'', ''emailAddress'', ''DC'', ''SERIALNUMBER'', ''UID'']"

record DecodedCSR =
  dcsr_subject :: "(string \<times> string list) list"
  dcsr_subjectString :: string
  dcsr_signatureAlgorithm :: string
  dcsr_publicKeyInfo :: string
  dcsr_sans :: "(string \<times> string) list"
  dcsr_keyUsages :: "string list"
  dcsr_extendedKeyUsages :: "string property list"

definition csr_extractDN :: "(string \<Rightarrow> string list) \<Rightarrow> (string \<times> string list) list" where
  "csr_extractDN getField = map (\<lambda>f. (f, getField f)) (filter (\<lambda>f. length (getField f) \<noteq> 0) csr_DN_FIELDS)"

definition decodeCSR ::
  "(string \<Rightarrow> thrown + 'r x509_csr) \<Rightarrow> 'r extension_classes \<Rightarrow> (KeyUsage \<Rightarrow> nat) \<Rightarrow> string \<Rightarrow> thrown + DecodedCSR" where
  "decodeCSR parse classes flag pem =
     (case parse (trim pem) of
        Inl e \<Rightarrow> Inl e
      | Inr csr \<Rightarrow>
          (case findExt (xr_extensions csr) OID_SAN (read_SAN classes) of
             Inl e \<Rightarrow> Inl e
           | Inr sanExt \<Rightarrow>
               (case findExt (xr_extensions csr) OID_KEY_USAGE (read_KeyUsages classes) of
                  Inl e \<Rightarrow> Inl e
                | Inr kuExt \<Rightarrow>
                    (case findExt (xr_extensions csr) OID_EKU (read_ExtendedKeyUsage classes) of
                       Inl e \<Rightarrow> Inl e
                     | Inr ekuExt \<Rightarrow>
                         Inr \<lparr>dcsr_subject = csr_extractDN (xr_subjectField csr), dcsr_subjectString = xr_subject csr,
                              dcsr_signatureAlgorithm = xr_signatureAlgorithm csr,
                              dcsr_publicKeyInfo = csr_pubKeyDescription (xr_publicKey csr), dcsr_sans = nullish sanExt [],
                              dcsr_keyUsages = (case kuExt of Some u \<Rightarrow> csr_keyUsageList flag u | None \<Rightarrow> []),
                              dcsr_extendedKeyUsages = (case ekuExt of Some us \<Rightarrow> map csr_ekuLabel us | None \<Rightarrow> [])\<rparr>))))"

definition csr_TagList :: "string property list \<Rightarrow> field_view" where
  "csr_TagList items = (if length items = 0 then FieldText em_dash else FieldTags items)"

text \<open>The summary and the sections; those for key usages only where there are some.\<close>

definition csr_usage_section :: "DecodedCSR \<Rightarrow> field_section list" where
  "csr_usage_section d =
     (if length (dcsr_keyUsages d) > 0 \<or> length (dcsr_extendedKeyUsages d) > 0
      then [(''Key Usage'',
              (if length (dcsr_keyUsages d) > 0 then [(''Key Usage'', csr_TagList (map Own (dcsr_keyUsages d)))] else [])
              @ (if length (dcsr_extendedKeyUsages d) > 0
                 then [(''Extended Key Usage'', csr_TagList (dcsr_extendedKeyUsages d))] else []))]
      else [])"

definition csr_sections :: "DecodedCSR \<Rightarrow> field_section list" where
  "csr_sections d =
     [(''Subject'',
        map (\<lambda>f. (label_or csr_DN_LABELS f, FieldText (join '', '' (the (map_of (dcsr_subject d) f)))))
            (filter (\<lambda>f. map_of (dcsr_subject d) f \<noteq> None) csr_DN_FIELDS)
        @ (if length (dcsr_subject d) = 0 then [([], FieldText em_dash)] else [])),
      (''Key & Algorithm'',
        [(''Public Key'', FieldText (dcsr_publicKeyInfo d)), (''Signature Algorithm'', FieldText (dcsr_signatureAlgorithm d))]),
      (''Subject Alternative Names'', [([], san_list (dcsr_sans d))])]
     @ csr_usage_section d"

definition CsrDecoderPage :: "DecodedCSR decoder_page \<Rightarrow> (string \<times> field_section list) decoder_view" where
  "CsrDecoderPage p = decoder_view_of (\<lambda>d. (common_name (dcsr_subject d) (dcsr_subjectString d), csr_sections d)) p"

subsection \<open>The two decoders\<close>

text \<open>The tables are copies: a key, a usage and a field of a name read the same on both pages.\<close>

lemma decoder_tables_agree:
  "csr_KEY_USAGE_LABELS = KEY_USAGE_LABELS" "csr_EKU_LABELS = EKU_LABELS" "csr_DN_FIELDS = DN_FIELDS"
  by (simp_all only: csr_KEY_USAGE_LABELS_def KEY_USAGE_LABELS_def csr_EKU_LABELS_def EKU_LABELS_def csr_DN_FIELDS_def DN_FIELDS_def)

lemma decoders_use_same_words:
  "csr_pubKeyDescription = pubKeyDescription" "csr_keyUsageList = keyUsageList" "csr_ekuLabel = ekuLabel" "csr_extractDN = extractDN"
  "csr_TagList = TagList"
  by (simp_all only: fun_eq_iff csr_pubKeyDescription_def pubKeyDescription_def csr_keyUsageList_def keyUsageList_def usage_entries_def
      csr_ekuLabel_def ekuLabel_def csr_extractDN_def extractDN_def csr_TagList_def TagList_def Let_def decoder_tables_agree append_assoc
      simp_thms)

lemma name_fields_read_alike: "list_all (\<lambda>f. label_or csr_DN_LABELS f = label_or DN_LABELS f \<and> label_or DN_LABELS f \<noteq> f) DN_FIELDS"
  by code_simp

lemma cert_decode_agrees:
  "(case cert_decode parse flag now pem of Inr d \<Rightarrow> Some d | Inl _ \<Rightarrow> None)
     = decodeCert (\<lambda>s. case parse s of Inr c \<Rightarrow> Some c | Inl _ \<Rightarrow> None) flag now pem"
  by (simp add: cert_decode_def decodeCert_def split: sum.split)

subsection \<open>The page follows its text\<close>

definition decoder_run :: "string \<Rightarrow> (string \<Rightarrow> thrown + 'd) \<Rightarrow> decoder_event list \<Rightarrow> 'd decoder_page" where
  "decoder_run fallback decode evs = foldl (\<lambda>p ev. decoder_step fallback decode ev p) decoder_init evs"

text \<open>The text is left alone while it is being decoded. The decoder of requests waits for nothing, so there it always is.\<close>

definition left_alone :: "decoder_event \<Rightarrow> 'd decoder_page \<Rightarrow> bool" where
  "left_alone ev p \<longleftrightarrow> dp_running p = None \<or> ev = DecodePressed \<or> ev = DecodeSettled"

fun left_alone_run :: "string \<Rightarrow> (string \<Rightarrow> thrown + 'd) \<Rightarrow> decoder_event list \<Rightarrow> 'd decoder_page \<Rightarrow> bool" where
  "left_alone_run fallback decode [] p = True"
| "left_alone_run fallback decode (ev # evs) p =
     (left_alone ev p \<and> left_alone_run fallback decode evs (decoder_step fallback decode ev p))"

definition follows :: "string \<Rightarrow> (string \<Rightarrow> thrown + 'd) \<Rightarrow> 'd decoder_page \<Rightarrow> bool" where
  "follows fallback decode p \<longleftrightarrow>
     dp_loading p = (dp_running p \<noteq> None)
     \<and> (case dp_running p of
          Some t \<Rightarrow> t = dp_pem p \<and> dp_decoded p = None \<and> dp_error p = None
        | None \<Rightarrow>
            dp_decoded p = None \<and> dp_error p = None
            \<or> (case decode (dp_pem p) of
                 Inr d \<Rightarrow> dp_decoded p = Some d \<and> dp_error p = None
               | Inl e \<Rightarrow> dp_decoded p = None \<and> dp_error p = Some (thrown_text fallback e)))"

lemmas decoder_steps = decode_disabled_def decode_start_def decode_finish_def decoder_typed_def decoder_cleared_def clear_shown_def

lemma follows_step: "follows fallback decode p \<Longrightarrow> left_alone ev p \<Longrightarrow> follows fallback decode (decoder_step fallback decode ev p)"
  by (cases ev) (auto simp: follows_def left_alone_def decoder_steps split: option.splits sum.splits)

lemma follows_run:
  "follows fallback decode p \<Longrightarrow> left_alone_run fallback decode evs p \<Longrightarrow>
     follows fallback decode (foldl (\<lambda>p ev. decoder_step fallback decode ev p) p evs)"
  by (induction evs arbitrary: p) (simp_all add: follows_step)

text \<open>As long as the text is left alone while it is being decoded, whatever a decoder page shows belongs to the text in the box: it is
  loading, or shows nothing, or exactly what the decoder makes of this text, or the error it ends with.\<close>

lemma decoder_page_follows_text:
  assumes "left_alone_run fallback decode evs decoder_init"
  shows "let p = decoder_run fallback decode evs in
      (dp_decoded p = None \<or> map_sum (\<lambda>e. e) Some (decode (dp_pem p)) = Inr (dp_decoded p))
    \<and> (dp_error p = None \<or> (\<exists>e. decode (dp_pem p) = Inl e \<and> dp_error p = Some (thrown_text fallback e)))
    \<and> (dp_loading p \<longrightarrow> dp_decoded p = None \<and> dp_error p = None \<and> decode_disabled p)"
proof -
  have "follows fallback decode (decoder_run fallback decode evs)"
    unfolding decoder_run_def by (rule follows_run [OF _ assms]) (simp add: follows_def decoder_init_def)
  then show ?thesis
    by (auto simp: Let_def follows_def decode_disabled_def split: option.splits sum.splits)
qed

text \<open>Decoding a certificate waits for its digests; when the text is changed in the meantime the page shows the old certificate below the
  new text.\<close>

lemma old_certificate_below_new_text:
  assumes "trim old \<noteq> []" "decode old = Inr d"
  shows "let p = decoder_run fallback decode [DecoderTyped old, DecodePressed, DecoderTyped new, DecodeSettled] in
      dp_pem p = new \<and> dp_decoded p = Some d"
  using assms by (simp add: decoder_run_def decoder_init_def decoder_steps)

subsection \<open>A generated request is read back\<close>

text \<open>What the browser says of a key it has made, and the names the package gives to the types of alternative names.\<close>

fun key_algorithm :: "key_gen \<Rightarrow> algorithm" where
  "key_algorithm (RsaKeyGen name bits e hash) =
     \<lparr>alg_name = name, alg_modulusLength = Some (int bits), alg_hash = Some hash, alg_namedCurve = None\<rparr>"
| "key_algorithm (EcKeyGen name curve) = \<lparr>alg_name = name, alg_modulusLength = None, alg_hash = None, alg_namedCurve = Some curve\<rparr>"

fun san_type_name :: "SANType \<Rightarrow> string" where
  "san_type_name DnsSAN = ''dns''"
| "san_type_name IpSAN = ''ip''"
| "san_type_name EmailSAN = ''email''"

text \<open>The package reads a request back that it has written; an address may come back in another notation, \<open>ip_text\<close>.\<close>

definition reads_back ::
  "(string \<Rightarrow> thrown + 'r x509_csr) \<Rightarrow> 'r extension_classes \<Rightarrow> (string \<Rightarrow> string) \<Rightarrow> (csr_input \<Rightarrow> string + GenerateResult) \<Rightarrow> bool" where
  "reads_back parse classes ip_text produce \<longleftrightarrow>
     (\<forall>inp res. produce inp = Inr res \<longrightarrow>
        trim (csrPem res) \<noteq> []
        \<and> (\<exists>csr. parse (trim (csrPem res)) = Inr csr \<and> xr_publicKey csr = key_algorithm (in_keyGen inp)
             \<and> (case in_sans inp of
                  None \<Rightarrow> xr_extensions csr = []
                | Some es \<Rightarrow>
                    (\<exists>raw. xr_extensions csr = [(OID_SAN, raw)]
                       \<and> read_SAN classes raw
                          = Inr (map (\<lambda>(t, v). (san_type_name t, if t = IpSAN then ip_text v else v)) es)))))"

fun key_text :: "KeyAlgo \<Rightarrow> string" where
  "key_text Rsa2048 = ''RSASSA-PKCS1-v1_5 2048-bit / SHA-256''"
| "key_text Rsa4096 = ''RSASSA-PKCS1-v1_5 4096-bit / SHA-256''"
| "key_text EcP256 = ''ECDSA (P-256)''"
| "key_text EcP384 = ''ECDSA (P-384)''"

text \<open>The badge of a name that was entered.\<close>

definition entered_badge :: "(string \<Rightarrow> string) \<Rightarrow> string \<Rightarrow> string" where
  "entered_badge ip_text v =
     (if isValidIP v then ''[ip] '' @ ip_text v else if js_includes v ''@'' then ''[email] '' @ v else v)"

lemma show_bits: "show_int 2048 = ''2048''" "show_int 4096 = ''4096''"
proof -
  have "map digit_char [0, 2, 4, 6, 8, 9] = ''024689''" by code_simp
  then show "show_int 2048 = ''2048''" "show_int 4096 = ''4096''" by (simp_all add: show_int_def show_radix.simps [of 10])
qed

lemma key_text_described: "csr_pubKeyDescription (key_algorithm (fst (getAlgoParams a))) = key_text a"
  by (cases a) (simp_all add: csr_pubKeyDescription_def Let_def show_bits)

lemma badge_entered:
  assumes "classifySAN v = Some t" "trim v = v"
  shows "san_badge (san_type_name t, if t = IpSAN then ip_text v else v) = entered_badge ip_text v"
  using assms by (auto simp: classifySAN_def Let_def san_badge_def entered_badge_def split: if_splits)

lemma badges_entered:
  assumes "\<forall>s \<in> set sans. trim s = [] \<or> classifySAN (trim s) \<noteq> None"
  shows "map (\<lambda>(t, v). san_badge (san_type_name t, if t = IpSAN then ip_text v else v)) (sanEntries sans)
    = map (entered_badge ip_text) (filter (\<lambda>v. v \<noteq> []) (map trim sans))"
proof -
  have badge: "san_badge (san_type_name t, if t = IpSAN then ip_text v else v) = entered_badge ip_text v"
    if "(t, v) \<in> set (sanEntries sans)" for t v
    using sanEntries_classified [OF that] by (blast intro: badge_entered)
  have "map (\<lambda>(t, v). san_badge (san_type_name t, if t = IpSAN then ip_text v else v)) (sanEntries sans)
      = map (entered_badge ip_text \<circ> snd) (sanEntries sans)"
  proof (rule map_cong [OF refl])
    fix x
    assume x: "x \<in> set (sanEntries sans)"
    obtain t v where "x = (t, v)" by (cases x)
    with x badge [of t v]
    show "(case x of (t, v) \<Rightarrow> san_badge (san_type_name t, if t = IpSAN then ip_text v else v)) = (entered_badge ip_text \<circ> snd) x"
      by (simp only: case_prod_conv comp_apply snd_conv)
  qed
  then show ?thesis using sanEntries_complete [OF assms] by (metis map_map)
qed

lemma san_list_badges:
  assumes "map san_badge sans = map f vs"
  shows "san_list sans = (if vs = [] then FieldText ''None'' else FieldTags (map (\<lambda>v. Own (f v)) vs))"
proof -
  have "map (\<lambda>s. Own (san_badge s)) sans = map (\<lambda>v. Own (f v)) vs"
    using arg_cong [OF assms, of "map Own"] by (simp add: comp_def)
  moreover have "sans = [] \<longleftrightarrow> vs = []" using assms by (metis map_is_Nil_conv)
  ultimately show ?thesis by (simp add: san_list_def)
qed

lemma sections_of_request:
  "(''Subject Alternative Names'', [([], san_list (dcsr_sans d))]) \<in> set (csr_sections d)"
  "(''Key & Algorithm'', [(''Public Key'', FieldText (dcsr_publicKeyInfo d)),
      (''Signature Algorithm'', FieldText (dcsr_signatureAlgorithm d))]) \<in> set (csr_sections d)"
  by (simp_all add: csr_sections_def)


definition example_request :: "(string \<times> string) list x509_csr" where
  "example_request =
     \<lparr>xr_subject = ''CN=example.com'', xr_subjectField = (\<lambda>f. if f = ''CN'' then [''example.com''] else []),
      xr_signatureAlgorithm = ''RSASSA-PKCS1-v1_5'',
      xr_publicKey = key_algorithm (fst (getAlgoParams Rsa2048)), xr_extensions = [(OID_SAN, [(''dns'', ''www.example.com'')])]\<rparr>"

definition example_classes :: "(string \<times> string) list extension_classes" where
  "example_classes = \<lparr>read_SAN = Inr, read_KeyUsages = (\<lambda>_. Inr 0), read_ExtendedKeyUsage = (\<lambda>_. Inr [])\<rparr>"

definition example_produce :: "csr_input \<Rightarrow> string + GenerateResult" where
  "example_produce inp =
     (if inp = csr_input_of (csr_fields_of example_csr) (csr_sans example_csr) (csr_algo example_csr)
      then Inr \<lparr>csrPem = ''request'', privateKeyPem = ''key''\<rparr> else Inl ''not made'')"


lemma decoder_page_follows_text_witness:
  "let p = decoder_run [] (\<lambda>t. if t = ''a'' then Inr (1 :: nat) else Inl ThrownOther) [DecoderTyped ''a'', DecodePressed] in
     dp_loading p \<longrightarrow> decode_disabled p"
proof -
  let ?decode = "\<lambda>t. if t = ''a'' then Inr (1 :: nat) else Inl ThrownOther"
  have t: "trim ''a'' = ''a''" by code_simp
  have "left_alone_run [] ?decode [DecoderTyped ''a'', DecodePressed] decoder_init"
    by (simp add: left_alone_def decoder_init_def decoder_steps t)
  then show ?thesis
    using decoder_page_follows_text [of "[]" ?decode] unfolding Let_def by blast
qed

end
