(* ===== verification/Navigation.thy ===== *)
theory Navigation
  imports Login AccountPages Reports
begin

section \<open>Navigation (\<open>components/layout\<close> and the overview pages)\<close>

text \<open>
  The frame around every page, with its sidebar and user menu, and the pages of cards that lead to others. Icons
  are the names of their components. The payload of a token has texts in its fields, as the server issues them. Which entry of the sidebar
  is drawn as the current one is decided by the router.
\<close>

subsection \<open>The sidebar (\<open>layout/SidebarNav.tsx\<close>)\<close>

record nav_link =
  nl_to :: string
  nl_icon :: string
  nl_label :: string

datatype nav_entry =
    NavItem nav_link
  | NavGroup string string "string list" "nav_link list"

definition nav :: "string \<Rightarrow> string \<Rightarrow> string \<Rightarrow> nav_link" where
  "nav to icon label = \<lparr>nl_to = to, nl_icon = icon, nl_label = label\<rparr>"

definition SIDEBAR :: "nav_entry list" where
  "SIDEBAR =
     [NavItem (nav ''/dashboard'' ''LayoutDashboard'' ''Dashboard''),
      NavItem (nav ''/monitor'' ''SquareActivity'' ''Monitor''),
      NavGroup ''Package'' ''Inventory'' [''/endpoints'', ''/certificates'', ''/root-stores'']
        [nav ''/endpoints/host'' ''Server'' ''Host'', nav ''/endpoints/saml'' ''KeyRound'' ''SAML'',
         nav ''/endpoints/manual'' ''FileText'' ''Manual'', nav ''/certificates'' ''ScrollText'' ''Certificates'',
         nav ''/root-stores'' ''Landmark'' ''Root Stores''],
      NavGroup ''Radar'' ''Discovery'' [''/discovery'']
        [nav ''/discovery/inbox'' ''Inbox'' ''Inbox'', nav ''/discovery/networks'' ''Network'' ''Networks''],
      NavItem (nav ''/reports'' ''BarChart2'' ''Reports''),
      NavItem (nav ''/toolbox'' ''Wrench'' ''Toolbox'')]"

text \<open>The state of a group: whether it is open, and whether it held the current page when its effect last ran.\<close>

record nav_group =
  ng_open :: bool
  ng_active :: bool

definition isChildActive :: "string list \<Rightarrow> string \<Rightarrow> bool" where
  "isChildActive childPaths pathname = list_ex (\<lambda>p. startsWith pathname p) childPaths"

definition nav_group_init :: "string list \<Rightarrow> string \<Rightarrow> nav_group" where
  "nav_group_init childPaths pathname =
     \<lparr>ng_open = isChildActive childPaths pathname, ng_active = isChildActive childPaths pathname\<rparr>"

definition nav_group_clicked :: "nav_group \<Rightarrow> nav_group" where
  "nav_group_clicked g = g\<lparr>ng_open := \<not> ng_open g\<rparr>"

definition nav_group_moved :: "string list \<Rightarrow> string \<Rightarrow> nav_group \<Rightarrow> nav_group" where
  "nav_group_moved childPaths pathname g =
     (let active = isChildActive childPaths pathname in
      if active = ng_active g then g else g\<lparr>ng_active := active, ng_open := (if active then True else ng_open g)\<rparr>)"

text \<open>What is shown of an entry, and of the version at the foot: its text and its tooltip.\<close>

fun shown_entry :: "nav_entry \<Rightarrow> nav_group \<Rightarrow> string \<times> nav_link list" where
  "shown_entry (NavItem l) g = (nl_label l, [l])"
| "shown_entry (NavGroup icon label childPaths links) g = (label, if ng_open g then links else [])"

definition version_line :: "BuildInfo option \<Rightarrow> (string \<times> string) option" where
  "version_line buildInfo = map_option (\<lambda>b. (buildInfo_version b, ''Built: '' @ buildInfo_buildTime b)) buildInfo"

definition SidebarNav :: "(string \<Rightarrow> nav_group) \<Rightarrow> BuildInfo option \<Rightarrow> (string \<times> nav_link list) list \<times> (string \<times> string) option" where
  "SidebarNav groups buildInfo =
     (map (\<lambda>e. shown_entry e (case e of NavItem l \<Rightarrow> \<lparr>ng_open = True, ng_active = True\<rparr> | NavGroup _ label _ _ \<Rightarrow> groups label)) SIDEBAR,
      version_line buildInfo)"

subsection \<open>The frame (\<open>layout/AppShell.tsx\<close>)\<close>

definition initials :: "string option \<Rightarrow> string option \<Rightarrow> string option \<Rightarrow> string" where
  "initials first_name last_name username =
     (if truthy first_name \<and> truthy last_name then toUpperCase [hd (the first_name), hd (the last_name)]
      else if truthy first_name then toUpperCase (take 2 (the first_name))
      else if truthy username then toUpperCase (take 2 (the username))
      else ''??'')"

definition identity_text :: "json option \<Rightarrow> string \<Rightarrow> string option" where
  "identity_text identity k = (case Option.bind identity (\<lambda>p. json_field p k) of Some (JStr s) \<Rightarrow> Some s | _ \<Rightarrow> None)"

definition fullName :: "json option \<Rightarrow> string" where
  "fullName identity =
     (if truthy (identity_text identity ''given_name'')
      then the (identity_text identity ''given_name'')
        @ (if truthy (identity_text identity ''family_name'') then '' '' @ the (identity_text identity ''family_name'') else [])
      else nullish (identity_text identity ''sub'') ''Account'')"

record app_shell =
  as_client :: client
  as_buildInfo :: "BuildInfo option"
  as_popover :: bool
  as_mobileNav :: bool
  as_pathname :: string

definition shell_init :: "client \<Rightarrow> string \<Rightarrow> app_shell" where
  "shell_init c pathname =
     \<lparr>as_client = c, as_buildInfo = None, as_popover = False, as_mobileNav = False, as_pathname = pathname\<rparr>"

datatype shell_event =
    VersionArrived "BuildInfo outcome"
  | PopoverClicked
  | PressedOutside
  | MobileNavChanged bool
  | MovedTo string
  | AccountClicked
  | SignOutClicked

text \<open>Signing out forgets the token and replaces the page by the one for signing in. A failed request for the version changes nothing.\<close>

fun shell_step :: "shell_event \<Rightarrow> app_shell \<Rightarrow> app_shell" where
  "shell_step (VersionArrived r) s = (case r of Inr v \<Rightarrow> s\<lparr>as_buildInfo := v\<rparr> | Inl _ \<Rightarrow> s)"
| "shell_step PopoverClicked s = s\<lparr>as_popover := \<not> as_popover s\<rparr>"
| "shell_step PressedOutside s = s\<lparr>as_popover := False\<rparr>"
| "shell_step (MobileNavChanged b) s = s\<lparr>as_mobileNav := b\<rparr>"
| "shell_step (MovedTo p) s = (if p = as_pathname s then s else s\<lparr>as_pathname := p, as_mobileNav := False\<rparr>)"
| "shell_step AccountClicked s =
     (if as_popover s then s\<lparr>as_popover := False, as_pathname := ''/account'', as_mobileNav := (as_mobileNav s \<and> as_pathname s = ''/account'')\<rparr> else s)"
| "shell_step SignOutClicked s =
     (if as_popover s then s\<lparr>as_client := clearToken (as_client s), as_pathname := ''/login''\<rparr> else s)"

record account_menu =
  um_name :: "string option"
  um_sub :: "string option"
  um_role :: "string option"
  um_account :: string

record top_bar =
  tb_help :: string
  tb_settings :: "string option"
  tb_fullName :: string
  tb_role :: "string option"
  tb_initials :: string
  tb_menu :: "account_menu option"

definition menu_name :: "json option \<Rightarrow> string option" where
  "menu_name identity =
     (let names = filter (\<lambda>n. truthy n) [identity_text identity ''given_name'', identity_text identity ''family_name''] in
      if names = [] then None else Some (join '' '' (map the names)))"

text \<open>\<^const>\<open>None\<close>: the bar cannot be drawn, because the role of the token is the name of an inherited member.\<close>

definition TopBar :: "app_shell \<Rightarrow> top_bar option" where
  "TopBar s =
     (let identity = getIdentity (as_client s) in
      map_option (\<lambda>allowed.
        \<lparr>tb_help = ''/help'', tb_settings = (if allowed then Some ''/settings'' else None), tb_fullName = fullName identity,
         tb_role = (if truthy (identity_text identity ''role'') then identity_text identity ''role'' else None),
         tb_initials = initials (identity_text identity ''given_name'') (identity_text identity ''family_name'') (identity_text identity ''sub''),
         tb_menu =
           (if as_popover s
            then Some \<lparr>um_name = menu_name identity, um_sub = identity_text identity ''sub'', um_role = identity_text identity ''role'',
                       um_account = ''/account''\<rparr>
            else None)\<rparr>) (can ''settings:view'' (as_client s)))"

subsection \<open>Pages of cards\<close>

record hub_card =
  hc_to :: "string option"
  hc_tone :: "string option"
  hc_icon :: string
  hc_title :: string
  hc_description :: string
  hc_soon :: bool

definition hub :: "string option \<Rightarrow> string \<Rightarrow> string \<Rightarrow> string \<Rightarrow> string \<Rightarrow> hub_card" where
  "hub to tone icon title description =
     \<lparr>hc_to = to, hc_tone = Some tone, hc_icon = icon, hc_title = title, hc_description = description, hc_soon = False\<rparr>"

text \<open>A card as it is drawn: the badge of a coming feature, the arrow, whether it is dimmed, and where a click leads.\<close>

record hub_card_view =
  hcv_soon :: bool
  hcv_arrow :: bool
  hcv_dimmed :: bool
  hcv_to :: "string option"

definition HubCard :: "hub_card \<Rightarrow> hub_card_view" where
  "HubCard k =
     \<lparr>hcv_soon = hc_soon k,
      hcv_arrow = (if truthy (hc_tone k) then truthy (hc_to k) \<and> \<not> hc_soon k else \<not> hc_soon k),
      hcv_dimmed = (\<not> truthy (hc_to k)), hcv_to = (if truthy (hc_to k) then hc_to k else None)\<rparr>"

definition TOOLBOX_CARDS :: "hub_card list" where
  "TOOLBOX_CARDS =
     [hub (Some ''/toolbox/cert-decoder'') ''blue'' ''FileSearch'' ''Certificate Decoder''
        (''Paste a PEM certificate and inspect all fields '' @ em_dash @ '' subject, SANs, validity, fingerprint, and more.''),
      hub (Some ''/toolbox/csr-decoder'') ''indigo'' ''FileCode'' ''CSR Decoder''
        ''Decode a Certificate Signing Request to verify its contents before submission.'',
      hub (Some ''/toolbox/csr-generator'') ''green'' ''FilePlus'' ''CSR Generator''
        ''Generate a CSR and private key entirely in your browser. Your key is never transmitted.'',
      hub (Some ''/toolbox/cert-diff'') ''amber'' ''GitCompare'' ''Certificate Diff''
        (''Compare two certificates side by side '' @ em_dash @ '' useful when verifying a renewal.''),
      hub (Some ''/toolbox/cert-chain'') ''teal'' ''Link2'' ''Chain Builder / Validator''
        ''Paste a certificate bundle and verify the full chain of trust from leaf to root.'',
      hub (Some ''/toolbox/pem-der'') ''purple'' ''ArrowLeftRight'' ''PEM / DER Converter''
        ''Convert certificates and keys between PEM and DER encoding.'']"

definition API_KEYS_CARD :: hub_card where
  "API_KEYS_CARD = hub (Some ''/settings/api-keys'') ''amber'' ''KeyRound'' ''API Keys'' ''View and revoke API keys across all users.''"

definition settings_cards :: "bool \<Rightarrow> hub_card list" where
  "settings_cards keysAdmin =
     [hub (Some ''/settings/scanners'') ''blue'' ''Bot'' ''Scanners'' ''Manage scanner tokens, scan intervals, and concurrency settings.'',
      hub (Some ''/settings/users'') ''indigo'' ''Users'' ''Users'' ''Manage user accounts and role-based access control.'']
     @ (if keysAdmin then [API_KEYS_CARD] else [])
     @ [hub (Some ''/settings/mail'') ''red'' ''Mail'' ''Email / SMTP'' ''Send certificate expiry warnings and scan error alerts via email.'',
        hub (Some ''/settings/notification-templates'') ''orange'' ''Bell'' ''Notification Templates''
          ''Customise the subject and body of expiry alerts and scan notifications.'',
        hub (Some ''/logs/audit'') ''slate'' ''ScrollText'' ''Audit Log''
          ''Track user logins, certificate changes, and other administrative actions.'',
        hub (Some ''/settings/tags'') ''green'' ''Tag'' ''Tags'' ''Manage tag categories and tags to organize endpoints.'',
        (hub None ''purple'' ''Webhook'' ''Webhooks'' ''POST alerts to any HTTP endpoint on cert or scan events.'')\<lparr>hc_soon := True\<rparr>,
        hub (Some ''/settings/maintenance'') ''teal'' ''Wrench'' ''Maintenance''
          ''Purge scan history, prune orphaned certificates, and other database housekeeping tasks.'',
        hub (Some ''/settings/general'') ''pink'' ''SlidersHorizontal'' ''General''
          ''Global scan intervals, expiry alert thresholds, and application preferences.'',
        hub (Some ''/settings/about'') ''violet'' ''Info'' ''About'' ''Version info, license, and third-party library attributions.'']"

definition SettingsPage :: "client \<Rightarrow> hub_card list option" where
  "SettingsPage c = map_option settings_cards (can ''apikeys:admin'' c)"

definition ToolboxPage :: "hub_card list" where
  "ToolboxPage = TOOLBOX_CARDS"

text \<open>The page for addresses that are in no route: its title, its text and the way out.\<close>

definition NotFoundPage :: "string \<times> string \<times> string" where
  "NotFoundPage =
     (''HOO sent you?'', [CHR ''I'', CHR 0x27] @ ''ve searched every branch. This page doesn'' @ [CHR 0x27] @ ''t exist.'', ''/dashboard'')"

subsection \<open>Every link leads to a page\<close>

text \<open>The addresses that are the path of a page behind the guard, other than the one for unknown addresses.\<close>

definition page_path :: "string \<Rightarrow> bool" where
  "page_path p \<longleftrightarrow> list_ex (\<lambda>(q, e). q = p \<and> (case e of Page x \<Rightarrow> x \<noteq> ''NotFoundPage'' | Redirect _ \<Rightarrow> False)) protected_table"

definition sidebar_links :: "nav_entry list \<Rightarrow> string list" where
  "sidebar_links es = concat (map (\<lambda>e. case e of NavItem l \<Rightarrow> [nl_to l] | NavGroup _ _ _ ls \<Rightarrow> map nl_to ls) es)"

definition card_links :: "hub_card list \<Rightarrow> string list" where
  "card_links cards = List.map_filter (\<lambda>k. hcv_to (HubCard k)) cards"

definition bar_links :: "top_bar \<Rightarrow> string list" where
  "bar_links b = [tb_help b] @ (case tb_settings b of Some l \<Rightarrow> [l] | None \<Rightarrow> []) @ (case tb_menu b of Some m \<Rightarrow> [um_account m] | None \<Rightarrow> [])"

text \<open>All the links of the frame and of the pages of cards, for a session with the permissions that show every one of them.\<close>

definition all_links :: "string list" where
  "all_links =
     sidebar_links SIDEBAR @ [''/help'', ''/settings'', ''/account''] @ card_links (settings_cards True) @ card_links TOOLBOX_CARDS
     @ map fst REPORTS @ [''/account/profile'', ''/account/password'', ''/account/2fa'', ''/account/notifications'', ''/account/api-keys'']
     @ [snd (snd NotFoundPage)]"

lemma all_links_known: "list_all page_path all_links"
  by code_simp

lemma known_links: "set ls \<subseteq> set all_links \<Longrightarrow> list_all page_path ls"
  using all_links_known by (auto simp: list_all_iff)

lemma shown_cards: "settings_cards keysAdmin = (if keysAdmin then settings_cards True else filter (\<lambda>k. k \<noteq> API_KEYS_CARD) (settings_cards True))"
  by (cases keysAdmin) (simp_all add: settings_cards_def API_KEYS_CARD_def hub_def)

lemma card_links_mono: "set cards \<subseteq> set cards' \<Longrightarrow> set (card_links cards) \<subseteq> set (card_links cards')"
  by (auto simp: card_links_def map_filter_def)

lemma settings_links_known: "set (card_links (settings_cards keysAdmin)) \<subseteq> set all_links"
proof -
  have "set (settings_cards keysAdmin) \<subseteq> set (settings_cards True)" by (subst shown_cards) auto
  from card_links_mono [OF this] show ?thesis by (auto simp: all_links_def)
qed

lemma account_links_known: "set (List.map_filter snd (AccountPage me)) \<subseteq> set all_links"
  by (auto simp: AccountPage_def all_links_def map_filter_def Let_def split: if_splits)

lemma sidebar_shown: "set (map nl_to (concat (map snd (fst (SidebarNav groups b))))) \<subseteq> set (sidebar_links SIDEBAR)"
  by (auto simp: SidebarNav_def sidebar_links_def SIDEBAR_def)

text \<open>\<^bold>\<open>C37\<close>: whatever the session, the state of the frame and of the groups in the sidebar, every link that is offered by the sidebar, the bar on top, the
  user menu, the cards of the settings, the toolbox, the reports and the account leads to the path of a page of the route table, and never to the page for
  unknown addresses.\<close>

theorem links_lead_to_pages:
  "list_all page_path
     (map nl_to (concat (map snd (fst (SidebarNav groups (as_buildInfo s)))))
      @ (case TopBar s of Some b \<Rightarrow> bar_links b | None \<Rightarrow> [])
      @ (case SettingsPage (as_client s) of Some cards \<Rightarrow> card_links cards | None \<Rightarrow> [])
      @ card_links ToolboxPage @ map fst REPORTS @ List.map_filter snd (AccountPage me) @ [snd (snd NotFoundPage)])"
  unfolding list_all_append
proof (intro conjI known_links)
  show "set (map nl_to (concat (map snd (fst (SidebarNav groups (as_buildInfo s)))))) \<subseteq> set all_links"
    by (rule subset_trans [OF sidebar_shown]) (auto simp: all_links_def)
  show "set (case TopBar s of Some b \<Rightarrow> bar_links b | None \<Rightarrow> []) \<subseteq> set all_links"
    by (auto simp: TopBar_def bar_links_def Let_def all_links_def split: option.splits if_splits)
  show "set (case SettingsPage (as_client s) of Some cards \<Rightarrow> card_links cards | None \<Rightarrow> []) \<subseteq> set all_links"
    using settings_links_known by (auto simp: SettingsPage_def split: option.splits)
  show "set (List.map_filter snd (AccountPage me)) \<subseteq> set all_links" by (rule account_links_known)
qed (auto simp: all_links_def ToolboxPage_def)

text \<open>No link leads to the page of the groups: it can be reached by typing its address only.\<close>

lemma groups_page_has_no_link: "page_path ''/settings/groups'' \<and> ''/settings/groups'' \<notin> set all_links"
  by code_simp

subsection \<open>What a role is offered\<close>

lemma settings_offered:
  assumes "identity_role (as_client s) = Some (JStr role)" and "role \<notin> set object_prototype_members"
  shows "\<exists>b cards. TopBar s = Some b \<and> (tb_settings b \<noteq> None \<longleftrightarrow> Has role ''settings:view'')
    \<and> SettingsPage (as_client s) = Some cards \<and> (API_KEYS_CARD \<in> set cards \<longleftrightarrow> Has role ''apikeys:admin'')"
proof -
  have "can perm (as_client s) = Some (Has role perm)" for perm using assms by (simp add: can_def hasPermission_server)
  moreover have "API_KEYS_CARD \<in> set (settings_cards k) \<longleftrightarrow> k" for k by (simp add: settings_cards_def API_KEYS_CARD_def hub_def)
  ultimately show ?thesis by (simp add: TopBar_def SettingsPage_def Let_def)
qed

subsection \<open>The groups of the sidebar\<close>

text \<open>Arriving in a group opens it. Moving on inside leaves it as it is, also when the user has closed it.\<close>

lemma arriving_opens_group:
  "isChildActive childPaths pathname \<Longrightarrow> \<not> ng_active g \<Longrightarrow> ng_open (nav_group_moved childPaths pathname g)"
  by (simp add: nav_group_moved_def)

lemma closed_group_stays_closed:
  "isChildActive childPaths p \<Longrightarrow> isChildActive childPaths q \<Longrightarrow>
     \<not> ng_open (nav_group_moved childPaths q (nav_group_clicked (nav_group_init childPaths p)))"
  by (simp add: nav_group_moved_def nav_group_clicked_def nav_group_init_def)

text \<open>Signing out: the token is gone from memory and from the store, and the next page is the one for signing in.\<close>

lemma sign_out_forgets:
  "as_popover s \<Longrightarrow> client_token (as_client (shell_step SignOutClicked s)) = None \<and> as_pathname (shell_step SignOutClicked s) = ''/login''"
  by (simp add: clearToken_def)

end
