(* ===== verification/HelpDocs.thy ===== *)
theory HelpDocs
  imports BulkImport Navigation Complex_Main
begin

section \<open>The help pages (\<open>pages/help\<close>)\<close>

text \<open>
  The documents are bundled with the program: \<open>raw\<close> lists their paths and texts. The registry reads their front matter and puts them in an
  order that compares titles with the locale of the browser, the parameter \<open>compare_titles\<close>. Rendering Markdown belongs to a package.
\<close>

subsection \<open>Front matter\<close>

datatype fm_value = FmText string | FmNumber int

definition slugOf :: "string \<Rightarrow> string" where
  "slugOf path =
     (let name = last (split_char (CHR ''/'') path) in
      if length name \<ge> 3 \<and> drop (length name - 3) name = ''.md'' then take (length name - 3) name else name)"

text \<open>
  \<open>FRONTMATTER_RE\<close>: the text starts with three hyphens and a line end; the front matter is the shortest text that is followed by a line end and three
  hyphens; a line end after them is dropped, and the rest is the content.
\<close>

definition drop_line_end :: "string \<Rightarrow> string option" where
  "drop_line_end s =
     (case s of
        c # cs \<Rightarrow>
          if c = newline then Some cs
          else if c = carriage_return then (case cs of d # ds \<Rightarrow> if d = newline then Some ds else None | [] \<Rightarrow> None)
          else None
      | [] \<Rightarrow> None)"

definition drop_hyphens :: "string \<Rightarrow> string option" where
  "drop_hyphens s = (if startsWith s ''---'' then Some (drop 3 s) else None)"

definition closing :: "string \<Rightarrow> string option" where
  "closing s = Option.bind (drop_line_end s) drop_hyphens"

fun upto_closing :: "string \<Rightarrow> (string \<times> string) option" where
  "upto_closing s =
     (case closing s of
        Some rest \<Rightarrow> Some ([], rest)
      | None \<Rightarrow> (case s of [] \<Rightarrow> None | c # cs \<Rightarrow> map_option (\<lambda>(a, b). (c # a, b)) (upto_closing cs)))"

definition after_closing :: "string \<Rightarrow> string" where
  "after_closing s =
     (let t = (case s of c # cs \<Rightarrow> if c = carriage_return then cs else s | [] \<Rightarrow> [])
      in case t of c # cs \<Rightarrow> if c = newline then cs else t | [] \<Rightarrow> [])"

definition FRONTMATTER_RE :: "string \<Rightarrow> (string \<times> string) option" where
  "FRONTMATTER_RE src =
     map_option (\<lambda>(m, rest). (m, after_closing rest)) (Option.bind (Option.bind (drop_hyphens src) drop_line_end) upto_closing)"

definition quoted_by :: "char \<Rightarrow> string \<Rightarrow> bool" where
  "quoted_by q v \<longleftrightarrow> v \<noteq> [] \<and> hd v = q \<and> last v = q"

definition unquote :: "string \<Rightarrow> string" where
  "unquote v = (if quoted_by (CHR 0x22) v \<or> quoted_by (CHR 0x27) v then butlast (tl v) else v)"

definition numeric_text :: "string \<Rightarrow> bool" where
  "numeric_text v \<longleftrightarrow> (let ds = (if startsWith v ''-'' then tl v else v) in ds \<noteq> [] \<and> list_all is_digit ds)"

definition fm_line :: "string \<Rightarrow> (string \<times> fm_value) option" where
  "fm_line line =
     (if CHR '':'' \<notin> set line then None
      else
        (let key = trim (takeWhile (\<lambda>c. c \<noteq> CHR '':'') line);
             v = unquote (trim (tl (dropWhile (\<lambda>c. c \<noteq> CHR '':'') line)))
         in Some (key, if key = ''order'' \<and> numeric_text v then FmNumber (nullish (parseInt (Some 10) v) 0) else FmText v)))"

text \<open>The object that is filled line by line; a later line of the same key wins.\<close>

definition fm_data :: "string list \<Rightarrow> string \<rightharpoonup> fm_value" where
  "fm_data lines = fold (\<lambda>line m. case fm_line line of Some (k, v) \<Rightarrow> m(k \<mapsto> v) | None \<Rightarrow> m) lines Map.empty"

definition parseFrontmatter :: "string \<Rightarrow> (string \<rightharpoonup> fm_value) \<times> string" where
  "parseFrontmatter src =
     (case FRONTMATTER_RE src of None \<Rightarrow> (Map.empty, src) | Some (m, content) \<Rightarrow> (fm_data (split_lines m), content))"

subsection \<open>The registry (\<open>registry.ts\<close>)\<close>

record HelpDoc =
  helpDoc_slug :: string
  helpDoc_title :: string
  helpDoc_blurb :: string
  helpDoc_category :: string
  helpDoc_order :: fm_value
  helpDoc_body :: string

definition fm_string :: "fm_value option \<Rightarrow> string \<Rightarrow> string" where
  "fm_string x d = (case x of Some (FmText s) \<Rightarrow> s | Some (FmNumber n) \<Rightarrow> show_int n | None \<Rightarrow> d)"

text \<open>A document without a title is an error, which stops the program when it is loaded.\<close>

definition help_doc :: "string \<times> string \<Rightarrow> string + HelpDoc" where
  "help_doc entry =
     (let (path, src) = entry; (data, content) = parseFrontmatter src; slug = slugOf path in
      if fm_string (data ''title'') [] = []
      then Inl (''help doc '' @ slug @ ''.md is missing required '' @ [CHR 0x22] @ ''title'' @ [CHR 0x22] @ '' frontmatter'')
      else Inr \<lparr>helpDoc_slug = slug, helpDoc_title = fm_string (data ''title'') [], helpDoc_blurb = fm_string (data ''blurb'') [],
                helpDoc_category = fm_string (data ''category'') ''Topics'', helpDoc_order = nullish (data ''order'') (FmNumber 999),
                helpDoc_body = content\<rparr>)"

text \<open>
  \<open>a.order - b.order\<close>, where \<open>to_number\<close> reads a text as a number if it is one, and the comparison; the sort is stable, here by insertion. With an
  order that is no number the comparison is that of the titles.
\<close>

definition order_number :: "(string \<Rightarrow> rat option) \<Rightarrow> fm_value \<Rightarrow> rat option" where
  "order_number to_number v = (case v of FmNumber n \<Rightarrow> Some (of_int n) | FmText t \<Rightarrow> to_number t)"

definition compare_docs :: "(string \<Rightarrow> rat option) \<Rightarrow> (string \<Rightarrow> string \<Rightarrow> int) \<Rightarrow> HelpDoc \<Rightarrow> HelpDoc \<Rightarrow> rat" where
  "compare_docs to_number compare_titles a b =
     (let d = (case (order_number to_number (helpDoc_order a), order_number to_number (helpDoc_order b)) of
                 (Some x, Some y) \<Rightarrow> x - y | _ \<Rightarrow> 0)
      in if d \<noteq> 0 then d else of_int (compare_titles (helpDoc_title a) (helpDoc_title b)))"

fun insert_by :: "('a \<Rightarrow> 'a \<Rightarrow> rat) \<Rightarrow> 'a \<Rightarrow> 'a list \<Rightarrow> 'a list" where
  "insert_by cmp x [] = [x]"
| "insert_by cmp x (y # ys) = (if cmp y x > 0 then x # y # ys else y # insert_by cmp x ys)"

definition sort_by :: "('a \<Rightarrow> 'a \<Rightarrow> rat) \<Rightarrow> 'a list \<Rightarrow> 'a list" where
  "sort_by cmp xs = fold (insert_by cmp) xs []"

fun all_docs :: "(string \<times> string) list \<Rightarrow> string + HelpDoc list" where
  "all_docs [] = Inr []"
| "all_docs (e # es) =
     (case help_doc e of
        Inl m \<Rightarrow> Inl m
      | Inr d \<Rightarrow> (case all_docs es of Inl m \<Rightarrow> Inl m | Inr ds \<Rightarrow> Inr (d # ds)))"

definition helpDocs ::
  "(string \<Rightarrow> rat option) \<Rightarrow> (string \<Rightarrow> string \<Rightarrow> int) \<Rightarrow> (string \<times> string) list \<Rightarrow> string + HelpDoc list" where
  "helpDocs to_number compare_titles raw = map_sum (\<lambda>m. m) (sort_by (compare_docs to_number compare_titles)) (all_docs raw)"

definition findHelpDoc :: "HelpDoc list \<Rightarrow> string \<Rightarrow> HelpDoc option" where
  "findHelpDoc docs slug = find (\<lambda>d. helpDoc_slug d = slug) docs"

subsection \<open>The pages\<close>

datatype doc_page = DocNotFound | DocShown "(string \<times> string option) list" string

definition MarkdownDocPage :: "HelpDoc list \<Rightarrow> string option \<Rightarrow> doc_page" where
  "MarkdownDocPage docs slug =
     (case (if truthy slug then findHelpDoc docs (the slug) else None) of
        None \<Rightarrow> DocNotFound
      | Some d \<Rightarrow>
          DocShown [(''Dashboard'', Some ''/dashboard''), (''Help'', Some ''/help''), (helpDoc_title d, None)] (helpDoc_body d))"

text \<open>A link of a document: inside the program, or to another site in a window of its own.\<close>

datatype md_link = RouterLink string | OutsideLink "string option"

definition markdown_link :: "string option \<Rightarrow> md_link" where
  "markdown_link href = (if truthy href \<and> startsWith (the href) ''/'' then RouterLink (the href) else OutsideLink href)"

record TopicEntry =
  topic_title :: string
  topic_blurb :: string
  topic_icon :: string
  topic_to :: "string option"
  topic_href :: "string option"

definition HAND_TOPICS :: "TopicEntry list" where
  "HAND_TOPICS =
     [\<lparr>topic_title = ''About TLSentinel'', topic_blurb = ''Version, license, and third-party attributions.'', topic_icon = ''Info'',
       topic_to = Some ''/settings/about'', topic_href = None\<rparr>]"

definition MD_ICONS :: "string js_object" where
  "MD_ICONS = [(''scoring'', ''Gauge''), (''root-stores'', ''Landmark'')]"

definition md_topic :: "HelpDoc \<Rightarrow> TopicEntry" where
  "md_topic d =
     \<lparr>topic_title = helpDoc_title d, topic_blurb = helpDoc_blurb d,
      topic_icon = (case obj_get MD_ICONS (helpDoc_slug d) of Own i \<Rightarrow> i | Inherited \<Rightarrow> ''inherited'' | Undefined \<Rightarrow> ''BookOpen''),
      topic_to = Some (''/help/'' @ helpDoc_slug d), topic_href = None\<rparr>"

definition INTERNAL_TOPICS :: "HelpDoc list \<Rightarrow> TopicEntry list" where
  "INTERNAL_TOPICS docs = map md_topic docs @ HAND_TOPICS"

definition EXTERNAL_TOPICS :: "TopicEntry list" where
  "EXTERNAL_TOPICS =
     [\<lparr>topic_title = ''API reference'',
       topic_blurb = ''Interactive Swagger UI for the REST API '' @ em_dash @ '' every endpoint, request shape, and response schema.'',
       topic_icon = ''BookOpen'', topic_to = None, topic_href = Some ''/api-docs/index.html''\<rparr>,
      \<lparr>topic_title = ''GitHub repository'', topic_blurb = ''Source code, issues, and release notes.'', topic_icon = ''GitHubMark'',
       topic_to = None, topic_href = Some ''https://github.com/tlsentinel/tlsentinel-server''\<rparr>]"

definition TopicCard :: "TopicEntry \<Rightarrow> string \<times> string \<times> string \<times> md_link" where
  "TopicCard e =
     (topic_title e, topic_blurb e, topic_icon e,
      if truthy (topic_href e) then OutsideLink (topic_href e) else RouterLink (nullish (topic_to e) []))"

definition modKey :: "bool \<Rightarrow> string" where
  "modKey isMac = (if isMac then [CHR 0xE2, CHR 0x8C, CHR 0x98] else ''Ctrl'')"

record help_page =
  hpg_crumbs :: "(string \<times> string option) list"
  hpg_topics :: "(string \<times> string \<times> string \<times> md_link) list"
  hpg_references :: "(string \<times> string \<times> string \<times> md_link) list"
  hpg_search_keys :: "string list"
  hpg_result_keys :: "string list"

definition HelpPage :: "bool \<Rightarrow> HelpDoc list \<Rightarrow> help_page" where
  "HelpPage isMac docs =
     \<lparr>hpg_crumbs = [(''Dashboard'', Some ''/dashboard''), (''Help'', None)], hpg_topics = map TopicCard (INTERNAL_TOPICS docs),
      hpg_references = map TopicCard EXTERNAL_TOPICS, hpg_search_keys = [modKey isMac, ''K''],
      hpg_result_keys = [[CHR 0xE2, CHR 0x86, CHR 0x91], [CHR 0xE2, CHR 0x86, CHR 0x93], ''Enter'', ''Esc'']\<rparr>"

section \<open>The about page (\<open>pages/AboutPage.tsx\<close>)\<close>

record LibEntry =
  lib_name :: string
  lib_license :: string
  lib_url :: string

definition lib :: "string \<Rightarrow> string \<Rightarrow> string \<Rightarrow> LibEntry" where
  "lib name license url = \<lparr>lib_name = name, lib_license = license, lib_url = url\<rparr>"

definition MIT_LICENSE :: string where
  "MIT_LICENSE = join [newline]
     [''MIT License'',
      [],
      ''Copyright (c) 2026 TLSentinel Contributors'',
      [],
      ''Permission is hereby granted, free of charge, to any person obtaining a copy'',
      (''of this software and associated documentation files (the '' @ [CHR 0x22] @ ''Software'' @ [CHR 0x22] @ ''), to deal''),
      ''in the Software without restriction, including without limitation the rights'',
      ''to use, copy, modify, merge, publish, distribute, sublicense, and/or sell'',
      ''copies of the Software, and to permit persons to whom the Software is'',
      ''furnished to do so, subject to the following conditions:'',
      [],
      ''The above copyright notice and this permission notice shall be included in all'',
      ''copies or substantial portions of the Software.'',
      [],
      (''THE SOFTWARE IS PROVIDED '' @ [CHR 0x22] @ ''AS IS'' @ [CHR 0x22] @ '', WITHOUT WARRANTY OF ANY KIND, EXPRESS OR''),
      ''IMPLIED, INCLUDING BUT NOT LIMITED TO THE WARRANTIES OF MERCHANTABILITY,'',
      ''FITNESS FOR A PARTICULAR PURPOSE AND NONINFRINGEMENT. IN NO EVENT SHALL THE'',
      ''AUTHORS OR COPYRIGHT HOLDERS BE LIABLE FOR ANY CLAIM, DAMAGES OR OTHER'',
      ''LIABILITY, WHETHER IN AN ACTION OF CONTRACT, TORT OR OTHERWISE, ARISING FROM,'',
      ''OUT OF OR IN CONNECTION WITH THE SOFTWARE OR THE USE OR OTHER DEALINGS IN THE'',
      ''SOFTWARE.'']"

definition BACKEND_LIBS :: "LibEntry list" where
  "BACKEND_LIBS =
     [lib ''uptrace/bun'' ''BSD-2-Clause'' ''https://github.com/uptrace/bun'',
      lib ''lib/pq'' ''MIT'' ''https://github.com/lib/pq'',
      lib ''go-chi/chi'' ''MIT'' ''https://github.com/go-chi/chi'',
      lib ''golang-jwt/jwt'' ''MIT'' ''https://github.com/golang-jwt/jwt'',
      lib ''coreos/go-oidc'' ''Apache-2.0'' ''https://github.com/coreos/go-oidc'',
      lib ''golang.org/x/oauth2'' ''BSD-3-Clause'' ''https://cs.opensource.google/go/x/oauth2'',
      lib ''golang-migrate/migrate'' ''MIT'' ''https://github.com/golang-migrate/migrate'',
      lib ''swaggo/swag'' ''MIT'' ''https://github.com/swaggo/swag'',
      lib ''swaggo/http-swagger'' ''MIT'' ''https://github.com/swaggo/http-swagger'',
      lib ''netresearch/go-cron'' ''MIT'' ''https://github.com/netresearch/go-cron'',
      lib ''arran4/golang-ical'' ''MIT'' ''https://github.com/arran4/golang-ical'',
      lib ''joho/godotenv'' ''MIT'' ''https://github.com/joho/godotenv'',
      lib ''golang.org/x/crypto'' ''BSD-3-Clause'' ''https://cs.opensource.google/go/x/crypto'',
      lib ''github.com/caarlos0/env'' ''MIT'' ''https://github.com/caarlos0/env'']"

definition CA_DATA_SOURCES :: "LibEntry list" where
  "CA_DATA_SOURCES =
     [lib ''Common CA Database (CCADB)'' ''Attribution'' ''https://www.ccadb.org'',
      lib ''Apple Root Certificate Program'' ''Apple'' ''https://www.apple.com/certificateauthority/ca_program.html'',
      lib ''Chrome Root Program'' ''Google'' ''https://g.co/chrome/root-policy'',
      lib ''Microsoft Trusted Root Program'' ''Microsoft'' ''https://learn.microsoft.com/en-us/security/trusted-root/program-requirements'',
      lib ''Mozilla CA Certificate Program'' ''MPL-2.0'' ''https://wiki.mozilla.org/CA'']"

definition FRONTEND_LIBS :: "LibEntry list" where
  "FRONTEND_LIBS =
     [lib ''React'' ''MIT'' ''https://react.dev'',
      lib ''Vite'' ''MIT'' ''https://vitejs.dev'',
      lib ''React Router'' ''MIT'' ''https://reactrouter.com'',
      lib ''Tailwind CSS'' ''MIT'' ''https://tailwindcss.com'',
      lib ''@tailwindcss/typography'' ''MIT'' ''https://github.com/tailwindlabs/tailwindcss-typography'',
      lib ''tw-animate-css'' ''MIT'' ''https://github.com/Wombosvideo/tw-animate-css'',
      lib ''shadcn/ui'' ''MIT'' ''https://ui.shadcn.com'',
      lib ''Radix UI'' ''MIT'' ''https://www.radix-ui.com'',
      lib ''class-variance-authority'' ''Apache-2.0'' ''https://cva.style'',
      lib ''tailwind-merge'' ''MIT'' ''https://github.com/dcastil/tailwind-merge'',
      lib ''clsx'' ''MIT'' ''https://github.com/lukeed/clsx'',
      lib ''Lucide React'' ''ISC'' ''https://lucide.dev'',
      lib ''Inter (Fontsource)'' ''OFL-1.1'' ''https://fontsource.org/fonts/inter'',
      lib ''Manrope (Fontsource)'' ''OFL-1.1'' ''https://fontsource.org/fonts/manrope'',
      lib ''Unica One (Fontsource)'' ''OFL-1.1'' ''https://fontsource.org/fonts/unica-one'',
      lib ''@tanstack/react-query'' ''MIT'' ''https://tanstack.com/query'',
      lib ''react-markdown'' ''MIT'' ''https://github.com/remarkjs/react-markdown'',
      lib ''remark-gfm'' ''MIT'' ''https://github.com/remarkjs/remark-gfm'',
      lib ''Recharts'' ''MIT'' ''https://recharts.org'',
      lib ''node-qrcode'' ''MIT'' ''https://github.com/soldair/node-qrcode'',
      lib ''reflect-metadata'' ''Apache-2.0'' ''https://github.com/rbuckton/reflect-metadata'',
      lib ''@peculiar/x509'' ''MIT'' ''https://github.com/PeculiarVentures/x509'']"

text \<open>The rows of a table: the label of a section, or a library with its link and its licence.\<close>

datatype lib_row = LibLabel string | LibLink string string string

definition LibTable :: "(string \<times> LibEntry list) list \<Rightarrow> lib_row list" where
  "LibTable sections = concat (map (\<lambda>(label, libs). LibLabel label # map (\<lambda>l. LibLink (lib_name l) (lib_url l) (lib_license l)) libs) sections)"

record about_page =
  ab_crumbs :: "(string \<times> string option) list"
  ab_build :: "(string \<times> string) list"
  ab_license :: "string \<times> string option"
  ab_scoring :: string
  ab_trust :: "lib_row list"
  ab_libraries :: "lib_row list"

definition AboutPage :: "BuildInfo option \<Rightarrow> bool \<Rightarrow> about_page" where
  "AboutPage buildInfo showLicense =
     \<lparr>ab_crumbs = [(''Settings'', Some ''/settings''), (''About'', None)],
      ab_build = [(''Version'', nullish (map_option buildInfo_version buildInfo) em_dash),
                  (''Commit'', nullish (map_option buildInfo_commit buildInfo) em_dash),
                  (''Build time'', nullish (map_option buildInfo_buildTime buildInfo) em_dash)],
      ab_license = (if showLicense then (''Hide license text'', Some MIT_LICENSE) else (''Show license text'', None)),
      ab_scoring = ''/help/scoring'', ab_trust = LibTable [(''Root programs'', CA_DATA_SOURCES)],
      ab_libraries = LibTable [(''Backend (Go)'', BACKEND_LIBS), (''Frontend'', FRONTEND_LIBS)]\<rparr>"

section \<open>What the help pages keep\<close>

subsection \<open>Front matter is read back\<close>

declare upto_closing.simps [simp del]

definition plain_line :: "string \<Rightarrow> bool" where
  "plain_line s \<longleftrightarrow> newline \<notin> set s \<and> carriage_return \<notin> set s"

lemma closing_plain: "c \<noteq> newline \<Longrightarrow> c \<noteq> carriage_return \<Longrightarrow> closing (c # s) = None"
  by (simp add: closing_def drop_line_end_def)

lemma upto_closing_plain: "plain_line m \<Longrightarrow> upto_closing (m @ s) = map_option (\<lambda>(a, b). (m @ a, b)) (upto_closing s)"
proof (induction m)
  case Nil
  then show ?case by (cases "upto_closing s") auto
next
  case (Cons c m)
  then have "closing (c # m @ s) = None" by (intro closing_plain) (auto simp: plain_line_def)
  then have "upto_closing ((c # m) @ s) = map_option (\<lambda>(a, b). (c # a, b)) (upto_closing (m @ s))"
    by (subst upto_closing.simps) simp
  moreover have "plain_line m" using Cons.prems by (simp add: plain_line_def)
  ultimately show ?case using Cons.IH by (cases "upto_closing s") auto
qed

lemma upto_closing_line:
  assumes "\<not> startsWith s ''---''"
  shows "upto_closing (newline # s) = map_option (\<lambda>(a, b). (newline # a, b)) (upto_closing s)"
  using assms by (subst upto_closing.simps) (simp add: closing_def drop_line_end_def drop_hyphens_def)

lemma upto_closing_end: "upto_closing (newline # CHR ''-'' # CHR ''-'' # CHR ''-'' # s) = Some ([], s)"
  by (subst upto_closing.simps) (simp add: closing_def drop_line_end_def drop_hyphens_def startsWith_def)

text \<open>Lines that start with a letter, up to the line of hyphens.\<close>

lemma upto_closing_lines:
  assumes "\<forall>l \<in> set (l # ls). plain_line l \<and> l \<noteq> [] \<and> hd l \<noteq> CHR ''-''"
  shows "upto_closing (join [newline] (l # ls) @ newline # ''---'' @ s) = Some (join [newline] (l # ls), s)"
  using assms
proof (induction ls arbitrary: l)
  case Nil
  then show ?case by (simp add: upto_closing_plain upto_closing_end)
next
  case (Cons k ks)
  have "\<not> startsWith (join [newline] (k # ks) @ newline # ''---'' @ s) ''---''"
    using Cons.prems by (cases k; cases ks) (auto simp: startsWith_def)
  then show ?case
    using Cons.prems Cons.IH [of k] by (simp add: upto_closing_plain upto_closing_line)
qed

lemma split_lines_join:
  assumes "\<forall>l \<in> set (l # ls). plain_line l"
  shows "split_lines (join [newline] (l # ls)) = l # ls"
proof -
  have "split_char newline (join [newline] (l # ls)) = l # ls"
    using assms by (intro split_char_join) (auto simp: plain_line_def)
  moreover have "strip_cr k = k" if "k \<in> set (l # ls)" for k
    using assms that last_in_set [of k] unfolding strip_cr_def plain_line_def by metis
  ultimately show ?thesis
    unfolding split_lines_def Let_def by (metis (no_types, lifting) append_butlast_last_id in_set_butlastD list.distinct(1) map_idI)
qed

text \<open>A document as it is written: its front matter and its body.\<close>

definition doc_lines :: "HelpDoc \<Rightarrow> int \<Rightarrow> string list" where
  "doc_lines d n =
     [''title: '' @ helpDoc_title d, ''blurb: '' @ helpDoc_blurb d, ''category: '' @ helpDoc_category d, ''order: '' @ show_int n]"

definition doc_source :: "HelpDoc \<Rightarrow> int \<Rightarrow> string" where
  "doc_source d n = ''---'' @ newline # join [newline] (doc_lines d n) @ newline # ''---'' @ newline # helpDoc_body d"

definition plain_value :: "string \<Rightarrow> bool" where
  "plain_value v \<longleftrightarrow> plain_line v \<and> trim v = v \<and> unquote v = v"

lemma fm_line_written:
  assumes "CHR '':'' \<notin> set key" "trim key = key" "trim ('' '' @ v) = v" "unquote v = v"
  shows "fm_line (key @ '': '' @ v) =
    Some (key, if key = ''order'' \<and> numeric_text v then FmNumber (nullish (parseInt (Some 10) v) 0) else FmText v)"
proof -
  have "takeWhile (\<lambda>c. c \<noteq> CHR '':'') (key @ '': '' @ v) = key" "dropWhile (\<lambda>c. c \<noteq> CHR '':'') (key @ '': '' @ v) = '': '' @ v"
    using assms(1) by (auto simp: takeWhile_append dropWhile_append)
  then show ?thesis using assms by (simp add: fm_line_def Let_def)
qed

lemma trim_space: "trim (CHR '' '' # v) = trim v"
  by (simp add: trim_def is_ws_def)

lemma show_int_plain: "plain_value (show_int n)" and numeric_show_int: "numeric_text (show_int n)"
proof -
  have digits: "show_nat k \<noteq> [] \<and> list_all is_digit (show_nat k)" for k
    using show_nat_digits show_radix_not_Nil by (auto simp: list_all_iff)
  show "numeric_text (show_int n)"
    using digits [of "nat n"] digits [of "nat (- n)"]
    by (cases "show_nat (nat n)") (auto simp: numeric_text_def show_int_def startsWith_def Let_def)
  have "\<forall>c \<in> set (show_int n). c \<noteq> newline \<and> c \<noteq> carriage_return \<and> \<not> is_ws c \<and> c \<noteq> CHR 0x22 \<and> c \<noteq> CHR 0x27"
    by (auto simp: is_ws_def is_digit_def charCode_def dest!: show_int_chars)
  then show "plain_value (show_int n)"
    by (auto simp: plain_value_def plain_line_def trim_no_ws unquote_def quoted_by_def dest: hd_in_set)
qed

text \<open>\<^bold>\<open>C38\<close>: a document that is written with its title, blurb, category and order in the front matter is registered with exactly these, under the name
  of its file, and with its body unchanged, as long as the three texts are of one line, without blanks around them and not put in quotes.\<close>

theorem help_doc_roundtrip:
  assumes "plain_value (helpDoc_title d)" "plain_value (helpDoc_blurb d)" "plain_value (helpDoc_category d)" "helpDoc_title d \<noteq> []"
    and "helpDoc_order d = FmNumber n" "CHR ''/'' \<notin> set (helpDoc_slug d)"
  shows "help_doc (''./content/'' @ helpDoc_slug d @ ''.md'', doc_source d n) = Inr d"
proof -
  have read: "fm_line (''title: '' @ helpDoc_title d) = Some (''title'', FmText (helpDoc_title d))"
    "fm_line (''blurb: '' @ helpDoc_blurb d) = Some (''blurb'', FmText (helpDoc_blurb d))"
    "fm_line (''category: '' @ helpDoc_category d) = Some (''category'', FmText (helpDoc_category d))"
    "fm_line (''order: '' @ show_int n) = Some (''order'', FmNumber n)"
    using assms show_int_plain [of n] numeric_show_int [of n]
      fm_line_written [of "''title''"] fm_line_written [of "''blurb''"] fm_line_written [of "''category''"] fm_line_written [of "''order''"]
    by (simp_all add: plain_value_def trim_space parseInt_show_int trim_no_ws is_ws_def)
  have plain: "\<forall>l \<in> set (doc_lines d n). plain_line l \<and> l \<noteq> [] \<and> hd l \<noteq> CHR ''-''"
    using assms show_int_plain [of n] by (auto simp: doc_lines_def plain_value_def plain_line_def)
  obtain l ls where lines: "doc_lines d n = l # ls" by (simp add: doc_lines_def)
  have "FRONTMATTER_RE (doc_source d n) = Some (join [newline] (doc_lines d n), helpDoc_body d)"
    using plain upto_closing_lines [of l ls "newline # helpDoc_body d"] unfolding lines
    by (simp add: FRONTMATTER_RE_def doc_source_def lines drop_hyphens_def startsWith_def drop_line_end_def after_closing_def)
  moreover have "split_lines (join [newline] (doc_lines d n)) = doc_lines d n"
    using plain unfolding lines by (intro split_lines_join) blast
  moreover have "fm_data (doc_lines d n) = [''title'' \<mapsto> FmText (helpDoc_title d), ''blurb'' \<mapsto> FmText (helpDoc_blurb d),
      ''category'' \<mapsto> FmText (helpDoc_category d), ''order'' \<mapsto> FmNumber n]"
    by (simp only: fm_data_def doc_lines_def fold_simps read option.case prod.case id_apply)
  ultimately have parsed: "parseFrontmatter (doc_source d n) = ([''title'' \<mapsto> FmText (helpDoc_title d), ''blurb'' \<mapsto> FmText (helpDoc_blurb d),
      ''category'' \<mapsto> FmText (helpDoc_category d), ''order'' \<mapsto> FmNumber n], helpDoc_body d)"
    by (simp add: parseFrontmatter_def)
  have "split_char (CHR ''/'') (join ''/'' [''.'', ''content'', helpDoc_slug d @ ''.md'']) = [''.'', ''content'', helpDoc_slug d @ ''.md'']"
    using assms(6) by (intro split_char_join) auto
  then have "slugOf (''./content/'' @ helpDoc_slug d @ ''.md'') = helpDoc_slug d" by (simp add: slugOf_def)
  then show ?thesis using assms(4,5) by (simp add: help_doc_def parsed fm_string_def Let_def)
qed

definition example_doc :: HelpDoc where
  "example_doc =
     \<lparr>helpDoc_slug = ''scoring'', helpDoc_title = ''How the TLS score is calculated'', helpDoc_blurb = ''Sub-scores: and grade caps'',
      helpDoc_category = ''Topics'', helpDoc_order = FmNumber 10, helpDoc_body = ''---'' @ newline # ''# Scoring''\<rparr>"

theorem help_doc_roundtrip_witness: "help_doc (''./content/scoring.md'', doc_source example_doc 10) = Inr example_doc"
proof -
  have "plain_value (helpDoc_title example_doc)" "plain_value (helpDoc_blurb example_doc)" "plain_value (helpDoc_category example_doc)"
    "helpDoc_title example_doc \<noteq> []" "helpDoc_order example_doc = FmNumber 10" "CHR ''/'' \<notin> set (helpDoc_slug example_doc)"
    by code_simp+
  from help_doc_roundtrip [OF this] show ?thesis by (simp add: example_doc_def)
qed

subsection \<open>The order of the documents\<close>

lemma mset_insert_by: "mset (insert_by cmp x ys) = add_mset x (mset ys)"
  by (induction ys) auto

lemma mset_sort_by: "mset (sort_by cmp xs) = mset xs"
proof -
  have "mset (fold (insert_by cmp) xs ys) = mset xs + mset ys" for ys
    by (induction xs arbitrary: ys) (simp_all add: mset_insert_by)
  then show ?thesis by (simp add: sort_by_def)
qed

text \<open>Documents in the order of their numbers, from the smallest on.\<close>

definition numbered :: "(string \<Rightarrow> rat option) \<Rightarrow> HelpDoc \<Rightarrow> rat" where
  "numbered to_number d = the (order_number to_number (helpDoc_order d))"

lemma compare_numbered:
  assumes "order_number to_number (helpDoc_order a) \<noteq> None" "order_number to_number (helpDoc_order b) \<noteq> None"
  shows "compare_docs to_number cmp a b > 0 \<Longrightarrow> numbered to_number b \<le> numbered to_number a"
    and "\<not> compare_docs to_number cmp a b > 0 \<Longrightarrow> numbered to_number a \<le> numbered to_number b"
  using assms by (auto simp: compare_docs_def numbered_def Let_def split: if_splits)

lemma sorted_insert_by:
  assumes "\<forall>d \<in> set (x # ys). order_number to_number (helpDoc_order d) \<noteq> None" "sorted (map (numbered to_number) ys)"
  shows "sorted (map (numbered to_number) (insert_by (compare_docs to_number cmp) x ys))"
  using assms
proof (induction ys)
  case (Cons y ys)
  show ?case
  proof (cases "compare_docs to_number cmp y x > 0")
    case True
    then have "numbered to_number x \<le> numbered to_number y" using Cons.prems by (intro compare_numbered(1)) auto
    then show ?thesis using True Cons.prems(2) by auto
  next
    case False
    then have "numbered to_number y \<le> numbered to_number x" using Cons.prems by (intro compare_numbered(2)) auto
    moreover have "set (insert_by (compare_docs to_number cmp) x ys) = insert x (set ys)"
      using mset_insert_by [of "compare_docs to_number cmp" x ys] by (metis set_mset_add_mset_insert set_mset_mset)
    ultimately show ?thesis using False Cons by simp
  qed
qed simp

lemma sorted_docs:
  assumes "\<forall>d \<in> set ds. order_number to_number (helpDoc_order d) \<noteq> None"
  shows "sorted (map (numbered to_number) (sort_by (compare_docs to_number cmp) ds))"
proof -
  have "sorted (map (numbered to_number) (fold (insert_by (compare_docs to_number cmp)) ds es))"
    if "\<forall>d \<in> set (ds @ es). order_number to_number (helpDoc_order d) \<noteq> None" "sorted (map (numbered to_number) es)" for es
    using that
  proof (induction ds arbitrary: es)
    case (Cons d ds)
    have "set (insert_by (compare_docs to_number cmp) d es) = insert d (set es)"
      using mset_insert_by [of "compare_docs to_number cmp" d es] by (metis set_mset_add_mset_insert set_mset_mset)
    then show ?case using Cons.prems Cons.IH [of "insert_by (compare_docs to_number cmp) d es"] sorted_insert_by [of d es] by simp
  qed simp
  from this [of "[]"] show ?thesis using assms by (simp add: sort_by_def)
qed

lemma all_docs_docs: "all_docs raw = Inr ds \<Longrightarrow> list_all2 (\<lambda>e d. help_doc e = Inr d) raw ds"
  by (induction raw arbitrary: ds) (auto split: sum.splits)

lemma doc_of_entry:
  assumes "list_all2 (\<lambda>e d. help_doc e = Inr d) raw ds" and "e \<in> set raw"
  obtains d where "d \<in> set ds" "help_doc e = Inr d"
  using assms by (induction rule: list_all2_induct) auto

lemma help_doc_slug: "help_doc e = Inr d \<Longrightarrow> helpDoc_slug d = slugOf (fst e)"
  by (auto simp: help_doc_def Let_def split: prod.splits if_splits)

lemma slugs_of_docs: "list_all2 (\<lambda>e d. help_doc e = Inr d) raw ds \<Longrightarrow> map helpDoc_slug ds = map (slugOf \<circ> fst) raw"
  by (induction rule: list_all2_induct) (simp_all add: help_doc_slug)

lemma find_distinct: "distinct (map f xs) \<Longrightarrow> x \<in> set xs \<Longrightarrow> find (\<lambda>y. f y = f x) xs = Some x"
  by (induction xs) auto

text \<open>The help page has a card for every bundled document, and the card of a document leads to an address under which exactly this document is shown,
  as long as the files have different names; the cards stand in the order of the numbers in the front matter.\<close>

lemma help_cards_lead_to_documents:
  assumes "helpDocs to_number cmp raw = Inr docs" and "distinct (map (slugOf \<circ> fst) raw)" and "e \<in> set raw" and "slugOf (fst e) \<noteq> []"
  shows "\<exists>d. help_doc e = Inr d
    \<and> (helpDoc_title d, helpDoc_blurb d, topic_icon (md_topic d), RouterLink (''/help/'' @ helpDoc_slug d)) \<in> set (hpg_topics (HelpPage isMac docs))
    \<and> MarkdownDocPage docs (Some (helpDoc_slug d))
      = DocShown [(''Dashboard'', Some ''/dashboard''), (''Help'', Some ''/help''), (helpDoc_title d, None)] (helpDoc_body d)
    \<and> (list_all (\<lambda>d. order_number to_number (helpDoc_order d) \<noteq> None) docs \<longrightarrow> sorted (map (numbered to_number) docs))"
proof -
  obtain ds where ds: "all_docs raw = Inr ds" and docs: "docs = sort_by (compare_docs to_number cmp) ds"
    using assms(1) by (auto simp: helpDocs_def map_sum_def split: sum.splits)
  have all: "list_all2 (\<lambda>e d. help_doc e = Inr d) raw ds" by (rule all_docs_docs [OF ds])
  have same: "mset docs = mset ds" by (simp add: docs mset_sort_by)
  obtain d where d: "d \<in> set ds" "help_doc e = Inr d"
    by (rule doc_of_entry [OF all assms(3)])
  have "distinct (map helpDoc_slug docs)"
  proof -
    have "mset (map helpDoc_slug docs) = mset (map helpDoc_slug ds)" by (simp add: same)
    also have "\<dots> = mset (map (slugOf \<circ> fst) raw)" by (simp only: slugs_of_docs [OF all])
    finally have "mset (map helpDoc_slug docs) = mset (map (slugOf \<circ> fst) raw)" .
    then show ?thesis using assms(2) by (metis mset_eq_imp_distinct_iff)
  qed
  moreover have "d \<in> set docs" using d(1) mset_eq_setD [OF same] by simp
  ultimately have "findHelpDoc docs (helpDoc_slug d) = Some d"
    unfolding findHelpDoc_def by (rule find_distinct)
  moreover have "helpDoc_slug d \<noteq> []" using assms(4) help_doc_slug [OF d(2)] by simp
  moreover have "list_all (\<lambda>d. order_number to_number (helpDoc_order d) \<noteq> None) docs \<longrightarrow> sorted (map (numbered to_number) docs)"
    using sorted_docs [of ds to_number cmp] mset_eq_setD [OF same] by (simp add: docs list_all_iff)
  moreover have "TopicCard (md_topic d) \<in> set (hpg_topics (HelpPage isMac docs))"
    using \<open>d \<in> set docs\<close> by (simp add: HelpPage_def INTERNAL_TOPICS_def)
  moreover have "TopicCard (md_topic d) = (helpDoc_title d, helpDoc_blurb d, topic_icon (md_topic d), RouterLink (''/help/'' @ helpDoc_slug d))"
    by (simp add: TopicCard_def md_topic_def)
  ultimately show ?thesis using d(2) by (auto simp: MarkdownDocPage_def)
qed

lemma help_cards_lead_to_documents_witness:
  "MarkdownDocPage [example_doc] (Some ''scoring'')
     = DocShown [(''Dashboard'', Some ''/dashboard''), (''Help'', Some ''/help''), (helpDoc_title example_doc, None)] (helpDoc_body example_doc)"
proof -
  have doc: "help_doc (''./content/scoring.md'', doc_source example_doc 10) = Inr example_doc" by code_simp
  then have docs: "helpDocs (\<lambda>_. None) (\<lambda>a b. 0) [(''./content/scoring.md'', doc_source example_doc 10)] = Inr [example_doc]"
    by (simp add: helpDocs_def sort_by_def)
  have slug: "slugOf ''./content/scoring.md'' \<noteq> []" by code_simp
  show ?thesis
    using help_cards_lead_to_documents [OF docs, of "(''./content/scoring.md'', doc_source example_doc 10)" True] doc slug
    by (auto simp: example_doc_def)
qed

end
