(* ===== verification/Views.thy ===== *)
theory Views
  imports FormDialog ListParts Expiry
begin

section \<open>What a page renders\<close>

text \<open>
  The JSX of a component as a value: the words, links and controls of the rendered tree in their order, each control with
  whether it is disabled and with the event its handler is called for. Class names are left out; an icon or a colour that carries
  a meaning is an \<open>Icon\<close> with its name. The theories of the pages define their views over their states; here are the functions that
  read a view, the contract between a dialog and its view (the locale \<open>form_view\<close>) and the states a user can bring a page to by
  what it offers (\<open>used\<close>).
\<close>

subsection \<open>The tree\<close>

datatype 'e view =
    Words string
  | Icon string
  | Box "'e view list"
  | LinkTo string "'e view list"
  | Button bool "'e view list" 'e
  | EnterKey 'e
  | TextBox bool string "string \<Rightarrow> 'e"
  | NumberBox bool int "int \<Rightarrow> 'e"
  | TickBox bool bool "bool \<Rightarrow> 'e"
  | PickBox bool string "(string \<times> string) list" "string \<Rightarrow> 'e"

text \<open>The words that are readable, in order; the contents of a text field are not among them.\<close>

primrec words_of :: "'e view \<Rightarrow> string list" where
  "words_of (Words s) = [s]"
| "words_of (Icon n) = []"
| "words_of (Box vs) = concat (map words_of vs)"
| "words_of (LinkTo p vs) = concat (map words_of vs)"
| "words_of (Button off vs e) = concat (map words_of vs)"
| "words_of (EnterKey e) = []"
| "words_of (TextBox off s f) = []"
| "words_of (NumberBox off n f) = []"
| "words_of (TickBox off b f) = []"
| "words_of (PickBox off v opts f) = map snd opts"

text \<open>The events of the buttons that can be pressed; the links; and the events of all enabled controls.\<close>

primrec clicks :: "'e view \<Rightarrow> 'e list" where
  "clicks (Words s) = []"
| "clicks (Icon n) = []"
| "clicks (Box vs) = concat (map clicks vs)"
| "clicks (LinkTo p vs) = concat (map clicks vs)"
| "clicks (Button off vs e) = (if off then [] else [e])"
| "clicks (EnterKey e) = []"
| "clicks (TextBox off s f) = []"
| "clicks (NumberBox off n f) = []"
| "clicks (TickBox off b f) = (if off then [] else [f (\<not> b)])"
| "clicks (PickBox off v opts f) = (if off then [] else map (\<lambda>opt. f (fst opt)) opts)"

primrec link_paths :: "'e view \<Rightarrow> string list" where
  "link_paths (Words s) = []"
| "link_paths (Icon n) = []"
| "link_paths (Box vs) = concat (map link_paths vs)"
| "link_paths (LinkTo p vs) = p # concat (map link_paths vs)"
| "link_paths (Button off vs e) = []"
| "link_paths (EnterKey e) = []"
| "link_paths (TextBox off s f) = []"
| "link_paths (NumberBox off n f) = []"
| "link_paths (TickBox off b f) = []"
| "link_paths (PickBox off v opts f) = []"

primrec offers :: "'e view \<Rightarrow> 'e set" where
  "offers (Words s) = {}"
| "offers (Icon n) = {}"
| "offers (Box vs) = \<Union> (set (map offers vs))"
| "offers (LinkTo p vs) = \<Union> (set (map offers vs))"
| "offers (Button off vs e) = (if off then {} else {e})"
| "offers (EnterKey e) = {e}"
| "offers (TextBox off s f) = (if off then {} else range f)"
| "offers (NumberBox off n f) = (if off then {} else range f)"
| "offers (TickBox off b f) = (if off then {} else {f (\<not> b)})"
| "offers (PickBox off v opts f) = (if off then {} else (\<lambda>opt. f (fst opt)) ` set opts)"

lemma clicks_offered: "set (clicks v) \<subseteq> offers v"
  by (induction v) auto

lemma clicks_map_view [simp]: "clicks (map_view f v) = map f (clicks v)"
proof (induction v)
  case (Box vs)
  then show ?case by (simp add: map_concat o_def cong: map_cong)
next
  case (LinkTo p vs)
  then show ?case by (simp add: map_concat o_def cong: map_cong)
qed (simp_all add: o_def)

lemma words_map_view [simp]: "words_of (map_view f v) = words_of v"
proof (induction v)
  case (Box vs)
  then show ?case by (simp add: o_def cong: map_cong)
next
  case (LinkTo p vs)
  then show ?case by (simp add: o_def cong: map_cong)
next
  case (Button off vs e)
  then show ?case by (simp add: o_def cong: map_cong)
qed simp_all

lemma offers_map_view [simp]: "offers (map_view f v) = f ` offers v"
proof (induction v)
  case (Box vs)
  then show ?case by (auto simp: image_UN)
next
  case (LinkTo p vs)
  then show ?case by (auto simp: image_UN)
qed (auto simp: image_image)

subsection \<open>Parts that many pages share\<close>

definition en_dash :: string where
  "en_dash = [CHR 0xE2, CHR 0x80, CHR 0x93]"

text \<open>\<open>{cond && ...}\<close>, and a line that is rendered when its text is there and not empty.\<close>

definition only_if :: "bool \<Rightarrow> 'e view \<Rightarrow> 'e view" where
  "only_if b v = (if b then v else Box [])"

definition error_line :: "string option \<Rightarrow> 'e view" where
  "error_line e = (if truthy e then Words (the e) else Box [])"

text \<open>The \<open>message\<close> of a query's error object, rendered also when it is empty.\<close>

definition query_error :: "string option \<Rightarrow> 'e view" where
  "query_error e = (case e of None \<Rightarrow> Box [] | Some m \<Rightarrow> Words m)"

record 'r query =
  q_loading :: bool
  q_error :: "string option"
  q_data :: "'r option"

text \<open>
  A dialog on its page: its parts while it is open, and the ways to dismiss it (the cross in its corner, Escape, a click outside), which
  all call \<open>onOpenChange(false)\<close>.
\<close>

definition dialog_view :: "bool \<Rightarrow> 'e \<Rightarrow> 'e view \<Rightarrow> 'e view" where
  "dialog_view open dismissed v = (if open then Box [Button False [Icon ''X''] dismissed, v] else Box [])"

definition dialog_head :: "string \<Rightarrow> 'e view list \<Rightarrow> 'e view" where
  "dialog_head title description = Box [Words title, Box description]"

definition labelled :: "string \<Rightarrow> 'e view \<Rightarrow> 'e view" where
  "labelled label v = Box [Words label, v]"

text \<open>The buttons at the foot of a dialog: \<open>Cancel\<close>, and the one that submits.\<close>

definition dialog_foot :: "bool \<Rightarrow> string \<Rightarrow> ('t, 'e, 'a) form_event view" where
  "dialog_foot busy label = Box [Button busy [Words ''Cancel''] FormClosed, Button busy [Words label] SubmitPressed]"

definition breadcrumb_view :: "(string \<times> string option) list \<Rightarrow> 'e view" where
  "breadcrumb_view items =
     Box (map (\<lambda>(label, dest). case dest of None \<Rightarrow> Words label | Some p \<Rightarrow> LinkTo p [Words label]) (Breadcrumb items))"

definition SearchInput :: "string \<Rightarrow> (string \<Rightarrow> 'e) \<Rightarrow> 'e view" where
  "SearchInput value onChange = Box [Icon ''Search'', TextBox False value onChange]"

definition FilterDropdown ::
  "bool \<Rightarrow> string \<Rightarrow> (string \<times> string) list \<Rightarrow> string \<Rightarrow> (string \<Rightarrow> 'e) \<Rightarrow> 'e view" where
  "FilterDropdown showActive label options value onSelect =
     Box (Words (FilterDropdown_label showActive label options value)
       # map (\<lambda>(v, l). Button False ((if value = v then [Icon ''Check''] else []) @ [Words l]) (onSelect v)) options)"

text \<open>The buttons that turn the page of a list, and the counts beside them.\<close>

definition pager_view :: "int \<Rightarrow> int \<Rightarrow> (page_button \<Rightarrow> 'e) \<Rightarrow> 'e view" where
  "pager_view totalCount page turn =
     Box [Button (prevDisabled page) [Icon ''ChevronLeft'', Words ''Prev''] (turn PrevPage),
       Words (''Page '' @ show_int page @ '' of '' @ show_int (totalPages totalCount)),
       Button (nextDisabled totalCount page) [Words ''Next'', Icon ''ChevronRight''] (turn NextPage)]"

text \<open>
  The footer of a table card: what is shown of how many, and the pager. \<open>fmtInt\<close> is \<open>toLocaleString\<close>; \<open>none\<close> is the text for an
  empty list.
\<close>

definition footer_view ::
  "(int \<Rightarrow> string) \<Rightarrow> string \<Rightarrow> string \<Rightarrow> int \<Rightarrow> int \<Rightarrow> (page_button \<Rightarrow> 'e) \<Rightarrow> 'e view" where
  "footer_view fmtInt none noun totalCount page turn =
     Box [(case page_footer noun page totalCount of
             None \<Rightarrow> Words none
           | Some (a, b, n, nouns) \<Rightarrow>
               Box [Words ''Showing '', Words (show_int a @ en_dash @ show_int b), Words '' of '', Words (fmtInt n),
                 Words ('' '' @ nouns)]),
       pager_view totalCount page turn]"

text \<open>A badge: its colour and its text.\<close>

fun tone_name :: "tone \<Rightarrow> string" where
  "tone_name RedTone = ''red''"
| "tone_name AmberTone = ''amber''"
| "tone_name GreenTone = ''green''"
| "tone_name MutedTone = ''muted''"

definition badge_view :: "badge \<Rightarrow> 'e view" where
  "badge_view b = Box [Icon (tone_name (badge_tone b)), Words (badge_text b)]"

lemmas view_parts = only_if_def error_line_def query_error_def dialog_view_def dialog_head_def labelled_def dialog_foot_def
  breadcrumb_view_def SearchInput_def FilterDropdown_def pager_view_def footer_view_def badge_view_def

text \<open>What these parts offer: the pages reason with these inclusions and need not unfold the parts.\<close>

lemma breadcrumb_offers [simp]: "offers (breadcrumb_view items) = {}"
  by (auto simp: breadcrumb_view_def split: option.splits)

lemma search_offers [simp]: "offers (SearchInput value onChange) = range onChange"
  by (simp add: SearchInput_def)

lemma filter_offers [simp]: "offers (FilterDropdown showActive label options value onSelect) = (onSelect \<circ> fst) ` set options"
  by (auto simp: FilterDropdown_def image_image case_prod_unfold)

lemma pager_offers: "offers (pager_view totalCount page turn) \<subseteq> range turn"
  by (auto simp: pager_view_def)

lemma footer_offers: "offers (footer_view fmtInt none noun totalCount page turn) \<subseteq> range turn"
  using pager_offers [of totalCount page turn] by (auto simp: footer_view_def split: option.splits)

lemma quiet_parts [simp]:
  "offers (error_line e) = {}" "offers (badge_view bdg) = {}" "offers (query_error e) = {}" "offers (only_if b v) = (if b then offers v else {})"
  "offers (dialog_view open ev v) = (if open then insert ev (offers v) else {})"
  by (auto simp: badge_view_def error_line_def query_error_def only_if_def dialog_view_def split: option.splits)

lemma truthy_text: "truthy e \<Longrightarrow> the e \<noteq> []"
  by (cases e) (simp_all add: truthy_simps)

subsection \<open>A dialog and its view\<close>

text \<open>
  What the view of a dialog owes to the state behind it: its submit button can be pressed exactly while no request is
  under way, and an error is readable. \<open>wrap\<close> takes the events of the dialog to those of the view, which may have more.
\<close>

locale form_view = form_dialog ops
  for ops :: "('d, 't, 'e, 'a, 'v) form_ops" +
  fixes wrap :: "('t, 'e, 'a) form_event \<Rightarrow> 'p" and render :: "'d \<Rightarrow> 'p view"
  assumes press: "wrap SubmitPressed \<in> set (clicks (render d)) \<longleftrightarrow> \<not> fo_busy ops d"
    and read: "truthy (fo_error ops d) \<Longrightarrow> the (fo_error ops d) \<in> set (words_of (render d))"
begin

lemma pressed_submits:
  "fw_open w \<Longrightarrow> wrap SubmitPressed \<in> set (clicks (render (fw_dialog w))) \<Longrightarrow> form_step ops SubmitPressed w = form_submit ops w"
  by (simp add: press)

lemma settled_press:
  "form_accounted ops w \<Longrightarrow> length (fw_pending w) \<le> length answers \<Longrightarrow>
     wrap SubmitPressed \<in> set (clicks (render (fw_dialog (form_run ops (map (FormAnswered 0) answers) w))))"
  using settled_idle [of w answers] by (simp add: press)

lemma failure_read:
  assumes "i < length (fw_pending w)" and "fst (fw_pending w ! i) = fw_instance w"
    and "io_result (fo_body ops (snd (fw_pending w ! i)) a) (fw_client w) = Inl err" and "visible_error err"
  shows "\<exists>m. m \<noteq> [] \<and> m \<in> set (words_of (render (fw_dialog (form_step ops (FormAnswered i a) w))))"
proof -
  have "truthy (fo_error ops (fw_dialog (form_step ops (FormAnswered i a) w)))"
    using answer_reports(3) [OF assms(1,3) refl assms(4,2)] .
  then show ?thesis using read truthy_text by blast
qed

end

text \<open>
  The contract over whole runs: the button of an open dialog that can be pressed submits, it can be pressed again once all answers are in,
  and when a request has failed with an error that has a text, a text tells so.
\<close>

definition view_follows ::
  "('d, 't, 'e, 'a, 'v) form_ops \<Rightarrow> (('t, 'e, 'a) form_event \<Rightarrow> 'p) \<Rightarrow> ('d \<Rightarrow> 'p view) \<Rightarrow> 'd \<Rightarrow> bool" where
  "view_follows ops wrap render d \<longleftrightarrow>
     (\<forall>events c. let w = form_run ops events (form_start d c) in
        (fw_open w \<longrightarrow> wrap SubmitPressed \<in> set (clicks (render (fw_dialog w))) \<longrightarrow>
           form_step ops SubmitPressed w = form_submit ops w)
        \<and> (\<forall>answers. length (fw_pending w) \<le> length answers \<longrightarrow>
             wrap SubmitPressed \<in> set (clicks (render (fw_dialog (form_run ops (map (FormAnswered 0) answers) w)))))
        \<and> (\<forall>i a err. i < length (fw_pending w) \<and> fst (fw_pending w ! i) = fw_instance w
             \<and> io_result (fo_body ops (snd (fw_pending w ! i)) a) (fw_client w) = Inl err \<and> visible_error err \<longrightarrow>
             (\<exists>m. m \<noteq> [] \<and> m \<in> set (words_of (render (fw_dialog (form_step ops (FormAnswered i a) w)))))))"

context form_view
begin

lemma view_follow: "\<not> fo_busy ops d \<Longrightarrow> view_follows ops wrap render d"
  unfolding view_follows_def Let_def using pressed_submits settled_press failure_read accounted_run by blast

end

subsection \<open>Using a page\<close>

text \<open>
  The states of a page that a user reaches by the events the page offers, whatever the server has answered to its queries
  at each moment.
\<close>

inductive used :: "('q \<Rightarrow> 's \<Rightarrow> 'e view) \<Rightarrow> ('q \<Rightarrow> 'e \<Rightarrow> 's \<Rightarrow> 's) \<Rightarrow> 's \<Rightarrow> 's \<Rightarrow> bool" for view step s where
  used_start: "used view step s s"
| used_next: "used view step s t \<Longrightarrow> e \<in> offers (view q t) \<Longrightarrow> used view step s (step q e t)"

lemma used_invariant:
  assumes "used view step s t" and "I s" and "\<And>t e q. I t \<Longrightarrow> e \<in> offers (view q t) \<Longrightarrow> I (step q e t)"
  shows "I t"
  using assms(1) by induction (auto intro: assms(2,3))

end
