(* ===== verification/ScannerViews.thy ===== *)
theory ScannerViews
  imports Views ScannerSettings
begin

section \<open>What the scanners page shows (\<open>pages/settings/ScannersPage.tsx\<close>)\<close>

text \<open>
  The views of the dialogs and of the page over the states of \<open>ScannerSettings\<close>, what each control does to the page, and: the dialogs
  follow their state (\<open>form_view\<close>), a user without \<open>scanners:edit\<close> is never offered a change, and the menu of a row
  acts on the scanner of the row.
\<close>

subsection \<open>The dialogs\<close>

text \<open>
  \<open>SchedulePicker\<close> is in \<open>Schedule\<close>; here it is a field that holds a cron expression. The number field passes on whole
  numbers, the only ones the form is submitted with.
\<close>

definition CreateDialog_view :: "create_scanner \<Rightarrow> (unit, scanner_edit, create_answers) form_event view" where
  "CreateDialog_view d =
     Box [Icon ''Radio'',
       dialog_head ''Create Scanner'' [Words ''Provision a new execution node''],
       labelled ''Scanner Name'' (TextBox False (sc_name d) (\<lambda>s. FormEdited (TypeScannerName s))),
       labelled ''Execution Schedule'' (TextBox False (sc_cronExpr d) (\<lambda>s. FormEdited (PickSchedule s))),
       labelled ''Threads''
         (Box [NumberBox False (sc_threads d) (\<lambda>n. FormEdited (TypeThreads n)),
            Words ''Total execution threads. High counts may require additional hardware resources.'']),
       error_line (sc_error d),
       dialog_foot (sc_submitting d) (if sc_submitting d then ''Creating'' @ ellipsis else ''Create Scanner'')]"

datatype edit_scanner_ui =
    EditForm "(ScannerToken, scanner_edit, ScannerToken fetch_result) form_event"
  | EditRegenerate ScannerToken

definition EditScannerDialog_view :: "edit_scanner \<Rightarrow> edit_scanner_ui view" where
  "EditScannerDialog_view d =
     Box [Icon ''Radio'',
       dialog_head ''Edit Scanner'' [Words ''Update execution node configuration''],
       labelled ''Scanner Name'' (TextBox False (se_name d) (\<lambda>s. EditForm (FormEdited (TypeScannerName s)))),
       labelled ''Execution Schedule'' (TextBox False (se_cronExpr d) (\<lambda>s. EditForm (FormEdited (PickSchedule s)))),
       labelled ''Threads''
         (Box [NumberBox False (se_concurrency d) (\<lambda>n. EditForm (FormEdited (TypeThreads n))),
            Words ''Total execution threads. High counts may require additional hardware resources.'']),
       error_line (se_error d),
       (case se_scanner d of
          None \<Rightarrow> Box []
        | Some s \<Rightarrow> Button (se_submitting d) [Icon ''RefreshCw'', Words ''Regenerate Token''] (EditRegenerate s)),
       map_view EditForm (dialog_foot (se_submitting d) (if se_submitting d then ''Saving'' @ ellipsis else ''Save''))]"

text \<open>\<open>scanner?.name\<close>: nothing is rendered for \<open>undefined\<close>.\<close>

definition scanner_name_view :: "ScannerToken option \<Rightarrow> 'e view" where
  "scanner_name_view scanner = (case scanner of None \<Rightarrow> Box [] | Some s \<Rightarrow> Words (scannerToken_name s))"

definition RegenerateDialog_view ::
  "scanner_confirm \<Rightarrow> (ScannerToken, unit, ScannerTokenRegenerated fetch_result) form_event view" where
  "RegenerateDialog_view d =
     Box [Icon ''RefreshCw'',
       dialog_head ''Regenerate Scanner Token'' [Words ''Issue a new bearer token''],
       Box [Words ''Generate a new bearer token for '', scanner_name_view (sd_scanner d),
         Words (''? The current token is invalidated immediately '' @ em_dash
           @ '' any running agent using the old value will fail auth on its next poll.'')],
       Words ''Schedule, thread count, default flag, and endpoint assignments are preserved.'',
       error_line (sd_error d),
       dialog_foot (sd_loading d) (if sd_loading d then ''Regenerating'' @ ellipsis else ''Regenerate Token'')]"

definition RevokeDialog_view :: "scanner_confirm \<Rightarrow> (ScannerToken, unit, unit fetch_result) form_event view" where
  "RevokeDialog_view d =
     Box [dialog_head ''Revoke Scanner'' [],
       Box [Words ''Are you sure you want to revoke '', scanner_name_view (sd_scanner d),
         Words ''? Any scanner using this token will immediately lose access.''],
       error_line (sd_error d),
       dialog_foot (sd_loading d) (if sd_loading d then ''Revoking'' @ ellipsis else ''Revoke'')]"

interpretation create_scanner_shown: form_view create_scanner_ops "\<lambda>ev. ev" CreateDialog_view
  by unfold_locales (auto simp: create_scanner_ops_def CreateDialog_view_def view_parts)

interpretation edit_scanner_shown: form_view edit_scanner_ops EditForm EditScannerDialog_view
  by unfold_locales (auto simp: edit_scanner_ops_def EditScannerDialog_view_def view_parts split: option.splits)

interpretation regenerate_shown: form_view regenerate_ops "\<lambda>ev. ev" RegenerateDialog_view
  by unfold_locales (auto simp: regenerate_ops_def RegenerateDialog_view_def scanner_name_view_def view_parts split: option.splits)

interpretation revoke_shown: form_view revoke_ops "\<lambda>ev. ev" RevokeDialog_view
  by unfold_locales (auto simp: revoke_ops_def RevokeDialog_view_def scanner_name_view_def view_parts split: option.splits)

subsection \<open>The token\<close>

text \<open>\<open>TokenRevealDialog\<close>: \<open>copied\<close> is set once the clipboard has taken the token, and reset by a timer.\<close>

datatype reveal_ui = CopyPressed | RevealClosed

fun reveal_badge_text :: "reveal_badge \<Rightarrow> string" where
  "reveal_badge_text NewBadge = ''New''"
| "reveal_badge_text RotatedBadge = ''Rotated''"

definition TokenReveal_view :: "string option \<Rightarrow> reveal_badge \<Rightarrow> bool \<Rightarrow> reveal_ui view" where
  "TokenReveal_view tok badge copied =
     Box [Icon ''KeyRound'', Words ''Scanner Token'', Words (reveal_badge_text badge),
       Box [(case tok of None \<Rightarrow> Box [] | Some t \<Rightarrow> Words t),
         Button False (if copied then [Icon ''Check'', Words ''Copied''] else [Icon ''Copy'', Words ''Copy'']) CopyPressed],
       Box [Icon ''AlertTriangle'',
         Words ''This token is only shown once and cannot be retrieved later. Store it securely in your secrets manager.''],
       Button False [Words ''Done''] RevealClosed]"

text \<open>\<open>handleCopy\<close>: the text that goes to the clipboard.\<close>

definition handleCopy_scanner :: "string option \<Rightarrow> string option" where
  "handleCopy_scanner tok = (if truthy tok then tok else None)"

subsection \<open>The cards\<close>

fun SIGNAL_BORDER_scanner :: "StatSignal \<Rightarrow> string" where
  "SIGNAL_BORDER_scanner StatNeutral = ''border-l-foreground/20''"
| "SIGNAL_BORDER_scanner StatGreen = ''border-l-green-500''"
| "SIGNAL_BORDER_scanner StatAmber = ''border-l-amber-500''"
| "SIGNAL_BORDER_scanner StatRed = ''border-l-red-500''"

fun SIGNAL_VALUE_scanner :: "StatSignal \<Rightarrow> string" where
  "SIGNAL_VALUE_scanner StatNeutral = ''text-foreground''"
| "SIGNAL_VALUE_scanner StatGreen = ''text-green-600''"
| "SIGNAL_VALUE_scanner StatAmber = ''text-amber-600''"
| "SIGNAL_VALUE_scanner StatRed = ''text-red-600''"

definition StatCard_scanner :: "string \<Rightarrow> string \<Rightarrow> StatSignal \<Rightarrow> 'e view" where
  "StatCard_scanner label value signal =
     Box [Icon (SIGNAL_BORDER_scanner signal), Words label, Icon (SIGNAL_VALUE_scanner signal), Words value]"

fun active_iconColor :: "StatSignal \<Rightarrow> string" where
  "active_iconColor StatGreen = ''text-green-600''"
| "active_iconColor StatAmber = ''text-amber-600''"
| "active_iconColor StatRed = ''text-red-600''"
| "active_iconColor StatNeutral = ''text-muted-foreground''"

fun active_barColor :: "StatSignal \<Rightarrow> string" where
  "active_barColor StatGreen = ''bg-green-500''"
| "active_barColor StatAmber = ''bg-amber-500''"
| "active_barColor StatRed = ''bg-red-500''"
| "active_barColor StatNeutral = ''bg-muted-foreground/30''"

text \<open>The bar is an icon whose name is its colour and its width.\<close>

definition ActiveStatCard :: "nat \<Rightarrow> nat \<Rightarrow> 'e view" where
  "ActiveStatCard active all =
     (let signal = active_signal active all in
      Box [Icon (active_iconColor signal), Words ''Active Scanners'',
        Words (show_int (int active) @ '' ''), Words (''/ '' @ show_int (int all)),
        Icon (active_barColor signal @ '' '' @ show_int (int (active_pct active all)) @ ''%'')])"

subsection \<open>The page\<close>

datatype scanners_ui =
    AddScannerClicked
  | RowClicked scanner_action ScannerToken
  | CreateUi "(unit, scanner_edit, create_answers) form_event"
  | EditUi edit_scanner_ui
  | RegenerateUi "(ScannerToken, unit, ScannerTokenRegenerated fetch_result) form_event"
  | RevokeUi "(ScannerToken, unit, unit fetch_result) form_event"
  | RevealUi reveal_ui

fun scanner_action_words :: "scanner_action \<Rightarrow> scanners_ui view list" where
  "scanner_action_words SetAsDefault = [Icon ''Star'', Words ''Set as Default'']"
| "scanner_action_words EditScanner = [Icon ''Pencil'', Words ''Edit'']"
| "scanner_action_words RegenerateToken = [Icon ''RefreshCw'', Words ''Regenerate Token'']"
| "scanner_action_words RevokeScanner = [Icon ''Trash2'', Words ''Revoke'']"

definition scanner_row_view :: "bool \<Rightarrow> int \<Rightarrow> ScannerToken \<Rightarrow> scanners_ui view" where
  "scanner_row_view admin now s =
     (let r = scanner_row_of admin now s in
      Box [Icon ''ScanSearch'', Words (srow_name r),
        (case srow_default r of
           Some True \<Rightarrow> Icon ''CheckCircle2''
         | Some False \<Rightarrow> Button False [Words ''Set Default''] (RowClicked SetAsDefault s)
         | None \<Rightarrow> Box []),
        Words (srow_schedule r), Words (show_int (srow_threads r)), Icon (srow_dot r), Words (srow_lastUsed r),
        only_if admin (Box (map (\<lambda>a. Button False (scanner_action_words a) (RowClicked a s)) (scanner_menu admin s)))])"

definition scanners_table_view :: "bool \<Rightarrow> int \<Rightarrow> bool \<Rightarrow> ScannerToken list \<Rightarrow> scanners_ui view" where
  "scanners_table_view admin now isLoading scanners =
     Box [Box [Words ''Name'', Words ''Default'', Words ''Schedule'', Words ''Threads'', Words ''Last Used''],
       (if isLoading then Words (''Loading'' @ ellipsis)
        else if scanners = [] then Box [Words ''No scanners yet. Click '', Words ''Add Scanner'', Words '' to get started.'']
        else Box (map (scanner_row_view admin now) scanners))]"

text \<open>The states of the mounted dialogs, and whether the revealed token has just been copied.\<close>

record scanner_dialogs =
  sds_create :: create_scanner
  sds_edit :: edit_scanner
  sds_regenerate :: scanner_confirm
  sds_revoke :: scanner_confirm
  sds_copied :: bool

definition scanner_dialogs_view :: "scanners_page \<Rightarrow> scanner_dialogs \<Rightarrow> scanners_ui view" where
  "scanner_dialogs_view p ds =
     Box [dialog_view (sp_addOpen p) (CreateUi FormClosed) (map_view CreateUi (CreateDialog_view (sds_create ds))),
       dialog_view (sp_revealToken p \<noteq> None) (RevealUi RevealClosed)
         (map_view RevealUi (TokenReveal_view (sp_revealToken p) (sp_revealBadge p) (sds_copied ds))),
       dialog_view (sp_editTarget p \<noteq> None) (EditUi (EditForm FormClosed))
         (map_view EditUi (EditScannerDialog_view (sds_edit ds))),
       dialog_view (sp_regenTarget p \<noteq> None) (RegenerateUi FormClosed)
         (map_view RegenerateUi (RegenerateDialog_view (sds_regenerate ds))),
       dialog_view (sp_deleteTarget p \<noteq> None) (RevokeUi FormClosed)
         (map_view RevokeUi (RevokeDialog_view (sds_revoke ds)))]"

definition scanners_view ::
  "bool \<Rightarrow> int \<times> ScannerToken list query \<times> scanner_dialogs \<Rightarrow> scanners_page \<Rightarrow> scanners_ui view" where
  "scanners_view admin = (\<lambda>(now, q, ds) p.
     let scanners = (case q_data q of None \<Rightarrow> [] | Some ss \<Rightarrow> ss) in
     Box [breadcrumb_view [(''Settings'', Some ''/settings''), (''Scanners'', None)],
       Words ''Scanners'', Words ''Scanner agents and their configuration.'',
       only_if admin (Button False [Icon ''Plus'', Words ''Add Scanner''] AddScannerClicked),
       query_error (q_error q), error_line (sp_mutationError p),
       only_if (\<not> q_loading q \<and> length scanners > 0)
         (Box [ActiveStatCard (activeScanners now scanners) (length scanners),
            StatCard_scanner ''Total Threads'' (show_int (totalThreads scanners)) StatNeutral]),
       scanners_table_view admin now (q_loading q) scanners,
       scanner_dialogs_view p ds])"

text \<open>
  What an event does to the page at once. Setting the default is a request (\<open>handleSetDefault\<close>), and so are the submits of the
  dialogs, whose ends are \<open>handleCreated\<close> and \<open>handleRegenerated\<close>.
\<close>

fun scanners_click :: "scanners_ui \<Rightarrow> scanners_page \<Rightarrow> scanners_page" where
  "scanners_click AddScannerClicked p = p\<lparr>sp_addSeq := sp_addSeq p + 1, sp_addOpen := True\<rparr>"
| "scanners_click (RowClicked SetAsDefault s) p = p"
| "scanners_click (RowClicked EditScanner s) p = p\<lparr>sp_editTarget := Some s\<rparr>"
| "scanners_click (RowClicked RegenerateToken s) p = openRegenerate s p"
| "scanners_click (RowClicked RevokeScanner s) p = p\<lparr>sp_deleteTarget := Some s\<rparr>"
| "scanners_click (CreateUi ev) p = (if ev = FormClosed then p\<lparr>sp_addOpen := False\<rparr> else p)"
| "scanners_click (EditUi (EditForm ev)) p = (if ev = FormClosed then p\<lparr>sp_editTarget := None\<rparr> else p)"
| "scanners_click (EditUi (EditRegenerate s)) p = openRegenerate s p"
| "scanners_click (RegenerateUi ev) p = (if ev = FormClosed then p\<lparr>sp_regenTarget := None\<rparr> else p)"
| "scanners_click (RevokeUi ev) p = (if ev = FormClosed then p\<lparr>sp_deleteTarget := None\<rparr> else p)"
| "scanners_click (RevealUi CopyPressed) p = p"
| "scanners_click (RevealUi RevealClosed) p = p\<lparr>sp_revealToken := None\<rparr>"

definition scanners_closed :: "scanners_page \<Rightarrow> bool" where
  "scanners_closed p \<longleftrightarrow> \<not> sp_addOpen p \<and> sp_revealToken p = None \<and> sp_editTarget p = None \<and> sp_regenTarget p = None
     \<and> sp_deleteTarget p = None"

lemma scanner_rows_reader: "offers (scanner_row_view False now s) = {}"
  by (simp add: scanner_row_view_def scanner_row_of_def view_parts)

lemma scanners_view_reader: "scanners_closed p \<Longrightarrow> offers (scanners_view False q p) = {}"
  by (cases q)
    (simp add: scanners_view_def scanners_closed_def scanner_dialogs_view_def scanners_table_view_def scanner_rows_reader
      ActiveStatCard_def StatCard_scanner_def only_if_def query_error_def error_line_def dialog_view_def Let_def
      split: option.splits)

text \<open>Whoever may not edit scanners is offered no control at all, whatever the server answers.\<close>

lemma scanners_reader:
  assumes "used (scanners_view False) (\<lambda>_. scanners_click) scanners_page_init p"
  shows "offers (scanners_view False q p) = {}"
proof -
  have "scanners_closed p"
    by (rule used_invariant [OF assms]) (auto simp: scanners_view_reader, simp add: scanners_closed_def scanners_page_init_def)
  then show ?thesis by (rule scanners_view_reader)
qed

text \<open>A row offers its actions on its own scanner, and the one that makes it the default only while it is not.\<close>

lemma scanner_row_acts_on_itself:
  "offers (scanner_row_view True now s) = (\<lambda>a. RowClicked a s) ` (set (scanner_menu True s))"
  by (auto simp: scanner_row_view_def scanner_row_of_def scanner_menu_def view_parts)

lemma scanner_cards_offer: "offers (ActiveStatCard active all) = {}" "offers (StatCard_scanner label value signal) = {}"
  by (simp_all add: ActiveStatCard_def StatCard_scanner_def Let_def)

lemma scanners_table_acts:
  "RowClicked a s \<in> offers (scanners_table_view True now isLoading scanners) \<Longrightarrow> s \<in> set scanners \<and> a \<in> set (scanner_menu True s)"
  by (auto simp: scanners_table_view_def scanner_row_acts_on_itself split: if_splits)

lemma scanner_dialogs_other: "RowClicked a s \<notin> offers (scanner_dialogs_view p ds)"
  by (auto simp: scanner_dialogs_view_def)

lemma scanner_rows_act:
  assumes "RowClicked a s \<in> offers (scanners_view True (now, data, ds) p)"
  shows "s \<in> set (nullish (q_data data) []) \<and> (scannerToken_isDefault s \<longrightarrow> a \<noteq> SetAsDefault)"
proof -
  have "RowClicked a s \<in> offers (scanners_table_view True now (q_loading data) (nullish (q_data data) []))"
    using assms scanner_dialogs_other [of a s p ds]
    by (simp add: scanners_view_def scanner_cards_offer Let_def split: if_splits)
  from scanners_table_acts [OF this] show ?thesis by (auto simp: scanner_menu_def)
qed

end
