(* ===== verification/TagViews.thy ===== *)
theory TagViews
  imports Views TagSettings
begin

section \<open>What the tags page shows (\<open>pages/settings/TagsPage.tsx\<close>)\<close>

text \<open>
  The views of the dialogs, of the two tables and of the page over the states of \<open>TagSettings\<close>, and what each control does to the
  page. Shown: the dialogs follow their state, a user without \<open>tags:edit\<close> can do nothing but change the tab, and the
  confirmation of a delete names every tag that goes with a category.
\<close>

subsection \<open>The dialogs\<close>

definition CategoryDialog_view :: "category_dialog \<Rightarrow> (TagCategory option, category_edit, TagCategory fetch_result) form_event view" where
  "CategoryDialog_view d =
     (let isEdit = (cd_initial d \<noteq> None) in
      Box [Icon ''Folders'',
        dialog_head (if isEdit then ''Edit Category'' else ''New Category'')
          [Words (if isEdit then ''Rename or update this category.'' else ''Group related tags under a shared heading.'')],
        labelled ''Name''
          (Box [TextBox False (cd_name d) (\<lambda>s. FormEdited (TypeCategoryName s)), EnterKey EnterPressed]),
        labelled ''Description (optional)'' (TextBox False (cd_description d) (\<lambda>s. FormEdited (TypeCategoryDescription s))),
        error_line (Some (cd_error d)),
        dialog_foot (cd_submitting d)
          (if cd_submitting d then (if isEdit then ''Saving'' else ''Creating'') @ ellipsis
           else if isEdit then ''Save'' else ''Create'')])"

definition TagDialog_view :: "TagCategory list \<Rightarrow> tag_form \<Rightarrow> (Tag option \<times> TagCategory list, tag_edit, Tag fetch_result) form_event view" where
  "TagDialog_view categories d =
     (let isEdit = (td_initial d \<noteq> None) in
      Box [Icon ''Tag'',
        dialog_head (if isEdit then ''Edit Tag'' else ''New Tag'')
          [Words (if isEdit then ''Rename or update this tag.'' else ''Add a new tag that endpoints can be labeled with.'')],
        labelled ''Name'' (Box [TextBox False (td_name d) (\<lambda>s. FormEdited (TypeTagName s)), EnterKey EnterPressed]),
        only_if (\<not> isEdit)
          (labelled ''Category''
            (PickBox False (td_categoryId d) (map (\<lambda>cat. (tagCategory_id cat, tagCategory_name cat)) categories)
              (\<lambda>s. FormEdited (PickCategory s)))),
        labelled ''Description (optional)'' (TextBox False (td_description d) (\<lambda>s. FormEdited (TypeTagDescription s))),
        error_line (Some (td_error d)),
        dialog_foot (td_submitting d)
          (if td_submitting d then (if isEdit then ''Saving'' else ''Creating'') @ ellipsis
           else if isEdit then ''Save'' else ''Create'')])"

interpretation category_shown: form_view category_ops "\<lambda>ev. ev" CategoryDialog_view
  by unfold_locales (auto simp: category_ops_def CategoryDialog_view_def view_parts Let_def)

interpretation tag_shown: form_view tag_form_ops "\<lambda>ev. ev" "TagDialog_view categories" for categories
  by unfold_locales (auto simp: tag_form_ops_def TagDialog_view_def view_parts Let_def)

datatype delete_ui = ConfirmPressed | DeleteDismissed

fun kind_text :: "delete_kind \<Rightarrow> string" where
  "kind_text DeleteTag = ''Tag''"
| "kind_text DeleteCategory = ''Category''"

definition TagDelete_view :: "tag_delete \<Rightarrow> delete_ui view" where
  "TagDelete_view d =
     Box [Icon ''Trash2'',
       dialog_head (''Delete '' @ kind_text (tdel_kind d)) [Words ''This action cannot be undone''],
       Box [Words (kind_text (tdel_kind d)), Words (tdel_label d)],
       (case impact_heading (tdel_impactedTags d) of
          None \<Rightarrow> Box []
        | Some heading \<Rightarrow> Box (Words heading # map Words (nullish (tdel_impactedTags d) []))),
       error_line (tdel_warning d),
       Button (tdel_deleting d) [Words ''Cancel''] DeleteDismissed,
       Button (tdel_deleting d) [Words (if tdel_deleting d then ''Deleting'' @ ellipsis else ''Delete'')] ConfirmPressed]"

subsection \<open>The tables\<close>

datatype tags_ui =
    TabClicked TabValue
  | NewTagClicked | EditTagClicked Tag | DeleteTagClicked Tag
  | NewCategoryClicked | EditCategoryClicked TagCategory | DeleteCategoryClicked TagCategory
  | TagUi "(Tag option \<times> TagCategory list, tag_edit, Tag fetch_result) form_event"
  | CategoryUi "(TagCategory option, category_edit, TagCategory fetch_result) form_event"
  | DeleteUi delete_ui

text \<open>The menu at the end of a row, for those who may edit.\<close>

definition edit_delete_menu :: "bool \<Rightarrow> 'e \<Rightarrow> 'e \<Rightarrow> 'e view" where
  "edit_delete_menu admin edit del =
     only_if admin
       (Box [Button False [Icon ''Pencil'', Words ''Edit''] edit, Button False [Icon ''Trash2'', Words ''Delete''] del])"

definition TagsTable_view :: "bool \<Rightarrow> CategoryWithTags list \<Rightarrow> tags_ui view" where
  "TagsTable_view admin categories =
     (let rows = TagsTable_rows categories in
      Box [only_if admin (Button False [Icon ''Plus'', Words ''New Tag''] NewTagClicked),
        Box [Words ''Name'', Words ''Category'', Words ''Description''],
        (if rows = [] then Words ''No tags yet.''
         else Box (map (\<lambda>(t, categoryName).
           Box [Words (tag_name t), Words categoryName, Words (row_description (tag_description t)),
             edit_delete_menu admin (EditTagClicked t) (DeleteTagClicked t)]) rows))])"

text \<open>A category goes to the dialog as it is in the list, with its tags; \<open>TagCategory\<close> is what the dialog reads of it.\<close>

definition CategoriesTable_view :: "bool \<Rightarrow> CategoryWithTags list \<Rightarrow> tags_ui view" where
  "CategoriesTable_view admin categories =
     Box [only_if admin (Button False [Icon ''Plus'', Words ''New Category''] NewCategoryClicked),
       Box [Words ''Name'', Words ''Description''],
       (if categories = [] then Words ''No categories yet.''
        else Box (map (\<lambda>cat.
          Box [Words (tagCategory_name cat), Words (row_description (tagCategory_description cat)),
            edit_delete_menu admin (EditCategoryClicked (TagCategory.truncate cat))
              (DeleteCategoryClicked (TagCategory.truncate cat))]) categories))]"

subsection \<open>The page\<close>

record tags_page =
  tp_tab :: TabValue
  tp_tagDialog :: "bool \<times> Tag option"
  tp_catDialog :: "bool \<times> TagCategory option"
  tp_delete :: tag_delete

definition tags_page_init :: tags_page where
  "tags_page_init =
     \<lparr>tp_tab = TagsTab, tp_tagDialog = (False, None), tp_catDialog = (False, None), tp_delete = tag_delete_init\<rparr>"

definition tags_view ::
  "bool \<Rightarrow> CategoryWithTags list query \<times> tag_form \<times> category_dialog \<Rightarrow> tags_page \<Rightarrow> tags_ui view" where
  "tags_view admin = (\<lambda>(q, tagForm, catForm) p.
     let categories = (case q_data q of None \<Rightarrow> [] | Some cats \<Rightarrow> cats) in
     if q_loading q then Words (''Loading'' @ ellipsis)
     else case q_error q of
       Some m \<Rightarrow> Words m
     | None \<Rightarrow>
       Box [Words ''Tags'',
         Words (''Organize endpoints with categories and tags '' @ em_dash @ '' environments, owners, applications, and more.''),
         Box (map (\<lambda>(value, label).
           Button False ((if tp_tab p = value then [Icon ''border-primary''] else []) @ [Words label]) (TabClicked value)) TABS),
         (case tp_tab p of
            TagsTab \<Rightarrow> TagsTable_view admin categories
          | CategoriesTab \<Rightarrow> CategoriesTable_view admin categories),
         dialog_view (fst (tp_tagDialog p)) (TagUi FormClosed) (map_view TagUi (TagDialog_view (categoryList categories) tagForm)),
         dialog_view (fst (tp_catDialog p)) (CategoryUi FormClosed) (map_view CategoryUi (CategoryDialog_view catForm)),
         dialog_view (tdel_open (tp_delete p)) (DeleteUi DeleteDismissed) (map_view DeleteUi (TagDelete_view (tp_delete p)))])"

text \<open>What an event does to the page at once; confirming a delete is \<open>tag_handleConfirm_delete\<close>.\<close>

fun tags_click :: "CategoryWithTags list \<Rightarrow> tags_ui \<Rightarrow> tags_page \<Rightarrow> tags_page" where
  "tags_click categories (TabClicked t) p = p\<lparr>tp_tab := t\<rparr>"
| "tags_click categories NewTagClicked p = p\<lparr>tp_tagDialog := (True, None)\<rparr>"
| "tags_click categories (EditTagClicked t) p = p\<lparr>tp_tagDialog := (True, Some t)\<rparr>"
| "tags_click categories (DeleteTagClicked t) p = p\<lparr>tp_delete := onDelete_tag t (tp_delete p)\<rparr>"
| "tags_click categories NewCategoryClicked p = p\<lparr>tp_catDialog := (True, None)\<rparr>"
| "tags_click categories (EditCategoryClicked cat) p = p\<lparr>tp_catDialog := (True, Some cat)\<rparr>"
| "tags_click categories (DeleteCategoryClicked cat) p = p\<lparr>tp_delete := onDelete_category categories cat (tp_delete p)\<rparr>"
| "tags_click categories (TagUi ev) p = (if ev = FormClosed then p\<lparr>tp_tagDialog := (False, None)\<rparr> else p)"
| "tags_click categories (CategoryUi ev) p = (if ev = FormClosed then p\<lparr>tp_catDialog := (False, None)\<rparr> else p)"
| "tags_click categories (DeleteUi DeleteDismissed) p = p\<lparr>tp_delete := (tp_delete p)\<lparr>tdel_open := False\<rparr>\<rparr>"
| "tags_click categories (DeleteUi ConfirmPressed) p = p"

definition tags_step :: "CategoryWithTags list query \<times> tag_form \<times> category_dialog \<Rightarrow> tags_ui \<Rightarrow> tags_page \<Rightarrow> tags_page" where
  "tags_step = (\<lambda>(q, _, _). tags_click (nullish (q_data q) []))"

subsection \<open>Who can do what\<close>

definition tags_closed :: "tags_page \<Rightarrow> bool" where
  "tags_closed p \<longleftrightarrow> \<not> fst (tp_tagDialog p) \<and> \<not> fst (tp_catDialog p) \<and> \<not> tdel_open (tp_delete p)"

lemma tags_view_reader: "tags_closed p \<Longrightarrow> offers (tags_view False q p) \<subseteq> range TabClicked"
  by (cases q)
    (auto simp: tags_view_def tags_closed_def TagsTable_view_def CategoriesTable_view_def edit_delete_menu_def Let_def
      split: option.splits TabValue.splits if_splits prod.splits)

lemma tags_reader:
  assumes "used (tags_view False) tags_step tags_page_init p"
  shows "offers (tags_view False q p) \<subseteq> range TabClicked"
proof -
  have "tags_closed p"
  proof (rule used_invariant [OF assms])
    show "tags_closed tags_page_init" by (simp add: tags_closed_def tags_page_init_def tag_delete_init_def)
  next
    fix t e q assume "tags_closed t" "e \<in> offers (tags_view False q t)"
    with tags_view_reader [of t q] show "tags_closed (tags_step q e t)"
      by (auto simp: tags_step_def tags_closed_def split: prod.splits)
  qed
  then show ?thesis by (rule tags_view_reader)
qed

text \<open>The confirmation for a category shows the name of every tag that is deleted with it.\<close>

lemma category_delete_names_tags:
  assumes "distinct (map tagCategory_id categories)" and "cat \<in> set categories" and "t \<in> set (categoryWithTags_tags cat)"
  shows "tag_name t \<in> set (words_of (TagDelete_view
    (tp_delete (tags_click categories (DeleteCategoryClicked (TagCategory.truncate cat)) p))))"
proof -
  have "find (\<lambda>x. tagCategory_id x = tagCategory_id cat) categories = Some cat"
    using assms(1,2) by (induction categories) auto
  then show ?thesis
    using assms(3)
    by (auto simp: onDelete_category_def TagCategory.truncate_def TagDelete_view_def impact_heading_def dialog_head_def)
qed

end
