(* ===== verification/UserViews.thy ===== *)
theory UserViews
  imports Views UserSettings
begin

section \<open>What the users page shows (\<open>pages/settings/UsersPage.tsx\<close>)\<close>

text \<open>
  The views of the dialogs, of the rows and of the page over the states of \<open>UserSettings\<close>, and what each control does to the page.
  Shown: the dialogs follow their state; a user without \<open>users:edit\<close> can filter, sort and turn pages and nothing else; without
  \<open>users:credentials\<close> no sequence of clicks opens a dialog that sets a password or resets a second factor.
\<close>

subsection \<open>The dialogs\<close>

text \<open>\<open>SegBtn\<close>: a button of a group, marked when it is the active one.\<close>

definition SegBtn :: "bool \<Rightarrow> string \<Rightarrow> 'e \<Rightarrow> 'e view" where
  "SegBtn active label onClick = Button False ((if active then [Icon ''border-primary''] else []) @ [Words label]) onClick"

definition UserDialog_view :: "user_dialog \<Rightarrow> (User option, user_edit, User fetch_result) form_event view" where
  "UserDialog_view d =
     (let isEdit = (ud_user d \<noteq> None) in
      Box [Icon (if isEdit then ''UserCog'' else ''UserPlus''),
        dialog_head (if isEdit then ''Edit User'' else ''Add User'')
          [Words (if isEdit then ''Update account details and access'' else ''Provision a new user account'')],
        labelled ''Username *'' (TextBox False (ud_username d) (\<lambda>s. FormEdited (TypeUsername s))),
        labelled ''First Name'' (TextBox False (ud_firstName d) (\<lambda>s. FormEdited (TypeFirstName s))),
        labelled ''Last Name'' (TextBox False (ud_lastName d) (\<lambda>s. FormEdited (TypeLastName s))),
        labelled ''Email'' (TextBox False (ud_email d) (\<lambda>s. FormEdited (TypeEmail s))),
        labelled ''Authentication Provider''
          (Box [SegBtn (ud_provider d = ProviderLocal) ''Local'' (FormEdited (PickProvider ProviderLocal)),
             SegBtn (ud_provider d = ProviderOidc) ''OIDC'' (FormEdited (PickProvider ProviderOidc)),
             only_if (ud_provider d = ProviderOidc)
               (Box [Words ''OIDC users authenticate via SSO. No password is stored.'',
                  only_if (map_option user_provider (ud_user d) = Some ProviderLocal)
                    (Words ''Switching will clear the existing password.'')])]),
        only_if (ud_provider d = ProviderLocal \<and> \<not> isEdit)
          (labelled ''Password *'' (TextBox False (ud_password d) (\<lambda>s. FormEdited (TypePassword s)))),
        labelled ''Role''
          (Box [SegBtn (ud_role d = RoleViewer) ''Viewer'' (FormEdited (PickRole RoleViewer)),
             SegBtn (ud_role d = RoleOperator) ''Operator'' (FormEdited (PickRole RoleOperator)),
             SegBtn (ud_role d = RoleAdmin) ''Admin'' (FormEdited (PickRole RoleAdmin))]),
        labelled ''Receive alert emails''
          (Box [Words (if trim (ud_email d) \<noteq> [] then ''Send expiry alerts to this user.'' else ''Requires an email address.''),
             TickBox (trim (ud_email d) = []) (ud_notify d) (\<lambda>b. FormEdited (SwitchNotify b))]),
        error_line (ud_error d),
        dialog_foot (ud_submitting d) (user_button d)])"

definition username_view :: "User option \<Rightarrow> 'e view" where
  "username_view user = (case user of None \<Rightarrow> Box [] | Some u \<Rightarrow> Words (user_username u))"

definition ChangePasswordDialog_view :: "password_dialog \<Rightarrow> (User, string \<times> string, unit fetch_result) form_event view" where
  "ChangePasswordDialog_view d =
     Box [Icon ''KeyRound'',
       dialog_head ''Change Password'' [Words ''Set a new password for '', username_view (pw_user d)],
       labelled ''New Password *'' (TextBox False (pw_password d) (\<lambda>s. FormEdited (s, pw_confirm d))),
       labelled ''Confirm Password *'' (TextBox False (pw_confirm d) (\<lambda>s. FormEdited (pw_password d, s))),
       error_line (pw_error d),
       dialog_foot (pw_submitting d) (if pw_submitting d then ''Saving'' @ ellipsis else ''Change Password'')]"

definition DeleteUser_view :: "user_confirm \<Rightarrow> (User, unit, unit fetch_result) form_event view" where
  "DeleteUser_view d =
     Box [dialog_head ''Delete User'' [],
       Box [Words ''Are you sure you want to delete '', username_view (uc_user d), Words ''? This action cannot be undone.''],
       error_line (uc_error d),
       dialog_foot (uc_loading d) (if uc_loading d then ''Deleting'' @ ellipsis else ''Delete'')]"

definition Reset2FADialog_view :: "user_confirm \<Rightarrow> (User, unit, unit fetch_result) form_event view" where
  "Reset2FADialog_view d =
     Box [Icon ''ShieldOff'',
       dialog_head ''Reset Two-Factor Authentication'' [Words ''Clear 2FA for '', username_view (uc_user d)],
       Words (''This deletes the user's authenticator secret and all recovery codes. They will be able to sign in with their ''
         @ ''password alone until they re-enroll a new authenticator.''),
       Words (''Verify the user's identity out-of-band (phone, in person) before confirming. Anyone with a valid password ''
         @ ''becomes able to sign in until they re-enroll.''),
       error_line (uc_error d),
       dialog_foot (uc_loading d) (if uc_loading d then ''Resetting'' @ ellipsis else ''Reset 2FA'')]"

interpretation user_shown: form_view user_ops "\<lambda>ev. ev" UserDialog_view
  by unfold_locales (auto simp: user_ops_def UserDialog_view_def SegBtn_def view_parts Let_def)

interpretation password_shown: form_view password_ops "\<lambda>ev. ev" ChangePasswordDialog_view
  by unfold_locales (auto simp: password_ops_def ChangePasswordDialog_view_def username_view_def view_parts split: option.splits)

interpretation delete_user_shown: form_view delete_user_ops "\<lambda>ev. ev" DeleteUser_view
  by unfold_locales (auto simp: delete_user_ops_def DeleteUser_view_def username_view_def view_parts split: option.splits)

interpretation reset_shown: form_view reset_ops "\<lambda>ev. ev" Reset2FADialog_view
  by unfold_locales (auto simp: reset_ops_def Reset2FADialog_view_def username_view_def view_parts split: option.splits)

subsection \<open>The page\<close>

datatype users_ui =
    AddUserClicked
  | UserClicked user_action User
  | ListChanged users_event
  | UserUi "(User option, user_edit, User fetch_result) form_event"
  | PasswordUi "(User, string \<times> string, unit fetch_result) form_event"
  | DeleteUserUi "(User, unit, unit fetch_result) form_event"
  | ResetUi "(User, unit, unit fetch_result) form_event"

fun user_action_words :: "user_action \<Rightarrow> users_ui view list" where
  "user_action_words EditUser = [Icon ''Pencil'', Words ''Edit'']"
| "user_action_words EnableUser = [Icon ''Power'', Words ''Enable'']"
| "user_action_words DisableUser = [Icon ''PowerOff'', Words ''Disable'']"
| "user_action_words ChangePassword = [Icon ''KeyRound'', Words ''Change Password'']"
| "user_action_words Reset2FA = [Icon ''ShieldOff'', Words ''Reset 2FA'']"
| "user_action_words DeleteUser = [Icon ''Trash2'', Words ''Delete'']"

text \<open>Who is looking: what they may do, and which account is theirs.\<close>

record viewer =
  vw_admin :: bool
  vw_canResetCreds :: bool
  vw_currentUserID :: string

definition user_row_view :: "(string \<Rightarrow> string) \<Rightarrow> viewer \<Rightarrow> User \<Rightarrow> users_ui view" where
  "user_row_view fmtDate v u =
     Box [only_if (\<not> user_enabled u) (Icon ''opacity-50''),
       (case full_name u of None \<Rightarrow> Box [] | Some n \<Rightarrow> Words n), Words (user_username u),
       Words (nullish (user_email u) em_dash),
       Words (RoleBadge (user_role_string (user_role u))), Words (ProviderBadge (user_provider u)),
       Words (fmtDate (user_createdAt u)),
       only_if (vw_admin v) (Words (if user_enabled u then ''Enabled'' else ''Disabled'')),
       Box (map (\<lambda>(a, on). Button (\<not> on) (user_action_words a) (UserClicked a u))
         (user_menu (vw_admin v) (vw_canResetCreds v) (vw_currentUserID v) u))]"

definition users_table_view :: "(string \<Rightarrow> string) \<Rightarrow> viewer \<Rightarrow> users_table \<Rightarrow> users_ui view" where
  "users_table_view fmtDate v table =
     Box [Box ([Words ''User'', Words ''Email'', Words ''Role'', Words ''Provider'', Words ''Created'']
         @ (if vw_admin v then [Words ''Status''] else [])),
       (case table of
          UsersLoading \<Rightarrow> Words (''Loading'' @ ellipsis)
        | NoUserMatches \<Rightarrow> Words ''No users match your filters.''
        | NoUsersYet \<Rightarrow> Box [Words ''No users yet. Click '', Words ''Add User'', Words '' to get started.'']
        | UserRows users \<Rightarrow> Box (map (user_row_view fmtDate v) users))]"

text \<open>The page with the targets of its three confirmations, and the states of the mounted dialogs.\<close>

record users_screen =
  us_page :: users_page
  us_passwordTarget :: "User option"
  us_deleteTarget :: "User option"
  us_resetTOTPTarget :: "User option"

definition users_screen_init :: users_screen where
  "users_screen_init =
     \<lparr>us_page = users_page_init, us_passwordTarget = None, us_deleteTarget = None, us_resetTOTPTarget = None\<rparr>"

record user_dialogs =
  uds_user :: user_dialog
  uds_password :: password_dialog
  uds_delete :: user_confirm
  uds_reset :: user_confirm

definition user_dialogs_view :: "users_screen \<Rightarrow> user_dialogs \<Rightarrow> users_ui view" where
  "user_dialogs_view p ds =
     Box [dialog_view (user_dialog_open (us_page p)) (UserUi FormClosed) (map_view UserUi (UserDialog_view (uds_user ds))),
       dialog_view (us_passwordTarget p \<noteq> None) (PasswordUi FormClosed)
         (map_view PasswordUi (ChangePasswordDialog_view (uds_password ds))),
       dialog_view (us_deleteTarget p \<noteq> None) (DeleteUserUi FormClosed)
         (map_view DeleteUserUi (DeleteUser_view (uds_delete ds))),
       dialog_view (us_resetTOTPTarget p \<noteq> None) (ResetUi FormClosed)
         (map_view ResetUi (Reset2FADialog_view (uds_reset ds)))]"

text \<open>The event of the search field is that its text has settled, after the timer of the page.\<close>

definition users_filters_view :: "users_page \<Rightarrow> users_ui view" where
  "users_filters_view p =
     Box [SearchInput (up_search p) (\<lambda>s. ListChanged (SearchSettled s)),
       FilterDropdown False ''Role'' ROLE_OPTIONS (up_roleFilter p) (\<lambda>r. ListChanged (RolePicked r)),
       FilterDropdown False ''Provider'' PROVIDER_OPTIONS (up_providerFilter p) (\<lambda>r. ListChanged (ProviderPicked r)),
       FilterDropdown False ''Sort'' user_SORT_OPTIONS (up_sortOption p) (\<lambda>r. ListChanged (SortPicked r))]"

definition users_view ::
  "(string \<Rightarrow> string) \<Rightarrow> (int \<Rightarrow> string) \<Rightarrow> viewer \<Rightarrow> UserList query \<times> user_dialogs \<Rightarrow> users_screen \<Rightarrow> users_ui view" where
  "users_view fmtDate fmtInt v = (\<lambda>(q, ds) p.
     let totalCount = data_total (q_data q) in
     Box [breadcrumb_view [(''Settings'', Some ''/settings''), (''Users'', None)],
       Words ''Users'', Words ''Manage user accounts and access.'',
       only_if (vw_admin v) (Button False [Icon ''Plus'', Words ''Add User''] AddUserClicked),
       users_filters_view (us_page p),
       query_error (q_error q), error_line (up_mutationError (us_page p)),
       users_table_view fmtDate v (users_table_of (q_loading q) (data_items (q_data q)) (us_page p)),
       footer_view fmtInt ''No users'' ''user'' totalCount (up_page (us_page p)) (\<lambda>b. ListChanged (PageTurned b)),
       user_dialogs_view p ds])"

text \<open>What an event does to the page at once; enabling and disabling are requests (\<open>handleToggleEnabled\<close>).\<close>

fun users_click :: "int \<Rightarrow> users_ui \<Rightarrow> users_screen \<Rightarrow> users_screen" where
  "users_click totalCount AddUserClicked p = p\<lparr>us_page := handleAdd (us_page p)\<rparr>"
| "users_click totalCount (UserClicked EditUser u) p = p\<lparr>us_page := (us_page p)\<lparr>up_editTarget := Some u\<rparr>\<rparr>"
| "users_click totalCount (UserClicked EnableUser u) p = p"
| "users_click totalCount (UserClicked DisableUser u) p = p"
| "users_click totalCount (UserClicked ChangePassword u) p = p\<lparr>us_passwordTarget := Some u\<rparr>"
| "users_click totalCount (UserClicked Reset2FA u) p = p\<lparr>us_resetTOTPTarget := Some u\<rparr>"
| "users_click totalCount (UserClicked DeleteUser u) p = p\<lparr>us_deleteTarget := Some u\<rparr>"
| "users_click totalCount (ListChanged ev) p = p\<lparr>us_page := users_step totalCount ev (us_page p)\<rparr>"
| "users_click totalCount (UserUi ev) p = (if ev = FormClosed then p\<lparr>us_page := handleCloseDialog (us_page p)\<rparr> else p)"
| "users_click totalCount (PasswordUi ev) p = (if ev = FormClosed then p\<lparr>us_passwordTarget := None\<rparr> else p)"
| "users_click totalCount (DeleteUserUi ev) p = (if ev = FormClosed then p\<lparr>us_deleteTarget := None\<rparr> else p)"
| "users_click totalCount (ResetUi ev) p = (if ev = FormClosed then p\<lparr>us_resetTOTPTarget := None\<rparr> else p)"

definition users_ui_step :: "UserList query \<times> user_dialogs \<Rightarrow> users_ui \<Rightarrow> users_screen \<Rightarrow> users_screen" where
  "users_ui_step = (\<lambda>(q, _). users_click (data_total (q_data q)))"

subsection \<open>Who can do what\<close>

lemma user_row_offers:
  "offers (user_row_view fmtDate v u) =
     {UserClicked a u | a. (a, True) \<in> set (user_menu (vw_admin v) (vw_canResetCreds v) (vw_currentUserID v) u)}"
  by (auto simp: user_row_view_def split: option.splits prod.splits if_splits)

lemma users_table_offers:
  "offers (users_table_view fmtDate v (users_table_of loading users p)) \<subseteq>
     {UserClicked a u | a u. u \<in> set users \<and> (a, True) \<in> set (user_menu (vw_admin v) (vw_canResetCreds v) (vw_currentUserID v) u)}"
  by (auto simp: users_table_view_def users_table_of_def user_row_offers)

lemma users_filter_offers: "offers (users_filters_view p) \<subseteq> range ListChanged"
  by (auto simp: users_filters_view_def)

lemma users_view_offers:
  "offers (users_view fmtDate fmtInt v (q, ds) p) \<subseteq>
     (if vw_admin v then {AddUserClicked} else {}) \<union> range ListChanged
     \<union> {UserClicked a u | a u. u \<in> set (data_items (q_data q))
          \<and> (a, True) \<in> set (user_menu (vw_admin v) (vw_canResetCreds v) (vw_currentUserID v) u)}
     \<union> offers (user_dialogs_view p ds)"
  using users_table_offers [of fmtDate v "q_loading q" "data_items (q_data q)" "us_page p"] users_filter_offers [of "us_page p"]
    footer_offers [of fmtInt "''No users''" "''user''" "data_total (q_data q)" "up_page (us_page p)" "\<lambda>b. ListChanged (PageTurned b)"]
  by (auto simp: users_view_def Let_def)

lemma users_step_keeps_dialogs [simp]:
  "up_addOpen (users_step n ev p) = up_addOpen p" "up_editTarget (users_step n ev p) = up_editTarget p"
  by (cases ev; simp)+

text \<open>Without \<open>users:edit\<close>: the list changes, no dialog ever opens.\<close>

definition users_closed :: "users_screen \<Rightarrow> bool" where
  "users_closed p \<longleftrightarrow> \<not> user_dialog_open (us_page p) \<and> us_passwordTarget p = None \<and> us_deleteTarget p = None \<and> us_resetTOTPTarget p = None"

lemma users_view_reader:
  assumes "\<not> vw_admin v" and "users_closed p"
  shows "offers (users_view fmtDate fmtInt v q p) \<subseteq> range ListChanged"
proof -
  obtain data ds where q: "q = (data, ds)" by (cases q)
  have "offers (user_dialogs_view p ds) = {}" using assms(2) by (simp add: user_dialogs_view_def users_closed_def)
  then show ?thesis using users_view_offers [of fmtDate fmtInt v data ds p] assms(1) unfolding q by (auto simp: user_menu_def)
qed

lemma users_reader:
  assumes v: "\<not> vw_admin v" and u: "used (users_view fmtDate fmtInt v) users_ui_step users_screen_init p"
  shows "offers (users_view fmtDate fmtInt v q p) \<subseteq> range ListChanged"
proof -
  have "users_closed p"
  proof (rule used_invariant [OF u])
    show "users_closed users_screen_init"
      by (simp add: users_closed_def users_screen_init_def user_dialog_open_def users_page_init_def)
  next
    fix t e q assume "users_closed t" "e \<in> offers (users_view fmtDate fmtInt v q t)"
    with users_view_reader [OF v, of t fmtDate fmtInt q] show "users_closed (users_ui_step q e t)"
      by (auto simp: users_ui_step_def users_closed_def user_dialog_open_def split: prod.splits)
  qed
  then show ?thesis by (rule users_view_reader [OF v])
qed

text \<open>Without \<open>users:credentials\<close>: an administrator of users never sees a password or reset dialog.\<close>

definition credentials_closed :: "users_screen \<Rightarrow> bool" where
  "credentials_closed p \<longleftrightarrow> us_passwordTarget p = None \<and> us_resetTOTPTarget p = None"

lemma credentials_kept:
  assumes "\<not> vw_canResetCreds v" and "credentials_closed p" and "e \<in> offers (users_view fmtDate fmtInt v q p)"
  shows "credentials_closed (users_ui_step q e p) \<and> e \<notin> range PasswordUi \<union> range ResetUi"
proof -
  obtain data ds where q: "q = (data, ds)" by (cases q)
  from assms(3) users_view_offers [of fmtDate fmtInt v data ds p]
  consider "e = AddUserClicked" | ev where "e = ListChanged ev"
    | a u where "e = UserClicked a u" "(a, True) \<in> set (user_menu (vw_admin v) (vw_canResetCreds v) (vw_currentUserID v) u)"
    | "e \<in> offers (user_dialogs_view p ds)"
    unfolding q by (auto split: if_splits)
  then show ?thesis
    using assms(1,2) unfolding q users_ui_step_def
    by cases (auto simp: credentials_closed_def user_menu_def user_dialogs_view_def split: if_splits)
qed

lemma credentials_stay_closed:
  assumes "\<not> vw_canResetCreds v" and "used (users_view fmtDate fmtInt v) users_ui_step users_screen_init p"
  shows "credentials_closed p"
proof (rule used_invariant [OF assms(2)])
  show "credentials_closed users_screen_init" by (simp add: credentials_closed_def users_screen_init_def)
qed (use credentials_kept [OF assms(1)] in blast)

end
