(* ===== verification/BulkViews.thy ===== *)
theory BulkViews
  imports Views BulkActions
begin

section \<open>What the dialogs that act on a selection show\<close>

text \<open>
  The views of \<open>BulkDeleteEndpointsDialog\<close>, \<open>BulkTagEndpointsDialog\<close>, \<open>BulkDeleteCertificatesDialog\<close>, \<open>DeleteEndpointDialog\<close>,
  \<open>DeleteCertificateDialog\<close> and \<open>BulkActionBar\<close> over the states of \<open>BulkActions\<close>. What a bulk dialog owes to its phases is the
  locale \<open>bulk_view\<close>: nothing can be pressed while requests are under way, and the summary names every row that failed, with its error.
\<close>

subsection \<open>The bar\<close>

text \<open>An action is its label, whether it is disabled, and its event.\<close>

definition BulkActionBar_view :: "nat \<Rightarrow> 'e \<Rightarrow> (string \<times> bool \<times> 'e) list \<Rightarrow> 'e view" where
  "BulkActionBar_view selected onClear actions =
     (case BulkActionBar selected (map fst actions) of
        None \<Rightarrow> Box []
      | Some (n, ariaLabel, labels) \<Rightarrow>
          Box (Icon ''CheckCircle2'' # Words (show_int (int n)) # Words ''Selected'' # Button False [Icon ''X''] onClear
            # map (\<lambda>(label, disabled, onClick). Button disabled [Words label] onClick) actions))"

subsection \<open>Parts of the bulk dialogs\<close>

datatype 'e bulk_ui = BulkEdited 'e | BulkConfirmed | BulkClosed

definition bulk_running :: "string \<Rightarrow> nat \<Rightarrow> string \<Rightarrow> 'e view" where
  "bulk_running doing n noun =
     Box [Icon ''Loader2'',
       Words (doing @ '' '' @ show_int (int n) @ '' '' @ plural (int n) noun None @ ellipsis)]"

definition bulk_summary :: "string \<Rightarrow> string \<Rightarrow> bulk_result list \<Rightarrow> 'e view" where
  "bulk_summary did could_not results =
     (let fs = failed results in
      Box [Words (show_int (int (succeeded results)) @ '' '' @ did),
        only_if (length fs > 0) (Words (show_int (int (length fs)) @ '' failed'')),
        only_if (length fs > 0)
          (Box [Icon ''AlertCircle'', Words could_not,
             Box (map (\<lambda>r. Box [Words (result_name r), Words (nullish (result_error r) [])]) fs)])])"

text \<open>The buttons at the foot: by the phase, the first phase with its own.\<close>

definition bulk_foot :: "Phase \<Rightarrow> bool \<Rightarrow> string \<Rightarrow> 'e bulk_ui view" where
  "bulk_foot phase disabled label =
     (case phase of
        ChoosePhase \<Rightarrow> Box [Button False [Words ''Cancel''] BulkClosed, Button disabled [Words label] BulkConfirmed]
      | RunningPhase \<Rightarrow> Button True [Words (''Working'' @ ellipsis)] BulkClosed
      | SummaryPhase \<Rightarrow> Button False [Words ''Close''] BulkClosed)"

definition bulk_preview :: "('r \<Rightarrow> 'e view) \<Rightarrow> 'r list \<Rightarrow> 'e view" where
  "bulk_preview line rows =
     (case preview rows of
        (first, others) \<Rightarrow>
          Box [Box (map line first),
            (case others of None \<Rightarrow> Box [] | Some n \<Rightarrow> Words (ellipsis @ ''and '' @ show_int (int n) @ '' more''))])"

subsection \<open>The three dialogs\<close>

definition BulkDeleteEndpoints_view :: "EndpointListItem list \<Rightarrow> delete_dialog \<Rightarrow> unit bulk_ui view" where
  "BulkDeleteEndpoints_view endpoints d =
     Box [Words (delete_title endpoints d),
       (case delete_phase d of
          ChoosePhase \<Rightarrow>
            Box [Words (''You're about to delete '' @ show_int (int (length endpoints)) @ '' ''
                @ plural (int (length endpoints)) ''endpoint'' None @ ''. This action cannot be undone.''),
              bulk_preview (\<lambda>ep. Box [Words (endpointListItem_name ep),
                  only_if (endpointListItem_dnsName ep \<noteq> []) (Words ('' '' @ middle_dot @ '' '' @ endpointListItem_dnsName ep))])
                endpoints]
        | RunningPhase \<Rightarrow> bulk_running ''Deleting'' (length endpoints) ''endpoint''
        | SummaryPhase \<Rightarrow> bulk_summary ''deleted'' ''Could not delete'' (delete_results d)),
       bulk_foot (delete_phase d) False (''Delete '' @ show_int (int (length endpoints)))]"

definition tag_pick_view :: "CategoryWithTags list \<Rightarrow> tag_dialog \<Rightarrow> string bulk_ui view" where
  "tag_pick_view categories d =
     (if categories = [] then Words ''No tags defined yet. Create tags in Settings before using bulk tagging.''
      else Box (map (\<lambda>cat. Box [Words (tagCategory_name cat),
        Box (map (\<lambda>t. Button False
          ((if js_set_has (tag_picked d) (tag_id t) then [Icon ''border-primary''] else []) @ [Words (tag_name t)])
          (BulkEdited (tag_id t))) (categoryWithTags_tags cat))]) categories))"

definition BulkTagEndpoints_view :: "CategoryWithTags list \<Rightarrow> EndpointListItem list \<Rightarrow> tag_dialog \<Rightarrow> string bulk_ui view" where
  "BulkTagEndpoints_view categories endpoints d =
     Box [Words (tag_title endpoints d),
       (case tag_phase d of
          ChoosePhase \<Rightarrow>
            Box [Words ''Selected tags will be added to each endpoint. Existing tags are preserved.'',
              tag_pick_view categories d]
        | RunningPhase \<Rightarrow> bulk_running ''Tagging'' (length endpoints) ''endpoint''
        | SummaryPhase \<Rightarrow> bulk_summary ''updated'' ''Could not tag'' (tag_results d)),
       bulk_foot (tag_phase d) (length (tag_picked d) = 0) (tag_button d)]"

definition BulkDeleteCertificates_view :: "CertificateListItem list \<Rightarrow> purge_dialog \<Rightarrow> bool bulk_ui view" where
  "BulkDeleteCertificates_view certificates d =
     Box [Words (purge_title certificates d),
       (case purge_phase d of
          ChoosePhase \<Rightarrow>
            Box [Words (''You're about to delete '' @ show_int (int (length certificates)) @ '' ''
                @ plural (int (length certificates)) ''certificate'' None @ ''. This action cannot be undone.''),
              bulk_preview (\<lambda>cert. Box
                [Words (if certificateListItem_commonName cert \<noteq> [] then certificateListItem_commonName cert else em_dash),
                 Words ('' '' @ middle_dot @ '' '' @ take 16 (certificateListItem_fingerprint cert) @ ellipsis)]) certificates,
              TickBox False (purge_flag d) BulkEdited,
              Words (''Also purge references (scan history and endpoint attachments) for any referenced certificates.''),
              Words (if purge_flag d
                then ''Referenced certificates will have their references removed and be deleted. ''
                  @ ''Issuer certificates are never deletable and will be reported below.''
                else ''Certificates still referenced by endpoints or scan history are skipped and reported below '' @ em_dash
                  @ '' tick the box above to purge and delete them too.'')]
        | RunningPhase \<Rightarrow> bulk_running ''Deleting'' (length certificates) ''certificate''
        | SummaryPhase \<Rightarrow> bulk_summary ''deleted'' ''Could not delete'' (purge_results d)),
       bulk_foot (purge_phase d) False (purge_button certificates d)]"

subsection \<open>What a bulk dialog owes to its state\<close>

locale bulk_view = bulk_dialog ops
  for ops :: "('d, 'r, 'e) bulk_ops" +
  fixes results :: "'d \<Rightarrow> bulk_result list" and key :: "'r \<Rightarrow> string" and name :: "'r \<Rightarrow> string"
    and render :: "'r list \<Rightarrow> 'd \<Rightarrow> 'e bulk_ui view"
  assumes kept: "results (op_settled ops rows outs d) = settled_results key name rows outs"
    and locked: "op_phase ops d = RunningPhase \<Longrightarrow> offers (render rows d) = {}"
    and closable: "op_phase ops d \<noteq> RunningPhase \<Longrightarrow> BulkClosed \<in> set (clicks (render rows d))"
    and confirmable: "BulkConfirmed \<in> offers (render rows d) \<Longrightarrow> op_phase ops d = ChoosePhase"
    and told: "op_phase ops d = SummaryPhase \<Longrightarrow> r \<in> set (failed (results d)) \<Longrightarrow>
      result_name r \<in> set (words_of (render rows d)) \<and> the (result_error r) \<in> set (words_of (render rows d))"
begin

text \<open>After the answers to a batch every row whose answer carries an error is on the screen, with that error.\<close>

lemma failures_told:
  assumes pending: "bw_pending (bulk_run ops events) = Some rows" and n: "length answers = length rows"
    and i: "i < length rows" and bad: "reported (answers ! i)"
    and w: "w = bulk_step ops (Answered answers) (bulk_run ops events)"
  shows "name (rows ! i) \<in> set (words_of (render shown_rows (bw_dialog w)))
    \<and> (\<exists>err. snd (read_answer (client_load Map.empty) (answers ! i)) = Inl err \<and> error_text err \<noteq> []
         \<and> error_text err \<in> set (words_of (render shown_rows (bw_dialog w))))"
proof -
  let ?r = "settled_result key name (rows ! i) (snd (read_answer (client_load Map.empty) (answers ! i)))"
  have d: "bw_dialog w = op_settled ops rows (allSettled answers) (bw_dialog (bulk_run ops events))"
    unfolding w using pending n by simp
  have "(rows ! i, answers ! i) \<in> set (zip rows answers)" using i n by (auto simp: set_zip)
  then have "?r \<in> set (failed (results (bw_dialog w)))"
    unfolding d kept failed_settled using bad by (force simp: image_iff)
  moreover have "op_phase ops (bw_dialog w) = SummaryPhase" unfolding d by (rule settled_summary)
  ultimately have "result_name ?r \<in> set (words_of (render shown_rows (bw_dialog w)))"
    "the (result_error ?r) \<in> set (words_of (render shown_rows (bw_dialog w)))" using told by blast+
  moreover have "the (result_error ?r) \<noteq> []" by (rule truthy_text) (simp add: truthy_settled bad)
  moreover have "truthy (result_error ?r)" by (simp add: truthy_settled bad)
  ultimately show ?thesis by (auto simp: settled_result_def split: sum.splits)
qed

text \<open>A confirmation the view offers is one the dialog takes; while requests are under way it offers nothing.\<close>

lemma offered_confirm:
  "bw_pending (bulk_run ops events) \<noteq> None \<Longrightarrow> offers (render rows (bw_dialog (bulk_run ops events))) = {}"
  using inv_run [of events] locked by (simp add: bulk_inv_def)

end

lemma failed_error: "r \<in> set (failed rs) \<Longrightarrow> \<exists>m. result_error r = Some m"
  by (auto simp: failed_def truthy_def)

lemma summary_lines:
  "failed rs \<noteq> [] \<Longrightarrow> words_of (bulk_summary did could_not rs) =
     [show_int (int (succeeded rs)) @ '' '' @ did, show_int (int (length (failed rs))) @ '' failed'', could_not]
     @ concat (map (\<lambda>r. [result_name r, nullish (result_error r) []]) (failed rs))"
  by (simp add: bulk_summary_def only_if_def Let_def o_def)

lemma summary_told:
  assumes "r \<in> set (failed rs)"
  shows "result_name r \<in> set (words_of (bulk_summary did could_not rs))
    \<and> the (result_error r) \<in> set (words_of (bulk_summary did could_not rs))"
proof -
  obtain m where m: "result_error r = Some m" using failed_error [OF assms] by blast
  have "failed rs \<noteq> []" using assms by auto
  moreover have "set [result_name r, nullish (result_error r) []]
      \<subseteq> set (concat (map (\<lambda>r. [result_name r, nullish (result_error r) []]) (failed rs)))"
    using assms by (fastforce simp only: set_concat set_map)
  ultimately show ?thesis unfolding summary_lines [OF \<open>failed rs \<noteq> []\<close>] using m by simp
qed

lemma bulk_parts_offers [simp]:
  "offers (bulk_running doing n noun) = {}" "offers (bulk_summary did could_not rs) = {}"
  by (auto simp: bulk_running_def bulk_summary_def only_if_def Let_def)

lemma bulk_foot_offers:
  "offers (bulk_foot phase off label) =
     (case phase of ChoosePhase \<Rightarrow> insert BulkClosed (if off then {} else {BulkConfirmed}) | RunningPhase \<Rightarrow> {} | SummaryPhase \<Rightarrow> {BulkClosed})"
  by (cases phase) (auto simp: bulk_foot_def)

lemma bulk_foot_closes: "phase \<noteq> RunningPhase \<Longrightarrow> BulkClosed \<in> set (clicks (bulk_foot phase off label))"
  by (cases phase) (auto simp: bulk_foot_def)

lemma preview_offers: "(\<And>r. offers (line r) = {}) \<Longrightarrow> offers (bulk_preview line rows) = {}"
  by (auto simp: bulk_preview_def split: prod.splits option.splits)

lemma tag_pick_offers: "offers (tag_pick_view categories d) \<subseteq> range BulkEdited"
  by (auto simp: tag_pick_view_def)

interpretation delete_shown: bulk_view delete_ops delete_results endpointListItem_id endpointListItem_name BulkDeleteEndpoints_view
  by unfold_locales
    (auto simp: delete_ops_def delete_settled_def BulkDeleteEndpoints_view_def bulk_foot_offers bulk_foot_closes preview_offers
      summary_told split: Phase.splits)

interpretation tag_shown_bulk: bulk_view tag_ops tag_results endpointListItem_id endpointListItem_name
  "BulkTagEndpoints_view categories" for categories
proof unfold_locales
  fix rows d
  assume "BulkConfirmed \<in> offers (BulkTagEndpoints_view categories rows d)"
  then show "op_phase tag_ops d = ChoosePhase"
    using tag_pick_offers [of categories d]
    by (auto simp: tag_ops_def BulkTagEndpoints_view_def bulk_foot_offers split: Phase.splits)
qed (auto simp: tag_ops_def tag_settled_def BulkTagEndpoints_view_def bulk_foot_offers bulk_foot_closes summary_told split: Phase.splits)

interpretation purge_shown: bulk_view purge_ops purge_results certificateListItem_fingerprint certificate_label
  BulkDeleteCertificates_view
  by unfold_locales
    (auto simp: purge_ops_def purge_settled_def BulkDeleteCertificates_view_def bulk_foot_offers bulk_foot_closes preview_offers
      summary_told split: Phase.splits)

subsection \<open>Deleting one row\<close>

datatype confirm_ui = DeletePressed | ConfirmClosed | PurgeTicked bool

text \<open>The endpoint as its page passes it: the name and the DNS name, if any.\<close>

definition DeleteEndpoint_view :: "(string \<times> string option) option \<Rightarrow> confirm_dialog \<Rightarrow> confirm_ui view" where
  "DeleteEndpoint_view endpoint d =
     Box [Words ''Delete Endpoint'',
       Box [Words ''Are you sure you want to delete '',
         (case endpoint of None \<Rightarrow> Box [] | Some (name, _) \<Rightarrow> Words name),
         (case endpoint of
            Some (_, Some dns) \<Rightarrow> if dns \<noteq> [] then Words ('' ('' @ dns @ '')'') else Box []
          | _ \<Rightarrow> Box []),
         Words ''? This action cannot be undone.''],
       error_line (confirm_error d),
       Button (confirm_loading d) [Words ''Cancel''] ConfirmClosed,
       Button (confirm_loading d) [Words (if confirm_loading d then ''Deleting'' @ ellipsis else ''Delete'')] DeletePressed]"

text \<open>A certificate as its page passes it: the fingerprint and the common name, if any.\<close>

definition DeleteCertificate_view ::
  "bool \<Rightarrow> CertReferences option \<Rightarrow> (string \<times> string option) option \<Rightarrow> cert_dialog \<Rightarrow> confirm_ui view" where
  "DeleteCertificate_view refsLoading refs cert d =
     Box [Words ''Delete Certificate'',
       Box [Words ''Are you sure you want to delete '',
         (case cert of None \<Rightarrow> Box [] | Some (fp, cn) \<Rightarrow> Words (if truthy cn then the cn else fp)),
         Words ''? This action cannot be undone.''],
       only_if refsLoading (Words (''Checking references'' @ ellipsis)),
       only_if (isIssuer refs)
         (let n = (case refs of None \<Rightarrow> 0 | Some r \<Rightarrow> certReferences_issuedCerts r) in
          Box [Icon ''ShieldAlert'', Words ''This certificate is the issuer of '',
            Words (show_int n @ '' other '' @ plural n ''certificate'' None),
            Words ('' and can'' @ [CHR 0xE2, CHR 0x80, CHR 0x99] @ ''t be deleted. Delete those first.'')]),
       only_if (hasBlockingRefs refs)
         (Box [Icon ''AlertTriangle'', Words ''This certificate is still referenced by:'', Box (map Words (refLines refs)),
            TickBox (confirm_loading d) (purgeChecked d) PurgeTicked,
            Words ''Also remove these references (scan history and endpoint attachments) and delete the certificate.'']),
       error_line (confirm_error d),
       Button (confirm_loading d) [Words ''Cancel''] ConfirmClosed,
       Button (deleteDisabled refsLoading refs d) [Words (deleteLabel refs d)] DeletePressed]"

text \<open>
  The delete button of the certificate dialog can be pressed only when the references are known or could not be loaded, when there
  is no certificate issued by this one, and when every kind of reference that is left is listed above a ticked box.
\<close>

lemma delete_certificate_pressable:
  "DeletePressed \<in> offers (DeleteCertificate_view refsLoading refs cert d) \<longleftrightarrow> \<not> deleteDisabled refsLoading refs d"
  by (auto simp: DeleteCertificate_view_def Let_def split: option.splits prod.splits)

lemma delete_certificate_informed:
  assumes "DeletePressed \<in> offers (DeleteCertificate_view refsLoading refs cert d)"
  shows "\<not> isIssuer refs \<and> (hasBlockingRefs refs \<longrightarrow> purgeChecked d
    \<and> set (refLines refs) \<subseteq> set (words_of (DeleteCertificate_view refsLoading refs cert d)))"
  using assms unfolding delete_certificate_pressable
  by (auto simp: deleteDisabled_def DeleteCertificate_view_def only_if_def Let_def)



end
