(* ===== verification/CertificateViews.thy ===== *)
theory CertificateViews
  imports BulkViews CertificateList
begin

section \<open>What the certificate list shows (\<open>pages/certificates/CertificatesPage.tsx\<close>)\<close>

text \<open>
  The views of a row and a card, of the cards with the counts, of the dialog that ingests a certificate and of the page, and what each
  control does to the page. The narrow and the wide layout are both rendered, one of them hidden by a class. Shown: without \<open>certs:edit\<close> no
  sequence of clicks opens a dialog; every row of the page can be deleted by its own menu; and the ingest button follows the request.
\<close>

subsection \<open>Rows and cards\<close>

datatype ingest_ui = PemTyped string | ChooseFileClicked | IngestPressed | IngestClosed

datatype certs_ui =
    IngestClicked
  | StatusPicked string
  | OrderPicked string
  | CertSearchSettled string
  | CertToggled CertificateListItem
  | PageToggled
  | SelectionCleared
  | BulkDeleteClicked
  | DeleteCertClicked CertificateListItem
  | CertNavigated string
  | CertPageTurned page_button
  | IngestUi ingest_ui
  | DeleteCertUi confirm_ui
  | PurgeUi "bool bulk_ui"

definition CertActionsMenu_view :: "bool \<Rightarrow> CertificateListItem \<Rightarrow> certs_ui view" where
  "CertActionsMenu_view admin cert =
     Box (map (\<lambda>(label, action). case action of
         NavigateTo p \<Rightarrow> Button False [Icon ''ExternalLink'', Words label] (CertNavigated p)
       | AskDelete fp \<Rightarrow> Button False [Icon ''Trash2'', Words label] (DeleteCertClicked cert)) (CertActionsMenu admin cert))"

definition CertRow_view :: "(string \<Rightarrow> string) \<Rightarrow> int \<Rightarrow> bool \<Rightarrow> bool \<Rightarrow> CertificateListItem \<Rightarrow> certs_ui view" where
  "CertRow_view fmtDate now admin selected cert =
     (let r = CertRow now admin selected cert in
      Box [TickBox False (certView_selected r) (\<lambda>_. CertToggled cert),
        LinkTo (certView_link r) [Words (certView_name r)], Words (certView_fingerprint r),
        Words (certView_sans r),
        Words (fmtDate (certificateListItem_notAfter cert)), badge_view (certView_pill r),
        CertActionsMenu_view admin cert])"

definition CertCard_view :: "(string \<Rightarrow> string) \<Rightarrow> int \<Rightarrow> bool \<Rightarrow> bool \<Rightarrow> CertificateListItem \<Rightarrow> certs_ui view" where
  "CertCard_view fmtDate now admin selected cert =
     (let r = CertCard_list now admin selected cert in
      Box [TickBox False (certView_selected r) (\<lambda>_. CertToggled cert),
        LinkTo (certView_link r) [Words (certView_name r)], Words (certView_fingerprint r),
        badge_view (certView_pill r),
        CertActionsMenu_view admin cert,
        Words ''Expires:'', Words (fmtDate (certificateListItem_notAfter cert)), Words ''SANs:'', Words (certView_sans r)])"

subsection \<open>The cards with the counts\<close>

fun SIGNAL_BORDER :: "SignalColor \<Rightarrow> string" where
  "SIGNAL_BORDER SignalNeutral = ''border-l-foreground/20''"
| "SIGNAL_BORDER SignalGreen = ''border-l-green-500''"
| "SIGNAL_BORDER SignalAmber = ''border-l-amber-500''"
| "SIGNAL_BORDER SignalRed = ''border-l-red-500''"

fun SIGNAL_VALUE :: "SignalColor \<Rightarrow> string" where
  "SIGNAL_VALUE SignalNeutral = ''text-foreground''"
| "SIGNAL_VALUE SignalGreen = ''text-green-600''"
| "SIGNAL_VALUE SignalAmber = ''text-amber-600''"
| "SIGNAL_VALUE SignalRed = ''text-red-600''"

text \<open>The colours of a card: the one of the active filter does not show its signal.\<close>

definition StatCard_view :: "string \<Rightarrow> stat_card \<Rightarrow> 'e \<Rightarrow> 'e view" where
  "StatCard_view icon crd onClick =
     (let accent = (if stat_active crd then ''text-primary-foreground'' else SIGNAL_VALUE (stat_signal crd)) in
      Button False
        [Icon (if stat_active crd then ''bg-primary'' else SIGNAL_BORDER (stat_signal crd)), Icon icon, Words (stat_label crd),
         Icon accent, Words (case stat_value crd of None \<Rightarrow> em_dash | Some n \<Rightarrow> show_int n)]
        onClick)"

definition cert_stat_icons :: "(string \<times> string) list" where
  "cert_stat_icons = [(''Shield'', []), (''Clock'', ''warning''), (''AlertTriangle'', ''critical''), (''ShieldOff'', ''expired'')]"

definition cert_stats_view :: "stat_card list \<Rightarrow> certs_ui view" where
  "cert_stats_view cards =
     Box (map2 (\<lambda>(icon, status) crd. StatCard_view icon crd (StatusPicked status)) cert_stat_icons cards)"

subsection \<open>Ingesting\<close>

definition IngestDialog_view :: "ingest_dialog \<Rightarrow> ingest_ui view" where
  "IngestDialog_view d =
     Box [Icon ''FileSignature'',
       dialog_head ''Ingest Certificate'' [Words ''Import a certificate into the inventory''],
       labelled ''PEM or Base64 DER'' (TextBox False (ing_pem d) PemTyped),
       Button False [Icon ''FolderOpen'', Words (nullish (ing_fileName d) (''Choose File'' @ ellipsis))] ChooseFileClicked,
       error_line (ing_error d),
       Button (ing_loading d) [Words ''Cancel''] IngestClosed,
       Button (ing_loading d) [Words (if ing_loading d then ''Ingesting'' @ ellipsis else ''Ingest'')] IngestPressed]"

text \<open>
  The ingest button can be pressed exactly while no request is under way; pressing it sends at most one, and then it cannot be pressed;
  once the answer is in it can again, and an error with a text is readable.
\<close>

lemma ingest_button_follows:
  "IngestPressed \<in> set (clicks (IngestDialog_view d)) \<longleftrightarrow> \<not> ing_loading d"
  "ingest_submit c d = (calls, d') \<Longrightarrow> calls \<noteq> [] \<Longrightarrow> length calls = 1 \<and> IngestPressed \<notin> set (clicks (IngestDialog_view d'))"
  "ingest_answered out d = (d', closed, dest) \<Longrightarrow> IngestPressed \<in> set (clicks (IngestDialog_view d'))"
  by (auto simp: IngestDialog_view_def view_parts ingest_submit_def ingest_answered_def ingest_reset_def Let_def
      split: if_splits sum.splits option.splits)

lemma ingest_failure_readable:
  "ingest_answered (Inl err) d = (d', closed, dest) \<Longrightarrow> visible_error err \<Longrightarrow>
     \<not> closed \<and> dest = None \<and> ing_pem d' = ing_pem d
     \<and> api_message ''Failed to ingest certificate.'' err \<in> set (words_of (IngestDialog_view d'))"
  by (auto simp: IngestDialog_view_def view_parts ingest_answered_def)

subsection \<open>The page\<close>

text \<open>The answers the page has: the list, the four counts, and the states of its mounted dialogs.\<close>

record certs_answers =
  ca_list :: "CertificateList query"
  ca_counts :: "int option \<times> int option \<times> int option \<times> int option"
  ca_ingest :: ingest_dialog
  ca_refs :: "bool \<times> CertReferences option"
  ca_delete :: cert_dialog
  ca_purge :: purge_dialog

definition certs_filters_view :: "bool \<Rightarrow> cert_page \<Rightarrow> certs_ui view" where
  "certs_filters_view admin s =
     Box [SearchInput (cp_search s) CertSearchSettled,
       FilterDropdown False ''Status'' cert_STATUS_OPTIONS (cp_statusFilter s) StatusPicked,
       FilterDropdown False ''Sort'' SORT_OPTIONS (cp_sortOption s) OrderPicked,
       only_if admin (BulkActionBar_view (length (cp_selected s)) SelectionCleared [(''Delete'', False, BulkDeleteClicked)])]"

definition certs_rows_view ::
  "(string \<Rightarrow> string) \<Rightarrow> int \<Rightarrow> bool \<Rightarrow> CertificateList query \<Rightarrow> cert_page \<Rightarrow> certs_ui view" where
  "certs_rows_view fmtDate now admin q s =
     (let certs = data_items (q_data q);
          sel = (\<lambda>cert. js_map_has (cp_selected s) (certificateListItem_fingerprint cert)) in
      Box [TickBox (certs = []) (cert_allPageSelected certs (cp_selected s)) (\<lambda>_. PageToggled),
        only_if (cert_somePageSelected certs (cp_selected s)) (Icon ''indeterminate''),
        Box [Words ''Common Name'', Words ''SANs'', Words ''Expiration'', Words ''Actions''],
        (case cert_table_of now admin (q_loading q) (q_data q) s of
           CertsLoading \<Rightarrow> Words (''Loading'' @ ellipsis)
         | NoCertsMatch \<Rightarrow> Words ''No certificates match your filters.''
         | NoCerts \<Rightarrow> Words ''No certificates yet.''
         | CertRows _ \<Rightarrow> Box [Box (map (\<lambda>cert. CertCard_view fmtDate now admin (sel cert) cert) certs),
             Box (map (\<lambda>cert. CertRow_view fmtDate now admin (sel cert) cert) certs)])])"

definition certs_dialogs_view :: "certs_answers \<Rightarrow> cert_page \<Rightarrow> certs_ui view" where
  "certs_dialogs_view a s =
     Box [dialog_view (cp_ingestOpen s) (IngestUi IngestClosed) (map_view IngestUi (IngestDialog_view (ca_ingest a))),
       dialog_view (cp_deleteTarget s \<noteq> None) (DeleteCertUi ConfirmClosed)
         (map_view DeleteCertUi
           (DeleteCertificate_view (fst (ca_refs a)) (snd (ca_refs a))
             (map_option (\<lambda>c. (certificateListItem_fingerprint c, Some (certificateListItem_commonName c))) (cp_deleteTarget s))
             (ca_delete a))),
       dialog_view (cp_bulkDeleteOpen s) (PurgeUi BulkClosed)
         (map_view PurgeUi (BulkDeleteCertificates_view (selectedCerts (cp_selected s)) (ca_purge a)))]"

definition CertificatesPage_view ::
  "(string \<Rightarrow> string) \<Rightarrow> (int \<Rightarrow> string) \<Rightarrow> bool \<Rightarrow> int \<times> certs_answers \<Rightarrow> cert_page \<Rightarrow> certs_ui view" where
  "CertificatesPage_view fmtDate fmtInt admin = (\<lambda>(now, a) s.
     (case ca_counts a of (totalAll, totalWarn, totalCrit, totalExpired) \<Rightarrow>
       Box [Words ''Certificates'', Words ''Certificate store inventory.'',
         only_if admin (Button False [Icon ''Plus'', Words ''Ingest''] IngestClicked),
         cert_stats_view (cert_stat_cards totalAll totalWarn totalCrit totalExpired s),
         certs_filters_view admin s,
         query_error (q_error (ca_list a)),
         certs_rows_view fmtDate now admin (ca_list a) s,
         footer_view fmtInt ''No certificates'' ''certificate'' (data_total (q_data (ca_list a))) (cp_page s) CertPageTurned,
         certs_dialogs_view a s]))"

text \<open>
  What an event does to the page at once. The event of the search field is that its text has settled. Dismissing the bulk dialog goes through
  its \<open>handleClose\<close>, which may refuse, and which reports a finished round (\<open>onDone\<close>).
\<close>

fun certs_click :: "CertificateListItem list \<Rightarrow> int \<Rightarrow> purge_dialog \<Rightarrow> certs_ui \<Rightarrow> cert_page \<Rightarrow> cert_page" where
  "certs_click certs total_n d IngestClicked s = s\<lparr>cp_ingestOpen := True\<rparr>"
| "certs_click certs total_n d (StatusPicked v) s = cert_handleStatusChange v s"
| "certs_click certs total_n d (OrderPicked v) s = cert_handleSortChange v s"
| "certs_click certs total_n d (CertSearchSettled v) s = cert_search_timer (s\<lparr>cp_search := v\<rparr>)"
| "certs_click certs total_n d (CertToggled cert) s = s\<lparr>cp_selected := cert_toggleOne cert (cp_selected s)\<rparr>"
| "certs_click certs total_n d PageToggled s = s\<lparr>cp_selected := cert_toggleAll certs (cp_selected s)\<rparr>"
| "certs_click certs total_n d SelectionCleared s = s\<lparr>cp_selected := js_map_empty\<rparr>"
| "certs_click certs total_n d BulkDeleteClicked s = s\<lparr>cp_bulkDeleteOpen := True\<rparr>"
| "certs_click certs total_n d (DeleteCertClicked cert) s = s\<lparr>cp_deleteTarget := Some cert\<rparr>"
| "certs_click certs total_n d (CertNavigated p) s = s"
| "certs_click certs total_n d (CertPageTurned b) s = s\<lparr>cp_page := turn_page total_n b (cp_page s)\<rparr>"
| "certs_click certs total_n d (IngestUi ev) s = (if ev = IngestClosed then s\<lparr>cp_ingestOpen := False\<rparr> else s)"
| "certs_click certs total_n d (DeleteCertUi ev) s = (if ev = ConfirmClosed then s\<lparr>cp_deleteTarget := None\<rparr> else s)"
| "certs_click certs total_n d (PurgeUi ev) s =
     (case purge_handleClose d of
        (_, closed, done_round) \<Rightarrow>
          if ev = BulkClosed \<and> closed
          then s\<lparr>cp_bulkDeleteOpen := False, cp_selected := (if done_round then js_map_empty else cp_selected s)\<rparr>
          else s)"

definition certs_step :: "int \<times> certs_answers \<Rightarrow> certs_ui \<Rightarrow> cert_page \<Rightarrow> cert_page" where
  "certs_step = (\<lambda>(_, a). certs_click (data_items (q_data (ca_list a))) (data_total (q_data (ca_list a))) (ca_purge a))"

subsection \<open>Who can do what\<close>

text \<open>The events that lead to a change of the inventory.\<close>

fun cert_change :: "certs_ui \<Rightarrow> bool" where
  "cert_change IngestClicked = True"
| "cert_change BulkDeleteClicked = True"
| "cert_change (DeleteCertClicked cert) = True"
| "cert_change (IngestUi ev) = True"
| "cert_change (DeleteCertUi ev) = True"
| "cert_change (PurgeUi ev) = True"
| "cert_change _ = False"

definition certs_closed :: "cert_page \<Rightarrow> bool" where
  "certs_closed s \<longleftrightarrow> \<not> cp_ingestOpen s \<and> cp_deleteTarget s = None \<and> \<not> cp_bulkDeleteOpen s"

lemma cert_menu_offers:
  "offers (CertActionsMenu_view admin cert) =
     insert (CertNavigated (''/certificates/'' @ certificateListItem_fingerprint cert)) (if admin then {DeleteCertClicked cert} else {})"
  by (auto simp: CertActionsMenu_view_def CertActionsMenu_def)

lemma cert_row_offers:
  "offers (CertRow_view fmtDate now admin sel cert) = insert (CertToggled cert) (offers (CertActionsMenu_view admin cert))"
  "offers (CertCard_view fmtDate now admin sel cert) = insert (CertToggled cert) (offers (CertActionsMenu_view admin cert))"
  by (auto simp: CertRow_view_def CertCard_view_def Let_def)

lemma cert_stats_offers: "offers (cert_stats_view cards) \<subseteq> range StatusPicked"
  by (auto simp: cert_stats_view_def StatCard_view_def Let_def in_set_zip)

lemma certs_filters_offers:
  "e \<in> offers (certs_filters_view False s) \<Longrightarrow> \<not> cert_change e"
  by (auto simp: certs_filters_view_def)

lemma certs_rows_offers:
  "e \<in> offers (certs_rows_view fmtDate now False q s) \<Longrightarrow> \<not> cert_change e"
  by (auto simp: certs_rows_view_def cert_row_offers cert_menu_offers Let_def split: cert_table.splits if_splits)

lemma certs_view_reader:
  assumes "certs_closed s" and "e \<in> offers (CertificatesPage_view fmtDate fmtInt False q s)"
  shows "\<not> cert_change e"
proof -
  obtain now a where q: "q = (now, a)" by (cases q)
  obtain tot warn crit expd where counts: "ca_counts a = (tot, warn, crit, expd)" by (cases "ca_counts a") blast
  have "offers (certs_dialogs_view a s) = {}" using assms(1) by (simp add: certs_dialogs_view_def certs_closed_def)
  then consider "e \<in> offers (cert_stats_view (cert_stat_cards tot warn crit expd s))" | "e \<in> offers (certs_filters_view False s)"
    | "e \<in> offers (certs_rows_view fmtDate now False (ca_list a) s)"
    | "e \<in> range CertPageTurned"
    using assms(2) by (auto simp: CertificatesPage_view_def q counts dest!: subsetD [OF footer_offers])
  then show ?thesis
    by cases (auto dest: certs_filters_offers certs_rows_offers dest!: subsetD [OF cert_stats_offers])
qed

lemma certs_reader:
  assumes u: "used (CertificatesPage_view fmtDate fmtInt False) certs_step cert_page_init s"
    and "e \<in> offers (CertificatesPage_view fmtDate fmtInt False q s)"
  shows "certs_closed s \<and> \<not> cert_change e"
proof -
  have "certs_closed s"
  proof (rule used_invariant [OF u])
    show "certs_closed cert_page_init" by (simp add: certs_closed_def cert_page_init_def)
  next
    fix t e q assume t: "certs_closed t" and e: "e \<in> offers (CertificatesPage_view fmtDate fmtInt False q t)"
    from certs_view_reader [OF t e] t show "certs_closed (certs_step q e t)"
      by (cases e) (auto simp: certs_step_def certs_closed_def cert_handleStatusChange_def cert_handleSortChange_def
          cert_search_timer_def split: prod.splits)
  qed
  with certs_view_reader assms(2) show ?thesis by blast
qed

end
