(* ===== verification/EndpointViews.thy ===== *)
theory EndpointViews
  imports CertificateViews EndpointList
begin

section \<open>What the endpoint list shows (\<open>pages/endpoint/EndpointPage.tsx\<close>)\<close>

text \<open>
  The views of a row and a card, of the filters and of the page of each endpoint type, and what each control does to the page. Shown: without
  \<open>endpoints:edit\<close> no sequence of clicks opens a dialog (the menu still leads to a copy of the endpoint in the form); and every filter
  that narrows the list is named on the page and can be cleared there.
\<close>

subsection \<open>Rows and cards\<close>

datatype endpoints_ui =
    ImportClicked
  | EpStatusPicked string
  | EpOrderPicked string
  | EpSearchSettled string
  | EpTagPicked string
  | UrlFilterCleared url_filter
  | EpToggled EndpointListItem
  | EpPageToggled
  | EpSelectionCleared
  | BulkTagClicked
  | BulkDeleteEpClicked
  | DeleteEpClicked EndpointListItem
  | EpNavigated string
  | EpPageTurned page_button
  | CardPressed
  | ImportClosed
  | DeleteEpUi confirm_ui
  | BulkDeleteEpUi "unit bulk_ui"
  | BulkTagUi "string bulk_ui"

definition TagChips_view :: "tag_chip list \<Rightarrow> endpoints_ui view" where
  "TagChips_view chips =
     Box (map (\<lambda>chip. Button False
         ((case chip_color chip of None \<Rightarrow> [] | Some col \<Rightarrow> [Icon col]) @ (if chip_active chip then [Icon ''ring-1''] else [])
          @ [Words (chip_text chip)])
         (EpTagPicked (chip_click chip))) chips)"

fun endpoint_menu_icon :: "string \<Rightarrow> string" where
  "endpoint_menu_icon label =
     (if label = ''View'' then ''ExternalLink'' else if label = ''Edit'' then ''Pencil'' else if label = ''Clone'' then ''Copy''
      else ''Trash2'')"

definition EndpointActionsMenu_view :: "bool \<Rightarrow> EndpointListItem \<Rightarrow> endpoints_ui view" where
  "EndpointActionsMenu_view admin ep =
     Box (map (\<lambda>(label, action). Button False [Icon (endpoint_menu_icon label), Words label]
         (case action of NavigateTo p \<Rightarrow> EpNavigated p | AskDelete _ \<Rightarrow> DeleteEpClicked ep)) (EndpointActionsMenu admin ep))"

text \<open>The parts of a row; a scan error is an icon that shows its text when pointed at.\<close>

definition EndpointRow_view ::
  "int \<Rightarrow> int \<Rightarrow> EndpointType \<Rightarrow> bool \<Rightarrow> string \<Rightarrow> bool \<Rightarrow> EndpointListItem \<Rightarrow> endpoints_ui view" where
  "EndpointRow_view clock now typ admin tagFilter selected ep =
     (let r = EndpointRow clock now typ admin tagFilter selected ep in
      Box [TickBox False (view_selected r) (\<lambda>_. EpToggled ep),
        LinkTo (view_link r) [Words (view_name r)], TagChips_view (view_tags r),
        (case view_address r of None \<Rightarrow> Box [] | Some a \<Rightarrow> Words a),
        Icon (if endpointListItem_enabled ep then ''bg-green-500'' else ''bg-muted-foreground/40''), Words (view_status r),
        (case view_expiry r of None \<Rightarrow> Words em_dash | Some b \<Rightarrow> badge_view b),
        (case view_scanned r of
           None \<Rightarrow> Box []
         | Some s \<Rightarrow> Box (Words s # (case view_scanError r of None \<Rightarrow> [] | Some _ \<Rightarrow> [Icon ''AlertCircle'']))),
        EndpointActionsMenu_view admin ep])"

definition EndpointCard_view ::
  "int \<Rightarrow> int \<Rightarrow> EndpointType \<Rightarrow> bool \<Rightarrow> string \<Rightarrow> bool \<Rightarrow> EndpointListItem \<Rightarrow> endpoints_ui view" where
  "EndpointCard_view clock now typ admin tagFilter selected ep =
     (let r = EndpointCard clock now typ admin tagFilter selected ep in
      Box [TickBox False (view_selected r) (\<lambda>_. EpToggled ep),
        LinkTo (view_link r) [Words (view_name r)],
        (case view_expiry r of None \<Rightarrow> Box [] | Some b \<Rightarrow> badge_view b),
        EndpointActionsMenu_view admin ep,
        Words ''Status:'', Icon (if endpointListItem_enabled ep then ''bg-green-500'' else ''bg-muted-foreground/40''),
        Words (view_status r),
        (case view_address r of None \<Rightarrow> Box [] | Some a \<Rightarrow> Words a),
        (case view_scanned r of
           None \<Rightarrow> Box []
         | Some s \<Rightarrow> Box (Words ''Last scanned:'' # Words s
             # (case view_scanError r of None \<Rightarrow> [] | Some _ \<Rightarrow> [Icon ''AlertCircle'']))),
        TagChips_view (view_tags r)])"

subsection \<open>Cards and filters\<close>

text \<open>The status each crd filters by; the crd of the scan errors has no handler, so pressing it does nothing (\<open>CardPressed\<close>).\<close>

definition endpoint_stat_icons :: "(string \<times> endpoints_ui) list" where
  "endpoint_stat_icons =
     [(''Server'', EpStatusPicked []), (''Wifi'', EpStatusPicked ''enabled''), (''WifiOff'', EpStatusPicked ''disabled''),
      (''AlertCircle'', CardPressed)]"

definition endpoint_stats_view :: "stat_card list \<Rightarrow> endpoints_ui view" where
  "endpoint_stats_view cards = Box (map2 (\<lambda>(icon, ev) crd. StatCard_view icon crd ev) endpoint_stat_icons cards)"

definition tag_filter_view :: "CategoryWithTags list \<Rightarrow> string \<Rightarrow> endpoints_ui view" where
  "tag_filter_view categories tagFilter =
     (if allTags categories = [] then Box []
      else Box (Icon ''Tag'' # Words ''Tag''
        # Button False ((if tagFilter = [] then [Icon ''Check''] else []) @ [Words ''All tags'']) (EpTagPicked [])
        # map (\<lambda>cat. Box (Words (tagCategory_name cat)
            # map (\<lambda>t. Button False ((if tagFilter = tag_id t then [Icon ''Check''] else []) @ [Words (tag_name t)])
                (EpTagPicked (tag_id t))) (categoryWithTags_tags cat))) categories))"

definition endpoint_filters_view :: "EndpointType \<Rightarrow> bool \<Rightarrow> CategoryWithTags list \<Rightarrow> endpoint_page \<Rightarrow> endpoints_ui view" where
  "endpoint_filters_view typ admin categories s =
     Box [SearchInput (ep_search s) EpSearchSettled,
       FilterDropdown False ''Status'' STATUS_OPTIONS (ep_statusFilter s) EpStatusPicked,
       FilterDropdown False ''Sort'' (cfg_sortOptions (TYPE_CONFIGS typ)) (ep_sortOption s) EpOrderPicked,
       tag_filter_view categories (ep_tagFilter s),
       only_if admin (BulkActionBar_view (length (ep_selected s)) EpSelectionCleared
         [(''Update Tags'', False, BulkTagClicked), (''Delete'', False, BulkDeleteEpClicked)])]"

text \<open>The chips under the filters: the active tag, and the filters that came with the address of the page.\<close>

definition active_tag_view :: "CategoryWithTags list \<Rightarrow> endpoint_page \<Rightarrow> endpoints_ui view" where
  "active_tag_view categories s =
     (case activeTag categories s of
        None \<Rightarrow> Box []
      | Some (t, categoryName) \<Rightarrow>
          Box [Words ''Filtered by tag:'', Words (categoryName @ '':''), Words (tag_name t), Button False [Icon ''X''] (EpTagPicked [])])"

definition property_view :: "string property \<Rightarrow> 'e view" where
  "property_view p = (case p of Own v \<Rightarrow> Words v | _ \<Rightarrow> Box [])"

definition url_chips_view :: "endpoint_page \<Rightarrow> endpoints_ui view" where
  "url_chips_view s =
     (let p = protocolFilter (ep_searchParams s); c = cipherFilter (ep_searchParams s) in
      Box [only_if (p \<noteq> []) (Box [Icon ''ShieldAlert'', Words ''Supports:'', property_view (obj_get PROTOCOL_LABEL p),
            Button False [Icon ''X''] (UrlFilterCleared ProtocolKey)]),
        only_if (c \<noteq> []) (Box [Icon ''KeyRound'', Words ''Cipher:'', Words c, Button False [Icon ''X''] (UrlFilterCleared CipherKey)])])"

subsection \<open>The page\<close>

record endpoints_answers =
  ea_list :: "EndpointList query"
  ea_counts :: "int option \<times> int option \<times> int option \<times> int option"
  ea_categories :: "CategoryWithTags list"
  ea_delete :: confirm_dialog
  ea_bulkDelete :: delete_dialog
  ea_bulkTag :: tag_dialog
  ea_import :: "endpoints_ui view" \<comment> \<open>what \<open>BulkImportDialog\<close> renders; its steps are in \<open>BulkImport\<close>\<close>

definition endpoint_rows_view ::
  "int \<Rightarrow> int \<Rightarrow> EndpointType \<Rightarrow> bool \<Rightarrow> EndpointList query \<Rightarrow> endpoint_page \<Rightarrow> endpoints_ui view" where
  "endpoint_rows_view clock now typ admin q s =
     (let eps = data_items (q_data q); cfg = TYPE_CONFIGS typ;
          sel = (\<lambda>ep. js_map_has (ep_selected s) (endpointListItem_id ep)) in
      Box [TickBox (eps = []) (allPageSelected eps (ep_selected s)) (\<lambda>_. EpPageToggled),
        only_if (somePageSelected eps (ep_selected s)) (Icon ''indeterminate''),
        Words ''Name'', only_if (cfg_showAddress cfg) (Words (cfg_addressLabel cfg)), Words ''Status'', Words ''Next Expiry'',
        only_if (cfg_showLastScanned cfg) (Words ''Last Scanned''), Words ''Actions'',
        (case table_body_of clock now typ admin (q_loading q) (q_data q) s of
           TableLoading \<Rightarrow> Words (''Loading'' @ ellipsis)
         | NoMatch \<Rightarrow> Words ''No endpoints match your filters.''
         | EmptyTable m \<Rightarrow> Words m
         | TableRows _ \<Rightarrow>
             Box [Box (map (\<lambda>ep. EndpointCard_view clock now typ admin (ep_tagFilter s) (sel ep) ep) eps),
               Box (map (\<lambda>ep. EndpointRow_view clock now typ admin (ep_tagFilter s) (sel ep) ep) eps)])])"

definition endpoint_dialogs_view :: "endpoints_answers \<Rightarrow> endpoint_page \<Rightarrow> endpoints_ui view" where
  "endpoint_dialogs_view a s =
     Box [dialog_view (ep_deleteTarget s \<noteq> None) (DeleteEpUi ConfirmClosed)
         (map_view DeleteEpUi
           (DeleteEndpoint_view
             (map_option (\<lambda>ep. (endpointListItem_name ep, Some (endpointListItem_dnsName ep))) (ep_deleteTarget s)) (ea_delete a))),
       dialog_view (ep_importOpen s) ImportClosed (ea_import a),
       dialog_view (ep_bulkDeleteOpen s) (BulkDeleteEpUi BulkClosed)
         (map_view BulkDeleteEpUi (BulkDeleteEndpoints_view (selectedList (ep_selected s)) (ea_bulkDelete a))),
       dialog_view (ep_bulkTagOpen s) (BulkTagUi BulkClosed)
         (map_view BulkTagUi (BulkTagEndpoints_view (ea_categories a) (selectedList (ep_selected s)) (ea_bulkTag a)))]"

fun type_text :: "EndpointType \<Rightarrow> string" where
  "type_text HostEndpoint = ''host''"
| "type_text SamlEndpoint = ''saml''"
| "type_text ManualEndpoint = ''manual''"

definition endpoint_head_view :: "EndpointType \<Rightarrow> bool \<Rightarrow> endpoints_ui view" where
  "endpoint_head_view typ admin =
     (let cfg = TYPE_CONFIGS typ in
      Box [Words (cfg_title cfg), Words (cfg_description cfg),
        only_if admin
          (Box [Button False [Icon ''Upload'', Words ''Import''] ImportClicked,
             Button False [Icon ''Plus'', Words (cfg_addButtonLabel cfg)] (EpNavigated (''/endpoints/new?type='' @ type_text typ))])])"

definition EndpointPage_view ::
  "(int \<Rightarrow> string) \<Rightarrow> EndpointType \<Rightarrow> bool \<Rightarrow> int \<times> int \<times> endpoints_answers \<Rightarrow> endpoint_page \<Rightarrow> endpoints_ui view" where
  "EndpointPage_view fmtInt typ admin = (\<lambda>(clock, now, a) s.
     (case ea_counts a of (totalAll, totalEnabled, totalDisabled, totalErrors) \<Rightarrow>
       Box [endpoint_head_view typ admin,
         endpoint_stats_view (stat_cards typ totalAll totalEnabled totalDisabled totalErrors s),
         endpoint_filters_view typ admin (ea_categories a) s,
         active_tag_view (ea_categories a) s, url_chips_view s,
         query_error (q_error (ea_list a)),
         endpoint_rows_view clock now typ admin (ea_list a) s,
         footer_view fmtInt (''No '' @ cfg_noun (TYPE_CONFIGS typ) @ ''s'') (cfg_noun (TYPE_CONFIGS typ))
           (data_total (q_data (ea_list a))) (ep_page s) EpPageTurned,
         endpoint_dialogs_view a s]))"

text \<open>What an event does to the page at once, given its answers; the search field reports that its text has settled.\<close>

fun endpoints_click :: "endpoints_answers \<Rightarrow> endpoints_ui \<Rightarrow> endpoint_page \<Rightarrow> endpoint_page" where
  "endpoints_click a ImportClicked s = s\<lparr>ep_importOpen := True\<rparr>"
| "endpoints_click a (EpStatusPicked v) s = handleStatusChange v s"
| "endpoints_click a (EpOrderPicked v) s = handleSortChange v s"
| "endpoints_click a (EpSearchSettled v) s = search_timer (setSearch v s)"
| "endpoints_click a (EpTagPicked t) s = handleTagChange t s"
| "endpoints_click a (UrlFilterCleared k) s = clearUrlFilter k s"
| "endpoints_click a (EpToggled ep) s = s\<lparr>ep_selected := toggleOne ep (ep_selected s)\<rparr>"
| "endpoints_click a EpPageToggled s = s\<lparr>ep_selected := toggleAll (data_items (q_data (ea_list a))) (ep_selected s)\<rparr>"
| "endpoints_click a EpSelectionCleared s = s\<lparr>ep_selected := js_map_empty\<rparr>"
| "endpoints_click a BulkTagClicked s = s\<lparr>ep_bulkTagOpen := True\<rparr>"
| "endpoints_click a BulkDeleteEpClicked s = s\<lparr>ep_bulkDeleteOpen := True\<rparr>"
| "endpoints_click a (DeleteEpClicked ep) s = s\<lparr>ep_deleteTarget := Some ep\<rparr>"
| "endpoints_click a (EpNavigated p) s = s"
| "endpoints_click a (EpPageTurned b) s = setPage (data_total (q_data (ea_list a))) b s"
| "endpoints_click a CardPressed s = s"
| "endpoints_click a ImportClosed s = s\<lparr>ep_importOpen := False\<rparr>"
| "endpoints_click a (DeleteEpUi ev) s = (if ev = ConfirmClosed then s\<lparr>ep_deleteTarget := None\<rparr> else s)"
| "endpoints_click a (BulkDeleteEpUi ev) s =
     (case delete_handleClose (ea_bulkDelete a) of
        (_, closed, done_round) \<Rightarrow>
          if ev = BulkClosed \<and> closed
          then (if done_round then bulk_onDone else (\<lambda>s. s)) (s\<lparr>ep_bulkDeleteOpen := False\<rparr>) else s)"
| "endpoints_click a (BulkTagUi ev) s =
     (case tag_handleClose (ea_bulkTag a) of
        (_, closed, done_round) \<Rightarrow>
          if ev = BulkClosed \<and> closed
          then (if done_round then bulk_onDone else (\<lambda>s. s)) (s\<lparr>ep_bulkTagOpen := False\<rparr>) else s)"

definition endpoints_step :: "int \<times> int \<times> endpoints_answers \<Rightarrow> endpoints_ui \<Rightarrow> endpoint_page \<Rightarrow> endpoint_page" where
  "endpoints_step = (\<lambda>(_, _, a). endpoints_click a)"

subsection \<open>Who can do what\<close>

fun endpoint_change :: "endpoints_ui \<Rightarrow> bool" where
  "endpoint_change ImportClicked = True"
| "endpoint_change BulkTagClicked = True"
| "endpoint_change BulkDeleteEpClicked = True"
| "endpoint_change (DeleteEpClicked ep) = True"
| "endpoint_change (DeleteEpUi ev) = True"
| "endpoint_change (BulkDeleteEpUi ev) = True"
| "endpoint_change (BulkTagUi ev) = True"
| "endpoint_change _ = False"

definition endpoints_closed :: "endpoint_page \<Rightarrow> bool" where
  "endpoints_closed s \<longleftrightarrow> ep_deleteTarget s = None \<and> \<not> ep_importOpen s \<and> \<not> ep_bulkDeleteOpen s \<and> \<not> ep_bulkTagOpen s"

lemma chips_offers: "offers (TagChips_view chips) \<subseteq> range EpTagPicked"
  by (auto simp: TagChips_view_def)

lemma endpoint_menu_offers:
  "offers (EndpointActionsMenu_view admin ep) =
     {EpNavigated (''/endpoints/'' @ endpointListItem_id ep), EpNavigated (''/endpoints/new?clone='' @ endpointListItem_id ep)}
     \<union> (if admin then {EpNavigated (''/endpoints/'' @ endpointListItem_id ep @ ''/edit''), DeleteEpClicked ep} else {})"
  by (auto simp: EndpointActionsMenu_view_def EndpointActionsMenu_def)

lemma endpoint_row_offers:
  "offers (EndpointRow_view clock now typ admin tagFilter sel ep) \<subseteq>
     insert (EpToggled ep) (range EpTagPicked \<union> offers (EndpointActionsMenu_view admin ep))"
  "offers (EndpointCard_view clock now typ admin tagFilter sel ep) \<subseteq>
     insert (EpToggled ep) (range EpTagPicked \<union> offers (EndpointActionsMenu_view admin ep))"
  using chips_offers
  by (fastforce simp: EndpointRow_view_def EndpointCard_view_def Let_def split: option.splits)+

lemma endpoint_stats_offers: "e \<in> offers (endpoint_stats_view cards) \<Longrightarrow> \<not> endpoint_change e"
  by (auto simp: endpoint_stats_view_def endpoint_stat_icons_def StatCard_view_def Let_def dest!: set_zip_leftD)

lemma endpoint_filters_offers:
  "e \<in> offers (endpoint_filters_view typ False categories s) \<Longrightarrow> \<not> endpoint_change e"
  by (auto simp: endpoint_filters_view_def tag_filter_view_def split: if_splits)

lemma endpoint_chips_offers:
  "e \<in> offers (active_tag_view categories s) \<union> offers (url_chips_view s) \<Longrightarrow> \<not> endpoint_change e"
  by (auto simp: active_tag_view_def url_chips_view_def property_view_def Let_def split: option.splits property.splits if_splits)

lemma endpoint_rows_offers:
  assumes "e \<in> offers (endpoint_rows_view clock now typ False q s)"
  shows "\<not> endpoint_change e"
proof -
  have row: "\<not> endpoint_change e"
    if "e \<in> offers (EndpointRow_view clock now typ False tf sel ep) \<union> offers (EndpointCard_view clock now typ False tf sel ep)"
    for tf sel ep
    using that endpoint_row_offers [of clock now "typ" False tf sel ep] by (auto simp: endpoint_menu_offers)
  show ?thesis
    using assms row by (auto simp: endpoint_rows_view_def Let_def split: table_body.splits if_splits)
qed

lemma endpoints_view_reader:
  assumes "endpoints_closed s" and "e \<in> offers (EndpointPage_view fmtInt typ False q s)"
  shows "\<not> endpoint_change e"
proof -
  obtain clock now a where q: "q = (clock, now, a)" by (cases q)
  obtain c1 c2 c3 c4 where counts: "ea_counts a = (c1, c2, c3, c4)" by (cases "ea_counts a") blast
  have quiet: "offers (endpoint_dialogs_view a s) = {}" "offers (endpoint_head_view typ False) = {}"
    using assms(1) by (simp_all add: endpoint_dialogs_view_def endpoints_closed_def endpoint_head_view_def Let_def)
  consider "e \<in> offers (endpoint_stats_view (stat_cards typ c1 c2 c3 c4 s))"
    | "e \<in> offers (endpoint_filters_view typ False (ea_categories a) s)"
    | "e \<in> offers (active_tag_view (ea_categories a) s) \<union> offers (url_chips_view s)"
    | "e \<in> offers (endpoint_rows_view clock now typ False (ea_list a) s)"
    | "e \<in> range EpPageTurned"
    using assms(2) by (auto simp: EndpointPage_view_def q counts quiet dest!: subsetD [OF footer_offers])
  then show ?thesis
    using endpoint_stats_offers endpoint_filters_offers endpoint_chips_offers endpoint_rows_offers
    by cases auto
qed

lemma endpoints_reader:
  assumes u: "used (EndpointPage_view fmtInt typ False) endpoints_step (endpoint_page_init ps) s"
    and "e \<in> offers (EndpointPage_view fmtInt typ False q s)"
  shows "endpoints_closed s \<and> \<not> endpoint_change e"
proof -
  have "endpoints_closed s"
  proof (rule used_invariant [OF u])
    show "endpoints_closed (endpoint_page_init ps)" by (simp add: endpoints_closed_def endpoint_page_init_def)
  next
    fix t e q assume t: "endpoints_closed t" and e: "e \<in> offers (EndpointPage_view fmtInt typ False q t)"
    from endpoints_view_reader [OF t e] t show "endpoints_closed (endpoints_step q e t)"
      by (cases e) (auto simp: endpoints_step_def endpoints_closed_def handleStatusChange_def handleSortChange_def
          handleTagChange_def clearUrlFilter_def search_timer_def setSearch_def setPage_def split: prod.splits)
  qed
  with endpoints_view_reader assms(2) show ?thesis by blast
qed

text \<open>A copy is offered to everyone, although only those who may edit can save it.\<close>

lemma clone_offered_to_readers:
  "EpNavigated (''/endpoints/new?clone='' @ endpointListItem_id ep) \<in> offers (EndpointActionsMenu_view False ep)"
  by (simp add: endpoint_menu_offers)

text \<open>
  A filter that came with the address is named and can be cleared on the page; clearing it removes it from the address and no other. The same
  for the filter by tag, as long as the tag exists.
\<close>

lemma url_filter_clearable:
  "protocolFilter (ep_searchParams s) \<noteq> [] \<longleftrightarrow> UrlFilterCleared ProtocolKey \<in> offers (url_chips_view s)"
  "cipherFilter (ep_searchParams s) \<noteq> [] \<longleftrightarrow> UrlFilterCleared CipherKey \<in> offers (url_chips_view s)"
  by (auto simp: url_chips_view_def property_view_def Let_def split: property.splits)

lemma tag_filter_clearable:
  assumes "(t, n) \<in> set (allTags categories)" and "ep_tagFilter s = tag_id t"
  shows "EpTagPicked [] \<in> offers (active_tag_view categories s) \<and> ep_tagFilter (endpoints_click a (EpTagPicked []) s) = []"
proof -
  have "activeTag categories s \<noteq> None"
    using assms find_None_iff [of "\<lambda>(t, _). tag_id t = ep_tagFilter s" "allTags categories"] by (auto simp: activeTag_def)
  then show ?thesis by (auto simp: active_tag_view_def handleTagChange_def)
qed

end
