(* ===== verification/DiscoveryViews.thy ===== *)
theory DiscoveryViews
  imports Views Discovery
begin

section \<open>What the discovery pages show (\<open>pages/discovery/DiscoveryNetworksPage.tsx\<close>, \<open>pages/discovery/DiscoveryInboxPage.tsx\<close>)\<close>

text \<open>
  The views of the three dialogs, of the rows and cards and of the two pages over the states of \<open>Discovery\<close>, and what each control does
  to its page. Shown: the dialogs follow their state, without \<open>discovery:edit\<close> no sequence of clicks opens a dialog or
  changes a network or an entry, and the menu of a row acts on the network or the entry of the row.
\<close>

subsection \<open>The dialogs\<close>

definition NetworkDialog_view ::
  "ScannerToken list \<Rightarrow> network_dialog \<Rightarrow> (DiscoveryNetwork option, network_edit, DiscoveryNetwork fetch_result) form_event view" where
  "NetworkDialog_view scanners d =
     Box [Icon ''Network'',
       dialog_head (fst (network_title d)) [Words (snd (network_title d))],
       labelled ''Network Name'' (TextBox False (nd_name d) (\<lambda>s. FormEdited (TypeNetworkName s))),
       labelled ''IP Range''
         (Box [TextBox False (nd_range d) (\<lambda>s. FormEdited (TypeRange s)), Words ''CIDR notation or hyphenated range.'']),
       labelled ''Ports''
         (Box [TextBox False (nd_portsRaw d) (\<lambda>s. FormEdited (TypePorts s)), Words ''Comma-separated list of TCP ports to probe.'']),
       labelled ''Scanner Node''
         (PickBox False (nd_scannerId d) ((''none'', ''None'') # map (\<lambda>s. (scannerToken_id s, scannerToken_name s)) scanners)
           (\<lambda>s. FormEdited (PickNetworkScanner s))),
       labelled ''Schedule'' (TextBox False (nd_cron d) (\<lambda>s. FormEdited (PickNetworkSchedule s))),
       Box [TickBox False (nd_enabled d) (\<lambda>b. FormEdited (SwitchNetwork b)), Words ''Enabled''],
       error_line (nd_error d),
       dialog_foot (nd_saving d) (network_button d)]"

definition DeleteNetwork_view ::
  "DiscoveryNetwork target_dialog \<Rightarrow> (DiscoveryNetwork, unit, unit fetch_result) form_event view" where
  "DeleteNetwork_view d =
     Box [dialog_head ''Delete Network'' [],
       Box [Words ''Are you sure you want to delete '',
         (case tg_target d of None \<Rightarrow> Box [] | Some n \<Rightarrow> Words (discoveryNetwork_name n)),
         Words ''? All discovered hosts in the inbox from this network will also be deleted.''],
       error_line (tg_error d),
       dialog_foot (tg_loading d) (if tg_loading d then ''Deleting'' @ ellipsis else ''Delete'')]"

definition DeleteItem_view ::
  "DiscoveryInboxItem target_dialog \<Rightarrow> (DiscoveryInboxItem, unit, unit fetch_result) form_event view" where
  "DeleteItem_view d =
     Box [dialog_head ''Delete Inbox Entry'' [],
       Box [Words ''Delete '',
         (case tg_target d of None \<Rightarrow> Box [] | Some item \<Rightarrow> Words (discoveryInboxItem_ip item)), Words '':'',
         (case tg_target d of None \<Rightarrow> Box [] | Some item \<Rightarrow> Words (show_int (discoveryInboxItem_port item))),
         Words ''? It will reappear as new if the scanner discovers it again.''],
       error_line (tg_error d),
       dialog_foot (tg_loading d) (if tg_loading d then ''Deleting'' @ ellipsis else ''Delete'')]"

interpretation network_shown: form_view network_ops "\<lambda>ev. ev" "NetworkDialog_view scanners" for scanners
  by unfold_locales (auto simp: network_ops_def NetworkDialog_view_def view_parts)

interpretation delete_network_shown: form_view delete_network_ops "\<lambda>ev. ev" DeleteNetwork_view
  by unfold_locales (auto simp: delete_network_ops_def DeleteNetwork_view_def view_parts split: option.splits)

interpretation delete_item_shown: form_view delete_item_ops "\<lambda>ev. ev" DeleteItem_view
  by unfold_locales (auto simp: delete_item_ops_def DeleteItem_view_def view_parts split: option.splits)

subsection \<open>A network\<close>

fun SIGNAL_BORDER_network :: "SignalColor \<Rightarrow> string" where
  "SIGNAL_BORDER_network SignalNeutral = ''border-l-foreground/20''"
| "SIGNAL_BORDER_network SignalGreen = ''border-l-green-500''"
| "SIGNAL_BORDER_network SignalAmber = ''border-l-amber-500''"
| "SIGNAL_BORDER_network SignalRed = ''border-l-red-500''"

fun SIGNAL_VALUE_network :: "SignalColor \<Rightarrow> string" where
  "SIGNAL_VALUE_network SignalNeutral = ''text-foreground''"
| "SIGNAL_VALUE_network SignalGreen = ''text-green-600''"
| "SIGNAL_VALUE_network SignalAmber = ''text-amber-600''"
| "SIGNAL_VALUE_network SignalRed = ''text-red-600''"

definition StatCard_network :: "string \<Rightarrow> string \<Rightarrow> SignalColor \<Rightarrow> 'e view" where
  "StatCard_network label value signal =
     Box [Icon (SIGNAL_BORDER_network signal), Words label, Icon (SIGNAL_VALUE_network signal), Words value]"

definition StatusPill :: "bool \<Rightarrow> 'e view" where
  "StatusPill enabled = (if enabled then Box [Icon ''green'', Words ''Enabled''] else Box [Icon ''muted'', Words ''Disabled''])"

definition PortChips :: "int list \<Rightarrow> 'e view" where
  "PortChips ports = Box (map (\<lambda>p. Words (show_int p)) ports)"

definition scanner_dot :: "bool \<Rightarrow> 'e view" where
  "scanner_dot b = Icon (if b then ''green'' else ''muted'')"

datatype networks_ui =
    NetworksUi networks_event
  | CreateNetworkUi "(DiscoveryNetwork option, network_edit, DiscoveryNetwork fetch_result) form_event"
  | EditNetworkUi "(DiscoveryNetwork option, network_edit, DiscoveryNetwork fetch_result) form_event"
  | DeleteNetworkUi "(DiscoveryNetwork, unit, unit fetch_result) form_event"

fun network_action_words :: "network_action \<Rightarrow> networks_ui view list" where
  "network_action_words EditNetwork = [Icon ''Pencil'', Words ''Edit'']"
| "network_action_words DisableNetwork = [Icon ''PowerOff'', Words ''Disable'']"
| "network_action_words EnableNetwork = [Icon ''Power'', Words ''Enable'']"
| "network_action_words DeleteNetwork = [Icon ''Trash2'', Words ''Delete'']"

definition NetworkActionsMenu_view :: "DiscoveryNetwork \<Rightarrow> bool \<Rightarrow> networks_ui view" where
  "NetworkActionsMenu_view n toggling =
     Box (map (\<lambda>(a, on). Button (\<not> on) (network_action_words a) (NetworksUi (NetworkAction a n))) (NetworkActionsMenu n toggling))"

definition NetworkRow_view :: "bool \<Rightarrow> bool \<Rightarrow> DiscoveryNetwork \<Rightarrow> networks_ui view" where
  "NetworkRow_view canEdit toggling n =
     (let r = NetworkRow n in
      Box [Icon ''Network'', Words (nr_name r), Words (nr_range r), PortChips (nr_ports r),
        scanner_dot (nr_scannerDot r), Words (nr_scanner r), Icon ''Clock'', Words (nr_schedule r), StatusPill (nr_enabled r),
        only_if canEdit (NetworkActionsMenu_view n toggling)])"

fun network_value_view :: "network_value \<Rightarrow> 'e view" where
  "network_value_view (PlainValue s) = Words s"
| "network_value_view (PortValues ports) = PortChips ports"
| "network_value_view (DottedValue b s) = Box [scanner_dot b, Words s]"

definition NetworkCard_view :: "bool \<Rightarrow> bool \<Rightarrow> DiscoveryNetwork \<Rightarrow> networks_ui view" where
  "NetworkCard_view canEdit toggling n =
     (case NetworkCard n of ((name, enabled), rows) \<Rightarrow>
        Box [Icon ''Network'', Words name, StatusPill enabled, only_if canEdit (NetworkActionsMenu_view n toggling),
          Box (map (\<lambda>(label, v). Box [Words label, only_if (label = ''Schedule:'') (Icon ''Clock''), network_value_view v]) rows)])"

subsection \<open>The networks page\<close>

text \<open>Both layouts are rendered; a class hides one of them.\<close>

definition networks_table_view :: "bool \<Rightarrow> bool \<Rightarrow> bool \<Rightarrow> DiscoveryNetwork list \<Rightarrow> networks_ui view" where
  "networks_table_view canEdit isLoading toggling networks =
     (if isLoading then Words (''Loading'' @ ellipsis)
      else if networks = [] then Box [Icon ''strix'', Words ''No networks configured yet.'']
      else Box [Words ''Network Name'', Words ''IP Range'', Words ''Ports'', Words ''Scanner Node'', Words ''Schedule'', Words ''Status'',
        Box (map (NetworkCard_view canEdit toggling) networks),
        Box (map (NetworkRow_view canEdit toggling) networks)])"

text \<open>What the page has received, and the states of the mounted dialogs.\<close>

record networks_answers =
  na_networks :: "DiscoveryNetworkList query"
  na_inbox :: "DiscoveryInboxList option"
  na_scanners :: "ScannerToken list"
  na_toggling :: bool
  na_create :: network_dialog
  na_edit :: network_dialog
  na_delete :: "DiscoveryNetwork target_dialog"

definition network_dialogs_view :: "networks_answers \<Rightarrow> networks_page \<Rightarrow> networks_ui view" where
  "network_dialogs_view q p =
     Box [dialog_view (np_showCreate p) (CreateNetworkUi FormClosed)
         (map_view CreateNetworkUi (NetworkDialog_view (na_scanners q) (na_create q))),
       dialog_view (np_editing p \<noteq> None) (EditNetworkUi FormClosed)
         (map_view EditNetworkUi (NetworkDialog_view (na_scanners q) (na_edit q))),
       dialog_view (np_deleting p \<noteq> None) (DeleteNetworkUi FormClosed)
         (map_view DeleteNetworkUi (DeleteNetwork_view (na_delete q)))]"

definition network_cards_view :: "networks_answers \<Rightarrow> 'e view" where
  "network_cards_view q =
     Box (map (\<lambda>(label, n, signal). StatCard_network label (case n of None \<Rightarrow> em_dash | Some i \<Rightarrow> show_int i) signal)
       (network_stats (q_data (na_networks q)) (na_inbox q)))"

definition DiscoveryNetworksPage_view :: "bool \<Rightarrow> networks_answers \<Rightarrow> networks_page \<Rightarrow> networks_ui view" where
  "DiscoveryNetworksPage_view canEdit q p =
     (let isLoading = q_loading (na_networks q); networks = networks_of (q_data (na_networks q)) in
      Box [Words ''Discovery Networks'',
        Words ''Configure and monitor automated scanning of your network infrastructure'',
        Words ''to maintain real-time visibility of TLS certificates.'',
        only_if canEdit (Button False [Icon ''Plus'', Words ''Create Network''] (NetworksUi CreatePressed)),
        only_if (\<not> isLoading \<and> length networks > 0) (network_cards_view q),
        networks_table_view canEdit isLoading (na_toggling q) networks,
        network_dialogs_view q p])"

fun networks_click :: "networks_ui \<Rightarrow> networks_page \<Rightarrow> networks_page" where
  "networks_click (NetworksUi ev) p = networks_step ev p"
| "networks_click (CreateNetworkUi ev) p = (if ev = FormClosed then networks_step CreateClosed p else p)"
| "networks_click (EditNetworkUi ev) p = (if ev = FormClosed then networks_step EditClosed p else p)"
| "networks_click (DeleteNetworkUi ev) p = (if ev = FormClosed then networks_step DeleteClosed p else p)"

lemma network_parts_offers:
  "offers (StatCard_network label value signal) = {}" "offers (StatusPill enabled) = {}" "offers (PortChips ports) = {}"
  "offers (scanner_dot b) = {}" "offers (network_value_view v) = {}"
  by (cases v; simp add: StatCard_network_def StatusPill_def PortChips_def scanner_dot_def)+

lemma network_cards_offers: "offers (network_cards_view q) = {}"
  by (auto simp: network_cards_view_def network_parts_offers)

lemma network_menu_offers:
  "offers (NetworkActionsMenu_view n toggling) = (\<lambda>(a, on). NetworksUi (NetworkAction a n)) ` {e \<in> set (NetworkActionsMenu n toggling). snd e}"
  by (force simp: NetworkActionsMenu_view_def split: if_splits)

lemma network_row_offers:
  "offers (NetworkRow_view canEdit toggling n) = (if canEdit then offers (NetworkActionsMenu_view n toggling) else {})"
  "offers (NetworkCard_view canEdit toggling n) = (if canEdit then offers (NetworkActionsMenu_view n toggling) else {})"
  by (auto simp: NetworkRow_view_def NetworkCard_view_def NetworkCard_def network_parts_offers Let_def)

lemma networks_table_offers:
  "offers (networks_table_view canEdit isLoading toggling networks)
     = (if canEdit \<and> \<not> isLoading then \<Union> ((\<lambda>n. offers (NetworkActionsMenu_view n toggling)) ` set networks) else {})"
  by (auto simp: networks_table_view_def network_row_offers)

definition networks_closed :: "networks_page \<Rightarrow> bool" where
  "networks_closed p \<longleftrightarrow> \<not> np_showCreate p \<and> np_editing p = None \<and> np_deleting p = None"

lemma networks_view_reader: "networks_closed p \<Longrightarrow> offers (DiscoveryNetworksPage_view False q p) = {}"
  by (simp add: DiscoveryNetworksPage_view_def networks_closed_def network_dialogs_view_def networks_table_offers
      network_cards_offers Let_def)

text \<open>Whoever may not edit networks is offered no control at all, whatever the server answers.\<close>

lemma networks_reader:
  assumes "used (DiscoveryNetworksPage_view False) (\<lambda>_. networks_click) networks_page_init p"
  shows "offers (DiscoveryNetworksPage_view False q p) = {}"
proof -
  have "networks_closed p"
    by (rule used_invariant [OF assms]) (auto simp: networks_view_reader, simp add: networks_closed_def networks_page_init_def)
  then show ?thesis by (rule networks_view_reader)
qed

lemma create_network_offered: "NetworksUi CreatePressed \<in> offers (DiscoveryNetworksPage_view True q p)"
  by (simp add: DiscoveryNetworksPage_view_def Let_def)

text \<open>
  The rows act on networks of the answer, with the actions of their menus; while a switch is under way no row offers a second one,
  because the mutation is one for all rows.
\<close>

lemma network_rows_act:
  assumes "NetworksUi (NetworkAction a n) \<in> offers (DiscoveryNetworksPage_view canEdit q p)"
  shows "canEdit \<and> n \<in> set (networks_of (q_data (na_networks q))) \<and> (a, True) \<in> set (NetworkActionsMenu n (na_toggling q))"
  using assms
  by (auto simp: DiscoveryNetworksPage_view_def network_dialogs_view_def networks_table_offers network_menu_offers
      network_cards_offers Let_def split: if_splits)

lemma one_switch_at_a_time:
  "na_toggling q \<Longrightarrow> a \<in> {DisableNetwork, EnableNetwork} \<Longrightarrow>
     NetworksUi (NetworkAction a n) \<notin> offers (DiscoveryNetworksPage_view canEdit q p)"
  using network_rows_act [of a n canEdit q p] by (auto simp: NetworkActionsMenu_def)

subsection \<open>An entry of the inbox\<close>

datatype inbox_ui =
    InboxUi inbox_event
  | PromoteClicked DiscoveryInboxItem
  | RefreshClicked
  | DeleteItemUi "(DiscoveryInboxItem, unit, unit fetch_result) form_event"

fun inbox_badge_view :: "inbox_badge \<Rightarrow> 'e view" where
  "inbox_badge_view BadgeNew = Box [Icon ''blue'', Words ''New'']"
| "inbox_badge_view BadgeDismissed = Box [Icon ''muted'', Words ''Dismissed'']"

fun inbox_action_words :: "inbox_action \<Rightarrow> inbox_ui view list" where
  "inbox_action_words PromoteItem = [Icon ''Plus'', Words ''Add as Endpoint'']"
| "inbox_action_words DismissItem = [Icon ''EyeOff'', Words ''Dismiss'']"
| "inbox_action_words DeleteItem = [Icon ''Trash2'', Words ''Delete'']"

fun inbox_action_event :: "inbox_action \<Rightarrow> DiscoveryInboxItem \<Rightarrow> inbox_ui" where
  "inbox_action_event PromoteItem item = PromoteClicked item"
| "inbox_action_event DismissItem item = InboxUi (DismissPressed item)"
| "inbox_action_event DeleteItem item = InboxUi (DeletePressed item)"

definition InboxActionsMenu_view :: "DiscoveryInboxItem \<Rightarrow> (inbox_action \<times> bool) list \<Rightarrow> inbox_ui view" where
  "InboxActionsMenu_view item entries =
     Box (map (\<lambda>(a, on). Button (\<not> on) (inbox_action_words a) (inbox_action_event a item)) entries)"

text \<open>A dismissed entry is dimmed.\<close>

definition InboxRow_view :: "bool \<Rightarrow> int \<Rightarrow> string option \<Rightarrow> DiscoveryInboxItem \<Rightarrow> inbox_ui view" where
  "InboxRow_view canEdit now dismissing item =
     (let r = InboxRow canEdit now dismissing item in
      Box [only_if (ir_dimmed r) (Icon ''opacity-50''), inbox_badge_view (ir_status r), Words (ir_ip r), Words (show_int (ir_port r)),
        Words (ir_host r), Words (nullish (ir_network r) em_dash), Words (ir_lastSeen r), InboxActionsMenu_view item (ir_menu r)])"

definition InboxCard_view :: "bool \<Rightarrow> int \<Rightarrow> string option \<Rightarrow> DiscoveryInboxItem \<Rightarrow> inbox_ui view" where
  "InboxCard_view canEdit now dismissing item =
     (case InboxCard canEdit now dismissing item of (address, status, rows, entries) \<Rightarrow>
        Box [only_if (discoveryInboxItem_status item = ''dismissed'') (Icon ''opacity-50''), Words address, inbox_badge_view status,
          InboxActionsMenu_view item entries, Box (map (\<lambda>(label, v). Box [Words label, Words v]) rows)])"

subsection \<open>The inbox page\<close>

text \<open>Two tables by colour.\<close>

definition SIGNAL_BORDER_inbox :: "string \<Rightarrow> string" where
  "SIGNAL_BORDER_inbox c =
     nullish (map_of [(''neutral'', ''border-l-foreground/20''), (''blue'', ''border-l-blue-500''), (''green'', ''border-l-green-500''),
       (''amber'', ''border-l-amber-500''), (''red'', ''border-l-red-500'')] c) ''undefined''"

definition SIGNAL_VALUE_inbox :: "string \<Rightarrow> string" where
  "SIGNAL_VALUE_inbox c =
     nullish (map_of [(''neutral'', ''text-foreground''), (''blue'', ''text-blue-600''), (''green'', ''text-green-600''),
       (''amber'', ''text-amber-600''), (''red'', ''text-red-600'')] c) ''undefined''"

definition StatCard_inbox :: "string \<Rightarrow> int option \<Rightarrow> string \<Rightarrow> 'e view" where
  "StatCard_inbox label n signal =
     Box [Icon (SIGNAL_BORDER_inbox signal), Words label, Icon (SIGNAL_VALUE_inbox signal),
       Words (case n of None \<Rightarrow> em_dash | Some i \<Rightarrow> show_int i)]"

definition inbox_rows_view :: "bool \<Rightarrow> bool \<Rightarrow> int \<Rightarrow> string option \<Rightarrow> DiscoveryInboxItem list \<Rightarrow> inbox_ui view" where
  "inbox_rows_view canEdit isLoading now dismissing items =
     (if isLoading then Words (''Loading'' @ ellipsis)
      else if items = [] then Box [Icon ''strix'', Words ''No discovered hosts yet.'']
      else Box [Box (map (InboxCard_view canEdit now dismissing) items), Box (map (InboxRow_view canEdit now dismissing) items)])"

record inbox_answers =
  ib_now :: int
  ib_items :: "DiscoveryInboxList query"
  ib_fetching :: bool
  ib_newCount :: "DiscoveryInboxList option"
  ib_allCount :: "DiscoveryInboxList option"
  ib_networks :: "DiscoveryNetworkList option"
  ib_delete :: "DiscoveryInboxItem target_dialog"

definition DiscoveryInboxPage_view :: "(int \<Rightarrow> string) \<Rightarrow> bool \<Rightarrow> inbox_answers \<Rightarrow> inbox_page \<Rightarrow> inbox_ui view" where
  "DiscoveryInboxPage_view fmtInt canEdit q p =
     (let data = q_data (ib_items q); options = networkOptions (ib_networks q) in
      Box [Words ''Discovery Inbox'', Words ''Review newly identified assets across your monitored infrastructure.'',
        Box (map (\<lambda>(label, n, signal). StatCard_inbox label n signal) (inbox_stats (ib_newCount q) (ib_allCount q))),
        only_if (length options > 1)
          (FilterDropdown False ''Network'' options (ip_networkFilter p) (\<lambda>v. InboxUi (PickNetwork v))),
        Box [TickBox False (ip_showDismissed p) (\<lambda>v. InboxUi (SwitchDismissed v)), Words ''Show dismissed'',
          Button False [Icon (if ib_fetching q then ''RefreshCw animate-spin'' else ''RefreshCw'')] RefreshClicked],
        Box (map Words [''Status'', ''IP Address'', ''Port'', ''RDNS / Hostname'', ''Network'', ''Last Seen'']),
        inbox_rows_view canEdit (q_loading (ib_items q)) (ib_now q) (ip_dismissing p) (inbox_items data),
        footer_view fmtInt ''No discoveries'' ''discovery'' (inbox_total data) (ip_page p) (\<lambda>b. InboxUi (TurnInboxPage b)),
        dialog_view (ip_deleteTarget p \<noteq> None) (DeleteItemUi FormClosed) (map_view DeleteItemUi (DeleteItem_view (ib_delete q)))])"

text \<open>Adding an entry leaves the page; the refresh button asks the server again.\<close>

fun inbox_click :: "inbox_answers \<Rightarrow> inbox_ui \<Rightarrow> inbox_page \<Rightarrow> inbox_page" where
  "inbox_click q (InboxUi ev) p = inbox_step (inbox_total (q_data (ib_items q))) ev p"
| "inbox_click q (PromoteClicked item) p = p"
| "inbox_click q RefreshClicked p = p"
| "inbox_click q (DeleteItemUi ev) p = (if ev = FormClosed then p\<lparr>ip_deleteTarget := None\<rparr> else p)"

text \<open>The controls that change an entry or open the dialog that does.\<close>

fun inbox_change :: "inbox_ui \<Rightarrow> bool" where
  "inbox_change (InboxUi (DeletePressed item)) = True"
| "inbox_change (InboxUi (DismissPressed item)) = True"
| "inbox_change (PromoteClicked item) = True"
| "inbox_change (DeleteItemUi ev) = True"
| "inbox_change _ = False"

lemma inbox_badge_offers: "offers (inbox_badge_view b) = {}"
  by (cases b) simp_all

lemma inbox_menu_offers:
  "offers (InboxActionsMenu_view item entries) = (\<lambda>(a, on). inbox_action_event a item) ` {e \<in> set entries. snd e}"
  by (force simp: InboxActionsMenu_view_def split: if_splits)

lemma inbox_row_offers:
  "offers (InboxRow_view canEdit now dismissing item)
     = (if canEdit then offers (InboxActionsMenu_view item (InboxActionsMenu item dismissing)) else {})"
  "offers (InboxCard_view canEdit now dismissing item)
     = (if canEdit then offers (InboxActionsMenu_view item (InboxActionsMenu item dismissing)) else {})"
  by (auto simp: InboxRow_view_def InboxRow_def InboxCard_view_def InboxCard_def inbox_badge_offers inbox_menu_offers Let_def)

lemma inbox_rows_offers:
  "offers (inbox_rows_view canEdit isLoading now dismissing items)
     = (if canEdit \<and> \<not> isLoading
        then \<Union> ((\<lambda>item. offers (InboxActionsMenu_view item (InboxActionsMenu item dismissing))) ` set items) else {})"
  by (auto simp: inbox_rows_view_def inbox_row_offers)

lemma inbox_stats_offers: "offers (StatCard_inbox label n signal) = {}"
  by (simp add: StatCard_inbox_def)

lemma inbox_footer_quiet: "e \<in> offers (footer_view fmtInt none noun tot page (\<lambda>b. InboxUi (TurnInboxPage b))) \<Longrightarrow> \<not> inbox_change e"
  using footer_offers [of fmtInt none noun tot page "\<lambda>b. InboxUi (TurnInboxPage b)"] by auto

lemma inbox_view_reader:
  assumes "ip_deleteTarget p = None" and "e \<in> offers (DiscoveryInboxPage_view fmtInt False q p)"
  shows "\<not> inbox_change e"
  using assms inbox_footer_quiet [of e]
  by (auto simp: DiscoveryInboxPage_view_def inbox_rows_offers inbox_stats_offers Let_def split: if_splits)

lemma inbox_click_reader: "ip_deleteTarget p = None \<Longrightarrow> \<not> inbox_change e \<Longrightarrow> ip_deleteTarget (inbox_click q e p) = None"
  by (cases "(q, e, p)" rule: inbox_click.cases; cases e rule: inbox_change.cases) simp_all

text \<open>Whoever may not edit the inbox can filter, refresh and turn pages, and is never asked to confirm a delete.\<close>

lemma inbox_reader:
  assumes "used (DiscoveryInboxPage_view fmtInt False) inbox_click inbox_init p"
    and "e \<in> offers (DiscoveryInboxPage_view fmtInt False q p)"
  shows "\<not> inbox_change e"
proof -
  have "ip_deleteTarget p = None"
  proof (rule used_invariant [OF assms(1)])
    show "ip_deleteTarget inbox_init = None" by (simp add: inbox_init_def)
  next
    fix t e' q'
    assume "ip_deleteTarget t = None" and "e' \<in> offers (DiscoveryInboxPage_view fmtInt False q' t)"
    then show "ip_deleteTarget (inbox_click q' e' t) = None" using inbox_view_reader inbox_click_reader by blast
  qed
  then show ?thesis using inbox_view_reader assms(2) by blast
qed

text \<open>The menus act on entries of the answer; an entry whose dismissal is the marked one cannot be dismissed again.\<close>

lemma inbox_dismiss_offered:
  assumes "InboxUi (DismissPressed item) \<in> offers (DiscoveryInboxPage_view fmtInt canEdit q p)"
  shows "canEdit \<and> item \<in> set (inbox_items (q_data (ib_items q))) \<and> discoveryInboxItem_status item \<noteq> ''dismissed''
    \<and> ip_dismissing p \<noteq> Some (discoveryInboxItem_id item)"
proof -
  have "InboxUi (DismissPressed item) \<in> offers (inbox_rows_view canEdit (q_loading (ib_items q)) (ib_now q) (ip_dismissing p)
      (inbox_items (q_data (ib_items q))))"
    using assms footer_offers [of fmtInt "''No discoveries''" "''discovery''" "inbox_total (q_data (ib_items q))" "ip_page p"
        "\<lambda>b. InboxUi (TurnInboxPage b)"]
    by (auto simp: DiscoveryInboxPage_view_def inbox_stats_offers Let_def split: if_splits)
  then obtain a i on where i: "canEdit" "i \<in> set (inbox_items (q_data (ib_items q)))" "(a, on) \<in> set (InboxActionsMenu i (ip_dismissing p))"
      "on" and e: "InboxUi (DismissPressed item) = inbox_action_event a i"
    by (auto simp: inbox_rows_offers inbox_menu_offers split: if_splits)
  from e have "a = DismissItem" "i = item" by (cases a; simp)+
  with i show ?thesis by (auto simp: InboxActionsMenu_def split: if_splits)
qed

end
