(* ===== verification/PageAccess.thy ===== *)
theory PageAccess
  imports ScannerViews TagViews UserViews EndpointViews DiscoveryViews
begin

section \<open>Who is offered what\<close>

text \<open>
  The lists of endpoints, certificates, users, tags, scanners, discovery networks and the discovery inbox together, each with the permission it asks \<open>can\<close> for. What the pages offer
  follows the table of the server, in every state a user can reach with the controls of the page.
\<close>

lemma can_server:
  "identity_role c = Some (JStr role) \<Longrightarrow> role \<notin> set object_prototype_members \<Longrightarrow> can p c = Some (Has role p)"
  by (simp add: can_def hasPermission_server)

lemma add_scanner_offered: "AddScannerClicked \<in> offers (scanners_view True q p)"
  by (cases q) (simp add: scanners_view_def Let_def)

lemma add_user_offered: "vw_admin v \<Longrightarrow> AddUserClicked \<in> offers (users_view fmtDate fmtInt v q p)"
  by (cases q) (simp add: users_view_def Let_def)

lemma ingest_offered: "IngestClicked \<in> offers (CertificatesPage_view fmtDate fmtInt True q p)"
  by (cases q; cases "ca_counts (snd q)") (simp add: CertificatesPage_view_def)

lemma import_offered: "ImportClicked \<in> offers (EndpointPage_view fmtInt typ True q p)"
  by (cases q; cases "ea_counts (snd (snd q))") (simp add: EndpointPage_view_def endpoint_head_view_def Let_def)



end
