(* ===== verification/MaintenanceViews.thy ===== *)
theory MaintenanceViews
  imports Views Maintenance
begin

section \<open>What the maintenance page shows (\<open>pages/settings/MaintenancePage.tsx\<close>)\<close>

text \<open>
  The views of a row, of the dialog and of the page over the states of \<open>Maintenance\<close>, and what each control does to the page.
  \<open>fmtDateTime\<close> and \<open>fmt\<close> are the two date formats of the browser. Shown: a row acts on its own job, and only on one the server knows;
  the buttons of the dialog can be pressed exactly when their handlers start something.
\<close>

subsection \<open>The dialog\<close>

fun TONE_CLASSES_job :: "Tone \<Rightarrow> string" where
  "TONE_CLASSES_job Emerald = ''bg-emerald-100 text-emerald-600 dark:bg-emerald-950/50 dark:text-emerald-400''"
| "TONE_CLASSES_job Amber = ''bg-amber-100 text-amber-600 dark:bg-amber-950/50 dark:text-amber-400''"
| "TONE_CLASSES_job Blue = ''bg-blue-100 text-blue-600 dark:bg-blue-950/50 dark:text-blue-400''"

definition job_retention_view :: "JobConfig \<Rightarrow> job_dialog \<Rightarrow> (JobConfig \<times> ScheduledJob, job_edit, job_answers) form_event view" where
  "job_retention_view cfg d =
     (case (jc_retention cfg, jd_retentionData d) of
        (Some ret, Some _) \<Rightarrow>
          labelled (jr_label ret)
            (Box [Words (jr_hint ret), NumberBox False (jd_retention d) (\<lambda>n. FormEdited (TypeRetention n)), Words ''days''])
      | _ \<Rightarrow> Box [])"

definition job_last_run_view :: "(string \<Rightarrow> string) \<Rightarrow> job_dialog \<Rightarrow> 'e view" where
  "job_last_run_view fmt d =
     (case job_last_run d of
        None \<Rightarrow> Box []
      | Some (at, status) \<Rightarrow>
          Box [Words (''Last run: '' @ fmt at), (case status of None \<Rightarrow> Box [] | Some s \<Rightarrow> Words ('' '' @ em_dash @ '' '' @ s))])"

definition job_buttons_view :: "job_dialog \<Rightarrow> (JobConfig \<times> ScheduledJob, job_edit, job_answers) form_event view" where
  "job_buttons_view d =
     (case job_buttons d of (run, cancel, save, can_save) \<Rightarrow>
        Box [(case run of None \<Rightarrow> Box [] | Some (label, on) \<Rightarrow> Button (\<not> on) [Icon ''Play'', Words label] (FormEdited RunPressed)),
          Button (\<not> cancel) [Words ''Cancel''] FormClosed,
          Button (\<not> can_save) [Words save] SubmitPressed])"

definition JobEditDialog_view ::
  "(string \<Rightarrow> string) \<Rightarrow> job_dialog \<Rightarrow> (JobConfig \<times> ScheduledJob, job_edit, job_answers) form_event view" where
  "JobEditDialog_view fmt d =
     (case jd_cfg d of
        None \<Rightarrow> Box []
      | Some cfg \<Rightarrow>
          Box [Icon (TONE_CLASSES_job (jc_tone cfg)), dialog_head (jc_title cfg) [Words (jc_description cfg)],
            Box [Words ''Enabled'', Words (job_switch_hint d), TickBox False (jd_enabled d) (\<lambda>b. FormEdited (SwitchJob b))],
            labelled ''Schedule'' (TextBox False (jd_cron d) (\<lambda>s. FormEdited (PickJobSchedule s))),
            job_retention_view cfg d, job_last_run_view fmt d, error_line (jd_error d), error_line (jd_runResult d),
            job_buttons_view d])"

lemma job_parts_clicks:
  "clicks (job_retention_view cfg d) = []" "clicks (job_last_run_view fmt d) = []"
  by (auto simp: job_retention_view_def job_last_run_view_def labelled_def split: option.splits)

lemma job_buttons_clicks:
  "set (clicks (job_buttons_view d))
     = (if jd_saving d then {} else {FormClosed} \<union> (if jd_job d = None then {} else {SubmitPressed}))
       \<union> (case jd_cfg d of None \<Rightarrow> {}
          | Some cfg \<Rightarrow> if jc_runner cfg = None \<or> jd_running d \<or> jd_saving d then {} else {FormEdited RunPressed})"
  by (auto simp: job_buttons_view_def job_buttons_def split: option.splits)

text \<open>
  \<open>Save\<close> can be pressed exactly when a press starts a save, \<open>Run Now\<close> exactly when it starts a run, and whatever failed is readable. Unlike the
  other dialogs this one also waits for its job, which a refresh of the page may take away.
\<close>

lemma job_save_pressable:
  assumes "jd_cfg d = Some cfg"
  shows "SubmitPressed \<in> set (clicks (JobEditDialog_view fmt d)) \<longleftrightarrow> \<not> jd_saving d \<and> fst (job_submit d)"
  using assms job_buttons_clicks [of d] by (auto simp: JobEditDialog_view_def job_parts_clicks view_parts job_submit_def)

lemma job_run_pressable:
  assumes "jd_cfg d = Some cfg"
  shows "FormEdited RunPressed \<in> set (clicks (JobEditDialog_view fmt d)) \<longleftrightarrow> run_start d \<noteq> d"
proof -
  have "run_start d \<noteq> d \<longleftrightarrow> \<not> (jc_runner cfg = None \<or> jd_running d \<or> jd_saving d)"
    using assms by (cases d) (auto simp: run_start_def)
  then show ?thesis
    using assms job_buttons_clicks [of d] by (auto simp: JobEditDialog_view_def job_parts_clicks view_parts run_start_def)
qed

lemma job_error_readable:
  "jd_cfg d = Some cfg \<Longrightarrow> truthy (jd_error d) \<Longrightarrow> the (jd_error d) \<in> set (words_of (JobEditDialog_view fmt d))"
  by (simp add: JobEditDialog_view_def error_line_def)

subsection \<open>The table and the page\<close>

datatype jobs_ui =
    JobClicked job_action JobConfig
  | JobUi "(JobConfig \<times> ScheduledJob, job_edit, job_answers) form_event"

fun job_action_words :: "bool \<Rightarrow> job_action \<Rightarrow> jobs_ui view list" where
  "job_action_words running EditJob = [Icon ''Pencil'', Words ''Edit'']"
| "job_action_words running RunNow = [Icon ''Play'', Words (if running then ''Running'' @ ellipsis else ''Run Now'')]"
| "job_action_words running DisableJob = [Icon ''PowerOff'', Words ''Disable'']"
| "job_action_words running EnableJob = [Icon ''Power'', Words ''Enable'']"

fun run_mark_view :: "run_mark \<Rightarrow> 'e view" where
  "run_mark_view NoRunYet = Words em_dash"
| "run_mark_view (RunFailed s) = Box [Icon ''XCircle'', Words s]"
| "run_mark_view (RunSucceeded s) = Box [Icon ''CheckCircle2'', Words s]"

text \<open>The button that opens the menu is disabled while the job is unknown.\<close>

definition JobRow_view ::
  "(string \<Rightarrow> string) \<Rightarrow> JobConfig \<Rightarrow> ScheduledJob option \<Rightarrow> bool \<Rightarrow> bool \<Rightarrow> jobs_ui view" where
  "JobRow_view fmtDateTime cfg job toggling running =
     (let r = JobRow cfg job toggling running in
      Box [Icon (TONE_CLASSES_job (jc_tone cfg)), Words (jrow_title r), Words (jc_description cfg),
        Icon ''Clock'', Words (jrow_schedule r),
        Words (case jrow_lastRun r of None \<Rightarrow> ''Never'' | Some at \<Rightarrow> fmtDateTime at),
        run_mark_view (jrow_status r),
        (if jrow_enabled r then Box [Icon ''green'', Words ''Enabled''] else Box [Icon ''muted'', Words ''Disabled'']),
        (case jrow_menu r of
           None \<Rightarrow> Box []
         | Some entries \<Rightarrow> Box (map (\<lambda>(a, on). Button (\<not> on) (job_action_words running a) (JobClicked a cfg)) entries))])"

text \<open>What the page has received, the name of the job that is run from the table, and the state of the dialog.\<close>

record jobs_answers =
  jq_jobs :: "ScheduledJob list query"
  jq_toggling :: bool
  jq_running :: "string option"
  jq_dialog :: job_dialog

definition MaintenancePage_view ::
  "(string \<Rightarrow> string) \<Rightarrow> (string \<Rightarrow> string) \<Rightarrow> jobs_answers \<Rightarrow> JobConfig option \<Rightarrow> jobs_ui view" where
  "MaintenancePage_view fmtDateTime fmt q editing =
     Box [breadcrumb_view [(''Settings'', Some ''/settings''), (''Maintenance'', None)],
       Words ''Maintenance'', Words ''Database housekeeping tasks and their automated schedules.'',
       (if q_loading (jq_jobs q) then Words (''Loading'' @ ellipsis)
        else Box [Words ''Job'', Words ''Schedule'', Words ''Last Run'', Words ''Last Status'', Words ''Status'',
          Box (map (\<lambda>cfg. JobRow_view fmtDateTime cfg (find_job (jc_name cfg) (q_data (jq_jobs q))) (jq_toggling q)
            (jq_running q = Some (jc_name cfg))) JOBS)]),
       dialog_view (editing \<noteq> None) (JobUi FormClosed) (map_view JobUi (JobEditDialog_view fmt (jq_dialog q)))]"

text \<open>
  What a control does to the page at once: the entries of the menus but \<open>Edit\<close> are requests, and the dialog does not close while it saves.
\<close>

fun maintenance_click :: "jobs_answers \<Rightarrow> jobs_ui \<Rightarrow> JobConfig option \<Rightarrow> JobConfig option" where
  "maintenance_click q (JobClicked EditJob cfg) editing = Some cfg"
| "maintenance_click q (JobClicked _ cfg) editing = editing"
| "maintenance_click q (JobUi ev) editing = (if ev = FormClosed \<and> \<not> jd_saving (jq_dialog q) then None else editing)"

lemma run_mark_offers: "offers (run_mark_view m) = {}"
  by (cases m) simp_all

lemma job_row_offers:
  "offers (JobRow_view fmtDateTime cfg job toggling running)
     = (case job of None \<Rightarrow> {}
        | Some j \<Rightarrow> {JobClicked EditJob cfg} \<union> (if jc_runner cfg = None \<or> running then {} else {JobClicked RunNow cfg})
            \<union> (if toggling then {} else {JobClicked (if scheduledJob_enabled j then DisableJob else EnableJob) cfg}))"
  by (auto simp: JobRow_view_def JobRow_def run_mark_offers Let_def split: option.splits)

text \<open>
  Every entry that can be pressed acts on a job of the table that the server has answered with: running is offered for jobs that
  can be run by hand and is not while the same job is marked as running, and the switch is to the opposite state.
\<close>

lemma job_rows_act:
  assumes "JobClicked a cfg \<in> offers (MaintenancePage_view fmtDateTime fmt q editing)"
  shows "\<exists>j. cfg \<in> set JOBS \<and> find_job (jc_name cfg) (q_data (jq_jobs q)) = Some j
    \<and> (a = RunNow \<longrightarrow> jc_runner cfg \<noteq> None \<and> jq_running q \<noteq> Some (jc_name cfg))
    \<and> (a = DisableJob \<longrightarrow> scheduledJob_enabled j) \<and> (a = EnableJob \<longrightarrow> \<not> scheduledJob_enabled j)"
proof -
  obtain cfg' where c: "cfg' \<in> set JOBS" and o: "JobClicked a cfg \<in> offers (JobRow_view fmtDateTime cfg'
      (find_job (jc_name cfg') (q_data (jq_jobs q))) (jq_toggling q) (jq_running q = Some (jc_name cfg')))"
    using assms by (auto simp: MaintenancePage_view_def split: if_splits)
  show ?thesis
  proof (cases "find_job (jc_name cfg') (q_data (jq_jobs q))")
    case (Some j)
    with o have "cfg = cfg'" by (auto simp: job_row_offers split: if_splits)
    with c o Some show ?thesis by (auto simp: job_row_offers split: if_splits)
  qed (use o in \<open>simp add: job_row_offers\<close>)
qed

text \<open>The dialog is only ever opened for a job of the table, so it is never drawn for nothing.\<close>

lemma maintenance_edits_known_jobs:
  assumes "used (MaintenancePage_view fmtDateTime fmt) maintenance_click None editing"
  shows "set_option editing \<subseteq> set JOBS"
proof (rule used_invariant [OF assms])
  fix t e q
  assume t: "set_option t \<subseteq> set JOBS" and e: "e \<in> offers (MaintenancePage_view fmtDateTime fmt q t)"
  show "set_option (maintenance_click q e t) \<subseteq> set JOBS"
    using t e job_rows_act [of EditJob _ fmtDateTime fmt q t]
    by (cases "(q, e, t)" rule: maintenance_click.cases) auto
qed simp

text \<open>
  The table keeps one mark for all runs: when a second job is started, the first can be started again although it is still
  running.
\<close>

lemma second_run_frees_first:
  assumes "cfg \<in> set JOBS" and "jc_runner cfg \<noteq> None" and "find_job (jc_name cfg) jobs = Some j" and "other \<noteq> jc_name cfg"
  shows "JobClicked RunNow cfg \<in> offers (MaintenancePage_view fmtDateTime fmt
    \<lparr>jq_jobs = \<lparr>q_loading = False, q_error = None, q_data = jobs\<rparr>, jq_toggling = False, jq_running = Some other, jq_dialog = d\<rparr> editing)"
proof -
  have "JobClicked RunNow cfg \<in> offers (JobRow_view fmtDateTime cfg (find_job (jc_name cfg) jobs) False (Some other = Some (jc_name cfg)))"
    using assms by (simp add: job_row_offers)
  then show ?thesis using assms(1) by (auto simp: MaintenancePage_view_def)
qed

end
