(* ===== verification/PostureFlaws.thy ===== *)
theory PostureFlaws
  imports EndpointPosture
begin

section \<open>What the posture sections and the report get wrong, by example\<close>

text \<open>
  Concrete profiles and certificates on which the page of an endpoint (\<open>EndpointPosture\<close>) and the report (\<open>Reports\<close>) mislead.
\<close>

definition anonymous_profile :: tls_profile where
  "anonymous_profile =
     \<lparr>pr_tls10 = False, pr_tls11 = False, pr_tls12 = True, pr_tls13 = True, pr_ssl30 = False,
      pr_cipherSuites = [''TLS_AES_256_GCM_SHA384'', ''TLS_DH_anon_WITH_AES_256_GCM_SHA384''], pr_scanError = None\<rparr>"

text \<open>Anonymous key exchange lowers no grade: the best one stands next to the banner for an insecure configuration.\<close>

lemma insecure_with_best_grade:
  "tlsScore_grade (Score (profile_input 2048 anonymous_profile)) = GradeA"
  "tlsClassification_overallSeverity (Classify anonymous_profile) = SeverityCritical"
  by code_simp+

text \<open>The text about weak suites speaks of forward secrecy, but most of those suites are weak for another reason.\<close>

lemma forward_secrecy_denied:
  "banner_text (anonymous_profile\<lparr>pr_cipherSuites := [''TLS_ECDHE_RSA_WITH_AES_128_CBC_SHA'']\<rparr>)
     = ''1 cipher without ECDHE forward secrecy is accepted.''"
  "HasForwardSecrecy [''TLS_ECDHE_RSA_WITH_AES_128_CBC_SHA'']"
  by code_simp+

text \<open>The server sends the ten most frequent issuers: self-signed certificates can be missing from their own card.\<close>

definition issued :: "nat \<Rightarrow> nat \<Rightarrow> issued_cert" where
  "issued e i = \<lparr>cc_endpointId = show_int (int e), cc_selfIssued = (i = 0), cc_issuerName = Some (show_int (int i))\<rparr>"

lemma self_signed_missed:
  "selfSignedCount (GetTLSPostureReport (\<lambda>_. SeverityOk) (\<lambda>_. []) []
      (issued 0 0 # concat (map (\<lambda>i. [issued 1 i, issued 2 i]) [1..<11]))) = 0"
  by code_simp

end
