(* ===== verification/Spec2Isabelle.thy ===== *)
theory Spec2Isabelle
  imports ApiCalls Expiry Schedule BulkImport Login EndpointForm EndpointList CertificateList CsrGenerator PemDer CertChain CertDiff
    UserSettings TagSettings ScannerSettings Maintenance MailSettings GroupSettings Discovery MonitorCalendar GlobalSearch TwoFactor AccountPages ApiKeys MonitorList RootStores TemplateSettings AuditLogs EndpointDetail CertificatePage DecoderPages HelpDocs PageAccess MaintenanceViews PostureFlaws
begin

text \<open>
  \<^bold>\<open>TLSentinel web client: a verification development.\<close>

  TLSentinel watches TLS certificates. A Go server scans endpoints, stores certificates and serves a JSON API; the web client
  under \<open>src/web/src\<close> (TypeScript and React) signs users in, lists and edits endpoints, certificates, users, tags and scanners,
  and has a toolbox for certificates, requests and PEM files. The development models the client, and of the server
  (\<open>src/internal\<close>) the tables the client mirrors and the handlers and queries whose behaviour a claim about the client rests on.

  \<^bold>\<open>How the program is put together.\<close> Every page calls the typed functions of \<open>api/*.ts\<close>; these build a path, a
  query and a body and go through \<open>request\<close> of \<open>api/client.ts\<close>, which adds the session token, reads the answer and ends the session on a
  401. Pages keep their state in React hooks, ask \<open>can\<close> what the role in the token permits, and send what their dialogs collect.

  \<^bold>\<open>How it is modelled.\<close> A component's state is a record, a handler a function on it, a union of literals a
  datatype. An \<open>async\<close> handler is split at its \<open>await\<close> or is a value of \<open>'a io\<close> (\<open>Async\<close>), and the answers of the server are
  arguments, so that theorems hold for every answer and every order of answers. An exception is a value of \<open>js_exn\<close>. Pages
  that react to events are step functions, and reachability is an inductive predicate or a fold over events. What a page renders is a
  value of \<open>'e view\<close> (\<open>Views\<close>): the words, links and controls of its tree, each control with the event it causes. A clock is an argument
  in milliseconds. Strings are the bytes of their UTF-8 form; \<open>length\<close> of a JavaScript string agrees with it on ASCII only, and the
  definitions that count characters say so. JavaScript numbers are \<^typ>\<open>int\<close> where the source keeps them whole and below \<open>2 ^ 53\<close>,
  with 32-bit conversion written out for shifts and bit masks; \<open>NaN\<close> is \<^const>\<open>None\<close>. A request body is a \<^typ>\<open>json\<close> value and is not
  printed. Code outside the repository (\<open>@peculiar/x509\<close>, WebCrypto, the QR code, the formats of the locale, the text search of the
  database) is an argument of the definitions that use it. All recursion terminates, so there is no fuel; what is not
  structural (\<open>pem_blocks\<close>, \<open>dump_lines\<close>, the JSON parser, the placeholders of a template) carries a termination proof.

  \<^bold>\<open>The theories.\<close>
  \<^item> \<open>Prelude\<close>, \<open>JsNumbers\<close>, \<open>JsCollections\<close>, \<open>JsDates\<close>, \<open>Json\<close>, \<open>UrlEncoding\<close>: the parts of JavaScript that the source uses:
    trimming and splitting, \<open>parseInt\<close> and number printing, insertion-ordered maps and sets (locales with interpretations on lists),
    date parsing, \<open>JSON.parse\<close>, base64, \<open>URLSearchParams\<close>, with their round trips.
  \<^item> \<open>ApiTypes\<close> (\<open>types/api.ts\<close>), \<open>ApiClient\<close> (\<open>api/client.ts\<close>), \<open>ApiCalls\<close> (\<open>api/*.ts\<close>), \<open>Permissions\<close>
    (\<open>lib/permissions.ts\<close> and the server's table), \<open>Async\<close>: data, session, requests. Shown: the session in memory and in storage never differ, a 401
    never surfaces as an error, client permissions are the server's, query strings and bodies determine their arguments.
  \<^item> \<open>LibUtils\<close>, \<open>Expiry\<close>, \<open>Schedule\<close>, \<open>CronText\<close>: text helpers and tag colours, the many copies of the expiry display (shown to agree),
    the schedule picker and its cron expressions (round trip), and cron expressions in words.
  \<^item> \<open>Login\<close> (\<open>LoginPage\<close>, \<open>AuthCallbackPage\<close>, \<open>App\<close>), \<open>Navigation\<close> (\<open>components/layout\<close>, cards), \<open>GlobalSearch\<close>, \<open>HelpDocs\<close>: sign-in in
    two steps, the route table, the frame of every page (all links lead to pages), search, and the bundled documents (front matter
    round trip).
  \<^item> \<open>EndpointForm\<close>, \<open>BulkImport\<close>, \<open>BulkActions\<close>, \<open>ListParts\<close>, \<open>EndpointList\<close>, \<open>CertificateList\<close>: creating and editing an endpoint, importing
    a CSV file, the dialogs that act on a selection (locale \<open>bulk_dialog\<close>), pagination and row selection (locale \<open>row_selection\<close>),
    and the two list pages.
  \<^item> \<open>EndpointDetail\<close> (the endpoint pages and the server's \<open>Patch\<close>), \<open>CipherTable\<close>, \<open>TlsGrade\<close>, \<open>EndpointPosture\<close> (the server's \<open>Classify\<close> and
    \<open>Score\<close> and the sections that show them), \<open>CertificatePage\<close> (attributes and the chain of trust, walked with a request for each step).
    Shown: an edit touches only its own fields, the page settles, the posture shown is the one computed, the chain shown is linked; \<open>PostureFlaws\<close> holds
    examples on which the posture sections mislead.
  \<^item> \<open>FormDialog\<close>: a dialog that saves something, on its page, under every interleaving of user events and answers (locales
    \<open>form_dialog\<close> and \<open>guarded_dialog\<close>), interpreted by the dialogs of \<open>UserSettings\<close>, \<open>TagSettings\<close>, \<open>ScannerSettings\<close>, \<open>Maintenance\<close>
    and \<open>Discovery\<close> (\<open>pages/settings\<close>, \<open>pages/discovery\<close>).
  \<^item> \<open>GroupSettings\<close>, \<open>MailSettings\<close>, \<open>AlertSettings\<close>, \<open>TemplateSettings\<close>, \<open>AuditLogs\<close>: the other settings pages, with the handlers of the
    server they talk to; thresholds and templates are followed through every order of actions and answers.
  \<^item> \<open>TwoFactor\<close>, \<open>AccountPages\<close>, \<open>ApiKeys\<close>: the pages of a user's own account, next to the server's users, subscriptions and keys.
  \<^item> \<open>Dashboard\<close>, \<open>Reports\<close>, \<open>MonitorList\<close>, \<open>MonitorCalendar\<close>, \<open>RootStores\<close>: counts and where they lead, the posture report with the query
    behind it, expiring certificates as list and calendar, the trust anchors.
  \<^item> \<open>CertUtils\<close> (\<open>lib/cert-utils.ts\<close>), \<open>CsrGenerator\<close>, \<open>PemDer\<close>, \<open>CertChain\<close>, \<open>CertDiff\<close>, \<open>DecoderPages\<close>: the toolbox.
  \<^item> \<open>Views\<close>, \<open>ScannerViews\<close>, \<open>TagViews\<close>, \<open>UserViews\<close>, \<open>DiscoveryViews\<close>, \<open>MaintenanceViews\<close>, \<open>BulkViews\<close>, \<open>CertificateViews\<close>, \<open>EndpointViews\<close>, \<open>PageAccess\<close>: what the pages and
    dialogs render over the states above. The locales \<open>form_view\<close> (extends \<open>form_dialog\<close>: submit can be pressed exactly when no request is under way, and an
    error is readable) and \<open>bulk_view\<close> (extends \<open>bulk_dialog\<close>: the summary names every row that failed) are interpreted
    by the dialogs; \<open>PageAccess\<close> shows that in every state a user can reach with the controls of a page, it offers a change exactly to the
    roles the server lets make it.
  \<^item> This theory: properties that span components.

  \<^bold>\<open>The server.\<close> Modelled are the permission table, the defaults of a scanner, the scheduled jobs, the clamp of the pagination, the mail
  password, profile, password, subscriptions and API keys, the selection of alerts, the posture report and the endpoint list
  filters, the query of active certificates, alert thresholds, notification templates, the audit actions, classification and score
  of a TLS profile, and the two ways to write an endpoint; each in the theory of the page that talks to it.

  \<^bold>\<open>Not modelled.\<close> Class names and layout, except where a colour carries the meaning; placeholders and titles; dates in the browser's
  locale (\<open>fmtDate\<close>, \<open>toLocaleString\<close>); the caching and retrying of react-query (a list request is a function of the page's state)
  and the matching of react-router; timers, beyond their effect; clipboard, downloads and file choosers, beyond the text they
  deliver; the generic widgets of \<open>components/ui\<close>; the rest of the Go server (scanning, storage, other handlers). The views of the
  remaining pages (dashboard, reports, monitor, root stores, endpoint and certificate details, the form of an endpoint, the account pages, the other settings pages and the toolbox) are modelled as far as their texts and conditions are functions of the state.

  \<^bold>\<open>Plan.\<close> The views of those pages, in this order.
\<close>

section \<open>Properties that span components\<close>

lemma endpoint_batch:
  assumes "coherent endpointListItem_id m"
  shows "map call_url (map (\<lambda>ep. call_sent (deleteEndpoint (endpointListItem_id ep)) c) (selectedList m))
       = map (\<lambda>i. BASE @ ''/endpoints/'' @ i) (js_map_keys m)"
  unfolding coherent_values [OF assms, symmetric] by (simp add: selectedList_def call_sent_simps o_def)

lemma certificate_batch:
  assumes "coherent certificateListItem_fingerprint m"
  shows "map call_url (map (\<lambda>x. call_sent (deleteCertificate (certificateListItem_fingerprint x) purge) c) (selectedCerts m))
       = map (\<lambda>i. BASE @ ''/certificates/'' @ i @ (if purge then ''?purge=true'' else [])) (js_map_keys m)"
  unfolding coherent_values [OF assms, symmetric] by (simp add: selectedCerts_def call_sent_simps o_def)

text \<open>\<^bold>\<open>C13\<close>: after any sequence of clicks, page changes and refreshes on the endpoint list or on the certificate
  list (each page with distinct keys), confirming the bulk delete sends exactly one request for every selected row
  and for no other, whichever page the row was selected on; purging is asked for exactly when it was ticked.\<close>

theorem bulk_delete_hits_exactly_the_selection:
  assumes "\<forall>ev \<in> set evs. distinct (map endpointListItem_id (event_rows ev))"
    and "\<forall>ev \<in> set cevs. distinct (map certificateListItem_fingerprint (event_rows ev))"
    and "m = fold selection_step evs js_map_empty" and "n = fold cert_selection_step cevs js_map_empty"
    and "delete_handleConfirm c (selectedList m) d = Some (calls, d')"
    and "purge_handleConfirm c (selectedCerts n) p = Some (purges, p')"
  shows "map call_url calls = map (\<lambda>i. BASE @ ''/endpoints/'' @ i) (js_map_keys m)
    \<and> distinct (map call_url calls) \<and> set (js_map_keys m) = {i. js_map_has m i}
    \<and> map call_url purges
        = map (\<lambda>i. BASE @ ''/certificates/'' @ i @ (if purge_flag p then ''?purge=true'' else [])) (js_map_keys n)
    \<and> distinct (map call_url purges) \<and> set (js_map_keys n) = {i. js_map_has n i}"
proof -
  have m: "coherent endpointListItem_id m"
    unfolding assms(3) by (rule endpoint_selection.coherent_run [OF coherent_empty assms(1)])
  have n: "coherent certificateListItem_fingerprint n"
    unfolding assms(4) by (rule cert_selection.coherent_run [OF coherent_empty assms(2)])
  have "distinct (js_map_keys m)" "set (js_map_keys m) = {i. js_map_has m i}"
    "distinct (js_map_keys n)" "set (js_map_keys n) = {i. js_map_has n i}"
    using m n alist_map.keys_distinct alist_map.keys_dom
    by (auto simp: coherent_def js_map_has_get dom_def)
  moreover have "map call_url calls = map (\<lambda>i. BASE @ ''/endpoints/'' @ i) (js_map_keys m)"
    using assms(5) endpoint_batch [OF m] by (auto simp: delete_handleConfirm_def)
  moreover have "map call_url purges
      = map (\<lambda>i. BASE @ ''/certificates/'' @ i @ (if purge_flag p then ''?purge=true'' else [])) (js_map_keys n)"
    using assms(6) certificate_batch [OF n] by (auto simp: purge_handleConfirm_def)
  ultimately show ?thesis by (simp add: distinct_map inj_on_def)
qed

theorem bulk_delete_hits_exactly_the_selection_witness:
  "map call_url (fst (the (delete_handleConfirm (client_load Map.empty)
      (selectedList (fold selection_step [ToggledOne example_row] js_map_empty)) delete_init)))
     = [''/api/v1/endpoints/e1'']"
proof -
  let ?m = "fold selection_step [ToggledOne example_row] js_map_empty"
  have keys: "js_map_keys ?m = [''e1'']"
    by (simp add: toggleOne_def js_map_has_def js_map_set_def js_map_empty_def js_map_keys_def example_row_def)
  obtain calls d' where
    start: "delete_handleConfirm (client_load Map.empty) (selectedList ?m) delete_init = Some (calls, d')"
    by (simp add: delete_handleConfirm_def)
  obtain purges p' where
    purge: "purge_handleConfirm (client_load Map.empty) (selectedCerts (fold cert_selection_step [] js_map_empty)) purge_init
      = Some (purges, p')"
    by (simp add: purge_handleConfirm_def)
  have "map call_url calls = [''/api/v1/endpoints/e1'']"
    using bulk_delete_hits_exactly_the_selection [of "[ToggledOne example_row]" "[]", OF _ _ refl refl start purge] keys
    by (simp add: BASE_def)
  then show ?thesis by (simp only: start option.sel fst_conv)
qed

text \<open>The checkbox in the header of a non-empty page flips: after a click all rows of the page are selected
  if not all were before, and none of them is if all were; no row of another page is touched. This holds for the
  endpoint list and for the certificate list.\<close>

lemma select_all_checkbox_flips_page:
  assumes "distinct (pageIds eps)" and "eps \<noteq> []"
    and "distinct (pageFingerprints certs)" and "certs \<noteq> []"
  shows "(allPageSelected eps (toggleAll eps m) \<longleftrightarrow> \<not> allPageSelected eps m)
    \<and> \<not> (allPageSelected eps m \<and> somePageSelected eps (toggleAll eps m))
    \<and> (i \<notin> set (pageIds eps) \<longrightarrow> js_map_get (toggleAll eps m) i = js_map_get m i)
    \<and> (cert_allPageSelected certs (cert_toggleAll certs n) \<longleftrightarrow> \<not> cert_allPageSelected certs n)
    \<and> \<not> (cert_allPageSelected certs n \<and> cert_somePageSelected certs (cert_toggleAll certs n))
    \<and> (fp \<notin> set (pageFingerprints certs) \<longrightarrow> js_map_get (cert_toggleAll certs n) fp = js_map_get n fp)"
proof -
  have d: "distinct (map endpointListItem_id eps)" "distinct (map certificateListItem_fingerprint certs)"
    using assms(1,3) by (simp_all add: pageIds_def pageFingerprints_def)
  have all: "allPageSelected eps x \<longleftrightarrow> endpointListItem_id ` set eps \<subseteq> dom (js_map_get x)"
    "cert_allPageSelected certs y \<longleftrightarrow> certificateListItem_fingerprint ` set certs \<subseteq> dom (js_map_get y)" for x y
    using assms(2,4) by (auto simp: allPageSelected_iff cert_allPageSelected_iff)
  have none: "allPageSelected eps m \<Longrightarrow> \<not> somePageSelected eps (toggleAll eps m)"
    "cert_allPageSelected certs n \<Longrightarrow> \<not> cert_somePageSelected certs (cert_toggleAll certs n)"
    using endpoint_selection.get_all_off [OF assms(2), of m] cert_selection.get_all_off [OF assms(4), of n]
    by (auto simp: somePageSelected_def cert_somePageSelected_def list_ex_iff js_map_has_get pageIds_def
        pageFingerprints_def allPageSelected_iff cert_allPageSelected_iff)
  show ?thesis
    using none endpoint_selection.all_toggles [OF d(1) assms(2), of m] cert_selection.all_toggles [OF d(2) assms(4), of n]
      endpoint_selection.all_off_page [OF d(1), of i m] cert_selection.all_off_page [OF d(2), of fp n]
    by (auto simp: all pageIds_def pageFingerprints_def)
qed

lemma select_all_checkbox_flips_page_witness:
  "allPageSelected [example_row] (toggleAll [example_row] js_map_empty)"
proof -
  let ?cert = "\<lparr>certificateListItem_fingerprint = ''ab'', certificateListItem_commonName = [], certificateListItem_sans = [],
      certificateListItem_notBefore = [], certificateListItem_notAfter = [], certificateListItem_issuerFingerprint = None,
      certificateListItem_createdAt = []\<rparr>"
  show ?thesis
    using select_all_checkbox_flips_page [of "[example_row]" "[?cert]" js_map_empty "[]" js_map_empty "[]"]
    by (simp add: pageIds_def pageFingerprints_def allPageSelected_iff js_map_empty_def js_map_get_def)
qed

subsection \<open>The dialogs of the settings pages\<close>

lemmas idle_at_start =
  user_ops_def user_dialog_init_def password_ops_def password_init_def delete_user_ops_def reset_ops_def user_confirm_init_def
  category_ops_def category_init_def tag_form_ops_def tag_form_init_def create_scanner_ops_def create_scanner_init_def
  edit_scanner_ops_def edit_scanner_init_def regenerate_ops_def revoke_ops_def scanner_confirm_init_def
  network_ops_def network_dialog_init_def delete_network_ops_def delete_item_ops_def target_init_def job_ops_def
  job_dialog_init_def

text \<open>\<^bold>\<open>C17\<close>: no dialog of the users, tags, scanners, maintenance and discovery pages gets stuck. Whatever the user does (opening, typing, submitting by
  button or key, dismissing while a request runs, opening again) and in whatever order and way the requests are answered,
  every submit is under way or counted exactly once as saved or failed; and once all requests under way are answered the dialog accepts
  a submit again.\<close>

theorem settings_dialogs_recover:
  "dialog_recovers user_ops (user_dialog_init None) \<and> dialog_recovers password_ops (password_init None)
   \<and> dialog_recovers delete_user_ops user_confirm_init \<and> dialog_recovers reset_ops user_confirm_init
   \<and> dialog_recovers category_ops category_init \<and> dialog_recovers tag_form_ops tag_form_init
   \<and> dialog_recovers create_scanner_ops create_scanner_init \<and> dialog_recovers edit_scanner_ops (edit_scanner_init None)
   \<and> dialog_recovers regenerate_ops scanner_confirm_init \<and> dialog_recovers revoke_ops scanner_confirm_init
   \<and> dialog_recovers network_ops network_dialog_init \<and> dialog_recovers delete_network_ops target_init
   \<and> dialog_recovers delete_item_ops target_init \<and> dialog_recovers job_ops job_dialog_init"
  by (intro conjI user_form.recovers password_form.recovers delete_user_form.recovers reset_form.recovers
      category_form.recovers tag_editor.recovers create_scanner_form.recovers edit_scanner_form.recovers
      regenerate_form.recovers revoke_form.recovers network_form.recovers delete_network_form.recovers
      delete_item_form.recovers job_form.recovers)
    (simp_all add: idle_at_start)

text \<open>The dialogs of the users, scanners, maintenance and discovery pages, which are submitted by their button alone, never have two
  requests of one opened dialog under way: a user, a scanner, a job or a network is not created, changed or deleted twice by an impatient
  click, for every sequence of events.\<close>

lemma settings_dialogs_submit_once:
  "one_at_a_time user_ops (form_run user_ops ev1 (form_start (user_dialog_init None) c))
   \<and> one_at_a_time password_ops (form_run password_ops ev2 (form_start (password_init None) c))
   \<and> one_at_a_time delete_user_ops (form_run delete_user_ops ev3 (form_start user_confirm_init c))
   \<and> one_at_a_time reset_ops (form_run reset_ops ev4 (form_start user_confirm_init c))
   \<and> one_at_a_time create_scanner_ops (form_run create_scanner_ops ev5 (form_start create_scanner_init c))
   \<and> one_at_a_time edit_scanner_ops (form_run edit_scanner_ops ev6 (form_start (edit_scanner_init None) c))
   \<and> one_at_a_time regenerate_ops (form_run regenerate_ops ev7 (form_start scanner_confirm_init c))
   \<and> one_at_a_time revoke_ops (form_run revoke_ops ev8 (form_start scanner_confirm_init c))
   \<and> one_at_a_time network_ops (form_run network_ops ev9 (form_start network_dialog_init c))
   \<and> one_at_a_time delete_network_ops (form_run delete_network_ops ev10 (form_start target_init c))
   \<and> one_at_a_time delete_item_ops (form_run delete_item_ops ev11 (form_start target_init c))
   \<and> one_at_a_time job_ops (form_run job_ops ev12 (form_start job_dialog_init c))"
  by (intro conjI user_form.one_run password_form.one_run delete_user_form.one_run reset_form.one_run
      create_scanner_form.one_run edit_scanner_form.one_run regenerate_form.one_run revoke_form.one_run
      network_form.one_run delete_network_form.one_run delete_item_form.one_run job_form.one_run)
    (simp_all add: idle_at_start)

end
